(* ===== verification/Prelude.thy ===== *)
theory Prelude
  imports Main "HOL-Library.Char_ord" "HOL-Library.List_Lexorder"
begin

text \<open>
  Shared material of the development.

  The services of this program are straight-line handlers around calls to interfaces
  (stores, mail sender, identity provider, clock, random source). A handler is modelled as
  a \<open>prog\<close>: the tree of the calls it makes, each with a continuation that receives
  the answer. The interfaces themselves are not defined here; they are the answers, over
  which every theorem quantifies, or a handler function given to \<open>run\<close>.

  \<^item> \<open>safe P Q p h\<close>: whatever the interfaces answer, every call of \<open>p\<close> satisfies
    \<open>P\<close> of the calls and answers so far, and its result satisfies \<open>Q\<close> of all of them.
  \<^item> \<open>run\<close> and \<open>trace_of\<close>: one execution against a given handler.
  \<^item> text helpers that mirror the Go library functions the sources use.
\<close>

named_theorems call_simps "unfoldings of the calls a component makes"
named_theorems branch_splits "case splits on the answers of calls"

section \<open>Programs as trees of calls\<close>

datatype ('q, 'r, 'a) prog =
    Ret 'a
  | Call 'q "'r \<Rightarrow> ('q, 'r, 'a) prog"
  | Spin \<comment> \<open>a loop of the source that used up its fuel\<close>

primrec pbind :: "('q, 'r, 'a) prog \<Rightarrow> ('a \<Rightarrow> ('q, 'r, 'b) prog) \<Rightarrow> ('q, 'r, 'b) prog" where
  "pbind (Ret a) f = f a"
| "pbind (Call q k) f = Call q (\<lambda>r. pbind (k r) f)"
| "pbind Spin f = Spin"

lemma pbind_assoc: "pbind (pbind p f) g = pbind p (\<lambda>a. pbind (f a) g)"
  by (induction p) auto

lemma pbind_Ret [simp]: "pbind p Ret = p"
  by (induction p) auto

lemma pbind_if [simp]: "pbind (if c then p else q) f = (if c then pbind p f else pbind q f)"
  by simp

section \<open>All executions\<close>

primrec safe :: "('q \<Rightarrow> ('q \<times> 'r) list \<Rightarrow> bool) \<Rightarrow> ('a \<Rightarrow> ('q \<times> 'r) list \<Rightarrow> bool) \<Rightarrow>
    ('q, 'r, 'a) prog \<Rightarrow> ('q \<times> 'r) list \<Rightarrow> bool" where
  "safe P Q (Ret a) = (\<lambda>h. Q a h)"
| "safe P Q (Call q k) = (\<lambda>h. P q h \<and> (\<forall>r. safe P Q (k r) (h @ [(q, r)])))"
| "safe P Q Spin = (\<lambda>h. True)"

lemma safe_pbind:
  "safe P Q (pbind p f) h \<longleftrightarrow> safe P (\<lambda>a h'. safe P Q (f a) h') p h"
  by (induction p arbitrary: h) auto

lemma safe_mono:
  assumes "safe P Q p h"
    and "\<And>q h'. P q h' \<Longrightarrow> P' q h'" and "\<And>a h'. Q a h' \<Longrightarrow> Q' a h'"
  shows "safe P' Q' p h"
  using assms by (induction p arbitrary: h) auto

lemma safe_bindI:
  assumes "safe P R p h" "\<And>a h'. R a h' \<Longrightarrow> safe P Q (f a) h'"
  shows "safe P Q (pbind p f) h"
  unfolding safe_pbind by (rule safe_mono [OF assms(1)]) (use assms(2) in auto)

lemma safe_conseq: "safe P R p h \<Longrightarrow> (\<And>a h'. R a h' \<Longrightarrow> Q a h') \<Longrightarrow> safe P Q p h"
  by (rule safe_mono)

lemma safe_conj:
  "safe P Q p h \<Longrightarrow> safe P' Q' p h \<Longrightarrow> safe (\<lambda>q h. P q h \<and> P' q h) (\<lambda>a h. Q a h \<and> Q' a h) p h"
  by (induction p arbitrary: h) auto

lemma safe_true: "safe (\<lambda>_ _. True) (\<lambda>_ _. True) p h"
  by (induction p arbitrary: h) auto

text \<open>A condition on the history that stays true covers everything that follows.\<close>

lemma safe_stable:
  "I h \<Longrightarrow> (\<And>h q r. I h \<Longrightarrow> I (h @ [(q, r)])) \<Longrightarrow> (\<And>q h. I h \<Longrightarrow> P q h) \<Longrightarrow>
   safe P (\<lambda>_ h. I h) p h"
  by (induction p arbitrary: h) auto

lemma safe_prefix:
  "safe (\<lambda>_ _. True) (\<lambda>_ h'. \<exists>t. h' = h @ t) p (h @ t0)"
proof (induction p arbitrary: t0)
  case (Call q k)
  have "safe (\<lambda>_ _. True) (\<lambda>_ h'. \<exists>t. h' = h @ t) (k r) (h @ (t0 @ [(q, r)]))" for r
    by (rule Call.IH) simp
  then show ?case by simp
qed auto

section \<open>One execution\<close>

primrec run :: "('q \<Rightarrow> 's \<Rightarrow> 'r \<times> 's) \<Rightarrow> ('q, 'r, 'a) prog \<Rightarrow> 's \<Rightarrow> 'a option \<times> 's" where
  "run H (Ret a) = (\<lambda>s. (Some a, s))"
| "run H (Call q k) = (\<lambda>s. run H (k (fst (H q s))) (snd (H q s)))"
| "run H Spin = (\<lambda>s. (None, s))"

primrec trace_of :: "('q \<Rightarrow> 's \<Rightarrow> 'r \<times> 's) \<Rightarrow> ('q, 'r, 'a) prog \<Rightarrow> 's \<Rightarrow> ('q \<times> 'r) list" where
  "trace_of H (Ret a) = (\<lambda>s. [])"
| "trace_of H (Call q k) =
     (\<lambda>s. (q, fst (H q s)) # trace_of H (k (fst (H q s))) (snd (H q s)))"
| "trace_of H Spin = (\<lambda>s. [])"

lemma run_pbind:
  "run H (pbind p f) s =
     (case run H p s of (None, s') \<Rightarrow> (None, s') | (Some a, s') \<Rightarrow> run H (f a) s')"
  by (induction p arbitrary: s) auto

lemma run_drop: "snd (run H (pbind p (\<lambda>_. Ret ())) s) = snd (run H p s)"
  by (simp add: run_pbind split: prod.split option.split)

lemma safe_run_aux:
  "safe P Q p h \<Longrightarrow> fst (run H p s) = Some a \<Longrightarrow> Q a (h @ trace_of H p s)"
  by (induction p arbitrary: h s) fastforce+

lemma safe_run: "safe P Q p [] \<Longrightarrow> fst (run H p s) = Some a \<Longrightarrow> Q a (trace_of H p s)"
  using safe_run_aux [of P Q p "[]"] by simp

lemma safe_calls_aux:
  "safe P Q p h \<Longrightarrow> trace_of H p s = t1 @ (q, r) # t2 \<Longrightarrow> P q (h @ t1)"
proof (induction p arbitrary: h s t1)
  case (Call q' k)
  show ?case
  proof (cases t1)
    case Nil
    with Call.prems show ?thesis by simp
  next
    case (Cons x t1')
    with Call.prems(2) have x: "x = (q', fst (H q' s))"
      and t: "trace_of H (k (fst (H q' s))) (snd (H q' s)) = t1' @ (q, r) # t2"
      by auto
    from Call.prems(1) have "safe P Q (k (fst (H q' s))) (h @ [(q', fst (H q' s))])" by simp
    from Call.IH [OF _ this t] Cons x show ?thesis by simp
  qed
qed auto

lemma safe_calls: "safe P Q p [] \<Longrightarrow> trace_of H p s = t1 @ (q, r) # t2 \<Longrightarrow> P q t1"
  using safe_calls_aux [of P Q p "[]"] by simp

text \<open>A run that cannot spin returns.\<close>

primrec returns :: "('q, 'r, 'a) prog \<Rightarrow> bool" where
  "returns (Ret a) = True"
| "returns (Call q k) = (\<forall>r. returns (k r))"
| "returns Spin = False"

lemma returns_run: "returns p \<Longrightarrow> \<exists>a. fst (run H p s) = Some a"
  by (induction p arbitrary: s) auto

lemma returns_pbind: "returns p \<Longrightarrow> (\<And>a. returns (f a)) \<Longrightarrow> returns (pbind p f)"
  by (induction p) auto

section \<open>Executions against a service\<close>

text \<open>
  \<open>runs S p s a s'\<close>: \<open>p\<close> can return \<open>a\<close> when a service with the step relation \<open>S\<close> (call,
  answer, state before and after) answers its calls.
\<close>

inductive runs :: "('q \<Rightarrow> 'r \<Rightarrow> 's \<Rightarrow> 's \<Rightarrow> bool) \<Rightarrow> ('q, 'r, 'a) prog \<Rightarrow> 's \<Rightarrow> 'a \<Rightarrow> 's \<Rightarrow> bool"
  for S :: "'q \<Rightarrow> 'r \<Rightarrow> 's \<Rightarrow> 's \<Rightarrow> bool" where
  runs_done: "runs S (Ret a) s a s"
| runs_call: "S q r s s' \<Longrightarrow> runs S (k r) s' a s'' \<Longrightarrow> runs S (Call q k) s a s''"

inductive_simps runs_Ret [simp]: "runs S (Ret a) s b s'"
inductive_simps runs_Call [simp]: "runs S (Call q k) s b s'"

lemma runs_pbind: "runs S (pbind p f) s b s'' \<longleftrightarrow> (\<exists>a s'. runs S p s a s' \<and> runs S (f a) s' b s'')"
  by (induction p arbitrary: s) (auto simp: runs.simps [of S Spin])

section \<open>Complete executions\<close>

text \<open>
  \<open>execs p t a\<close>: the calls and answers \<open>t\<close> are a whole execution of \<open>p\<close>, which returns \<open>a\<close>.
  A part of a history is described by the program it is an execution of.
\<close>

inductive execs :: "('q, 'r, 'a) prog \<Rightarrow> ('q \<times> 'r) list \<Rightarrow> 'a \<Rightarrow> bool" where
  execs_done: "execs (Ret a) [] a"
| execs_call: "execs (k r) t a \<Longrightarrow> execs (Call q k) ((q, r) # t) a"

inductive_simps execs_Ret [simp]: "execs (Ret a) t b"
inductive_simps execs_Call: "execs (Call q k) t b"
inductive_simps execs_Spin [simp]: "execs Spin t b"

lemma execs_pbind:
  "execs (pbind p f) t b \<longleftrightarrow> (\<exists>t1 t2 a. t = t1 @ t2 \<and> execs p t1 a \<and> execs (f a) t2 b)"
proof (induction p arbitrary: t)
  case (Call q k)
  show ?case by (auto simp: execs_Call Call.IH) (metis append_Cons)+
qed auto

lemma run_execs: "fst (run H p s) = Some a \<Longrightarrow> execs p (trace_of H p s) a"
  by (induction p arbitrary: s) (auto simp: execs_Call)

lemma execs_case_sum:
  "execs (case_sum f g a) t b \<longleftrightarrow>
     (\<exists>x. a = Inl x \<and> execs (f x) t b) \<or> (\<exists>x. a = Inr x \<and> execs (g x) t b)"
  by (cases a) auto

lemma execs_case_option:
  "execs (case_option p f a) t b \<longleftrightarrow> (a = None \<and> execs p t b) \<or> (\<exists>x. a = Some x \<and> execs (f x) t b)"
  by (cases a) auto

lemma execs_case_prod: "execs (case_prod f a) t b \<longleftrightarrow> (\<exists>x y. a = (x, y) \<and> execs (f x y) t b)"
  by (cases a) auto

lemma execs_if: "execs (if c then p else q) t b \<longleftrightarrow> (if c then execs p t b else execs q t b)"
  by simp

lemmas execs_unfold = execs_pbind execs_case_sum execs_case_option execs_case_prod execs_if

lemma safe_execs:
  assumes "safe P (\<lambda>_ _. True) p h"
  shows "safe P (\<lambda>a h'. \<exists>t. h' = h @ t \<and> execs p t a) p h"
proof -
  have "safe P (\<lambda>a h'. \<exists>t. h' = h @ t0 @ t \<and> execs p t a) p (h @ t0)"
    if "safe P (\<lambda>_ _. True) p (h @ t0)" for t0
    using that
  proof (induction p arbitrary: t0)
    case (Call q k)
    have "safe P (\<lambda>a h'. \<exists>t. h' = h @ (t0 @ [(q, r)]) @ t \<and> execs (k r) t a) (k r) (h @ (t0 @ [(q, r)]))" for r
      by (rule Call.IH) (use Call.prems in simp_all)
    then have "safe P (\<lambda>a h'. \<exists>t. h' = h @ t0 @ t \<and> execs (Call q k) t a) (k r) (h @ t0 @ [(q, r)])" for r
      by (rule safe_conseq [of P _ _ "h @ t0 @ [(q, r)]", simplified]) (auto simp: execs_Call)
    with Call.prems show ?case by simp
  qed auto
  from this [of "[]"] assms show ?thesis by simp
qed

lemma safe_bind_execs:
  assumes "safe P (\<lambda>_ _. True) p h"
    and "\<And>a t. execs p t a \<Longrightarrow> safe P Q (f a) (h @ t)"
  shows "safe P Q (pbind p f) h"
  by (rule safe_bindI [OF safe_execs [OF assms(1)]]) (use assms(2) in auto)

text \<open>An execution somewhere in a history.\<close>

definition within :: "('q, 'r, 'a) prog \<Rightarrow> 'a \<Rightarrow> ('q \<times> 'r) list \<Rightarrow> bool" where
  "within p x t \<longleftrightarrow> (\<exists>t0 u t1. t = t0 @ u @ t1 \<and> execs p u x)"

lemma within_append: "within p x t \<Longrightarrow> within p x (t0 @ t @ t1)"
  unfolding within_def by (metis append.assoc)

lemma within_after: "within p x t \<Longrightarrow> within p x (t0 @ t)"
  using within_append [of p x t t0 "[]"] by simp

lemma within_before: "within p x t \<Longrightarrow> within p x (t @ t1)"
  using within_append [of p x t "[]" t1] by simp

lemma within_here: "execs p u x \<Longrightarrow> within p x (u @ t)"
  unfolding within_def by (metis append_Nil)

lemma within_now: "execs p u x \<Longrightarrow> within p x (t @ u)"
  unfolding within_def by (metis append_Nil2)

text \<open>A step of a program whose execution is kept in what is known of the history.\<close>

lemma safe_step:
  assumes "safe P (\<lambda>_ _. True) p h"
    and "\<And>a h'. within p a h' \<Longrightarrow> \<exists>t. h' = h @ t \<Longrightarrow> safe P Q (f a) h'"
  shows "safe P Q (pbind p f) h"
  by (rule safe_bind_execs [OF assms(1)]) (auto intro: assms(2) within_now)

text \<open>Only what a program does matters, not when: such a fact carries over to every later call.\<close>

lemma safe_local:
  assumes "safe (\<lambda>q _. R q) (\<lambda>_ _. True) p h" "\<And>q t. R q \<Longrightarrow> P q (h @ t)"
  shows "safe P (\<lambda>_ _. True) p h"
proof -
  have "safe (\<lambda>_ h'. \<exists>t. h' = h @ t) (\<lambda>_ h'. \<exists>t. h' = h @ t) p h"
    by (rule safe_stable [where I = "\<lambda>h'. \<exists>t. h' = h @ t"]) auto
  with assms(1) have "safe (\<lambda>q h'. R q \<and> (\<exists>t. h' = h @ t)) (\<lambda>_ h'. True \<and> (\<exists>t. h' = h @ t)) p h"
    by (rule safe_conj)
  then show ?thesis by (rule safe_mono) (use assms(2) in auto)
qed

section \<open>Joined texts\<close>

text \<open>Texts joined by a separator that none of them holds are told apart.\<close>

lemma split_at_separator:
  assumes "x @ c # u = y @ c # v" "c \<notin> set x" "c \<notin> set y"
  shows "x = y \<and> u = v"
  using assms
proof (induction x arbitrary: y)
  case Nil
  then show ?case by (cases y) auto
next
  case (Cons d x)
  then show ?case by (cases y) auto
qed

end
