(* ===== verification/Golib.thy ===== *)
theory Golib
  imports Prelude
begin

text \<open>
  The parts of the Go language and its standard library the sources use. Go strings and byte
  slices are byte sequences, so both are \<open>string\<close> (one \<open>char\<close> is one byte).

  \<^item> \<open>strings\<close>: \<open>Contains\<close>, \<open>HasPrefix\<close>, \<open>TrimPrefix\<close>, \<open>Split\<close>, \<open>Trim\<close>, \<open>Count\<close>,
    \<open>Replace\<close>; decimal and hexadecimal printing, \<open>strconv.ParseInt\<close>.
  \<^item> \<open>encoding/base64\<close>: \<open>RawURLEncoding\<close> and \<open>StdEncoding\<close>, with Go's treatment of newlines,
    padding and trailing bits. Decoding inverts encoding (\<open>raw_url_roundtrip\<close>, \<open>std_roundtrip\<close>).
  \<^item> \<open>golib\<close>: library functions taken as parameters, because their definition is cryptographic
    or is a whole grammar of its own (hashes, Unicode case folding, mail and URL parsing).
\<close>

section \<open>Bytes and character classes\<close>

abbreviation byte :: "char \<Rightarrow> nat" where
  "byte c \<equiv> of_char c"

definition between :: "char \<Rightarrow> char \<Rightarrow> char \<Rightarrow> bool" where
  "between lo hi c \<longleftrightarrow> byte lo \<le> byte c \<and> byte c \<le> byte hi"

definition is_lower :: "char \<Rightarrow> bool" where "is_lower = between (CHR ''a'') (CHR ''z'')"
definition is_upper :: "char \<Rightarrow> bool" where "is_upper = between (CHR ''A'') (CHR ''Z'')"
definition is_digit :: "char \<Rightarrow> bool" where "is_digit = between (CHR ''0'') (CHR ''9'')"
definition is_alnum :: "char \<Rightarrow> bool" where "is_alnum c \<longleftrightarrow> is_lower c \<or> is_upper c \<or> is_digit c"
definition is_hex_lower :: "char \<Rightarrow> bool" where
  "is_hex_lower c \<longleftrightarrow> is_digit c \<or> between (CHR ''a'') (CHR ''f'') c"

lemmas char_classes = between_def is_lower_def is_upper_def is_digit_def is_alnum_def is_hex_lower_def

section \<open>Package strings\<close>

definition has_prefix :: "string \<Rightarrow> string \<Rightarrow> bool" where
  "has_prefix s p \<longleftrightarrow> take (length p) s = p"

definition has_suffix :: "string \<Rightarrow> string \<Rightarrow> bool" where
  "has_suffix s p \<longleftrightarrow> length p \<le> length s \<and> drop (length s - length p) s = p"

definition trim_prefix :: "string \<Rightarrow> string \<Rightarrow> string" where
  "trim_prefix s p = (if has_prefix s p then drop (length p) s else s)"

definition trim_suffix :: "string \<Rightarrow> string \<Rightarrow> string" where
  "trim_suffix s p = (if has_suffix s p then take (length s - length p) s else s)"

fun str_contains :: "string \<Rightarrow> string \<Rightarrow> bool" where
  "str_contains [] p = (p = [])"
| "str_contains (c # s) p = (has_prefix (c # s) p \<or> str_contains s p)"

text \<open>\<open>Replace s old new 1\<close> for a non-empty \<open>old\<close>.\<close>

fun replace_first :: "string \<Rightarrow> string \<Rightarrow> string \<Rightarrow> string" where
  "replace_first [] old new = []"
| "replace_first (c # s) old new =
     (if has_prefix (c # s) old then new @ drop (length old) (c # s)
      else c # replace_first s old new)"

fun split_on :: "char \<Rightarrow> string \<Rightarrow> string list" where
  "split_on sep [] = [[]]"
| "split_on sep (c # s) =
     (if c = sep then [] # split_on sep s
      else case split_on sep s of [] \<Rightarrow> [[c]] | w # ws \<Rightarrow> (c # w) # ws)"

definition trim_left :: "string \<Rightarrow> string \<Rightarrow> string" where
  "trim_left s cutset = dropWhile (\<lambda>c. c \<in> set cutset) s"

definition trim_right :: "string \<Rightarrow> string \<Rightarrow> string" where
  "trim_right s cutset = rev (dropWhile (\<lambda>c. c \<in> set cutset) (rev s))"

definition trim_set :: "string \<Rightarrow> string \<Rightarrow> string" where
  "trim_set s cutset = trim_right (trim_left s cutset) cutset"

lemma split_on_not_Nil [simp]: "split_on sep s \<noteq> []"
  by (cases s) (auto split: list.splits)

lemma trim_set_empty_iff: "trim_set s cutset = [] \<longleftrightarrow> set s \<subseteq> set cutset"
proof -
  have "(\<forall>x\<in>set (dropWhile (\<lambda>c. c \<in> set cutset) s). x \<in> set cutset) \<longleftrightarrow> set s \<subseteq> set cutset"
    by (induction s) auto
  then show ?thesis by (simp add: trim_set_def trim_left_def trim_right_def)
qed

section \<open>Numbers as text\<close>

fun show_nat :: "nat \<Rightarrow> string" where
  "show_nat n = (if n < 10 then [char_of (48 + n)] else show_nat (n div 10) @ [char_of (48 + n mod 10)])"

declare show_nat.simps [simp del]

definition show_int :: "int \<Rightarrow> string" where
  "show_int n = (if n < 0 then CHR ''-'' # show_nat (nat (- n)) else show_nat (nat n))"

definition digit_value :: "char \<Rightarrow> nat" where
  "digit_value c = byte c - 48"

definition read_nat :: "string \<Rightarrow> nat" where
  "read_nat s = foldl (\<lambda>n c. n * 10 + digit_value c) 0 s"

definition max_int64 :: int where "max_int64 = 9223372036854775807"
definition min_int64 :: int where "min_int64 = - 9223372036854775808"

text \<open>
  \<open>strconv.ParseInt(s, 10, 64)\<close>: the value Go returns and whether it reports an error. A
  syntax error returns 0, a value out of range the nearest bound.
\<close>

definition parse_int64 :: "string \<Rightarrow> int \<times> bool" where
  "parse_int64 s =
     (let neg = (s \<noteq> [] \<and> hd s = CHR ''-'');
          ds = (if s \<noteq> [] \<and> (hd s = CHR ''-'' \<or> hd s = CHR ''+'') then tl s else s)
      in if ds = [] \<or> \<not> list_all is_digit ds then (0, False)
         else let n = int (read_nat ds)
              in if neg then (if n > 9223372036854775808 then (min_int64, False) else (- n, True))
                 else (if n > max_int64 then (max_int64, False) else (n, True)))"

text \<open>64-bit two's complement addition, for the counters a request can supply.\<close>

definition wrap64 :: "int \<Rightarrow> int" where
  "wrap64 n = (n + 9223372036854775808) mod 18446744073709551616 - 9223372036854775808"

definition add64 :: "int \<Rightarrow> int \<Rightarrow> int" where
  "add64 a b = wrap64 (a + b)"

lemma wrap64_id: "min_int64 \<le> n \<Longrightarrow> n \<le> max_int64 \<Longrightarrow> wrap64 n = n"
  by (simp add: wrap64_def min_int64_def max_int64_def)

lemma wrap64_range: "min_int64 \<le> wrap64 n \<and> wrap64 n \<le> max_int64"
proof -
  have "0 \<le> (n + 9223372036854775808) mod 18446744073709551616"
    and "(n + 9223372036854775808) mod 18446744073709551616 < 18446744073709551616"
    by simp_all
  then show ?thesis unfolding wrap64_def min_int64_def max_int64_def by linarith
qed

lemma read_nat_snoc: "read_nat (s @ [c]) = read_nat s * 10 + digit_value c"
  by (simp add: read_nat_def)

lemma digit_value_show [simp]: "d < 10 \<Longrightarrow> digit_value (char_of (48 + d)) = d"
  by (simp add: digit_value_def)

lemma read_show_nat: "read_nat (show_nat n) = n"
proof (induction n rule: show_nat.induct)
  case (1 n)
  show ?case
  proof (cases "n < 10")
    case True
    then show ?thesis by (subst show_nat.simps) (simp add: read_nat_def)
  next
    case False
    then have "read_nat (show_nat n) = read_nat (show_nat (n div 10)) * 10 + n mod 10"
      by (subst show_nat.simps) (simp add: read_nat_snoc)
    with "1" False show ?thesis by simp
  qed
qed

lemma show_nat_inj: "show_nat m = show_nat n \<Longrightarrow> m = n"
  by (metis read_show_nat)

lemma show_nat_digits: "c \<in> set (show_nat n) \<Longrightarrow> is_digit c"
proof (induction n rule: show_nat.induct)
  case (1 n)
  have d: "is_digit (char_of (48 + d))" if "d < 10" for d :: nat
    using that by (simp add: char_classes)
  show ?case
  proof (cases "n < 10")
    case True
    with "1.prems" d show ?thesis by (subst (asm) show_nat.simps) simp
  next
    case False
    with "1.prems" have "c \<in> set (show_nat (n div 10)) \<or> c = char_of (48 + n mod 10)"
      by (subst (asm) show_nat.simps) auto
    with "1.IH" False d [of "n mod 10"] show ?thesis by auto
  qed
qed

definition hex_digit :: "nat \<Rightarrow> char" where
  "hex_digit n = (''0123456789abcdef'' ! n)"

definition hex_encode :: "string \<Rightarrow> string" where
  "hex_encode s = concat (map (\<lambda>c. [hex_digit (byte c div 16), hex_digit (byte c mod 16)]) s)"

lemma length_hex_encode [simp]: "length (hex_encode s) = 2 * length s"
  by (induction s) (auto simp: hex_encode_def)

section \<open>Package encoding/base64\<close>

definition std_alphabet :: string where
  "std_alphabet = ''ABCDEFGHIJKLMNOPQRSTUVWXYZabcdefghijklmnopqrstuvwxyz0123456789+/''"

definition url_alphabet :: string where
  "url_alphabet = ''ABCDEFGHIJKLMNOPQRSTUVWXYZabcdefghijklmnopqrstuvwxyz0123456789-_''"

fun index_in :: "string \<Rightarrow> char \<Rightarrow> nat option" where
  "index_in [] c = None"
| "index_in (a # as) c = (if a = c then Some 0 else map_option Suc (index_in as c))"

text \<open>Bytes to 6-bit values and back; the last group drops its unused bits, as Go's does.\<close>

fun to_sextets :: "nat list \<Rightarrow> nat list" where
  "to_sextets [] = []"
| "to_sextets [a] = [a div 4, a mod 4 * 16]"
| "to_sextets [a, b] = [a div 4, a mod 4 * 16 + b div 16, b mod 16 * 4]"
| "to_sextets (a # b # c # bs) =
     a div 4 # (a mod 4 * 16 + b div 16) # (b mod 16 * 4 + c div 64) # c mod 64 # to_sextets bs"

fun of_sextets :: "nat list \<Rightarrow> nat list option" where
  "of_sextets [] = Some []"
| "of_sextets [w] = None"
| "of_sextets [w, x] = Some [w * 4 + x div 16]"
| "of_sextets [w, x, y] = Some [w * 4 + x div 16, x mod 16 * 16 + y div 4]"
| "of_sextets (w # x # y # z # ss) =
     map_option (\<lambda>bs. (w * 4 + x div 16) # (x mod 16 * 16 + y div 4) # (y mod 4 * 64 + z) # bs)
       (of_sextets ss)"

fun indices :: "string \<Rightarrow> string \<Rightarrow> nat list option" where
  "indices al [] = Some []"
| "indices al (c # s) = (case index_in al c of None \<Rightarrow> None
     | Some i \<Rightarrow> map_option (Cons i) (indices al s))"

definition encode_with :: "string \<Rightarrow> string \<Rightarrow> string" where
  "encode_with al s = map (\<lambda>i. al ! i) (to_sextets (map byte s))"

definition decode_with :: "string \<Rightarrow> string \<Rightarrow> string option" where
  "decode_with al s = map_option (map char_of) (Option.bind (indices al s) of_sextets)"

definition drop_newlines :: "string \<Rightarrow> string" where
  "drop_newlines s = filter (\<lambda>c. c \<noteq> CHR 0x0A \<and> c \<noteq> CHR 0x0D) s"

definition raw_url_encode :: "string \<Rightarrow> string" where
  "raw_url_encode s = encode_with url_alphabet s"

definition raw_url_decode :: "string \<Rightarrow> string option" where
  "raw_url_decode s = decode_with url_alphabet (drop_newlines s)"

definition std_encode :: "string \<Rightarrow> string" where
  "std_encode s = (let e = encode_with std_alphabet s
     in e @ replicate ((4 - length e mod 4) mod 4) (CHR ''=''))"

definition std_decode :: "string \<Rightarrow> string option" where
  "std_decode s =
     (let t = drop_newlines s; n = length t
      in if n mod 4 \<noteq> 0 then None
         else if has_suffix t ''=='' then decode_with std_alphabet (take (n - 2) t)
         else if has_suffix t ''='' then decode_with std_alphabet (take (n - 1) t)
         else decode_with std_alphabet t)"

lemma group16:
  fixes d x :: nat
  assumes "d < 16"
  shows "(x * 16 + d) div 16 = x" "(x * 16 + d) mod 16 = d"
  using assms by simp_all

lemma group4:
  fixes d x :: nat
  assumes "d < 4"
  shows "(x * 4 + d) div 4 = x" "(x * 4 + d) mod 4 = d"
  using assms by simp_all

lemma high_bits:
  fixes b :: nat
  assumes "b < 256"
  shows "b div 16 < 16" "b div 64 < 4" "b div 4 < 64"
  using assms by simp_all

lemma of_to_sextets: "\<forall>b\<in>set bs. b < 256 \<Longrightarrow> of_sextets (to_sextets bs) = Some bs"
  by (induction bs rule: to_sextets.induct) (simp_all add: group16 group4 high_bits)

lemma combined_lt:
  fixes a b :: nat
  shows "b < 256 \<Longrightarrow> a mod 4 * 16 + b div 16 < 64" "b < 256 \<Longrightarrow> a mod 16 * 4 + b div 64 < 64"
    "a mod 4 * 16 < 64" "a mod 16 * 4 < 64"
proof -
  have "a mod 4 < 4" "a mod 16 < 16" by simp_all
  then show "a mod 4 * 16 < 64" "a mod 16 * 4 < 64" by linarith+
  show "a mod 4 * 16 + b div 16 < 64" "a mod 16 * 4 + b div 64 < 64" if "b < 256"
    using high_bits [OF that] \<open>a mod 4 < 4\<close> \<open>a mod 16 < 16\<close> by linarith+
qed

lemma to_sextets_lt: "\<forall>b\<in>set bs. b < 256 \<Longrightarrow> \<forall>i\<in>set (to_sextets bs). i < 64"
  by (induction bs rule: to_sextets.induct) (simp_all add: combined_lt high_bits)

lemma length_to_sextets: "length (to_sextets bs) = (4 * length bs + 2) div 3"
  by (induction bs rule: to_sextets.induct) auto

lemma length_of_sextets: "of_sextets ss = Some bs \<Longrightarrow> length bs = 3 * length ss div 4"
  by (induction ss arbitrary: bs rule: of_sextets.induct) auto

lemma index_in_nth: "distinct al \<Longrightarrow> i < length al \<Longrightarrow> index_in al (al ! i) = Some i"
proof (induction al arbitrary: i)
  case (Cons a al)
  then show ?case by (cases i) auto
qed simp

lemma indices_map:
  "distinct al \<Longrightarrow> \<forall>i\<in>set is. i < length al \<Longrightarrow> indices al (map (\<lambda>i. al ! i) is) = Some is"
  by (induction "is") (auto simp: index_in_nth)

lemma distinct_alphabets [simp]: "distinct std_alphabet" "distinct url_alphabet"
  by (simp_all add: std_alphabet_def url_alphabet_def)

lemma length_alphabets [simp]: "length std_alphabet = 64" "length url_alphabet = 64"
  by (simp_all add: std_alphabet_def url_alphabet_def)

lemma decode_encode_with:
  assumes "distinct al" "length al = 64"
  shows "decode_with al (encode_with al s) = Some s"
proof -
  have b: "\<forall>b\<in>set (map byte s). b < 256" by simp
  have "indices al (encode_with al s) = Some (to_sextets (map byte s))"
    unfolding encode_with_def
    by (rule indices_map [OF assms(1)]) (use to_sextets_lt [OF b] assms(2) in simp)
  then show ?thesis
    using of_to_sextets [OF b] by (simp add: decode_with_def comp_def)
qed

lemma set_encode_with:
  assumes "length al = 64"
  shows "set (encode_with al s) \<subseteq> set al"
proof -
  have "\<forall>i\<in>set (to_sextets (map byte s)). i < 64" by (rule to_sextets_lt) simp
  with assms show ?thesis by (auto simp: encode_with_def)
qed

lemma drop_newlines_id: "CHR 0x0A \<notin> set s \<Longrightarrow> CHR 0x0D \<notin> set s \<Longrightarrow> drop_newlines s = s"
  by (auto simp: drop_newlines_def filter_id_conv)

lemma newlines_not_in_alphabets:
  "CHR 0x0A \<notin> set url_alphabet" "CHR 0x0D \<notin> set url_alphabet"
  "CHR 0x0A \<notin> set std_alphabet" "CHR 0x0D \<notin> set std_alphabet" "CHR ''='' \<notin> set std_alphabet"
  by (simp_all add: url_alphabet_def std_alphabet_def)

lemma raw_url_roundtrip: "raw_url_decode (raw_url_encode s) = Some s"
proof -
  have "drop_newlines (raw_url_encode s) = raw_url_encode s"
    using set_encode_with [of url_alphabet s] newlines_not_in_alphabets
    by (intro drop_newlines_id) (auto simp: raw_url_encode_def)
  then show ?thesis by (simp add: raw_url_decode_def raw_url_encode_def decode_encode_with)
qed

lemma length_raw_url_encode: "length (raw_url_encode s) = (4 * length s + 2) div 3"
  by (simp add: raw_url_encode_def encode_with_def length_to_sextets)

lemma raw_url_encode_inj: "raw_url_encode a = raw_url_encode b \<Longrightarrow> a = b"
  by (metis option.inject raw_url_roundtrip)

lemma has_suffix_append [simp]: "has_suffix (s @ p) p"
  by (simp add: has_suffix_def)

lemma has_suffix_set: "has_suffix s p \<Longrightarrow> set p \<subseteq> set s"
  by (metis has_suffix_def set_drop_subset)

lemma length_encode_mod4: "length (encode_with al s) mod 4 \<noteq> 1"
  by (simp add: encode_with_def length_to_sextets) presburger

lemma std_roundtrip: "std_decode (std_encode s) = Some s"
proof -
  let ?e = "encode_with std_alphabet s"
  have al: "set ?e \<subseteq> set std_alphabet" by (rule set_encode_with) simp
  then have eq: "CHR ''='' \<notin> set ?e" using newlines_not_in_alphabets by blast
  have nl: "drop_newlines (?e @ replicate n (CHR ''='')) = ?e @ replicate n (CHR ''='')" for n
    using al newlines_not_in_alphabets by (intro drop_newlines_id) auto
  have dec: "decode_with std_alphabet ?e = Some s" by (simp add: decode_encode_with)
  have ns: "\<not> has_suffix ?e ''==''" "\<not> has_suffix ?e ''=''"
    using has_suffix_set [of ?e] eq by fastforce+
  have n1: "\<not> has_suffix (?e @ ''='') ''==''"
  proof
    assume h: "has_suffix (?e @ ''='') ''==''"
    then have "drop (length ?e - 1) ?e = ''=''" "?e \<noteq> []"
      by (auto simp: has_suffix_def split: if_splits)
    then have "CHR ''='' \<in> set ?e" by (metis list.set_intros(1) set_drop_subset subset_iff)
    with eq show False ..
  qed
  have m: "length ?e mod 4 \<noteq> 1" by (rule length_encode_mod4)
  consider "length ?e mod 4 = 0" | "length ?e mod 4 = 2" | "length ?e mod 4 = 3"
    using m by linarith
  then show ?thesis
  proof cases
    case 1
    then show ?thesis using nl [of 0] ns dec by (simp add: std_encode_def std_decode_def)
  next
    case 2
    then have "std_encode s = ?e @ ''==''" by (simp add: std_encode_def numeral_2_eq_2)
    moreover have "(length ?e + 2) mod 4 = 0" using 2 by presburger
    ultimately show ?thesis
      using nl [of 2] dec by (simp add: std_decode_def numeral_2_eq_2)
  next
    case 3
    then have "std_encode s = ?e @ ''=''" by (simp add: std_encode_def)
    moreover have "(length ?e + 1) mod 4 = 0" using 3 by presburger
    ultimately show ?thesis using nl [of 1] dec n1 by (simp add: std_decode_def)
  qed
qed

section \<open>Packages unicode/utf8 and time\<close>

definition cont :: "nat \<Rightarrow> bool" where
  "cont b \<longleftrightarrow> 128 \<le> b \<and> b < 192"

fun utf8_valid :: "nat list \<Rightarrow> bool" where
  "utf8_valid [] = True"
| "utf8_valid (a # bs) =
    (if a < 128 then utf8_valid bs
     else if a < 194 \<or> 244 < a then False
     else (case bs of
         [] \<Rightarrow> False
       | b # cs \<Rightarrow>
           if a < 224 then cont b \<and> utf8_valid cs
           else (case cs of
               [] \<Rightarrow> False
             | c # ds \<Rightarrow>
                 if a < 240
                 then cont b \<and> (a = 224 \<longrightarrow> 160 \<le> b) \<and> (a = 237 \<longrightarrow> b < 160) \<and> cont c \<and> utf8_valid ds
                 else (case ds of
                     [] \<Rightarrow> False
                   | d # es \<Rightarrow> cont b \<and> (a = 240 \<longrightarrow> 144 \<le> b) \<and> (a = 244 \<longrightarrow> b < 144) \<and>
                       cont c \<and> cont d \<and> utf8_valid es))))"

text \<open>\<open>time.Unix(t, 0).UTC().Format("2006-01-02")\<close>, in the proleptic Gregorian calendar.\<close>

definition civil :: "int \<Rightarrow> int \<times> int \<times> int" where
  "civil days =
    (let z = days + 719468; era = z div 146097; doe = z mod 146097;
         yoe = (doe - doe div 1460 + doe div 36524 - doe div 146096) div 365;
         doy = doe - (365 * yoe + yoe div 4 - yoe div 100);
         mp = (5 * doy + 2) div 153;
         m = (if mp < 10 then mp + 3 else mp - 9)
     in (yoe + era * 400 + (if m \<le> 2 then 1 else 0), m, doy - (153 * mp + 2) div 5 + 1))"

definition pad_left :: "nat \<Rightarrow> string \<Rightarrow> string" where
  "pad_left n s = replicate (n - length s) (CHR ''0'') @ s"

definition utc_day :: "int \<Rightarrow> string" where
  "utc_day t = (case civil (t div 86400) of (y, m, d) \<Rightarrow>
     pad_left 4 (show_int y) @ ''-'' @ pad_left 2 (show_int m) @ ''-'' @ pad_left 2 (show_int d))"

lemma utc_day_examples:
  "utc_day 0 = ''1970-01-01''" "utc_day 1709164800 = ''2024-02-29''"
  "utc_day 1709251199 = ''2024-02-29''" "utc_day 1709251200 = ''2024-03-01''"
  "utc_day 4102444799 = ''2099-12-31''"
  by code_simp+

section \<open>Library functions taken as parameters\<close>

text \<open>\<open>net/url\<close>: the fields of a parsed URL the sources read; \<open>u_User\<close> is \<open>User != nil\<close>.\<close>

record url =
  u_Scheme :: string
  u_Host :: string
  u_Hostname :: string
  u_Path :: string
  u_RawQuery :: string
  u_Fragment :: string
  u_User :: bool

record golib =
  to_lower :: "string \<Rightarrow> string" \<comment> \<open>strings.ToLower\<close>
  trim_space :: "string \<Rightarrow> string" \<comment> \<open>strings.TrimSpace\<close>
  parse_address :: "string \<Rightarrow> string option" \<comment> \<open>mail.ParseAddress, its Address field\<close>
  url_parse :: "string \<Rightarrow> url option" \<comment> \<open>url.Parse\<close>
  query_escape :: "string \<Rightarrow> string" \<comment> \<open>url.QueryEscape\<close>
  sha256 :: "string \<Rightarrow> string" \<comment> \<open>sha256.Sum256\<close>
  hmac_sha256 :: "string \<Rightarrow> string \<Rightarrow> string" \<comment> \<open>hmac.New(sha256.New, key), one message\<close>

text \<open>The library the witnesses evaluate with: every parameter is a concrete function.\<close>

definition demo_url :: "string \<Rightarrow> url option" where
  "demo_url s = (if has_prefix s ''https://''
     then Some \<lparr>u_Scheme = ''https'', u_Host = drop 8 s, u_Hostname = drop 8 s, u_Path = [],
                u_RawQuery = [], u_Fragment = [], u_User = False\<rparr>
     else None)"

definition demo_lib :: golib where
  "demo_lib = \<lparr>to_lower = id, trim_space = id, parse_address = Some, url_parse = demo_url,
     query_escape = id, sha256 = (\<lambda>s. take 32 (s @ replicate 32 (CHR ''0''))),
     hmac_sha256 = (\<lambda>k m. take 32 (rev m @ replicate 32 (CHR ''0'')))\<rparr>"

end
