(* ===== verification/Email.thy ===== *)
theory Email
  imports Golib
begin

text \<open>
  The email confirmation service, \<open>email/service.go\<close>.

  \<open>transaction\<close> is the durable record of one signup, \<open>email_err\<close> the errors with Go's
  \<open>errors.Is\<close> and \<open>errors.As\<close>. The interfaces \<open>Store\<close>, \<open>Sender\<close>, \<open>Identity\<close> and the clock
  and random functions of \<open>Service\<close> are the calls \<open>email_call\<close>; an answer is a record
  \<open>email_resp\<close> of which the code reads the field of the call it made. \<open>signup\<close>, \<open>resend\<close> and
  \<open>confirm\<close> are the three public operations; \<open>confirm\<close> is composed of the recovery of an
  interrupted claim, the check of the second proof and the claim itself, in the code's order.
  Log lines are not modelled.
\<close>

section \<open>Errors\<close>

datatype email_err =
    ErrInvalid | ErrNotFound | ErrConflict | ErrLimited | ErrUnusable | ErrIncorrect | ErrUsed
  | ErrSignInRequired
  | IncorrectCode int \<comment> \<open>Remaining\<close>
  | OperationalError string string email_err \<comment> \<open>Stage, Code, Cause\<close>
  | ApiError string string \<comment> \<open>a smithy.APIError: code and message\<close>
  | PlainError string \<comment> \<open>any other error of a dependency\<close>

fun errors_is :: "email_err \<Rightarrow> email_err \<Rightarrow> bool" where
  "errors_is (OperationalError stage code cause) target =
     (OperationalError stage code cause = target \<or> errors_is cause target)"
| "errors_is (IncorrectCode n) target = (IncorrectCode n = target \<or> target = ErrIncorrect)"
| "errors_is e target = (e = target)"

fun as_api_error :: "email_err \<Rightarrow> (string \<times> string) option" where
  "as_api_error (ApiError code message) = Some (code, message)"
| "as_api_error (OperationalError stage code cause) = as_api_error cause"
| "as_api_error e = None"

definition code_char :: "char \<Rightarrow> bool" where
  "code_char c \<longleftrightarrow> is_alnum c \<or> c = CHR ''_'' \<or> c = CHR ''-''"

definition operation :: "golib \<Rightarrow> string \<Rightarrow> email_err \<Rightarrow> email_err" where
  "operation L stage err =
     (let c0 = (case as_api_error err of
                  None \<Rightarrow> ''provider_error''
                | Some (code, message) \<Rightarrow>
                    if stage = ''ses_send'' \<and> str_contains (to_lower L message) ''not verified''
                    then ''SESIdentityNotVerified'' else code);
          c1 = (if list_all code_char c0 then c0 else ''provider_error'');
          c2 = (if length c1 > 80 \<or> c1 = '''' then ''provider_error'' else c1)
      in OperationalError stage c2 err)"

section \<open>State\<close>

datatype tx_state = Pending | Confirming | Confirmed | Failed | OtherState string

record transaction =
  ID :: string
  EmailAddr :: string
  Challenge :: string
  BHash :: string
  CDigest :: string
  State :: tx_state
  Generation :: int
  Version :: int
  Attempts :: int
  Resends :: int
  Expires :: int
  LastSent :: int
  ClaimedAt :: int
  TTL :: int
  Subject :: string

record session =
  AccessToken :: string
  IDToken :: string
  RefreshToken :: string
  ExpiresIn :: int
  TokenType :: string

record service =
  Key :: string
  Origin :: string
  Diagnostics :: bool

record confirm_input =
  RequestID :: string
  TokenB :: string
  TokenA :: string
  TokenC :: string

section \<open>The interfaces\<close>

datatype email_call =
    Put transaction
  | Get string
  | Swap transaction transaction
  | Charge string int int \<comment> \<open>budget name, limit, now\<close>
  | Send string string string \<comment> \<open>address, link, code\<close>
  | Eligible string
  | Confirm string
  | Session string
  | Now
  | Random nat

record email_resp =
  r_err :: "email_err option"
  r_tx :: "email_err + transaction"
  r_bool :: "email_err + bool"
  r_text :: "email_err + string"
  r_session :: "email_err + session"
  r_unix :: int

type_synonym 'a email_prog = "(email_call, email_resp, 'a) prog"

text \<open>A random source fills the buffer it is given; what it does not write stays zero.\<close>

definition fill :: "nat \<Rightarrow> string \<Rightarrow> string" where
  "fill n b = take n (b @ replicate n (CHR 0x00))"

definition now :: "(int \<Rightarrow> 'a email_prog) \<Rightarrow> 'a email_prog" where
  [call_simps]: "now k = Call Now (\<lambda>r. k (r_unix r))"

definition random :: "nat \<Rightarrow> (email_err + string \<Rightarrow> 'a email_prog) \<Rightarrow> 'a email_prog" where
  [call_simps]: "random n k = Call (Random n) (\<lambda>r. k (map_sum id (fill n) (r_text r)))"

definition store_put :: "transaction \<Rightarrow> (email_err option \<Rightarrow> 'a email_prog) \<Rightarrow> 'a email_prog" where
  [call_simps]: "store_put t k = Call (Put t) (\<lambda>r. k (r_err r))"

definition store_get :: "string \<Rightarrow> (email_err + transaction \<Rightarrow> 'a email_prog) \<Rightarrow> 'a email_prog" where
  [call_simps]: "store_get i k = Call (Get i) (\<lambda>r. k (r_tx r))"

definition store_swap :: "transaction \<Rightarrow> transaction \<Rightarrow> (email_err option \<Rightarrow> 'a email_prog) \<Rightarrow> 'a email_prog" where
  [call_simps]: "store_swap b a k = Call (Swap b a) (\<lambda>r. k (r_err r))"

definition store_charge :: "string \<Rightarrow> int \<Rightarrow> int \<Rightarrow> (email_err option \<Rightarrow> 'a email_prog) \<Rightarrow> 'a email_prog" where
  [call_simps]: "store_charge name limit t k = Call (Charge name limit t) (\<lambda>r. k (r_err r))"

definition sender_send :: "string \<Rightarrow> string \<Rightarrow> string \<Rightarrow> (email_err option \<Rightarrow> 'a email_prog) \<Rightarrow> 'a email_prog" where
  [call_simps]: "sender_send addr link c k = Call (Send addr link c) (\<lambda>r. k (r_err r))"

definition identity_eligible :: "string \<Rightarrow> (email_err + bool \<Rightarrow> 'a email_prog) \<Rightarrow> 'a email_prog" where
  [call_simps]: "identity_eligible addr k = Call (Eligible addr) (\<lambda>r. k (r_bool r))"

definition identity_confirm :: "string \<Rightarrow> (email_err + string \<Rightarrow> 'a email_prog) \<Rightarrow> 'a email_prog" where
  [call_simps]: "identity_confirm addr k = Call (Confirm addr) (\<lambda>r. k (r_text r))"

definition identity_session :: "string \<Rightarrow> (email_err + session \<Rightarrow> 'a email_prog) \<Rightarrow> 'a email_prog" where
  [call_simps]: "identity_session addr k = Call (Session addr) (\<lambda>r. k (r_session r))"

section \<open>Secrets, digests and input checks\<close>

definition secret :: "(email_err + string \<Rightarrow> 'a email_prog) \<Rightarrow> 'a email_prog" where
  "secret k = random 32 (\<lambda>r. k (map_sum id raw_url_encode r))"

definition digest :: "golib \<Rightarrow> service \<Rightarrow> string list \<Rightarrow> string" where
  "digest L s parts =
     hex_encode (hmac_sha256 L (Key s) (concat (map (\<lambda>p. p @ [CHR 0x00]) parts)))"

definition hash :: "golib \<Rightarrow> string \<Rightarrow> string" where
  "hash L v = hex_encode (sha256 L v)"

definition valid_token :: "string \<Rightarrow> bool" where
  "valid_token v = (case raw_url_decode v of
       None \<Rightarrow> False
     | Some b \<Rightarrow> length b = 32 \<and> raw_url_encode b = v)"

definition valid_challenge :: "string \<Rightarrow> bool" where
  "valid_challenge v = valid_token v"

definition same :: "string \<Rightarrow> string \<Rightarrow> bool" where
  "same a b \<longleftrightarrow> a = b" \<comment> \<open>hmac.Equal\<close>

definition clean_email :: "golib \<Rightarrow> string \<Rightarrow> email_err + string" where
  "clean_email L addr =
     (let e = to_lower L (trim_space L addr)
      in case parse_address L e of
           None \<Rightarrow> Inl ErrInvalid
         | Some parsed \<Rightarrow>
             if parsed \<noteq> e \<or> length e > 254 \<or> count_list e (CHR ''@'') \<noteq> 1
             then Inl ErrInvalid else Inr e)"

text \<open>
  \<open>code\<close>: rejection sampling of decimal digits from single random bytes. The source loops
  until six digits are written; here every byte drawn spends one unit of fuel.
\<close>

fun code_loop :: "nat \<Rightarrow> string \<Rightarrow> (email_err + string \<Rightarrow> 'a email_prog) \<Rightarrow> 'a email_prog" where
  "code_loop fuel acc k =
     (if length acc < 6
      then (case fuel of
              0 \<Rightarrow> Spin
            | Suc f \<Rightarrow> random 1 (\<lambda>r. case r of
                Inl err \<Rightarrow> k (Inl err)
              | Inr b \<Rightarrow> if byte (hd b) < 250
                  then code_loop f (acc @ [char_of (48 + byte (hd b) mod 10)]) k
                  else code_loop f acc k))
      else k (Inr acc))"

declare code_loop.simps [simp del]

definition code :: "nat \<Rightarrow> (email_err + string \<Rightarrow> 'a email_prog) \<Rightarrow> 'a email_prog" where
  "code fuel k = code_loop fuel '''' k"

definition origin :: "golib \<Rightarrow> service \<Rightarrow> email_err + string" where
  "origin L s = (case url_parse L (Origin s) of
       None \<Rightarrow> Inl ErrInvalid
     | Some u \<Rightarrow>
         if u_Scheme u \<noteq> ''https'' \<or> u_Host u = '''' \<or> u_Path u \<noteq> '''' \<or> u_RawQuery u \<noteq> '''' \<or>
            u_Fragment u \<noteq> '''' \<or> u_User u
         then Inl ErrInvalid else Inr (trim_right (Origin s) ''/''))"

definition verify_link :: "golib \<Rightarrow> string \<Rightarrow> string \<Rightarrow> string \<Rightarrow> string" where
  "verify_link L org i b =
     org @ ''/verify-email?request_id='' @ query_escape L i @ ''&b='' @ query_escape L b"

section \<open>Signup\<close>

definition new_transaction :: "golib \<Rightarrow> service \<Rightarrow> string \<Rightarrow> string \<Rightarrow> string \<Rightarrow> string \<Rightarrow> string \<Rightarrow> int \<Rightarrow>
    transaction" where
  "new_transaction L s i e challenge b c n =
     \<lparr>ID = i, EmailAddr = e, Challenge = challenge, BHash = hash L b,
      CDigest = digest L s [i, ''1'', c], State = Pending, Generation = 1, Version = 1,
      Attempts = 0, Resends = 0, Expires = n + 600, LastSent = n, ClaimedAt = 0,
      TTL = n + 86400, Subject = ''''\<rparr>"

definition signup :: "golib \<Rightarrow> service \<Rightarrow> nat \<Rightarrow> string \<Rightarrow> string \<Rightarrow> string \<Rightarrow> string \<Rightarrow>
    (string \<times> email_err option) email_prog" where
  "signup L s fuel addr challenge method source =
    (case clean_email L addr of
       Inl _ \<Rightarrow> Ret ('''', Some ErrInvalid)
     | Inr e \<Rightarrow>
    if method \<noteq> ''S256'' \<or> \<not> valid_challenge challenge then Ret ('''', Some ErrInvalid) else
    (case origin L s of
       Inl _ \<Rightarrow> Ret ('''', Some ErrInvalid)
     | Inr org \<Rightarrow>
    if length (Key s) < 32 then Ret ('''', Some ErrInvalid) else
    secret (\<lambda>r. case r of Inl err \<Rightarrow> Ret ('''', Some err) | Inr i \<Rightarrow>
    now (\<lambda>t0. store_charge (''signup-source:'' @ digest L s [source]) 10 t0 (\<lambda>r. case r of
       Some err \<Rightarrow>
         if errors_is err ErrLimited then Ret (i, None)
         else Ret (i, Some (operation L ''signup_source_budget'' err))
     | None \<Rightarrow>
    now (\<lambda>t1. store_charge (''signup-email:'' @ digest L s [e]) 3 t1 (\<lambda>r. case r of
       Some err \<Rightarrow>
         if errors_is err ErrLimited then Ret (i, None)
         else Ret (i, Some (operation L ''signup_email_budget'' err))
     | None \<Rightarrow>
    identity_eligible e (\<lambda>r. case r of
       Inl err \<Rightarrow>
         if Diagnostics s then Ret (i, Some (operation L ''signup_identity_lookup'' err))
         else Ret (i, None)
     | Inr eligible \<Rightarrow>
    if \<not> eligible then Ret (i, None) else
    secret (\<lambda>r. case r of Inl err \<Rightarrow> Ret (i, Some err) | Inr b \<Rightarrow>
    code fuel (\<lambda>r. case r of Inl err \<Rightarrow> Ret (i, Some err) | Inr c \<Rightarrow>
    now (\<lambda>n. store_put (new_transaction L s i e challenge b c n) (\<lambda>r. case r of
       Some err \<Rightarrow> Ret (i, Some (operation L ''signup_store_proof'' err))
     | None \<Rightarrow>
    sender_send e (verify_link L org i b) c (\<lambda>r. case r of
       Some err \<Rightarrow>
         if Diagnostics s then Ret (i, Some (operation L ''ses_send'' err)) else Ret (i, None)
     | None \<Rightarrow> Ret (i, None))))))))))))))"

section \<open>Resend\<close>

definition rotated :: "golib \<Rightarrow> service \<Rightarrow> string \<Rightarrow> transaction \<Rightarrow> string \<Rightarrow> string \<Rightarrow> int \<Rightarrow> transaction" where
  "rotated L s i t b c n =
     t\<lparr>State := Pending, ClaimedAt := 0, Generation := Generation t + 1, Version := Version t + 1,
       Resends := Resends t + 1, Attempts := 0, BHash := hash L b,
       CDigest := digest L s [i, show_int (Generation t + 1), c],
       Expires := n + 600, LastSent := n\<rparr>"

text \<open>From the second budget on, \<open>t\<close> being the transaction to rotate and \<open>n\<close> the time read.\<close>

definition resend_rotate :: "golib \<Rightarrow> service \<Rightarrow> nat \<Rightarrow> string \<Rightarrow> transaction \<Rightarrow> int \<Rightarrow>
    email_err option email_prog" where
  "resend_rotate L s fuel i t n =
    store_charge (''resend-email:'' @ digest L s [EmailAddr t]) 3 n (\<lambda>r. case r of
       Some err \<Rightarrow>
         if errors_is err ErrLimited then Ret None
         else Ret (Some (operation L ''resend_email_budget'' err))
     | None \<Rightarrow>
    secret (\<lambda>r. case r of Inl err \<Rightarrow> Ret (Some err) | Inr b \<Rightarrow>
    code fuel (\<lambda>r. case r of Inl err \<Rightarrow> Ret (Some err) | Inr c \<Rightarrow>
    store_swap t (rotated L s i t b c n) (\<lambda>r. case r of
       Some err \<Rightarrow>
         if errors_is err ErrConflict then Ret None
         else Ret (Some (operation L ''resend_rotate_proof'' err))
     | None \<Rightarrow>
    case origin L s of
       Inl err \<Rightarrow> Ret (Some err)
     | Inr org \<Rightarrow>
    sender_send (EmailAddr t) (verify_link L org i b) c (\<lambda>r. case r of
       Some err \<Rightarrow>
         if Diagnostics s then Ret (Some (operation L ''ses_send'' err)) else Ret None
     | None \<Rightarrow> Ret None)))))"

definition resend :: "golib \<Rightarrow> service \<Rightarrow> nat \<Rightarrow> string \<Rightarrow> string \<Rightarrow> email_err option email_prog" where
  "resend L s fuel i source =
    (if \<not> valid_token i then Ret (Some ErrInvalid) else
    now (\<lambda>t0. store_charge (''resend-source:'' @ digest L s [source]) 10 t0 (\<lambda>r. case r of
       Some err \<Rightarrow>
         if errors_is err ErrLimited then Ret None
         else Ret (Some (operation L ''resend_source_budget'' err))
     | None \<Rightarrow>
    store_get i (\<lambda>r. case r of
       Inl err \<Rightarrow>
         if errors_is err ErrNotFound then Ret None
         else Ret (Some (operation L ''resend_load_proof'' err))
     | Inr t \<Rightarrow>
    now (\<lambda>n.
    if (State t \<noteq> Pending \<and> State t \<noteq> Failed) \<or> Resends t \<ge> 3 \<or> n - LastSent t < 60
    then Ret None
    else if State t = Failed
    then identity_eligible (EmailAddr t) (\<lambda>r. case r of
           Inl err \<Rightarrow>
             if Diagnostics s then Ret (Some (operation L ''resend_identity_lookup'' err))
             else Ret None
         | Inr eligible \<Rightarrow>
             if \<not> eligible then Ret None else resend_rotate L s fuel i t n)
    else resend_rotate L s fuel i t n)))))"

section \<open>Confirm\<close>

text \<open>
  The recovery of an interrupted confirmation. The result is the transaction to go on with:
  the one that was read, or the reclaimed one.
\<close>

definition confirm_recover :: "golib \<Rightarrow> service \<Rightarrow> confirm_input \<Rightarrow> transaction \<Rightarrow>
    (email_err + transaction) email_prog" where
  "confirm_recover L s inp t =
    (if State t \<noteq> Confirming then Ret (Inr t) else
    now (\<lambda>n1. if n1 - ClaimedAt t < 60 then Ret (Inr t) else
    now (\<lambda>n2. if \<not> (Expires t > n2 \<and> same (BHash t) (hash L (TokenB inp))) then Ret (Inr t) else
    identity_eligible (EmailAddr t) (\<lambda>r. case r of
       Inl err \<Rightarrow>
         if Diagnostics s then Ret (Inl (operation L ''confirm_recovery_lookup'' err))
         else Ret (Inl ErrConflict)
     | Inr eligible \<Rightarrow>
    if \<not> eligible then Ret (Inl ErrSignInRequired) else
    (let retry = t\<lparr>State := Pending, Version := Version t + 1\<rparr>
     in store_swap t retry (\<lambda>r. case r of
          Some _ \<Rightarrow> Ret (Inl ErrConflict)
        | None \<Rightarrow> Ret (Inr retry)))))))"

text \<open>The second proof: token A against the challenge, or code C against its digest.\<close>

definition confirm_proof :: "golib \<Rightarrow> service \<Rightarrow> confirm_input \<Rightarrow> transaction \<Rightarrow>
    email_err option email_prog" where
  "confirm_proof L s inp t =
    (if TokenA inp \<noteq> '''' then
      (case raw_url_decode (TokenA inp) of
         None \<Rightarrow> Ret (Some ErrUnusable)
       | Some a \<Rightarrow>
           if length a \<noteq> 32 then Ret (Some ErrUnusable)
           else if \<not> same (Challenge t) (raw_url_encode (sha256 L a)) then Ret (Some ErrUnusable)
           else Ret None)
     else
      if length (TokenC inp) \<noteq> 6 \<or> trim_set (TokenC inp) ''0123456789'' \<noteq> ''''
      then Ret (Some ErrInvalid)
      else if Attempts t \<ge> 5 then Ret (Some ErrLimited) else
      now (\<lambda>n. store_charge (''code-email:'' @ digest L s [EmailAddr t]) 10 n (\<lambda>r. case r of
         Some err \<Rightarrow>
           if errors_is err ErrLimited then Ret (Some err)
           else Ret (Some (operation L ''confirm_code_budget'' err))
       | None \<Rightarrow>
      if \<not> same (CDigest t) (digest L s [ID t, show_int (Generation t), TokenC inp])
      then (let next = t\<lparr>Attempts := Attempts t + 1, Version := Version t + 1\<rparr>
            in store_swap t next (\<lambda>r. case r of
                 Some _ \<Rightarrow> Ret (Some ErrConflict)
               | None \<Rightarrow>
                   if Attempts next \<ge> 5 then Ret (Some ErrLimited)
                   else Ret (Some (IncorrectCode (5 - Attempts next)))))
      else Ret None)))"

text \<open>The claim, the account and the session.\<close>

definition confirm_claim :: "golib \<Rightarrow> service \<Rightarrow> transaction \<Rightarrow> (email_err + session) email_prog" where
  "confirm_claim L s t =
    now (\<lambda>n. let claim = t\<lparr>State := Confirming, ClaimedAt := n, Version := Version t + 1\<rparr> in
    store_swap t claim (\<lambda>r. case r of Some _ \<Rightarrow> Ret (Inl ErrConflict) | None \<Rightarrow>
    identity_confirm (EmailAddr t) (\<lambda>r. case r of
       Inl err \<Rightarrow>
         (let failed = claim\<lparr>State := Failed, Version := Version claim + 1\<rparr>
          in store_swap claim failed (\<lambda>_.
             identity_eligible (EmailAddr t) (\<lambda>lookup.
               if Diagnostics s then Ret (Inl (operation L ''cognito_create_user'' err))
               else if lookup = Inr True then Ret (Inl ErrUnusable)
               else Ret (Inl ErrSignInRequired))))
     | Inr sub \<Rightarrow>
    (let finished = claim\<lparr>State := Confirmed, Subject := sub, BHash := '''', CDigest := '''',
                       Challenge := '''', Version := Version claim + 1\<rparr> in
    store_swap claim finished (\<lambda>r. case r of
       Some err \<Rightarrow>
         if Diagnostics s then Ret (Inl (operation L ''confirm_store_confirmed'' err))
         else Ret (Inl ErrSignInRequired)
     | None \<Rightarrow>
    identity_session (EmailAddr t) (\<lambda>r. case r of
       Inl err \<Rightarrow>
         if Diagnostics s then Ret (Inl (operation L ''cognito_session'' err))
         else Ret (Inl ErrSignInRequired)
     | Inr ses \<Rightarrow> Ret (Inr ses)))))))"

text \<open>The checks between recovery and proof: state, expiry and the link's token B.\<close>

definition confirm_checked :: "golib \<Rightarrow> service \<Rightarrow> confirm_input \<Rightarrow> transaction \<Rightarrow>
    (email_err + session) email_prog" where
  "confirm_checked L s inp t =
    (if State t = Confirming then Ret (Inl ErrConflict) else
     if State t \<noteq> Pending then Ret (Inl ErrUnusable) else
     now (\<lambda>n. if Expires t \<le> n \<or> \<not> same (BHash t) (hash L (TokenB inp)) then Ret (Inl ErrUnusable)
     else pbind (confirm_proof L s inp t) (\<lambda>r. case r of
            Some err \<Rightarrow> Ret (Inl err)
          | None \<Rightarrow> confirm_claim L s t)))"

definition confirm :: "golib \<Rightarrow> service \<Rightarrow> confirm_input \<Rightarrow> (email_err + session) email_prog" where
  "confirm L s inp =
    (if \<not> valid_token (RequestID inp) \<or> \<not> valid_token (TokenB inp) \<or>
        (TokenA inp = '''') = (TokenC inp = '''')
     then Ret (Inl ErrInvalid) else
    store_get (RequestID inp) (\<lambda>r. case r of
       Inl err \<Rightarrow>
         if errors_is err ErrNotFound then Ret (Inl ErrUnusable)
         else Ret (Inl (operation L ''confirm_load_proof'' err))
     | Inr t \<Rightarrow>
    if State t = Confirmed then Ret (Inl ErrUsed) else
    pbind (confirm_recover L s inp t) (\<lambda>r. case r of
       Inl err \<Rightarrow> Ret (Inl err)
     | Inr t' \<Rightarrow> confirm_checked L s inp t')))"

end
