(* ===== verification/Versioned.thy ===== *)
theory Versioned
  imports Prelude
begin

text \<open>
  Optimistic concurrency, once for all the stores of the program.

  Every durable record of the program carries a counter (\<open>Version\<close>, \<open>Revision\<close>) and is
  replaced by a conditional write that compares the stored counter with the one the writer
  read. This theory gives the interleaved executions of any number of such programs over one
  table, with lost acknowledgements, refused writes, failing reads and expiring items, and
  proves in the locale \<open>versioned\<close> that the committed writes of every interleaving follow
  the step relation the operations declare, one after the other, without a lost update.
  The components interpret the locale on their own records, calls and operations.
\<close>

section \<open>What a call does to the table\<close>

datatype ('k, 'v) access = Read 'k | Insert 'k 'v | Cas 'k 'v 'v | Other

record ('k, 'v) shared =
  table :: "'k \<Rightarrow> 'v option"
  commits :: "('k \<times> 'v option \<times> 'v) list" \<comment> \<open>every write that took effect, oldest first\<close>

definition no_records :: "('k, 'v) shared" where
  "no_records = \<lparr>table = (\<lambda>_. None), commits = []\<rparr>"

definition news :: "('k \<times> 'v option \<times> 'v) list \<Rightarrow> 'k \<Rightarrow> 'v list" where
  "news l k = map (\<lambda>e. snd (snd e)) (filter (\<lambda>e. fst e = k) l)"

lemma news_Nil [simp]: "news [] k = []"
  by (simp add: news_def)

lemma news_snoc [simp]:
  "news (l @ [(k, b, a)]) x = (if x = k then news l x @ [a] else news l x)"
  by (auto simp: news_def)

text \<open>The last value written under a key, and how many writes of a kind a key has seen.\<close>

definition latest :: "('k \<times> 'v option \<times> 'v) list \<Rightarrow> 'k \<Rightarrow> 'v option" where
  "latest l k = (if news l k = [] then None else Some (last (news l k)))"

definition tally :: "('v \<Rightarrow> 'v \<Rightarrow> bool) \<Rightarrow> ('k \<times> 'v option \<times> 'v) list \<Rightarrow> 'k \<Rightarrow> nat" where
  "tally w l k = length (filter (\<lambda>e. fst e = k \<and>
     (case fst (snd e) of None \<Rightarrow> False | Some b \<Rightarrow> w b (snd (snd e)))) l)"

definition linked :: "('k \<times> 'v option \<times> 'v) list \<Rightarrow> bool" where
  "linked l \<longleftrightarrow> (\<forall>n<length l. fst (snd (l ! n)) = latest (take n l) (fst (l ! n)))"

lemma latest_Nil [simp]: "latest [] k = None"
  by (simp add: latest_def)

lemma latest_snoc [simp]: "latest (l @ [(k, b, a)]) x = (if x = k then Some a else latest l x)"
  by (simp add: latest_def)

lemma linked_Nil [simp]: "linked []"
  by (simp add: linked_def)

lemma linked_snoc: "linked (l @ [e]) \<longleftrightarrow> linked l \<and> fst (snd e) = latest l (fst e)"
  by (auto simp: linked_def nth_append less_Suc_eq)

lemma tally_Nil [simp]: "tally w [] k = 0"
  by (simp add: tally_def)

lemma tally_snoc: "tally w (l @ [(k, b, a)]) x =
    tally w l x + (if x = k \<and> (\<exists>c. b = Some c \<and> w c a) then 1 else 0)"
  by (auto simp: tally_def split: option.split)

text \<open>
  \<open>serve\<close> is what the conditional store may do with a call \<open>q\<close> and answer \<open>r\<close>: a read
  returns the stored item or nothing; a write whose condition holds takes effect, and its
  acknowledgement may still be lost; a write that does not take effect is not acknowledged.
\<close>

inductive serve :: "('v \<Rightarrow> 'v \<Rightarrow> bool) \<Rightarrow> ('q \<Rightarrow> ('k, 'v) access) \<Rightarrow> ('r \<Rightarrow> 'v option) \<Rightarrow>
    ('r \<Rightarrow> bool) \<Rightarrow> 'q \<Rightarrow> 'r \<Rightarrow> ('k, 'v) shared \<Rightarrow> ('k, 'v) shared \<Rightarrow> bool"
  for agree :: "'v \<Rightarrow> 'v \<Rightarrow> bool" and acc :: "'q \<Rightarrow> ('k, 'v) access"
    and seen :: "'r \<Rightarrow> 'v option" and acked :: "'r \<Rightarrow> bool"
where
  serve_read: "acc q = Read k \<Longrightarrow> seen r = None \<or> seen r = table s k \<Longrightarrow>
    serve agree acc seen acked q r s s"
| serve_insert: "acc q = Insert k v \<Longrightarrow> news (commits s) k = [] \<Longrightarrow>
    serve agree acc seen acked q r s
      (s\<lparr>table := (table s)(k \<mapsto> v), commits := commits s @ [(k, None, v)]\<rparr>)"
| serve_cas: "acc q = Cas k b a \<Longrightarrow> table s k = Some c \<Longrightarrow> agree c b \<Longrightarrow>
    serve agree acc seen acked q r s
      (s\<lparr>table := (table s)(k \<mapsto> a), commits := commits s @ [(k, Some c, a)]\<rparr>)"
| serve_refused: "acc q = Insert k a \<or> acc q = Cas k b a \<Longrightarrow> \<not> acked r \<Longrightarrow>
    serve agree acc seen acked q r s s"
| serve_other: "acc q = Other \<Longrightarrow> serve agree acc seen acked q r s s"

text \<open>One step of a pool of running operations over the shared table.\<close>

inductive interleave :: "('v \<Rightarrow> 'v \<Rightarrow> bool) \<Rightarrow> ('q \<Rightarrow> ('k, 'v) access) \<Rightarrow> ('r \<Rightarrow> 'v option) \<Rightarrow>
    ('r \<Rightarrow> bool) \<Rightarrow> (('q, 'r, 'a) prog \<Rightarrow> bool) \<Rightarrow>
    ('k, 'v) shared \<Rightarrow> ('q, 'r, 'a) prog list \<Rightarrow>
    ('k, 'v) shared \<Rightarrow> ('q, 'r, 'a) prog list \<Rightarrow> bool"
  for agree :: "'v \<Rightarrow> 'v \<Rightarrow> bool" and acc :: "'q \<Rightarrow> ('k, 'v) access"
    and seen :: "'r \<Rightarrow> 'v option" and acked :: "'r \<Rightarrow> bool"
    and ops :: "('q, 'r, 'a) prog \<Rightarrow> bool"
where
  start: "ops p \<Longrightarrow> interleave agree acc seen acked ops s ps s (p # ps)"
| act: "ps = ps1 @ Call q k # ps2 \<Longrightarrow> serve agree acc seen acked q r s s' \<Longrightarrow>
    interleave agree acc seen acked ops s ps s' (ps1 @ k r # ps2)"
| expire: "interleave agree acc seen acked ops s ps (s\<lparr>table := (table s)(x := None)\<rparr>) ps"

inductive reached :: "('v \<Rightarrow> 'v \<Rightarrow> bool) \<Rightarrow> ('q \<Rightarrow> ('k, 'v) access) \<Rightarrow> ('r \<Rightarrow> 'v option) \<Rightarrow>
    ('r \<Rightarrow> bool) \<Rightarrow> (('q, 'r, 'a) prog \<Rightarrow> bool) \<Rightarrow>
    ('k, 'v) shared \<Rightarrow> ('q, 'r, 'a) prog list \<Rightarrow> bool"
  for agree :: "'v \<Rightarrow> 'v \<Rightarrow> bool" and acc :: "'q \<Rightarrow> ('k, 'v) access"
    and seen :: "'r \<Rightarrow> 'v option" and acked :: "'r \<Rightarrow> bool"
    and ops :: "('q, 'r, 'a) prog \<Rightarrow> bool"
where
  reached_init: "reached agree acc seen acked ops no_records []"
| reached_step: "reached agree acc seen acked ops s ps \<Longrightarrow>
    interleave agree acc seen acked ops s ps s' ps' \<Longrightarrow> reached agree acc seen acked ops s' ps'"

text \<open>
  A concrete store of this kind, to run operations against: it answers reads with what is
  stored and writes with whether they took effect; \<open>other\<close> answers every other call.
\<close>

definition plain_store :: "('v \<Rightarrow> 'v \<Rightarrow> bool) \<Rightarrow> ('q \<Rightarrow> ('k, 'v) access) \<Rightarrow> ('v option \<Rightarrow> 'r) \<Rightarrow>
    (bool \<Rightarrow> 'r) \<Rightarrow> ('q \<Rightarrow> 'r) \<Rightarrow> 'q \<Rightarrow> ('k, 'v) shared \<Rightarrow> 'r \<times> ('k, 'v) shared" where
  "plain_store agree acc found wrote other q s = (case acc q of
       Read k \<Rightarrow> (found (table s k), s)
     | Insert k v \<Rightarrow>
         if news (commits s) k = []
         then (wrote True,
               s\<lparr>table := (table s)(k \<mapsto> v), commits := commits s @ [(k, None, v)]\<rparr>)
         else (wrote False, s)
     | Cas k b a \<Rightarrow>
         (case table s k of
            Some c \<Rightarrow>
              if agree c b
              then (wrote True,
                    s\<lparr>table := (table s)(k \<mapsto> a), commits := commits s @ [(k, Some c, a)]\<rparr>)
              else (wrote False, s)
          | None \<Rightarrow> (wrote False, s))
     | Other \<Rightarrow> (other q, s))"

lemma plain_store_serves:
  assumes "\<And>x. seen (found x) = x" "\<not> acked (wrote False)"
  shows "serve agree acc seen acked q (fst (plain_store agree acc found wrote other q s)) s
     (snd (plain_store agree acc found wrote other q s))"
proof (cases "acc q")
  case (Read k)
  with assms show ?thesis by (simp add: plain_store_def serve_read)
next
  case (Insert k v)
  with assms show ?thesis by (simp add: plain_store_def serve_insert serve_refused)
next
  case (Cas k b a)
  with assms show ?thesis
    by (auto simp: plain_store_def serve_cas serve_refused split: option.split)
next
  case Other
  then show ?thesis by (simp add: plain_store_def serve_other)
qed

lemma reached_run:
  assumes H: "\<And>q s. serve agree acc seen acked q (fst (H q s)) s (snd (H q s))"
    and r: "reached agree acc seen acked ops s ps" and p: "ops p"
  shows "\<exists>ps'. reached agree acc seen acked ops (snd (run H p s)) ps'"
proof -
  have "reached agree acc seen acked ops s (p # ps) \<Longrightarrow>
      \<exists>ps'. reached agree acc seen acked ops (snd (run H p s)) ps'" for p s
  proof (induction p arbitrary: s)
    case (Call q k)
    have "interleave agree acc seen acked ops s ([] @ Call q k # ps) (snd (H q s))
        ([] @ k (fst (H q s)) # ps)"
      by (rule act [OF refl H])
    with Call.prems have "reached agree acc seen acked ops (snd (H q s)) (k (fst (H q s)) # ps)"
      using reached_step by fastforce
    with Call.IH show ?case by simp
  qed auto
  moreover have "reached agree acc seen acked ops s (p # ps)"
    by (rule reached_step [OF r start [where ops = ops, OF p]])
  ultimately show ?thesis by blast
qed

section \<open>The discipline an operation keeps\<close>

text \<open>
  \<open>disciplined\<close> reads an operation's tree: it only replaces records it has read or written
  itself (\<open>K\<close>), only by steps of the declared relation, and only inserts initial records.
  \<open>gains\<close> is what an answered call adds to \<open>K\<close>.
\<close>

definition allowed :: "('k \<Rightarrow> 'v \<Rightarrow> bool) \<Rightarrow> ('v \<Rightarrow> 'v \<Rightarrow> bool) \<Rightarrow> ('q \<Rightarrow> ('k, 'v) access) \<Rightarrow>
    ('k \<times> 'v) set \<Rightarrow> 'q \<Rightarrow> bool" where
  "allowed init step acc K q = (case acc q of
       Read x \<Rightarrow> True
     | Insert x v \<Rightarrow> init x v
     | Cas x b a \<Rightarrow> (x, b) \<in> K \<and> step b a
     | Other \<Rightarrow> True)"

definition plausible :: "('k \<Rightarrow> 'v \<Rightarrow> bool) \<Rightarrow> ('q \<Rightarrow> ('k, 'v) access) \<Rightarrow> ('r \<Rightarrow> 'v option) \<Rightarrow>
    'q \<Rightarrow> 'r \<Rightarrow> bool" where
  "plausible good acc seen q r = (case acc q of
       Read x \<Rightarrow> (case seen r of None \<Rightarrow> True | Some v \<Rightarrow> good x v)
     | Insert x v \<Rightarrow> True
     | Cas x b a \<Rightarrow> True
     | Other \<Rightarrow> True)"

definition gains :: "('q \<Rightarrow> ('k, 'v) access) \<Rightarrow> ('r \<Rightarrow> 'v option) \<Rightarrow> ('r \<Rightarrow> bool) \<Rightarrow>
    'q \<Rightarrow> 'r \<Rightarrow> ('k \<times> 'v) set" where
  "gains acc seen acked q r = (case acc q of
       Read x \<Rightarrow> (case seen r of None \<Rightarrow> {} | Some v \<Rightarrow> {(x, v)})
     | Insert x v \<Rightarrow> (if acked r then {(x, v)} else {})
     | Cas x b a \<Rightarrow> (if acked r then {(x, a)} else {})
     | Other \<Rightarrow> {})"

lemmas discipline_defs = allowed_def plausible_def gains_def

primrec disciplined :: "('k \<Rightarrow> 'v \<Rightarrow> bool) \<Rightarrow> ('k \<Rightarrow> 'v \<Rightarrow> bool) \<Rightarrow> ('v \<Rightarrow> 'v \<Rightarrow> bool) \<Rightarrow>
    ('q \<Rightarrow> ('k, 'v) access) \<Rightarrow> ('r \<Rightarrow> 'v option) \<Rightarrow> ('r \<Rightarrow> bool) \<Rightarrow>
    ('q, 'r, 'a) prog \<Rightarrow> ('k \<times> 'v) set \<Rightarrow> bool" where
  "disciplined good init step acc seen acked (Ret a) = (\<lambda>K. True)"
| "disciplined good init step acc seen acked (Call q k) = (\<lambda>K. allowed init step acc K q \<and>
     (\<forall>r. plausible good acc seen q r \<longrightarrow>
        disciplined good init step acc seen acked (k r) (gains acc seen acked q r \<union> K)))"
| "disciplined good init step acc seen acked Spin = (\<lambda>K. True)"

lemma allowed_mono: "allowed init step acc K q \<Longrightarrow> K \<subseteq> K' \<Longrightarrow> allowed init step acc K' q"
  by (auto simp: allowed_def split: access.splits)

lemma disciplined_mono:
  "disciplined good init step acc seen acked p K \<Longrightarrow> K \<subseteq> K' \<Longrightarrow>
   disciplined good init step acc seen acked p K'"
proof (induction p arbitrary: K K')
  case (Call q k)
  have "disciplined good init step acc seen acked (k r) (gains acc seen acked q r \<union> K')"
    if "plausible good acc seen q r" for r
    by (rule Call.IH [where K = "gains acc seen acked q r \<union> K"]) (use Call.prems that in auto)
  with Call.prems show ?case by (auto intro: allowed_mono)
qed auto

text \<open>
  Composition: what a first operation knows when it returns is at least what it knew.
  \<open>leaves\<close> is the second half of the composition rule: a postcondition on the result and
  the knowledge it comes with.
\<close>

primrec leaves :: "('k \<Rightarrow> 'v \<Rightarrow> bool) \<Rightarrow> ('q \<Rightarrow> ('k, 'v) access) \<Rightarrow> ('r \<Rightarrow> 'v option) \<Rightarrow> ('r \<Rightarrow> bool) \<Rightarrow>
    ('a \<Rightarrow> ('k \<times> 'v) set \<Rightarrow> bool) \<Rightarrow> ('q, 'r, 'a) prog \<Rightarrow> ('k \<times> 'v) set \<Rightarrow> bool" where
  "leaves good acc seen acked Q (Ret a) = (\<lambda>K. Q a K)"
| "leaves good acc seen acked Q (Call q k) = (\<lambda>K. \<forall>r. plausible good acc seen q r \<longrightarrow>
     leaves good acc seen acked Q (k r) (gains acc seen acked q r \<union> K))"
| "leaves good acc seen acked Q Spin = (\<lambda>K. True)"

lemma disciplined_pbind:
  "disciplined good init step acc seen acked p K \<Longrightarrow>
   leaves good acc seen acked (\<lambda>a K'. disciplined good init step acc seen acked (f a) K') p K \<Longrightarrow>
   disciplined good init step acc seen acked (pbind p f) K"
  by (induction p arbitrary: K) auto

lemma leaves_mono:
  "leaves good acc seen acked Q p K \<Longrightarrow> (\<And>a K'. K \<subseteq> K' \<Longrightarrow> Q a K' \<Longrightarrow> Q' a K') \<Longrightarrow>
   leaves good acc seen acked Q' p K"
proof (induction p arbitrary: K)
  case (Call q k)
  have "leaves good acc seen acked Q' (k r) (gains acc seen acked q r \<union> K)"
    if "plausible good acc seen q r" for r
    by (rule Call.IH) (use Call.prems that in auto)
  then show ?case by simp
qed auto

lemma leaves_pbind:
  "leaves good acc seen acked (\<lambda>a K'. leaves good acc seen acked Q (f a) K') p K \<Longrightarrow>
   leaves good acc seen acked Q (pbind p f) K"
  by (induction p arbitrary: K) auto

lemma leaves_any: "(\<And>a K'. Q a K') \<Longrightarrow> leaves good acc seen acked Q p K"
  by (induction p arbitrary: K) auto

section \<open>The contract and what it gives\<close>

locale versioned =
  fixes ver :: "'v \<Rightarrow> int"
    and agree :: "'v \<Rightarrow> 'v \<Rightarrow> bool"
    and good :: "'k \<Rightarrow> 'v \<Rightarrow> bool"
    and init :: "'k \<Rightarrow> 'v \<Rightarrow> bool"
    and step :: "'v \<Rightarrow> 'v \<Rightarrow> bool"
    and acc :: "'q \<Rightarrow> ('k, 'v) access"
    and seen :: "'r \<Rightarrow> 'v option"
    and acked :: "'r \<Rightarrow> bool"
    and ops :: "('q, 'r, 'a) prog \<Rightarrow> bool"
  assumes agree_ver: "agree c b \<Longrightarrow> ver c = ver b"
    and step_ver: "step b a \<Longrightarrow> ver b < ver a"
    and init_good: "init x v \<Longrightarrow> good x v"
    and step_good: "good x b \<Longrightarrow> step b a \<Longrightarrow> good x a"
    and ops_disciplined: "ops p \<Longrightarrow> disciplined good init step acc seen acked p {}"
begin

definition grown :: "('k, 'v) shared \<Rightarrow> bool" where
  "grown s \<longleftrightarrow>
     (\<forall>x v. table s x = Some v \<longrightarrow> news (commits s) x \<noteq> [] \<and> last (news (commits s) x) = v) \<and>
     (\<forall>x. sorted_wrt (\<lambda>v w. ver v < ver w) (news (commits s) x)) \<and>
     (\<forall>x. \<forall>v\<in>set (news (commits s) x). good x v) \<and>
     (\<forall>x. successively step (news (commits s) x)) \<and> linked (commits s) \<and>
     (\<forall>(x, b, a)\<in>set (commits s). case b of None \<Rightarrow> init x a | Some c \<Rightarrow> step c a \<and> good x c)"

definition known :: "('k, 'v) shared \<Rightarrow> ('k \<times> 'v) set" where
  "known s = {(x, v). v \<in> set (news (commits s) x)}"

definition tame :: "('k, 'v) shared \<Rightarrow> ('q, 'r, 'a) prog \<Rightarrow> bool" where
  "tame s p \<longleftrightarrow> disciplined good init step acc seen acked p (known s)"

lemma grown_last: "grown s \<Longrightarrow> table s x = Some v \<Longrightarrow>
    news (commits s) x \<noteq> [] \<and> last (news (commits s) x) = v"
  by (simp add: grown_def)

lemma grown_sorted: "grown s \<Longrightarrow> sorted_wrt (\<lambda>v w. ver v < ver w) (news (commits s) x)"
  by (simp add: grown_def)

lemma grown_good: "grown s \<Longrightarrow> v \<in> set (news (commits s) x) \<Longrightarrow> good x v"
  by (simp add: grown_def)

lemma sorted_last_greatest:
  "sorted_wrt (\<lambda>v w. ver v < ver w) xs \<Longrightarrow> v \<in> set xs \<Longrightarrow> v = last xs \<or> ver v < ver (last xs)"
  by (induction xs) auto

text \<open>The stored counter identifies the record: a stale writer cannot be mistaken for a fresh one.\<close>

lemma current_of_agree:
  assumes "grown s" "table s x = Some c" "(x, b) \<in> known s" "agree c b"
  shows "c = b"
proof -
  have b: "b \<in> set (news (commits s) x)" using assms(3) by (simp add: known_def)
  have l: "last (news (commits s) x) = c" using grown_last [OF assms(1,2)] by simp
  have "ver c = ver b" by (rule agree_ver [OF assms(4)])
  with sorted_last_greatest [OF grown_sorted [OF assms(1)] b] l show ?thesis by auto
qed

lemma known_mono: "commits s' = commits s @ l \<Longrightarrow> known s \<subseteq> known s'"
  by (auto simp: known_def news_def)

lemma grown_insert:
  assumes "grown s" "news (commits s) x = []" "init x v"
  shows "grown (s\<lparr>table := (table s)(x \<mapsto> v), commits := commits s @ [(x, None, v)]\<rparr>)"
  using assms init_good [OF assms(3)] unfolding grown_def by (auto simp: linked_snoc latest_def)

lemma grown_cas:
  assumes g: "grown s" and c: "table s x = Some c" and st: "step c a"
  shows "grown (s\<lparr>table := (table s)(x \<mapsto> a), commits := commits s @ [(x, Some c, a)]\<rparr>)"
proof -
  have l: "news (commits s) x \<noteq> []" "last (news (commits s) x) = c"
    using grown_last [OF g c] by auto
  have ic: "good x c" using grown_good [OF g, of c x] l last_in_set by metis
  have ia: "good x a" by (rule step_good [OF ic st])
  have lt: "ver v < ver a" if "v \<in> set (news (commits s) x)" for v
    using sorted_last_greatest [OF grown_sorted [OF g] that] step_ver [OF st] l(2) by auto
  show ?thesis
    using g l ic ia st lt unfolding grown_def
    by (auto simp: sorted_wrt_append successively_append_iff linked_snoc latest_def)
qed

lemma known_plausible:
  assumes "grown s" "acc q = Read x" "seen r = None \<or> seen r = table s x"
  shows "plausible good acc seen q r \<and> gains acc seen acked q r \<subseteq> known s"
proof (cases "seen r")
  case (Some v)
  with assms(3) have "table s x = Some v" by simp
  from grown_last [OF assms(1) this] have "v \<in> set (news (commits s) x)" by (metis last_in_set)
  with grown_good [OF assms(1)] Some assms(2) show ?thesis
    by (simp add: discipline_defs known_def)
qed (simp add: discipline_defs assms(2))

lemma tame_continue:
  assumes "tame s (Call q k)" "plausible good acc seen q r"
    and "gains acc seen acked q r \<union> known s \<subseteq> known s'"
  shows "tame s' (k r)"
  using assms unfolding tame_def by (auto intro: disciplined_mono)

lemma tame_allowed: "tame s (Call q k) \<Longrightarrow> allowed init step acc (known s) q"
  by (simp add: tame_def)

lemma known_commit:
  "known (s\<lparr>table := t, commits := commits s @ [(x, b, a)]\<rparr>) = insert (x, a) (known s)"
  by (auto simp: known_def split: if_splits)

lemma serve_keeps:
  assumes g: "grown s" and t: "tame s (Call q k)"
    and sv: "serve agree acc seen acked q r s s'"
  shows "grown s' \<and> known s \<subseteq> known s' \<and> tame s' (k r)"
  using sv
proof cases
  case (serve_read x)
  from known_plausible [OF g serve_read(2,3)] show ?thesis
    using tame_continue [OF t, of r s] serve_read(1) g by simp
next
  case (serve_insert x v)
  have i: "init x v" using tame_allowed [OF t] serve_insert(2) by (simp add: allowed_def)
  have "tame s' (k r)"
    by (rule tame_continue [OF t])
      (auto simp: serve_insert(1,2) known_commit discipline_defs split: if_splits)
  then show ?thesis
    using grown_insert [OF g serve_insert(3) i] serve_insert(1) known_commit by auto
next
  case (serve_cas x b a c)
  have b: "(x, b) \<in> known s" and st: "step b a"
    using tame_allowed [OF t] serve_cas(2) by (simp_all add: allowed_def)
  have "c = b" by (rule current_of_agree [OF g serve_cas(3) b serve_cas(4)])
  then have gs: "grown s'" using grown_cas [OF g serve_cas(3)] st serve_cas(1) by simp
  have "tame s' (k r)"
    by (rule tame_continue [OF t])
      (auto simp: serve_cas(1,2) known_commit discipline_defs split: if_splits)
  then show ?thesis using gs serve_cas(1) known_commit by auto
next
  case (serve_refused x a b)
  have "tame s' (k r)"
    by (rule tame_continue [OF t]) (use serve_refused in \<open>auto simp: discipline_defs\<close>)
  then show ?thesis using g serve_refused(1) by simp
next
  case serve_other
  have "tame s' (k r)"
    by (rule tame_continue [OF t]) (use serve_other in \<open>auto simp: discipline_defs\<close>)
  then show ?thesis using g serve_other(1) by simp
qed

lemma tame_mono: "tame s p \<Longrightarrow> known s \<subseteq> known s' \<Longrightarrow> tame s' p"
  unfolding tame_def by (rule disciplined_mono)

lemma interleave_keeps:
  assumes "interleave agree acc seen acked ops s ps s' ps'"
    and "grown s" and "\<forall>p\<in>set ps. tame s p"
  shows "grown s' \<and> (\<forall>p\<in>set ps'. tame s' p)"
  using assms
proof (induction rule: interleave.induct)
  case (start p s ps)
  have "tame s p"
    unfolding tame_def by (rule disciplined_mono [OF ops_disciplined [OF start(1)]]) simp
  with start show ?case by simp
next
  case (act ps ps1 q k ps2 r s s')
  then have "grown s' \<and> known s \<subseteq> known s' \<and> tame s' (k r)"
    by (intro serve_keeps [OF _ _ act(2)]) auto
  with act show ?case by (auto intro: tame_mono)
next
  case (expire s ps x)
  then show ?case by (auto simp: grown_def tame_def known_def)
qed

theorem reached_grown:
  "reached agree acc seen acked ops s ps \<Longrightarrow> grown s \<and> (\<forall>p\<in>set ps. tame s p)"
proof (induction rule: reached.induct)
  case reached_init
  show ?case by (simp add: grown_def no_records_def)
next
  case (reached_step s ps s' ps')
  then show ?case using interleave_keeps by blast
qed

text \<open>The contract's promises, in the form the components use.\<close>

lemma stored_good:
  assumes "reached agree acc seen acked ops s ps" "table s x = Some v"
  shows "good x v"
proof -
  have g: "grown s" using reached_grown [OF assms(1)] by simp
  from grown_last [OF this assms(2)] have "v \<in> set (news (commits s) x)" by (metis last_in_set)
  then show ?thesis by (rule grown_good [OF g])
qed

lemma written_good:
  assumes "reached agree acc seen acked ops s ps" "v \<in> set (news (commits s) x)"
  shows "good x v"
  using reached_grown [OF assms(1)] grown_good assms(2) by blast

lemma latest_good:
  assumes "reached agree acc seen acked ops s ps" "latest (commits s) x = Some v"
  shows "good x v"
proof -
  have g: "grown s" using reached_grown [OF assms(1)] by simp
  from assms(2) have "v \<in> set (news (commits s) x)" by (auto simp: latest_def split: if_splits)
  then show ?thesis by (rule grown_good [OF g])
qed

lemma committed_step:
  assumes "reached agree acc seen acked ops s ps" "(x, Some b, a) \<in> set (commits s)"
  shows "step b a \<and> good x b \<and> good x a"
proof -
  have "grown s" using reached_grown [OF assms(1)] by simp
  with assms(2) have "step b a \<and> good x b" by (fastforce simp: grown_def)
  with step_good show ?thesis by blast
qed

lemma committed_init:
  assumes "reached agree acc seen acked ops s ps" "(x, None, a) \<in> set (commits s)"
  shows "init x a"
proof -
  have "grown s" using reached_grown [OF assms(1)] by simp
  with assms(2) show ?thesis by (fastforce simp: grown_def)
qed

lemma versions_increase:
  assumes "reached agree acc seen acked ops s ps"
  shows "sorted_wrt (\<lambda>v w. ver v < ver w) (news (commits s) x)"
  using reached_grown [OF assms] by (simp add: grown_sorted)

text \<open>The committed values of one key are a path of the step relation.\<close>

lemma history_path:
  assumes "reached agree acc seen acked ops s ps"
  shows "successively step (news (commits s) x)"
  using reached_grown [OF assms] by (simp add: grown_def)

text \<open>A state without outgoing steps is committed at most once per key.\<close>

lemma successively_final:
  "successively step xs \<Longrightarrow> (\<And>b a. step b a \<Longrightarrow> \<not> final b) \<Longrightarrow> length (filter final xs) \<le> 1"
proof (induction xs)
  case (Cons v xs)
  show ?case
  proof (cases xs)
    case (Cons w ys)
    with Cons.prems have "\<not> final v" by auto
    with Cons.IH Cons.prems show ?thesis by (auto simp: successively_Cons)
  qed simp
qed simp

lemma successively_closed:
  assumes "\<And>b a. step b a \<Longrightarrow> P b \<Longrightarrow> P a"
  shows "successively step (v # ys) \<Longrightarrow> P v \<Longrightarrow> \<forall>w\<in>set ys. P w"
proof (induction ys arbitrary: v)
  case (Cons w ys)
  then have "step v w" "successively step (w # ys)" by simp_all
  moreover from this(1) Cons.prems(2) have "P w" by (rule assms)
  ultimately show ?case using Cons.IH by simp
qed simp

text \<open>Once a commit satisfies a closed condition, all later commits of the key do.\<close>

lemma closed_forever:
  assumes "reached agree acc seen acked ops s ps" "news (commits s) x = xs @ v # ys" "P v"
    and "\<And>b a. step b a \<Longrightarrow> P b \<Longrightarrow> P a" "w \<in> set ys"
  shows "P w"
proof -
  have "successively step (v # ys)"
    using history_path [OF assms(1), of x] assms(2) by (simp add: successively_append_iff)
  with successively_closed [of P] assms(3-5) show ?thesis by blast
qed

text \<open>What every step from such a commit establishes holds of every later commit.\<close>

lemma closed_after:
  assumes "reached agree acc seen acked ops s ps" "news (commits s) x = xs @ v # ys" "P v"
    and "\<And>b a. step b a \<Longrightarrow> P b \<Longrightarrow> P a \<and> Q a" "w \<in> set ys"
  shows "Q w"
proof -
  have "successively step (v # ys)"
    using history_path [OF assms(1), of x] assms(2) by (simp add: successively_append_iff)
  with assms(3,5) show ?thesis
  proof (induction ys arbitrary: v)
    case (Cons y ys)
    with assms(4) [of v y] show ?case by auto
  qed simp
qed

lemma final_committed_once:
  assumes "reached agree acc seen acked ops s ps" "\<And>b a. step b a \<Longrightarrow> \<not> final b"
  shows "length (filter final (news (commits s) x)) \<le> 1"
  using successively_final [OF history_path [OF assms(1)]] assms(2) by blast

text \<open>
  A potential that every step keeps and every step of kind \<open>w\<close> raises bounds the writes of
  that kind over the whole history of a key.
\<close>

lemma tally_le_potential:
  fixes phi :: "'v \<Rightarrow> nat"
  assumes r: "reached agree acc seen acked ops s ps"
    and up: "\<And>b a. good x b \<Longrightarrow> step b a \<Longrightarrow> phi b + (if w b a then 1 else 0) \<le> phi a"
  shows "tally w (commits s) x \<le> (case latest (commits s) x of None \<Rightarrow> 0 | Some v \<Rightarrow> phi v)"
proof -
  have "linked l \<Longrightarrow> (\<forall>(y, b, a)\<in>set l. case b of None \<Rightarrow> True | Some c \<Rightarrow> step c a \<and> good y c) \<Longrightarrow>
      tally w l x \<le> (case latest l x of None \<Rightarrow> 0 | Some v \<Rightarrow> phi v)" for l
  proof (induction l rule: rev_induct)
    case (snoc e l)
    obtain y b a where e: "e = (y, b, a)" by (cases e) auto
    have IH: "tally w l x \<le> (case latest l x of None \<Rightarrow> 0 | Some v \<Rightarrow> phi v)"
      using snoc by (simp add: linked_snoc)
    have b: "b = latest l y" using snoc.prems(1) e by (simp add: linked_snoc)
    show ?case
    proof (cases "y = x")
      case True
      with IH b e up snoc.prems(2) show ?thesis
        by (cases b) (fastforce simp: tally_snoc)+
    next
      case False
      with IH e show ?thesis by (simp add: tally_snoc)
    qed
  qed simp
  moreover have "grown s" using reached_grown [OF r] by simp
  then have "linked (commits s)"
    and "\<forall>(y, b, a)\<in>set (commits s). case b of None \<Rightarrow> True | Some c \<Rightarrow> step c a \<and> good y c"
    unfolding grown_def by (auto split: option.splits)
  ultimately show ?thesis by blast
qed

lemma version_written_once:
  assumes "reached agree acc seen acked ops s ps"
  shows "distinct (map ver (news (commits s) x))"
proof -
  have "sorted_wrt (<) (map ver (news (commits s) x))"
    using versions_increase [OF assms] by (simp add: sorted_wrt_map)
  then show ?thesis by (simp add: strict_sorted_iff)
qed

end

end
