(* ===== verification/EmailMachine.thy ===== *)
theory EmailMachine
  imports Email Versioned
begin

text \<open>
  The life of a transaction. \<open>tx_step\<close> is the state machine of \<open>email/service.go\<close> as a
  relation between the stored record and its replacement, one rule per write of the code;
  \<open>tx_good\<close> its invariant. Every write of \<open>signup\<close>, \<open>resend\<close> and \<open>confirm\<close> is such a step of
  a record the operation has read (\<open>email_disciplined\<close>), so the locale \<open>versioned\<close>, interpreted
  here as \<open>emails\<close>, gives the behaviour of any number of concurrent requests.
\<close>

section \<open>The state machine\<close>

inductive tx_step :: "golib \<Rightarrow> service \<Rightarrow> transaction \<Rightarrow> transaction \<Rightarrow> bool"
  for L :: golib and s :: service where
  rotate: "State t = Pending \<or> State t = Failed \<Longrightarrow> Resends t < 3 \<Longrightarrow> 60 \<le> n - LastSent t \<Longrightarrow>
    tx_step L s t (rotated L s (ID t) t b c n)"
| reclaim: "State t = Confirming \<Longrightarrow>
    tx_step L s t (t\<lparr>State := Pending, Version := Version t + 1\<rparr>)"
| wrong_code: "State t = Pending \<Longrightarrow> Attempts t < 5 \<Longrightarrow>
    tx_step L s t (t\<lparr>Attempts := Attempts t + 1, Version := Version t + 1\<rparr>)"
| claim: "State t = Pending \<Longrightarrow>
    tx_step L s t (t\<lparr>State := Confirming, ClaimedAt := n, Version := Version t + 1\<rparr>)"
| give_up: "State t = Confirming \<Longrightarrow>
    tx_step L s t (t\<lparr>State := Failed, Version := Version t + 1\<rparr>)"
| finish: "State t = Confirming \<Longrightarrow>
    tx_step L s t (t\<lparr>State := Confirmed, Subject := sub, BHash := '''', CDigest := '''',
      Challenge := '''', Version := Version t + 1\<rparr>)"

inductive_cases tx_step_cases: "tx_step L s b a"

definition tx_init :: "golib \<Rightarrow> service \<Rightarrow> string \<Rightarrow> transaction \<Rightarrow> bool" where
  "tx_init L s i t \<longleftrightarrow> (\<exists>e challenge b c n. t = new_transaction L s i e challenge b c n)"

definition tx_good :: "string \<Rightarrow> transaction \<Rightarrow> bool" where
  "tx_good i t \<longleftrightarrow> ID t = i \<and> 1 \<le> Version t \<and> Generation t = Resends t + 1 \<and>
     0 \<le> Resends t \<and> Resends t \<le> 3 \<and> 0 \<le> Attempts t \<and> Attempts t \<le> 5 \<and>
     Expires t = LastSent t + 600 \<and>
     State t \<in> {Pending, Confirming, Confirmed, Failed} \<and>
     (State t = Confirmed \<longrightarrow> BHash t = '''' \<and> CDigest t = '''' \<and> Challenge t = '''')"

lemma tx_step_version: "tx_step L s b a \<Longrightarrow> Version a = Version b + 1"
  by (induction rule: tx_step.induct) (auto simp: rotated_def)

lemma tx_step_id: "tx_step L s b a \<Longrightarrow> ID a = ID b"
  by (induction rule: tx_step.induct) (auto simp: rotated_def)

lemma tx_step_email: "tx_step L s b a \<Longrightarrow> EmailAddr a = EmailAddr b"
  by (induction rule: tx_step.induct) (auto simp: rotated_def)

lemma tx_init_good: "tx_init L s i t \<Longrightarrow> tx_good i t"
  by (auto simp: tx_init_def tx_good_def new_transaction_def)

lemma tx_step_good: "tx_good i b \<Longrightarrow> tx_step L s b a \<Longrightarrow> tx_good i a"
  by (erule tx_step_cases) (auto simp: tx_good_def rotated_def)

section \<open>The calls as accesses to the transaction table\<close>

fun email_access :: "email_call \<Rightarrow> (string, transaction) access" where
  "email_access (Put t) = Insert (ID t) t"
| "email_access (Get i) = Read i"
| "email_access (Swap b a) = Cas (ID a) b a"
| "email_access _ = Other"

definition email_seen :: "email_resp \<Rightarrow> transaction option" where
  "email_seen r = (case r_tx r of Inl _ \<Rightarrow> None | Inr t \<Rightarrow> Some t)"

definition email_acked :: "email_resp \<Rightarrow> bool" where
  "email_acked r \<longleftrightarrow> r_err r = None"

definition same_version :: "transaction \<Rightarrow> transaction \<Rightarrow> bool" where
  "same_version stored before \<longleftrightarrow> Version stored = Version before \<and> State stored = State before"

abbreviation email_disc :: "golib \<Rightarrow> service \<Rightarrow> 'a email_prog \<Rightarrow> (string \<times> transaction) set \<Rightarrow> bool" where
  "email_disc L s \<equiv> disciplined tx_good (tx_init L s) (tx_step L s) email_access email_seen email_acked"

abbreviation email_leaves :: "('a \<Rightarrow> (string \<times> transaction) set \<Rightarrow> bool) \<Rightarrow> 'a email_prog \<Rightarrow>
    (string \<times> transaction) set \<Rightarrow> bool" where
  "email_leaves Q \<equiv> leaves tx_good email_access email_seen email_acked Q"

text \<open>What each call asks of the knowledge and adds to it.\<close>

lemma email_gains:
  "gains email_access email_seen email_acked (Get i) r =
     (case r_tx r of Inl _ \<Rightarrow> {} | Inr t \<Rightarrow> {(i, t)})"
  "gains email_access email_seen email_acked (Swap b a) r =
     (if r_err r = None then {(ID a, a)} else {})"
  "gains email_access email_seen email_acked (Put t) r =
     (if r_err r = None then {(ID t, t)} else {})"
  "email_access q = Other \<Longrightarrow> gains email_access email_seen email_acked q r = {}"
  by (simp_all add: gains_def email_seen_def email_acked_def split: sum.split)

lemma email_allowed:
  "allowed init step email_access K (Get i)"
  "allowed init step email_access K (Swap b a) \<longleftrightarrow> (ID a, b) \<in> K \<and> step b a"
  "allowed init step email_access K (Put t) \<longleftrightarrow> init (ID t) t"
  "email_access q = Other \<Longrightarrow> allowed init step email_access K q"
  by (simp_all add: allowed_def)

lemma email_plausible:
  "plausible good email_access email_seen (Get i) r \<longleftrightarrow> (\<forall>t. r_tx r = Inr t \<longrightarrow> good i t)"
  "plausible good email_access email_seen (Swap b a) r"
  "plausible good email_access email_seen (Put t) r"
  "email_access q = Other \<Longrightarrow> plausible good email_access email_seen q r"
  by (auto simp: plausible_def email_seen_def split: sum.split)

lemmas disc_simps = email_gains email_allowed email_plausible

lemma disc_code_loop:
  "(\<And>r. email_disc L s (k r) K) \<Longrightarrow> email_disc L s (code_loop fuel acc k) K"
proof (induction fuel arbitrary: acc)
  case 0
  then show ?case by (subst code_loop.simps) simp
next
  case (Suc fuel)
  then show ?case
    by (subst code_loop.simps) (auto simp: call_simps disc_simps split: sum.split)
qed

lemma disc_code: "(\<And>r. email_disc L s (k r) K) \<Longrightarrow> email_disc L s (code fuel k) K"
  unfolding code_def by (rule disc_code_loop)

lemma disc_secret: "(\<And>r. email_disc L s (k r) K) \<Longrightarrow> email_disc L s (secret k) K"
  by (simp add: secret_def call_simps disc_simps)

lemma tx_init_new: "tx_init L s (ID (new_transaction L s i e challenge b c n))
    (new_transaction L s i e challenge b c n)"
  by (auto simp: tx_init_def new_transaction_def)

lemma disc_signup: "email_disc L s (signup L s fuel addr challenge method source) K"
  unfolding signup_def
  by (auto simp: call_simps disc_simps tx_init_new
      intro!: disc_secret disc_code split: sum.split option.split)

lemma disc_resend_rotate:
  assumes "(i, t) \<in> K" "ID t = i" "State t = Pending \<or> State t = Failed" "Resends t < 3"
    "60 \<le> n - LastSent t"
  shows "email_disc L s (resend_rotate L s fuel i t n) K"
proof -
  have st: "tx_step L s t (rotated L s i t b c n)" for b c
    using tx_step.rotate [of t n L s b c] assms by simp
  then show ?thesis
    using assms(1,2) unfolding resend_rotate_def
    by (auto simp: call_simps disc_simps rotated_def intro!: disc_secret disc_code
        split: sum.split option.split)
qed

lemma disc_resend: "email_disc L s (resend L s fuel i source) K"
  unfolding resend_def
  by (auto simp: call_simps disc_simps tx_good_def intro!: disc_resend_rotate
      split: sum.split option.split)

lemma disc_confirm_recover:
  assumes "(i, t) \<in> K" "tx_good i t"
  shows "email_disc L s (confirm_recover L s inp t) K"
    and "email_leaves (\<lambda>r K'. \<forall>t'. r = Inr t' \<longrightarrow> (i, t') \<in> K' \<and> tx_good i t')
      (confirm_recover L s inp t) K"
proof -
  have "tx_step L s t (t\<lparr>State := Pending, Version := Version t + 1\<rparr>)"
    if "State t = Confirming" using that by (rule tx_step.reclaim)
  moreover from tx_step_good [OF assms(2) this]
  have "tx_good i (t\<lparr>State := Pending, Version := Version t + 1\<rparr>)"
    if "State t = Confirming" using that .
  moreover have "ID t = i" using assms(2) by (simp add: tx_good_def)
  ultimately show "email_disc L s (confirm_recover L s inp t) K"
    and "email_leaves (\<lambda>r K'. \<forall>t'. r = Inr t' \<longrightarrow> (i, t') \<in> K' \<and> tx_good i t')
      (confirm_recover L s inp t) K"
    using assms unfolding confirm_recover_def
    by (auto simp: call_simps disc_simps Let_def split: sum.split option.split)
qed

lemma disc_confirm_proof:
  assumes "(i, t) \<in> K" "tx_good i t" "State t = Pending"
  shows "email_disc L s (confirm_proof L s inp t) K"
    and "email_leaves (\<lambda>r K'. r = None \<longrightarrow> (i, t) \<in> K') (confirm_proof L s inp t) K"
proof -
  have "ID t = i" using assms(2) by (simp add: tx_good_def)
  with assms show "email_disc L s (confirm_proof L s inp t) K"
    and "email_leaves (\<lambda>r K'. r = None \<longrightarrow> (i, t) \<in> K') (confirm_proof L s inp t) K"
    unfolding confirm_proof_def
    by (auto simp: call_simps disc_simps Let_def split: sum.split option.split
        intro: tx_step.wrong_code)
qed

lemma disc_confirm_claim:
  assumes "(i, t) \<in> K" "tx_good i t" "State t = Pending"
  shows "email_disc L s (confirm_claim L s t) K"
proof -
  have i: "ID t = i" using assms(2) by (simp add: tx_good_def)
  have 1: "tx_step L s t (t\<lparr>State := Confirming, ClaimedAt := n, Version := Version t + 1\<rparr>)" for n
    using assms(3) by (rule tx_step.claim)
  let ?c = "\<lambda>n. t\<lparr>State := Confirming, ClaimedAt := n, Version := Version t + 1\<rparr>"
  have 2: "tx_step L s (?c n) (?c n\<lparr>State := Failed, Version := Version (?c n) + 1\<rparr>)" for n
    using tx_step.give_up [of "?c n" L s] by simp
  have 3: "tx_step L s (?c n) (?c n\<lparr>State := Confirmed, Subject := sub, BHash := '''',
      CDigest := '''', Challenge := '''', Version := Version (?c n) + 1\<rparr>)" for n sub
    using tx_step.finish [of "?c n" L s sub] by simp
  show ?thesis
    using assms(1) i 1 2 3 unfolding confirm_claim_def
    by (auto simp: call_simps disc_simps Let_def split: sum.split option.split)
qed

lemma disc_confirm_checked:
  assumes "(i, t) \<in> K" "tx_good i t"
  shows "email_disc L s (confirm_checked L s inp t) K"
  unfolding confirm_checked_def
  using assms
  by (auto simp: call_simps disc_simps disc_confirm_claim split: option.split
      intro!: disciplined_pbind disc_confirm_proof leaves_mono [OF disc_confirm_proof(2)])

lemma disc_confirm: "email_disc L s (confirm L s inp) K"
  unfolding confirm_def
  by (auto simp: call_simps disc_simps disc_confirm_checked split: sum.split
      intro!: disciplined_pbind disc_confirm_recover leaves_mono [OF disc_confirm_recover(2)])

section \<open>Any number of requests\<close>

definition email_ops :: "golib \<Rightarrow> service \<Rightarrow> unit email_prog \<Rightarrow> bool" where
  "email_ops L s p \<longleftrightarrow>
     (\<exists>fuel addr challenge method source.
        p = pbind (signup L s fuel addr challenge method source) (\<lambda>_. Ret ())) \<or>
     (\<exists>fuel i source. p = pbind (resend L s fuel i source) (\<lambda>_. Ret ())) \<or>
     (\<exists>inp. p = pbind (confirm L s inp) (\<lambda>_. Ret ()))"

lemma email_disciplined: "email_ops L s p \<Longrightarrow> email_disc L s p {}"
  by (auto simp: email_ops_def
      intro!: disciplined_pbind disc_signup disc_resend disc_confirm leaves_any)

interpretation emails: versioned Version same_version tx_good "tx_init L s" "tx_step L s"
  email_access email_seen email_acked "email_ops L s" for L s
proof unfold_locales
  show "same_version c b \<Longrightarrow> Version c = Version b" for c b
    by (simp add: same_version_def)
  show "tx_step L s b a \<Longrightarrow> Version b < Version a" for b a
    using tx_step_version [of L s b a] by simp
qed (fact tx_init_good tx_step_good email_disciplined)+

abbreviation email_reached :: "golib \<Rightarrow> service \<Rightarrow> (string, transaction) shared \<Rightarrow>
    unit email_prog list \<Rightarrow> bool" where
  "email_reached L s \<equiv> reached same_version email_access email_seen email_acked (email_ops L s)"

end
