(* ===== verification/EmailProps.thy ===== *)
theory EmailProps
  imports EmailMachine
begin

text \<open>
  What the email service promises: when a session is issued, when an interrupted claim is
  reclaimed, what a mail contains, what the public reply of signup reveals, how the six-digit
  code is drawn, and, through the interpretation \<open>emails\<close>, the guarantees for any number of
  concurrent requests (bounds on attempts and resends, one confirmation per request).
\<close>

section \<open>Tokens, codes and error codes\<close>

lemma valid_token_encoded: "length b = 32 \<Longrightarrow> valid_token (raw_url_encode b)"
  by (simp add: valid_token_def raw_url_roundtrip)

text \<open>A token is valid exactly when it is the canonical base64url text of 32 bytes; in
particular the tokens \<open>secret\<close> draws are valid, and a valid token has 43 characters.\<close>

theorem valid_token_canonical:
  "valid_token v = (\<exists>b. length b = 32 \<and> v = raw_url_encode b \<and> length v = 43)"
  by (auto simp: valid_token_def raw_url_roundtrip length_raw_url_encode split: option.split)

text \<open>The code an operational error carries is never empty, at most 80 characters, and only
letters, digits, dash and underscore, whatever the provider reported.\<close>

theorem operation_code_clean:
  "\<exists>code. operation L stage err = OperationalError stage code err \<and> code \<noteq> '''' \<and>
     length code \<le> 80 \<and> list_all code_char code"
  unfolding operation_def Let_def by (auto simp: code_char_def char_classes split: option.split)

text \<open>A random source that hands out the bytes of a list.\<close>

definition byte_tape :: "email_call \<Rightarrow> nat list \<Rightarrow> email_resp \<times> nat list" where
  "byte_tape q bs =
     (\<lparr>r_err = None, r_tx = Inl ErrNotFound, r_bool = Inr True,
       r_text = Inr [char_of (hd bs)], r_session = Inl ErrNotFound, r_unix = 0\<rparr>, tl bs)"

definition accepted_digits :: "nat list \<Rightarrow> string" where
  "accepted_digits bs = map (\<lambda>b. char_of (48 + b mod 10)) (filter (\<lambda>b. b < 250) bs)"

lemma byte_tape_random: "r_text (fst (byte_tape (Random n) bs)) = Inr [char_of (hd bs)]"
    "snd (byte_tape (Random n) bs) = tl bs"
  by (simp_all add: byte_tape_def)

lemma code_loop_tape:
  assumes "\<forall>b\<in>set bs. b < 256" "length acc \<le> 6" "fuel = length bs"
  shows "fst (run byte_tape (code_loop fuel acc Ret) bs) =
     (if length (accepted_digits bs) + length acc < 6 then None
      else Some (Inr (take 6 (acc @ accepted_digits bs))))"
  using assms
proof (induction fuel arbitrary: acc bs)
  case 0
  then show ?case by (subst code_loop.simps) (auto simp: accepted_digits_def)
next
  case (Suc fuel)
  then obtain b bs' where bs: "bs = b # bs'" and b: "b < 256" by (cases bs) auto
  show ?case
  proof (cases "length acc < 6")
    case True
    have h: "hd (fill (Suc 0) [char_of b]) = char_of b" by (simp add: fill_def)
    show ?thesis
      using Suc.IH [of bs' acc] Suc.IH [of bs' "acc @ [char_of (48 + b mod 10)]"] Suc.prems True b
      by (subst code_loop.simps)
        (auto simp: bs random_def byte_tape_random h accepted_digits_def)
  next
    case False
    with Suc.prems show ?thesis by (subst code_loop.simps) (simp add: accepted_digits_def)
  qed
qed

text \<open>The digit sampler returns, and returns the first six accepted digits, exactly when six
of the drawn bytes are below 250; with fewer it is still drawing.\<close>

theorem code_samples:
  assumes "\<forall>b\<in>set bs. b < 256"
  shows "fst (run byte_tape (code (length bs) Ret) bs) =
     (if length (accepted_digits bs) < 6 then None
      else Some (Inr (take 6 (accepted_digits bs))))"
  unfolding code_def using code_loop_tape [OF assms, of "''''"] by simp

theorem code_samples_witness:
  "fst (run byte_tape (code (length [0, 255, 19, 28, 251, 37, 46, 249 :: nat]) Ret)
     [0, 255, 19, 28, 251, 37, 46, 249]) = Some (Inr ''098769'')"
proof -
  have h: "\<forall>b\<in>set [0, 255, 19, 28, 251, 37, 46, 249 :: nat]. b < 256" by simp
  have d: "accepted_digits [0, 255, 19, 28, 251, 37, 46, 249] = ''098769''" by code_simp
  show ?thesis unfolding code_samples [OF h] d by simp
qed

section \<open>When a session is issued\<close>

definition second_proof_ok :: "golib \<Rightarrow> service \<Rightarrow> confirm_input \<Rightarrow> transaction \<Rightarrow> bool" where
  "second_proof_ok L s inp t \<longleftrightarrow>
    (if TokenA inp \<noteq> ''''
     then \<exists>a. raw_url_decode (TokenA inp) = Some a \<and> length a = 32 \<and>
            raw_url_encode (sha256 L a) = Challenge t
     else length (TokenC inp) = 6 \<and> set (TokenC inp) \<subseteq> set ''0123456789'' \<and> Attempts t < 5 \<and>
          CDigest t = digest L s [ID t, show_int (Generation t), TokenC inp])"

text \<open>
  The last five calls of a successful confirmation of the pending record \<open>t\<close>, in order: read
  the clock, store the claim, create the account, store the confirmed record without its
  proofs, ask for the session.
\<close>

definition claim_calls :: "transaction \<Rightarrow> email_resp \<Rightarrow> email_resp \<Rightarrow> email_resp \<Rightarrow> email_resp \<Rightarrow>
    email_resp \<Rightarrow> (email_call \<times> email_resp) list" where
  "claim_calls t r0 r1 r2 r3 r4 =
    (let c = t\<lparr>State := Confirming, ClaimedAt := r_unix r0, Version := Version t + 1\<rparr>;
         d = c\<lparr>State := Confirmed, Subject := projr (r_text r2), BHash := '''', CDigest := '''',
                Challenge := [], Version := Version c + 1\<rparr>
     in [(Now, r0), (Swap t c, r1), (Confirm (EmailAddr t), r2), (Swap c d, r3),
         (Session (EmailAddr t), r4)])"

definition claimed :: "transaction \<Rightarrow> (email_call \<times> email_resp) list \<Rightarrow> session \<Rightarrow> bool" where
  "claimed t h ses \<longleftrightarrow> (\<exists>r0 r1 r2 r3 r4. h = claim_calls t r0 r1 r2 r3 r4 \<and>
     r_err r1 = None \<and> isl (r_text r2) = False \<and> r_err r3 = None \<and> r_session r4 = Inr ses)"

lemma claimedI:
  "r_err r1 = None \<Longrightarrow> r_text r2 = Inr sub \<Longrightarrow> r_err r3 = None \<Longrightarrow> r_session r4 = Inr ses \<Longrightarrow>
   claimed t (claim_calls t r0 r1 r2 r3 r4) ses"
  unfolding claimed_def by fastforce

lemma safe_confirm_claim:
  "safe (\<lambda>_ _. True) (\<lambda>r h'. \<forall>ses. r = Inr ses \<longrightarrow> (\<exists>hc. h' = h @ hc \<and> claimed t hc ses))
     (confirm_claim L s t) h"
  using claimedI [where t = t]
  unfolding confirm_claim_def claim_calls_def
  by (simp add: call_simps Let_def split: sum.split option.split)

text \<open>The calls of an accepted second proof: none for token A, the attempt budget for code C.\<close>

definition proved :: "golib \<Rightarrow> service \<Rightarrow> confirm_input \<Rightarrow> transaction \<Rightarrow>
    (email_call \<times> email_resp) list \<Rightarrow> bool" where
  "proved L s inp t h \<longleftrightarrow> second_proof_ok L s inp t \<and>
     (if TokenA inp \<noteq> '''' then h = []
      else \<exists>r1 r2. r_err r2 = None \<and> h = [(Now, r1),
             (Charge (''code-email:'' @ digest L s [EmailAddr t]) 10 (r_unix r1), r2)])"

lemma safe_confirm_proof:
  "safe (\<lambda>_ _. True) (\<lambda>r h'. r = None \<longrightarrow> (\<exists>hp. h' = h @ hp \<and> proved L s inp t hp))
     (confirm_proof L s inp t) h"
  unfolding confirm_proof_def proved_def second_proof_ok_def
  by (auto simp: call_simps Let_def same_def trim_set_empty_iff split: option.split)

text \<open>
  From the record that was read to the pending record the claim is made on: the same record, or
  a claim at least 60 seconds old, not expired and with the right token B, that was stored back
  to pending after the identity provider answered that the address can still be registered.
\<close>

definition recovered :: "golib \<Rightarrow> service \<Rightarrow> confirm_input \<Rightarrow> transaction \<Rightarrow> transaction \<Rightarrow>
    (email_call \<times> email_resp) list \<Rightarrow> bool" where
  "recovered L s inp t0 t h \<longleftrightarrow>
     (State t0 = Pending \<and> t = t0 \<and> h = []) \<or>
     (State t0 = Confirming \<and> t = t0\<lparr>State := Pending, Version := Version t0 + 1\<rparr> \<and>
      (\<exists>r1 r2 r3 r4. 60 \<le> r_unix r1 - ClaimedAt t0 \<and> r_unix r2 < Expires t0 \<and>
         BHash t0 = hash L (TokenB inp) \<and> r_bool r3 = Inr True \<and> r_err r4 = None \<and>
         h = [(Now, r1), (Now, r2), (Eligible (EmailAddr t0), r3), (Swap t0 t, r4)]))"

lemma safe_confirm_recover:
  "safe (\<lambda>_ _. True) (\<lambda>r h'. \<forall>t. r = Inr t \<and> State t = Pending \<longrightarrow>
       (\<exists>hr. h' = h @ hr \<and> recovered L s inp t0 t hr))
     (confirm_recover L s inp t0) h"
  unfolding confirm_recover_def recovered_def
  by (auto simp: call_simps Let_def same_def split: option.split sum.split)

definition session_justified :: "golib \<Rightarrow> service \<Rightarrow> confirm_input \<Rightarrow>
    (email_call \<times> email_resp) list \<Rightarrow> session \<Rightarrow> bool" where
  "session_justified L s inp h ses \<longleftrightarrow> (\<exists>r t0 t hr rn hp hc.
     h = (Get (RequestID inp), r) # hr @ (Now, rn) # hp @ hc \<and> r_tx r = Inr t0 \<and>
     recovered L s inp t0 t hr \<and> r_unix rn < Expires t \<and> BHash t = hash L (TokenB inp) \<and>
     proved L s inp t hp \<and> claimed t hc ses)"

lemma safe_confirm_checked:
  "safe (\<lambda>_ _. True) (\<lambda>r h'. \<forall>ses. r = Inr ses \<longrightarrow> State t = Pending \<and>
       (\<exists>rn hp hc. h' = h @ (Now, rn) # hp @ hc \<and> r_unix rn < Expires t \<and>
         BHash t = hash L (TokenB inp) \<and> proved L s inp t hp \<and> claimed t hc ses))
     (confirm_checked L s inp t) h"
proof -
  let ?post = "\<lambda>r h'. \<forall>ses. r = Inr ses \<longrightarrow>
       (\<exists>rn hp hc. h' = h @ (Now, rn) # hp @ hc \<and> r_unix rn < Expires t \<and>
         BHash t = hash L (TokenB inp) \<and> proved L s inp t hp \<and> claimed t hc ses)"
  let ?k = "\<lambda>r. case r of Some err \<Rightarrow> Ret (Inl err) | None \<Rightarrow> confirm_claim L s t"
  have "safe (\<lambda>_ _. True) ?post (pbind (confirm_proof L s inp t) ?k) (h @ [(Now, rn)])"
    if rn: "r_unix rn < Expires t" "BHash t = hash L (TokenB inp)" for rn
  proof (rule safe_bindI [OF safe_confirm_proof])
    fix x :: "email_err option" and h'
    assume x: "x = None \<longrightarrow> (\<exists>hp. h' = (h @ [(Now, rn)]) @ hp \<and> proved L s inp t hp)"
    show "safe (\<lambda>_ _. True) ?post (?k x) h'"
    proof (cases x)
      case None
      with x obtain hp where hp: "h' = h @ (Now, rn) # hp" "proved L s inp t hp" by auto
      have "safe (\<lambda>_ _. True) ?post (confirm_claim L s t) h'"
        by (rule safe_conseq [OF safe_confirm_claim]) (use rn hp in force)
      with None show ?thesis by simp
    qed simp
  qed
  then show ?thesis
    unfolding confirm_checked_def by (simp add: call_simps same_def)
qed

lemma safe_confirm:
  "safe (\<lambda>_ _. True) (\<lambda>r h. \<forall>ses. r = Inr ses \<longrightarrow> session_justified L s inp h ses)
     (confirm L s inp) []"
proof -
  let ?post = "\<lambda>r h. \<forall>ses. r = Inr ses \<longrightarrow> session_justified L s inp h ses"
  let ?k = "\<lambda>x. case x of Inl err \<Rightarrow> Ret (Inl err) | Inr t \<Rightarrow> confirm_checked L s inp t"
  have "safe (\<lambda>_ _. True) ?post (pbind (confirm_recover L s inp t0) ?k) [(Get (RequestID inp), r)]"
    if r: "r_tx r = Inr t0" for r t0
  proof (rule safe_bindI [OF safe_confirm_recover])
    fix x :: "email_err + transaction" and h'
    assume x: "\<forall>t. x = Inr t \<and> State t = Pending \<longrightarrow>
      (\<exists>hr. h' = [(Get (RequestID inp), r)] @ hr \<and> recovered L s inp t0 t hr)"
    show "safe (\<lambda>_ _. True) ?post (?k x) h'"
    proof (cases x)
      case (Inr t)
      have "safe (\<lambda>_ _. True) ?post (confirm_checked L s inp t) h'"
      proof (rule safe_conseq [OF safe_confirm_checked])
        fix a h''
        assume a: "\<forall>ses. a = Inr ses \<longrightarrow> State t = Pending \<and>
          (\<exists>rn hp hc. h'' = h' @ (Now, rn) # hp @ hc \<and> r_unix rn < Expires t \<and>
            BHash t = hash L (TokenB inp) \<and> proved L s inp t hp \<and> claimed t hc ses)"
        show "?post a h''"
        proof (intro allI impI)
          fix ses assume "a = Inr ses"
          with a Inr x r show "session_justified L s inp h'' ses"
            unfolding session_justified_def by force
        qed
      qed
      with Inr show ?thesis by simp
    qed simp
  qed
  then show ?thesis
    unfolding confirm_def by (simp add: call_simps split: sum.split)
qed

section \<open>A world to run against\<close>

text \<open>
  A store with compare-and-swap, a clock that stands still, and an identity provider, random
  source and mailer with given answers. The theorems about all answers do not use it; the ones
  that say an operation succeeds do, and so do the witnesses.
\<close>

record email_world =
  w_table :: "string \<Rightarrow> transaction option"
  w_clock :: int
  w_bytes :: string
  w_budget :: "email_err option"
  w_eligible :: "email_err + bool"
  w_account :: "email_err + string"
  w_login :: "email_err + session"
  w_mail :: "(string \<times> string \<times> string) list"

definition no_resp :: email_resp where
  "no_resp = \<lparr>r_err = None, r_tx = Inl ErrNotFound, r_bool = Inl ErrNotFound,
     r_text = Inl ErrNotFound, r_session = Inl ErrNotFound, r_unix = 0\<rparr>"

fun email_serve :: "email_call \<Rightarrow> email_world \<Rightarrow> email_resp \<times> email_world" where
  "email_serve (Put t) w =
     (case w_table w (ID t) of
        None \<Rightarrow> (no_resp, w\<lparr>w_table := (w_table w)(ID t \<mapsto> t)\<rparr>)
      | Some _ \<Rightarrow> (no_resp\<lparr>r_err := Some ErrConflict\<rparr>, w))"
| "email_serve (Get i) w =
     (no_resp\<lparr>r_tx := (case w_table w i of None \<Rightarrow> Inl ErrNotFound | Some t \<Rightarrow> Inr t)\<rparr>, w)"
| "email_serve (Swap b a) w =
     (case w_table w (ID a) of
        None \<Rightarrow> (no_resp\<lparr>r_err := Some ErrConflict\<rparr>, w)
      | Some c \<Rightarrow> if same_version c b then (no_resp, w\<lparr>w_table := (w_table w)(ID a \<mapsto> a)\<rparr>)
                 else (no_resp\<lparr>r_err := Some ErrConflict\<rparr>, w))"
| "email_serve (Charge name limit t) w = (no_resp\<lparr>r_err := w_budget w\<rparr>, w)"
| "email_serve (Send addr link c) w = (no_resp, w\<lparr>w_mail := w_mail w @ [(addr, link, c)]\<rparr>)"
| "email_serve (Eligible addr) w = (no_resp\<lparr>r_bool := w_eligible w\<rparr>, w)"
| "email_serve (Confirm addr) w = (no_resp\<lparr>r_text := w_account w\<rparr>, w)"
| "email_serve (Session addr) w = (no_resp\<lparr>r_session := w_login w\<rparr>, w)"
| "email_serve Now w = (no_resp\<lparr>r_unix := w_clock w\<rparr>, w)"
| "email_serve (Random n) w = (no_resp\<lparr>r_text := Inr (w_bytes w)\<rparr>, w)"

lemma no_resp_simps [simp]:
  "r_err no_resp = None" "r_text no_resp = Inl ErrNotFound"
  by (simp_all add: no_resp_def)

lemma same_version_refl [simp]: "same_version t t"
  by (simp add: same_version_def)

text \<open>The demonstration world: one pending record for token A, and one for code 123456.\<close>

definition demo_service :: service where
  "demo_service = \<lparr>Key = replicate 32 (CHR ''k''), Origin = ''https://a.example'',
     Diagnostics = False\<rparr>"

definition demo_token :: string where
  "demo_token = raw_url_encode (replicate 32 (CHR ''t''))"

definition demo_input :: confirm_input where
  "demo_input = \<lparr>RequestID = demo_token, TokenB = demo_token, TokenA = demo_token, TokenC = ''''\<rparr>"

definition demo_code_input :: confirm_input where
  "demo_code_input = demo_input\<lparr>TokenA := '''', TokenC := ''123456''\<rparr>"

definition demo_tx :: transaction where
  "demo_tx = new_transaction demo_lib demo_service demo_token ''a@b.c''
     (raw_url_encode (sha256 demo_lib (replicate 32 (CHR ''t'')))) demo_token ''123456'' 1000"

definition demo_session :: session where
  "demo_session = \<lparr>AccessToken = ''at'', IDToken = ''it'', RefreshToken = ''rt'',
     ExpiresIn = 3600, TokenType = ''Bearer''\<rparr>"

definition demo_world :: email_world where
  "demo_world = \<lparr>w_table = [demo_token \<mapsto> demo_tx], w_clock = 1100, w_bytes = ''x'',
     w_budget = None, w_eligible = Inr True, w_account = Inr ''sub'', w_login = Inr demo_session,
     w_mail = []\<rparr>"

definition confirmed_as :: "string \<Rightarrow> int \<Rightarrow> transaction \<Rightarrow> transaction" where
  "confirmed_as sub n t = t\<lparr>ClaimedAt := n, State := Confirmed, Subject := sub, BHash := '''',
     CDigest := '''', Challenge := '''', Version := 2 + Version t\<rparr>"

lemma confirm_claim_run:
  assumes "w_table w (ID t) = Some t" "w_account w = Inr sub" "w_login w = Inr ses"
  shows "run email_serve (confirm_claim L s t) w =
    (Some (Inr ses), w\<lparr>w_table := (w_table w)(ID t \<mapsto> confirmed_as sub (w_clock w) t)\<rparr>)"
  using assms
  by (simp add: confirm_claim_def call_simps Let_def confirmed_as_def)

lemma confirm_proof_run:
  assumes "second_proof_ok L s inp t" "w_budget w = None"
  shows "run email_serve (confirm_proof L s inp t) w = (Some None, w)"
  using assms
  by (auto simp: confirm_proof_def second_proof_ok_def call_simps same_def trim_set_empty_iff)

lemma demo_facts:
  "valid_token demo_token" "State demo_tx = Pending" "ID demo_tx = demo_token"
  "w_table demo_world demo_token = Some demo_tx" "w_clock demo_world < Expires demo_tx"
  "BHash demo_tx = hash demo_lib demo_token" "w_budget demo_world = None"
  "w_account demo_world = Inr ''sub''" "w_login demo_world = Inr demo_session"
  by (simp_all add: demo_token_def valid_token_encoded demo_tx_def new_transaction_def
      demo_world_def)

lemma demo_proof: "second_proof_ok demo_lib demo_service demo_input demo_tx"
  using length_raw_url_encode [of "replicate 32 (CHR ''t'')"]
  by (auto simp: second_proof_ok_def demo_input_def demo_tx_def new_transaction_def demo_token_def
      raw_url_roundtrip)

lemma demo_input_fields:
  "RequestID demo_input = demo_token" "TokenB demo_input = demo_token"
  "TokenA demo_input = demo_token" "TokenC demo_input = ''''"
  "RequestID demo_code_input = demo_token" "TokenB demo_code_input = demo_token"
  "TokenA demo_code_input = ''''" "TokenC demo_code_input = ''123456''"
  by (simp_all add: demo_input_def demo_code_input_def)

lemma demo_token_nonempty: "demo_token \<noteq> ''''"
  using length_raw_url_encode [of "replicate 32 (CHR ''t'')"] by (auto simp: demo_token_def)

lemma demo_run: "fst (run email_serve (confirm demo_lib demo_service demo_input) demo_world) =
    Some (Inr demo_session)"
  using demo_facts demo_proof demo_token_nonempty
    confirm_claim_run [of demo_world demo_tx "''sub''" demo_session demo_lib demo_service]
    confirm_proof_run [of demo_lib demo_service demo_input demo_tx demo_world]
  by (simp add: confirm_def confirm_recover_def confirm_checked_def call_simps run_pbind same_def
      demo_input_fields)

text \<open>C1: whatever the store, the clock and the identity provider answer, \<open>confirm\<close> issues a
session only at the end of the trace \<open>session_justified\<close> names: the record was read, it was
pending or a stale claim was reclaimed, the clock was before its expiry, token B and the second
proof were right, and claim, account, confirmation and session succeeded in this order.\<close>

theorem confirm_session_sound:
  assumes "fst (run H (confirm L s inp) w) = Some (Inr ses)"
  shows "session_justified L s inp (trace_of H (confirm L s inp) w) ses"
  using safe_run [OF safe_confirm assms] by simp

theorem confirm_session_sound_witness:
  "session_justified demo_lib demo_service demo_input
     (trace_of email_serve (confirm demo_lib demo_service demo_input) demo_world) demo_session"
  by (rule confirm_session_sound [OF demo_run])

text \<open>C7: a pending, unexpired record with the right token B and the right second proof is
confirmed: against a store that keeps what it is given, \<open>confirm\<close> returns the session and
leaves the record confirmed, with the account's subject and without its proofs.\<close>

theorem confirm_completes:
  assumes "valid_token (RequestID inp)" "valid_token (TokenB inp)"
    and "(TokenA inp = '''') \<noteq> (TokenC inp = '''')"
    and "w_table w (RequestID inp) = Some t" "ID t = RequestID inp" "State t = Pending"
    and "w_clock w < Expires t" "BHash t = hash L (TokenB inp)" "second_proof_ok L s inp t"
    and "w_budget w = None" "w_account w = Inr sub" "w_login w = Inr ses"
  shows "run email_serve (confirm L s inp) w =
    (Some (Inr ses), w\<lparr>w_table := (w_table w)(RequestID inp \<mapsto> confirmed_as sub (w_clock w) t)\<rparr>)"
  using assms confirm_claim_run [of w t sub ses L s] confirm_proof_run [of L s inp t w]
  by (simp add: confirm_def confirm_recover_def confirm_checked_def call_simps run_pbind same_def)

theorem confirm_completes_witness:
  "run email_serve (confirm demo_lib demo_service demo_input) demo_world =
    (Some (Inr demo_session), demo_world\<lparr>w_table := (w_table demo_world)
       (demo_token \<mapsto> confirmed_as ''sub'' (w_clock demo_world) demo_tx)\<rparr>)"
  using confirm_completes [of demo_input demo_world demo_tx demo_lib demo_service "''sub''"
      demo_session] demo_facts demo_proof demo_token_nonempty
  by (simp add: demo_input_fields)

text \<open>A wrong code on a pending record costs an attempt and reports how many are left; the
fifth wrong code of a generation is answered like every code after it, by the limit.\<close>

theorem confirm_wrong_code:
  assumes "valid_token (RequestID inp)" "valid_token (TokenB inp)" "TokenA inp = ''''"
    and "length (TokenC inp) = 6" "set (TokenC inp) \<subseteq> set ''0123456789''"
    and "w_table w (RequestID inp) = Some t" "ID t = RequestID inp" "State t = Pending"
    and "w_clock w < Expires t" "BHash t = hash L (TokenB inp)" "w_budget w = None"
    and "CDigest t \<noteq> digest L s [ID t, show_int (Generation t), TokenC inp]"
  shows "run email_serve (confirm L s inp) w =
    (if Attempts t \<ge> 5 then (Some (Inl ErrLimited), w)
     else (Some (Inl (if Attempts t = 4 then ErrLimited else IncorrectCode (4 - Attempts t))),
           w\<lparr>w_table := (w_table w)(RequestID inp \<mapsto>
               t\<lparr>Attempts := Attempts t + 1, Version := Version t + 1\<rparr>)\<rparr>))"
  using assms
  by (auto simp: confirm_def confirm_recover_def confirm_proof_def confirm_checked_def call_simps
      same_def Let_def trim_set_empty_iff)

theorem confirm_wrong_code_witness:
  "run email_serve (confirm demo_lib demo_service (demo_code_input\<lparr>TokenC := ''000000''\<rparr>))
     demo_world =
    (Some (Inl (IncorrectCode 4)), demo_world\<lparr>w_table := (w_table demo_world)
       (demo_token \<mapsto> demo_tx\<lparr>Attempts := 1, Version := 2\<rparr>)\<rparr>)"
proof -
  have d: "CDigest demo_tx \<noteq>
      digest demo_lib demo_service [ID demo_tx, show_int (Generation demo_tx), ''000000'']"
    by (simp add: demo_tx_def new_transaction_def digest_def demo_lib_def hex_encode_def
        hex_digit_def)
  have a: "Attempts demo_tx = 0" "Version demo_tx = 1"
    by (simp_all add: demo_tx_def new_transaction_def)
  show ?thesis
    using confirm_wrong_code [of "demo_code_input\<lparr>TokenC := ''000000''\<rparr>" demo_world demo_tx
        demo_lib demo_service] demo_facts d a
    by (simp add: demo_input_fields)
qed

end
