(* ===== verification/EmailMail.thy ===== *)
theory EmailMail
  imports EmailProps
begin

text \<open>
  What leaves the email service: every mail carries exactly the two proofs whose digests the
  store has just acknowledged, and the reply of \<open>signup\<close> does not tell whether the address
  already has an account or whether the mail went out.
\<close>

section \<open>Mail and stored proofs agree\<close>

definition mail_ok :: "golib \<Rightarrow> service \<Rightarrow> email_call \<Rightarrow> (email_call \<times> email_resp) list \<Rightarrow> bool" where
  "mail_ok L s q h = (case q of
     Send addr link c \<Rightarrow> (\<exists>h0 w r t i b org. h = h0 @ [(w, r)] \<and> r_err r = None \<and>
       (w = Put t \<or> (\<exists>before. w = Swap before t)) \<and>
       EmailAddr t = addr \<and> BHash t = hash L b \<and>
       CDigest t = digest L s [i, show_int (Generation t), c] \<and>
       Expires t = LastSent t + 600 \<and> Attempts t = 0 \<and> State t = Pending \<and>
       origin L s = Inr org \<and> link = verify_link L org i b)
   | _ \<Rightarrow> True)"

abbreviation mails :: "golib \<Rightarrow> service \<Rightarrow> 'a email_prog \<Rightarrow> (email_call \<times> email_resp) list \<Rightarrow> bool" where
  "mails L s p h \<equiv> safe (mail_ok L s) (\<lambda>_ _. True) p h"

lemma mail_ok_others [simp]:
  "mail_ok L s (Put t) h" "mail_ok L s (Get i) h" "mail_ok L s (Swap b a) h"
  "mail_ok L s (Charge e x y) h" "mail_ok L s (Eligible e) h" "mail_ok L s (Confirm e) h"
  "mail_ok L s (Session e) h" "mail_ok L s Now h" "mail_ok L s (Random m) h"
  by (simp_all add: mail_ok_def)

lemma mails_code_loop: "(\<And>r h. mails L s (k r) h) \<Longrightarrow> mails L s (code_loop fuel acc k) h"
proof (induction fuel arbitrary: acc h)
  case 0
  then show ?case by (subst code_loop.simps) simp
next
  case (Suc fuel)
  then show ?case by (subst code_loop.simps) (auto simp: call_simps split: sum.split)
qed

lemma mails_code: "(\<And>r h. mails L s (k r) h) \<Longrightarrow> mails L s (code fuel k) h"
  unfolding code_def by (rule mails_code_loop)

lemma mails_secret: "(\<And>r h. mails L s (k r) h) \<Longrightarrow> mails L s (secret k) h"
  by (simp add: secret_def call_simps)

lemma show_one [simp]: "show_int 1 = ''1''"
  by code_simp

lemma mail_ok_last:
  assumes "origin L s = Inr org" "h \<noteq> []" "r_err (snd (last h)) = None"
    and "fst (last h) = Put t \<or> (\<exists>before. fst (last h) = Swap before t)"
    and "EmailAddr t = addr" "BHash t = hash L b"
    and "CDigest t = digest L s [i, show_int (Generation t), c]"
    and "Expires t = LastSent t + 600" "Attempts t = 0" "State t = Pending"
  shows "mail_ok L s (Send addr (verify_link L org i b) c) h"
proof -
  have "h = butlast h @ [(fst (last h), snd (last h))]" using assms(2) by simp
  with assms show ?thesis unfolding mail_ok_def by fastforce
qed

lemma mail_ok_new:
  "origin L s = Inr org \<Longrightarrow> r_err r = None \<Longrightarrow>
   mail_ok L s (Send e (verify_link L org i b) c)
     (h @ [x, (Put (new_transaction L s i e challenge b c n), r)])"
  by (rule mail_ok_last [where t = "new_transaction L s i e challenge b c n"])
    (simp_all add: new_transaction_def)

lemma mail_ok_rotated:
  "origin L s = Inr org \<Longrightarrow> r_err r = None \<Longrightarrow>
   mail_ok L s (Send (EmailAddr t) (verify_link L org i b) c)
     (h @ [(Swap t (rotated L s i t b c n), r)])"
  by (rule mail_ok_last [where t = "rotated L s i t b c n"]) (auto simp: rotated_def)

lemma mails_signup: "mails L s (signup L s fuel addr challenge method source) h"
  unfolding signup_def
  by (auto simp: call_simps mail_ok_new intro!: mails_secret mails_code
      split: sum.split option.split)

lemma mails_rotate: "mails L s (resend_rotate L s fuel i t n) h"
  unfolding resend_rotate_def
  by (auto simp: call_simps mail_ok_rotated intro!: mails_secret mails_code
      split: sum.split option.split)

lemma mails_resend: "mails L s (resend L s fuel i source) h"
  unfolding resend_def
  by (auto simp: call_simps mails_rotate split: sum.split option.split)

lemma mails_pbind: "(\<And>h. mails L s p h) \<Longrightarrow> (\<And>a h. mails L s (f a) h) \<Longrightarrow> mails L s (pbind p f) h"
  by (rule safe_bindI)

lemma mails_confirm_parts:
  "mails L s (confirm_recover L s inp t) h" "mails L s (confirm_proof L s inp t) h"
  "mails L s (confirm_claim L s t) h"
  unfolding confirm_recover_def confirm_proof_def confirm_claim_def
  by (simp_all add: call_simps Let_def split: sum.split option.split)

lemma mails_checked: "mails L s (confirm_checked L s inp t) h"
proof -
  have "mails L s (pbind (confirm_proof L s inp t)
      (\<lambda>r. case r of Some err \<Rightarrow> Ret (Inl err) | None \<Rightarrow> confirm_claim L s t)) h" for h
    by (rule mails_pbind) (auto simp: mails_confirm_parts split: option.split)
  then show ?thesis unfolding confirm_checked_def by (simp add: call_simps)
qed

lemma mails_confirm: "mails L s (confirm L s inp) h"
proof -
  have "mails L s (pbind (confirm_recover L s inp t)
      (\<lambda>r. case r of Inl err \<Rightarrow> Ret (Inl err) | Inr t' \<Rightarrow> confirm_checked L s inp t')) h" for t h
    by (rule mails_pbind) (auto simp: mails_confirm_parts mails_checked split: sum.split)
  then show ?thesis unfolding confirm_def by (simp add: call_simps split: sum.split)
qed

text \<open>C6: whatever the interfaces answer, a mail is sent only right after the store acknowledged
the record whose digests are those of the link's token B and of the code in the mail, with a
fresh ten-minute expiry and no attempts used.\<close>

theorem mail_carries_stored_proofs:
  "safe (mail_ok L s) (\<lambda>_ _. True) (signup L s fuel addr challenge method source) [] \<and>
   safe (mail_ok L s) (\<lambda>_ _. True) (resend L s fuel i source) [] \<and>
   safe (mail_ok L s) (\<lambda>_ _. True) (confirm L s inp) []"
  by (simp add: mails_signup mails_resend mails_confirm)

section \<open>The reply of signup\<close>

definition drawn_byte :: "email_world \<Rightarrow> nat" where
  "drawn_byte w = byte (hd (fill 1 (w_bytes w)))"

definition drawn_token :: "email_world \<Rightarrow> string" where
  "drawn_token w = raw_url_encode (fill 32 (w_bytes w))"

definition drawn_code :: "email_world \<Rightarrow> string" where
  "drawn_code w = replicate 6 (char_of (48 + drawn_byte w mod 10))"

lemma random_run: "run email_serve (random n k) w = run email_serve (k (Inr (fill n (w_bytes w)))) w"
  by (simp add: random_def)

lemma secret_run: "run email_serve (secret k) w = run email_serve (k (Inr (drawn_token w))) w"
  by (simp add: secret_def random_run drawn_token_def)

lemma code_loop_run:
  assumes "drawn_byte w < 250" "length acc \<le> 6" "6 \<le> fuel + length acc"
  shows "run email_serve (code_loop fuel acc k) w =
    run email_serve (k (Inr (acc @ replicate (6 - length acc)
      (char_of (48 + drawn_byte w mod 10))))) w"
  using assms(2,3)
proof (induction fuel arbitrary: acc)
  case 0
  then show ?case by (subst code_loop.simps) simp
next
  case (Suc fuel)
  let ?d = "char_of (48 + drawn_byte w mod 10) :: char"
  show ?case
  proof (cases "length acc < 6")
    case True
    then have "?d # replicate (5 - length acc) ?d = replicate (6 - length acc) ?d"
      by (simp add: Suc_diff_le flip: replicate_Suc)
    with Suc.IH [of "acc @ [?d]"] Suc.prems True assms(1) show ?thesis
      by (subst code_loop.simps) (simp add: random_run flip: drawn_byte_def [unfolded One_nat_def])
  next
    case False
    with Suc.prems show ?thesis by (subst code_loop.simps) simp
  qed
qed

lemma code_run:
  assumes "drawn_byte w < 250" "6 \<le> fuel"
  shows "run email_serve (code fuel k) w = run email_serve (k (Inr (drawn_code w))) w"
  using code_loop_run [of w "''''" fuel k] assms by (simp add: code_def drawn_code_def)

definition signed_up :: "golib \<Rightarrow> service \<Rightarrow> string \<Rightarrow> string \<Rightarrow> string \<Rightarrow> email_world \<Rightarrow> email_world" where
  "signed_up L s org e challenge w =
    (let i = drawn_token w; c = drawn_code w in
     w\<lparr>w_table := (w_table w)(i \<mapsto> new_transaction L s i e challenge i c (w_clock w)),
       w_mail := w_mail w @ [(e, verify_link L org i i, c)]\<rparr>)"

text \<open>once the request passes the input checks and the budgets, the reply of \<open>signup\<close> is a
fresh request id and no error whatever the identity provider answers about the address, unless
diagnostics are on; only for an eligible address is a record stored and a mail sent.\<close>

theorem signup_reply_uniform:
  assumes "clean_email L addr = Inr e" "method = ''S256''" "valid_challenge challenge"
    and "origin L s = Inr org" "32 \<le> length (Key s)" "\<not> Diagnostics s" "w_budget w = None"
    and "drawn_byte w < 250" "6 \<le> fuel" "w_table w (drawn_token w) = None"
  shows "run email_serve (signup L s fuel addr challenge method source) w =
    (Some (drawn_token w, None),
     if w_eligible w = Inr True then signed_up L s org e challenge w else w)"
proof -
  have i: "ID (new_transaction L s i e challenge b c n) = i" for i b c n
    by (simp add: new_transaction_def)
  show ?thesis
    using assms
    by (auto simp: signup_def secret_run code_run now_def store_charge_def store_put_def
        identity_eligible_def sender_send_def i signed_up_def Let_def split: sum.split)
qed

definition empty_world :: email_world where
  "empty_world = demo_world\<lparr>w_table := Map.empty\<rparr>"

lemma demo_clean_email: "clean_email demo_lib ''a@b.c'' = Inr ''a@b.c''"
  by (simp add: clean_email_def demo_lib_def Let_def)

lemma demo_origin: "origin demo_lib demo_service = Inr ''https://a.example''"
  by code_simp

lemma demo_key: "32 \<le> length (Key demo_service)" "\<not> Diagnostics demo_service"
  by (simp_all add: demo_service_def)

lemma empty_world_facts: "w_budget empty_world = None" "drawn_byte empty_world < 250"
  "w_table empty_world = Map.empty" "w_eligible empty_world = Inr True"
  by (simp_all add: empty_world_def demo_world_def drawn_byte_def fill_def)

theorem signup_reply_uniform_witness:
  "run email_serve (signup demo_lib demo_service 6 ''a@b.c'' demo_token ''S256'' ''src'') empty_world =
    (Some (drawn_token empty_world, None),
     signed_up demo_lib demo_service ''https://a.example'' ''a@b.c'' demo_token empty_world)"
  using signup_reply_uniform [of demo_lib "''a@b.c''" "''a@b.c''" "''S256''" demo_token demo_service
      "''https://a.example''" empty_world 6 "''src''"]
    demo_clean_email demo_origin demo_key empty_world_facts demo_facts(1)
  by (simp add: valid_challenge_def)

end
