(* ===== verification/EmailConc.thy ===== *)
theory EmailConc
  imports EmailMail
begin

text \<open>
  The email service under any number of concurrent requests. Every fact here is a fact of the
  interpretation \<open>emails\<close> of the optimistic store: the stored records follow the state machine,
  bounds on attempts and rotations hold over every interleaving, and a request is confirmed at
  most once. The witnesses run the operations one after the other against a concrete store.
\<close>

definition email_answer :: "email_call \<Rightarrow> email_resp" where
  "email_answer q = (case q of
       Now \<Rightarrow> no_resp\<lparr>r_unix := 1000\<rparr>
     | Random n \<Rightarrow> no_resp\<lparr>r_text := Inr (replicate n (CHR ''t''))\<rparr>
     | Eligible e \<Rightarrow> no_resp\<lparr>r_bool := Inr True\<rparr>
     | Confirm e \<Rightarrow> no_resp\<lparr>r_text := Inr ''sub''\<rparr>
     | Session e \<Rightarrow> no_resp\<lparr>r_session := Inr demo_session\<rparr>
     | _ \<Rightarrow> no_resp)"

definition email_found :: "transaction option \<Rightarrow> email_resp" where
  "email_found x = no_resp\<lparr>r_tx := (case x of None \<Rightarrow> Inl ErrNotFound | Some t \<Rightarrow> Inr t)\<rparr>"

definition email_wrote :: "bool \<Rightarrow> email_resp" where
  "email_wrote ok = no_resp\<lparr>r_err := (if ok then None else Some ErrConflict)\<rparr>"

definition email_store :: "email_call \<Rightarrow> (string, transaction) shared \<Rightarrow>
    email_resp \<times> (string, transaction) shared" where
  "email_store = plain_store same_version email_access email_found email_wrote email_answer"

lemma email_store_serves:
  "serve same_version email_access email_seen email_acked q (fst (email_store q sh)) sh
     (snd (email_store q sh))"
  unfolding email_store_def
  by (rule plain_store_serves)
    (auto simp: email_seen_def email_acked_def email_found_def email_wrote_def split: option.split)

lemma email_store_simps [simp]:
  "email_store (Get i) sh = (email_found (table sh i), sh)"
  "email_store (Put t) sh = (if news (commits sh) (ID t) = []
     then (email_wrote True, sh\<lparr>table := (table sh)(ID t \<mapsto> t),
                              commits := commits sh @ [(ID t, None, t)]\<rparr>)
     else (email_wrote False, sh))"
  "email_store (Swap b a) sh = (case table sh (ID a) of
       Some c \<Rightarrow> if same_version c b
         then (email_wrote True, sh\<lparr>table := (table sh)(ID a \<mapsto> a),
                                  commits := commits sh @ [(ID a, Some c, a)]\<rparr>)
         else (email_wrote False, sh)
     | None \<Rightarrow> (email_wrote False, sh))"
  "email_store (Charge e l n) sh = (no_resp, sh)"
  "email_store (Send e x y) sh = (no_resp, sh)"
  "email_store (Eligible e) sh = (no_resp\<lparr>r_bool := Inr True\<rparr>, sh)"
  "email_store (Confirm e) sh = (no_resp\<lparr>r_text := Inr ''sub''\<rparr>, sh)"
  "email_store (Session e) sh = (no_resp\<lparr>r_session := Inr demo_session\<rparr>, sh)"
  "email_store Now sh = (no_resp\<lparr>r_unix := 1000\<rparr>, sh)"
  "email_store (Random m) sh = (no_resp\<lparr>r_text := Inr (replicate m (CHR ''t''))\<rparr>, sh)"
  by (simp_all add: email_store_def plain_store_def email_answer_def)

lemma email_reached_run:
  assumes "email_reached L s sh ps" "email_ops L s p"
  shows "\<exists>ps'. email_reached L s (snd (run email_store p sh)) ps'"
  by (rule reached_run [OF email_store_serves assms])

lemma email_ops_intros:
  "email_ops L s (pbind (signup L s fuel addr challenge method source) (\<lambda>_. Ret ()))"
  "email_ops L s (pbind (resend L s fuel i source) (\<lambda>_. Ret ()))"
  "email_ops L s (pbind (confirm L s inp) (\<lambda>_. Ret ()))"
  unfolding email_ops_def by blast+

text \<open>The demonstration: one signup at time 1000 and its confirmation.\<close>

definition conc_tx :: transaction where
  "conc_tx = new_transaction demo_lib demo_service demo_token ''a@b.c'' demo_token demo_token
     ''666666'' 1000"

lemma store_code_loop:
  "length acc \<le> 6 \<Longrightarrow> 6 \<le> fuel + length acc \<Longrightarrow>
   run email_store (code_loop fuel acc k) sh =
     run email_store (k (Inr (acc @ replicate (6 - length acc) (CHR ''6'')))) sh"
proof (induction fuel arbitrary: acc)
  case 0
  then show ?case by (subst code_loop.simps) simp
next
  case (Suc fuel)
  have c: "char_of (54 :: nat) = CHR ''6''" by code_simp
  show ?case
  proof (cases "length acc < 6")
    case True
    then have "CHR ''6'' # replicate (5 - length acc) (CHR ''6'') =
        replicate (6 - length acc) (CHR ''6'')"
      by (simp add: Suc_diff_le flip: replicate_Suc)
    with Suc.IH [of "acc @ ''6''"] Suc.prems True show ?thesis
      by (subst code_loop.simps)
        (simp add: random_def fill_def c)
  next
    case False
    with Suc.prems show ?thesis by (subst code_loop.simps) simp
  qed
qed

lemma store_code: "run email_store (code 6 k) sh = run email_store (k (Inr ''666666'')) sh"
  by (simp add: code_def store_code_loop numeral_eq_Suc)

lemma store_secret: "run email_store (secret k) sh = run email_store (k (Inr demo_token)) sh"
  by (simp add: secret_def random_def fill_def demo_token_def)

definition demo_signup :: "unit email_prog" where
  "demo_signup = pbind (signup demo_lib demo_service 6 ''a@b.c'' demo_token ''S256'' ''src'') (\<lambda>_. Ret ())"

definition demo_confirm :: "string \<Rightarrow> unit email_prog" where
  "demo_confirm c = pbind (confirm demo_lib demo_service (demo_code_input\<lparr>TokenC := c\<rparr>)) (\<lambda>_. Ret ())"

definition after_signup :: "(string, transaction) shared" where
  "after_signup = \<lparr>table = [demo_token \<mapsto> conc_tx], commits = [(demo_token, None, conc_tx)]\<rparr>"



lemma demo_signup_run: "snd (run email_store demo_signup no_records) = after_signup"
  using demo_clean_email demo_origin demo_key demo_facts(1)
  by (simp add: demo_signup_def run_drop signup_def store_secret store_code now_def store_charge_def
      store_put_def identity_eligible_def sender_send_def
      valid_challenge_def email_wrote_def no_records_def after_signup_def conc_tx_def
      new_transaction_def)

lemma after_signup_reached: "\<exists>ps. email_reached demo_lib demo_service after_signup ps"
  using email_reached_run [OF reached_init email_ops_intros(1)] demo_signup_run
  unfolding demo_signup_def by metis

definition wrong_tx :: transaction where
  "wrong_tx = conc_tx\<lparr>Attempts := 1, Version := 2\<rparr>"

definition after_wrong :: "(string, transaction) shared" where
  "after_wrong = \<lparr>table = [demo_token \<mapsto> wrong_tx],
     commits = [(demo_token, None, conc_tx), (demo_token, Some conc_tx, wrong_tx)]\<rparr>"

definition claim_tx :: transaction where
  "claim_tx = wrong_tx\<lparr>State := Confirming, ClaimedAt := 1000, Version := 3\<rparr>"

definition done_tx :: transaction where
  "done_tx = claim_tx\<lparr>State := Confirmed, Subject := ''sub'', BHash := '''', CDigest := '''',
     Challenge := '''', Version := 4\<rparr>"

definition after_confirm :: "(string, transaction) shared" where
  "after_confirm = \<lparr>table = [demo_token \<mapsto> done_tx],
     commits = [(demo_token, None, conc_tx), (demo_token, Some conc_tx, wrong_tx),
                (demo_token, Some wrong_tx, claim_tx), (demo_token, Some claim_tx, done_tx)]\<rparr>"

lemma conc_digest:
  "CDigest conc_tx = digest demo_lib demo_service [demo_token, ''1'', ''666666'']"
  "digest demo_lib demo_service [demo_token, ''1'', ''666666''] \<noteq>
   digest demo_lib demo_service [demo_token, ''1'', ''000000'']"
  by (simp_all add: conc_tx_def new_transaction_def digest_def demo_lib_def hex_encode_def
      hex_digit_def)

lemma conc_fields:
  "ID conc_tx = demo_token" "State conc_tx = Pending" "Attempts conc_tx = 0" "Version conc_tx = 1"
  "Expires conc_tx = 1600" "BHash conc_tx = hash demo_lib demo_token" "Generation conc_tx = 1"
  by (simp_all add: conc_tx_def new_transaction_def)

lemma demo_wrong_run: "snd (run email_store (demo_confirm ''000000'') after_signup) = after_wrong"
  using conc_digest demo_facts(1)
  by (simp add: demo_confirm_def run_drop confirm_def confirm_recover_def confirm_checked_def
      confirm_proof_def call_simps same_def Let_def after_signup_def after_wrong_def wrong_tx_def
      conc_fields email_found_def email_wrote_def demo_input_fields trim_set_empty_iff)

lemma demo_confirm_run: "snd (run email_store (demo_confirm ''666666'') after_wrong) = after_confirm"
  using conc_digest demo_facts(1)
  by (simp add: demo_confirm_def run_drop confirm_def confirm_recover_def confirm_checked_def
      confirm_proof_def confirm_claim_def call_simps same_def Let_def after_confirm_def after_wrong_def
      wrong_tx_def conc_fields claim_tx_def done_tx_def same_version_def
      email_found_def email_wrote_def demo_input_fields trim_set_empty_iff)

lemma after_confirm_reached: "\<exists>ps. email_reached demo_lib demo_service after_confirm ps"
proof -
  obtain ps1 where "email_reached demo_lib demo_service after_signup ps1"
    using after_signup_reached by blast
  from email_reached_run [OF this email_ops_intros(3)] demo_wrong_run
  obtain ps2 where "email_reached demo_lib demo_service after_wrong ps2"
    unfolding demo_confirm_def by metis
  from email_reached_run [OF this email_ops_intros(3)] demo_confirm_run
  show ?thesis unfolding demo_confirm_def by metis
qed

lemma after_confirm_news:
  "news (commits after_confirm) demo_token = [conc_tx, wrong_tx, claim_tx, done_tx]"
  by (simp add: after_confirm_def news_def)

section \<open>Guarantees\<close>

text \<open>under any interleaving of signups, resends and confirmations, with lost
acknowledgements and expiring records, the values written for a request form a path of the
state machine \<open>tx_step\<close> with strictly increasing versions.\<close>

theorem email_history:
  assumes "email_reached L s sh ps"
  shows "successively (tx_step L s) (news (commits sh) i) \<and>
    sorted_wrt (\<lambda>b a. Version b < Version a) (news (commits sh) i)"
  using emails.history_path [OF assms] emails.versions_increase [OF assms] by simp

theorem email_history_witness:
  "successively (tx_step demo_lib demo_service) [conc_tx, wrong_tx, claim_tx, done_tx]"
  using after_confirm_reached email_history after_confirm_news by metis

text \<open>Every stored record stays within the limits: at most five attempts per generation and
three resends, one generation per resend, a ten-minute expiry after the last mail, and no proof
left once it is confirmed.\<close>

theorem email_stored_good:
  assumes "email_reached L s sh ps" "table sh i = Some t"
  shows "ID t = i \<and> 1 \<le> Version t \<and> Generation t = Resends t + 1 \<and> 0 \<le> Resends t \<and>
    Resends t \<le> 3 \<and> 0 \<le> Attempts t \<and> Attempts t \<le> 5 \<and> Expires t = LastSent t + 600 \<and>
    State t \<in> {Pending, Confirming, Confirmed, Failed} \<and>
    \<not> (State t = Confirmed \<and> (BHash t \<noteq> '''' \<or> CDigest t \<noteq> '''' \<or> Challenge t \<noteq> ''''))"
  using emails.stored_good [OF assms] by (auto simp: tx_good_def)

theorem email_stored_good_witness: "State done_tx = Confirmed \<and> BHash done_tx = ''''"
proof -
  have t: "table after_confirm demo_token = Some done_tx" by (simp add: after_confirm_def)
  have "State done_tx = Confirmed" by (simp add: done_tx_def)
  with after_confirm_reached email_stored_good [OF _ t] show ?thesis by blast
qed

text \<open>a request is confirmed at most once, whatever the interleaving.\<close>

theorem email_confirmed_once:
  assumes "email_reached L s sh ps"
  shows "length (filter (\<lambda>t. State t = Confirmed) (news (commits sh) i)) \<le> 1"
  by (rule emails.final_committed_once [OF assms]) (auto elim: tx_step_cases)

theorem email_confirmed_once_witness:
  "length (filter (\<lambda>t. State t = Confirmed) [conc_tx, wrong_tx, claim_tx, done_tx]) = 1"
proof -
  have "length (filter (\<lambda>t. State t = Confirmed) [conc_tx, wrong_tx, claim_tx, done_tx]) \<le> 1"
    using after_confirm_reached email_confirmed_once after_confirm_news by metis
  moreover have "1 \<le> length (filter (\<lambda>t. State t = Confirmed) [conc_tx, wrong_tx, claim_tx, done_tx])"
    by (simp add: done_tx_def)
  ultimately show ?thesis by (rule le_antisym)
qed

definition wrong_code_write :: "transaction \<Rightarrow> transaction \<Rightarrow> bool" where
  "wrong_code_write b a \<longleftrightarrow> Attempts a = Attempts b + 1"

text \<open>C2: over the whole life of a request at most twenty wrong codes are ever counted, five in
each of its four generations, whatever the interleaving of guesses and resends.\<close>

theorem email_guesses_bounded:
  assumes "email_reached L s sh ps"
  shows "tally wrong_code_write (commits sh) i \<le> 20"
proof -
  let ?phi = "\<lambda>t. nat (5 * Resends t + Attempts t)"
  have "tally wrong_code_write (commits sh) i \<le>
      (case latest (commits sh) i of None \<Rightarrow> 0 | Some t \<Rightarrow> ?phi t)"
    by (rule emails.tally_le_potential [OF assms], erule tx_step_cases)
      (auto simp: tx_good_def rotated_def wrong_code_write_def)
  moreover have "?phi t \<le> 20" if "latest (commits sh) i = Some t" for t
    using emails.latest_good [OF assms that] by (auto simp: tx_good_def)
  ultimately show ?thesis by (fastforce split: option.splits)
qed

theorem email_guesses_bounded_witness: "tally wrong_code_write (commits after_confirm) demo_token \<le> 20"
  using after_confirm_reached email_guesses_bounded by metis

end
