(* ===== verification/Capture.thy ===== *)
theory Capture
  imports Golib "HOL-Library.AList_Mapping"
begin

text \<open>
  The data and the shared parts of the capture service: \<open>capture/model.go\<close>,
  \<open>capture/disclosure.go\<close>, the card data of \<open>capture/extraction.go\<close>, and the calls the
  service makes on its \<open>Store\<close>, \<open>Objects\<close>, \<open>Extractor\<close>, policy source, clock and random
  source (\<open>cap_call\<close>, answered by \<open>cap_resp\<close>). A Go map is a \<open>mapping option\<close>, \<open>None\<close> being the
  nil map, which \<open>reflect.DeepEqual\<close> tells from the empty one. An interface that answers with
  an error answers with the zero record beside it.
\<close>

section \<open>Errors and limits\<close>

datatype cap_err =
    CapPolicyChanged | CapInvalid | CapNotFound | CapConflict | CapExpired | CapLimited
  | CapDisabled | CapIncomplete | CapImage
  | CapPanic \<comment> \<open>the panic of \<open>newID\<close>\<close>
  | CapOther string \<comment> \<open>any other error of a dependency\<close>

definition MaxBytes :: int where "MaxBytes = 4 * 1024 * 1024"
definition MaxPixels :: int where "MaxPixels = 20000000"
definition SessionLifetime :: int where "SessionLifetime = 24 * 3600"
definition UploadLifetime :: int where "UploadLifetime = 5 * 60"

section \<open>Disclosure texts\<close>

record purposes =
  EN :: string
  ES :: string
  FR :: string

text \<open>The texts are UTF-8; bytes above 127 are written as character codes.\<close>

definition default_purposes :: purposes where
  "default_purposes = \<lparr>
     EN = ''Scan your ID to provide your identity details. You'' @ [CHR 0x27] @
          ''ll review and confirm the information afterward.'',
     ES = ''Escanea tu identificaci'' @ [CHR 0xC3, CHR 0xB3] @
          ''n para proporcionar tus datos de identidad. Despu'' @ [CHR 0xC3, CHR 0xA9] @
          ''s podr'' @ [CHR 0xC3, CHR 0xA1] @ ''s revisar y confirmar la informaci'' @
          [CHR 0xC3, CHR 0xB3] @ ''n.'',
     FR = ''Num'' @ [CHR 0xC3, CHR 0xA9] @ ''risez votre pi'' @ [CHR 0xC3, CHR 0xA8] @ ''ce d'' @
          [CHR 0xE2, CHR 0x80, CHR 0x99] @ ''identit'' @ [CHR 0xC3, CHR 0xA9] @
          '' pour fournir vos renseignements d'' @ [CHR 0xE2, CHR 0x80, CHR 0x99] @ ''identit'' @
          [CHR 0xC3, CHR 0xA9] @ ''. Vous pourrez ensuite les v'' @ [CHR 0xC3, CHR 0xA9] @
          ''rifier et les confirmer.''\<rparr>"

definition Language :: "purposes \<Rightarrow> string \<Rightarrow> string" where
  "Language p language =
    (if language = ''es'' \<and> ES p \<noteq> '''' then ''es''
     else if language = ''fr'' \<and> FR p \<noteq> '''' then ''fr'' else ''en'')"

definition Text :: "purposes \<Rightarrow> string \<Rightarrow> string" where
  "Text p language =
    (if Language p language = ''es'' then ES p
     else if Language p language = ''fr'' then FR p else EN p)"

definition valid_origin :: "string \<Rightarrow> bool" where
  "valid_origin v \<longleftrightarrow> v \<in> {'''', ''CA'', ''US'', ''MX'', ''GT'', ''BZ''}"

section \<open>Records\<close>

type_synonym slots = "(string, string) mapping option"

definition slot_get :: "slots \<Rightarrow> string \<Rightarrow> string" where
  "slot_get m k = (case m of None \<Rightarrow> ''''
     | Some m \<Rightarrow> (case Mapping.lookup m k of None \<Rightarrow> '''' | Some v \<Rightarrow> v))"

definition slot_len :: "slots \<Rightarrow> nat" where
  "slot_len m = (case m of None \<Rightarrow> 0 | Some m \<Rightarrow> Mapping.size m)"

definition clone_slots :: "slots \<Rightarrow> (string, string) mapping" where
  "clone_slots m = (case m of None \<Rightarrow> Mapping.empty | Some m \<Rightarrow> m)"

record policy =
  pPurposes :: purposes
  pEnabled :: bool
  pVersion :: string
  pDocumentType :: string
  pSlots :: "string list"
  pContentType :: string
  pMaxBytes :: int
  pPurpose :: string
  pJurisdiction :: string
  pRetentionDays :: int

record upload =
  uID :: string
  uSlot :: string
  uSHA256 :: string
  uSize :: int
  uKey :: string
  uOperationKey :: string

record asset =
  aUploadID :: string
  aSlot :: string
  aKey :: string
  aVersionID :: string
  aSHA256 :: string
  aSize :: int

record card_data =
  FullName :: string
  GivenNames :: string
  Surnames :: string
  BirthDate :: string
  DocumentNumber :: string
  PersonalNumber :: string
  Address :: string
  IssueDate :: string
  ExpiryDate :: string
  IssuingCountry :: string

record extraction =
  xStatus :: string
  xData :: card_data
  xError :: string

record reviewed_card =
  vOriginCountry :: string
  vData :: card_data
  vSavedAt :: int

record cap_record =
  cDisclosureLanguage :: string
  cExtraction :: "extraction option"
  cReviewed :: "reviewed_card option"
  cExtractionAttempts :: int
  cID :: string
  cOwner :: string
  cEvidenceVersion :: int
  cRevision :: int
  cPolicySnapshot :: "policy option"
  cExpectedPolicyVersion :: string
  cPolicyVersion :: string
  cDocumentType :: string
  cState :: string
  cExpiresAt :: int
  cCreatedAt :: int
  cSlots :: slots
  cUploads :: "upload list"
  cAssets :: "asset list"
  cProcessed :: "asset list"
  cProcessingVersion :: string
  cError :: string
  cCreateKey :: string
  cFinalizeKey :: string
  cRetryKey :: string
  cGeneration :: int
  cAttempts :: int
  cLeaseUntil :: int
  cWork :: string
  cDue :: int
  cDeleteAfter :: int
  cTTL :: int

record cap_account =
  acIDCaptured :: bool
  acOwner :: string
  acCurrentID :: string
  acRevision :: int
  acVersion :: int
  acDay :: string
  acCreatedToday :: int

record upload_request =
  urOperationKey :: string
  urRevision :: int
  urSlot :: string
  urSHA256 :: string
  urSize :: int

record finalize_request =
  frOperationKey :: string
  frRevision :: int
  frUploadIDs :: slots

record upload_reply =
  upCapture :: cap_record
  upUploadID :: string
  upURL :: string
  upHeaders :: "(string, string) mapping"
  upExpiresIn :: int

record review_request =
  rrOriginCountry :: string
  rrRevision :: int
  rrData :: card_data

record job =
  jOwner :: string
  jID :: string
  jGeneration :: int
  jWork :: string

definition no_card :: card_data where
  "no_card = \<lparr>FullName = '''', GivenNames = '''', Surnames = '''', BirthDate = '''',
     DocumentNumber = '''', PersonalNumber = '''', Address = '''', IssueDate = '''',
     ExpiryDate = '''', IssuingCountry = ''''\<rparr>"

definition card_fields :: "card_data \<Rightarrow> string list" where
  "card_fields d = [FullName d, GivenNames d, Surnames d, BirthDate d, DocumentNumber d,
     PersonalNumber d, Address d, IssueDate d, ExpiryDate d, IssuingCountry d]"

definition card_valid :: "card_data \<Rightarrow> bool" where
  "card_valid d \<longleftrightarrow> list_all (\<lambda>v. utf8_valid (map byte v) \<and> length v \<le> 512 \<and>
     CHR 0x00 \<notin> set v \<and> CHR 0x0D \<notin> set v) (card_fields d)"

definition card_empty :: "card_data \<Rightarrow> bool" where
  "card_empty d \<longleftrightarrow> d = no_card"

definition extraction_of :: "string \<Rightarrow> string \<Rightarrow> extraction" where
  "extraction_of status error = \<lparr>xStatus = status, xData = no_card, xError = error\<rparr>"

section \<open>The service and its calls\<close>

record cap_service =
  csExtractor :: bool \<comment> \<open>an extractor is configured\<close>
  csPolicySource :: bool \<comment> \<open>a policy source is configured\<close>
  csEnabled :: bool
  csDocumentType :: string
  csPurpose :: string
  csJurisdiction :: string
  csRetention :: int \<comment> \<open>in seconds\<close>

datatype cap_call =
    CAccount string
  | CGet string string
  | CFindCreate string string
  | CCreate cap_account cap_account cap_record
  | CSwap cap_record cap_record bool
  | CPresign upload
  | CHead upload
  | CRead asset
  | CWrite cap_record string string
  | CDeleteCapture string
  | CPolicy
  | CExtract "(string \<times> string) list"
  | CNow
  | CRandom nat

record cap_resp =
  c_err :: "cap_err option"
  c_account :: "cap_err + cap_account"
  c_rec :: "cap_err + cap_record"
  c_url :: "cap_err + string \<times> (string, string) mapping"
  c_asset :: "cap_err + asset"
  c_bytes :: "cap_err + string"
  c_policy :: "cap_err + policy"
  c_card :: "cap_err + card_data"
  c_unix :: int

type_synonym 'a cap_prog = "(cap_call, cap_resp, 'a) prog"

definition cap_now :: "(int \<Rightarrow> 'a cap_prog) \<Rightarrow> 'a cap_prog" where
  [call_simps]: "cap_now k = Call CNow (\<lambda>r. k (c_unix r))"

definition s_account :: "string \<Rightarrow> (cap_err + cap_account \<Rightarrow> 'a cap_prog) \<Rightarrow> 'a cap_prog" where
  [call_simps]: "s_account owner k = Call (CAccount owner) (\<lambda>r. k (c_account r))"

definition s_get :: "string \<Rightarrow> string \<Rightarrow> (cap_err + cap_record \<Rightarrow> 'a cap_prog) \<Rightarrow> 'a cap_prog" where
  [call_simps]: "s_get owner i k = Call (CGet owner i) (\<lambda>r. k (c_rec r))"

definition s_find_create :: "string \<Rightarrow> string \<Rightarrow> (cap_err + cap_record \<Rightarrow> 'a cap_prog) \<Rightarrow> 'a cap_prog" where
  [call_simps]: "s_find_create owner key k = Call (CFindCreate owner key) (\<lambda>r. k (c_rec r))"

definition s_create :: "cap_account \<Rightarrow> cap_account \<Rightarrow> cap_record \<Rightarrow>
    (cap_err option \<Rightarrow> 'a cap_prog) \<Rightarrow> 'a cap_prog" where
  [call_simps]: "s_create b a r k = Call (CCreate b a r) (\<lambda>x. k (c_err x))"

definition s_swap :: "cap_record \<Rightarrow> cap_record \<Rightarrow> bool \<Rightarrow>
    (cap_err option \<Rightarrow> 'a cap_prog) \<Rightarrow> 'a cap_prog" where
  [call_simps]: "s_swap b a ready k = Call (CSwap b a ready) (\<lambda>x. k (c_err x))"

definition o_presign :: "upload \<Rightarrow>
    (cap_err + string \<times> (string, string) mapping \<Rightarrow> 'a cap_prog) \<Rightarrow> 'a cap_prog" where
  [call_simps]: "o_presign u k = Call (CPresign u) (\<lambda>r. k (c_url r))"

definition o_head :: "upload \<Rightarrow> (cap_err + asset \<Rightarrow> 'a cap_prog) \<Rightarrow> 'a cap_prog" where
  [call_simps]: "o_head u k = Call (CHead u) (\<lambda>r. k (c_asset r))"

definition o_read :: "asset \<Rightarrow> (cap_err + string \<Rightarrow> 'a cap_prog) \<Rightarrow> 'a cap_prog" where
  [call_simps]: "o_read a k = Call (CRead a) (\<lambda>r. k (c_bytes r))"

definition o_write :: "cap_record \<Rightarrow> string \<Rightarrow> string \<Rightarrow> (cap_err + asset \<Rightarrow> 'a cap_prog) \<Rightarrow> 'a cap_prog" where
  [call_simps]: "o_write r slot b k = Call (CWrite r slot b) (\<lambda>x. k (c_asset x))"

definition o_delete :: "string \<Rightarrow> (cap_err option \<Rightarrow> 'a cap_prog) \<Rightarrow> 'a cap_prog" where
  [call_simps]: "o_delete prefix k = Call (CDeleteCapture prefix) (\<lambda>r. k (c_err r))"

definition policy_source :: "(cap_err + policy \<Rightarrow> 'a cap_prog) \<Rightarrow> 'a cap_prog" where
  [call_simps]: "policy_source k = Call CPolicy (\<lambda>r. k (c_policy r))"

definition x_extract :: "(string \<times> string) list \<Rightarrow> (cap_err + card_data \<Rightarrow> 'a cap_prog) \<Rightarrow> 'a cap_prog" where
  [call_simps]: "x_extract images k = Call (CExtract images) (\<lambda>r. k (c_card r))"

section \<open>Identifiers and policy version\<close>

definition valid_id :: "string \<Rightarrow> bool" where
  "valid_id v \<longleftrightarrow> length v = 32 \<and> list_all is_hex_lower v"

definition operation_char :: "char \<Rightarrow> bool" where
  "operation_char c \<longleftrightarrow> is_alnum c \<or> c = CHR ''_'' \<or> c = CHR ''-''"

definition valid_operation :: "string \<Rightarrow> bool" where
  "valid_operation v \<longleftrightarrow> 16 \<le> length v \<and> length v \<le> 80 \<and> list_all operation_char v"

definition object_prefix :: "golib \<Rightarrow> string \<Rightarrow> string \<Rightarrow> string" where
  "object_prefix L owner i = ''uploads/'' @ hex_encode (sha256 L owner) @ ''/'' @ i @ ''/''"

definition new_id :: "(cap_err + string \<Rightarrow> 'a cap_prog) \<Rightarrow> 'a cap_prog" where
  "new_id k = Call (CRandom 16) (\<lambda>r. case c_bytes r of
       Inl _ \<Rightarrow> k (Inl CapPanic)
     | Inr b \<Rightarrow> k (Inr (hex_encode (take 16 (b @ replicate 16 (CHR 0x00))))))"

text \<open>\<open>marshal\<close> stands for \<open>json.Marshal\<close> on a policy.\<close>

definition with_version :: "golib \<Rightarrow> (policy \<Rightarrow> string) \<Rightarrow> policy \<Rightarrow> policy" where
  "with_version L marshal p =
    (let q = p\<lparr>pVersion := ''''\<rparr>
     in q\<lparr>pVersion := ''capture-sha256-'' @ hex_encode (sha256 L (marshal q))\<rparr>)"

definition service_policy :: "golib \<Rightarrow> (policy \<Rightarrow> string) \<Rightarrow> cap_service \<Rightarrow> policy" where
  "service_policy L marshal s = with_version L marshal
     \<lparr>pPurposes = \<lparr>EN = '''', ES = '''', FR = ''''\<rparr>, pEnabled = csEnabled s, pVersion = '''',
      pDocumentType = (if csDocumentType s = '''' then ''sample_card'' else csDocumentType s),
      pSlots = [''front'', ''back''], pContentType = ''image/jpeg'', pMaxBytes = MaxBytes,
      pPurpose = csPurpose s, pJurisdiction = csJurisdiction s, pRetentionDays = 7\<rparr>"

definition current_policy :: "golib \<Rightarrow> (policy \<Rightarrow> string) \<Rightarrow> cap_service \<Rightarrow>
    (cap_err + policy \<Rightarrow> 'a cap_prog) \<Rightarrow> 'a cap_prog" where
  "current_policy L marshal s k =
    (if csPolicySource s then policy_source k else k (Inr (service_policy L marshal s)))"

end
