(* ===== verification/Gateway.thy ===== *)
theory Gateway
  imports Golib
begin

text \<open>
  The HTTP interface of the handlers: the fields of \<open>events.APIGatewayV2HTTPRequest\<close> they read
  and of the response they build. Header, claim and query maps are functions with the Go zero
  value \<open>''''\<close> where a key is absent. A response body is the value given to \<open>json.Marshal\<close>, of
  the handler's own type \<open>'b\<close>; response headers are constants of each handler and are not
  modelled, but for the ones that depend on the request.
\<close>

record request =
  rqMethod :: string
  rqRawPath :: string
  rqBody :: string
  rqIsBase64 :: bool
  rqHeaders :: "string \<Rightarrow> string"
  rqQuery :: "string \<Rightarrow> string"
  rqClaims :: "(string \<Rightarrow> string) option" \<comment> \<open>Authorizer.JWT.Claims, None without an authorizer\<close>
  rqRequestID :: string
  rqSourceIP :: string

record 'b response =
  rsStatus :: nat
  rsBody :: 'b

text \<open>
  \<open>json.Decoder\<close> on a whole body, with \<open>DisallowUnknownFields\<close>: the decoded value and whether
  nothing but white space follows it (\<open>io.EOF\<close> on the next call), \<open>None\<close> on an error.
\<close>

type_synonym 'a strict_decoder = "string \<Rightarrow> ('a \<times> bool) option"

text \<open>A body as the handlers decode it: base64 where the gateway says so.\<close>

definition body_text :: "request \<Rightarrow> string option" where
  "body_text rq = (if rqIsBase64 rq then std_decode (rqBody rq) else Some (rqBody rq))"

text \<open>
  A handler that uses several services makes the calls of each under a constructor of its own:
  \<open>lift_calls\<close> runs an operation of one service inside it.
\<close>

primrec lift_calls :: "('q \<Rightarrow> 'q2) \<Rightarrow> ('r2 \<Rightarrow> 'r) \<Rightarrow> ('q, 'r, 'a) prog \<Rightarrow> ('q2, 'r2, 'a) prog" where
  "lift_calls f g (Ret a) = Ret a"
| "lift_calls f g (Call q k) = Call (f q) (\<lambda>r. lift_calls f g (k (g r)))"
| "lift_calls f g Spin = Spin"

lemma safe_lift:
  "safe (\<lambda>q _. P (f q)) (\<lambda>a _. Q a) p h \<Longrightarrow> safe (\<lambda>q _. P q) (\<lambda>a _. Q a) (lift_calls f g p) h'"
proof (induction p arbitrary: h h')
  case (Call q k h h')
  have "safe (\<lambda>q _. P q) (\<lambda>a _. Q a) (lift_calls f g (k (g r))) (h' @ [(f q, r)])" for r
    by (rule Call.IH [where h = "h @ [(q, g r)]"]) (use Call.prems in auto)
  then show ?case using Call.prems by simp
qed auto

lemma lift_if [simp]: "lift_calls f g (if b then p else q) = (if b then lift_calls f g p else lift_calls f g q)"
  by simp

definition strict_value :: "'a strict_decoder \<Rightarrow> string \<Rightarrow> 'a option" where
  "strict_value D b = (case D b of
       Some (v, eof) \<Rightarrow> if eof then Some v else None
     | None \<Rightarrow> None)"

end
