(* ===== verification/RuntimeConfig.thy ===== *)
theory RuntimeConfig
  imports Capture Gateway
begin

text \<open>
  The runtime configuration: \<open>runtimeconfig/model.go\<close>, \<open>onboarding.go\<close>, \<open>json.go\<close> and
  \<open>api.go\<close>. Requirements and character rules are Go strings with named constants, so they are
  strings here, and \<open>Validate\<close> decides which are legal. The repository is the calls
  \<open>cfg_call\<close>; its implementation on DynamoDB is in the theory of the configuration store.
\<close>

datatype cfg_err =
    CfgInvalid | CfgConflict | CfgForbidden | CfgNotFound
  | CfgCanceled "string list" \<comment> \<open>TransactionCanceledException: the codes of its reasons\<close>
  | CfgOther string

text \<open>Library functions taken as parameters.\<close>

record 'c cfglib =
  has_control :: "string \<Rightarrow> bool" \<comment> \<open>strings.ContainsFunc(v, unicode.IsControl)\<close>
  is_rfc3339 :: "string \<Rightarrow> bool" \<comment> \<open>time.Parse(time.RFC3339, v) succeeds\<close>
  rfc3339 :: "int \<Rightarrow> string" \<comment> \<open>Format(time.RFC3339Nano) of a UTC time\<close>
  json_object :: "string \<Rightarrow> (string \<times> string) list option" \<comment> \<open>json.Unmarshal to raw members\<close>
  json_strict :: "string \<Rightarrow> 'c option" \<comment> \<open>Decode with DisallowUnknownFields\<close>
  space_trimmed :: "string \<Rightarrow> string" \<comment> \<open>strings.TrimSpace, bytes.TrimSpace\<close>
  marshal_policy :: "policy \<Rightarrow> string" \<comment> \<open>json.Marshal of a policy\<close>

section \<open>Onboarding and password policy\<close>

definition Required :: string where "Required = ''required''"
definition Optional :: string where "Optional = ''optional''"
definition Disabled :: string where "Disabled = ''disabled''"
definition Allowed :: string where "Allowed = ''allowed''"
definition Disallowed :: string where "Disallowed = ''disallowed''"
definition CharacterRequired :: string where "CharacterRequired = ''required''"

record password_policy =
  MinLength :: int
  MaxLength :: int
  Lowercase :: string
  Uppercase :: string
  Numbers :: string
  Symbols :: string

record onboarding =
  obIDCapture :: string
  obPasskey :: string
  obPassword :: string
  obPasswordPlacement :: string
  obPasswordPolicy :: password_policy

definition default_onboarding :: onboarding where
  "default_onboarding = \<lparr>obIDCapture = Required, obPasskey = Required, obPassword = Disabled,
     obPasswordPlacement = ''hidden'',
     obPasswordPolicy = \<lparr>MinLength = 12, MaxLength = 128, Lowercase = Allowed, Uppercase = Allowed,
       Numbers = Allowed, Symbols = Allowed\<rparr>\<rparr>"

definition rules :: "password_policy \<Rightarrow> string list" where
  "rules p = [Lowercase p, Uppercase p, Numbers p, Symbols p]"

fun rules_enabled :: "string list \<Rightarrow> bool \<Rightarrow> bool option" where
  "rules_enabled [] enabled = Some enabled"
| "rules_enabled (r # rs) enabled =
    (if r \<noteq> Allowed \<and> r \<noteq> CharacterRequired \<and> r \<noteq> Disallowed then None
     else rules_enabled rs (enabled \<or> r \<noteq> Disallowed))"

definition password_policy_validate :: "password_policy \<Rightarrow> cfg_err option" where
  "password_policy_validate p =
    (if MinLength p < 8 \<or> MaxLength p > 128 \<or> MinLength p > MaxLength p then Some CfgInvalid else
     case rules_enabled (rules p) False of
       None \<Rightarrow> Some CfgInvalid
     | Some enabled \<Rightarrow> if \<not> enabled then Some CfgInvalid else None)"

text \<open>
  \<open>Check\<close> ranges over the runes of the password. A byte above 127 belongs to a rune above 126
  or to an invalid sequence, which Go reads as U+FFFD, so the byte-wise loop rejects the same
  passwords.
\<close>

definition char_class :: "char \<Rightarrow> nat option" where
  "char_class c =
    (if between (CHR ''a'') (CHR ''z'') c then Some 0
     else if between (CHR ''A'') (CHR ''Z'') c then Some 1
     else if between (CHR ''0'') (CHR ''9'') c then Some 2
     else if byte c < 33 \<or> byte c > 126 then None
     else Some 3)"

fun check_chars :: "string list \<Rightarrow> string \<Rightarrow> bool list \<Rightarrow> bool list option" where
  "check_chars rs [] seen = Some seen"
| "check_chars rs (c # cs) seen =
    (case char_class c of
       None \<Rightarrow> None
     | Some i \<Rightarrow> if rs ! i = Disallowed then None else check_chars rs cs (seen[i := True]))"

definition password_check :: "password_policy \<Rightarrow> string \<Rightarrow> cfg_err option" where
  "password_check p password =
    (if password_policy_validate p \<noteq> None \<or> int (length password) < MinLength p \<or>
        int (length password) > MaxLength p
     then Some CfgInvalid else
     case check_chars (rules p) password [False, False, False, False] of
       None \<Rightarrow> Some CfgInvalid
     | Some seen \<Rightarrow>
         if list_ex (\<lambda>(r, s). r = CharacterRequired \<and> \<not> s) (zip (rules p) seen)
         then Some CfgInvalid else None)"

definition onboarding_validate :: "onboarding \<Rightarrow> cfg_err option" where
  "onboarding_validate p =
    (if list_ex (\<lambda>r. r \<noteq> Required \<and> r \<noteq> Optional \<and> r \<noteq> Disabled)
          [obIDCapture p, obPasskey p, obPassword p]
     then Some CfgInvalid
     else if obPasswordPlacement p \<noteq> ''hidden'' \<and> obPasswordPlacement p \<noteq> ''with_email'' \<and>
        obPasswordPlacement p \<noteq> ''after_verification''
     then Some CfgInvalid
     else if (obPassword p = Disabled) \<noteq> (obPasswordPlacement p = ''hidden'') then Some CfgInvalid
     else password_policy_validate (obPasswordPolicy p))"

definition onboarding_complete :: "onboarding \<Rightarrow> bool \<Rightarrow> bool \<Rightarrow> bool \<Rightarrow> bool" where
  "onboarding_complete p passkey password captured \<longleftrightarrow> onboarding_validate p = None \<and>
     (obPasskey p \<noteq> Required \<or> passkey) \<and> (obPassword p \<noteq> Required \<or> password) \<and>
     (obIDCapture p \<noteq> Required \<or> captured)"

section \<open>Configuration\<close>

definition valid_environment :: "string \<Rightarrow> bool" where
  "valid_environment v \<longleftrightarrow> v \<noteq> '''' \<and> length v \<le> 32 \<and> is_lower (hd v) \<and>
     list_all (\<lambda>c. is_lower c \<or> is_digit c \<or> c = CHR ''-'') v"

definition valid_document_type :: "string \<Rightarrow> bool" where
  "valid_document_type v \<longleftrightarrow> v \<noteq> '''' \<and> length v \<le> 64 \<and> is_lower (hd v) \<and>
     list_all (\<lambda>c. is_lower c \<or> is_digit c \<or> c = CHR ''_'') v"

record cfg_capture =
  gMessages :: purposes
  gDocumentType :: string
  gJurisdiction :: string
  gPurpose :: string

record config =
  gSchemaVersion :: int
  gEnvironment :: string
  gRevision :: int
  gUpdatedAt :: string
  gOnboarding :: "onboarding option"
  gIDCapture :: bool \<comment> \<open>Features\<close>
  gCapture :: cfg_capture

definition no_purposes :: purposes where
  "no_purposes = \<lparr>EN = '''', ES = '''', FR = ''''\<rparr>"

definition default_config :: "string \<Rightarrow> config" where
  "default_config env = \<lparr>gSchemaVersion = 1, gEnvironment = env, gRevision = 0,
     gUpdatedAt = ''1970-01-01T00:00:00Z'', gOnboarding = Some default_onboarding, gIDCapture = True,
     gCapture = \<lparr>gMessages = default_purposes, gDocumentType = ''id_card'', gJurisdiction = '''',
       gPurpose = EN default_purposes\<rparr>\<rparr>"

definition effective_onboarding :: "config \<Rightarrow> onboarding" where
  "effective_onboarding c = (case gOnboarding c of
       Some p \<Rightarrow> p
     | None \<Rightarrow> default_onboarding\<lparr>obIDCapture := (if gIDCapture c then Optional else Disabled)\<rparr>)"

definition normalized :: "config \<Rightarrow> config" where
  "normalized c = c\<lparr>gOnboarding := Some (effective_onboarding c)\<rparr>"

definition text_ok :: "'c cfglib \<Rightarrow> string \<Rightarrow> bool" where
  "text_ok G v \<longleftrightarrow> length v \<le> 1024 \<and> space_trimmed G v = v \<and> \<not> has_control G v"

definition config_validate :: "'c cfglib \<Rightarrow> config \<Rightarrow> cfg_err option" where
  "config_validate G c =
    (if onboarding_validate (effective_onboarding c) \<noteq> None \<or>
        (case gOnboarding c of None \<Rightarrow> False
         | Some p \<Rightarrow> gIDCapture c \<noteq> (obIDCapture p \<noteq> Disabled))
     then Some CfgInvalid else
     if gSchemaVersion c \<noteq> 1 \<or> \<not> valid_environment (gEnvironment c) \<or> gRevision c < 0
     then Some CfgInvalid else
     if \<not> is_rfc3339 G (gUpdatedAt c) then Some CfgInvalid else
     let m = gCapture c in
     if list_ex (\<lambda>v. \<not> text_ok G v)
          [gDocumentType m, gPurpose m, gJurisdiction m, EN (gMessages m), ES (gMessages m), FR (gMessages m)]
     then Some CfgInvalid else
     if \<not> valid_document_type (gDocumentType m) \<or>
        (gIDCapture c \<and> (gDocumentType m = ''sample_card'' \<or> gPurpose m = ''''))
     then Some CfgInvalid else
     if gMessages m \<noteq> no_purposes \<and> EN (gMessages m) = '''' then Some CfgInvalid else None)"

definition config_policy :: "golib \<Rightarrow> 'c cfglib \<Rightarrow> config \<Rightarrow> policy" where
  "config_policy L G c =
    (let m = (if EN (gMessages (gCapture c)) = '''' then default_purposes else gMessages (gCapture c))
     in with_version L (marshal_policy G)
          \<lparr>pPurposes = m, pEnabled = gIDCapture c, pVersion = '''', pDocumentType = ''id_card'',
           pSlots = [''front'', ''back''], pContentType = ''image/jpeg'', pMaxBytes = MaxBytes,
           pPurpose = EN m, pJurisdiction = '''', pRetentionDays = 7\<rparr>)"

text \<open>\<open>UnmarshalJSON\<close>; the last of repeated members counts, as in a Go map.\<close>

definition config_unmarshal :: "config cfglib \<Rightarrow> string \<Rightarrow> cfg_err + config" where
  "config_unmarshal G data = (case json_object G data of
       None \<Rightarrow> Inl (CfgOther ''json'')
     | Some raw \<Rightarrow>
         if (\<exists>value\<in>set_option (map_of (rev raw) ''onboarding''). space_trimmed G value = ''null'')
         then Inl CfgInvalid
         else (case json_strict G data of None \<Rightarrow> Inl (CfgOther ''json'') | Some c \<Rightarrow> Inr c))"

section \<open>The service\<close>

record version =
  vConfig :: config
  vActor :: string
  vAction :: string
  vSourceRevision :: "int option"

record grant =
  grSubject :: string
  grEnvironment :: string
  grRevision :: int
  grActive :: bool
  grManageGrants :: bool

datatype cfg_call =
    RGet string
  | RGrants string
  | RHistory string
  | RGetVersion string int
  | RPublish grant int version
  | RSetGrant grant grant
  | RNow

record cfg_resp =
  g_err :: "cfg_err option"
  g_config :: "cfg_err + config"
  g_grants :: "cfg_err + grant list"
  g_history :: "cfg_err + version list"
  g_version :: "cfg_err + version"
  g_unix :: int

type_synonym 'a cfg_prog = "(cfg_call, cfg_resp, 'a) prog"

definition repo_get :: "string \<Rightarrow> (cfg_err + config \<Rightarrow> 'a cfg_prog) \<Rightarrow> 'a cfg_prog" where
  [call_simps]: "repo_get env k = Call (RGet env) (\<lambda>r. k (g_config r))"

definition repo_grants :: "string \<Rightarrow> (cfg_err + grant list \<Rightarrow> 'a cfg_prog) \<Rightarrow> 'a cfg_prog" where
  [call_simps]: "repo_grants sub k = Call (RGrants sub) (\<lambda>r. k (g_grants r))"

definition repo_history :: "string \<Rightarrow> (cfg_err + version list \<Rightarrow> 'a cfg_prog) \<Rightarrow> 'a cfg_prog" where
  [call_simps]: "repo_history env k = Call (RHistory env) (\<lambda>r. k (g_history r))"

definition repo_version :: "string \<Rightarrow> int \<Rightarrow> (cfg_err + version \<Rightarrow> 'a cfg_prog) \<Rightarrow> 'a cfg_prog" where
  [call_simps]: "repo_version env n k = Call (RGetVersion env n) (\<lambda>r. k (g_version r))"

definition repo_publish :: "grant \<Rightarrow> int \<Rightarrow> version \<Rightarrow> (cfg_err option \<Rightarrow> 'a cfg_prog) \<Rightarrow> 'a cfg_prog" where
  [call_simps]: "repo_publish g n v k = Call (RPublish g n v) (\<lambda>r. k (g_err r))"

definition repo_set_grant :: "grant \<Rightarrow> grant \<Rightarrow> (cfg_err option \<Rightarrow> 'a cfg_prog) \<Rightarrow> 'a cfg_prog" where
  [call_simps]: "repo_set_grant a t k = Call (RSetGrant a t) (\<lambda>r. k (g_err r))"

definition authorized :: "string \<Rightarrow> string \<Rightarrow> (cfg_err + grant \<Rightarrow> 'a cfg_prog) \<Rightarrow> 'a cfg_prog" where
  "authorized sub env k = repo_grants sub (\<lambda>x. case x of
       Inl e \<Rightarrow> k (Inl e)
     | Inr gs \<Rightarrow> (case find (\<lambda>g. grEnvironment g = env \<and> grActive g) gs of
         Some g \<Rightarrow> k (Inr g)
       | None \<Rightarrow> k (Inl CfgForbidden)))"

text \<open>What \<open>Publish\<close> makes of the submitted configuration before it validates it.\<close>

definition prepared :: "'c cfglib \<Rightarrow> config \<Rightarrow> int \<Rightarrow> int \<Rightarrow> config" where
  "prepared G c expected n =
    (let m = gCapture c;
         msgs = (if gMessages m = no_purposes then default_purposes else gMessages m);
         d = normalized (c\<lparr>gCapture := m\<lparr>gDocumentType := ''id_card'', gJurisdiction := '''',
               gMessages := msgs, gPurpose := EN msgs\<rparr>\<rparr>)
     in d\<lparr>gIDCapture := (obIDCapture (effective_onboarding d) \<noteq> Disabled), gSchemaVersion := 1,
          gRevision := add64 expected 1, gUpdatedAt := rfc3339 G n\<rparr>)"

definition cfg_publish :: "'c cfglib \<Rightarrow> grant \<Rightarrow> int \<Rightarrow> config \<Rightarrow> int option \<Rightarrow>
    (cfg_err + config \<Rightarrow> 'a cfg_prog) \<Rightarrow> 'a cfg_prog" where
  "cfg_publish G g expected c source k =
    (if expected < 0 \<or> expected = max_int64 then k (Inl CfgInvalid) else
     if \<not> grActive g \<or> gEnvironment c \<noteq> grEnvironment g then k (Inl CfgForbidden) else
     Call RNow (\<lambda>r. let d = prepared G c expected (g_unix r) in
       case config_validate G d of
         Some e \<Rightarrow> k (Inl e)
       | None \<Rightarrow>
           repo_publish g expected
             \<lparr>vConfig = d, vActor = grSubject g,
              vAction = (if source \<noteq> None then ''rollback'' else ''publish''), vSourceRevision = source\<rparr>
             (\<lambda>x. case x of Some e \<Rightarrow> k (Inl e) | None \<Rightarrow> k (Inr d))))"

section \<open>The public handler\<close>

datatype config_body = PublicError string | PublicConfig config

definition public_handle :: "'c cfglib \<Rightarrow> string \<Rightarrow> request \<Rightarrow> config_body response cfg_prog" where
  "public_handle G env r =
    (if rqRawPath r \<noteq> ''/v1/app-config'' \<or> rqMethod r \<noteq> ''GET''
     then Ret \<lparr>rsStatus = 404, rsBody = PublicError ''not_found''\<rparr> else
     repo_get env (\<lambda>x. case x of
       Inl _ \<Rightarrow> Ret \<lparr>rsStatus = 503, rsBody = PublicError ''config_unavailable''\<rparr>
     | Inr c \<Rightarrow>
         if gEnvironment c \<noteq> env \<or> config_validate G c \<noteq> None
         then Ret \<lparr>rsStatus = 503, rsBody = PublicError ''config_unavailable''\<rparr>
         else Ret \<lparr>rsStatus = 200, rsBody = PublicConfig (normalized c)\<rparr>))"

end
