(* ===== verification/ConfigStore.thy ===== *)
theory ConfigStore
  imports RuntimeConfig
begin

text \<open>
  The configuration store, \<open>runtimeconfig/store.go\<close>. The table is keyed by \<open>id\<close> and \<open>sk\<close>; its
  items are \<open>cfg_item\<close>, one constructor per Go type that is marshalled into it. DynamoDB is the
  calls \<open>dyn_call\<close>; a condition expression of the source is a \<open>cond\<close>, whose documented meaning
  is \<open>holds\<close>, and a transaction the list of its checks and puts.
\<close>

section \<open>Items, conditions and transactions\<close>

datatype cfg_item =
    ConfigItem config "bool option" "int option" \<comment> \<open>Override, DefaultGeneration, where present\<close>
  | VersionItem version
  | GrantItem grant
  | AuditItem string grant string
  | MarkerItem

type_synonym cfg_key = "string \<times> string"

datatype cond =
    NotExists \<comment> \<open>attribute_not_exists(id)\<close>
  | RevisionIs int \<comment> \<open>Revision = :revision\<close>
  | GrantIs int bool \<comment> \<open>Revision = :revision AND Active = true [AND ManageGrants = true]\<close>
  | DefaultsBefore int int
      \<comment> \<open>Revision = :revision, Override absent or false, DefaultGeneration absent or less\<close>

fun item_revision :: "cfg_item \<Rightarrow> int option" where
  "item_revision (ConfigItem c ov gen) = Some (gRevision c)"
| "item_revision (GrantItem g) = Some (grRevision g)"
| "item_revision _ = None"

fun holds :: "cond \<Rightarrow> cfg_item option \<Rightarrow> bool" where
  "holds NotExists i = (i = None)"
| "holds (RevisionIs n) i = (case i of None \<Rightarrow> False | Some x \<Rightarrow> item_revision x = Some n)"
| "holds (GrantIs n manage) i = (case i of
     Some (GrantItem g) \<Rightarrow> grRevision g = n \<and> grActive g \<and> (manage \<longrightarrow> grManageGrants g)
   | _ \<Rightarrow> False)"
| "holds (DefaultsBefore n gen) i = (case i of
     Some (ConfigItem c ov old) \<Rightarrow> gRevision c = n \<and> (ov = None \<or> ov = Some False) \<and>
       (case old of None \<Rightarrow> True | Some m \<Rightarrow> m < gen)
   | _ \<Rightarrow> False)"

datatype cwrite =
    Check cfg_key cond
  | PutItem cfg_key cfg_item cond
  | Lease string string int string \<comment> \<open>registry table, environment, revision and token of a fence\<close>

datatype dyn_call =
    DGet cfg_key
  | DQuery string string "cfg_key option" bool
      \<comment> \<open>id, prefix of sk, ExclusiveStartKey, descending; Limit is 100\<close>
  | DTransact "cwrite list"
  | DNow

record dyn_resp =
  d_item :: "cfg_err + cfg_item option"
  d_page :: "cfg_err + cfg_item list \<times> cfg_key option" \<comment> \<open>items and LastEvaluatedKey\<close>
  d_done :: "cfg_err option"
  d_unix :: int

type_synonym 'a dyn_prog = "(dyn_call, dyn_resp, 'a) prog"

definition env_id :: "string \<Rightarrow> string" where "env_id env = ''ENV#'' @ env"
definition user_id :: "string \<Rightarrow> string" where "user_id sub = ''USER#'' @ sub"

definition fmt_revision :: "int \<Rightarrow> string" where
  "fmt_revision v = pad_left 20 (show_int v)"

definition config_key :: "string \<Rightarrow> cfg_key" where "config_key env = (env_id env, ''CONFIG'')"
definition version_key :: "string \<Rightarrow> int \<Rightarrow> cfg_key" where
  "version_key env n = (env_id env, ''VERSION#'' @ fmt_revision n)"
definition grant_key :: "string \<Rightarrow> string \<Rightarrow> cfg_key" where
  "grant_key sub env = (user_id sub, ''GRANT#'' @ env)"
definition audit_key :: "grant \<Rightarrow> cfg_key" where
  "audit_key g = (env_id (grEnvironment g),
     ''GRANT-AUDIT#'' @ grSubject g @ ''#'' @ fmt_revision (grRevision g))"
definition marker_key :: "string \<Rightarrow> cfg_key" where "marker_key env = (env_id env, ''BOOTSTRAP'')"

definition conflict :: "cfg_err option \<Rightarrow> cfg_err option" where
  "conflict e = (case e of
       Some (CfgCanceled codes) \<Rightarrow>
         if ''ConditionalCheckFailed'' \<in> set codes then Some CfgConflict else e
     | _ \<Rightarrow> e)"

definition transact :: "cwrite list \<Rightarrow> (cfg_err option \<Rightarrow> 'a dyn_prog) \<Rightarrow> 'a dyn_prog" where
  "transact ws k = Call (DTransact ws) (\<lambda>r. k (conflict (d_done r)))"

definition dyn_read :: "cfg_key \<Rightarrow> (cfg_err + cfg_item \<Rightarrow> 'a dyn_prog) \<Rightarrow> 'a dyn_prog" where
  "dyn_read k f = Call (DGet k) (\<lambda>r. case d_item r of
       Inl e \<Rightarrow> f (Inl e)
     | Inr None \<Rightarrow> f (Inl CfgNotFound)
     | Inr (Some i) \<Rightarrow> f (Inr i))"

definition malformed :: cfg_err where "malformed = CfgOther ''unmarshal''"

section \<open>Reads\<close>

definition cs_get :: "'c cfglib \<Rightarrow> string \<Rightarrow> (cfg_err + config) dyn_prog" where
  "cs_get G env = dyn_read (config_key env) (\<lambda>x. case x of
       Inl e \<Rightarrow> Ret (Inl e)
     | Inr (ConfigItem c ov gen) \<Rightarrow>
         if gEnvironment c \<noteq> env then Ret (Inl CfgInvalid) else
         (case config_validate G c of Some e \<Rightarrow> Ret (Inl e) | None \<Rightarrow> Ret (Inr (normalized c)))
     | Inr _ \<Rightarrow> Ret (Inl malformed))"

fun page_grants :: "string \<Rightarrow> cfg_item list \<Rightarrow> grant list \<Rightarrow> cfg_err + grant list" where
  "page_grants sub [] out = Inr out"
| "page_grants sub (GrantItem g # is) out =
    (if grSubject g \<noteq> sub \<or> \<not> valid_environment (grEnvironment g) \<or> grRevision g < 1
     then Inl CfgInvalid else page_grants sub is (out @ [g]))"
| "page_grants sub (_ # is) out = Inl malformed"

text \<open>The source pages until DynamoDB returns no cursor; each page costs one unit of fuel.\<close>

fun grants_loop :: "nat \<Rightarrow> string \<Rightarrow> cfg_key option \<Rightarrow> grant list \<Rightarrow> (cfg_err + grant list) dyn_prog" where
  "grants_loop 0 sub cursor out = Spin"
| "grants_loop (Suc fuel) sub cursor out =
     Call (DQuery (user_id sub) ''GRANT#'' cursor False) (\<lambda>r. case d_page r of
       Inl e \<Rightarrow> Ret (Inl e)
     | Inr (is, next) \<Rightarrow> (case page_grants sub is out of
         Inl e \<Rightarrow> Ret (Inl e)
       | Inr out' \<Rightarrow> if next = None then Ret (Inr out') else grants_loop fuel sub next out'))"

definition cs_grants :: "nat \<Rightarrow> string \<Rightarrow> (cfg_err + grant list) dyn_prog" where
  "cs_grants fuel sub = grants_loop fuel sub None []"

definition cs_version :: "string \<Rightarrow> int \<Rightarrow> (cfg_err + version) dyn_prog" where
  "cs_version env n = dyn_read (version_key env n) (\<lambda>x. case x of
       Inl e \<Rightarrow> Ret (Inl e)
     | Inr (VersionItem v) \<Rightarrow> Ret (Inr v)
     | Inr _ \<Rightarrow> Ret (Inl malformed))"

fun item_versions :: "cfg_item list \<Rightarrow> version list \<Rightarrow> cfg_err + version list" where
  "item_versions [] out = Inr out"
| "item_versions (VersionItem v # is) out = item_versions is (out @ [v])"
| "item_versions (_ # is) out = Inl malformed"

definition cs_history :: "string \<Rightarrow> (cfg_err + version list) dyn_prog" where
  "cs_history env = Call (DQuery (env_id env) ''VERSION#'' None True) (\<lambda>r. case d_page r of
       Inl e \<Rightarrow> Ret (Inl e)
     | Inr (is, next) \<Rightarrow> Ret (item_versions is []))"

definition cs_bootstrapped :: "string \<Rightarrow> (cfg_err + bool) dyn_prog" where
  "cs_bootstrapped env = dyn_read (marker_key env) (\<lambda>x. case x of
       Inl e \<Rightarrow> if e = CfgNotFound then Ret (Inr False) else Ret (Inl e)
     | Inr _ \<Rightarrow> Ret (Inr True))"

section \<open>Writes\<close>

definition grant_check :: "grant \<Rightarrow> bool \<Rightarrow> cwrite" where
  "grant_check g manage = Check (grant_key (grSubject g) (grEnvironment g)) (GrantIs (grRevision g) manage)"

definition publish_writes :: "grant \<Rightarrow> int \<Rightarrow> version \<Rightarrow> cwrite list" where
  "publish_writes g expected v =
    (let c = vConfig v in
     [grant_check g False,
      PutItem (config_key (gEnvironment c)) (ConfigItem c (Some True) None) (RevisionIs expected),
      PutItem (version_key (gEnvironment c) (gRevision c)) (VersionItem v) NotExists])"

definition cs_publish :: "grant \<Rightarrow> int \<Rightarrow> version \<Rightarrow> cfg_err option dyn_prog" where
  "cs_publish g expected v = transact (publish_writes g expected v) Ret"

definition next_grant :: "grant \<Rightarrow> grant" where
  "next_grant t = t\<lparr>grRevision := add64 (grRevision t) 1\<rparr>"

definition grant_writes :: "grant \<Rightarrow> grant \<Rightarrow> string \<Rightarrow> cwrite list" where
  "grant_writes actor target at =
    (let t = next_grant target in
     [grant_check actor True,
      PutItem (grant_key (grSubject t) (grEnvironment t)) (GrantItem t)
        (if grRevision target = 0 then NotExists else RevisionIs (grRevision target)),
      PutItem (audit_key t) (AuditItem (grSubject actor) t at) NotExists])"

definition may_grant :: "grant \<Rightarrow> grant \<Rightarrow> bool" where
  "may_grant actor target \<longleftrightarrow> grActive actor \<and> grManageGrants actor \<and>
     grEnvironment actor = grEnvironment target \<and> grSubject actor \<noteq> grSubject target \<and>
     grSubject target \<noteq> '''' \<and> length (grSubject target) \<le> 100"

definition cs_set_grant :: "'c cfglib \<Rightarrow> grant \<Rightarrow> grant \<Rightarrow> cfg_err option dyn_prog" where
  "cs_set_grant G actor target =
    (if \<not> may_grant actor target then Ret (Some CfgForbidden) else
     Call DNow (\<lambda>r. transact (grant_writes actor target (rfc3339 G (d_unix r))) Ret))"

definition seed_writes :: "config \<Rightarrow> cwrite list" where
  "seed_writes c =
    [PutItem (config_key (gEnvironment c)) (ConfigItem c None None) NotExists,
     PutItem (version_key (gEnvironment c) 0)
       (VersionItem \<lparr>vConfig = c, vActor = ''setup'', vAction = ''defaults'', vSourceRevision = None\<rparr>)
       NotExists]"

definition cs_seed :: "'c cfglib \<Rightarrow> config \<Rightarrow> cfg_err option dyn_prog" where
  "cs_seed G c = (case config_validate G c of
       Some e \<Rightarrow> Ret (Some e)
     | None \<Rightarrow> transact (seed_writes c) Ret)"

definition bootstrap_writes :: "string \<Rightarrow> string \<Rightarrow> cwrite list" where
  "bootstrap_writes sub env =
    [PutItem (marker_key env) MarkerItem NotExists,
     PutItem (grant_key sub env)
       (GrantItem \<lparr>grSubject = sub, grEnvironment = env, grRevision = 1, grActive = True,
          grManageGrants = True\<rparr>) NotExists]"

definition cs_bootstrap :: "string \<Rightarrow> string \<Rightarrow> cfg_err option dyn_prog" where
  "cs_bootstrap sub env = transact (bootstrap_writes sub env) Ret"

text \<open>The fence is the registry lease, checked in the same transaction.\<close>

record fence =
  fnTable :: string
  fnEnvironment :: string
  fnToken :: string
  fnRevision :: int

record stored_config =
  scConfig :: config
  scOverride :: bool
  scGeneration :: int

definition stored_of :: "cfg_item \<Rightarrow> cfg_err + stored_config" where
  "stored_of i = (case i of
       ConfigItem c ov gen \<Rightarrow> Inr \<lparr>scConfig = c, scOverride = (ov = Some True),
         scGeneration = (case gen of None \<Rightarrow> 0 | Some m \<Rightarrow> m)\<rparr>
     | _ \<Rightarrow> Inl malformed)"

definition same_values :: "config \<Rightarrow> config \<Rightarrow> bool" where
  "same_values a b \<longleftrightarrow> gIDCapture a = gIDCapture b \<and> gCapture a = gCapture b \<and>
     effective_onboarding a = effective_onboarding b"

definition synced :: "stored_config option \<Rightarrow> config \<Rightarrow> config" where
  "synced old c = (case old of
       None \<Rightarrow> c\<lparr>gRevision := 0\<rparr>
     | Some s \<Rightarrow>
         if same_values (scConfig s) c
         then c\<lparr>gRevision := gRevision (scConfig s), gUpdatedAt := gUpdatedAt (scConfig s)\<rparr>
         else c\<lparr>gRevision := add64 (gRevision (scConfig s)) 1\<rparr>)"

definition sync_changed :: "stored_config option \<Rightarrow> config \<Rightarrow> bool" where
  "sync_changed old c = (case old of None \<Rightarrow> True | Some s \<Rightarrow> \<not> same_values (scConfig s) c)"

definition sync_writes :: "stored_config option \<Rightarrow> config \<Rightarrow> fence \<Rightarrow> cwrite list" where
  "sync_writes old c f =
    (let d = synced old c in
     [Lease (fnTable f) (fnEnvironment f) (fnRevision f) (fnToken f),
      PutItem (config_key (gEnvironment d)) (ConfigItem d (Some False) (Some (fnRevision f)))
        (case old of
           Some s \<Rightarrow> if gSchemaVersion (scConfig s) \<noteq> 0
             then DefaultsBefore (gRevision (scConfig s)) (fnRevision f) else NotExists
         | None \<Rightarrow> NotExists)] @
     (if sync_changed old c
      then [PutItem (version_key (gEnvironment d) (gRevision d))
              (VersionItem \<lparr>vConfig = d, vActor = ''deployment:'' @ show_int (fnRevision f),
                 vAction = ''defaults'', vSourceRevision = None\<rparr>) NotExists]
      else []))"

definition sync_decide :: "stored_config option \<Rightarrow> config \<Rightarrow> fence \<Rightarrow> cfg_err option dyn_prog" where
  "sync_decide old c f = (case old of
       Some s \<Rightarrow>
         if scOverride s then Ret None
         else if scGeneration s \<ge> fnRevision f
         then (if scGeneration s = fnRevision f \<and> same_values (scConfig s) c then Ret None
               else Ret (Some CfgConflict))
         else transact (sync_writes old c f) Ret
     | None \<Rightarrow> transact (sync_writes old c f) Ret)"

definition cs_sync :: "'c cfglib \<Rightarrow> config \<Rightarrow> fence \<Rightarrow> cfg_err option dyn_prog" where
  "cs_sync G c f =
    (if gEnvironment c \<noteq> fnEnvironment f \<or> fnTable f = '''' \<or> fnToken f = '''' \<or> fnRevision f < 1
     then Ret (Some CfgInvalid) else
     case config_validate G c of Some e \<Rightarrow> Ret (Some e) | None \<Rightarrow>
     dyn_read (config_key (gEnvironment c)) (\<lambda>x. case x of
       Inl e \<Rightarrow> if e \<noteq> CfgNotFound then Ret (Some e) else sync_decide None c f
     | Inr i \<Rightarrow> (case stored_of i of
         Inl e \<Rightarrow> Ret (Some e)
       | Inr s \<Rightarrow> sync_decide (Some s) c f)))"

end
