(* ===== verification/Registry.thy ===== *)
theory Registry
  imports ConfigStore
begin

text \<open>
  The environment registry, \<open>registry/registry.go\<close>: a deployment takes a lease on an
  environment (\<open>begin\<close>), and publishes, retires, deletes or abandons it under that lease. The
  table holds one item per environment; its attributes are the fields of \<open>reg_item\<close>, absent
  ones \<open>None\<close>, and the conditional updates of the source are the constructors of
  \<open>reg_update\<close> with their documented meaning in \<open>reg_holds\<close> and \<open>reg_apply\<close>.
\<close>

section \<open>Data\<close>

record configuration =
  APIURL :: string
  AWSRegion :: string
  CognitoUserPoolID :: string
  CognitoClientID :: string
  FeatureIDCapture :: bool

record entry =
  eID :: string
  eConfig :: configuration
  eConfigHash :: string
  eRevision :: int
  eUpdatedAt :: string

record change =
  chDefaults :: "config option"
  chOperation :: string
  chToken :: string
  chRevision :: int
  chConfig :: configuration

text \<open>An item as stored, and the Go record it is read into.\<close>

record reg_item =
  riRevision :: int
  riLock :: "string option"
  riEntry :: "entry option"
  riDeleted :: bool
  riLastToken :: "string option"

record reg_record =
  rrRevision :: int
  rrLock :: string
  rrEntry :: "entry option"
  rrDeleted :: bool
  rrLastToken :: string

definition go_string :: "string option \<Rightarrow> string" where
  "go_string s = (case s of None \<Rightarrow> '''' | Some t \<Rightarrow> t)"

definition reg_view :: "reg_item option \<Rightarrow> reg_record" where
  "reg_view i = (case i of
       None \<Rightarrow> \<lparr>rrRevision = 0, rrLock = '''', rrEntry = None, rrDeleted = False, rrLastToken = ''''\<rparr>
     | Some x \<Rightarrow> \<lparr>rrRevision = riRevision x, rrLock = go_string (riLock x), rrEntry = riEntry x,
         rrDeleted = riDeleted x, rrLastToken = go_string (riLastToken x)\<rparr>)"

text \<open>The updates: the lease, and the four that need it (token and revision).\<close>

datatype reg_finish = FPublish entry | FRetire | FDelete | FAbandon

datatype reg_update = UAcquire string | UFinish string int reg_finish

fun reg_holds :: "reg_update \<Rightarrow> reg_item option \<Rightarrow> bool" where
  "reg_holds (UAcquire token) i = (case i of
     None \<Rightarrow> True | Some x \<Rightarrow> riLock x = None \<and> riLastToken x \<noteq> Some token)"
| "reg_holds (UFinish token n f) i = (case i of
     None \<Rightarrow> False | Some x \<Rightarrow> riLock x = Some token \<and> riRevision x = n)"

definition reg_empty :: reg_item where
  "reg_empty = \<lparr>riRevision = 0, riLock = None, riEntry = None, riDeleted = False, riLastToken = None\<rparr>"

definition reg_finished :: "string \<Rightarrow> reg_finish \<Rightarrow> reg_item \<Rightarrow> reg_item" where
  "reg_finished token f x = (case f of
     FPublish e \<Rightarrow> x\<lparr>riLastToken := Some token, riEntry := Some e, riDeleted := False, riLock := None\<rparr>
   | FRetire \<Rightarrow> x\<lparr>riDeleted := True, riEntry := None\<rparr>
   | FDelete \<Rightarrow> x\<lparr>riLastToken := Some token, riDeleted := True, riLock := None, riEntry := None\<rparr>
   | FAbandon \<Rightarrow> x\<lparr>riLastToken := Some token, riLock := None\<rparr>)"

fun reg_apply :: "reg_update \<Rightarrow> reg_item option \<Rightarrow> reg_item" where
  "reg_apply (UAcquire token) i =
     (let x = (case i of None \<Rightarrow> reg_empty | Some x \<Rightarrow> x)
      in x\<lparr>riLock := Some token, riRevision := riRevision x + 1\<rparr>)"
| "reg_apply (UFinish token n f) i =
     reg_finished token f (case i of None \<Rightarrow> reg_empty | Some x \<Rightarrow> x)"

text \<open>Calls; the runtime configuration's \<open>SyncDefaults\<close> is one of them.\<close>

datatype reg_err = CondFailed | RegOther string

datatype reg_call =
    GGet string
  | GUpdate string reg_update
  | GScan "string option" \<comment> \<open>ExclusiveStartKey\<close>
  | GSync config fence
  | GNow

record reg_resp =
  rg_item :: "reg_err + reg_item option"
  rg_updated :: "reg_err + reg_item" \<comment> \<open>ALL_NEW attributes\<close>
  rg_page :: "reg_err + (entry option \<times> bool) option list \<times> string option"
    \<comment> \<open>entry and deleted of each item, None where unmarshalling fails; LastEvaluatedKey\<close>
  rg_sync :: "cfg_err option"
  rg_unix :: int

type_synonym 'a reg_prog = "(reg_call, reg_resp, 'a) prog"

record reglib =
  marshal_configuration :: "configuration \<Rightarrow> string"
  rfc3339_seconds :: "int \<Rightarrow> string" \<comment> \<open>Format(time.RFC3339) of a UTC time\<close>
  change_decoder :: "change strict_decoder"

section \<open>Validation\<close>

definition lower_alnum :: "char \<Rightarrow> bool" where
  "lower_alnum c \<longleftrightarrow> is_lower c \<or> is_digit c"

text \<open>\<open>^[a-z][a-z0-9]*(?:-[a-z0-9]+)*$\<close>\<close>

definition environment_name :: "string \<Rightarrow> bool" where
  "environment_name s \<longleftrightarrow> s \<noteq> '''' \<and> is_lower (hd s) \<and>
     list_all (\<lambda>p. p \<noteq> '''' \<and> list_all lower_alnum p) (split_on (CHR ''-'') s)"

definition reg_valid_environment :: "string \<Rightarrow> bool" where
  "reg_valid_environment s \<longleftrightarrow> length s > 0 \<and> length s \<le> 32 \<and> environment_name s"

text \<open>\<open>^[a-z]{2}(?:-[a-z]+)+-[0-9]+$\<close>\<close>

definition region_name :: "string \<Rightarrow> bool" where
  "region_name s = (let ps = split_on (CHR ''-'') s in
     length ps \<ge> 3 \<and> length (hd ps) = 2 \<and>
     list_all (\<lambda>p. p \<noteq> '''' \<and> list_all is_lower p) (butlast ps) \<and>
     last ps \<noteq> '''' \<and> list_all is_digit (last ps))"

text \<open>\<open>^[a-f0-9]{48}$\<close>\<close>

definition deployment_token :: "string \<Rightarrow> bool" where
  "deployment_token s \<longleftrightarrow> length s = 48 \<and> list_all is_hex_lower s"

definition reg_hash :: "golib \<Rightarrow> reglib \<Rightarrow> configuration \<Rightarrow> string" where
  "reg_hash L R c = hex_encode (sha256 L (marshal_configuration R c))"

definition reg_validate :: "golib \<Rightarrow> configuration \<Rightarrow> bool" where
  "reg_validate L c = (case url_parse L (APIURL c) of
       None \<Rightarrow> False
     | Some u \<Rightarrow>
         \<not> (u_Scheme u \<noteq> ''https'' \<or> u_Hostname u = '''' \<or> u_User u \<or> u_RawQuery u \<noteq> '''' \<or>
            u_Fragment u \<noteq> '''') \<and>
         region_name (AWSRegion c) \<and> has_prefix (CognitoUserPoolID c) (AWSRegion c @ ''_'') \<and>
         length (CognitoClientID c) \<ge> 5)"

section \<open>Changes\<close>

datatype reg_result = Receipt string int | ChangeOk

definition reg_get :: "string \<Rightarrow> (reg_err + reg_record \<Rightarrow> 'a reg_prog) \<Rightarrow> 'a reg_prog" where
  [call_simps]: "reg_get ident k = Call (GGet ident) (\<lambda>r. case rg_item r of
       Inl e \<Rightarrow> k (Inl e) | Inr i \<Rightarrow> k (Inr (reg_view i)))"

definition reg_begin :: "string \<Rightarrow> string \<Rightarrow> (reg_err + reg_result) reg_prog" where
  "reg_begin ident value =
    (if \<not> deployment_token value then Ret (Inl (RegOther ''invalid deployment token'')) else
     reg_get ident (\<lambda>x. case x of
       Inl e \<Rightarrow> Ret (Inl e)
     | Inr current \<Rightarrow>
         if rrLock current = value then Ret (Inr (Receipt value (rrRevision current)))
         else if rrLastToken current = value then Ret (Inl CondFailed)
         else Call (GUpdate ident (UAcquire value)) (\<lambda>r. case rg_updated r of
           Inl e \<Rightarrow>
             if e = CondFailed
             then reg_get ident (\<lambda>y. case y of
               Inl read_err \<Rightarrow> Ret (Inl read_err)
             | Inr latest \<Rightarrow>
                 if rrLock latest = value then Ret (Inr (Receipt value (rrRevision latest)))
                 else Ret (Inl e))
             else Ret (Inl e)
         | Inr new \<Rightarrow> Ret (Inr (Receipt value (rrRevision (reg_view (Some new))))))))"

definition reg_defaults :: "string \<Rightarrow> string \<Rightarrow> change \<Rightarrow> (reg_err + reg_result) reg_prog" where
  "reg_defaults tbl ident c = (case chDefaults c of
       None \<Rightarrow> Ret (Inl (RegOther ''runtime defaults unavailable''))
     | Some d \<Rightarrow>
         Call (GSync d \<lparr>fnTable = tbl, fnEnvironment = ident, fnToken = chToken c, fnRevision = chRevision c\<rparr>)
           (\<lambda>r. case rg_sync r of
              None \<Rightarrow> Ret (Inr ChangeOk)
            | Some e \<Rightarrow> if e = CfgConflict then Ret (Inl CondFailed) else Ret (Inl (RegOther ''sync''))))"

definition already_done :: "golib \<Rightarrow> reglib \<Rightarrow> reg_record \<Rightarrow> change \<Rightarrow> bool" where
  "already_done L R current c \<longleftrightarrow> rrLock current = '''' \<and> rrLastToken current = chToken c \<and>
     (chOperation c = ''abandon'' \<or> (chOperation c = ''delete'' \<and> rrDeleted current) \<or>
      (chOperation c = ''publish'' \<and> \<not> rrDeleted current \<and>
       (case rrEntry current of None \<Rightarrow> False
        | Some e \<Rightarrow> eConfigHash e = reg_hash L R (chConfig c))))"

definition published_entry :: "golib \<Rightarrow> reglib \<Rightarrow> string \<Rightarrow> change \<Rightarrow> reg_record \<Rightarrow> int \<Rightarrow> entry" where
  "published_entry L R ident c current n =
    (let e = \<lparr>eID = ident, eConfig = chConfig c, eConfigHash = reg_hash L R (chConfig c),
              eRevision = chRevision c, eUpdatedAt = rfc3339_seconds R n\<rparr>
     in case rrEntry current of
          Some old \<Rightarrow> if \<not> rrDeleted current \<and> eConfigHash old = eConfigHash e then old else e
        | None \<Rightarrow> e)"

definition reg_commit :: "string \<Rightarrow> change \<Rightarrow> reg_finish \<Rightarrow> (reg_err + reg_result) reg_prog" where
  "reg_commit ident c f = Call (GUpdate ident (UFinish (chToken c) (chRevision c) f))
     (\<lambda>r. case rg_updated r of Inl e \<Rightarrow> Ret (Inl e) | Inr _ \<Rightarrow> Ret (Inr ChangeOk))"

definition reg_finish_change :: "golib \<Rightarrow> reglib \<Rightarrow> string \<Rightarrow> change \<Rightarrow> (reg_err + reg_result) reg_prog" where
  "reg_finish_change L R ident c =
    (if chToken c = '''' \<or> chRevision c < 1 then Ret (Inl (RegOther ''deployment receipt required'')) else
     reg_get ident (\<lambda>x. case x of
       Inl e \<Rightarrow> Ret (Inl e)
     | Inr current \<Rightarrow>
         if rrRevision current \<noteq> chRevision c then Ret (Inl CondFailed)
         else if already_done L R current c then Ret (Inr ChangeOk)
         else if chOperation c = ''publish'' then
           (if \<not> reg_validate L (chConfig c) then Ret (Inl (RegOther ''invalid configuration''))
            else Call GNow (\<lambda>r. reg_commit ident c (FPublish (published_entry L R ident c current (rg_unix r)))))
         else if chOperation c = ''retire'' then reg_commit ident c FRetire
         else if chOperation c = ''delete'' then reg_commit ident c FDelete
         else if chOperation c = ''abandon'' then reg_commit ident c FAbandon
         else Ret (Inl (RegOther ''unknown operation''))))"

text \<open>\<open>runtime\<close> is whether the service has a configuration store.\<close>

definition reg_change :: "golib \<Rightarrow> reglib \<Rightarrow> bool \<Rightarrow> string \<Rightarrow> string \<Rightarrow> change \<Rightarrow>
    (reg_err + reg_result) reg_prog" where
  "reg_change L R runtime tbl ident c =
    (if \<not> reg_valid_environment ident then Ret (Inl (RegOther ''invalid environment''))
     else if chOperation c = ''begin'' then reg_begin ident (chToken c)
     else if chOperation c = ''defaults'' then
       (if chDefaults c = None \<or> \<not> runtime then Ret (Inl (RegOther ''runtime defaults unavailable''))
        else reg_defaults tbl ident c)
     else reg_finish_change L R ident c)"

section \<open>The handler\<close>

datatype reg_body = RegError string | RegList "entry list" | RegResult reg_result

definition reg_error :: "nat \<Rightarrow> string \<Rightarrow> reg_body response" where
  "reg_error st e = \<lparr>rsStatus = st, rsBody = RegError e\<rparr>"

fun page_entries :: "(entry option \<times> bool) option list \<Rightarrow> entry list \<Rightarrow> entry list option" where
  "page_entries [] out = Some out"
| "page_entries (None # is) out = None"
| "page_entries (Some (e, deleted) # is) out =
    page_entries is (case e of Some x \<Rightarrow> if \<not> deleted then out @ [x] else out | None \<Rightarrow> out)"

fun reg_scan :: "nat \<Rightarrow> string option \<Rightarrow> entry list \<Rightarrow> reg_body response reg_prog" where
  "reg_scan 0 start out = Spin"
| "reg_scan (Suc fuel) start out = Call (GScan start) (\<lambda>r. case rg_page r of
     Inl e \<Rightarrow> Ret (reg_error 503 ''registry unavailable'')
   | Inr (is, next) \<Rightarrow> (case page_entries is out of
       None \<Rightarrow> Ret (reg_error 503 ''invalid registry data'')
     | Some out' \<Rightarrow>
         if next = None then Ret \<lparr>rsStatus = 200, rsBody = RegList (sort_key eID out')\<rparr>
         else reg_scan fuel next out'))"

definition change_refused :: "golib \<Rightarrow> 'c cfglib \<Rightarrow> string \<Rightarrow> change \<Rightarrow> string option" where
  "change_refused L G ident c =
    (if chOperation c = ''begin'' then None
     else if chOperation c = ''defaults'' then
       (if chRevision c < 1 \<or> (case chDefaults c of None \<Rightarrow> True
            | Some d \<Rightarrow> gEnvironment d \<noteq> ident \<or> config_validate G d \<noteq> None)
        then Some ''invalid runtime defaults or receipt'' else None)
     else if chOperation c \<in> {''publish'', ''retire'', ''delete'', ''abandon''} then
       (if chRevision c < 1 then Some ''deployment receipt required''
        else if chOperation c = ''publish'' \<and> \<not> reg_validate L (chConfig c)
        then Some ''invalid configuration'' else None)
     else Some ''unknown operation'')"

definition change_response :: "reg_err + reg_result \<Rightarrow> reg_body response" where
  "change_response x = (case x of
       Inl CondFailed \<Rightarrow> reg_error 409 ''environment busy or deployment revision superseded''
     | Inl _ \<Rightarrow> reg_error 503 ''registry temporarily unavailable''
     | Inr v \<Rightarrow> \<lparr>rsStatus = 200, rsBody = RegResult v\<rparr>)"

definition change_target :: "string \<Rightarrow> string option" where
  "change_target path = (let parts = split_on (CHR ''/'') (trim_set path ''/'') in
     if length parts \<noteq> 4 \<or> parts ! 0 \<noteq> ''v1'' \<or> parts ! 1 \<noteq> ''environments'' \<or> parts ! 3 \<noteq> ''changes''
     then None else Some (parts ! 2))"

definition reg_handle :: "golib \<Rightarrow> reglib \<Rightarrow> 'c cfglib \<Rightarrow> bool \<Rightarrow> string \<Rightarrow> nat \<Rightarrow> request \<Rightarrow>
    reg_body response reg_prog" where
  "reg_handle L R G runtime tbl fuel rq =
    (if rqMethod rq = ''GET'' \<and> rqRawPath rq = ''/v1/environments'' then reg_scan fuel None [] else
     if rqMethod rq \<noteq> ''POST'' then Ret (reg_error 404 ''not found'') else
     case change_target (rqRawPath rq) of
       None \<Rightarrow> Ret (reg_error 404 ''not found'')
     | Some ident \<Rightarrow>
         if length (rqBody rq) > 16384 \<or> rqIsBase64 rq then Ret (reg_error 400 ''invalid request'') else
         case strict_value (change_decoder R) (rqBody rq) of
           None \<Rightarrow> Ret (reg_error 400 ''invalid request'')
         | Some c \<Rightarrow>
             if \<not> reg_valid_environment ident \<or> \<not> deployment_token (chToken c)
             then Ret (reg_error 400 ''invalid request'') else
             case change_refused L G ident c of
               Some e \<Rightarrow> Ret (reg_error 400 e)
             | None \<Rightarrow> pbind (reg_change L R runtime tbl ident c) (\<lambda>x. Ret (change_response x)))"

end
