(* ===== verification/Grants.thy ===== *)
theory Grants
  imports Email Registry
begin

text \<open>
  One-time sign-in after an email was confirmed: the identity provider adapter,
  \<open>awsidentity/identity.go\<close>, and the Lambda behind the provider's custom challenge,
  \<open>challenge/challenge.go\<close>. \<open>Session\<close> stores a grant for the user's subject under a random id and
  answers the provider's challenge with id and sec; the challenge Lambda accepts the answer by
  marking the grant as used in one conditional update. The two share the table of grants; all their
  calls (Cognito, DynamoDB, clock, random source) are \<open>gt_call\<close>. Reading random bytes panics
  when it fails: \<open>IdPanic\<close>. \<open>ttl\<close> only lets the table drop old items.
\<close>

section \<open>Grants\<close>

record grant_item =
  gtSub :: string
  gtDigest :: string
  gtExpires :: int
  gtTTL :: int
  gtUsed :: bool

datatype id_err = UserNotFoundException | IdPanic | IdOther string

type_synonym attributes = "(string option \<times> string option) list"

record auth_result =
  arAccess :: "string option"
  arID :: "string option"
  arRefresh :: "string option"
  arExpires :: int
  arType :: "string option"

datatype gt_call =
    IGetUser string
  | ICreateUser string
  | IRandom nat
  | INow
  | IPutGrant string grant_item \<comment> \<open>on the condition \<open>attribute_not_exists(id)\<close>\<close>
  | IInitiate string
  | IRespond string string string \<comment> \<open>address, provider session, answer\<close>
  | IUseGrant string string string int \<comment> \<open>key, subject, digest, now\<close>

record gt_resp =
  gr_user :: "id_err + attributes"
  gr_bytes :: "id_err + string"
  gr_unix :: int
  gr_err :: "id_err option"
  gr_start :: "id_err + string \<times> string option" \<comment> \<open>ChallengeName, Session\<close>
  gr_finish :: "id_err + string \<times> auth_result option"

type_synonym 'a gt_prog = "(gt_call, gt_resp, 'a) prog"

section \<open>The identity provider adapter\<close>

definition id_user :: "string \<Rightarrow> (id_err + attributes \<Rightarrow> 'a gt_prog) \<Rightarrow> 'a gt_prog" where
  [call_simps]: "id_user address k = Call (IGetUser address) (\<lambda>r. k (gr_user r))"

definition id_eligible :: "string \<Rightarrow> (id_err + bool) gt_prog" where
  "id_eligible address = id_user address (\<lambda>x. Ret (case x of
       Inr _ \<Rightarrow> Inr False
     | Inl e \<Rightarrow> if e = UserNotFoundException then Inr True else Inl e))"

fun sub_of :: "attributes \<Rightarrow> string" where
  "sub_of [] = ''''"
| "sub_of ((n, v) # attrs) = (if go_string n = ''sub'' then go_string v else sub_of attrs)"

definition id_confirm :: "string \<Rightarrow> (id_err + string) gt_prog" where
  "id_confirm address = Call (ICreateUser address) (\<lambda>r. Ret (case gr_user r of
       Inl e \<Rightarrow> Inl e
     | Inr attrs \<Rightarrow>
         if sub_of attrs = '''' then Inl (IdOther ''Cognito returned no sub'') else Inr (sub_of attrs)))"

definition id_random :: "(id_err + string \<Rightarrow> 'a gt_prog) \<Rightarrow> 'a gt_prog" where
  [call_simps]: "id_random k = Call (IRandom 32) (\<lambda>r. case gr_bytes r of
       Inl _ \<Rightarrow> k (Inl IdPanic) | Inr b \<Rightarrow> k (Inr (raw_url_encode (fill 32 b))))"

definition grant_id :: "string \<Rightarrow> string" where
  "grant_id i = ''grant#'' @ i"

definition new_grant :: "golib \<Rightarrow> string \<Rightarrow> string \<Rightarrow> int \<Rightarrow> grant_item" where
  "new_grant L subject sec n = \<lparr>gtSub = subject, gtDigest = hash L sec, gtExpires = n + 120,
     gtTTL = n + 3600, gtUsed = False\<rparr>"

definition session_of :: "auth_result \<Rightarrow> session" where
  "session_of a = \<lparr>AccessToken = go_string (arAccess a), IDToken = go_string (arID a),
     RefreshToken = go_string (arRefresh a), ExpiresIn = arExpires a, TokenType = go_string (arType a)\<rparr>"

definition id_finish :: "string \<Rightarrow> string \<Rightarrow> string \<Rightarrow> string \<Rightarrow> (id_err + session) gt_prog" where
  "id_finish address provider i sec = Call (IRespond address provider (i @ ''.'' @ sec)) (\<lambda>r.
     Ret (case gr_finish r of
       Inl e \<Rightarrow> Inl e
     | Inr (name, a) \<Rightarrow> (case a of
         None \<Rightarrow> Inl (IdOther ''Cognito did not issue a session'')
       | Some v \<Rightarrow>
           if name \<noteq> '''' then Inl (IdOther ''Cognito did not issue a session'') else Inr (session_of v))))"

definition id_initiate :: "string \<Rightarrow> string \<Rightarrow> string \<Rightarrow> (id_err + session) gt_prog" where
  "id_initiate address i sec = Call (IInitiate address) (\<lambda>r. case gr_start r of
       Inl e \<Rightarrow> Ret (Inl e)
     | Inr (name, provider) \<Rightarrow> (case provider of
         None \<Rightarrow> Ret (Inl (IdOther ''unexpected Cognito challenge''))
       | Some p \<Rightarrow>
           if name \<noteq> ''CUSTOM_CHALLENGE'' then Ret (Inl (IdOther ''unexpected Cognito challenge''))
           else id_finish address p i sec))"

definition id_session :: "golib \<Rightarrow> string \<Rightarrow> (id_err + session) gt_prog" where
  "id_session L address = id_user address (\<lambda>u. case u of
       Inl e \<Rightarrow> Ret (Inl e)
     | Inr attrs \<Rightarrow>
         if sub_of attrs = '''' then Ret (Inl (IdOther ''missing sub'')) else
         id_random (\<lambda>x. case x of
           Inl e \<Rightarrow> Ret (Inl e)
         | Inr i \<Rightarrow> id_random (\<lambda>y. case y of
             Inl e \<Rightarrow> Ret (Inl e)
           | Inr sec \<Rightarrow> Call INow (\<lambda>n.
               Call (IPutGrant (grant_id i) (new_grant L (sub_of attrs) sec (gr_unix n))) (\<lambda>w.
                 case gr_err w of
                   Some e \<Rightarrow> Ret (Inl e)
                 | None \<Rightarrow> id_initiate address i sec)))))"

section \<open>The custom challenge\<close>

datatype ev_value =
    EvBool bool
  | EvText string
  | EvParams "(string \<times> string) list"
  | EvJson string \<comment> \<open>a value the event came with\<close>

record event =
  evTrigger :: string
  evAttributes :: "string \<Rightarrow> string"
  evUserNotFound :: bool
  evAnswer :: string
  evSession :: "(string \<times> bool) list" \<comment> \<open>challenge name and result\<close>
  evResponse :: "(string \<rightharpoonup> ev_value) option"

record ch_json =
  cj_raw :: "string \<Rightarrow> (string \<rightharpoonup> string) option"
  cj_event :: "string \<Rightarrow> event option"
  cj_response :: "(string \<rightharpoonup> ev_value) \<Rightarrow> string" \<comment> \<open>json.Marshal\<close>

text \<open>The members of the event that are sent back: all that came, and the response.\<close>

definition event_json :: "ch_json \<Rightarrow> (string \<rightharpoonup> string) \<Rightarrow> (string \<rightharpoonup> ev_value) \<Rightarrow> string \<rightharpoonup> string" where
  "event_json J raw response = raw(''response'' \<mapsto> cj_response J response)"

definition ch_define :: "event \<Rightarrow> (string \<rightharpoonup> ev_value) \<Rightarrow> (string \<rightharpoonup> ev_value)" where
  "ch_define e r0 =
    (let r = r0(''issueTokens'' \<mapsto> EvBool False, ''failAuthentication'' \<mapsto> EvBool False)
     in if evUserNotFound e then r(''failAuthentication'' \<mapsto> EvBool True)
     else if length (evSession e) = 0 then r(''challengeName'' \<mapsto> EvText ''CUSTOM_CHALLENGE'')
     else (case evSession e ! (length (evSession e) - 1) of (name, result) \<Rightarrow>
       if name = ''CUSTOM_CHALLENGE'' \<and> result then r(''issueTokens'' \<mapsto> EvBool True)
       else r(''failAuthentication'' \<mapsto> EvBool True)))"

definition ch_create :: "(string \<rightharpoonup> ev_value) \<Rightarrow> (string \<rightharpoonup> ev_value)" where
  "ch_create r = r(''publicChallengeParameters'' \<mapsto> EvParams [(''type'', ''onboarding-grant'')],
     ''privateChallengeParameters'' \<mapsto> EvParams [(''type'', ''onboarding-grant'')],
     ''challengeMetadata'' \<mapsto> EvText ''ONBOARDING_GRANT'')"

definition ch_verify :: "golib \<Rightarrow> string \<Rightarrow> string \<Rightarrow> (bool \<Rightarrow> 'a gt_prog) \<Rightarrow> 'a gt_prog" where
  "ch_verify L subject answer k =
    (let parts = split_on (CHR ''.'') answer
     in if length parts \<noteq> 2 \<or> subject = '''' \<or> length (parts ! 0) \<noteq> 43 \<or> length (parts ! 1) \<noteq> 43 then k False
     else Call INow (\<lambda>n.
       Call (IUseGrant (grant_id (parts ! 0)) subject (hash L (parts ! 1)) (gr_unix n)) (\<lambda>r.
         k (gr_err r = None))))"

datatype ch_err = ChJson | ChUnsupported string

definition ch_handle :: "golib \<Rightarrow> ch_json \<Rightarrow> string \<Rightarrow> (ch_err + (string \<rightharpoonup> ev_value)) gt_prog" where
  "ch_handle L J raw = (case cj_raw J raw of
       None \<Rightarrow> Ret (Inl ChJson)
     | Some _ \<Rightarrow> (case cj_event J raw of
         None \<Rightarrow> Ret (Inl ChJson)
       | Some e \<Rightarrow>
           let r = (case evResponse e of None \<Rightarrow> Map.empty | Some r \<Rightarrow> r)
           in if evTrigger e = ''DefineAuthChallenge_Authentication'' then Ret (Inr (ch_define e r))
           else if evTrigger e = ''CreateAuthChallenge_Authentication'' then Ret (Inr (ch_create r))
           else if evTrigger e = ''VerifyAuthChallengeResponse_Authentication''
           then ch_verify L (evAttributes e ''sub'') (evAnswer e) (\<lambda>ok.
             Ret (Inr (r(''answerCorrect'' \<mapsto> EvBool ok))))
           else Ret (Inl (ChUnsupported (evTrigger e)))))"

section \<open>The table of grants\<close>

text \<open>The documented meaning of the two conditional writes.\<close>

definition grant_holds :: "grant_item option \<Rightarrow> string \<Rightarrow> string \<Rightarrow> int \<Rightarrow> bool" where
  "grant_holds x subject dig n = (case x of
       None \<Rightarrow> False
     | Some g \<Rightarrow> gtSub g = subject \<and> gtDigest g = dig \<and> gtExpires g > n \<and> \<not> gtUsed g)"

end
