(* ===== verification/GrantProps.thy ===== *)
theory GrantProps
  imports Grants
begin

text \<open>
  What the one-time grants promise. \<open>grant_reached\<close> are the states of the table under any number
  of concurrent sign-ins and challenge events, with lost acknowledgements, refused writes and
  expiring items; every running operation keeps its history, so that the theorems speak of what
  each of them was answered.
\<close>

section \<open>What a sign-in asks\<close>

text \<open>A grant for \<open>subject\<close>, of the provider's user for \<open>address\<close>, under fresh id and secret.\<close>

definition minted :: "golib \<Rightarrow> (gt_call \<times> gt_resp) list \<Rightarrow> string \<Rightarrow> string \<Rightarrow> string \<Rightarrow> grant_item \<Rightarrow> bool" where
  "minted L h address i sec g \<longleftrightarrow> (\<exists>u attrs a b x y c n.
     h = [(IGetUser address, u), (IRandom 32, a), (IRandom 32, b), (INow, c)] \<and>
     gr_user u = Inr attrs \<and> sub_of attrs \<noteq> '''' \<and> gr_bytes a = Inr x \<and> gr_bytes b = Inr y \<and>
     i = raw_url_encode (fill 32 x) \<and> sec = raw_url_encode (fill 32 y) \<and> n = gr_unix c \<and>
     g = new_grant L (sub_of attrs) sec n)"

text \<open>The same grant, acknowledged by the table.\<close>

definition granted :: "golib \<Rightarrow> (gt_call \<times> gt_resp) list \<Rightarrow> string \<Rightarrow> string \<Rightarrow> string \<Rightarrow> bool" where
  "granted L h address i sec \<longleftrightarrow> (\<exists>h1 g w h2. h = h1 @ (IPutGrant (grant_id i) g, w) # h2 \<and>
     minted L h1 address i sec g \<and> gr_err w = None)"

definition session_call_ok :: "golib \<Rightarrow> string \<Rightarrow> gt_call \<Rightarrow> (gt_call \<times> gt_resp) list \<Rightarrow> bool" where
  "session_call_ok L address q h = (case q of
       IPutGrant key g \<Rightarrow> \<exists>i sec. key = grant_id i \<and> minted L h address i sec g
     | IInitiate a \<Rightarrow> a = address \<and> (\<exists>i sec. granted L h address i sec)
     | IRespond a p answer \<Rightarrow> a = address \<and>
         (\<exists>i sec. answer = i @ ''.'' @ sec \<and> granted L h address i sec) \<and>
         (\<exists>r. (IInitiate address, r) \<in> set h \<and> gr_start r = Inr (''CUSTOM_CHALLENGE'', Some p))
     | IUseGrant key subject dig n \<Rightarrow> False
     | ICreateUser a \<Rightarrow> False
     | _ \<Rightarrow> True)"

definition session_outcome :: "string \<Rightarrow> id_err + session \<Rightarrow> (gt_call \<times> gt_resp) list \<Rightarrow> bool" where
  "session_outcome address x h = (case x of
       Inl e \<Rightarrow> True
     | Inr v \<Rightarrow> \<exists>h' p answer r a. h = h' @ [(IRespond address p answer, r)] \<and>
         gr_finish r = Inr ('''', Some a) \<and> v = session_of a)"

lemma granted_append: "granted L h address i sec \<Longrightarrow> granted L (h @ t) address i sec"
  by (fastforce simp: granted_def)

lemma granted_snoc:
  "minted L h address i sec g \<Longrightarrow> gr_err w = None \<Longrightarrow>
   granted L (h @ [(IPutGrant (grant_id i) g, w)]) address i sec"
  by (auto simp: granted_def)

lemma initiate_safe:
  assumes "granted L h address i sec"
  shows "safe (session_call_ok L address) (session_outcome address) (id_initiate address i sec) h"
proof -
  have "safe (session_call_ok L address) (session_outcome address) (id_finish address p i sec)
      (h @ [(IInitiate address, r)])"
    if "gr_start r = Inr (''CUSTOM_CHALLENGE'', Some p)" for r p
    using that granted_append [OF assms]
    by (auto simp: id_finish_def session_call_ok_def session_outcome_def split: sum.split option.split)
  then show ?thesis
    using assms
    by (auto simp: id_initiate_def session_call_ok_def session_outcome_def split: sum.split option.split)
qed

text \<open>a sign-in after confirmation stores exactly one kind of grant: for the subject the provider
named for that address, under an id and a secret made of fresh random bytes, only the digest of the
secret, valid for two minutes. It answers the provider's challenge, for the same address, only with
id and secret of the grant that was acknowledged, and returns a session only if the provider's last
answer was a complete result without a further challenge.\<close>

theorem session_by_grant:
  "safe (session_call_ok L address) (session_outcome address) (id_session L address) []"
proof -
  have "safe (session_call_ok L address) (session_outcome address)
      (id_initiate address (raw_url_encode (fill 32 x)) (raw_url_encode (fill 32 y)))
      [(IGetUser address, u), (IRandom 32, a), (IRandom 32, b), (INow, c),
       (IPutGrant (grant_id (raw_url_encode (fill 32 x)))
          (new_grant L (sub_of attrs) (raw_url_encode (fill 32 y)) (gr_unix c)), w)]"
    if "gr_user u = Inr attrs" "sub_of attrs \<noteq> ''''" "gr_bytes a = Inr x" "gr_bytes b = Inr y" "gr_err w = None"
    for u attrs a x b y c w
  proof (rule initiate_safe)
    let ?i = "raw_url_encode (fill 32 x)" and ?s = "raw_url_encode (fill 32 y)"
    have "minted L [(IGetUser address, u), (IRandom 32, a), (IRandom 32, b), (INow, c)] address ?i ?s
        (new_grant L (sub_of attrs) ?s (gr_unix c))"
      unfolding minted_def using that by blast
    from granted_snoc [OF this that(5)] show "granted L [(IGetUser address, u), (IRandom 32, a), (IRandom 32, b), (INow, c),
       (IPutGrant (grant_id ?i) (new_grant L (sub_of attrs) ?s (gr_unix c)), w)] address ?i ?s"
      by simp
  qed
  moreover have "session_outcome address (Inl e) h" for e h by (simp add: session_outcome_def)
  moreover have "session_call_ok L address (IPutGrant (grant_id (raw_url_encode (fill 32 x)))
          (new_grant L (sub_of attrs) (raw_url_encode (fill 32 y)) (gr_unix c)))
      [(IGetUser address, u), (IRandom 32, a), (IRandom 32, b), (INow, c)]"
    if "gr_user u = Inr attrs" "sub_of attrs \<noteq> ''''" "gr_bytes a = Inr x" "gr_bytes b = Inr y"
    for u attrs a x b y c
    unfolding session_call_ok_def minted_def using that by auto
  moreover have "session_call_ok L address q h" if "q \<in> {IGetUser a, IRandom 32, INow}" for q a h
    using that by (auto simp: session_call_ok_def)
  ultimately show ?thesis
    unfolding id_session_def id_user_def id_random_def by (auto split: sum.split option.split)
qed

section \<open>The table under concurrent requests\<close>

record grant_state =
  gsTable :: "string \<Rightarrow> grant_item option"
  gsPuts :: "(string \<times> grant_item) list" \<comment> \<open>every grant that was stored\<close>
  gsUses :: "(string \<times> string \<times> string \<times> int) list" \<comment> \<open>every use that took effect\<close>

definition no_grants :: grant_state where
  "no_grants = \<lparr>gsTable = (\<lambda>_. None), gsPuts = [], gsUses = []\<rparr>"

definition put_grant :: "string \<Rightarrow> grant_item \<Rightarrow> grant_state \<Rightarrow> grant_state" where
  "put_grant key g s = s\<lparr>gsTable := (gsTable s)(key \<mapsto> g), gsPuts := gsPuts s @ [(key, g)]\<rparr>"

definition use_grant :: "string \<Rightarrow> string \<Rightarrow> string \<Rightarrow> int \<Rightarrow> grant_item \<Rightarrow> grant_state \<Rightarrow> grant_state" where
  "use_grant key subject dig n g s = s\<lparr>gsTable := (gsTable s)(key \<mapsto> g\<lparr>gtUsed := True\<rparr>),
     gsUses := gsUses s @ [(key, subject, dig, n)]\<rparr>"

text \<open>
  A write whose condition holds takes effect, and its acknowledgement may be lost; a write that
  does not take effect is not acknowledged.
\<close>

inductive grant_serve :: "gt_call \<Rightarrow> gt_resp \<Rightarrow> grant_state \<Rightarrow> grant_state \<Rightarrow> bool" where
  serve_put: "gsTable s key = None \<Longrightarrow> grant_serve (IPutGrant key g) r s (put_grant key g s)"
| serve_use: "gsTable s key = Some g \<Longrightarrow> grant_holds (Some g) subject dig n \<Longrightarrow>
    grant_serve (IUseGrant key subject dig n) r s (use_grant key subject dig n g s)"
| serve_no_put: "gr_err r \<noteq> None \<Longrightarrow> grant_serve (IPutGrant key g) r s s"
| serve_no_use: "gr_err r \<noteq> None \<Longrightarrow> grant_serve (IUseGrant key subject dig n) r s s"
| serve_rest: "(\<And>key g. q \<noteq> IPutGrant key g) \<Longrightarrow> (\<And>key u d n. q \<noteq> IUseGrant key u d n) \<Longrightarrow> grant_serve q r s s"

inductive grant_ops :: "golib \<Rightarrow> unit gt_prog \<Rightarrow> bool" for L :: golib where
  "grant_ops L (pbind (id_session L address) (\<lambda>_. Ret ()))"
| "grant_ops L (pbind (ch_handle L J raw) (\<lambda>_. Ret ()))"
| "grant_ops L (pbind (id_confirm address) (\<lambda>_. Ret ()))"
| "grant_ops L (pbind (id_eligible address) (\<lambda>_. Ret ()))"

type_synonym running = "(gt_call \<times> gt_resp) list \<times> unit gt_prog"

inductive grant_reached :: "golib \<Rightarrow> grant_state \<Rightarrow> running list \<Rightarrow> bool" for L :: golib where
  grant_init: "grant_reached L no_grants []"
| grant_start: "grant_reached L s ps \<Longrightarrow> grant_ops L p \<Longrightarrow> grant_reached L s (ps @ [([], p)])"
| grant_act: "grant_reached L s (ps @ (h, Call q k) # qs) \<Longrightarrow> grant_serve q r s s' \<Longrightarrow>
    grant_reached L s' (ps @ (h @ [(q, r)], k r) # qs)"
| grant_expire: "grant_reached L s ps \<Longrightarrow>
    grant_reached L (s\<lparr>gsTable := (gsTable s)(key := None)\<rparr>) ps"

text \<open>The uses of a key that some operation was told have succeeded.\<close>

definition accepted :: "string \<Rightarrow> running list \<Rightarrow> (gt_call \<times> gt_resp) list" where
  "accepted key ps = filter (\<lambda>(q, r). gr_err r = None \<and> (\<exists>u d n. q = IUseGrant key u d n))
     (concat (map fst ps))"

lemma accepted_start [simp]: "accepted key [] = []" "accepted key (ps @ [([], p)]) = accepted key ps"
  by (simp_all add: accepted_def)

text \<open>Only a sign-in stores grants, and only minted ones.\<close>

definition fit :: "golib \<Rightarrow> gt_call \<Rightarrow> (gt_call \<times> gt_resp) list \<Rightarrow> bool" where
  "fit L q h = (case q of
       IPutGrant key g \<Rightarrow> \<exists>address i sec. key = grant_id i \<and> minted L h address i sec g
     | _ \<Rightarrow> True)"

lemma grant_ops_fit: "grant_ops L p \<Longrightarrow> safe (fit L) (\<lambda>_ _. True) p []"
proof (induction rule: grant_ops.induct)
  case (1 address)
  have "safe (fit L) (\<lambda>_ _. True) (id_session L address) []"
    by (rule safe_mono [OF session_by_grant]) (auto simp: session_call_ok_def fit_def split: gt_call.splits)
  then show ?case by (simp add: safe_pbind)
next
  case (2 J raw)
  have "safe (fit L) (\<lambda>_ _. True) (ch_handle L J raw) []"
    by (auto simp: ch_handle_def ch_verify_def Let_def fit_def split: option.split)
  then show ?case by (simp add: safe_pbind)
qed (auto simp: id_confirm_def id_eligible_def id_user_def fit_def split: sum.split)

definition uses_of :: "string \<Rightarrow> grant_state \<Rightarrow> nat" where
  "uses_of key s = length (filter (\<lambda>x. fst x = key) (gsUses s))"

definition puts_of :: "string \<Rightarrow> grant_state \<Rightarrow> nat" where
  "puts_of key s = length (filter (\<lambda>x. fst x = key) (gsPuts s))"

definition stored_ok :: "golib \<Rightarrow> grant_state \<Rightarrow> bool" where
  "stored_ok L s \<longleftrightarrow>
     (\<forall>(key, g)\<in>set (gsPuts s). \<exists>h address i sec. key = grant_id i \<and> minted L h address i sec g) \<and>
     (\<forall>key g. gsTable s key = Some g \<longrightarrow> (key, g\<lparr>gtUsed := False\<rparr>) \<in> set (gsPuts s))"

definition uses_ok :: "grant_state \<Rightarrow> bool" where
  "uses_ok s \<longleftrightarrow>
     (\<forall>(key, u, d, n)\<in>set (gsUses s). \<exists>g. (key, g) \<in> set (gsPuts s) \<and> gtSub g = u \<and> gtDigest g = d \<and> n < gtExpires g) \<and>
     (\<forall>key. uses_of key s \<le> puts_of key s) \<and>
     (\<forall>key g. gsTable s key = Some g \<longrightarrow> \<not> gtUsed g \<longrightarrow> uses_of key s < puts_of key s)"

text \<open>All that the running operations have been told.\<close>

definition told :: "running list \<Rightarrow> (gt_call \<times> gt_resp) set" where
  "told ps = {e. \<exists>(h, p)\<in>set ps. e \<in> set h}"

definition told_ok :: "grant_state \<Rightarrow> running list \<Rightarrow> bool" where
  "told_ok s ps \<longleftrightarrow> (\<forall>key. length (accepted key ps) \<le> uses_of key s) \<and>
    (\<forall>key u d n r. (IUseGrant key u d n, r) \<in> told ps \<longrightarrow> gr_err r = None \<longrightarrow> (key, u, d, n) \<in> set (gsUses s))"

lemmas grant_counts = uses_of_def puts_of_def put_grant_def use_grant_def

lemma minted_unused: "minted L h address i sec g \<Longrightarrow> g\<lparr>gtUsed := False\<rparr> = g \<and> \<not> gtUsed g"
  by (auto simp: minted_def new_grant_def)

lemma stored_ok_serve:
  "grant_serve q r s s' \<Longrightarrow> stored_ok L s \<Longrightarrow> fit L q h \<Longrightarrow> stored_ok L s'"
proof (induction rule: grant_serve.induct)
  case (serve_put s key g r)
  then show ?case
    by (auto simp: stored_ok_def fit_def put_grant_def dest: minted_unused; blast)
qed (auto simp: stored_ok_def use_grant_def)

lemma uses_ok_serve:
  "grant_serve q r s s' \<Longrightarrow> stored_ok L s \<Longrightarrow> uses_ok s \<Longrightarrow> uses_ok s'"
proof (induction rule: grant_serve.induct)
  case (serve_use s key g subject dig n r)
  then have "(key, g\<lparr>gtUsed := False\<rparr>) \<in> set (gsPuts s)" "gtSub g = subject" "gtDigest g = dig" "n < gtExpires g"
    "uses_of key s < puts_of key s"
    by (auto simp: stored_ok_def uses_ok_def grant_holds_def)
  with serve_use.prems(2) show ?case
    by (auto simp: uses_ok_def grant_counts intro!: exI [of _ "g\<lparr>gtUsed := False\<rparr>"])
next
  case (serve_put s key g r)
  then show ?case
    by (auto simp: uses_ok_def grant_counts le_SucI less_Suc_eq_le; fastforce)
qed auto

lemma told_step: "told (ps @ (h @ [e], p') # qs) = insert e (told (ps @ (h, p) # qs))"
  by (auto simp: told_def)

lemma accepted_step: "length (accepted key (ps @ (h @ [(q, r)], p') # qs)) =
    length (accepted key (ps @ (h, p) # qs)) +
      (if gr_err r = None \<and> (\<exists>u d n. q = IUseGrant key u d n) then 1 else 0)"
  by (simp add: accepted_def)

lemma told_ok_serve:
  assumes "grant_serve q r s s'" "told_ok s (ps @ (h, Call q k) # qs)"
  shows "told_ok s' (ps @ (h @ [(q, r)], k r) # qs)"
  using assms unfolding told_ok_def told_step [where p = "Call q k"] accepted_step [where p = "Call q k"]
proof (induction rule: grant_serve.induct)
  case (serve_use s key g subject dig n r)
  then show ?case by (auto simp: grant_counts le_SucI)
next
  case (serve_put s key g r)
  then show ?case by (auto simp: grant_counts)
next
  case (serve_rest q r s)
  then have "q \<noteq> IUseGrant key u d n" for key u d n by blast
  note this [simp] this [symmetric, simp]
  show ?case using serve_rest.prems by simp
qed auto

lemma grant_invariant:
  "grant_reached L s ps \<Longrightarrow> (\<forall>(h, p)\<in>set ps. safe (fit L) (\<lambda>_ _. True) p h) \<and>
     stored_ok L s \<and> uses_ok s \<and> told_ok s ps"
proof (induction rule: grant_reached.induct)
  case grant_init
  show ?case by (simp add: no_grants_def stored_ok_def uses_ok_def told_ok_def told_def grant_counts)
next
  case (grant_start s ps p)
  have "told (ps @ [([], p)]) = told ps" by (auto simp: told_def)
  with grant_start grant_ops_fit show ?case by (auto simp: told_ok_def)
next
  case (grant_act s ps h q k qs r s')
  then have f: "fit L q h" by auto
  have "stored_ok L s'" "uses_ok s'"
    using stored_ok_serve [OF grant_act.hyps(2) _ f] uses_ok_serve [OF grant_act.hyps(2)] grant_act.IH by blast+
  moreover have "told_ok s' (ps @ (h @ [(q, r)], k r) # qs)"
    using told_ok_serve [OF grant_act.hyps(2)] grant_act.IH by blast
  ultimately show ?case using grant_act.IH by auto
next
  case (grant_expire s ps key)
  then show ?case by (auto simp: stored_ok_def uses_ok_def told_ok_def grant_counts)
qed

text \<open>A challenge event answers \<open>answerCorrect\<close>, and what it was told.\<close>

definition verified :: "ch_err + (string \<rightharpoonup> ev_value) \<Rightarrow> bool" where
  "verified x = (case x of Inl e \<Rightarrow> False | Inr r \<Rightarrow> r ''answerCorrect'' = Some (EvBool True))"

definition redeemed :: "(gt_call \<times> gt_resp) list \<Rightarrow> string \<Rightarrow> bool" where
  "redeemed h subject \<longleftrightarrow> (\<exists>key d n r. (IUseGrant key subject d n, r) \<in> set h \<and> gr_err r = None)"

lemma verify_redeems:
  assumes "evTrigger e = ''VerifyAuthChallengeResponse_Authentication''" "cj_event J raw = Some e"
  shows "safe (\<lambda>_ _. True) (\<lambda>x h. verified x = redeemed h (evAttributes e ''sub'')) (ch_handle L J raw) []"
  using assms by (auto simp: ch_handle_def ch_verify_def Let_def verified_def redeemed_def split: option.split)

text \<open>C3: over every interleaving of sign-ins and challenge events a grant is redeemed at most once: an
answer is accepted for a key at most as often as a grant was stored under it, and only for the
subject the grant was stored for, with the digest of its secret, and before it expired; a challenge
event calls an answer correct exactly when such a use was acknowledged. Every stored grant is one a
sign-in minted from fresh random bytes for the provider's subject.\<close>

theorem grant_single_use:
  assumes "grant_reached L s ps"
  shows "length (accepted key ps) \<le> puts_of key s \<and>
    (\<forall>u d n r. (IUseGrant key u d n, r) \<in> told ps \<longrightarrow> gr_err r = None \<longrightarrow>
      (\<exists>g h address i sec. (key, g) \<in> set (gsPuts s) \<and> gtSub g = u \<and> gtDigest g = d \<and> n < gtExpires g \<and>
        key = grant_id i \<and> minted L h address i sec g)) \<and>
    (\<forall>J raw e. evTrigger e = ''VerifyAuthChallengeResponse_Authentication'' \<longrightarrow> cj_event J raw = Some e \<longrightarrow>
      safe (\<lambda>_ _. True) (\<lambda>x h. verified x = redeemed h (evAttributes e ''sub'')) (ch_handle L J raw) [])"
proof -
  note inv = grant_invariant [OF assms]
  have "length (accepted key ps) \<le> puts_of key s"
    using inv by (meson le_trans told_ok_def uses_ok_def)
  moreover have "\<exists>g h address i sec. (key, g) \<in> set (gsPuts s) \<and> gtSub g = u \<and> gtDigest g = d \<and> n < gtExpires g \<and>
      key = grant_id i \<and> minted L h address i sec g"
    if "(IUseGrant key u d n, r) \<in> told ps" "gr_err r = None" for u d n r
  proof -
    from inv that have "(key, u, d, n) \<in> set (gsUses s)" by (auto simp: told_ok_def)
    with inv obtain g where g: "(key, g) \<in> set (gsPuts s)" "gtSub g = u" "gtDigest g = d" "n < gtExpires g"
      unfolding uses_ok_def by blast
    with inv have "\<exists>h address i sec. key = grant_id i \<and> minted L h address i sec g"
      unfolding stored_ok_def by blast
    with g show ?thesis by blast
  qed
  ultimately show ?thesis using verify_redeems by blast
qed

section \<open>From the sign-in's answer to its acceptance\<close>

text \<open>A table of grants at time \<open>n\<close> whose clock, random source and provider always give the same.\<close>

definition grant_blank :: gt_resp where
  "grant_blank = \<lparr>gr_user = Inr [(Some ''sub'', Some ''u'')], gr_bytes = Inr '''', gr_unix = 0, gr_err = None,
     gr_start = Inr (''CUSTOM_CHALLENGE'', Some ''p''),
     gr_finish = Inr ('''', Some \<lparr>arAccess = Some ''a'', arID = None, arRefresh = None, arExpires = 1, arType = None\<rparr>)\<rparr>"

definition grant_store :: "int \<Rightarrow> gt_call \<Rightarrow> grant_state \<Rightarrow> gt_resp \<times> grant_state" where
  "grant_store n q s = (case q of
       IPutGrant key g \<Rightarrow>
         if gsTable s key = None then (grant_blank, put_grant key g s)
         else (grant_blank\<lparr>gr_err := Some (IdOther ''condition'')\<rparr>, s)
     | IUseGrant key u d m \<Rightarrow> (case gsTable s key of
         Some g \<Rightarrow>
           if grant_holds (Some g) u d m then (grant_blank, use_grant key u d m g s)
           else (grant_blank\<lparr>gr_err := Some (IdOther ''condition'')\<rparr>, s)
       | None \<Rightarrow> (grant_blank\<lparr>gr_err := Some (IdOther ''condition'')\<rparr>, s))
     | _ \<Rightarrow> (grant_blank\<lparr>gr_unix := n\<rparr>, s))"

lemma grant_store_serves: "grant_serve q (fst (grant_store n q s)) s (snd (grant_store n q s))"
  by (cases q) (auto simp: grant_store_def intro!: grant_serve.intros split: option.split)

lemma grant_store_simps [simp]:
  "grant_store n INow s = (grant_blank\<lparr>gr_unix := n\<rparr>, s)"
  "gr_err grant_blank = None"
  by (simp_all add: grant_store_def grant_blank_def)

lemma no_dot: "CHR ''.'' \<notin> set (raw_url_encode b)"
  using set_encode_with [of url_alphabet b] by (auto simp: raw_url_encode_def url_alphabet_def)

lemma split_on_pair: "sep \<notin> set a \<Longrightarrow> sep \<notin> set b \<Longrightarrow> split_on sep (a @ sep # b) = [a, b]"
proof (induction a)
  case Nil
  have "split_on sep b = [b]" if "sep \<notin> set b" for b using that by (induction b) auto
  with Nil show ?case by simp
qed (auto split: list.splits)

lemma answer_parts: "split_on (CHR ''.'') (raw_url_encode a @ ''.'' @ raw_url_encode b) = [raw_url_encode a, raw_url_encode b]"
  by (simp add: split_on_pair no_dot)

lemma length_token: "length (raw_url_encode (fill 32 x)) = 43"
  by (simp add: length_raw_url_encode fill_def)

lemma run_verify:
  assumes "i = raw_url_encode (fill 32 x)" "sec = raw_url_encode (fill 32 y)" "subject \<noteq> ''''"
  shows "run (grant_store m) (ch_verify L subject (i @ ''.'' @ sec) Ret) s = (case gsTable s (grant_id i) of
     Some g \<Rightarrow>
       if grant_holds (Some g) subject (hash L sec) m
       then (Some True, use_grant (grant_id i) subject (hash L sec) m g s) else (Some False, s)
   | None \<Rightarrow> (Some False, s))"
  unfolding assms ch_verify_def answer_parts Let_def
  using assms(3) length_token
  by (auto simp: grant_store_def grant_blank_def split: option.split)

text \<open>the answer a sign-in gives to the challenge is accepted by the challenge within two minutes
for the subject of the grant, once: the same answer is refused afterwards, and before that any other
subject, a secret with another digest, or a late answer is refused without using the grant up.\<close>

theorem grant_round_trip:
  assumes i: "i = raw_url_encode (fill 32 x)" and sec: "sec = raw_url_encode (fill 32 y)"
    and subject: "subject \<noteq> ''''" and stored: "gsTable s (grant_id i) = Some (new_grant L subject sec n)"
  shows "\<exists>s'. (\<forall>m<n + 120. run (grant_store m) (ch_verify L subject (i @ ''.'' @ sec) Ret) s =
        (Some True, s' m) \<and>
      (\<forall>k. run (grant_store k) (ch_verify L subject (i @ ''.'' @ sec) Ret) (s' m) = (Some False, s' m))) \<and>
    (\<forall>m u z. u \<noteq> '''' \<longrightarrow> n + 120 \<le> m \<or> u \<noteq> subject \<or> hash L (raw_url_encode (fill 32 z)) \<noteq> hash L sec \<longrightarrow>
       run (grant_store m) (ch_verify L u (i @ ''.'' @ raw_url_encode (fill 32 z)) Ret) s = (Some False, s))"
proof -
  have use: "run (grant_store m) (ch_verify L u (i @ ''.'' @ raw_url_encode (fill 32 z)) Ret) t =
     (case gsTable t (grant_id i) of
     Some g \<Rightarrow>
       if grant_holds (Some g) u (hash L (raw_url_encode (fill 32 z))) m
       then (Some True, use_grant (grant_id i) u (hash L (raw_url_encode (fill 32 z))) m g t) else (Some False, t)
   | None \<Rightarrow> (Some False, t))" if "u \<noteq> ''''" for m u z t
    by (rule run_verify [OF i refl that])
  show ?thesis
    by (rule exI [of _ "\<lambda>m. use_grant (grant_id i) subject (hash L sec) m (new_grant L subject sec n) s"])
      (use use [where z = y, folded sec] use subject stored
        in \<open>simp add: grant_holds_def new_grant_def use_grant_def\<close>)
qed

section \<open>A demonstration\<close>

lemma grant_reached_run:
  "grant_reached L s (ps @ [(h, p)]) \<Longrightarrow>
   \<exists>p'. grant_reached L (snd (run (grant_store n) p s)) (ps @ [(h @ trace_of (grant_store n) p s, p')])"
proof (induction p arbitrary: h s)
  case (Call q k)
  let ?r = "fst (grant_store n q s)" and ?s = "snd (grant_store n q s)"
  have "grant_reached L ?s (ps @ (h @ [(q, ?r)], k ?r) # [])"
    by (rule grant_act [OF Call.prems grant_store_serves])
  from Call.IH [OF _ this] show ?case by simp
qed auto

lemma grant_reached_ops:
  assumes "grant_reached L s ps" "grant_ops L p"
  shows "\<exists>p'. grant_reached L (snd (run (grant_store n) p s)) (ps @ [(trace_of (grant_store n) p s, p')])"
  using grant_reached_run [OF grant_start [OF assms]] by simp

definition demo_grant :: string where
  "demo_grant = raw_url_encode (fill 32 [])"

definition demo_event :: ch_json where
  "demo_event = \<lparr>cj_raw = (\<lambda>_. Some Map.empty), cj_event = (\<lambda>_. Some \<lparr>evTrigger = ''VerifyAuthChallengeResponse_Authentication'',
     evAttributes = (\<lambda>_. ''u''), evUserNotFound = False, evAnswer = demo_grant @ ''.'' @ demo_grant, evSession = [],
     evResponse = None\<rparr>), cj_response = (\<lambda>_. [])\<rparr>"

definition demo_minted :: grant_item where
  "demo_minted = new_grant demo_lib ''u'' demo_grant 1000"

definition demo_granted :: grant_state where
  "demo_granted = put_grant (grant_id demo_grant) demo_minted no_grants"

lemma demo_sign_in: "snd (run (grant_store 1000) (pbind (id_session demo_lib ''a'') (\<lambda>_. Ret ())) no_grants) = demo_granted"
  by (simp add: id_session_def call_simps grant_store_def grant_blank_def id_initiate_def id_finish_def go_string_def
      demo_granted_def demo_minted_def no_grants_def run_drop flip: demo_grant_def)

lemma demo_answer: "split_on (CHR ''.'') (demo_grant @ CHR ''.'' # demo_grant) = [demo_grant, demo_grant]"
  using answer_parts [of "fill 32 []" "fill 32 []"] by (simp add: demo_grant_def)

lemma demo_redeem: "accepted (grant_id demo_grant)
    [(trace_of (grant_store 1001) (pbind (ch_handle demo_lib demo_event ''{}'') (\<lambda>_. Ret ())) demo_granted, p)] \<noteq> []"
  using length_token [of "[]"]
  by (simp add: ch_handle_def demo_event_def ch_verify_def demo_answer grant_store_def grant_blank_def demo_granted_def
      put_grant_def no_grants_def grant_holds_def demo_minted_def new_grant_def accepted_def flip: demo_grant_def)

theorem grant_single_use_witness: "\<exists>s ps. grant_reached demo_lib s ps \<and> accepted (grant_id demo_grant) ps \<noteq> [] \<and>
    0 < puts_of (grant_id demo_grant) s"
proof -
  let ?p = "pbind (ch_handle demo_lib demo_event ''{}'') (\<lambda>_. Ret ())"
  obtain ps where "grant_reached demo_lib demo_granted ps"
    using grant_reached_ops [OF grant_init grant_ops.intros(1), of demo_lib 1000 "''a''"] demo_sign_in by metis
  from grant_reached_ops [OF this grant_ops.intros(2), of 1001 demo_event "''{}''"]
  obtain p' where r: "grant_reached demo_lib (snd (run (grant_store 1001) ?p demo_granted))
      (ps @ [(trace_of (grant_store 1001) ?p demo_granted, p')])" by blast
  have "accepted (grant_id demo_grant) (ps @ [(trace_of (grant_store 1001) ?p demo_granted, p')]) \<noteq> []"
    using demo_redeem [of p'] by (auto simp: accepted_def)
  with conjunct1 [OF grant_single_use [OF r, of "grant_id demo_grant"]] r show ?thesis
    by (metis le_zero_eq length_0_conv neq0_conv)
qed

theorem grant_round_trip_witness:
  "\<exists>s'. run (grant_store 1001) (ch_verify demo_lib ''u'' (demo_grant @ ''.'' @ demo_grant) Ret) demo_granted = (Some True, s')"
  using grant_round_trip [OF demo_grant_def demo_grant_def, of "''u''" demo_granted demo_lib 1000]
  by (fastforce simp: demo_granted_def put_grant_def demo_minted_def)

end
