(* ===== verification/EmailStore.thy ===== *)
theory EmailStore
  imports Email "HOL-Library.Signed_Division"
begin

text \<open>
  The durable store of the email service, \<open>awsstore/store.go\<close>: conditional writes of the records
  and an hourly budget counter per name. An item is a whole record, or a counter with its expiry;
  the two have disjoint keys. The calls of the table are \<open>ts_call\<close>: their conditions are the
  source's condition expressions, with their documented meaning in the theory of properties.
  \<open>attributevalue\<close> is taken to store and load a record as it is, and otherwise to fail.
\<close>

datatype dyn_err = ConditionalCheckFailed | DynOther string

datatype ts_call =
    TPutNew transaction \<comment> \<open>attribute_not_exists(id)\<close>
  | TGet string
  | TPutIf transaction int tx_state \<comment> \<open>version = :v AND state = :s\<close>
  | TAdd string int int \<comment> \<open>key, limit, ttl; attempts absent or below the limit\<close>

record ts_resp =
  ts_err :: "dyn_err option"
  ts_item :: "dyn_err + transaction option"

type_synonym 'a ts_prog = "(ts_call, ts_resp, 'a) prog"

text \<open>The error of a write whose failed condition means \<open>target\<close>.\<close>

definition conditional :: "email_err \<Rightarrow> dyn_err option \<Rightarrow> email_err option" where
  "conditional target e = (case e of
       None \<Rightarrow> None
     | Some ConditionalCheckFailed \<Rightarrow> Some target
     | Some (DynOther t) \<Rightarrow> Some (PlainError t))"

definition ts_put :: "transaction \<Rightarrow> email_err option ts_prog" where
  "ts_put t = Call (TPutNew t) (\<lambda>r. Ret (conditional ErrConflict (ts_err r)))"

definition ts_get :: "string \<Rightarrow> (email_err + transaction) ts_prog" where
  "ts_get i = Call (TGet i) (\<lambda>r. Ret (case ts_item r of
       Inl (DynOther t) \<Rightarrow> Inl (PlainError t)
     | Inl ConditionalCheckFailed \<Rightarrow> Inl (PlainError ''ConditionalCheckFailed'')
     | Inr None \<Rightarrow> Inl ErrNotFound
     | Inr (Some t) \<Rightarrow> Inr t))"

definition ts_swap :: "transaction \<Rightarrow> transaction \<Rightarrow> email_err option ts_prog" where
  "ts_swap before after = Call (TPutIf after (Version before) (State before)) (\<lambda>r.
     Ret (conditional ErrConflict (ts_err r)))"

definition budget_key :: "string \<Rightarrow> int \<Rightarrow> string" where
  "budget_key name n = ''budget#'' @ name @ ''#'' @ show_int (n sdiv 3600)"

definition ts_charge :: "string \<Rightarrow> int \<Rightarrow> int \<Rightarrow> email_err option ts_prog" where
  "ts_charge name limit n = Call (TAdd (budget_key name n) limit (n + 7200)) (\<lambda>r.
     Ret (conditional ErrLimited (ts_err r)))"

end
