(* ===== verification/StoreProps.thy ===== *)
theory StoreProps
  imports EmailStore EmailMachine
begin

text \<open>
  The DynamoDB store implements the store the email service relies on: each of its operations,
  against a table with the documented conditional writes, is a step of the optimistic store
  \<open>serve\<close>. And the hourly budgets are never exceeded.
\<close>

section \<open>The table\<close>

record ts_state =
  tsItems :: "string \<Rightarrow> transaction option"
  tsBudgets :: "string \<Rightarrow> (int \<times> int) option" \<comment> \<open>attempts, ttl\<close>

definition item_put :: "transaction \<Rightarrow> ts_state \<Rightarrow> ts_state" where
  "item_put t s = s\<lparr>tsItems := (tsItems s)(ID t \<mapsto> t)\<rparr>"

definition attempts_of :: "string \<Rightarrow> ts_state \<Rightarrow> int" where
  "attempts_of key s = (case tsBudgets s key of None \<Rightarrow> 0 | Some (n, ttl) \<Rightarrow> n)"

definition budget_add :: "string \<Rightarrow> int \<Rightarrow> ts_state \<Rightarrow> ts_state" where
  "budget_add key ttl s = s\<lparr>tsBudgets := (tsBudgets s)(key \<mapsto> (attempts_of key s + 1, ttl))\<rparr>"

definition ts_holds :: "ts_call \<Rightarrow> ts_state \<Rightarrow> bool" where
  "ts_holds q s = (case q of
       TPutNew t \<Rightarrow> tsItems s (ID t) = None
     | TPutIf t v st \<Rightarrow> (case tsItems s (ID t) of None \<Rightarrow> False | Some x \<Rightarrow> Version x = v \<and> State x = st)
     | TAdd key limit ttl \<Rightarrow> tsBudgets s key = None \<or> attempts_of key s < limit
     | TGet i \<Rightarrow> False)"

definition ts_effect :: "ts_call \<Rightarrow> ts_state \<Rightarrow> ts_state" where
  "ts_effect q s = (case q of
       TPutNew t \<Rightarrow> item_put t s
     | TPutIf t v st \<Rightarrow> item_put t s
     | TAdd key limit ttl \<Rightarrow> budget_add key ttl s
     | TGet i \<Rightarrow> s)"

text \<open>
  A write whose condition holds takes effect, and its acknowledgement may be lost; a write that
  does not take effect is not acknowledged; a read shows the item or fails.
\<close>

inductive ts_serve :: "ts_call \<Rightarrow> ts_resp \<Rightarrow> ts_state \<Rightarrow> ts_state \<Rightarrow> bool" where
  ts_write: "ts_holds q s \<Longrightarrow> ts_serve q r s (ts_effect q s)"
| ts_refuse: "ts_err r \<noteq> None \<Longrightarrow> (\<And>i. q \<noteq> TGet i) \<Longrightarrow> ts_serve q r s s"
| ts_read: "ts_item r = Inr (tsItems s i) \<or> (\<exists>e. ts_item r = Inl e) \<Longrightarrow> ts_serve (TGet i) r s s"

section \<open>The email service's store\<close>

text \<open>The store operation behind each call of the service, with the field it answers in.\<close>

definition store_operation :: "email_call \<Rightarrow> email_resp \<Rightarrow> email_resp ts_prog" where
  "store_operation q base = (case q of
       Put t \<Rightarrow> pbind (ts_put t) (\<lambda>e. Ret (base\<lparr>r_err := e\<rparr>))
     | Get i \<Rightarrow> pbind (ts_get i) (\<lambda>x. Ret (base\<lparr>r_tx := x\<rparr>))
     | Swap b a \<Rightarrow> pbind (ts_swap b a) (\<lambda>e. Ret (base\<lparr>r_err := e\<rparr>))
     | Charge name limit n \<Rightarrow> pbind (ts_charge name limit n) (\<lambda>e. Ret (base\<lparr>r_err := e\<rparr>))
     | _ \<Rightarrow> Ret base)"

text \<open>
  The table and the abstract store hold the same records, and an id is not used again after its
  item expired (ids are 32 random bytes).
\<close>

definition represents :: "ts_state \<Rightarrow> (string, transaction) shared \<Rightarrow> bool" where
  "represents s sh \<longleftrightarrow> tsItems s = table sh"

definition fresh_put :: "email_call \<Rightarrow> (string, transaction) shared \<Rightarrow> bool" where
  "fresh_put q sh = (case q of
       Put t \<Rightarrow> table sh (ID t) \<noteq> None \<or> news (commits sh) (ID t) = []
     | _ \<Rightarrow> True)"

lemma conditional_None [simp]: "conditional target e = None \<longleftrightarrow> e = None"
  by (auto simp: conditional_def split: option.split dyn_err.split)

inductive_cases ts_serve_cases: "ts_serve q r s s'"

abbreviation email_steps :: "email_call \<Rightarrow> email_resp \<Rightarrow> (string, transaction) shared \<Rightarrow> ts_state \<Rightarrow> bool" where
  "email_steps q r sh s' \<equiv>
     \<exists>sh'. serve same_version email_access email_seen email_acked q r sh sh' \<and> represents s' sh'"

lemma refused_steps:
  "email_access q = Insert k a \<or> email_access q = Cas k b a \<Longrightarrow> r_err r \<noteq> None \<Longrightarrow> represents s sh \<Longrightarrow>
   email_steps q r sh s"
  using serve_refused [of email_access q k a b email_acked r] unfolding email_acked_def by blast

lemma other_steps: "email_access q = Other \<Longrightarrow> tsItems s' = tsItems s \<Longrightarrow> represents s sh \<Longrightarrow> email_steps q r sh s'"
  using serve_other [of email_access q same_version email_seen email_acked r sh] by (auto simp: represents_def)

lemma put_steps:
  assumes "ts_serve (TPutNew t) x s s'" "r_err r = conditional ErrConflict (ts_err x)"
    and "represents s sh" "fresh_put (Put t) sh"
  shows "email_steps (Put t) r sh s'"
  using assms(1)
proof (cases rule: ts_serve.cases)
  case ts_write
  then have "table sh (ID t) = None" "s' = item_put t s"
    using assms(3) by (auto simp: ts_holds_def ts_effect_def represents_def)
  moreover from this have "news (commits sh) (ID t) = []" using assms(4) by (auto simp: fresh_put_def)
  ultimately show ?thesis
    using assms(3) serve_insert [of email_access "Put t" "ID t" t sh same_version email_seen email_acked r]
    by (fastforce simp: represents_def item_put_def)
next
  case ts_refuse
  then show ?thesis using assms(2,3) by (intro refused_steps [of "Put t" "ID t" t]) auto
qed

lemma swap_steps:
  assumes "ts_serve (TPutIf a (Version b) (State b)) x s s'" "r_err r = conditional ErrConflict (ts_err x)"
    and "represents s sh"
  shows "email_steps (Swap b a) r sh s'"
  using assms(1)
proof (cases rule: ts_serve.cases)
  case ts_write
  then obtain c where "table sh (ID a) = Some c" "same_version c b" "s' = item_put a s"
    using assms(3) by (auto simp: ts_holds_def ts_effect_def represents_def same_version_def split: option.splits)
  then show ?thesis
    using assms(3) serve_cas [of email_access "Swap b a" "ID a" b a sh c same_version email_seen email_acked r]
    by (fastforce simp: represents_def item_put_def)
next
  case ts_refuse
  then show ?thesis using assms(2,3) by (intro refused_steps [of "Swap b a" "ID a" a b]) auto
qed

lemma get_steps:
  assumes "ts_serve (TGet i) x s s'" "represents s sh"
    and "r_tx r = (case ts_item x of Inl (DynOther t) \<Rightarrow> Inl (PlainError t)
         | Inl ConditionalCheckFailed \<Rightarrow> Inl (PlainError ''ConditionalCheckFailed'')
         | Inr None \<Rightarrow> Inl ErrNotFound | Inr (Some t) \<Rightarrow> Inr t)"
  shows "email_steps (Get i) r sh s'"
proof -
  have "s' = s" "email_seen r = None \<or> email_seen r = table sh i"
    using assms by (auto simp: email_seen_def represents_def ts_holds_def elim!: ts_serve_cases
        split: sum.splits option.splits dyn_err.splits)
  with assms(2) serve_read [of email_access "Get i" i email_seen r sh same_version email_acked] show ?thesis
    by auto
qed

lemma charge_items: "ts_serve (TAdd key limit ttl) x s s' \<Longrightarrow> tsItems s' = tsItems s"
  by (auto simp: ts_effect_def budget_add_def elim: ts_serve_cases)

text \<open>C4: every store operation of the email service, run against the table, is a step of the abstract
optimistic store that the concurrency theorems of the service are about: a read shows the stored
record or none, an insertion and a replacement take effect only on an absent record, respectively
one with the version and state that were read, and what is acknowledged has taken effect.\<close>

theorem store_refines:
  assumes "runs ts_serve (store_operation q base) s r s'" "represents s sh" "fresh_put q sh"
  shows "\<exists>sh'. serve same_version email_access email_seen email_acked q r sh sh' \<and> represents s' sh'"
proof (cases q)
  case (Put t)
  with assms show ?thesis by (auto simp: store_operation_def ts_put_def  intro: put_steps)
next
  case (Swap b a)
  with assms show ?thesis by (auto simp: store_operation_def ts_swap_def  intro: swap_steps)
next
  case (Get i)
  with assms show ?thesis by (auto simp: store_operation_def ts_get_def  intro: get_steps)
next
  case (Charge name limit n)
  with assms(1,2) show ?thesis
    by (auto simp: store_operation_def ts_charge_def  intro!: other_steps charge_items)
qed (use assms(1,2) other_steps [of q s' s sh r] in \<open>auto simp: store_operation_def \<close>)

section \<open>Budgets\<close>

text \<open>
  Charges over time: the clock only advances, a charge carries a time at most an hour behind it,
  and items are dropped once their ttl has passed. The log has every charge with its answer.
\<close>

record budget_state =
  bsTable :: ts_state
  bsClock :: int
  bsLog :: "(string \<times> int \<times> int \<times> email_err option) list" \<comment> \<open>name, limit, time, answer\<close>

inductive budget_reached :: "budget_state \<Rightarrow> bool" where
  budget_init: "budget_reached \<lparr>bsTable = \<lparr>tsItems = i, tsBudgets = (\<lambda>_. None)\<rparr>, bsClock = c, bsLog = []\<rparr>"
| budget_tick: "budget_reached b \<Longrightarrow> bsClock b \<le> c \<Longrightarrow> budget_reached (b\<lparr>bsClock := c\<rparr>)"
| budget_charge: "budget_reached b \<Longrightarrow> 0 \<le> n \<Longrightarrow> bsClock b - 3600 \<le> n \<Longrightarrow> n \<le> bsClock b \<Longrightarrow>
    runs ts_serve (ts_charge name limit n) (bsTable b) e t \<Longrightarrow>
    budget_reached (b\<lparr>bsTable := t, bsLog := bsLog b @ [(name, limit, n, e)]\<rparr>)"
| budget_expire: "budget_reached b \<Longrightarrow> tsBudgets (bsTable b) key = Some (a, ttl) \<Longrightarrow> ttl \<le> bsClock b \<Longrightarrow>
    budget_reached (b\<lparr>bsTable := (bsTable b)\<lparr>tsBudgets := (tsBudgets (bsTable b))(key := None)\<rparr>\<rparr>)"

text \<open>The charges of a name in an hour, and those that were accepted.\<close>

definition in_hour :: "string \<Rightarrow> int \<Rightarrow> string \<times> int \<times> int \<times> email_err option \<Rightarrow> bool" where
  "in_hour name h c = (case c of (name', limit, n, e) \<Rightarrow> name' = name \<and> n div 3600 = h)"

definition charged :: "string \<Rightarrow> int \<Rightarrow> budget_state \<Rightarrow> nat" where
  "charged name h b = length (filter (\<lambda>c. in_hour name h c \<and> snd (snd (snd c)) = None) (bsLog b))"

subsection \<open>Keys\<close>

lemma last_separator:
  assumes "a @ c # u = b @ c # v" "c \<notin> set u" "c \<notin> set v"
  shows "a = b \<and> u = v"
proof -
  have "takeWhile (\<lambda>x. x \<noteq> c) (rev (xs @ c # w)) = rev w" if "c \<notin> set w" for xs w
    using that by (auto simp: takeWhile_append takeWhile_eq_all_conv)
  then have "rev u = rev v" using assms by metis
  with assms(1) show ?thesis by simp
qed

lemma no_hash: "CHR ''#'' \<notin> set (show_nat n)"
  using show_nat_digits [of "CHR ''#''" n] by (auto simp: is_digit_def between_def)

lemma hour_div: "0 \<le> n \<Longrightarrow> n sdiv 3600 = n div (3600 :: int)"
  by (simp add: signed_divide_int_def sgn_if)

lemma budget_key_inj:
  assumes "0 \<le> m" "0 \<le> n"
  shows "budget_key a m = budget_key b n \<longleftrightarrow> a = b \<and> m div 3600 = n div 3600"
proof -
  have k: "budget_key c k = ''budget#'' @ c @ CHR ''#'' # show_nat (nat (k div 3600))" if "0 \<le> k" for c k
    using that by (simp add: budget_key_def hour_div show_int_def)
  have "budget_key a m = budget_key b n \<Longrightarrow> a = b \<and> m div 3600 = n div 3600"
    using last_separator [of a "CHR ''#''" "show_nat (nat (m div 3600))" b "show_nat (nat (n div 3600))"]
      no_hash show_nat_inj [of "nat (m div 3600)" "nat (n div 3600)"] assms
    by (auto simp: k eq_nat_nat_iff pos_imp_zdiv_nonneg_iff)
  then show ?thesis using assms by (auto simp: k)
qed

subsection \<open>The bound\<close>

definition hour_key :: "string \<Rightarrow> int \<Rightarrow> string" where
  "hour_key name h = budget_key name (h * 3600)"

lemma hour_key_charge:
  "0 \<le> h \<Longrightarrow> 0 \<le> n \<Longrightarrow> budget_key name' n = hour_key name h \<longleftrightarrow> name' = name \<and> n div 3600 = h"
  by (simp add: hour_key_def budget_key_inj)

text \<open>The counter of a name and hour, if it is still there, has counted the accepted charges; it
only disappears when no charge of that hour can come any more.\<close>

definition counted :: "string \<Rightarrow> int \<Rightarrow> budget_state \<Rightarrow> bool" where
  "counted name h b \<longleftrightarrow> (case tsBudgets (bsTable b) (hour_key name h) of
       None \<Rightarrow> charged name h b = 0 \<or> 3600 * h + 7200 \<le> bsClock b
     | Some (a, ttl) \<Rightarrow> 3600 * h + 7200 \<le> ttl \<and> int (charged name h b) \<le> a)"

definition within :: "string \<Rightarrow> int \<Rightarrow> int \<Rightarrow> budget_state \<Rightarrow> bool" where
  "within name h bound b \<longleftrightarrow>
     (\<forall>name' limit n e. (name', limit, n, e) \<in> set (bsLog b) \<longrightarrow> in_hour name h (name', limit, n, e) \<longrightarrow> limit \<le> bound) \<longrightarrow>
     int (charged name h b) \<le> bound"

lemma charged_snoc: "charged name h (b\<lparr>bsTable := t, bsLog := bsLog b @ [(name', limit, n, e)]\<rparr>) =
    charged name h b + (if name' = name \<and> n div 3600 = h \<and> e = None then 1 else 0)"
  by (auto simp: charged_def in_hour_def)

lemma charge_frame:
  assumes "counted name h b" "within name h bound b" "\<not> (name' = name \<and> n div 3600 = h \<and> e = None)"
    and "tsBudgets t (hour_key name h) = tsBudgets (bsTable b) (hour_key name h)"
  shows "counted name h (b\<lparr>bsTable := t, bsLog := bsLog b @ [(name', limit, n, e)]\<rparr>) \<and>
    within name h bound (b\<lparr>bsTable := t, bsLog := bsLog b @ [(name', limit, n, e)]\<rparr>)"
    (is "counted name h ?b \<and> _")
proof -
  have c: "charged name h ?b = charged name h b" using assms(3) unfolding charged_snoc by auto
  then have "counted name h ?b" using assms(1,4) by (auto simp: counted_def split: option.splits)
  moreover have "set (bsLog b) \<subseteq> set (bsLog ?b)" by auto
  then have "within name h bound ?b" using assms(2) unfolding within_def subset_iff c by metis
  ultimately show ?thesis by blast
qed

lemma budget_invariant:
  "budget_reached b \<Longrightarrow> 0 \<le> h \<Longrightarrow> 1 \<le> bound \<Longrightarrow> counted name h b \<and> within name h bound b"
proof (induction rule: budget_reached.induct)
  case (budget_init i c)
  then show ?case by (simp add: counted_def within_def charged_def)
next
  case (budget_tick b c)
  then show ?case by (auto simp: counted_def within_def charged_def split: option.splits)
next
  case (budget_expire b key a ttl)
  then show ?case by (auto simp: counted_def within_def charged_def split: option.splits if_splits)
next
  case (budget_charge b n name' limit e t)
  let ?b = "b\<lparr>bsTable := t, bsLog := bsLog b @ [(name', limit, n, e)]\<rparr>"
  from budget_charge.hyps(5) obtain r where
    r: "ts_serve (TAdd (budget_key name' n) limit (n + 7200)) r (bsTable b) t" "e = conditional ErrLimited (ts_err r)"
    by (auto simp: ts_charge_def )
  note key = hour_key_charge [of h n name' name, OF budget_charge.prems(1) budget_charge.hyps(2)]
  have c: "counted name h b" "within name h bound b" using budget_charge by auto
  show ?case
  proof (cases "name' = name \<and> n div 3600 = h")
    case False
    then have "budget_key name' n \<noteq> hour_key name h" using key by simp
    with r(1) have "tsBudgets t (hour_key name h) = tsBudgets (bsTable b) (hour_key name h)"
      by (auto simp: ts_effect_def budget_add_def elim: ts_serve_cases)
    with False show ?thesis by (intro charge_frame c) auto
  next
    case True
    then have k: "budget_key name' n = hour_key name h" using key by simp
    have late: "\<not> 3600 * h + 7200 \<le> bsClock b" using True budget_charge.hyps(3) by auto
    have ttl: "3600 * h + 7200 \<le> n + 7200" using True by auto
    from r(1) show ?thesis
    proof (cases rule: ts_serve.cases)
      case ts_refuse
      with r(2) show ?thesis by (intro charge_frame c) auto
    next
      case ts_write
      let ?a = "attempts_of (hour_key name h) (bsTable b)"
      have a: "int (charged name h b) \<le> ?a" "tsBudgets (bsTable b) (hour_key name h) = None \<Longrightarrow> ?a = 0"
        using c(1) late by (auto simp: counted_def attempts_of_def split: option.splits)
      have t: "tsBudgets t (hour_key name h) = Some (?a + 1, n + 7200)"
        using ts_write k by (simp add: ts_effect_def budget_add_def)
      have "?a < limit \<or> ?a = 0" using ts_write k a(2) by (auto simp: ts_holds_def)
      then have "limit \<le> bound \<Longrightarrow> int (charged name h ?b) \<le> bound"
        using a(1) budget_charge.prems(2) unfolding charged_snoc by auto
      then have "within name h bound ?b"
        using True unfolding within_def by (simp add: in_hour_def)
      then show ?thesis
        using a(1) t ttl by (auto simp: counted_def charged_snoc)
    qed
  qed
qed

text \<open>C5: in any hour the store accepts at most as many charges of a name as the greatest limit it was
charged with, whatever the interleaving, with lost acknowledgements and with items dropped after
their ttl, as long as a charge is at most an hour late: the ttl outlives the hour.\<close>

theorem budget_bounded:
  assumes "budget_reached b" "0 \<le> h" "1 \<le> bound"
    and "\<forall>name' limit n e. (name', limit, n, e) \<in> set (bsLog b) \<longrightarrow> in_hour name h (name', limit, n, e) \<longrightarrow> limit \<le> bound"
  shows "int (charged name h b) \<le> bound"
  using budget_invariant [OF assms(1-3)] assms(4) unfolding within_def by blast

section \<open>Demonstrations\<close>

definition demo_table :: ts_state where
  "demo_table = \<lparr>tsItems = (\<lambda>_. None), tsBudgets = (\<lambda>_. None)\<rparr>"

definition ts_ok :: ts_resp where "ts_ok = \<lparr>ts_err = None, ts_item = Inr None\<rparr>"

definition demo_charged :: budget_state where
  "demo_charged = \<lparr>bsTable = budget_add (budget_key ''n'' 7200) 14400 demo_table, bsClock = 7200,
     bsLog = [(''n'', 1, 7200, None)]\<rparr>"

lemma demo_charged_reached: "budget_reached demo_charged"
proof -
  have "ts_serve (TAdd (budget_key ''n'' 7200) 1 14400) ts_ok demo_table
      (ts_effect (TAdd (budget_key ''n'' 7200) 1 14400) demo_table)"
    by (rule ts_write) (simp add: ts_holds_def demo_table_def)
  then have "runs ts_serve (ts_charge ''n'' 1 7200) demo_table None (budget_add (budget_key ''n'' 7200) 14400 demo_table)"
    unfolding ts_charge_def  by (auto simp: ts_effect_def ts_ok_def conditional_def intro!: exI [of _ ts_ok])
  with budget_charge [OF budget_init [of "\<lambda>_. None" 7200], of 7200 "''n''" 1 None] show ?thesis
    by (auto simp: demo_charged_def demo_table_def)
qed

theorem budget_bounded_witness: "charged ''n'' 2 demo_charged = 1 \<and> int (charged ''n'' 2 demo_charged) \<le> 1"
  using budget_bounded [OF demo_charged_reached, of 2 1 "''n''"]
  by (simp add: demo_charged_def charged_def in_hour_def)

definition demo_answer_base :: email_resp where
  "demo_answer_base = \<lparr>r_err = None, r_tx = Inl ErrNotFound, r_bool = Inl ErrNotFound,
     r_text = Inl ErrNotFound, r_session = Inl ErrNotFound, r_unix = 0\<rparr>"

definition demo_item :: transaction where
  "demo_item = new_transaction demo_lib \<lparr>Key = '''', Origin = '''', Diagnostics = False\<rparr> ''i'' ''e'' ''c'' ''b'' ''123456'' 0"

theorem store_refines_witness:
  "\<exists>sh'. serve same_version email_access email_seen email_acked (Put demo_item) demo_answer_base no_records sh' \<and>
     represents (item_put demo_item demo_table) sh' \<and> table sh' (ID demo_item) = Some demo_item"
proof -
  have "ts_serve (TPutNew demo_item) ts_ok demo_table (ts_effect (TPutNew demo_item) demo_table)"
    by (rule ts_write) (simp add: ts_holds_def demo_table_def)
  then have "runs ts_serve (store_operation (Put demo_item) demo_answer_base) demo_table demo_answer_base
      (item_put demo_item demo_table)"
    unfolding store_operation_def ts_put_def
    by (auto simp: ts_ok_def ts_effect_def conditional_def demo_answer_base_def intro!: exI [of _ ts_ok])
  from store_refines [OF this, of no_records]
  obtain sh' where sh: "serve same_version email_access email_seen email_acked (Put demo_item) demo_answer_base no_records sh'"
    "represents (item_put demo_item demo_table) sh'"
    by (auto simp: represents_def fresh_put_def demo_table_def no_records_def)
  moreover have "table sh' (ID demo_item) = Some demo_item"
    using sh(2) by (simp add: represents_def item_put_def flip: fun_upd_def) (metis fun_upd_same)
  ultimately show ?thesis by blast
qed

end
