(* ===== verification/CaptureService.thy ===== *)
theory CaptureService
  imports Capture
begin

text \<open>
  The operations of the capture service: \<open>capture/service.go\<close> and the review of
  \<open>capture/extraction.go\<close>. Each takes the library parameters, the service and the request and
  is the tree of its calls. Where the code returns the record beside an error, the error alone
  is the result: no caller reads the record then. Every write of a record is a definition of
  its own, named after what it does to the record.
\<close>

section \<open>Get and Current\<close>

definition unavailable :: "cap_record \<Rightarrow> cap_record" where
  "unavailable r = r\<lparr>cRevision := cRevision r + 1, cLeaseUntil := 0,
     cExtraction := Some (extraction_of ''failed'' ''extraction_unavailable''),
     cWork := ''cleanup'', cDue := cDeleteAfter r\<rparr>"

definition hide_data :: "cap_record \<Rightarrow> cap_record" where
  "hide_data r = (if cState r = ''expired'' \<or> cState r = ''cancelled''
     then r\<lparr>cExtraction := None, cReviewed := None\<rparr> else r)"

text \<open>The overdue extraction: its conditions read the clock in the order of the code.\<close>

definition overdue :: "cap_record \<Rightarrow> (bool \<Rightarrow> 'a cap_prog) \<Rightarrow> 'a cap_prog" where
  "overdue r k =
    (if cState r \<noteq> ''ready'' then k False else
     case cExtraction r of
       None \<Rightarrow> k True
     | Some x \<Rightarrow>
         if xStatus x \<noteq> ''pending'' then k False else
         cap_now (\<lambda>n1. if \<not> cLeaseUntil r \<le> n1 then k False
           else if cWork r \<noteq> ''extract'' then k True
           else cap_now (\<lambda>n2. k (n2 \<ge> cDue r + 300))))"

definition get_recover :: "cap_record \<Rightarrow> (cap_err + cap_record) cap_prog" where
  "get_recover r = overdue r (\<lambda>late.
     if late then s_swap r (unavailable r) False (\<lambda>x. case x of
         Some e \<Rightarrow> Ret (Inl e)
       | None \<Rightarrow> Ret (Inr (hide_data (unavailable r))))
     else Ret (Inr (hide_data r)))"

definition get_expire :: "cap_record \<Rightarrow> (cap_record \<Rightarrow> 'a cap_prog) \<Rightarrow> 'a cap_prog" where
  "get_expire r k =
    (if cState r = ''uploading''
     then cap_now (\<lambda>n. k (if n \<ge> cExpiresAt r then r\<lparr>cState := ''expired''\<rparr> else r))
     else if cState r = ''ready'' \<and> cDeleteAfter r > 0
     then cap_now (\<lambda>n. k (if n \<ge> cDeleteAfter r then r\<lparr>cState := ''expired''\<rparr> else r))
     else k r)"

definition cap_get :: "string \<Rightarrow> string \<Rightarrow> (cap_err + cap_record) cap_prog" where
  "cap_get owner i =
    (if owner = '''' \<or> \<not> valid_id i then Ret (Inl CapNotFound) else
     s_get owner i (\<lambda>x. case x of
       Inl e \<Rightarrow> Ret (Inl e)
     | Inr r \<Rightarrow> get_expire r get_recover))"

definition with_rec :: "(cap_err + cap_record) cap_prog \<Rightarrow> (cap_record \<Rightarrow> (cap_err + 'a) cap_prog) \<Rightarrow>
    (cap_err + 'a) cap_prog" where
  "with_rec p k = pbind p (\<lambda>x. case x of Inl e \<Rightarrow> Ret (Inl e) | Inr r \<Rightarrow> k r)"

definition cap_current :: "string \<Rightarrow> (cap_err + cap_record option) cap_prog" where
  "cap_current owner = s_account owner (\<lambda>x. case x of
       Inl e \<Rightarrow> Ret (Inl e)
     | Inr a \<Rightarrow> if acCurrentID a = '''' then Ret (Inr None) else
         pbind (cap_get owner (acCurrentID a)) (\<lambda>x. case x of
           Inl e \<Rightarrow> if e = CapNotFound then Ret (Inr None) else Ret (Inl e)
         | Inr r \<Rightarrow> Ret (Inr (Some r))))"

section \<open>Create\<close>

definition next_account :: "cap_account \<Rightarrow> string \<Rightarrow> string \<Rightarrow> cap_account" where
  "next_account a owner day =
    (let n = a\<lparr>acOwner := owner, acRevision := acRevision a + 1, acVersion := acVersion a + 1\<rparr>
     in if acDay n \<noteq> day then n\<lparr>acDay := day, acCreatedToday := 0\<rparr> else n)"

definition new_record :: "string \<Rightarrow> string \<Rightarrow> string \<Rightarrow> int \<Rightarrow> policy \<Rightarrow> string \<Rightarrow> string \<Rightarrow> string \<Rightarrow>
    int \<Rightarrow> int \<Rightarrow> cap_record" where
  "new_record language i owner version p expected kind key n expires =
    \<lparr>cDisclosureLanguage = language, cExtraction = None, cReviewed = None, cExtractionAttempts = 0,
     cID = i, cOwner = owner, cEvidenceVersion = version, cRevision = 1, cPolicySnapshot = Some p,
     cExpectedPolicyVersion = expected, cPolicyVersion = pVersion p, cDocumentType = kind,
     cState = ''uploading'', cExpiresAt = expires, cCreatedAt = n, cSlots = Some Mapping.empty,
     cUploads = [], cAssets = [], cProcessed = [], cProcessingVersion = '''', cError = '''',
     cCreateKey = key, cFinalizeKey = '''', cRetryKey = '''', cGeneration = 0, cAttempts = 0,
     cLeaseUntil = 0, cWork = ''cleanup'', cDue = expires + UploadLifetime + 60,
     cDeleteAfter = 0, cTTL = n + 90 * 86400\<rparr>"

text \<open>The account's current capture must not be in progress.\<close>

definition none_open :: "string \<Rightarrow> cap_account \<Rightarrow> (cap_err + unit) cap_prog" where
  "none_open owner a =
    (if acCurrentID a = '''' then Ret (Inr ()) else
     pbind (cap_get owner (acCurrentID a)) (\<lambda>x. case x of
       Inl e \<Rightarrow> if e \<noteq> CapNotFound then Ret (Inl e) else Ret (Inr ())
     | Inr old \<Rightarrow> if cState old = ''uploading'' \<or> cState old = ''finalizing''
         then Ret (Inl CapConflict) else Ret (Inr ())))"

definition cap_open :: "string \<Rightarrow> string \<Rightarrow> string \<Rightarrow> string \<Rightarrow> string \<Rightarrow> policy \<Rightarrow> cap_account \<Rightarrow>
    (cap_err + cap_record) cap_prog" where
  "cap_open owner key kind version language p a =
    cap_now (\<lambda>t. let m = next_account a owner (utc_day t) in
    if acCreatedToday m \<ge> 5 then Ret (Inl CapLimited) else
    new_id (\<lambda>x. case x of Inl e \<Rightarrow> Ret (Inl e) | Inr i \<Rightarrow>
    cap_now (\<lambda>n. cap_now (\<lambda>n2.
      let m2 = m\<lparr>acCreatedToday := acCreatedToday m + 1, acCurrentID := i\<rparr>;
          r = new_record language i owner (acVersion m2) p version kind key n (n2 + SessionLifetime)
      in s_create a m2 r (\<lambda>x. case x of Some e \<Rightarrow> Ret (Inl e) | None \<Rightarrow> Ret (Inr r))))))"

definition cap_admit :: "golib \<Rightarrow> (policy \<Rightarrow> string) \<Rightarrow> cap_service \<Rightarrow> string \<Rightarrow> string \<Rightarrow> string \<Rightarrow>
    string \<Rightarrow> string \<Rightarrow> (cap_err + cap_record) cap_prog" where
  "cap_admit L marshal s owner key kind version language =
    current_policy L marshal s (\<lambda>x. case x of
      Inl e \<Rightarrow> Ret (Inl e)
    | Inr p \<Rightarrow>
      if version = '''' \<or> version \<noteq> pVersion p then Ret (Inl CapPolicyChanged)
      else if \<not> pEnabled p then Ret (Inl CapDisabled)
      else if language \<noteq> Language (pPurposes p) language then Ret (Inl CapInvalid)
      else if kind \<noteq> pDocumentType p then Ret (Inl CapInvalid)
      else s_account owner (\<lambda>x. case x of
        Inl e \<Rightarrow> Ret (Inl e)
      | Inr a \<Rightarrow> pbind (none_open owner a) (\<lambda>x. case x of
          Inl e \<Rightarrow> Ret (Inl e)
        | Inr _ \<Rightarrow> cap_open owner key kind version language p a)))"

definition cap_create :: "golib \<Rightarrow> (policy \<Rightarrow> string) \<Rightarrow> cap_service \<Rightarrow> string \<Rightarrow> string \<Rightarrow> string \<Rightarrow>
    string list \<Rightarrow> (cap_err + cap_record) cap_prog" where
  "cap_create L marshal s owner key kind expected =
    (let version = (if length expected \<ge> 1 then expected ! 0 else '''');
         language = (if length expected \<ge> 2 then expected ! 1 else ''en'')
     in if language \<noteq> ''en'' \<and> language \<noteq> ''es'' \<and> language \<noteq> ''fr'' then Ret (Inl CapInvalid)
     else if owner = '''' \<or> \<not> valid_operation key then Ret (Inl CapInvalid)
     else s_find_create owner key (\<lambda>x. case x of
       Inr old \<Rightarrow>
         if cDocumentType old \<noteq> kind \<or> cExpectedPolicyVersion old \<noteq> version \<or>
            (cDisclosureLanguage old \<noteq> '''' \<and> cDisclosureLanguage old \<noteq> language)
         then Ret (Inl CapConflict) else cap_get owner (cID old)
     | Inl e \<Rightarrow> if e \<noteq> CapNotFound then Ret (Inl e)
         else cap_admit L marshal s owner key kind version language))"

section \<open>Upload\<close>

definition upload_request_ok :: "upload_request \<Rightarrow> bool" where
  "upload_request_ok u \<longleftrightarrow> (case std_decode (urSHA256 u) of
       None \<Rightarrow> False
     | Some h \<Rightarrow> length h = 32 \<and> \<not> urSize u < 4 \<and> \<not> urSize u > MaxBytes \<and>
         valid_operation (urOperationKey u) \<and> (urSlot u = ''front'' \<or> urSlot u = ''back''))"

text \<open>The upload an operation key already names, if the request repeats it exactly.\<close>

definition replay_upload :: "cap_record \<Rightarrow> upload_request \<Rightarrow> cap_err + upload option" where
  "replay_upload r u =
    (case find (\<lambda>v. uOperationKey v = urOperationKey u) (cUploads r) of
       None \<Rightarrow> Inr None
     | Some v \<Rightarrow>
         if uSlot v \<noteq> urSlot u \<or> uSHA256 v \<noteq> urSHA256 u \<or> uSize v \<noteq> urSize u \<or>
            slot_get (cSlots r) (uSlot v) \<noteq> uID v
         then Inl CapConflict else Inr (Some v))"

definition new_upload :: "golib \<Rightarrow> string \<Rightarrow> string \<Rightarrow> string \<Rightarrow> upload_request \<Rightarrow> upload" where
  "new_upload L owner i j u =
    \<lparr>uID = j, uSlot = urSlot u, uSHA256 = urSHA256 u, uSize = urSize u,
     uKey = object_prefix L owner i @ j @ ''.jpg'', uOperationKey = urOperationKey u\<rparr>"

definition add_upload :: "cap_record \<Rightarrow> upload \<Rightarrow> cap_record" where
  "add_upload r v = r\<lparr>cSlots := Some (Mapping.update (uSlot v) (uID v) (clone_slots (cSlots r))),
     cUploads := cUploads r @ [v], cRevision := cRevision r + 1\<rparr>"

definition upload_answer :: "cap_record \<Rightarrow> upload \<Rightarrow> (cap_err + upload_reply) cap_prog" where
  "upload_answer r v = o_presign v (\<lambda>x. case x of
       Inl e \<Rightarrow> Ret (Inl e)
     | Inr (url, headers) \<Rightarrow> Ret (Inr \<lparr>upCapture = r, upUploadID = uID v, upURL = url,
         upHeaders = headers, upExpiresIn = UploadLifetime\<rparr>))"

definition cap_upload :: "golib \<Rightarrow> string \<Rightarrow> string \<Rightarrow> upload_request \<Rightarrow>
    (cap_err + upload_reply) cap_prog" where
  "cap_upload L owner i u = with_rec (cap_get owner i) (\<lambda>r.
    if cState r = ''expired'' then Ret (Inl CapExpired) else
    if cState r \<noteq> ''uploading'' then Ret (Inl CapConflict) else
    if \<not> upload_request_ok u then Ret (Inl CapInvalid) else
    case replay_upload r u of
      Inl e \<Rightarrow> Ret (Inl e)
    | Inr (Some v) \<Rightarrow> upload_answer r v
    | Inr None \<Rightarrow>
        if urRevision u \<noteq> cRevision r then Ret (Inl CapConflict) else
        if length (cUploads r) \<ge> 20 then Ret (Inl CapLimited) else
        new_id (\<lambda>x. case x of Inl e \<Rightarrow> Ret (Inl e) | Inr j \<Rightarrow>
          let v = new_upload L owner i j u; a = add_upload r v
          in s_swap r a False (\<lambda>x. case x of
               Some e \<Rightarrow> Ret (Inl e)
             | None \<Rightarrow> upload_answer a v)))"

section \<open>Finalize\<close>

text \<open>The asset of one side: the first upload the side's slot names, checked against the store.\<close>

definition side_asset :: "cap_record \<Rightarrow> string \<Rightarrow> (cap_err + asset \<Rightarrow> 'a cap_prog) \<Rightarrow> 'a cap_prog" where
  "side_asset r side k =
    (case find (\<lambda>u. uID u = slot_get (cSlots r) side) (cUploads r) of
       None \<Rightarrow> k (Inl CapIncomplete)
     | Some u \<Rightarrow> o_head u (\<lambda>x. case x of
           Inl e \<Rightarrow> k (Inl e)
         | Inr a \<Rightarrow>
             if aVersionID a = '''' \<or> aVersionID a = ''null'' \<or> aSize a \<noteq> uSize u \<or>
                aSHA256 a \<noteq> uSHA256 u
             then k (Inl CapImage)
             else k (Inr (a\<lparr>aUploadID := uID u, aSlot := side, aKey := uKey u\<rparr>))))"

definition finalized :: "cap_record \<Rightarrow> asset list \<Rightarrow> string \<Rightarrow> int \<Rightarrow> cap_record" where
  "finalized r assets key n = r\<lparr>cAssets := assets, cFinalizeKey := key, cState := ''finalizing'',
     cWork := ''validate'', cDue := n, cGeneration := cGeneration r + 1,
     cRevision := cRevision r + 1\<rparr>"

definition slots_complete :: "cap_record \<Rightarrow> finalize_request \<Rightarrow> bool" where
  "slots_complete r f \<longleftrightarrow> slot_len (frUploadIDs f) = 2 \<and> slot_get (frUploadIDs f) ''front'' \<noteq> '''' \<and>
     slot_get (frUploadIDs f) ''back'' \<noteq> '''' \<and> cSlots r = frUploadIDs f"

definition cap_finalize :: "string \<Rightarrow> string \<Rightarrow> finalize_request \<Rightarrow> (cap_err + cap_record) cap_prog" where
  "cap_finalize owner i f =
    (if \<not> valid_operation (frOperationKey f) then Ret (Inl CapInvalid) else
     with_rec (cap_get owner i) (\<lambda>r.
     if cFinalizeKey r = frOperationKey f
     then (if cSlots r \<noteq> frUploadIDs f then Ret (Inl CapConflict) else Ret (Inr r)) else
     if cState r = ''expired'' then Ret (Inl CapExpired) else
     if cState r \<noteq> ''uploading'' \<or> cRevision r \<noteq> frRevision f then Ret (Inl CapConflict) else
     if \<not> slots_complete r f then Ret (Inl CapIncomplete) else
     side_asset r ''front'' (\<lambda>x. case x of Inl e \<Rightarrow> Ret (Inl e) | Inr a1 \<Rightarrow>
     side_asset r ''back'' (\<lambda>x. case x of Inl e \<Rightarrow> Ret (Inl e) | Inr a2 \<Rightarrow>
     cap_now (\<lambda>n. let a = finalized r [a1, a2] (frOperationKey f) n in
     s_swap r a False (\<lambda>x. case x of Some e \<Rightarrow> Ret (Inl e) | None \<Rightarrow> Ret (Inr a)))))))"

section \<open>Cancel, Retry and Review\<close>

definition cancelled :: "cap_record \<Rightarrow> int \<Rightarrow> cap_record" where
  "cancelled r n = r\<lparr>cState := ''cancelled'', cExtraction := None, cReviewed := None,
     cWork := ''cleanup'', cDue := n + UploadLifetime + 60, cGeneration := cGeneration r + 1,
     cLeaseUntil := 0, cRevision := cRevision r + 1\<rparr>"

definition cap_cancel :: "string \<Rightarrow> string \<Rightarrow> (cap_err + cap_record) cap_prog" where
  "cap_cancel owner i = s_get owner i (\<lambda>x. case x of
       Inl e \<Rightarrow> Ret (Inl e)
     | Inr r \<Rightarrow>
         if cState r = ''cancelled'' \<or> cState r = ''expired'' then Ret (Inr r) else
         cap_now (\<lambda>n. s_swap r (cancelled r n) False (\<lambda>x. case x of
           Some e \<Rightarrow> Ret (Inl e) | None \<Rightarrow> Ret (Inr (cancelled r n)))))"

definition retry_extraction :: "cap_record \<Rightarrow> string \<Rightarrow> int \<Rightarrow> cap_record" where
  "retry_extraction r key n = r\<lparr>cExtraction := Some (extraction_of ''pending'' ''''),
     cExtractionAttempts := 0, cWork := ''extract'', cDue := n, cRetryKey := key,
     cGeneration := cGeneration r + 1, cRevision := cRevision r + 1, cLeaseUntil := 0\<rparr>"

definition retry_validation :: "cap_record \<Rightarrow> string \<Rightarrow> int \<Rightarrow> cap_record" where
  "retry_validation r key n = r\<lparr>cState := ''finalizing'', cError := '''', cWork := ''validate'',
     cDue := n, cRetryKey := key, cGeneration := cGeneration r + 1, cAttempts := 0,
     cLeaseUntil := 0, cRevision := cRevision r + 1\<rparr>"

definition has_status :: "cap_record \<Rightarrow> string \<Rightarrow> bool" where
  "has_status r status \<longleftrightarrow> map_option xStatus (cExtraction r) = Some status"

definition cap_retry :: "string \<Rightarrow> string \<Rightarrow> string \<Rightarrow> (cap_err + cap_record) cap_prog" where
  "cap_retry owner i key =
    (if \<not> valid_operation key then Ret (Inl CapInvalid) else
     with_rec (cap_get owner i) (\<lambda>r.
     if cRetryKey r = key then Ret (Inr r) else
     if cState r = ''ready'' \<and> has_status r ''failed''
     then cap_now (\<lambda>n. s_swap r (retry_extraction r key n) False (\<lambda>x. case x of
            Some e \<Rightarrow> Ret (Inl e) | None \<Rightarrow> Ret (Inr (retry_extraction r key n))))
     else if cState r \<noteq> ''failed'' then Ret (Inl CapConflict) else
     cap_now (\<lambda>t. if t \<ge> cExpiresAt r then Ret (Inl CapConflict) else
     cap_now (\<lambda>n. s_swap r (retry_validation r key n) False (\<lambda>x. case x of
            Some e \<Rightarrow> Ret (Inl e) | None \<Rightarrow> Ret (Inr (retry_validation r key n)))))))"

definition reviewed :: "cap_record \<Rightarrow> review_request \<Rightarrow> int \<Rightarrow> cap_record" where
  "reviewed r v n = r\<lparr>cRevision := cRevision r + 1,
     cReviewed := Some \<lparr>vOriginCountry = rrOriginCountry v, vData = rrData v, vSavedAt = n\<rparr>\<rparr>"

definition same_review :: "cap_record \<Rightarrow> review_request \<Rightarrow> bool" where
  "same_review r v \<longleftrightarrow> (case cReviewed r of None \<Rightarrow> False
     | Some w \<Rightarrow> vData w = rrData v \<and> vOriginCountry w = rrOriginCountry v)"

definition cap_review :: "string \<Rightarrow> string \<Rightarrow> review_request \<Rightarrow> (cap_err + cap_record) cap_prog" where
  "cap_review owner i v =
    (if \<not> card_valid (rrData v) \<or> card_empty (rrData v) \<or> \<not> valid_origin (rrOriginCountry v)
     then Ret (Inl CapInvalid) else
     with_rec (cap_get owner i) (\<lambda>r.
     if cState r = ''expired'' then Ret (Inl CapExpired) else
     if cState r \<noteq> ''ready'' \<or> \<not> (has_status r ''complete'' \<or> has_status r ''failed'')
     then Ret (Inl CapConflict) else
     if same_review r v then Ret (Inr r) else
     if cRevision r \<noteq> rrRevision v then Ret (Inl CapConflict) else
     cap_now (\<lambda>n. s_swap r (reviewed r v n) False (\<lambda>x. case x of
       Some e \<Rightarrow> Ret (Inl e) | None \<Rightarrow> Ret (Inr (reviewed r v n))))))"

end
