(* ===== verification/CaptureWorker.thy ===== *)
theory CaptureWorker
  imports CaptureService
begin

text \<open>
  The worker of the capture service: \<open>capture/worker.go\<close> and the extraction of
  \<open>capture/extraction.go\<close>. \<open>imaging\<close> stands for package \<open>image/jpeg\<close>. The error a job ends
  with is the result; \<open>None\<close> is success. Clearing buffers and log lines are not modelled.
\<close>

section \<open>Validation of an image\<close>

record 'im imaging =
  jpeg_config :: "string \<Rightarrow> (int \<times> int) option" \<comment> \<open>jpeg.DecodeConfig: width, height\<close>
  jpeg_decode :: "string \<Rightarrow> 'im option" \<comment> \<open>jpeg.Decode\<close>
  jpeg_encode :: "'im \<Rightarrow> string option" \<comment> \<open>jpeg.Encode at quality 90\<close>

definition validate_jpeg :: "golib \<Rightarrow> 'im imaging \<Rightarrow> string \<Rightarrow> asset \<Rightarrow> cap_err option" where
  "validate_jpeg L J b a =
    (if int (length b) \<noteq> aSize a \<or> aSize a > MaxBytes then Some CapImage else
     if std_encode (sha256 L b) \<noteq> aSHA256 a then Some CapImage else
     case jpeg_config J b of
       None \<Rightarrow> Some CapImage
     | Some (w, h) \<Rightarrow>
         if w < 1 \<or> h < 1 \<or> w * h > MaxPixels then Some CapImage else
         if jpeg_decode J b = None then Some CapImage else None)"

text \<open>One asset: read, check, decode, encode again, store the normalised copy.\<close>

definition normalize_asset :: "golib \<Rightarrow> 'im imaging \<Rightarrow> cap_record \<Rightarrow> asset \<Rightarrow>
    (cap_err + asset \<Rightarrow> 'a cap_prog) \<Rightarrow> 'a cap_prog" where
  "normalize_asset L J r a k = o_read a (\<lambda>x. case x of
       Inl e \<Rightarrow> k (Inl e)
     | Inr b \<Rightarrow> (case validate_jpeg L J b a of
         Some e \<Rightarrow> k (Inl e)
       | None \<Rightarrow> (case jpeg_decode J b of
           None \<Rightarrow> k (Inl CapImage)
         | Some img \<Rightarrow> (case jpeg_encode J img of
             None \<Rightarrow> k (Inl CapImage)
           | Some out \<Rightarrow> if int (length out) > MaxBytes then k (Inl CapImage)
               else o_write r (aSlot a) out k))))"

primrec normalize_all :: "golib \<Rightarrow> 'im imaging \<Rightarrow> cap_record \<Rightarrow> asset list \<Rightarrow> asset list \<Rightarrow>
    (cap_err option \<times> asset list \<Rightarrow> 'a cap_prog) \<Rightarrow> 'a cap_prog" where
  "normalize_all L J r [] acc k = k (None, acc)"
| "normalize_all L J r (a # as) acc k = normalize_asset L J r a (\<lambda>x. case x of
       Inl e \<Rightarrow> k (Some e, acc)
     | Inr n \<Rightarrow> normalize_all L J r as (acc @ [n]) k)"

section \<open>Cleanup\<close>

definition cleanup_begun :: "cap_record \<Rightarrow> int \<Rightarrow> cap_record" where
  "cleanup_begun r n = r\<lparr>cExtraction := None, cReviewed := None, cState := ''expired'',
     cGeneration := cGeneration r + 1, cRevision := cRevision r + 1, cLeaseUntil := n + 120\<rparr>"

definition cleanup_done :: "cap_record \<Rightarrow> cap_record" where
  "cleanup_done r = r\<lparr>cUploads := [], cAssets := [], cProcessed := [],
     cSlots := Some Mapping.empty, cWork := '''', cDue := 0, cLeaseUntil := 0,
     cRevision := cRevision r + 1\<rparr>"

definition swap_last :: "cap_record \<Rightarrow> cap_record \<Rightarrow> bool \<Rightarrow> cap_err option cap_prog" where
  "swap_last b a ready = s_swap b a ready Ret"

definition work_cleanup :: "golib \<Rightarrow> cap_record \<Rightarrow> int \<Rightarrow> cap_err option cap_prog" where
  "work_cleanup L r n =
    (if cState r = ''uploading'' \<and> n < cExpiresAt r then Ret None else
     let c = cleanup_begun r n in
     s_swap r c False (\<lambda>x. case x of Some e \<Rightarrow> Ret (Some e) | None \<Rightarrow>
     o_delete (object_prefix L (cOwner c) (cID c)) (\<lambda>x. case x of Some e \<Rightarrow> Ret (Some e) | None \<Rightarrow>
     swap_last c (cleanup_done c) False)))"

section \<open>Validation\<close>

definition validation_expired :: "cap_record \<Rightarrow> int \<Rightarrow> cap_record" where
  "validation_expired r n = r\<lparr>cExtraction := None, cReviewed := None, cState := ''expired'',
     cWork := ''cleanup'', cDue := n + UploadLifetime + 60, cGeneration := cGeneration r + 1,
     cRevision := cRevision r + 1, cLeaseUntil := 0\<rparr>"

definition validation_gave_up :: "cap_record \<Rightarrow> cap_record" where
  "validation_gave_up r = r\<lparr>cState := ''failed'', cError := ''validation_unavailable'',
     cWork := ''cleanup'', cDue := cExpiresAt r + UploadLifetime, cLeaseUntil := 0,
     cRevision := cRevision r + 1\<rparr>"

definition validation_leased :: "cap_record \<Rightarrow> int \<Rightarrow> cap_record" where
  "validation_leased r n = r\<lparr>cRevision := cRevision r + 1, cAttempts := cAttempts r + 1,
     cLeaseUntil := n + 120, cDue := n + 120\<rparr>"

definition validation_ready :: "cap_service \<Rightarrow> cap_record \<Rightarrow> asset list \<Rightarrow> int \<Rightarrow> int \<Rightarrow> cap_record" where
  "validation_ready s r processed n1 n2 =
    (let keep = (if csRetention s \<le> 0 then 7 * 24 * 3600 else csRetention s);
         d = r\<lparr>cRevision := cRevision r + 1, cLeaseUntil := 0, cProcessed := processed,
               cProcessingVersion := ''jpeg-raster-v1'', cState := ''ready'', cWork := ''cleanup'',
               cDeleteAfter := n1 + keep, cDue := n1 + keep\<rparr>
     in if csExtractor s
        then d\<lparr>cExtraction := Some (extraction_of ''pending'' ''''), cWork := ''extract'', cDue := n2\<rparr>
        else d)"

definition validation_recapture :: "cap_record \<Rightarrow> int \<Rightarrow> cap_record" where
  "validation_recapture r n = r\<lparr>cRevision := cRevision r + 1, cLeaseUntil := 0,
     cState := ''requires_recapture'', cError := ''invalid_image'', cWork := ''cleanup'',
     cDue := n + UploadLifetime + 60\<rparr>"

definition validation_postponed :: "cap_record \<Rightarrow> int \<Rightarrow> cap_record" where
  "validation_postponed r n = r\<lparr>cRevision := cRevision r + 1, cLeaseUntil := 0,
     cDue := n + cAttempts r * 60\<rparr>"

text \<open>From the outcome of the validation on; \<open>r\<close> is the leased record.\<close>

definition validation_outcome :: "cap_service \<Rightarrow> cap_record \<Rightarrow> cap_err option \<Rightarrow> asset list \<Rightarrow>
    cap_err option cap_prog" where
  "validation_outcome s r err processed = (case err of
       None \<Rightarrow>
         cap_now (\<lambda>n1. if n1 \<ge> cExpiresAt r
           then cap_now (\<lambda>n2. swap_last r (validation_expired r n2) False)
           else cap_now (\<lambda>n2.
             if csExtractor s
             then cap_now (\<lambda>n3. swap_last r (validation_ready s r processed n2 n3) True)
             else swap_last r (validation_ready s r processed n2 n2) True))
     | Some e \<Rightarrow>
         if e = CapImage then cap_now (\<lambda>n. swap_last r (validation_recapture r n) False)
         else if cAttempts r \<ge> 3 then swap_last r (validation_gave_up r) False
         else cap_now (\<lambda>n. swap_last r (validation_postponed r n) False))"

definition work_validate :: "golib \<Rightarrow> 'im imaging \<Rightarrow> cap_service \<Rightarrow> cap_record \<Rightarrow> int \<Rightarrow>
    cap_err option cap_prog" where
  "work_validate L J s r n =
    (if cState r \<noteq> ''finalizing'' then Ret None else
     if n \<ge> cExpiresAt r then swap_last r (validation_expired r n) False else
     if cAttempts r \<ge> 3 then swap_last r (validation_gave_up r) False else
     let l = validation_leased r n in
     s_swap r l False (\<lambda>x. case x of Some e \<Rightarrow> Ret (Some e) | None \<Rightarrow>
     normalize_all L J l (cAssets l) [] (\<lambda>(err, processed).
       validation_outcome s l
         (if err = None \<and> length (cAssets l) \<noteq> 2 then Some CapImage else err) processed)))"

section \<open>Extraction\<close>

definition extraction_expired :: "cap_record \<Rightarrow> int \<Rightarrow> cap_record" where
  "extraction_expired r n = r\<lparr>cRevision := cRevision r + 1, cGeneration := cGeneration r + 1,
     cState := ''expired'', cExtraction := None, cReviewed := None, cWork := ''cleanup'',
     cDue := n, cLeaseUntil := 0\<rparr>"

definition expire_extraction :: "cap_record \<Rightarrow> cap_err option cap_prog" where
  "expire_extraction r = cap_now (\<lambda>n. swap_last r (extraction_expired r n) False)"

definition extraction_leased :: "cap_record \<Rightarrow> int \<Rightarrow> cap_record" where
  "extraction_leased r n = r\<lparr>cRevision := cRevision r + 1,
     cExtractionAttempts := cExtractionAttempts r + 1, cLeaseUntil := n + 120, cDue := n + 120\<rparr>"

definition extraction_complete :: "cap_record \<Rightarrow> card_data \<Rightarrow> cap_record" where
  "extraction_complete r d = r\<lparr>cRevision := cRevision r + 1, cLeaseUntil := 0,
     cExtraction := Some \<lparr>xStatus = ''complete'', xData = d, xError = ''''\<rparr>,
     cWork := ''cleanup'', cDue := cDeleteAfter r\<rparr>"

definition extraction_failed :: "cap_record \<Rightarrow> cap_record" where
  "extraction_failed r = r\<lparr>cRevision := cRevision r + 1, cLeaseUntil := 0,
     cExtraction := Some (extraction_of ''failed'' ''extraction_unavailable''),
     cWork := ''cleanup'', cDue := cDeleteAfter r\<rparr>"

definition extraction_postponed :: "cap_record \<Rightarrow> int \<Rightarrow> cap_record" where
  "extraction_postponed r n = r\<lparr>cRevision := cRevision r + 1, cLeaseUntil := 0,
     cDue := n + cExtractionAttempts r * 60\<rparr>"

definition finish_extraction :: "cap_record \<Rightarrow> cap_err + card_data \<Rightarrow> cap_err option cap_prog" where
  "finish_extraction r outcome = (case outcome of
       Inr d \<Rightarrow> swap_last r (extraction_complete r d) False
     | Inl e \<Rightarrow>
         if cExtractionAttempts r \<ge> 3 then swap_last r (extraction_failed r) False
         else cap_now (\<lambda>n. swap_last r (extraction_postponed r n) False))"

text \<open>The image of one side, read from the processed assets and checked again.\<close>

definition side_image :: "golib \<Rightarrow> 'im imaging \<Rightarrow> cap_record \<Rightarrow> string \<Rightarrow>
    (cap_err + string \<times> string \<Rightarrow> 'a cap_prog) \<Rightarrow> 'a cap_prog" where
  "side_image L J r side k =
    (case find (\<lambda>a. aSlot a = side) (cProcessed r) of
       None \<Rightarrow> k (Inl CapImage)
     | Some a \<Rightarrow> o_read a (\<lambda>x. case x of
           Inl e \<Rightarrow> k (Inl e)
         | Inr b \<Rightarrow> (case validate_jpeg L J b a of
             Some e \<Rightarrow> k (Inl e)
           | None \<Rightarrow> k (Inr (side, b)))))"

definition run_extractor :: "cap_service \<Rightarrow> (string \<times> string) list \<Rightarrow>
    (cap_err + card_data \<Rightarrow> 'a cap_prog) \<Rightarrow> 'a cap_prog" where
  "run_extractor s images k =
    (if \<not> csExtractor s then k (Inl CapDisabled) else
     x_extract images (\<lambda>x. case x of
       Inl e \<Rightarrow> k (Inl e)
     | Inr d \<Rightarrow> if \<not> card_valid d then k (Inl CapInvalid) else k (Inr d)))"

definition extraction_end :: "cap_record \<Rightarrow> cap_err + card_data \<Rightarrow> cap_err option cap_prog" where
  "extraction_end r outcome =
    cap_now (\<lambda>n. if n \<ge> cDeleteAfter r then expire_extraction r else finish_extraction r outcome)"

definition work_extract :: "golib \<Rightarrow> 'im imaging \<Rightarrow> cap_service \<Rightarrow> cap_record \<Rightarrow>
    cap_err option cap_prog" where
  "work_extract L J s r =
    (if cState r \<noteq> ''ready'' \<or> \<not> has_status r ''pending'' then Ret None else
     cap_now (\<lambda>n. if n \<ge> cDeleteAfter r then expire_extraction r else
     if cExtractionAttempts r \<ge> 3 then finish_extraction r (Inl CapInvalid) else
     cap_now (\<lambda>n2. let l = extraction_leased r n2 in
     s_swap r l False (\<lambda>x. case x of Some e \<Rightarrow> Ret (Some e) | None \<Rightarrow>
     side_image L J l ''front'' (\<lambda>x. case x of Inl e \<Rightarrow> extraction_end l (Inl e) | Inr f \<Rightarrow>
     side_image L J l ''back'' (\<lambda>x. case x of Inl e \<Rightarrow> extraction_end l (Inl e) | Inr b \<Rightarrow>
     run_extractor s [f, b] (extraction_end l)))))))"

section \<open>Work\<close>

definition cap_work :: "golib \<Rightarrow> 'im imaging \<Rightarrow> cap_service \<Rightarrow> job \<Rightarrow> cap_err option cap_prog" where
  "cap_work L J s j = s_get (jOwner j) (jID j) (\<lambda>x. case x of
       Inl e \<Rightarrow> if e = CapNotFound then Ret None else Ret (Some e)
     | Inr r \<Rightarrow>
         if cGeneration r \<noteq> jGeneration j \<or> cWork r \<noteq> jWork j then Ret None else
         cap_now (\<lambda>n. if cDue r > n \<or> cLeaseUntil r > n then Ret None else
         if cWork r = ''extract'' then work_extract L J s r else
         if cWork r = ''cleanup'' then work_cleanup L r n else
         work_validate L J s r n))"

end
