(* ===== verification/CaptureMachine.thy ===== *)
theory CaptureMachine
  imports CaptureWorker Versioned
begin

text \<open>
  The life of a capture record. \<open>cap_step\<close> has one rule per write of \<open>capture/*.go\<close>, with the
  guards under which the code makes it; \<open>cap_good\<close> is the invariant of stored records. The
  operations only make such steps of records they read (\<open>cap_disciplined\<close>), so the locale
  \<open>versioned\<close>, interpreted here as \<open>captures\<close>, covers every interleaving of requests, workers
  and reconciliations.
\<close>

section \<open>The state machine\<close>

definition upload_fields_ok :: "upload \<Rightarrow> bool" where
  "upload_fields_ok u \<longleftrightarrow> (uSlot u = ''front'' \<or> uSlot u = ''back'') \<and> 4 \<le> uSize u \<and>
     uSize u \<le> MaxBytes \<and> valid_operation (uOperationKey u)"

definition asset_of :: "upload list \<Rightarrow> asset \<Rightarrow> bool" where
  "asset_of us a \<longleftrightarrow> (\<exists>u\<in>set us. aUploadID a = uID u \<and> aKey a = uKey u \<and> aSize a = uSize u \<and>
     aSHA256 a = uSHA256 u)"

inductive cap_step :: "golib \<Rightarrow> cap_service \<Rightarrow> cap_record \<Rightarrow> cap_record \<Rightarrow> bool"
  for L :: golib and s :: cap_service where
  recover: "cState r = ''ready'' \<Longrightarrow> cExtraction r = None \<or> has_status r ''pending'' \<Longrightarrow>
    cap_step L s r (unavailable r)"
| upload: "cState r = ''uploading'' \<Longrightarrow> length (cUploads r) < 20 \<Longrightarrow> upload_fields_ok u \<Longrightarrow>
    uKey u = object_prefix L (cOwner r) (cID r) @ uID u @ ''.jpg'' \<Longrightarrow>
    cap_step L s r (add_upload r u)"
| finalize: "cState r = ''uploading'' \<Longrightarrow> asset_of (cUploads r) a1 \<Longrightarrow> asset_of (cUploads r) a2 \<Longrightarrow>
    aSlot a1 = ''front'' \<Longrightarrow> aSlot a2 = ''back'' \<Longrightarrow>
    cap_step L s r (finalized r [a1, a2] key n)"
| cancel: "cState r \<noteq> ''cancelled'' \<Longrightarrow> cState r \<noteq> ''expired'' \<Longrightarrow> cap_step L s r (cancelled r n)"
| extract_again: "cState r = ''ready'' \<Longrightarrow> has_status r ''failed'' \<Longrightarrow>
    cap_step L s r (retry_extraction r key n)"
| validate_again: "cState r = ''failed'' \<Longrightarrow> n0 < cExpiresAt r \<Longrightarrow>
    cap_step L s r (retry_validation r key n)"
| review: "cState r = ''ready'' \<Longrightarrow> has_status r ''complete'' \<or> has_status r ''failed'' \<Longrightarrow>
    card_valid (rrData v) \<Longrightarrow> cap_step L s r (reviewed r v n)"
| clean: "cWork r = ''cleanup'' \<Longrightarrow> cState r \<noteq> ''uploading'' \<or> cExpiresAt r \<le> n \<Longrightarrow>
    cap_step L s r (cleanup_begun r n)"
| cleaned: "cWork r = ''cleanup'' \<Longrightarrow> cState r = ''expired'' \<Longrightarrow> cap_step L s r (cleanup_done r)"
| too_late: "cState r = ''finalizing'' \<Longrightarrow> cap_step L s r (validation_expired r n)"
| gave_up: "cState r = ''finalizing'' \<Longrightarrow> 3 \<le> cAttempts r \<Longrightarrow> cap_step L s r (validation_gave_up r)"
| lease: "cState r = ''finalizing'' \<Longrightarrow> cAttempts r < 3 \<Longrightarrow> cap_step L s r (validation_leased r n)"
| ready: "cState r = ''finalizing'' \<Longrightarrow> n0 < cExpiresAt r \<Longrightarrow> length ps = 2 \<Longrightarrow>
    cap_step L s r (validation_ready s r ps n n')"
| recapture: "cState r = ''finalizing'' \<Longrightarrow> cap_step L s r (validation_recapture r n)"
| postpone: "cState r = ''finalizing'' \<Longrightarrow> cAttempts r < 3 \<Longrightarrow>
    cap_step L s r (validation_postponed r n)"
| extract_expired: "cState r = ''ready'' \<Longrightarrow> has_status r ''pending'' \<Longrightarrow> cDeleteAfter r \<le> n0 \<Longrightarrow>
    cap_step L s r (extraction_expired r n)"
| extract_lease: "cState r = ''ready'' \<Longrightarrow> has_status r ''pending'' \<Longrightarrow> cExtractionAttempts r < 3 \<Longrightarrow>
    cap_step L s r (extraction_leased r n)"
| extract_complete: "cState r = ''ready'' \<Longrightarrow> has_status r ''pending'' \<Longrightarrow> card_valid d \<Longrightarrow>
    cap_step L s r (extraction_complete r d)"
| extract_failed: "cState r = ''ready'' \<Longrightarrow> has_status r ''pending'' \<Longrightarrow> 3 \<le> cExtractionAttempts r \<Longrightarrow>
    cap_step L s r (extraction_failed r)"
| extract_postpone: "cState r = ''ready'' \<Longrightarrow> has_status r ''pending'' \<Longrightarrow>
    cExtractionAttempts r < 3 \<Longrightarrow> cap_step L s r (extraction_postponed r n)"

inductive_cases cap_step_cases: "cap_step L s b a"

text \<open>The fields of every successor, so that proofs do not unfold the writes one by one.\<close>

lemmas writes = unavailable_def add_upload_def finalized_def cancelled_def retry_extraction_def
  retry_validation_def reviewed_def cleanup_begun_def cleanup_done_def validation_expired_def
  validation_gave_up_def validation_leased_def validation_ready_def validation_recapture_def
  validation_postponed_def extraction_expired_def extraction_leased_def extraction_complete_def
  extraction_failed_def extraction_postponed_def

definition cap_init :: "string \<times> string \<Rightarrow> cap_record \<Rightarrow> bool" where
  "cap_init x r \<longleftrightarrow> (\<exists>language i owner version p expected kind key n expires.
     x = (owner, i) \<and> r = new_record language i owner version p expected kind key n expires)"

text \<open>The invariant, in three parts: counters, the shape of each state, and the private data.\<close>

definition cap_counts :: "cap_record \<Rightarrow> bool" where
  "cap_counts r \<longleftrightarrow> 1 \<le> cRevision r \<and> 0 \<le> cGeneration r \<and> 0 \<le> cAttempts r \<and> cAttempts r \<le> 3 \<and>
     0 \<le> cExtractionAttempts r \<and> cExtractionAttempts r \<le> 3 \<and> length (cUploads r) \<le> 20"

definition cap_shape :: "cap_record \<Rightarrow> bool" where
  "cap_shape r \<longleftrightarrow>
    (if cState r = ''finalizing'' then cWork r = ''validate'' \<and> length (cAssets r) = 2
     else if cState r = ''ready'' then length (cProcessed r) = 2 \<and>
       (if has_status r ''pending'' then cWork r = ''extract''
        else cWork r = ''cleanup'' \<and>
          (cExtraction r = None \<or> has_status r ''complete'' \<or> has_status r ''failed''))
     else if cState r = ''failed'' then cWork r = ''cleanup'' \<and> length (cAssets r) = 2
     else if cState r = ''expired'' \<and> cWork r = ''''
       then cUploads r = [] \<and> cAssets r = [] \<and> cProcessed r = [] \<and> cSlots r = Some Mapping.empty
     else cWork r = ''cleanup'' \<and>
       cState r \<in> {''uploading'', ''requires_recapture'', ''cancelled'', ''expired''})"

definition cap_private :: "golib \<Rightarrow> cap_record \<Rightarrow> bool" where
  "cap_private L r \<longleftrightarrow>
     (cState r \<noteq> ''ready'' \<longrightarrow> cExtraction r = None \<and> cReviewed r = None) \<and>
     (\<forall>x. cExtraction r = Some x \<longrightarrow> card_valid (xData x)) \<and>
     (\<forall>v. cReviewed r = Some v \<longrightarrow> card_valid (vData v)) \<and>
     (\<forall>u\<in>set (cUploads r). upload_fields_ok u \<and>
        uKey u = object_prefix L (cOwner r) (cID r) @ uID u @ ''.jpg'') \<and>
     (\<forall>a\<in>set (cAssets r). asset_of (cUploads r) a)"

definition cap_good :: "golib \<Rightarrow> string \<times> string \<Rightarrow> cap_record \<Rightarrow> bool" where
  "cap_good L x r \<longleftrightarrow> x = (cOwner r, cID r) \<and> cap_counts r \<and> cap_shape r \<and> cap_private L r"

lemma cap_step_key: "cap_step L s b a \<Longrightarrow> cOwner a = cOwner b \<and> cID a = cID b"
  by (erule cap_step_cases) (auto simp: writes Let_def)

lemma cap_step_revision: "cap_step L s b a \<Longrightarrow> cRevision a = cRevision b + 1"
  by (erule cap_step_cases) (auto simp: writes Let_def)

lemma cap_step_counts: "cap_step L s b a \<Longrightarrow> cap_counts b \<Longrightarrow> cap_counts a"
  by (erule cap_step_cases) (auto simp: writes Let_def cap_counts_def)

lemma cap_step_shape:
  assumes "cap_step L s b a" "cap_private L b" "cap_shape b"
  shows "cap_shape a"
proof -
  have x: "cState b = ''finalizing'' \<Longrightarrow> cExtraction b = None"
    using assms(2) by (simp add: cap_private_def)
  from assms(1) show ?thesis
  proof cases
    case (ready n0 ps n n')
    with assms(3) x show ?thesis
      by (simp add: writes Let_def cap_shape_def has_status_def extraction_of_def)
  qed (use assms(3) in
    \<open>simp_all add: writes Let_def cap_shape_def has_status_def extraction_of_def split: if_splits\<close>)
qed

lemma no_card_valid: "card_valid no_card"
  by (simp add: card_valid_def card_fields_def no_card_def)

lemma cap_step_private: "cap_step L s b a \<Longrightarrow> cap_private L b \<Longrightarrow> cap_private L a"
  by (erule cap_step_cases)
    (auto simp: writes Let_def cap_private_def extraction_of_def no_card_valid asset_of_def)

lemma cap_step_good: "cap_good L x b \<Longrightarrow> cap_step L s b a \<Longrightarrow> cap_good L x a"
  using cap_step_key [of L s b a] cap_step_counts [of L s b a] cap_step_shape [of L s b a]
    cap_step_private [of L s b a]
  by (simp add: cap_good_def)

lemma cap_init_good: "cap_init x r \<Longrightarrow> cap_good L x r"
  by (auto simp: cap_init_def cap_good_def cap_counts_def cap_shape_def cap_private_def
      new_record_def)

section \<open>The calls as accesses to the record table\<close>

fun cap_access :: "cap_call \<Rightarrow> (string \<times> string, cap_record) access" where
  "cap_access (CGet owner i) = Read (owner, i)"
| "cap_access (CCreate b a r) = Insert (cOwner r, cID r) r"
| "cap_access (CSwap b a ready) = Cas (cOwner a, cID a) b a"
| "cap_access _ = Other"

definition cap_seen :: "cap_resp \<Rightarrow> cap_record option" where
  "cap_seen r = (case c_rec r of Inl _ \<Rightarrow> None | Inr t \<Rightarrow> Some t)"

definition cap_acked :: "cap_resp \<Rightarrow> bool" where
  "cap_acked r \<longleftrightarrow> c_err r = None"

definition same_revision :: "cap_record \<Rightarrow> cap_record \<Rightarrow> bool" where
  "same_revision stored before \<longleftrightarrow> cRevision stored = cRevision before"

type_synonym cap_known = "((string \<times> string) \<times> cap_record) set"

abbreviation cap_disc :: "golib \<Rightarrow> cap_service \<Rightarrow> 'a cap_prog \<Rightarrow> cap_known \<Rightarrow> bool" where
  "cap_disc L s \<equiv> disciplined (cap_good L) cap_init (cap_step L s) cap_access cap_seen cap_acked"

abbreviation cap_leaves :: "golib \<Rightarrow> ('a \<Rightarrow> cap_known \<Rightarrow> bool) \<Rightarrow> 'a cap_prog \<Rightarrow> cap_known \<Rightarrow> bool" where
  "cap_leaves L Q \<equiv> leaves (cap_good L) cap_access cap_seen cap_acked Q"

lemma cap_gains:
  "gains cap_access cap_seen cap_acked (CGet owner i) r =
     (case c_rec r of Inl _ \<Rightarrow> {} | Inr t \<Rightarrow> {((owner, i), t)})"
  "gains cap_access cap_seen cap_acked (CSwap b a ready) r =
     (if c_err r = None then {((cOwner a, cID a), a)} else {})"
  "gains cap_access cap_seen cap_acked (CCreate ab aa t) r =
     (if c_err r = None then {((cOwner t, cID t), t)} else {})"
  "cap_access q = Other \<Longrightarrow> gains cap_access cap_seen cap_acked q r = {}"
  by (simp_all add: gains_def cap_seen_def cap_acked_def split: sum.split)

lemma cap_allowed:
  "allowed init step cap_access K (CGet owner i)"
  "allowed init step cap_access K (CSwap b a ready) \<longleftrightarrow> ((cOwner a, cID a), b) \<in> K \<and> step b a"
  "allowed init step cap_access K (CCreate ab aa t) \<longleftrightarrow> init (cOwner t, cID t) t"
  "cap_access q = Other \<Longrightarrow> allowed init step cap_access K q"
  by (simp_all add: allowed_def)

lemma cap_plausible:
  "plausible good cap_access cap_seen (CGet owner i) r \<longleftrightarrow>
     (\<forall>t. c_rec r = Inr t \<longrightarrow> good (owner, i) t)"
  "plausible good cap_access cap_seen (CSwap b a ready) r"
  "plausible good cap_access cap_seen (CCreate ab aa t) r"
  "cap_access q = Other \<Longrightarrow> plausible good cap_access cap_seen q r"
  by (auto simp: plausible_def cap_seen_def split: sum.split)

lemmas cap_simps = cap_gains cap_allowed cap_plausible

section \<open>The operations keep the discipline\<close>

definition fresh :: "golib \<Rightarrow> string \<Rightarrow> string \<Rightarrow> cap_record \<Rightarrow> cap_known \<Rightarrow> bool" where
  "fresh L owner i r K \<longleftrightarrow> cState r = ''expired'' \<or> cState r = ''cancelled'' \<or>
     (((owner, i), r) \<in> K \<and> cap_good L (owner, i) r)"

lemma fresh_key: "fresh L owner i r K \<Longrightarrow> cState r \<noteq> ''expired'' \<Longrightarrow> cState r \<noteq> ''cancelled'' \<Longrightarrow>
    ((cOwner r, cID r), r) \<in> K \<and> cOwner r = owner \<and> cID r = i \<and> cap_good L (owner, i) r"
  by (auto simp: fresh_def cap_good_def)

lemma unavailable_fields: "cOwner (unavailable r) = cOwner r" "cID (unavailable r) = cID r"
    "cState (unavailable r) = cState r"
  by (simp_all add: unavailable_def)

lemma disc_overdue:
  assumes "cState r = ''ready'' \<Longrightarrow> cExtraction r = None \<or> has_status r ''pending'' \<Longrightarrow>
      cap_disc L s (k True) K" "cap_disc L s (k False) K"
  shows "cap_disc L s (overdue r k) K"
proof -
  have "cap_disc L s (k b) K"
    if "cState r = ''ready''" "cExtraction r = None \<or> has_status r ''pending''" for b
    using assms that by (cases b) auto
  with assms(2) show ?thesis
    by (auto simp: overdue_def call_simps cap_simps has_status_def split: option.split)
qed

lemma leaves_overdue:
  assumes "cState r = ''ready'' \<Longrightarrow> cExtraction r = None \<or> has_status r ''pending'' \<Longrightarrow>
      cap_leaves L Q (k True) K" "cap_leaves L Q (k False) K"
  shows "cap_leaves L Q (overdue r k) K"
proof -
  have "cap_leaves L Q (k b) K"
    if "cState r = ''ready''" "cExtraction r = None \<or> has_status r ''pending''" for b
    using assms that by (cases b) auto
  with assms(2) show ?thesis
    by (auto simp: overdue_def call_simps cap_simps has_status_def split: option.split)
qed

lemma get_recover_disc:
  assumes "((owner, i), r) \<in> K" "cap_good L (owner, i) r"
  shows "cap_disc L s (get_recover r) K"
    and "cap_leaves L (\<lambda>x K'. \<forall>r. x = Inr r \<longrightarrow> fresh L owner i r K') (get_recover r) K"
proof -
  have key: "cOwner r = owner" "cID r = i" using assms(2) by (simp_all add: cap_good_def)
  have st: "cap_step L s r (unavailable r)"
    if "cState r = ''ready''" "cExtraction r = None \<or> has_status r ''pending''" for s
    using that by (rule cap_step.recover)
  have g: "cap_good L (owner, i) (unavailable r)"
    if "cState r = ''ready''" "cExtraction r = None \<or> has_status r ''pending''"
    using cap_step_good [OF assms(2) st [OF that]] .
  show "cap_disc L s (get_recover r) K"
    unfolding get_recover_def
    by (rule disc_overdue)
      (use assms(1) st key in \<open>auto simp: call_simps cap_simps unavailable_fields split: option.split\<close>)
  show "cap_leaves L (\<lambda>x K'. \<forall>r. x = Inr r \<longrightarrow> fresh L owner i r K') (get_recover r) K"
    unfolding get_recover_def
    by (rule leaves_overdue)
      (use assms key g in \<open>auto simp: call_simps cap_simps unavailable_fields fresh_def hide_data_def
        split: option.split\<close>)
qed

lemma hide_expired: "cState r = ''expired'' \<Longrightarrow> overdue r k = k False"
  by (simp add: overdue_def)

lemma disc_cap_get: "cap_disc L s (cap_get owner i) K"
  and leaves_cap_get:
    "cap_leaves L (\<lambda>x K'. \<forall>r. x = Inr r \<longrightarrow> fresh L owner i r K') (cap_get owner i) K"
proof -
  have e: "cap_disc L s (get_recover (r\<lparr>cState := ''expired''\<rparr>)) K"
    "cap_leaves L (\<lambda>x K'. \<forall>r. x = Inr r \<longrightarrow> fresh L owner i r K')
       (get_recover (r\<lparr>cState := ''expired''\<rparr>)) K" for r and K :: cap_known
    by (simp_all add: get_recover_def hide_expired hide_data_def fresh_def)
  show "cap_disc L s (cap_get owner i) K"
    unfolding cap_get_def get_expire_def
    by (auto simp: call_simps cap_simps e intro: get_recover_disc(1) split: sum.split)
  show "cap_leaves L (\<lambda>x K'. \<forall>r. x = Inr r \<longrightarrow> fresh L owner i r K') (cap_get owner i) K"
    unfolding cap_get_def get_expire_def
    by (auto simp: call_simps cap_simps e intro: get_recover_disc(2) split: sum.split)
qed

lemma disc_with_get:
  assumes "\<And>r K'. fresh L owner i r K' \<Longrightarrow> cap_disc L s (k r) K'"
  shows "cap_disc L s (with_rec (cap_get owner i) k) K"
  unfolding with_rec_def
  by (rule disciplined_pbind [OF disc_cap_get], rule leaves_mono [OF leaves_cap_get])
    (auto intro: assms split: sum.split)

lemma disc_get_then:
  assumes "\<And>x K'. cap_disc L s (k x) K'"
  shows "cap_disc L s (pbind (cap_get owner i) k) K"
  by (rule disciplined_pbind [OF disc_cap_get], rule leaves_any) (rule assms)

lemma disc_new_id: "(\<And>x. cap_disc L s (k x) K) \<Longrightarrow> cap_disc L s (new_id k) K"
  by (simp add: new_id_def cap_simps split: sum.split)

lemma disc_current: "cap_disc L s (cap_current owner) K"
  unfolding cap_current_def
  by (auto simp: call_simps cap_simps intro!: disc_get_then split: sum.split)

lemma disc_none_open:
  assumes "\<And>x K'. cap_disc L s (k x) K'"
  shows "cap_disc L s (pbind (none_open owner a) k) K"
  unfolding none_open_def
  by (auto simp: pbind_assoc assms intro!: disc_get_then split: sum.split)

lemma disc_open: "cap_disc L s (cap_open owner key kind version language p a) K"
proof -
  have i: "cap_init (cOwner (new_record l i o' v p x k key n e), cID (new_record l i o' v p x k key n e))
      (new_record l i o' v p x k key n e)" for l i o' v p x k key n e
    unfolding cap_init_def by (auto simp: new_record_def)
  show ?thesis
    unfolding cap_open_def
    by (auto simp: call_simps cap_simps Let_def i intro!: disc_new_id split: sum.split option.split)
qed

lemma disc_policy: "(\<And>x. cap_disc L s (k x) K) \<Longrightarrow> cap_disc L s (current_policy L' marshal s' k) K"
  by (simp add: current_policy_def call_simps cap_simps)

lemma disc_admit: "cap_disc L s (cap_admit L' marshal s' owner key kind version language) K"
proof -
  have "cap_disc L s (pbind (none_open owner a) (\<lambda>x. case x of Inl e \<Rightarrow> Ret (Inl e)
      | Inr _ \<Rightarrow> cap_open owner key kind version language p a)) K" for p a kind version
    by (rule disc_none_open) (simp add: disc_open split: sum.split)
  then show ?thesis
    unfolding cap_admit_def
    by (intro disc_policy) (simp add: call_simps cap_simps split: sum.split)
qed

lemma disc_create: "cap_disc L s (cap_create L' marshal s' owner key kind expected) K"
  unfolding cap_create_def Let_def
  by (simp add: call_simps cap_simps disc_cap_get disc_admit split: sum.split)

lemma std_decode_upload: "upload_request_ok u \<Longrightarrow> upload_fields_ok (new_upload L owner i j u)"
  by (auto simp: upload_request_ok_def upload_fields_ok_def new_upload_def split: option.splits)

lemma disc_upload_answer: "cap_disc L s (upload_answer r v) K"
  by (auto simp: upload_answer_def call_simps cap_simps split: sum.split)

lemma disc_upload: "cap_disc L s (cap_upload L owner i u) K"
  unfolding cap_upload_def
proof (rule disc_with_get)
  fix r K'
  assume f: "fresh L owner i r K'"
  have w: "cap_disc L s (s_swap r (add_upload r (new_upload L owner i j u)) False (\<lambda>x. case x of
      Some e \<Rightarrow> Ret (Inl e)
    | None \<Rightarrow> upload_answer (add_upload r (new_upload L owner i j u)) (new_upload L owner i j u))) K'"
    if "cState r = ''uploading''" "upload_request_ok u" "\<not> 20 \<le> length (cUploads r)" for j
  proof -
    have k: "((cOwner r, cID r), r) \<in> K'" "cOwner r = owner" "cID r = i"
      using fresh_key [OF f] that(1) by auto
    have "cap_step L s r (add_upload r (new_upload L owner i j u))"
      by (rule cap_step.upload) (use that k std_decode_upload in \<open>simp_all add: new_upload_def\<close>)
    with k show ?thesis
      by (simp add: call_simps cap_simps add_upload_def disc_upload_answer split: option.split)
  qed
  then show "cap_disc L s (if cState r = ''expired'' then Ret (Inl CapExpired) else
    if cState r \<noteq> ''uploading'' then Ret (Inl CapConflict) else
    if \<not> upload_request_ok u then Ret (Inl CapInvalid) else
    case replay_upload r u of
      Inl e \<Rightarrow> Ret (Inl e)
    | Inr (Some v) \<Rightarrow> upload_answer r v
    | Inr None \<Rightarrow>
        if urRevision u \<noteq> cRevision r then Ret (Inl CapConflict) else
        if length (cUploads r) \<ge> 20 then Ret (Inl CapLimited) else
        new_id (\<lambda>x. case x of Inl e \<Rightarrow> Ret (Inl e) | Inr j \<Rightarrow>
          let v = new_upload L owner i j u; a = add_upload r v
          in s_swap r a False (\<lambda>x. case x of
               Some e \<Rightarrow> Ret (Inl e)
             | None \<Rightarrow> upload_answer a v))) K'"
    by (auto simp: Let_def disc_upload_answer intro!: disc_new_id split: sum.split option.split)
qed

text \<open>The asset of a side belongs to an upload of the record.\<close>

lemma disc_side_asset:
  assumes "\<And>e. cap_disc L s (k (Inl e)) K"
    and "\<And>a. asset_of (cUploads r) a \<Longrightarrow> aSlot a = side \<Longrightarrow> cap_disc L s (k (Inr a)) K"
  shows "cap_disc L s (side_asset r side k) K"
proof -
  have "asset_of (cUploads r) (a\<lparr>aUploadID := uID u, aSlot := side, aKey := uKey u\<rparr>)"
    if "find (\<lambda>u. uID u = slot_get (cSlots r) side) (cUploads r) = Some u"
      "aSize a = uSize u" "aSHA256 a = uSHA256 u" for u a
    using that unfolding asset_of_def find_Some_iff by (auto intro!: bexI [of _ u])
  with assms show ?thesis
    unfolding side_asset_def by (auto simp: call_simps cap_simps split: option.split sum.split)
qed

lemma disc_finalize: "cap_disc L s (cap_finalize owner i f) K"
proof -
  have w: "cap_disc L s (side_asset r ''front'' (\<lambda>x. case x of Inl e \<Rightarrow> Ret (Inl e) | Inr a1 \<Rightarrow>
     side_asset r ''back'' (\<lambda>x. case x of Inl e \<Rightarrow> Ret (Inl e) | Inr a2 \<Rightarrow>
     cap_now (\<lambda>n. let a = finalized r [a1, a2] (frOperationKey f) n in
     s_swap r a False (\<lambda>x. case x of Some e \<Rightarrow> Ret (Inl e) | None \<Rightarrow> Ret (Inr a)))))) K'"
    if f: "fresh L owner i r K'" and u: "cState r = ''uploading''" for r and K' :: cap_known
  proof -
    have k: "((cOwner r, cID r), r) \<in> K'" using fresh_key [OF f] u by auto
    have "cap_step L s r (finalized r [a1, a2] (frOperationKey f) n)"
      if "asset_of (cUploads r) a1" "asset_of (cUploads r) a2" "aSlot a1 = ''front''" "aSlot a2 = ''back''"
      for a1 a2 n by (rule cap_step.finalize) (use u that in simp_all)
    then show ?thesis
      using k by (auto simp: Let_def call_simps cap_simps finalized_def
          intro!: disc_side_asset split: option.split)
  qed
  show ?thesis
    unfolding cap_finalize_def by (auto intro!: disc_with_get w)
qed

lemma disc_cancel: "cap_disc L s (cap_cancel owner i) K"
proof -
  have "cap_step L s r (cancelled r n)" if "cState r \<noteq> ''cancelled''" "cState r \<noteq> ''expired''" for r n
    using that by (rule cap_step.cancel)
  then show ?thesis
    unfolding cap_cancel_def
    by (auto simp: call_simps cap_simps cancelled_def cap_good_def split: sum.split option.split)
qed

lemma disc_swap:
  assumes "fresh L owner i b K" "cState b \<noteq> ''expired''" "cState b \<noteq> ''cancelled''" "cap_step L s b a"
    and "\<And>x K'. cap_disc L s (k x) K'"
  shows "cap_disc L s (s_swap b a ready k) K"
  using fresh_key [OF assms(1-3)] assms(4,5) cap_step_key [OF assms(4)]
  by (auto simp: call_simps cap_simps)

lemma disc_retry: "cap_disc L s (cap_retry owner i key) K"
proof -
  have "cap_disc L s (if cRetryKey r = key then Ret (Inr r) else
     if cState r = ''ready'' \<and> has_status r ''failed''
     then cap_now (\<lambda>n. s_swap r (retry_extraction r key n) False (\<lambda>x. case x of
            Some e \<Rightarrow> Ret (Inl e) | None \<Rightarrow> Ret (Inr (retry_extraction r key n))))
     else if cState r \<noteq> ''failed'' then Ret (Inl CapConflict) else
     cap_now (\<lambda>t. if t \<ge> cExpiresAt r then Ret (Inl CapConflict) else
     cap_now (\<lambda>n. s_swap r (retry_validation r key n) False (\<lambda>x. case x of
            Some e \<Rightarrow> Ret (Inl e) | None \<Rightarrow> Ret (Inr (retry_validation r key n)))))) K'"
    if f: "fresh L owner i r K'" for r and K' :: cap_known
  proof -
    have "cap_step L s r (retry_validation r key n)"
      if "cState r = ''failed''" "\<not> cExpiresAt r \<le> t" for t n
      using cap_step.validate_again [of r t L s key n] that by simp
    then show ?thesis
      using cap_step.extract_again [of r L s key]
      by (auto simp: cap_now_def cap_simps intro!: disc_swap [OF f] split: option.split)
  qed
  then show ?thesis
    unfolding cap_retry_def by (auto intro!: disc_with_get)
qed

lemma disc_review: "cap_disc L s (cap_review owner i v) K"
proof -
  have "cap_disc L s (if cState r = ''expired'' then Ret (Inl CapExpired) else
     if cState r \<noteq> ''ready'' \<or> \<not> (has_status r ''complete'' \<or> has_status r ''failed'')
     then Ret (Inl CapConflict) else
     if same_review r v then Ret (Inr r) else
     if cRevision r \<noteq> rrRevision v then Ret (Inl CapConflict) else
     cap_now (\<lambda>n. s_swap r (reviewed r v n) False (\<lambda>x. case x of
       Some e \<Rightarrow> Ret (Inl e) | None \<Rightarrow> Ret (Inr (reviewed r v n))))) K'"
    if f: "fresh L owner i r K'" and d: "card_valid (rrData v)" for r and K' :: cap_known
    using cap_step.review [of r v L s] d
    by (auto simp: cap_now_def cap_simps intro!: disc_swap [OF f] split: option.split)
  then show ?thesis
    unfolding cap_review_def by (auto intro!: disc_with_get)
qed

section \<open>The worker keeps the discipline\<close>

lemma disc_last:
  assumes "((cOwner b, cID b), b) \<in> K" "cap_step L s b a"
  shows "cap_disc L s (swap_last b a ready) K"
  using assms cap_step_key [OF assms(2)] by (simp add: swap_last_def call_simps cap_simps)

lemma disc_then_swap:
  assumes "((cOwner b, cID b), b) \<in> K" "cap_step L s b a"
    and "\<And>e. cap_disc L s (k (Some e)) K"
    and "cap_disc L s (k None) (insert ((cOwner a, cID a), a) K)"
  shows "cap_disc L s (s_swap b a ready k) K"
  using assms(1,2,4) assms(3) cap_step_key [OF assms(2)]
  by (auto simp: call_simps cap_simps split: option.split)

lemma disc_cleanup:
  assumes "((cOwner r, cID r), r) \<in> K" "cWork r = ''cleanup''"
  shows "cap_disc L s (work_cleanup L' r n) K"
proof -
  have 1: "cap_step L s r (cleanup_begun r n)" if "cState r \<noteq> ''uploading'' \<or> cExpiresAt r \<le> n"
    using assms(2) that by (rule cap_step.clean)
  have 2: "cap_step L s (cleanup_begun r n) (cleanup_done (cleanup_begun r n))"
    by (rule cap_step.cleaned) (simp_all add: cleanup_begun_def assms(2))
  show ?thesis
    unfolding work_cleanup_def Let_def
    by (auto intro!: disc_then_swap [OF assms(1) 1] disc_last [OF _ 2]
        simp: o_delete_def cap_simps split: option.split)
qed

lemma disc_normalize_all:
  assumes "\<And>e acc. cap_disc L s (k (Some e, acc)) K"
    and "\<And>ps. length ps = length acc + length as \<Longrightarrow> cap_disc L s (k (None, ps)) K"
  shows "cap_disc L s (normalize_all L' J r as acc k) K"
  using assms(2)
proof (induction as arbitrary: acc)
  case (Cons a as)
  have "cap_disc L s (normalize_all L' J r as (acc @ [n]) k) K" for n
    by (rule Cons.IH) (use Cons.prems in simp)
  with assms(1) show ?case
    by (auto simp: normalize_asset_def call_simps cap_simps split: sum.split option.split)
qed simp

lemma disc_outcome:
  assumes k: "((cOwner r, cID r), r) \<in> K" and f: "cState r = ''finalizing''"
    and p: "err = None \<Longrightarrow> length ps = 2"
  shows "cap_disc L s (validation_outcome s r err ps) K"
proof (cases err)
  case None
  have "cap_step L s r (validation_ready s r ps n1 n2)" if "\<not> cExpiresAt r \<le> n" for n n1 n2
    using cap_step.ready [OF f, of n ps L s n1 n2] that p [OF None] by simp
  with cap_step.too_late [OF f, of L s] None show ?thesis
    by (auto simp: validation_outcome_def cap_now_def cap_simps intro!: disc_last [OF k])
next
  case (Some e)
  have "cap_step L s r (validation_postponed r n)" if "\<not> 3 \<le> cAttempts r" for n
    using cap_step.postpone [OF f, of L s n] that by simp
  with cap_step.recapture [OF f, of L s] cap_step.gave_up [OF f, of L s] Some show ?thesis
    by (auto simp: validation_outcome_def cap_now_def cap_simps intro!: disc_last [OF k])
qed

lemma disc_validate:
  assumes "((cOwner r, cID r), r) \<in> K"
  shows "cap_disc L s (work_validate L' J s r n) K"
proof -
  let ?l = "validation_leased r n"
  have l: "cOwner ?l = cOwner r" "cID ?l = cID r" "cState ?l = cState r"
    by (simp_all add: validation_leased_def)
  have "cap_disc L s (s_swap r ?l False (\<lambda>x. case x of Some e \<Rightarrow> Ret (Some e) | None \<Rightarrow>
     normalize_all L' J ?l (cAssets ?l) [] (\<lambda>(err, processed).
       validation_outcome s ?l
         (if err = None \<and> length (cAssets ?l) \<noteq> 2 then Some CapImage else err) processed))) K"
    if f: "cState r = ''finalizing''" and a: "\<not> 3 \<le> cAttempts r"
  proof (rule disc_then_swap [OF assms])
    show "cap_step L s r ?l" using cap_step.lease [OF f, of L s n] a by simp
  next
    show "cap_disc L s (case None of Some e \<Rightarrow> Ret (Some e) | None \<Rightarrow>
       normalize_all L' J ?l (cAssets ?l) [] (\<lambda>(err, processed).
         validation_outcome s ?l
           (if err = None \<and> length (cAssets ?l) \<noteq> 2 then Some CapImage else err) processed))
       (insert ((cOwner ?l, cID ?l), ?l) K)"
      by (auto intro!: disc_normalize_all disc_outcome simp: l f split: if_splits)
  qed simp
  then show ?thesis
    using cap_step.too_late [of r L s n] cap_step.gave_up [of r L s]
    unfolding work_validate_def Let_def by (auto intro!: disc_last [OF assms])
qed

lemma disc_finish:
  assumes "((cOwner r, cID r), r) \<in> K" "cState r = ''ready''" "has_status r ''pending''"
    and "\<forall>d. x = Inr d \<longrightarrow> card_valid d"
  shows "cap_disc L s (finish_extraction r x) K"
proof -
  have "cap_step L s r (extraction_postponed r n)" if "\<not> 3 \<le> cExtractionAttempts r" for n
    using cap_step.extract_postpone [OF assms(2,3), of L s n] that by simp
  then show ?thesis
    using cap_step.extract_complete [OF assms(2,3), of _ L s] assms(4)
      cap_step.extract_failed [OF assms(2,3), of L s]
    by (auto simp: finish_extraction_def cap_now_def cap_simps
        intro!: disc_last [OF assms(1)] split: sum.split)
qed

lemma disc_expire:
  assumes "((cOwner r, cID r), r) \<in> K" "cState r = ''ready''" "has_status r ''pending''"
    "cDeleteAfter r \<le> n"
  shows "cap_disc L s (expire_extraction r) K"
  using cap_step.extract_expired [OF assms(2-4), of L s]
  by (auto simp: expire_extraction_def cap_now_def cap_simps intro!: disc_last [OF assms(1)])

lemma disc_end:
  assumes "((cOwner r, cID r), r) \<in> K" "cState r = ''ready''" "has_status r ''pending''"
    "\<forall>d. x = Inr d \<longrightarrow> card_valid d"
  shows "cap_disc L s (extraction_end r x) K"
  unfolding extraction_end_def
  by (auto simp: cap_now_def cap_simps intro!: disc_expire [OF assms(1-3)] disc_finish [OF assms(1-3)]
      assms(4))

lemma disc_side_image:
  assumes "\<And>x. cap_disc L s (k x) K"
  shows "cap_disc L s (side_image L' J r side k) K"
  using assms by (simp add: side_image_def call_simps cap_simps split: option.split sum.split)

lemma disc_extractor:
  assumes "\<And>x. \<forall>d. x = Inr d \<longrightarrow> card_valid d \<Longrightarrow> cap_disc L s (k x) K"
  shows "cap_disc L s (run_extractor s images k) K"
  using assms by (simp add: run_extractor_def call_simps cap_simps split: sum.split)

lemma disc_extract:
  assumes k: "((cOwner r, cID r), r) \<in> K"
  shows "cap_disc L s (work_extract L' J s r) K"
proof -
  have leased: "cap_disc L s (s_swap r (extraction_leased r n) False (\<lambda>x. case x of
       Some e \<Rightarrow> Ret (Some e)
     | None \<Rightarrow>
     side_image L' J (extraction_leased r n) ''front'' (\<lambda>x. case x of
       Inl e \<Rightarrow> extraction_end (extraction_leased r n) (Inl e) | Inr f \<Rightarrow>
     side_image L' J (extraction_leased r n) ''back'' (\<lambda>x. case x of
       Inl e \<Rightarrow> extraction_end (extraction_leased r n) (Inl e) | Inr b \<Rightarrow>
     run_extractor s [f, b] (extraction_end (extraction_leased r n)))))) K"
    if p: "cState r = ''ready''" "has_status r ''pending''" "\<not> 3 \<le> cExtractionAttempts r" for n
  proof (rule disc_then_swap [OF k])
    show "cap_step L s r (extraction_leased r n)"
      using cap_step.extract_lease [OF p(1,2), of L s n] p(3) by simp
    have l: "cState (extraction_leased r n) = ''ready''" "has_status (extraction_leased r n) ''pending''"
      using p by (simp_all add: extraction_leased_def has_status_def)
    have "cap_disc L s (extraction_end (extraction_leased r n) x)
        (insert ((cOwner (extraction_leased r n), cID (extraction_leased r n)), extraction_leased r n) K)"
      if "\<forall>d. x = Inr d \<longrightarrow> card_valid d" for x
      by (rule disc_end [OF _ l]) (use that in auto)
    then show "cap_disc L s (case None of Some e \<Rightarrow> Ret (Some e) | None \<Rightarrow>
     side_image L' J (extraction_leased r n) ''front'' (\<lambda>x. case x of
       Inl e \<Rightarrow> extraction_end (extraction_leased r n) (Inl e) | Inr f \<Rightarrow>
     side_image L' J (extraction_leased r n) ''back'' (\<lambda>x. case x of
       Inl e \<Rightarrow> extraction_end (extraction_leased r n) (Inl e) | Inr b \<Rightarrow>
     run_extractor s [f, b] (extraction_end (extraction_leased r n)))))
     (insert ((cOwner (extraction_leased r n), cID (extraction_leased r n)), extraction_leased r n) K)"
      by (auto intro!: disc_side_image disc_extractor split: sum.split)
  qed simp
  show ?thesis
    using leased disc_finish [OF k, of "Inl CapInvalid" L s] disc_expire [OF k, of _ L s]
    unfolding work_extract_def Let_def by (auto simp: cap_now_def cap_simps)
qed

lemma disc_work: "cap_disc L s (cap_work L' J s j) K"
  unfolding cap_work_def
  by (auto simp: s_get_def cap_now_def cap_simps cap_good_def
      intro!: disc_extract disc_cleanup disc_validate split: sum.split)

section \<open>Any number of requests and jobs\<close>

inductive cap_ops :: "golib \<Rightarrow> cap_service \<Rightarrow> unit cap_prog \<Rightarrow> bool"
  for L :: golib and s :: cap_service where
  op_get: "cap_ops L s (pbind (cap_get owner i) (\<lambda>_. Ret ()))"
| op_current: "cap_ops L s (pbind (cap_current owner) (\<lambda>_. Ret ()))"
| op_create: "cap_ops L s (pbind (cap_create L marshal s owner key kind expected) (\<lambda>_. Ret ()))"
| op_upload: "cap_ops L s (pbind (cap_upload L owner i u) (\<lambda>_. Ret ()))"
| op_finalize: "cap_ops L s (pbind (cap_finalize owner i f) (\<lambda>_. Ret ()))"
| op_cancel: "cap_ops L s (pbind (cap_cancel owner i) (\<lambda>_. Ret ()))"
| op_retry: "cap_ops L s (pbind (cap_retry owner i key) (\<lambda>_. Ret ()))"
| op_review: "cap_ops L s (pbind (cap_review owner i v) (\<lambda>_. Ret ()))"
| op_work: "cap_ops L s (pbind (cap_work L (J :: string imaging) s j) (\<lambda>_. Ret ()))"

lemma cap_disciplined: "cap_ops L s p \<Longrightarrow> cap_disc L s p {}"
  by (induction rule: cap_ops.induct)
    (auto intro!: disciplined_pbind disc_cap_get disc_current disc_create disc_upload disc_finalize
        disc_cancel disc_retry disc_review disc_work leaves_any)

interpretation captures: versioned cRevision same_revision "cap_good L" cap_init "cap_step L s"
  cap_access cap_seen cap_acked "cap_ops L s" for L s
proof unfold_locales
  show "same_revision c b \<Longrightarrow> cRevision c = cRevision b" for c b
    by (simp add: same_revision_def)
  show "cap_step L s b a \<Longrightarrow> cRevision b < cRevision a" for b a
    using cap_step_revision [of L s b a] by simp
qed (fact cap_init_good cap_step_good cap_disciplined)+

abbreviation cap_reached :: "golib \<Rightarrow> cap_service \<Rightarrow> (string \<times> string, cap_record) shared \<Rightarrow>
    unit cap_prog list \<Rightarrow> bool" where
  "cap_reached L s \<equiv> reached same_revision cap_access cap_seen cap_acked (cap_ops L s)"

end
