(* ===== verification/CaptureConc.thy ===== *)
theory CaptureConc
  imports CaptureMachine
begin

text \<open>
  The capture service under any number of concurrent requests and worker jobs: facts of the
  interpretation \<open>captures\<close>. Stored records keep the invariant, a cancelled or expired capture
  stays a tombstone without card data, and the evidence is frozen once it is finalised. The
  witnesses run a creation, a cancellation and the cleanup jobs against a concrete store.
\<close>

section \<open>A concrete store\<close>

definition no_account :: cap_account where
  "no_account = \<lparr>acIDCaptured = False, acOwner = '''', acCurrentID = '''', acRevision = 0,
     acVersion = 0, acDay = '''', acCreatedToday = 0\<rparr>"

definition demo_policy :: policy where
  "demo_policy = \<lparr>pPurposes = \<lparr>EN = ''p'', ES = '''', FR = ''''\<rparr>, pEnabled = True, pVersion = ''v1'',
     pDocumentType = ''sample_card'', pSlots = [''front'', ''back''], pContentType = ''image/jpeg'',
     pMaxBytes = MaxBytes, pPurpose = ''p'', pJurisdiction = ''CA'', pRetentionDays = 7\<rparr>"

definition cap_blank :: cap_resp where
  "cap_blank = \<lparr>c_err = None, c_account = Inr no_account, c_rec = Inl CapNotFound,
     c_url = Inl CapNotFound, c_asset = Inl CapNotFound, c_bytes = Inr '''', c_policy = Inr demo_policy,
     c_card = Inl CapNotFound, c_unix = 0\<rparr>"

definition cap_found :: "cap_record option \<Rightarrow> cap_resp" where
  "cap_found x = cap_blank\<lparr>c_rec := (case x of None \<Rightarrow> Inl CapNotFound | Some r \<Rightarrow> Inr r)\<rparr>"

definition cap_wrote :: "bool \<Rightarrow> cap_resp" where
  "cap_wrote ok = cap_blank\<lparr>c_err := (if ok then None else Some CapConflict)\<rparr>"

definition cap_store :: "int \<Rightarrow> cap_call \<Rightarrow> (string \<times> string, cap_record) shared \<Rightarrow>
    cap_resp \<times> (string \<times> string, cap_record) shared" where
  "cap_store t = plain_store same_revision cap_access cap_found cap_wrote
     (\<lambda>q. cap_blank\<lparr>c_unix := t\<rparr>)"

lemma cap_store_serves:
  "serve same_revision cap_access cap_seen cap_acked q (fst (cap_store t q sh)) sh
     (snd (cap_store t q sh))"
  unfolding cap_store_def
  by (rule plain_store_serves)
    (auto simp: cap_seen_def cap_acked_def cap_found_def cap_wrote_def cap_blank_def split: option.split)

lemma cap_store_simps [simp]:
  "cap_store t (CGet owner i) sh = (cap_found (table sh (owner, i)), sh)"
  "cap_store t (CCreate ab aa r) sh = (if news (commits sh) (cOwner r, cID r) = []
     then (cap_wrote True, sh\<lparr>table := (table sh)((cOwner r, cID r) \<mapsto> r),
                            commits := commits sh @ [((cOwner r, cID r), None, r)]\<rparr>)
     else (cap_wrote False, sh))"
  "cap_store t (CSwap b a ready) sh = (case table sh (cOwner a, cID a) of
       Some c \<Rightarrow> if same_revision c b
         then (cap_wrote True, sh\<lparr>table := (table sh)((cOwner a, cID a) \<mapsto> a),
                                commits := commits sh @ [((cOwner a, cID a), Some c, a)]\<rparr>)
         else (cap_wrote False, sh)
     | None \<Rightarrow> (cap_wrote False, sh))"
  "cap_access q = Other \<Longrightarrow> cap_store t q sh = (cap_blank\<lparr>c_unix := t\<rparr>, sh)"
  by (simp_all add: cap_store_def plain_store_def)

lemma cap_blank_simps [simp]:
  "c_rec (cap_blank\<lparr>c_unix := t\<rparr>) = Inl CapNotFound"
  "c_policy (cap_blank\<lparr>c_unix := t\<rparr>) = Inr demo_policy"
  "c_account (cap_blank\<lparr>c_unix := t\<rparr>) = Inr no_account"
  "c_bytes (cap_blank\<lparr>c_unix := t\<rparr>) = Inr ''''"
  "c_err (cap_blank\<lparr>c_unix := t\<rparr>) = None"
  "c_rec (cap_found (Some r)) = Inr r" "c_err (cap_wrote True) = None"
  by (simp_all add: cap_blank_def cap_found_def cap_wrote_def)

lemma cap_reached_run:
  assumes "cap_reached L s sh ps" "cap_ops L s p"
  shows "\<exists>ps'. cap_reached L s (snd (run (cap_store t) p sh)) ps'"
  by (rule reached_run [OF cap_store_serves assms])

section \<open>The demonstration\<close>

definition demo_cap_service :: cap_service where
  "demo_cap_service = \<lparr>csExtractor = True, csPolicySource = True, csEnabled = True,
     csDocumentType = ''sample_card'', csPurpose = ''p'', csJurisdiction = ''CA'', csRetention = 0\<rparr>"

definition demo_imaging :: "string imaging" where
  "demo_imaging = \<lparr>jpeg_config = (\<lambda>b. Some (10, 10)), jpeg_decode = Some, jpeg_encode = Some\<rparr>"

definition zero_id :: string where "zero_id = replicate 32 (CHR ''0'')"

definition made :: cap_record where
  "made = new_record ''en'' zero_id ''o'' 1 demo_policy ''v1'' ''sample_card'' ''operation-key-01'' 1000
     (1000 + SessionLifetime)"

definition dropped :: cap_record where "dropped = cancelled made 2000"
definition swept :: cap_record where "swept = cleanup_begun dropped 9000"
definition gone :: cap_record where "gone = cleanup_done swept"

definition after_gone :: "(string \<times> string, cap_record) shared" where
  "after_gone = \<lparr>table = [(''o'', zero_id) \<mapsto> gone],
     commits = [((''o'', zero_id), None, made), ((''o'', zero_id), Some made, dropped),
                ((''o'', zero_id), Some dropped, swept), ((''o'', zero_id), Some swept, gone)]\<rparr>"

lemma zero_bytes: "hex_encode (replicate 16 (CHR 0x00)) = zero_id"
  by code_simp

lemma made_fields: "cOwner made = ''o''" "cID made = zero_id" "cState made = ''uploading''"
    "cRevision made = 1" "cGeneration made = 0"
  by (simp_all add: made_def new_record_def)

definition just_made :: "(string \<times> string, cap_record) shared" where
  "just_made = \<lparr>table = [(''o'', zero_id) \<mapsto> made], commits = [((''o'', zero_id), None, made)]\<rparr>"

lemma demo_create_run: "snd (run (cap_store 1000)
    (pbind (cap_create demo_lib marshal demo_cap_service ''o'' ''operation-key-01'' ''sample_card''
      [''v1'', ''en'']) (\<lambda>_. Ret ())) no_records) = just_made"
proof -
  have o: "valid_operation ''operation-key-01''" by code_simp
  have l: "Language (pPurposes demo_policy) ''en'' = ''en''" by (simp add: Language_def)
  have p: "pVersion demo_policy = ''v1''" "pEnabled demo_policy" "pDocumentType demo_policy = ''sample_card''"
    by (simp_all add: demo_policy_def)
  show ?thesis
    using o l p zero_bytes
    by (simp add: run_drop cap_create_def cap_admit_def current_policy_def demo_cap_service_def
        call_simps none_open_def no_account_def cap_open_def next_account_def Let_def new_id_def
        cap_blank_def made_def new_record_def no_records_def just_made_def)
qed

lemma demo_cancel_run: "snd (run (cap_store 2000) (pbind (cap_cancel ''o'' zero_id) (\<lambda>_. Ret ())) just_made) =
    just_made\<lparr>table := [(''o'', zero_id) \<mapsto> dropped],
      commits := commits just_made @ [((''o'', zero_id), Some made, dropped)]\<rparr>"
  by (simp add: run_drop cap_cancel_def call_simps just_made_def made_fields dropped_def cancelled_def
      same_revision_def cap_blank_def)

definition demo_job :: job where
  "demo_job = \<lparr>jOwner = ''o'', jID = zero_id, jGeneration = 1, jWork = ''cleanup''\<rparr>"

lemma demo_sweep_run: "snd (run (cap_store 9000)
     (pbind (cap_work demo_lib demo_imaging demo_cap_service demo_job) (\<lambda>_. Ret ()))
     (just_made\<lparr>table := [(''o'', zero_id) \<mapsto> dropped],
        commits := commits just_made @ [((''o'', zero_id), Some made, dropped)]\<rparr>)) = after_gone"
  by (simp add: run_drop cap_work_def demo_job_def call_simps dropped_def cancelled_def made_fields
      UploadLifetime_def work_cleanup_def swap_last_def Let_def cleanup_begun_def cleanup_done_def
      same_revision_def after_gone_def swept_def gone_def just_made_def)

lemma after_gone_reached: "\<exists>ps. cap_reached demo_lib demo_cap_service after_gone ps"
proof -
  obtain ps1 where "cap_reached demo_lib demo_cap_service just_made ps1"
    using cap_reached_run [OF reached_init op_create] demo_create_run by metis
  from cap_reached_run [OF this op_cancel] obtain ps2 where
    "cap_reached demo_lib demo_cap_service (just_made\<lparr>table := [(''o'', zero_id) \<mapsto> dropped],
      commits := commits just_made @ [((''o'', zero_id), Some made, dropped)]\<rparr>) ps2"
    using demo_cancel_run by metis
  from cap_reached_run [OF this op_work] show ?thesis
    using demo_sweep_run by metis
qed

lemma after_gone_news: "news (commits after_gone) (''o'', zero_id) = [made, dropped, swept, gone]"
  by (simp add: after_gone_def news_def)

section \<open>Guarantees\<close>

text \<open>under any interleaving of requests and worker jobs, with lost acknowledgements and
expiring items, the records written for a capture form a path of the state machine \<open>cap_step\<close>,
each revision written once.\<close>

theorem capture_history:
  assumes "cap_reached L s sh ps"
  shows "successively (cap_step L s) (news (commits sh) x) \<and>
    distinct (map cRevision (news (commits sh) x))"
  using captures.history_path [OF assms] captures.version_written_once [OF assms] by simp

theorem capture_history_witness:
  "successively (cap_step demo_lib demo_cap_service) [made, dropped, swept, gone]"
  using after_gone_reached capture_history after_gone_news by metis

text \<open>C9: a stored capture that is not ready holds no card data, extracted or reviewed; the data
it holds when ready is valid text; it has at most twenty uploads, each below its owner's own
prefix and within the size limit, and every pinned asset is one of them.\<close>

theorem capture_stored_private:
  assumes "cap_reached L s sh ps" "table sh (owner, i) = Some r"
  shows "cOwner r = owner \<and> cID r = i \<and> cap_private L r \<and> cap_shape r \<and> cap_counts r"
  using captures.stored_good [OF assms] by (simp add: cap_good_def)

theorem capture_stored_private_witness:
  "cap_private demo_lib gone \<and> cap_shape gone \<and> cap_counts gone"
proof -
  have t: "table after_gone (''o'', zero_id) = Some gone" by (simp add: after_gone_def)
  from after_gone_reached capture_stored_private [OF _ t] show ?thesis by blast
qed

definition tombstone :: "cap_record \<Rightarrow> bool" where
  "tombstone r \<longleftrightarrow> cState r \<in> {''cancelled'', ''expired''} \<and> cExtraction r = None \<and> cReviewed r = None \<and>
     cWork r \<in> {''cleanup'', ''''}"

lemma tombstone_step: "cap_step L s b a \<Longrightarrow> tombstone b \<Longrightarrow> tombstone a \<and> cState a = ''expired''"
  by (erule cap_step_cases) (auto simp: tombstone_def writes)

text \<open>C8: once a capture is cancelled or expired it is a tombstone: every later record of it is
expired and without card data, so no late worker can publish a result or bring it back.\<close>

theorem capture_tombstone:
  assumes "cap_reached L s sh ps" "news (commits sh) x = xs @ r # ys"
    and "cState r = ''cancelled'' \<or> cState r = ''expired''" "w \<in> set ys"
  shows "cState w = ''expired'' \<and> cExtraction w = None \<and> cReviewed w = None"
proof -
  have "r \<in> set (news (commits sh) x)" using assms(2) by simp
  from captures.written_good [OF assms(1) this] assms(3)
  have "tombstone r"
    by (auto simp: cap_good_def cap_private_def cap_shape_def tombstone_def split: if_splits)
  then have "tombstone w \<and> cState w = ''expired''"
    by (rule captures.closed_after [OF assms(1,2), where P = tombstone, OF _ _ assms(4)])
      (auto dest: tombstone_step)
  then show ?thesis by (auto simp: tombstone_def)
qed

theorem capture_tombstone_witness: "cState gone = ''expired'' \<and> cExtraction gone = None"
proof -
  have "cState dropped = ''cancelled''" by (simp add: dropped_def cancelled_def)
  with after_gone_reached show ?thesis
    using capture_tombstone [of _ _ after_gone _ "(''o'', zero_id)" "[made]" dropped "[swept, gone]" gone]
      after_gone_news by auto
qed

definition same_evidence :: "cap_record \<Rightarrow> cap_record \<Rightarrow> bool" where
  "same_evidence b a \<longleftrightarrow> cUploads a = cUploads b \<and> cSlots a = cSlots b \<and> cAssets a = cAssets b \<and>
     cPolicySnapshot a = cPolicySnapshot b \<and> cEvidenceVersion a = cEvidenceVersion b"

text \<open>The evidence of a capture is frozen once it leaves the uploading state: no write changes
its uploads, slots or pinned assets but the final cleanup, which empties them.\<close>

theorem capture_evidence_frozen:
  assumes "cap_reached L s sh ps" "(x, Some b, a) \<in> set (commits sh)" "cState b \<noteq> ''uploading''"
  shows "same_evidence b a \<or> a = cleanup_done b \<and> cState b = ''expired''"
proof -
  have "cap_step L s b a" using captures.committed_step [OF assms(1,2)] by simp
  then show ?thesis
  proof cases
    case cleaned
    then show ?thesis by simp
  qed (rule disjI1, use assms(3) in \<open>simp add: same_evidence_def writes Let_def\<close>)+
qed

theorem capture_evidence_frozen_witness: "same_evidence dropped swept"
proof -
  have "((''o'', zero_id), Some dropped, swept) \<in> set (commits after_gone)" by (simp add: after_gone_def)
  moreover have "cState dropped = ''cancelled''" by (simp add: dropped_def cancelled_def)
  ultimately show ?thesis
    using after_gone_reached capture_evidence_frozen [of demo_lib demo_cap_service after_gone _
        "(''o'', zero_id)" dropped swept] by fastforce
qed

end
