(* ===== verification/CaptureProps.thy ===== *)
theory CaptureProps
  imports CaptureConc
begin

text \<open>
  What single operations of the capture service do before they act, whatever the interfaces
  answer: a worker acts only on the generation and work it was sent for, objects are deleted
  only after the tombstone is stored, a capture becomes ready only with validated and
  normalised images, a capture is created only under the current policy and limits.
\<close>

section \<open>The worker's fence\<close>

definition fenced :: "job \<Rightarrow> (cap_call \<times> cap_resp) list \<Rightarrow> bool" where
  "fenced j h \<longleftrightarrow> (\<exists>r t rn rest. h = (CGet (jOwner j) (jID j), r) # (CNow, rn) # rest \<and>
     c_rec r = Inr t \<and> cGeneration t = jGeneration j \<and> cWork t = jWork j \<and>
     cDue t \<le> c_unix rn \<and> cLeaseUntil t \<le> c_unix rn)"

lemma fenced_more: "fenced j h \<Longrightarrow> fenced j (h @ l)"
  unfolding fenced_def by fastforce

definition fence :: "job \<Rightarrow> cap_call \<Rightarrow> (cap_call \<times> cap_resp) list \<Rightarrow> bool" where
  "fence j q h \<longleftrightarrow> q = CGet (jOwner j) (jID j) \<or> q = CNow \<or> fenced j h"

text \<open>beyond reading the record and the clock, a worker calls nothing unless the record still
has the job's generation and kind of work, is due and is not leased to another worker.\<close>

theorem worker_fenced: "safe (fence j) (\<lambda>_ _. True) (cap_work L J s j) []"
proof -
  have go: "safe (fence j) (\<lambda>_ _. True) p [(CGet (jOwner j) (jID j), r), (CNow, rn)]"
    if "c_rec r = Inr t" "cGeneration t = jGeneration j" "cWork t = jWork j"
      "\<not> (cDue t > c_unix rn \<or> cLeaseUntil t > c_unix rn)" for r rn t p
  proof -
    have "fenced j [(CGet (jOwner j) (jID j), r), (CNow, rn)]" using that by (simp add: fenced_def)
    then have "safe (fence j) (\<lambda>_ h. fenced j h) p [(CGet (jOwner j) (jID j), r), (CNow, rn)]"
      by (rule safe_stable) (simp_all add: fenced_more fence_def)
    then show ?thesis by (rule safe_mono) simp_all
  qed
  show ?thesis
    unfolding cap_work_def s_get_def cap_now_def
    using go by (auto simp: fence_def split: sum.split)
qed

section \<open>Deletion follows the tombstone\<close>

definition delete_ok :: "golib \<Rightarrow> cap_call \<Rightarrow> (cap_call \<times> cap_resp) list \<Rightarrow> bool" where
  "delete_ok L q h = (case q of
       CDeleteCapture p \<Rightarrow> (\<exists>h0 b a ready r. h = h0 @ [(CSwap b a ready, r)] \<and> c_err r = None \<and>
         cState a = ''expired'' \<and> cExtraction a = None \<and> cReviewed a = None \<and>
         p = object_prefix L (cOwner a) (cID a))
     | _ \<Rightarrow> True)"

text \<open>A program that makes no deletion.\<close>

lemma delete_ok_others [simp]:
  "delete_ok L (CGet o' i) h" "delete_ok L (CSwap b a ready) h" "delete_ok L CNow h"
  "delete_ok L (CRead x) h" "delete_ok L (CWrite b i p) h" "delete_ok L (CExtract l) h"
  by (simp_all add: delete_ok_def)

abbreviation deletes :: "golib \<Rightarrow> 'a cap_prog \<Rightarrow> (cap_call \<times> cap_resp) list \<Rightarrow> bool" where
  "deletes L p h \<equiv> safe (delete_ok L) (\<lambda>_ _. True) p h"

lemma deletes_normalize_all:
  "(\<And>x h. deletes L (k x) h) \<Longrightarrow> deletes L (normalize_all L' J r as acc k) h"
proof (induction as arbitrary: acc h)
  case (Cons a as)
  then show ?case
    by (auto simp: normalize_asset_def call_simps split: sum.split option.split)
qed simp

lemma deletes_validate: "deletes L (work_validate L' J s r n) h"
  unfolding work_validate_def Let_def
  by (auto simp: call_simps swap_last_def validation_outcome_def
      intro!: deletes_normalize_all split: option.split)

lemma deletes_end: "deletes L (extraction_end r x) h"
  unfolding extraction_end_def expire_extraction_def finish_extraction_def
  by (auto simp: call_simps swap_last_def split: sum.split)

lemma deletes_extract: "deletes L (work_extract L' J s r) h"
  unfolding work_extract_def Let_def
  by (auto simp: call_simps swap_last_def expire_extraction_def finish_extraction_def side_image_def
      run_extractor_def deletes_end split: sum.split option.split)

lemma deletes_cleanup: "deletes L (work_cleanup L r n) h"
  unfolding work_cleanup_def Let_def
  by (auto simp: call_simps swap_last_def delete_ok_def cleanup_begun_def split: option.split)

text \<open>C13: the objects of a capture are deleted only right after the store acknowledged the record
as expired and without card data, and only those below the capture's own prefix.\<close>

theorem delete_after_tombstone: "safe (delete_ok L) (\<lambda>_ _. True) (cap_work L J s j) []"
  unfolding cap_work_def
  by (auto simp: call_simps deletes_extract deletes_cleanup deletes_validate split: sum.split)

section \<open>Ready means validated\<close>

definition published :: "golib \<Rightarrow> 'im imaging \<Rightarrow> cap_record \<Rightarrow> (cap_call \<times> cap_resp) set \<Rightarrow>
    asset \<Rightarrow> asset \<Rightarrow> bool" where
  "published L J r H a n \<longleftrightarrow> (\<exists>r1 b img out r2.
     (CRead a, r1) \<in> H \<and> c_bytes r1 = Inr b \<and> validate_jpeg L J b a = None \<and>
     jpeg_decode J b = Some img \<and> jpeg_encode J img = Some out \<and> int (length out) \<le> MaxBytes \<and>
     (CWrite r (aSlot a) out, r2) \<in> H \<and> c_asset r2 = Inr n)"

definition ready_ok :: "golib \<Rightarrow> 'im imaging \<Rightarrow> cap_call \<Rightarrow> (cap_call \<times> cap_resp) list \<Rightarrow> bool" where
  "ready_ok L J q h = (case q of
       CSwap b a ready \<Rightarrow>
         (if ready then cState a = ''ready'' \<and> length (cAssets b) = 2 \<and>
            list_all2 (published L J b (set h)) (cAssets b) (cProcessed a)
          else cState a = ''ready'' \<longrightarrow> cState b = ''ready'' \<and> cProcessed a = cProcessed b)
     | _ \<Rightarrow> True)"

lemma ready_ok_others [simp]:
  "ready_ok L J (CGet o' i) h" "ready_ok L J CNow h" "ready_ok L J (CRead x) h"
  "ready_ok L J (CWrite b i p) h" "ready_ok L J (CExtract l) h" "ready_ok L J (CDeleteCapture i) h"
  by (simp_all add: ready_ok_def)

abbreviation publishes :: "golib \<Rightarrow> 'im imaging \<Rightarrow> 'a cap_prog \<Rightarrow> (cap_call \<times> cap_resp) list \<Rightarrow> bool" where
  "publishes L J p h \<equiv> safe (ready_ok L J) (\<lambda>_ _. True) p h"

lemma published_mono: "published L J r H a n \<Longrightarrow> H \<subseteq> H' \<Longrightarrow> published L J r H' a n"
  unfolding published_def by blast

lemma publishes_normalize_all:
  assumes "\<And>e acc h. publishes L J (k (Some e, acc)) h"
    and "\<And>ps h. list_all2 (published L J r (set h)) (bs @ as) ps \<Longrightarrow> publishes L J (k (None, ps)) h"
    and "list_all2 (published L J r (set h)) bs acc"
  shows "publishes L J (normalize_all L J r as acc k) h"
  using assms(2,3)
proof (induction as arbitrary: bs acc h)
  case Nil
  then show ?case by simp
next
  case (Cons a as)
  have step: "publishes L J (normalize_all L J r as (acc @ [n]) k)
      (h @ [(CRead a, r1), (CWrite r (aSlot a) out, r2)])"
    if "c_bytes r1 = Inr b" "validate_jpeg L J b a = None" "jpeg_decode J b = Some img"
      "jpeg_encode J img = Some out" "\<not> int (length out) > MaxBytes" "c_asset r2 = Inr n"
    for r1 b img out r2 n
  proof (rule Cons.IH [where bs = "bs @ [a]"])
    let ?h = "h @ [(CRead a, r1), (CWrite r (aSlot a) out, r2)]"
    have "list_all2 (published L J r (set ?h)) bs acc"
      by (rule list_all2_mono [OF Cons.prems(2)]) (auto intro: published_mono)
    moreover have "published L J r (set ?h) a n"
      unfolding published_def using that by (intro exI [of _ r1] exI [of _ b] exI [of _ img] exI [of _ out] exI [of _ r2]) auto
    ultimately show "list_all2 (published L J r (set ?h)) (bs @ [a]) (acc @ [n])"
      by (simp add: list_all2_appendI)
  qed (use Cons.prems(1) in simp)
  then show ?case
    using assms(1) by (auto simp: normalize_asset_def call_simps split: sum.split option.split)
qed

lemma publishes_validate: "publishes L J (work_validate L J s r n) h"
proof -
  let ?l = "validation_leased r n"
  have out: "publishes L J (validation_outcome s ?l
       (if length (cAssets ?l) \<noteq> 2 then Some CapImage else None) ps) h"
    if "list_all2 (published L J ?l (set h)) (cAssets ?l) ps" for ps h
  proof -
    have m: "list_all2 (published L J ?l (set (h @ hs))) (cAssets ?l) ps" for hs
      by (rule list_all2_mono [OF that]) (auto intro: published_mono)
    show ?thesis
      using m [of "[_, _]"] m [of "[_, _, _]"]
      by (simp add: validation_outcome_def call_simps swap_last_def ready_ok_def validation_ready_def
          Let_def validation_expired_def validation_recapture_def)
  qed
  have err: "publishes L J (validation_outcome s ?l (Some e) ps) h"
    if "cState r = ''finalizing''" for e ps h
    using that by (auto simp: validation_outcome_def call_simps swap_last_def ready_ok_def
        validation_recapture_def validation_gave_up_def validation_postponed_def validation_leased_def)
  have loop: "publishes L J (normalize_all L J ?l (cAssets ?l) [] (\<lambda>(err, processed).
       validation_outcome s ?l
         (if err = None \<and> length (cAssets ?l) \<noteq> 2 then Some CapImage else err) processed)) h"
    if "cState r = ''finalizing''" for h
    by (rule publishes_normalize_all [where bs = "[]"]) (use out err [OF that] in simp_all)
  have lease: "ready_ok L J (CSwap r ?l False) h" if "cState r = ''finalizing''"
    using that by (simp add: ready_ok_def validation_leased_def)
  show ?thesis
    unfolding work_validate_def Let_def
    using loop lease
    by (auto simp: s_swap_def swap_last_def ready_ok_def validation_expired_def
        validation_gave_up_def split: option.split)
qed

lemma publishes_end:
  "cState r = ''ready'' \<Longrightarrow> publishes L J (extraction_end r x) h"
  unfolding extraction_end_def expire_extraction_def finish_extraction_def
  by (auto simp: call_simps swap_last_def ready_ok_def extraction_expired_def extraction_complete_def
      extraction_failed_def extraction_postponed_def split: sum.split)

lemma publishes_extract: "publishes L J (work_extract L J s r) h"
proof -
  let ?l = "\<lambda>n. extraction_leased r n"
  have l: "cState (?l n) = cState r" for n by (simp add: extraction_leased_def)
  have side: "(\<And>x h. publishes L J (k x) h) \<Longrightarrow> publishes L J (side_image L J r side k) h"
    for k :: "cap_err + string \<times> string \<Rightarrow> cap_err option cap_prog" and side r h
    by (auto simp: side_image_def call_simps split: option.split sum.split)
  have run: "(\<And>x h. publishes L J (k x) h) \<Longrightarrow> publishes L J (run_extractor s images k) h"
    for k :: "cap_err + card_data \<Rightarrow> cap_err option cap_prog" and images h
    by (auto simp: run_extractor_def call_simps split: sum.split)
  have go: "publishes L J (side_image L J (?l n) ''front'' (\<lambda>x. case x of
       Inl e \<Rightarrow> extraction_end (?l n) (Inl e) | Inr f \<Rightarrow>
     side_image L J (?l n) ''back'' (\<lambda>x. case x of
       Inl e \<Rightarrow> extraction_end (?l n) (Inl e) | Inr b \<Rightarrow>
     run_extractor s [f, b] (extraction_end (?l n))))) h" if "cState r = ''ready''" for n h
    using publishes_end [of "?l n"] that by (auto simp: l intro!: side run split: sum.split)
  have lease: "ready_ok L J (CSwap r (?l n) False) h" if "cState r = ''ready''" for n h
    using that by (simp add: ready_ok_def extraction_leased_def)
  show ?thesis
    unfolding work_extract_def Let_def
    using go lease
    by (auto simp: s_swap_def cap_now_def swap_last_def expire_extraction_def finish_extraction_def
        ready_ok_def extraction_expired_def extraction_failed_def extraction_postponed_def
        split: option.split)
qed

lemma publishes_cleanup: "publishes L J (work_cleanup L' r n) h"
  unfolding work_cleanup_def Let_def
  by (auto simp: call_simps swap_last_def ready_ok_def cleanup_begun_def cleanup_done_def
      split: option.split)

text \<open>C12: a worker makes a capture ready, and emits the ready event with it, only when it has
exactly two pinned assets, and each was read, matched its pinned size and digest, decoded as a
JPEG within the pixel limit, and was stored again re-encoded; those copies are its processed
assets.\<close>

theorem ready_means_validated: "safe (ready_ok L J) (\<lambda>_ _. True) (cap_work L J s j) []"
  unfolding cap_work_def
  by (auto simp: call_simps publishes_extract publishes_cleanup publishes_validate split: sum.split)

text \<open>Interfaces that answer each call by a fixed function.\<close>

definition fixed :: "(cap_call \<Rightarrow> cap_resp) \<Rightarrow> cap_call \<Rightarrow> unit \<Rightarrow> cap_resp \<times> unit" where
  "fixed f q u = (f q, u)"

lemma fixed_simps [simp]: "fst (fixed f q u) = f q" "snd (fixed f q u) = u"
  by (simp_all add: fixed_def)

definition normalizes :: "golib \<Rightarrow> 'im imaging \<Rightarrow> (cap_call \<Rightarrow> cap_resp) \<Rightarrow> cap_record \<Rightarrow>
    asset \<Rightarrow> asset \<Rightarrow> bool" where
  "normalizes L J f r a n \<longleftrightarrow> (\<exists>b img out. c_bytes (f (CRead a)) = Inr b \<and>
     validate_jpeg L J b a = None \<and> jpeg_decode J b = Some img \<and> jpeg_encode J img = Some out \<and>
     int (length out) \<le> MaxBytes \<and> c_asset (f (CWrite r (aSlot a) out)) = Inr n)"

lemma normalize_asset_run:
  assumes "normalizes L J f r a n"
  shows "run (fixed f) (normalize_asset L J r a k) u = run (fixed f) (k (Inr n)) u"
  using assms by (auto simp: normalizes_def normalize_asset_def call_simps)

lemma normalize_all_run:
  "list_all2 (normalizes L J f r) as ns \<Longrightarrow>
   run (fixed f) (normalize_all L J r as acc k) u = run (fixed f) (k (None, acc @ ns)) u"
  by (induction as ns arbitrary: acc rule: list_all2_induct) (simp_all add: normalize_asset_run)

text \<open>a finalised capture whose two images are readable and valid becomes ready: the job
succeeds and its write is the ready record with the two normalised images.\<close>

theorem validation_completes:
  assumes "c_rec (f (CGet (jOwner j) (jID j))) = Inr r"
    and "cGeneration r = jGeneration j" "cWork r = jWork j" "cWork r = ''validate''"
    and "cState r = ''finalizing''" "cDue r \<le> n" "cLeaseUntil r \<le> n" "n < cExpiresAt r"
    and "cAttempts r < 3" "length (cAssets r) = 2"
    and "list_all2 (normalizes L J f (validation_leased r n)) (cAssets r) ns"
    and "c_unix (f CNow) = n" "\<And>b a ready. c_err (f (CSwap b a ready)) =
       (if a = validation_leased r n \<or>
           a = validation_ready s (validation_leased r n) ns n n then None else Some CapConflict)"
  shows "fst (run (fixed f) (cap_work L J s j) ()) = Some None"
proof -
  let ?l = "validation_leased r n"
  have l: "cAssets ?l = cAssets r" "cExpiresAt ?l = cExpiresAt r"
    by (simp_all add: validation_leased_def)
  have w: "jWork j = ''validate''" using assms(3,4) by simp
  show ?thesis
    using assms(1,2,5-13) w
    by (simp add: cap_work_def call_simps work_validate_def Let_def l normalize_all_run
        validation_outcome_def swap_last_def)
qed

definition demo_asset :: "string \<Rightarrow> asset" where
  "demo_asset side = \<lparr>aUploadID = side, aSlot = side, aKey = ''k'', aVersionID = ''v'',
     aSHA256 = std_encode (sha256 demo_lib ''jpeg''), aSize = 4\<rparr>"

definition demo_final :: cap_record where
  "demo_final = made\<lparr>cState := ''finalizing'', cWork := ''validate'', cDue := 1500, cGeneration := 1,
     cAssets := [demo_asset ''front'', demo_asset ''back'']\<rparr>"

definition demo_validate_job :: job where
  "demo_validate_job = \<lparr>jOwner = ''o'', jID = zero_id, jGeneration = 1, jWork = ''validate''\<rparr>"

definition demo_lease :: cap_record where "demo_lease = validation_leased demo_final 2000"

definition demo_ready :: cap_record where
  "demo_ready = validation_ready demo_cap_service demo_lease
     [demo_asset ''front'', demo_asset ''back''] 2000 2000"

definition demo_answers :: "cap_call \<Rightarrow> cap_resp" where
  "demo_answers q = (case q of
       CGet owner i \<Rightarrow> cap_found (Some demo_final)
     | CNow \<Rightarrow> cap_blank\<lparr>c_unix := 2000\<rparr>
     | CRead a \<Rightarrow> cap_blank\<lparr>c_bytes := Inr ''jpeg''\<rparr>
     | CWrite r slot b \<Rightarrow> cap_blank\<lparr>c_asset := Inr (demo_asset slot)\<rparr>
     | CSwap b a ready \<Rightarrow> cap_blank\<lparr>c_err :=
         (if a = demo_lease \<or> a = demo_ready then None else Some CapConflict)\<rparr>
     | _ \<Rightarrow> cap_blank)"

lemma demo_valid: "validate_jpeg demo_lib demo_imaging ''jpeg'' (demo_asset side) = None"
  by (subst validate_jpeg_def) (simp add: demo_asset_def demo_imaging_def MaxBytes_def MaxPixels_def)

lemma demo_imaging_simps: "jpeg_decode demo_imaging b = Some b" "jpeg_encode demo_imaging b = Some b"
    "aSlot (demo_asset side) = side"
  by (simp_all add: demo_imaging_def demo_asset_def)

lemma demo_normalizes: "normalizes demo_lib demo_imaging demo_answers r (demo_asset side) (demo_asset side)"
  unfolding normalizes_def
  by (intro exI [of _ "''jpeg''"])
    (simp add: demo_valid demo_answers_def demo_imaging_simps MaxBytes_def)

theorem validation_completes_witness:
  "fst (run (fixed demo_answers) (cap_work demo_lib demo_imaging demo_cap_service demo_validate_job) ()) =
    Some None"
proof -
  have r: "c_rec (demo_answers (CGet (jOwner demo_validate_job) (jID demo_validate_job))) =
      Inr demo_final"
    by (simp add: demo_answers_def)
  have t: "c_unix (demo_answers CNow) = 2000" by (simp add: demo_answers_def)
  have n: "list_all2 (normalizes demo_lib demo_imaging demo_answers (validation_leased demo_final 2000))
      (cAssets demo_final) [demo_asset ''front'', demo_asset ''back'']"
    by (simp add: demo_final_def demo_normalizes)
  have w: "c_err (demo_answers (CSwap b a ready)) =
      (if a = validation_leased demo_final 2000 \<or>
          a = validation_ready demo_cap_service (validation_leased demo_final 2000)
                [demo_asset ''front'', demo_asset ''back''] 2000 2000
       then None else Some CapConflict)" for b a ready
    by (simp add: demo_answers_def demo_ready_def demo_lease_def)
  show ?thesis
    by (rule validation_completes [OF r _ _ _ _ _ _ _ _ _ n t w])
      (simp_all add: demo_final_def demo_validate_job_def made_def new_record_def SessionLifetime_def)
qed

section \<open>Admission\<close>

text \<open>The account's current capture is closed, as far as the answers so far show.\<close>

definition none_open_seen :: "string \<Rightarrow> string \<Rightarrow> (cap_call \<times> cap_resp) list \<Rightarrow> bool" where
  "none_open_seen owner i h \<longleftrightarrow> i = '''' \<or> \<not> valid_id i \<or> owner = '''' \<or>
     (\<exists>r. (CGet owner i, r) \<in> set h \<and>
        (case c_rec r of
           Inl e \<Rightarrow> e = CapNotFound
         | Inr old \<Rightarrow> cState old \<noteq> ''finalizing'' \<and>
             (cState old = ''uploading'' \<longrightarrow>
                (\<exists>rn. (CNow, rn) \<in> set h \<and> cExpiresAt old \<le> c_unix rn))))"

definition create_ok :: "golib \<Rightarrow> (policy \<Rightarrow> string) \<Rightarrow> cap_service \<Rightarrow> string \<Rightarrow> string \<Rightarrow> string \<Rightarrow>
    cap_call \<Rightarrow> (cap_call \<times> cap_resp) list \<Rightarrow> bool" where
  "create_ok L marshal s owner key kind q h = (case q of
       CCreate b a r \<Rightarrow>
         (\<exists>p ra. (if csPolicySource s then \<exists>rp. (CPolicy, rp) \<in> set h \<and> c_policy rp = Inr p
                  else p = service_policy L marshal s) \<and>
            pEnabled p \<and> cPolicySnapshot r = Some p \<and> cPolicyVersion r = pVersion p \<and>
            cExpectedPolicyVersion r = pVersion p \<and> cDocumentType r = kind \<and> kind = pDocumentType p \<and>
            (CAccount owner, ra) \<in> set h \<and> c_account ra = Inr b \<and>
            none_open_seen owner (acCurrentID b) h) \<and>
         acRevision a = acRevision b + 1 \<and> acIDCaptured a = acIDCaptured b \<and> acCurrentID a = cID r \<and> acCreatedToday a \<le> 5 \<and>
         cEvidenceVersion r = acVersion b + 1 \<and> cOwner r = owner \<and> cCreateKey r = key \<and>
         cState r = ''uploading'' \<and> cExpiresAt r - cDue r = - 360
     | _ \<Rightarrow> True)"

lemma create_ok_others [simp]:
  "create_ok L m s o' k kd (CGet o2 i) h" "create_ok L m s o' k kd (CSwap b a ready) h"
  "create_ok L m s o' k kd CNow h" "create_ok L m s o' k kd (CAccount i) h"
  "create_ok L m s o' k kd (CFindCreate o2 i) h" "create_ok L m s o' k kd CPolicy h"
  "create_ok L m s o' k kd (CRandom n) h"
  by (simp_all add: create_ok_def)

lemma none_open_more: "none_open_seen owner i h \<Longrightarrow> set h \<subseteq> set h' \<Longrightarrow> none_open_seen owner i h'"
  unfolding none_open_seen_def by (fastforce split: sum.splits)

definition seen_closed :: "string \<Rightarrow> string \<Rightarrow> (cap_call \<times> cap_resp) list \<Rightarrow> cap_err + cap_record \<Rightarrow>
    (cap_call \<times> cap_resp) list \<Rightarrow> bool" where
  "seen_closed owner i h x h' \<longleftrightarrow> set h \<subseteq> set h' \<and>
     ((case x of Inl e \<Rightarrow> e = CapNotFound
       | Inr old \<Rightarrow> cState old \<noteq> ''uploading'' \<and> cState old \<noteq> ''finalizing'') \<longrightarrow>
      none_open_seen owner i h')"

lemma safe_overdue:
  assumes "\<And>h'. cState r = ''ready'' \<Longrightarrow> set h \<subseteq> set h' \<Longrightarrow> safe (create_ok L m s o' key kind) Q (k True) h'"
    and "\<And>h'. set h \<subseteq> set h' \<Longrightarrow> safe (create_ok L m s o' key kind) Q (k False) h'"
  shows "safe (create_ok L m s o' key kind) Q (overdue r k) h"
proof -
  have "safe (create_ok L m s o' key kind) Q (k b) h'"
    if "cState r = ''ready''" "set h \<subseteq> set h'" for b h'
    using assms that by (cases b) auto
  with assms(2) show ?thesis
    by (simp add: overdue_def call_simps subset_insertI2 split: option.split)
qed

lemma safe_recover:
  assumes "cState r \<noteq> ''uploading'' \<Longrightarrow> cState r \<noteq> ''finalizing'' \<Longrightarrow> none_open_seen owner i h"
    and "set h0 \<subseteq> set h"
  shows "safe (create_ok L m s o' key kind) (seen_closed owner i h0) (get_recover r) h"
proof -
  have n: "none_open_seen owner i h'" if "cState r \<noteq> ''uploading''" "cState r \<noteq> ''finalizing''"
    "set h \<subseteq> set h'" for h'
    using none_open_more [OF assms(1) [OF that(1,2)] that(3)] .
  have u: "cState (unavailable r) = cState r" "cState (hide_data x) = cState x" for x
    by (simp_all add: unavailable_def hide_data_def)
  have s: "set h \<subseteq> set h' \<Longrightarrow> set h0 \<subseteq> set h'" for h' using assms(2) by blast
  show ?thesis
    unfolding get_recover_def
  proof (rule safe_overdue)
    fix h' assume r: "cState r = ''ready''" and h': "set h \<subseteq> set h'"
    then have "set h \<subseteq> set (h' @ [x])" for x by auto
    from n [OF _ _ this] s [OF this] r
    show "safe (create_ok L m s o' key kind) (seen_closed owner i h0)
        (if True then s_swap r (unavailable r) False (\<lambda>x. case x of Some e \<Rightarrow> Ret (Inl e)
           | None \<Rightarrow> Ret (Inr (hide_data (unavailable r))))
         else Ret (Inr (hide_data r))) h'"
      by (simp add: s_swap_def seen_closed_def u split: option.split)
  next
    fix h' assume "set h \<subseteq> set h'"
    from n [OF _ _ this] s [OF this]
    show "safe (create_ok L m s o' key kind) (seen_closed owner i h0)
        (if False then s_swap r (unavailable r) False (\<lambda>x. case x of Some e \<Rightarrow> Ret (Inl e)
           | None \<Rightarrow> Ret (Inr (hide_data (unavailable r))))
         else Ret (Inr (hide_data r))) h'"
      by (simp add: seen_closed_def u)
  qed
qed

lemma safe_get: "safe (create_ok L m s o' key kind) (seen_closed owner i h) (cap_get owner i) h"
proof -
  have "safe (create_ok L m s o' key kind) (seen_closed owner i h) (get_expire r get_recover)
      (h @ [(CGet owner i, x)])" if x: "c_rec x = Inr r" for x r
  proof -
    have o: "none_open_seen owner i (h @ (CGet owner i, x) # hs)"
      if "cState r \<noteq> ''finalizing''" "cState r \<noteq> ''uploading''" for hs
      unfolding none_open_seen_def using x that by (auto intro!: exI [of _ x])
    have e: "none_open_seen owner i (h @ [(CGet owner i, x), (CNow, rn)])"
      if "cState r = ''uploading''" "cExpiresAt r \<le> c_unix rn" for rn
      unfolding none_open_seen_def using x that
      by (intro disjI2) (rule exI [of _ x], auto intro!: exI [of _ rn])
    show ?thesis
      unfolding get_expire_def cap_now_def
      using o [of "[]"] o [of "[_]"] e by (auto intro!: safe_recover)
  qed
  then show ?thesis
    unfolding cap_get_def
    by (auto simp: s_get_def seen_closed_def none_open_seen_def split: sum.split)
qed

lemma safe_none_open:
  assumes "(CAccount owner, ra) \<in> set h" "c_account ra = Inr a" "H \<subseteq> set h"
  shows "safe (create_ok L m s o' key kind) (\<lambda>x h'. H \<subseteq> set h' \<and>
     (x = Inr () \<longrightarrow> none_open_seen owner (acCurrentID a) h')) (none_open owner a) h"
proof (cases "acCurrentID a = ''''")
  case True
  with assms(3) show ?thesis by (simp add: none_open_def none_open_seen_def)
next
  case False
  then have d: "none_open owner a = pbind (cap_get owner (acCurrentID a)) (\<lambda>x. case x of
       Inl e \<Rightarrow> if e \<noteq> CapNotFound then Ret (Inl e) else Ret (Inr ())
     | Inr old \<Rightarrow> if cState old = ''uploading'' \<or> cState old = ''finalizing''
         then Ret (Inl CapConflict) else Ret (Inr ()))"
    by (simp add: none_open_def)
  show ?thesis
    unfolding d
    by (rule safe_bindI [OF safe_get]) (use assms(3) in \<open>auto simp: seen_closed_def split: sum.split if_splits\<close>)
qed

lemma safe_open:
  assumes "if csPolicySource s then \<exists>rp. (CPolicy, rp) \<in> set h \<and> c_policy rp = Inr p
           else p = service_policy L m s"
    and "(CAccount owner, ra) \<in> set h" "c_account ra = Inr a"
    and "none_open_seen owner (acCurrentID a) h" "pEnabled p" "kind = pDocumentType p"
  shows "safe (create_ok L m s owner key kind) (\<lambda>_ _. True)
     (cap_open owner key kind (pVersion p) language p a) h"
proof -
  have "create_ok L m s owner key kind (CCreate a
      ((next_account a owner d)\<lparr>acCreatedToday := acCreatedToday (next_account a owner d) + 1,
         acCurrentID := i\<rparr>)
      (new_record language i owner (acVersion ((next_account a owner d)\<lparr>acCreatedToday := k,
         acCurrentID := i\<rparr>)) p (pVersion p) kind key n (n2 + SessionLifetime))) (h @ hs)"
    if "\<not> acCreatedToday (next_account a owner d) \<ge> 5" for d i n n2 k hs
  proof -
    have "none_open_seen owner (acCurrentID a) (h @ hs)"
      by (rule none_open_more [OF assms(4)]) simp
    moreover have "if csPolicySource s then \<exists>rp. (CPolicy, rp) \<in> set (h @ hs) \<and> c_policy rp = Inr p
           else p = service_policy L m s"
      using assms(1) by (auto split: if_splits)
    moreover have "(CAccount owner, ra) \<in> set (h @ hs)" using assms(2) by simp
    ultimately show ?thesis
      using assms(3,5,6) that
      unfolding create_ok_def
      by (auto simp: new_record_def next_account_def Let_def UploadLifetime_def)
  qed
  then show ?thesis
    unfolding cap_open_def new_id_def
    by (auto simp: call_simps Let_def split: sum.split option.split)
qed

abbreviation policy_known :: "golib \<Rightarrow> (policy \<Rightarrow> string) \<Rightarrow> cap_service \<Rightarrow> policy \<Rightarrow>
    (cap_call \<times> cap_resp) list \<Rightarrow> bool" where
  "policy_known L marshal s p h \<equiv>
     (if csPolicySource s then \<exists>rp. (CPolicy, rp) \<in> set h \<and> c_policy rp = Inr p else p = service_policy L marshal s)"

lemma policy_known_more: "policy_known L m s p h \<Longrightarrow> set h \<subseteq> set h' \<Longrightarrow> policy_known L m s p h'"
  by (auto split: if_splits)

lemma safe_open_checked:
  assumes "policy_known L m s p h" "pEnabled p" "kind = pDocumentType p"
    and "(CAccount owner, ra) \<in> set h" "c_account ra = Inr a"
  shows "safe (create_ok L m s owner key kind) (\<lambda>_ _. True)
      (pbind (none_open owner a) (\<lambda>x. case x of
          Inl e \<Rightarrow> Ret (Inl e)
        | Inr _ \<Rightarrow> cap_open owner key kind (pVersion p) language p a)) h"
proof (rule safe_bindI [OF safe_none_open [OF assms(4,5) order_refl]])
  fix x :: "cap_err + unit" and h'
  assume h': "set h \<subseteq> set h' \<and> (x = Inr () \<longrightarrow> none_open_seen owner (acCurrentID a) h')"
  with assms(4) have a: "(CAccount owner, ra) \<in> set h'" by auto
  show "safe (create_ok L m s owner key kind) (\<lambda>_ _. True) (case x of
        Inl e \<Rightarrow> Ret (Inl e)
      | Inr _ \<Rightarrow> cap_open owner key kind (pVersion p) language p a) h'"
    using safe_open [OF policy_known_more [OF assms(1)] a assms(5) _ assms(2,3), of key language] h'
    by (cases x) simp_all
qed

lemma safe_account:
  assumes "policy_known L m s p h" "pEnabled p" "kind = pDocumentType p"
  shows "safe (create_ok L m s owner key kind) (\<lambda>_ _. True) (s_account owner (\<lambda>x. case x of
        Inl e \<Rightarrow> Ret (Inl e)
      | Inr a \<Rightarrow> pbind (none_open owner a) (\<lambda>x. case x of
          Inl e \<Rightarrow> Ret (Inl e)
        | Inr _ \<Rightarrow> cap_open owner key kind (pVersion p) language p a))) h"
proof -
  have "safe (create_ok L m s owner key kind) (\<lambda>_ _. True)
      (pbind (none_open owner a) (\<lambda>x. case x of
        Inl e \<Rightarrow> Ret (Inl e)
      | Inr _ \<Rightarrow> cap_open owner key kind (pVersion p) language p a)) (h @ [(CAccount owner, r)])"
    if "c_account r = Inr a" for a r
    by (rule safe_open_checked [OF policy_known_more [OF assms(1)] assms(2,3), where ra = r]) (use that in auto)
  then show ?thesis by (simp add: s_account_def split: sum.split)
qed

lemma safe_admit:
  "safe (create_ok L m s owner key kind) (\<lambda>_ _. True) (cap_admit L m s owner key kind version language) h"
proof -
  have "safe (create_ok L m s owner key kind) (\<lambda>_ _. True)
      (if version = '''' \<or> version \<noteq> pVersion p then Ret (Inl CapPolicyChanged)
      else if \<not> pEnabled p then Ret (Inl CapDisabled)
      else if language \<noteq> Language (pPurposes p) language then Ret (Inl CapInvalid)
      else if kind \<noteq> pDocumentType p then Ret (Inl CapInvalid)
      else s_account owner (\<lambda>x. case x of
        Inl e \<Rightarrow> Ret (Inl e)
      | Inr a \<Rightarrow> pbind (none_open owner a) (\<lambda>x. case x of
          Inl e \<Rightarrow> Ret (Inl e)
        | Inr _ \<Rightarrow> cap_open owner key kind version language p a))) h"
    if "policy_known L m s p h" for p h
    by (cases "version = pVersion p \<and> pEnabled p \<and> kind = pDocumentType p")
      (use safe_account [OF that] in auto)
  from this [of h "service_policy L m s"] this [of "h @ [(CPolicy, _)]"] show ?thesis
    unfolding cap_admit_def current_policy_def policy_source_def
    by (cases "csPolicySource s") (auto split: sum.split simp del: not_None_eq split del: if_split)
qed

text \<open>whatever the store and the policy source answer, \<open>Create\<close> stores a capture only for the
policy that is current now, enabled and accepted by its exact version, with at most five captures
a day on the account, and only when the account's previous capture is seen not to be in progress;
account pointer and record are written in one call.\<close>

theorem create_admission:
  "safe (create_ok L marshal s owner key kind) (\<lambda>_ _. True)
     (cap_create L marshal s owner key kind expected) []"
proof -
  have "safe (create_ok L marshal s owner key kind) (\<lambda>_ _. True) (cap_get owner i) h" for i h
    by (rule safe_conseq [OF safe_get]) simp
  then show ?thesis
    unfolding cap_create_def Let_def
    using safe_admit by (simp add: s_find_create_def split: sum.split)
qed

end
