(* ===== verification/Api.thy ===== *)
theory Api
  imports Email Gateway
begin

text \<open>
  The HTTP handlers of the email service, \<open>api/handler.go\<close>: one route each for signup, resend
  and confirm. An answer carries the request id in a header, and in its body when it is an error
  (\<open>done\<close>).
\<close>

datatype api_body =
    ApiErr string
  | ApiDependency string string \<comment> \<open>stage and provider code\<close>
  | ApiIncorrect int
  | ApiSignup string
  | ApiResent
  | ApiSession session

record api_reply = "api_body response" +
  apRequestID :: string \<comment> \<open>header x-request-id, empty where absent\<close>
  apTraceID :: string \<comment> \<open>member trace_id of the body, empty where absent\<close>

definition api_response :: "nat \<Rightarrow> api_body \<Rightarrow> api_reply" where
  "api_response st b = \<lparr>rsStatus = st, rsBody = b, apRequestID = '''', apTraceID = ''''\<rparr>"

definition api_done :: "request \<Rightarrow> api_reply \<Rightarrow> api_reply" where
  "api_done rq x =
    (if rqRequestID rq \<noteq> ''''
     then x\<lparr>apRequestID := rqRequestID rq,
            apTraceID := (if rsStatus x \<ge> 400 then rqRequestID rq else apTraceID x)\<rparr>
     else x)"

fun as_operational :: "email_err \<Rightarrow> (string \<times> string) option" where
  "as_operational (OperationalError stage provider_code cause) = Some (stage, provider_code)"
| "as_operational _ = None"

definition api_failure :: "email_err \<Rightarrow> api_reply" where
  "api_failure err = (case as_operational err of
       Some (stage, provider_code) \<Rightarrow> api_response 503 (ApiDependency stage provider_code)
     | None \<Rightarrow>
         if errors_is err ErrInvalid then api_response 400 (ApiErr ''invalid_request'')
         else if errors_is err ErrIncorrect then
           (case err of IncorrectCode n \<Rightarrow> api_response 422 (ApiIncorrect n)
            | _ \<Rightarrow> api_response 422 (ApiErr ''incorrect_code''))
         else if errors_is err ErrLimited then api_response 429 (ApiErr ''attempt_limit'')
         else if errors_is err ErrUnusable then api_response 410 (ApiErr ''link_unusable'')
         else if errors_is err ErrUsed \<or> errors_is err ErrSignInRequired
         then api_response 409 (ApiErr ''confirmed_sign_in_required'')
         else if errors_is err ErrConflict then api_response 409 (ApiErr ''confirmation_in_progress'')
         else api_response 503 (ApiErr ''temporarily_unavailable''))"

definition api_decode :: "'a strict_decoder \<Rightarrow> request \<Rightarrow> 'a option" where
  "api_decode D rq = (case body_text rq of
       None \<Rightarrow> None
     | Some b \<Rightarrow> if length b > 4096 then None else strict_value D b)"

definition on_route :: "request \<Rightarrow> string \<Rightarrow> bool" where
  "on_route rq path \<longleftrightarrow> rqMethod rq = ''POST'' \<and> rqRawPath rq = path"

record signup_input =
  suEmail :: string
  suChallenge :: string
  suMethod :: string

definition api_signup :: "golib \<Rightarrow> service \<Rightarrow> nat \<Rightarrow> signup_input strict_decoder \<Rightarrow> request \<Rightarrow> api_reply email_prog" where
  "api_signup L s fuel D rq =
    (if \<not> on_route rq ''/signup'' then Ret (api_done rq (api_response 404 (ApiErr ''not_found''))) else
     case api_decode D rq of
       None \<Rightarrow> Ret (api_done rq (api_failure ErrInvalid))
     | Some v \<Rightarrow>
         pbind (signup L s fuel (suEmail v) (suChallenge v) (suMethod v) (rqSourceIP rq)) (\<lambda>(i, e).
           Ret (api_done rq (case e of
             Some err \<Rightarrow> api_failure err | None \<Rightarrow> api_response 202 (ApiSignup i)))))"

definition api_resend :: "golib \<Rightarrow> service \<Rightarrow> nat \<Rightarrow> string strict_decoder \<Rightarrow> request \<Rightarrow> api_reply email_prog" where
  "api_resend L s fuel D rq =
    (if \<not> on_route rq ''/resend'' then Ret (api_done rq (api_response 404 (ApiErr ''not_found''))) else
     case api_decode D rq of
       None \<Rightarrow> Ret (api_done rq (api_failure ErrInvalid))
     | Some i \<Rightarrow>
         pbind (resend L s fuel i (rqSourceIP rq)) (\<lambda>e.
           Ret (api_done rq (case e of
             Some err \<Rightarrow> api_failure err | None \<Rightarrow> api_response 202 ApiResent))))"

definition api_confirm :: "golib \<Rightarrow> service \<Rightarrow> confirm_input strict_decoder \<Rightarrow> request \<Rightarrow> api_reply email_prog" where
  "api_confirm L s D rq =
    (if \<not> on_route rq ''/confirm'' then Ret (api_done rq (api_response 404 (ApiErr ''not_found''))) else
     case api_decode D rq of
       None \<Rightarrow> Ret (api_done rq (api_failure ErrInvalid))
     | Some v \<Rightarrow>
         pbind (confirm L s v) (\<lambda>x.
           Ret (api_done rq (case x of
             Inl err \<Rightarrow> api_failure err | Inr session \<Rightarrow> api_response 200 (ApiSession session)))))"

end
