(* ===== verification/CaptureApi.thy ===== *)
theory CaptureApi
  imports CaptureService Gateway
begin

text \<open>
  The HTTP handler of the capture service, \<open>captureapi/handler.go\<close>. It trusts only the claims
  the gateway's authorizer verified; \<open>CheckToken\<close>, where configured, is the call \<open>KCheck\<close>, and
  the calls of the capture service go under \<open>KCap\<close>.
\<close>

datatype capi_call = KCap cap_call | KCheck int

record capi_resp =
  k_cap :: cap_resp
  k_allowed :: "bool option" \<comment> \<open>None on an error\<close>

type_synonym 'a capi_prog = "(capi_call, capi_resp, 'a) prog"

datatype capi_body =
    KError string
  | KPolicy policy
  | KCurrent "cap_record option"
  | KRecord cap_record
  | KUpload upload_reply
  | KCrash \<comment> \<open>a panic: the invocation fails and the gateway answers\<close>

definition capi_reply :: "nat \<Rightarrow> capi_body \<Rightarrow> capi_body response" where
  "capi_reply st b = \<lparr>rsStatus = st, rsBody = b\<rparr>"

definition capi_fail :: "cap_err \<Rightarrow> capi_body response" where
  "capi_fail e = (case e of
       CapPolicyChanged \<Rightarrow> capi_reply 409 (KError ''policy_changed'')
     | CapInvalid \<Rightarrow> capi_reply 400 (KError ''invalid_request'')
     | CapNotFound \<Rightarrow> capi_reply 404 (KError ''not_found'')
     | CapConflict \<Rightarrow> capi_reply 409 (KError ''revision_conflict'')
     | CapExpired \<Rightarrow> capi_reply 410 (KError ''capture_expired'')
     | CapLimited \<Rightarrow> capi_reply 429 (KError ''capture_limit'')
     | CapDisabled \<Rightarrow> capi_reply 503 (KError ''capture_disabled'')
     | CapIncomplete \<Rightarrow> capi_reply 409 (KError ''uploads_incomplete'')
     | CapImage \<Rightarrow> capi_reply 422 (KError ''invalid_image'')
     | CapPanic \<Rightarrow> capi_reply 500 KCrash
     | CapOther t \<Rightarrow> capi_reply 503 (KError ''service_unavailable''))"

definition capi_decode :: "'a strict_decoder \<Rightarrow> request \<Rightarrow> 'a option" where
  "capi_decode D rq =
    (if length (rqBody rq) > 12000 then None else
     case body_text rq of
       None \<Rightarrow> None
     | Some b \<Rightarrow> if length b > 8192 then None else strict_value D b)"

record create_input =
  ciPolicyVersion :: string
  ciLanguage :: string
  ciOperationKey :: string
  ciDocumentType :: string

text \<open>\<open>encoding/json\<close> on the bodies of the routes.\<close>

record capi_json =
  jsCreate :: "create_input strict_decoder"
  jsUpload :: "upload_request strict_decoder"
  jsReview :: "review_request strict_decoder"
  jsFinalize :: "finalize_request strict_decoder"
  jsCancel :: "unit strict_decoder"
  jsRetry :: "string strict_decoder"

definition in_cap :: "'a cap_prog \<Rightarrow> 'a capi_prog" where
  "in_cap p = lift_calls KCap k_cap p"

definition capi_run :: "(cap_err + 'a) cap_prog \<Rightarrow> nat \<Rightarrow> ('a \<Rightarrow> capi_body) \<Rightarrow> capi_body response capi_prog" where
  "capi_run p st f = pbind (in_cap p) (\<lambda>x. Ret (case x of
       Inl e \<Rightarrow> capi_fail e | Inr v \<Rightarrow> capi_reply st (f v)))"

definition with_input :: "'i option \<Rightarrow> ('i \<Rightarrow> capi_body response capi_prog) \<Rightarrow> capi_body response capi_prog" where
  "with_input x k = (case x of None \<Rightarrow> Ret (capi_fail CapInvalid) | Some v \<Rightarrow> k v)"

definition capi_create :: "golib \<Rightarrow> (policy \<Rightarrow> string) \<Rightarrow> capi_json \<Rightarrow> cap_service \<Rightarrow> string \<Rightarrow> request \<Rightarrow>
    capi_body response capi_prog" where
  "capi_create L marshal J s owner rq = with_input (capi_decode (jsCreate J) rq) (\<lambda>v.
     let language = (if ciLanguage v = '''' then ''en'' else ciLanguage v) in
     capi_run (cap_create L marshal s owner (ciOperationKey v) (ciDocumentType v)
       [ciPolicyVersion v, language]) 200 KRecord)"

definition capi_action :: "golib \<Rightarrow> capi_json \<Rightarrow> string \<Rightarrow> string \<Rightarrow> string \<Rightarrow> request \<Rightarrow>
    capi_body response capi_prog" where
  "capi_action L J owner i action rq =
    (if action = ''uploads'' then
       with_input (capi_decode (jsUpload J) rq) (\<lambda>v. capi_run (cap_upload L owner i v) 200 KUpload)
     else if action = ''review'' then
       with_input (capi_decode (jsReview J) rq) (\<lambda>v. capi_run (cap_review owner i v) 200 KRecord)
     else if action = ''finalize'' then
       with_input (capi_decode (jsFinalize J) rq) (\<lambda>v. capi_run (cap_finalize owner i v) 202 KRecord)
     else if action = ''cancel'' then
       with_input (capi_decode (jsCancel J) rq) (\<lambda>v. capi_run (cap_cancel owner i) 200 KRecord)
     else if action = ''retry-finalization'' then
       with_input (capi_decode (jsRetry J) rq) (\<lambda>v. capi_run (cap_retry owner i v) 202 KRecord)
     else Ret (capi_fail CapNotFound))"

definition capi_capture :: "golib \<Rightarrow> capi_json \<Rightarrow> string \<Rightarrow> request \<Rightarrow> capi_body response capi_prog" where
  "capi_capture L J owner rq =
    (let prefix = ''/onboarding/id/captures/'';
         parts = split_on (CHR ''/'') (trim_prefix (rqRawPath rq) prefix)
     in if \<not> has_prefix (rqRawPath rq) prefix \<or> length parts > 2 \<or> \<not> valid_id (parts ! 0)
     then Ret (capi_fail CapNotFound)
     else if rqMethod rq = ''GET'' \<and> length parts = 1
     then capi_run (cap_get owner (parts ! 0)) 200 KRecord
     else if rqMethod rq \<noteq> ''POST'' \<or> length parts \<noteq> 2 then Ret (capi_fail CapNotFound)
     else capi_action L J owner (parts ! 0) (parts ! 1) rq)"

definition capi_route :: "golib \<Rightarrow> (policy \<Rightarrow> string) \<Rightarrow> capi_json \<Rightarrow> cap_service \<Rightarrow> string \<Rightarrow> request \<Rightarrow>
    capi_body response capi_prog" where
  "capi_route L marshal J s owner rq =
    (if rqMethod rq = ''GET'' \<and> rqRawPath rq = ''/onboarding/id/document-policy''
     then capi_run (current_policy L marshal s Ret) 200 KPolicy
     else if rqMethod rq = ''GET'' \<and> rqRawPath rq = ''/onboarding/id/status''
     then capi_run (cap_current owner) 200 KCurrent
     else if rqMethod rq = ''POST'' \<and> rqRawPath rq = ''/onboarding/id/captures''
     then capi_create L marshal J s owner rq
     else capi_capture L J owner rq)"

definition capi_handle :: "golib \<Rightarrow> (policy \<Rightarrow> string) \<Rightarrow> capi_json \<Rightarrow> cap_service \<Rightarrow> bool \<Rightarrow> request \<Rightarrow>
    capi_body response capi_prog" where
  "capi_handle L marshal J s check rq = (case rqClaims rq of
       None \<Rightarrow> Ret (capi_reply 401 (KError ''sign_in_required''))
     | Some claims \<Rightarrow>
         let owner = claims ''sub'' in
         if owner = '''' \<or> claims ''token_use'' \<noteq> ''access''
         then Ret (capi_reply 401 (KError ''sign_in_required''))
         else if check then
           Call (KCheck (fst (parse_int64 (claims ''iat'')))) (\<lambda>r. case k_allowed r of
             None \<Rightarrow> Ret (capi_reply 503 (KError ''service_unavailable''))
           | Some allowed \<Rightarrow>
               if \<not> allowed then Ret (capi_reply 401 (KError ''sign_in_required''))
               else capi_route L marshal J s owner rq)
         else capi_route L marshal J s owner rq)"

end
