(* ===== verification/Signin.thy ===== *)
theory Signin
  imports RuntimeConfig
begin

text \<open>
  Sign-in and enrollment: \<open>signin/service.go\<close> (challenges, sessions), \<open>enrollment.go\<close>
  (password registration and account status), \<open>handler.go\<close> and \<open>enrollment_store.go\<close>. The
  identity provider, the configuration reader, the fact store and the captures are the calls
  \<open>si_call\<close>; the errors of the provider are its exception types. The fact store's DynamoDB item is at
  the end.
\<close>

section \<open>Data\<close>

datatype si_err = Unauthenticated | Rejected | Unavailable | PasswordPolicyErr | EnrollmentDisabled

datatype provider_err =
    NotAuthorizedException | CodeMismatchException | ExpiredCodeException | UserNotFoundException
  | ProviderOther string

record si_session =
  siAccessToken :: string
  siIDToken :: string
  siRefreshToken :: string
  siExpiresIn :: int
  siTokenType :: string

record si_challenge =
  chSession :: string
  chOptions :: string

text \<open>What the provider returns; absent strings are empty, as \<open>aws.ToString\<close> reads them.\<close>

record auth_output =
  aoChallengeName :: string
  aoSession :: string
  aoOptions :: string \<comment> \<open>ChallengeParameters["CREDENTIAL_REQUEST_OPTIONS"]\<close>
  aoResult :: "si_session option"

record user_output =
  uoUsername :: string
  uoAttributes :: "(string \<times> string) list"

record jwt_claims =
  jwIssuer :: string
  jwClient :: string
  jwUse :: string
  jwSubject :: string

record facts =
  fPasswordRegistered :: bool
  fIDCaptured :: bool

record account_status =
  asPasskeyRegistered :: bool
  asPasswordRegistered :: bool
  asIDCaptured :: bool
  asComplete :: bool

text \<open>\<open>Enrollment\<close>; the booleans are whether the interface fields are set.\<close>

record enrollment =
  enIdentity :: bool
  enConfig :: bool
  enFacts :: bool
  enCaptures :: bool
  enEnvironment :: string
  enPoolID :: string
  enClientID :: string
  enIssuer :: string

datatype si_call =
    SInitiate string string \<comment> \<open>email, preferred challenge\<close>
  | SRefresh string
  | SRespond string string string string string \<comment> \<open>method, session, email, field, answer\<close>
  | SCredentials string
  | SGetUser string
  | SSetPassword string string string \<comment> \<open>pool, user name, password; Permanent\<close>
  | SConfig string
  | SFactsGet string
  | SFactsMark string bool bool
  | SAccount string
  | SCapture string string

record si_resp =
  s_auth :: "provider_err + auth_output"
  s_credentials :: "provider_err + nat option" \<comment> \<open>how many; None for a nil output\<close>
  s_user :: "provider_err + user_output option"
  s_done :: bool
  s_config :: "cfg_err + config"
  s_facts :: "facts option"
  s_account :: "cap_err + cap_account"
  s_capture :: "cap_err + cap_record"

type_synonym 'a si_prog = "(si_call, si_resp, 'a) prog"

text \<open>\<open>json.Unmarshal\<close> and \<open>json.Valid\<close>, on the types of this package.\<close>

record si_input =
  inPassword :: string
  inEmail :: string
  inSession :: string
  inCode :: string
  inCredential :: string
  inRefreshToken :: string

record silib =
  claims_json :: "string \<Rightarrow> jwt_claims option"
  input_json :: "string \<Rightarrow> si_input option"
  valid_json :: "string \<Rightarrow> bool"

section \<open>Challenges and sessions\<close>

definition si_tokens :: "si_session option \<Rightarrow> si_err + si_session" where
  "si_tokens a = (case a of
       None \<Rightarrow> Inl Rejected
     | Some t \<Rightarrow> if siAccessToken t = '''' then Inl Rejected else Inr t)"

definition provider_error :: "provider_err \<Rightarrow> si_err" where
  "provider_error e =
    (if e \<in> {NotAuthorizedException, CodeMismatchException, ExpiredCodeException, UserNotFoundException}
     then Rejected else Unavailable)"

definition si_start :: "string \<Rightarrow> string \<Rightarrow> (si_err + si_challenge) si_prog" where
  "si_start email method =
    (if length email > 254 \<or> \<not> str_contains email ''@'' \<or>
        (method \<noteq> ''EMAIL_OTP'' \<and> method \<noteq> ''WEB_AUTHN'' \<and> method \<noteq> ''PASSWORD'')
     then Ret (Inl Rejected) else
     Call (SInitiate email method) (\<lambda>r. case s_auth r of
       Inl e \<Rightarrow> Ret (Inl (provider_error e))
     | Inr out \<Rightarrow>
         if aoChallengeName out \<noteq> method \<or> aoSession out = '''' then Ret (Inl Rejected)
         else if method = ''WEB_AUTHN'' then
           (if aoOptions out = '''' then Ret (Inl Unavailable)
            else Ret (Inr \<lparr>chSession = aoSession out, chOptions = aoOptions out\<rparr>))
         else Ret (Inr \<lparr>chSession = aoSession out, chOptions = ''''\<rparr>)))"

definition answer_field :: "string \<Rightarrow> string \<Rightarrow> string option" where
  "answer_field method answer =
    (if method = ''EMAIL_OTP'' then
       (if length answer \<noteq> 6 \<or> trim_set answer ''0123456789'' \<noteq> '''' then None
        else Some ''EMAIL_OTP_CODE'')
     else if method = ''WEB_AUTHN'' then Some ''CREDENTIAL''
     else if method = ''PASSWORD'' then (if length answer > 256 then None else Some ''PASSWORD'')
     else None)"

definition si_finish :: "string \<Rightarrow> string \<Rightarrow> string \<Rightarrow> string \<Rightarrow> (si_err + si_session) si_prog" where
  "si_finish email method challenge_session answer =
    (if email = '''' \<or> length email > 254 \<or> challenge_session = '''' \<or> length challenge_session > 8192 \<or>
        answer = '''' \<or> length answer > 32768
     then Ret (Inl Rejected) else
     case answer_field method answer of
       None \<Rightarrow> Ret (Inl Rejected)
     | Some field \<Rightarrow> Call (SRespond method challenge_session email field answer) (\<lambda>r. case s_auth r of
         Inl e \<Rightarrow> Ret (Inl (provider_error e))
       | Inr out \<Rightarrow> Ret (si_tokens (aoResult out))))"

definition si_refresh :: "string \<Rightarrow> (si_err + si_session) si_prog" where
  "si_refresh refresh =
    (if refresh = '''' \<or> length refresh > 8192 then Ret (Inl Unauthenticated) else
     Call (SRefresh refresh) (\<lambda>r. case s_auth r of
       Inl _ \<Rightarrow> Ret (Inl Unauthenticated)
     | Inr out \<Rightarrow> Ret (si_tokens (aoResult out))))"

text \<open>A nil output of \<open>ListWebAuthnCredentials\<close> without an error is not tested by this operation.\<close>

definition has_passkey :: "string \<Rightarrow> (si_err + bool) si_prog" where
  "has_passkey access =
    (if access = '''' \<or> length access > 8192 then Ret (Inl Unauthenticated) else
     Call (SCredentials access) (\<lambda>r. case s_credentials r of
       Inl e \<Rightarrow> Ret (Inl (if e = NotAuthorizedException then Unauthenticated else Unavailable))
     | Inr n \<Rightarrow> Ret (Inr (case n of None \<Rightarrow> False | Some k \<Rightarrow> k > 0))))"

section \<open>Enrollment\<close>

definition en_policy :: "'c cfglib \<Rightarrow> enrollment \<Rightarrow> (si_err + onboarding \<Rightarrow> 'a si_prog) \<Rightarrow> 'a si_prog" where
  "en_policy G s k =
    (if \<not> enConfig s then k (Inl Unavailable) else
     Call (SConfig (enEnvironment s)) (\<lambda>r. case s_config r of
       Inl _ \<Rightarrow> k (Inl Unavailable)
     | Inr c \<Rightarrow>
         if gEnvironment c \<noteq> enEnvironment s \<or> config_validate G c \<noteq> None then k (Inl Unavailable)
         else k (Inr (effective_onboarding c))))"

definition token_claims :: "silib \<Rightarrow> string \<Rightarrow> jwt_claims option" where
  "token_claims J token = (let parts = split_on (CHR ''.'') token in
     if length parts \<noteq> 3 then None
     else case raw_url_decode (parts ! 1) of None \<Rightarrow> None | Some data \<Rightarrow> claims_json J data)"

text \<open>The attribute loop: a later value replaces an earlier one.\<close>

definition attribute :: "string \<Rightarrow> (string \<times> string) list \<Rightarrow> string" where
  "attribute name as = (case map_of (rev as) name of None \<Rightarrow> '''' | Some v \<Rightarrow> v)"

definition account_of :: "silib \<Rightarrow> enrollment \<Rightarrow> string \<Rightarrow> user_output option \<Rightarrow> (string \<times> string) option" where
  "account_of J s token out = (case token_claims J token of
       None \<Rightarrow> None
     | Some cl \<Rightarrow>
         if jwIssuer cl \<noteq> enIssuer s \<or> jwClient cl \<noteq> enClientID s \<or> jwUse cl \<noteq> ''access'' then None
         else case out of
           None \<Rightarrow> None
         | Some u \<Rightarrow>
             let subject = attribute ''sub'' (uoAttributes u);
                 verified = (attribute ''email_verified'' (uoAttributes u) = ''true'')
             in if \<not> verified \<or> subject = '''' \<or> subject \<noteq> jwSubject cl \<or> uoUsername u = ''''
                then None else Some (uoUsername u, subject))"

definition en_user :: "silib \<Rightarrow> enrollment \<Rightarrow> string \<Rightarrow> (si_err + string \<times> string \<Rightarrow> 'a si_prog) \<Rightarrow> 'a si_prog" where
  "en_user J s token k =
    (if token = '''' \<or> length token > 8192 \<or> \<not> enIdentity s \<or> enPoolID s = '''' \<or> enClientID s = '''' \<or>
        enIssuer s = ''''
     then k (Inl Unauthenticated) else
     Call (SGetUser token) (\<lambda>r. case s_user r of
       Inl e \<Rightarrow> k (Inl (if provider_error e = Rejected then Unauthenticated else Unavailable))
     | Inr out \<Rightarrow> (case account_of J s token out of
         None \<Rightarrow> k (Inl Unauthenticated)
       | Some a \<Rightarrow> k (Inr a))))"

definition en_set_password :: "silib \<Rightarrow> 'c cfglib \<Rightarrow> enrollment \<Rightarrow> string \<Rightarrow> string \<Rightarrow> si_err option si_prog" where
  "en_set_password J G s token password = en_user J s token (\<lambda>x. case x of
       Inl e \<Rightarrow> Ret (Some e)
     | Inr (username, subject) \<Rightarrow> en_policy G s (\<lambda>y. case y of
         Inl e \<Rightarrow> Ret (Some e)
       | Inr p \<Rightarrow>
           if obPassword p = Disabled then Ret (Some EnrollmentDisabled)
           else if password_check (obPasswordPolicy p) password \<noteq> None then Ret (Some PasswordPolicyErr)
           else if \<not> enFacts s then Ret (Some Unavailable)
           else Call (SSetPassword (enPoolID s) username password) (\<lambda>r.
             if \<not> s_done r then Ret (Some Unavailable)
             else Call (SFactsMark subject True False) (\<lambda>r'.
               if \<not> s_done r' then Ret (Some Unavailable) else Ret None))))"

text \<open>The captured fact, looked up from the captures where it is not recorded yet.\<close>

definition mark_captured :: "string \<Rightarrow> (bool option \<Rightarrow> 'a si_prog) \<Rightarrow> 'a si_prog" where
  "mark_captured subject k = Call (SFactsMark subject False True) (\<lambda>r.
     if \<not> s_done r then k None else k (Some True))"

definition en_captured :: "enrollment \<Rightarrow> string \<Rightarrow> facts \<Rightarrow> (bool option \<Rightarrow> 'a si_prog) \<Rightarrow> 'a si_prog" where
  "en_captured s subject f k =
    (if \<not> (\<not> fIDCaptured f \<and> enCaptures s) then k (Some (fIDCaptured f)) else
     Call (SAccount subject) (\<lambda>r. case s_account r of
       Inl e \<Rightarrow> if e \<noteq> CapNotFound then k None else k (Some False)
     | Inr a \<Rightarrow>
         if acIDCaptured a then mark_captured subject k
         else if acCurrentID a = '''' then k (Some False)
         else Call (SCapture subject (acCurrentID a)) (\<lambda>r'. case s_capture r' of
           Inl e \<Rightarrow> if e \<noteq> CapNotFound then k None else k (Some False)
         | Inr c \<Rightarrow> if cState c = ''ready'' then mark_captured subject k else k (Some False))))"

definition en_status :: "silib \<Rightarrow> 'c cfglib \<Rightarrow> enrollment \<Rightarrow> string \<Rightarrow> (si_err + account_status) si_prog" where
  "en_status J G s token = en_user J s token (\<lambda>x. case x of
       Inl e \<Rightarrow> Ret (Inl e)
     | Inr (username, subject) \<Rightarrow> en_policy G s (\<lambda>y. case y of
         Inl e \<Rightarrow> Ret (Inl e)
       | Inr p \<Rightarrow>
           if \<not> enFacts s then Ret (Inl Unavailable) else
           Call (SFactsGet subject) (\<lambda>r. case s_facts r of
             None \<Rightarrow> Ret (Inl Unavailable)
           | Some f \<Rightarrow> Call (SCredentials token) (\<lambda>r'. case s_credentials r' of
               Inl _ \<Rightarrow> Ret (Inl Unavailable)
             | Inr None \<Rightarrow> Ret (Inl Unavailable)
             | Inr (Some n) \<Rightarrow> en_captured s subject f (\<lambda>z. case z of
                 None \<Rightarrow> Ret (Inl Unavailable)
               | Some captured \<Rightarrow> Ret (Inr
                   \<lparr>asPasskeyRegistered = (n > 0), asPasswordRegistered = fPasswordRegistered f,
                    asIDCaptured = captured,
                    asComplete = onboarding_complete p (n > 0) (fPasswordRegistered f) captured\<rparr>))))))"

section \<open>The handler\<close>

datatype si_body =
    SiError string
  | SiChallenge si_challenge
  | SiSession si_session
  | SiStatus account_status
  | SiPasswordRegistered

definition si_reply :: "nat \<Rightarrow> si_body \<Rightarrow> si_body response" where
  "si_reply st b = \<lparr>rsStatus = st, rsBody = b\<rparr>"

definition si_failure :: "si_err \<Rightarrow> si_body response" where
  "si_failure e = (case e of
       Unauthenticated \<Rightarrow> si_reply 401 (SiError ''sign_in_required'')
     | PasswordPolicyErr \<Rightarrow> si_reply 400 (SiError ''password_policy'')
     | EnrollmentDisabled \<Rightarrow> si_reply 409 (SiError ''password_disabled'')
     | Rejected \<Rightarrow> si_reply 400 (SiError ''authentication_failed'')
     | Unavailable \<Rightarrow> si_reply 503 (SiError ''temporarily_unavailable''))"

definition si_answer :: "('a \<Rightarrow> si_body) \<Rightarrow> si_err + 'a \<Rightarrow> si_body response si_prog" where
  "si_answer f x = Ret (case x of Inl e \<Rightarrow> si_failure e | Inr v \<Rightarrow> si_reply 200 (f v))"

definition si_input_of :: "silib \<Rightarrow> request \<Rightarrow> si_input option" where
  "si_input_of J rq =
    (if length (rqBody rq) > 48000 then None else
     let parse = (\<lambda>b. if b \<noteq> '''' then input_json J b else
           Some \<lparr>inPassword = '''', inEmail = '''', inSession = '''', inCode = '''', inCredential = '''',
             inRefreshToken = ''''\<rparr>)
     in if rqIsBase64 rq
        then (case std_decode (rqBody rq) of
                None \<Rightarrow> None | Some b \<Rightarrow> if length b > 36000 then None else parse b)
        else parse (rqBody rq))"

definition bearer_of :: "request \<Rightarrow> string option" where
  "bearer_of rq =
    (let header = (if rqHeaders rq ''authorization'' = '''' then rqHeaders rq ''Authorization''
                   else rqHeaders rq ''authorization'');
         parts = split_on (CHR '' '') header
     in if length parts \<noteq> 2 \<or> parts ! 0 \<noteq> ''Bearer'' then None else Some (parts ! 1))"

definition start_method :: "string \<Rightarrow> string" where
  "start_method route = (if route = ''passkey/start'' then ''WEB_AUTHN''
     else if route = ''password/start'' then ''PASSWORD'' else ''EMAIL_OTP'')"

definition si_complete :: "silib \<Rightarrow> string \<Rightarrow> si_input \<Rightarrow> si_body response si_prog" where
  "si_complete J route v =
    (if route = ''passkey/complete'' then
       (if inCredential v = '''' \<or> \<not> valid_json J (inCredential v) then Ret (si_failure Rejected)
        else pbind (si_finish (inEmail v) ''WEB_AUTHN'' (inSession v) (inCredential v)) (si_answer SiSession))
     else if route = ''password/complete'' then
       pbind (si_finish (inEmail v) ''PASSWORD'' (inSession v) (inPassword v)) (si_answer SiSession)
     else pbind (si_finish (inEmail v) ''EMAIL_OTP'' (inSession v) (inCode v)) (si_answer SiSession))"

definition si_enrolled :: "silib \<Rightarrow> 'c cfglib \<Rightarrow> enrollment option \<Rightarrow> string \<Rightarrow> request \<Rightarrow> si_input \<Rightarrow>
    si_body response si_prog" where
  "si_enrolled J G en route rq v = (case bearer_of rq of
       None \<Rightarrow> Ret (si_failure Unauthenticated)
     | Some token \<Rightarrow> (case en of
         None \<Rightarrow> Ret (si_failure Unavailable)
       | Some s \<Rightarrow>
           if route = ''password/set''
           then pbind (en_set_password J G s token (inPassword v)) (\<lambda>e. Ret (case e of
             Some e \<Rightarrow> si_failure e | None \<Rightarrow> si_reply 200 SiPasswordRegistered))
           else pbind (en_status J G s token) (si_answer SiStatus)))"

definition si_serve :: "silib \<Rightarrow> 'c cfglib \<Rightarrow> enrollment option \<Rightarrow> string \<Rightarrow> request \<Rightarrow> si_body response si_prog" where
  "si_serve J G en route rq =
    (if rqMethod rq \<noteq> ''POST'' \<or> rqRawPath rq \<noteq> ''/auth/'' @ route
     then Ret (si_reply 404 (SiError ''not_found'')) else
     case si_input_of J rq of
       None \<Rightarrow> Ret (si_failure Rejected)
     | Some v \<Rightarrow>
         if route \<in> {''email/start'', ''passkey/start'', ''password/start''}
         then pbind (si_start (inEmail v) (start_method route)) (si_answer SiChallenge)
         else if route \<in> {''email/complete'', ''passkey/complete'', ''password/complete''}
         then si_complete J route v
         else if route = ''refresh'' then pbind (si_refresh (inRefreshToken v)) (si_answer SiSession)
         else if route \<in> {''status'', ''password/set''} then si_enrolled J G en route rq v
         else Ret (si_reply 404 (SiError ''not_found'')))"

section \<open>The fact store\<close>

text \<open>The item under \<open>enrollment#subject\<close>; \<open>Mark\<close> sets the named attributes and no others.\<close>

datatype fact_call = FactGet string | FactSet string "string list"

record fact_resp =
  ft_item :: "(string \<times> bool) list option" \<comment> \<open>attributes, None on an error\<close>
  ft_done :: bool

definition fact_key :: "string \<Rightarrow> string" where
  "fact_key subject = ''enrollment#'' @ subject"

definition facts_get :: "string \<Rightarrow> (fact_call, fact_resp, facts option) prog" where
  "facts_get subject = Call (FactGet (fact_key subject)) (\<lambda>r. Ret (case ft_item r of
       None \<Rightarrow> None
     | Some m \<Rightarrow> Some \<lparr>fPasswordRegistered = (map_of m ''PasswordRegistered'' = Some True),
         fIDCaptured = (map_of m ''IDCaptured'' = Some True)\<rparr>))"

definition mark_names :: "bool \<Rightarrow> bool \<Rightarrow> string list" where
  "mark_names password captured =
     (if password then [''PasswordRegistered''] else []) @ (if captured then [''IDCaptured''] else [])"

definition facts_mark :: "string \<Rightarrow> bool \<Rightarrow> bool \<Rightarrow> (fact_call, fact_resp, bool) prog" where
  "facts_mark subject password captured =
    (if mark_names password captured = [] then Ret True else
     Call (FactSet (fact_key subject) (mark_names password captured)) (\<lambda>r. Ret (ft_done r)))"

end
