(* ===== verification/Passkey.thy ===== *)
theory Passkey
  imports Signin
begin

text \<open>
  Registration of a passkey, \<open>passkey/service.go\<close> and \<open>handler.go\<close>: the provider is asked for
  creation options with the caller's access token, and given the credential the device created.
  The second request is a plain HTTPS POST, the call \<open>PkComplete\<close>; not being able to make it is
  its failure.
\<close>

datatype pk_err = PkUnauthorized | PkInvalid | PkUnavailable

datatype pk_call =
    PkStart string \<comment> \<open>StartWebAuthnRegistration with the access token\<close>
  | PkComplete string string string \<comment> \<open>endpoint, access token, credential\<close>

record pk_resp =
  pk_options :: "provider_err + string option"
    \<comment> \<open>the creation options as JSON, None where absent or not convertible\<close>
  pk_http :: "(nat \<times> string) option" \<comment> \<open>status and body, None on an error\<close>

type_synonym 'a pk_prog = "(pk_call, pk_resp, 'a) prog"

record pk_fields =
  pkID :: string
  pkType :: string
  pkClientData :: string
  pkAttestation :: string

record pklib =
  pk_valid_json :: "string \<Rightarrow> bool" \<comment> \<open>json.Valid\<close>
  pk_fields_json :: "string \<Rightarrow> pk_fields option" \<comment> \<open>json.Unmarshal of the credential\<close>
  pk_type_json :: "string \<Rightarrow> string" \<comment> \<open>member __type of the provider's error, empty where absent\<close>
  pk_body_json :: "string \<Rightarrow> string option" \<comment> \<open>member credential of a request body\<close>

definition token_char :: "char \<Rightarrow> bool" where
  "token_char c \<longleftrightarrow> is_alnum c \<or> c \<in> {CHR ''_'', CHR ''='', CHR ''.'', CHR ''-''}"

definition bearer :: "string \<Rightarrow> string option" where
  "bearer header = (let parts = split_on (CHR '' '') header in
     if length parts \<noteq> 2 \<or> parts ! 0 \<noteq> ''Bearer'' \<or> length (parts ! 1) > 8192 \<or>
        \<not> (parts ! 1 \<noteq> '''' \<and> list_all token_char (parts ! 1))
     then None else Some (parts ! 1))"

definition classify :: "provider_err \<Rightarrow> pk_err" where
  "classify e = (if e = NotAuthorizedException then PkUnauthorized else PkUnavailable)"

definition pk_creation_options :: "string \<Rightarrow> (pk_err + string) pk_prog" where
  "pk_creation_options token = Call (PkStart token) (\<lambda>r. Ret (case pk_options r of
       Inl e \<Rightarrow> Inl (classify e)
     | Inr None \<Rightarrow> Inl PkUnavailable
     | Inr (Some v) \<Rightarrow> Inr v))"

definition credential_ok :: "pklib \<Rightarrow> string \<Rightarrow> bool" where
  "credential_ok K credential \<longleftrightarrow>
     \<not> (length credential = 0 \<or> length credential > 32768 \<or> \<not> pk_valid_json K credential \<or>
        hd credential \<noteq> CHR ''{'') \<and>
     (case pk_fields_json K credential of
        None \<Rightarrow> False
      | Some f \<Rightarrow> \<not> (pkID f = '''' \<or> pkType f \<noteq> ''public-key'' \<or> pkClientData f = '''' \<or> pkAttestation f = ''''))"

definition provider_failure :: "pklib \<Rightarrow> string \<Rightarrow> pk_err" where
  "provider_failure K body =
    (let t = pk_type_json K (take 4096 body) in
     if str_contains t ''NotAuthorized'' \<or> str_contains t ''Expired'' then PkUnauthorized
     else if str_contains t ''InvalidParameter'' \<or> str_contains t ''WebAuthn'' then PkInvalid
     else PkUnavailable)"

definition pk_complete :: "pklib \<Rightarrow> string \<Rightarrow> string \<Rightarrow> string \<Rightarrow> pk_err option pk_prog" where
  "pk_complete K endpoint token credential =
    (if \<not> credential_ok K credential then Ret (Some PkInvalid) else
     Call (PkComplete endpoint token credential) (\<lambda>r. case pk_http r of
       None \<Rightarrow> Ret (Some PkUnavailable)
     | Some (st, body) \<Rightarrow> if st = 200 then Ret None else Ret (Some (provider_failure K body))))"

section \<open>The handlers\<close>

datatype pk_body = PkError string | PkOptions string | PkRegistered

definition pk_reply :: "nat \<Rightarrow> pk_body \<Rightarrow> pk_body response" where
  "pk_reply st b = \<lparr>rsStatus = st, rsBody = b\<rparr>"

definition pk_fail :: "pk_err \<Rightarrow> pk_body response" where
  "pk_fail e = (case e of
       PkUnauthorized \<Rightarrow> pk_reply 401 (PkError ''sign_in_required'')
     | PkInvalid \<Rightarrow> pk_reply 400 (PkError ''invalid_credential'')
     | PkUnavailable \<Rightarrow> pk_reply 503 (PkError ''temporarily_unavailable''))"

definition authorization :: "request \<Rightarrow> string" where
  "authorization rq = (if rqHeaders rq ''authorization'' = '''' then rqHeaders rq ''Authorization''
     else rqHeaders rq ''authorization'')"

definition pk_handle_options :: "request \<Rightarrow> pk_body response pk_prog" where
  "pk_handle_options rq =
    (if rqRawPath rq \<noteq> ''/passkeys/options'' \<or> rqMethod rq \<noteq> ''POST''
     then Ret (pk_reply 404 (PkError ''not_found'')) else
     case bearer (authorization rq) of
       None \<Rightarrow> Ret (pk_fail PkUnauthorized)
     | Some token \<Rightarrow> pbind (pk_creation_options token) (\<lambda>x. Ret (case x of
         Inl e \<Rightarrow> pk_fail e | Inr v \<Rightarrow> pk_reply 200 (PkOptions v))))"

definition pk_handle_complete :: "pklib \<Rightarrow> string \<Rightarrow> request \<Rightarrow> pk_body response pk_prog" where
  "pk_handle_complete K endpoint rq =
    (if rqRawPath rq \<noteq> ''/passkeys/complete'' \<or> rqMethod rq \<noteq> ''POST''
     then Ret (pk_reply 404 (PkError ''not_found'')) else
     case bearer (authorization rq) of
       None \<Rightarrow> Ret (pk_fail PkUnauthorized)
     | Some token \<Rightarrow> (case body_text rq of
         None \<Rightarrow> Ret (pk_fail PkInvalid)
       | Some body \<Rightarrow>
           if length body > 40000 then Ret (pk_fail PkInvalid) else
           case pk_body_json K body of
             None \<Rightarrow> Ret (pk_fail PkInvalid)
           | Some credential \<Rightarrow> pbind (pk_complete K endpoint token credential) (\<lambda>x. Ret (case x of
               Some e \<Rightarrow> pk_fail e | None \<Rightarrow> pk_reply 200 PkRegistered))))"

end
