(* ===== verification/ConfigProps.thy ===== *)
theory ConfigProps
  imports ConfigStore
begin

text \<open>
  What the configuration promises: the password check against its reference, the order of
  revision keys, what is published and served, and, for every interleaving of administrators,
  deployments and bootstraps, a gapless immutable version history, permanent overrides and
  grants that only an authorised colleague can change. \<open>legal\<close> are the transactions the
  operations make (\<open>store_transactions\<close>), \<open>cfg_reached\<close> the tables they lead to.
\<close>

section \<open>Passwords\<close>

definition rule_of :: "password_policy \<Rightarrow> char \<Rightarrow> string" where
  "rule_of p c = (if is_lower c then Lowercase p else if is_upper c then Uppercase p
     else if is_digit c then Numbers p else Symbols p)"

definition password_ok :: "password_policy \<Rightarrow> string \<Rightarrow> bool" where
  "password_ok p w \<longleftrightarrow>
     MinLength p \<le> int (length w) \<and> int (length w) \<le> MaxLength p \<and>
     (\<forall>c\<in>set w. 33 \<le> byte c \<and> byte c \<le> 126 \<and> rule_of p c \<noteq> Disallowed) \<and>
     (Lowercase p = CharacterRequired \<longrightarrow> (\<exists>c\<in>set w. is_lower c)) \<and>
     (Uppercase p = CharacterRequired \<longrightarrow> (\<exists>c\<in>set w. is_upper c)) \<and>
     (Numbers p = CharacterRequired \<longrightarrow> (\<exists>c\<in>set w. is_digit c)) \<and>
     (Symbols p = CharacterRequired \<longrightarrow> (\<exists>c\<in>set w. \<not> is_alnum c))"

text \<open>The class of a character, and the flags the loop leaves.\<close>

definition class_no :: "char \<Rightarrow> nat" where
  "class_no c = (if is_lower c then 0 else if is_upper c then 1 else if is_digit c then 2 else 3)"

lemma char_class_eq: "char_class c = (if 33 \<le> byte c \<and> byte c \<le> 126 then Some (class_no c) else None)"
  by (auto simp: char_class_def class_no_def char_classes)

lemma class_no_lt: "class_no c < 4"
  by (simp add: class_no_def)

lemma rule_of_class: "rules p ! class_no c = rule_of p c"
  by (simp add: rules_def class_no_def rule_of_def)

lemma check_chars_result:
  assumes "length seen = 4"
  shows "check_chars (rules p) w seen =
    (if \<forall>c\<in>set w. 33 \<le> byte c \<and> byte c \<le> 126 \<and> rule_of p c \<noteq> Disallowed
     then Some (map (\<lambda>i. seen ! i \<or> (\<exists>c\<in>set w. class_no c = i)) [0..<4]) else None)"
  using assms
proof (induction w arbitrary: seen)
  case Nil
  then show ?case by (auto intro!: nth_equalityI)
next
  case (Cons c w)
  have "map (\<lambda>i. seen[class_no c := True] ! i \<or> (\<exists>d\<in>set w. class_no d = i)) [0..<4] =
      map (\<lambda>i. seen ! i \<or> (\<exists>d\<in>set (c # w). class_no d = i)) [0..<4]"
    using Cons.prems class_no_lt [of c] by (auto simp: nth_list_update)
  with Cons.IH [of "seen[class_no c := True]"] Cons.prems show ?case
    by (auto simp: char_class_eq rule_of_class)
qed

lemma class_no_cases:
  "class_no c = 0 \<longleftrightarrow> is_lower c" "class_no c = 1 \<longleftrightarrow> is_upper c"
  "class_no c = 2 \<longleftrightarrow> is_digit c" "class_no c = 3 \<longleftrightarrow> \<not> is_alnum c"
  by (auto simp: class_no_def char_classes)

lemma upt4: "[0..<4] = [0, 1, 2, 3 :: nat]"
  by (simp add: upt_rec)

lemma falses: "i < 4 \<Longrightarrow> [False, False, False, False] ! i = False"
  by (auto simp: less_Suc_eq numeral_eq_Suc)

text \<open>C32: the password check accepts exactly the passwords of the reference specification: length
within the bounds, printable ASCII of allowed classes only, and a character of every required
class; under an invalid policy it accepts nothing.\<close>

theorem password_check_spec:
  "password_check p w = (if password_policy_validate p = None \<and> password_ok p w then None
     else Some CfgInvalid)"
proof -
  let ?good = "\<forall>c\<in>set w. 33 \<le> byte c \<and> byte c \<le> 126 \<and> rule_of p c \<noteq> Disallowed"
  have "check_chars (rules p) w [False, False, False, False] =
      (if ?good then Some [\<exists>c\<in>set w. is_lower c, \<exists>c\<in>set w. is_upper c, \<exists>c\<in>set w. is_digit c,
         \<exists>c\<in>set w. \<not> is_alnum c] else None)"
    using check_chars_result [of "[False, False, False, False]" p w]
    by (simp add: upt4 class_no_cases [unfolded One_nat_def])
  then show ?thesis
    unfolding password_check_def password_ok_def by (auto simp: rules_def)
qed

section \<open>Revision keys\<close>

lemma read_nat_Cons: "read_nat (c # s) = digit_value c * 10 ^ length s + read_nat s"
proof (induction s rule: rev_induct)
  case Nil
  then show ?case by (simp add: read_nat_def)
next
  case (snoc d s)
  have "read_nat (c # s @ [d]) = read_nat (c # s) * 10 + digit_value d"
    using read_nat_snoc [of "c # s" d] by simp
  with snoc show ?case by (simp add: read_nat_snoc algebra_simps)
qed

lemma digit_value_le: "is_digit c \<Longrightarrow> digit_value c \<le> 9"
  by (auto simp: digit_value_def char_classes le_diff_conv)

lemma read_nat_lt: "list_all is_digit s \<Longrightarrow> read_nat s < 10 ^ length s"
proof (induction s)
  case (Cons c s)
  have "digit_value c * 10 ^ length s \<le> 9 * 10 ^ length s"
    using Cons.prems digit_value_le by (intro mult_right_mono) auto
  moreover have "read_nat s < 10 ^ length s" using Cons by simp
  ultimately have "digit_value c * 10 ^ length s + read_nat s < 10 * 10 ^ length s" by linarith
  then show ?case by (simp add: read_nat_Cons)
qed (simp add: read_nat_def)

lemma digit_order: "is_digit c \<Longrightarrow> is_digit d \<Longrightarrow> c < d \<longleftrightarrow> digit_value c < digit_value d"
  by (auto simp: less_char_def digit_value_def char_classes)

lemma digit_inj: "is_digit c \<Longrightarrow> is_digit d \<Longrightarrow> digit_value c = digit_value d \<Longrightarrow> c = d"
  using digit_order [of c d] digit_order [of d c] by (metis less_irrefl linorder_less_linear)

lemma digits_order:
  "list_all is_digit s \<Longrightarrow> list_all is_digit t \<Longrightarrow> length s = length t \<Longrightarrow>
   s < t \<longleftrightarrow> read_nat s < read_nat t"
proof (induction s arbitrary: t)
  case (Cons c s)
  then obtain d u where t: "t = d # u" by (cases t) auto
  let ?p = "10 ^ length s :: nat"
  have l: "length u = length s" using Cons.prems t by simp
  have s: "read_nat s < ?p" and u: "read_nat u < ?p"
    using Cons.prems t read_nat_lt [of s] read_nat_lt [of u] l by simp_all
  have cd: "is_digit c" "is_digit d" using Cons.prems t by simp_all
  consider "digit_value c < digit_value d" | "c = d" | "digit_value d < digit_value c"
    using digit_inj cd by (metis linorder_less_linear)
  then show ?case
  proof cases
    case 1
    have "(digit_value c + 1) * ?p \<le> digit_value d * ?p"
      using 1 by (intro mult_right_mono) auto
    with 1 cd t s l show ?thesis by (simp add: read_nat_Cons digit_order)
  next
    case 2
    with Cons.IH [of u] Cons.prems t l show ?thesis by (simp add: read_nat_Cons)
  next
    case 3
    have "(digit_value d + 1) * ?p \<le> digit_value c * ?p"
      using 3 by (intro mult_right_mono) auto
    with 3 cd t u l show ?thesis by (auto simp: read_nat_Cons digit_order)
  qed
qed simp

lemma length_show_nat: "n < 10 ^ k \<Longrightarrow> 0 < k \<Longrightarrow> length (show_nat n) \<le> k"
proof (induction k arbitrary: n)
  case (Suc k)
  show ?case
  proof (cases "n < 10")
    case True
    then show ?thesis by (subst show_nat.simps) simp
  next
    case False
    with Suc.prems have "0 < k" by (cases k) auto
    moreover have "n div 10 < 10 ^ k" using Suc.prems by simp
    ultimately have "length (show_nat (n div 10)) \<le> k" by (rule Suc.IH [rotated])
    with False show ?thesis by (subst show_nat.simps) simp
  qed
qed simp

lemma fmt_revision_digits:
  assumes "0 \<le> n" "n \<le> max_int64"
  shows "length (fmt_revision n) = 20" "list_all is_digit (fmt_revision n)"
    "read_nat (fmt_revision n) = nat n"
proof -
  have "nat n < 10 ^ 20" using assms by (simp add: max_int64_def)
  then have l: "length (show_nat (nat n)) \<le> 20" by (rule length_show_nat) simp
  have f: "fmt_revision n = replicate (20 - length (show_nat (nat n))) (CHR ''0'') @ show_nat (nat n)"
    using assms(1) by (simp add: fmt_revision_def pad_left_def show_int_def)
  show "length (fmt_revision n) = 20" using l by (simp add: f)
  show "list_all is_digit (fmt_revision n)"
    using show_nat_digits by (auto simp: f list_all_iff char_classes)
  have "read_nat (replicate k (CHR ''0'') @ s) = read_nat s" for k s
    by (induction k) (simp_all add: read_nat_Cons digit_value_def)
  then show "read_nat (fmt_revision n) = nat n" by (simp add: f read_show_nat)
qed

lemma fmt_revision_inj:
  "0 \<le> m \<Longrightarrow> m \<le> max_int64 \<Longrightarrow> 0 \<le> n \<Longrightarrow> n \<le> max_int64 \<Longrightarrow>
   fmt_revision m = fmt_revision n \<longleftrightarrow> m = n"
  using fmt_revision_digits(3) [of m] fmt_revision_digits(3) [of n] by auto

text \<open>The padded revision of a version key has twenty digits, parses back to the revision, and
orders as text (the order of DynamoDB sort keys) as the revisions order as numbers, up to the
largest int64.\<close>

theorem fmt_revision_order:
  assumes "0 \<le> m" "m \<le> max_int64" "0 \<le> n" "n \<le> max_int64"
  shows "length (fmt_revision m) = 20 \<and> parse_int64 (fmt_revision m) = (m, True) \<and>
    (fmt_revision m < fmt_revision n \<longleftrightarrow> m < n)"
proof -
  note f = fmt_revision_digits [OF assms(1,2)] and g = fmt_revision_digits [OF assms(3,4)]
  obtain c s where c: "fmt_revision m = c # s" using f(1) by (cases "fmt_revision m") auto
  with f(2) have "is_digit c" by simp
  then have "c \<noteq> CHR ''-''" "c \<noteq> CHR ''+''" by (auto simp: char_classes)
  then have "parse_int64 (fmt_revision m) = (m, True)"
    using f assms(1,2) c by (simp add: parse_int64_def)
  moreover have "fmt_revision m < fmt_revision n \<longleftrightarrow> m < n"
    using digits_order [OF f(2) g(2)] f(1,3) g(1,3) assms(1) by auto
  ultimately show ?thesis using f(1) by simp
qed

theorem fmt_revision_order_witness: "fmt_revision 9 < fmt_revision 10 \<and> length (fmt_revision 9) = 20"
  using fmt_revision_order [of 9 10] by (simp add: max_int64_def)

section \<open>The table over time\<close>

type_synonym cfg_table = "cfg_key \<Rightarrow> cfg_item option"
type_synonym cfg_past = "(cfg_key \<times> cfg_item) set"

fun write_holds :: "cfg_table \<Rightarrow> cwrite \<Rightarrow> bool" where
  "write_holds db (Check k c) = holds c (db k)"
| "write_holds db (PutItem k i c) = holds c (db k)"
| "write_holds db (Lease tb e n token) = True"

fun put :: "cwrite \<Rightarrow> cfg_table \<Rightarrow> cfg_table" where
  "put (PutItem k i c) db = db(k \<mapsto> i)"
| "put _ db = db"

definition put_all :: "cwrite list \<Rightarrow> cfg_table \<Rightarrow> cfg_table" where
  "put_all ws db = fold put ws db"

fun put_of :: "cwrite \<Rightarrow> cfg_past" where
  "put_of (PutItem k i c) = {(k, i)}"
| "put_of _ = {}"

definition all_puts :: "cwrite list \<Rightarrow> cfg_past" where
  "all_puts ws = (\<Union>w\<in>set ws. put_of w)"

text \<open>The transactions of the operations; \<open>H\<close> are the items the table has held so far.\<close>

inductive legal :: "'c cfglib \<Rightarrow> cfg_past \<Rightarrow> cwrite list \<Rightarrow> bool" for G :: "'c cfglib" and H :: cfg_past
where
  legal_publish: "0 \<le> n \<Longrightarrow> n < max_int64 \<Longrightarrow> gRevision (vConfig v) = n + 1 \<Longrightarrow>
    gEnvironment (vConfig v) = grEnvironment g \<Longrightarrow> config_validate G (vConfig v) = None \<Longrightarrow>
    legal G H (publish_writes g n v)"
| legal_grant: "may_grant a t \<Longrightarrow> legal G H (grant_writes a t at)"
| legal_bootstrap: "legal G H (bootstrap_writes sub env)"
| legal_sync_new: "config_validate G c = None \<Longrightarrow> legal G H (sync_writes None c f)"
| legal_sync: "config_validate G c = None \<Longrightarrow> (config_key (gEnvironment c), i) \<in> H \<Longrightarrow>
    stored_of i = Inr s \<Longrightarrow> \<not> scOverride s \<Longrightarrow> legal G H (sync_writes (Some s) c f)"

inductive cfg_step :: "'c cfglib \<Rightarrow> cfg_table \<times> cfg_past \<Rightarrow> cfg_table \<times> cfg_past \<Rightarrow> bool"
  for G :: "'c cfglib" where
  cfg_commit: "legal G H ws \<Longrightarrow> list_all (write_holds db) ws \<Longrightarrow>
    cfg_step G (db, H) (put_all ws db, H \<union> all_puts ws)"

inductive cfg_reached :: "'c cfglib \<Rightarrow> cfg_table \<times> cfg_past \<Rightarrow> bool" for G :: "'c cfglib" where
  cfg_empty: "cfg_reached G (Map.empty, {})"
| cfg_more: "cfg_reached G s \<Longrightarrow> cfg_step G s s' \<Longrightarrow> cfg_reached G s'"

inductive_cases legal_cases: "legal G H ws"
inductive_cases cfg_step_cases: "cfg_step G s s'"

text \<open>Keys of different kinds differ.\<close>

lemma key_simps [simp]:
  "config_key e = config_key e' \<longleftrightarrow> e = e'"
  "config_key e \<noteq> version_key e' n" "version_key e' n \<noteq> config_key e"
  "config_key e \<noteq> grant_key u e'" "grant_key u e' \<noteq> config_key e"
  "config_key e \<noteq> audit_key g" "audit_key g \<noteq> config_key e"
  "config_key e \<noteq> marker_key e'" "marker_key e' \<noteq> config_key e"
  "version_key e n \<noteq> grant_key u e'" "grant_key u e' \<noteq> version_key e n"
  "version_key e n \<noteq> audit_key g" "audit_key g \<noteq> version_key e n"
  "version_key e n \<noteq> marker_key e'" "marker_key e' \<noteq> version_key e n"
  "grant_key u e = grant_key u' e' \<longleftrightarrow> u = u' \<and> e = e'"
  "grant_key u e \<noteq> audit_key g" "audit_key g \<noteq> grant_key u e"
  "grant_key u e \<noteq> marker_key e'" "marker_key e' \<noteq> grant_key u e"
  "marker_key e = marker_key e' \<longleftrightarrow> e = e'" "audit_key g \<noteq> marker_key e'" "marker_key e' \<noteq> audit_key g"
  by (auto simp: config_key_def version_key_def grant_key_def audit_key_def marker_key_def
      env_id_def user_id_def)

lemma version_key_eq:
  "version_key e m = version_key e' n \<longleftrightarrow> e = e' \<and> fmt_revision m = fmt_revision n"
  by (auto simp: version_key_def env_id_def)

text \<open>What a published configuration looks like.\<close>

lemma validate_facts:
  "config_validate G c = None \<Longrightarrow> gSchemaVersion c = 1 \<and> 0 \<le> gRevision c \<and> valid_environment (gEnvironment c)"
  by (auto simp: config_validate_def Let_def split: if_splits)

section \<open>The operations make legal transactions\<close>

definition txn_ok :: "'c cfglib \<Rightarrow> cfg_past \<Rightarrow> dyn_call \<Rightarrow> (dyn_call \<times> dyn_resp) list \<Rightarrow> bool" where
  "txn_ok G H q h = (case q of
       DTransact ws \<Rightarrow> legal G (H \<union> {(k, i). \<exists>r. (DGet k, r) \<in> set h \<and> d_item r = Inr (Some i)}) ws
     | _ \<Rightarrow> True)"

lemma txn_ok_simps [simp]:
  "txn_ok G H (DGet k) h" "txn_ok G H DNow h" "txn_ok G H (DQuery a b d e) h"
  by (simp_all add: txn_ok_def)

lemma txn_decide:
  assumes "config_validate G c = None" "gEnvironment c = e"
    and "\<And>s. old = Some s \<Longrightarrow> \<exists>i. d_item r = Inr (Some i) \<and> stored_of i = Inr s"
  shows "safe (txn_ok G H) (\<lambda>_ _. True) (sync_decide old c f) [(DGet (config_key e), r)]"
proof (cases old)
  case None
  with assms(1) show ?thesis
    by (simp add: sync_decide_def transact_def txn_ok_def legal_sync_new)
next
  case (Some s)
  from assms(3) [OF this] obtain i where i: "d_item r = Inr (Some i)" "stored_of i = Inr s" by blast
  have "legal G (H \<union> {(k, i). \<exists>r'. (DGet k, r') \<in> set [(DGet (config_key e), r)] \<and>
      d_item r' = Inr (Some i)}) (sync_writes (Some s) c f)" if "\<not> scOverride s"
    by (rule legal_sync [OF assms(1) _ i(2) that]) (use i(1) assms(2) in auto)
  with Some show ?thesis by (simp add: sync_decide_def transact_def txn_ok_def)
qed

lemma txn_sync: "safe (txn_ok G H) (\<lambda>_ _. True) (cs_sync G c f) []"
proof (cases "config_validate G c")
  case None
  show ?thesis
    unfolding cs_sync_def dyn_read_def using None
    by (simp split: option.split sum.split) (auto intro!: txn_decide)
qed (simp add: cs_sync_def)

lemma txn_grant: "safe (txn_ok G H) (\<lambda>_ _. True) (cs_set_grant G actor target) []"
  by (auto simp: cs_set_grant_def transact_def txn_ok_def legal_grant)

lemma txn_bootstrap: "safe (txn_ok G H) (\<lambda>_ _. True) (cs_bootstrap sub env) []"
  by (simp add: cs_bootstrap_def transact_def txn_ok_def legal_bootstrap)

text \<open>What the service hands to the repository's \<open>Publish\<close>.\<close>

definition publish_fit :: "'c cfglib \<Rightarrow> cfg_call \<Rightarrow> bool" where
  "publish_fit G q = (case q of
       RPublish g n v \<Rightarrow> 0 \<le> n \<and> n < max_int64 \<and> gRevision (vConfig v) = n + 1 \<and>
         gEnvironment (vConfig v) = grEnvironment g \<and> grActive g \<and> config_validate G (vConfig v) = None
     | _ \<Rightarrow> True)"

lemma prepared_facts:
  "gRevision (prepared G c n t) = add64 n 1" "gEnvironment (prepared G c n t) = gEnvironment c"
  by (simp_all add: prepared_def Let_def normalized_def)

lemma publish_calls:
  assumes "n \<le> max_int64"
  shows "safe (\<lambda>q _. publish_fit G q) (\<lambda>_ _. True) (cfg_publish G g n c source Ret) []"
proof (cases "n < 0 \<or> n = max_int64")
  case False
  then have "add64 n 1 = n + 1" "n < max_int64"
    using assms by (auto simp: add64_def min_int64_def max_int64_def intro!: wrap64_id)
  with False show ?thesis
    by (auto simp: cfg_publish_def repo_publish_def Let_def publish_fit_def prepared_facts
        split: option.split)
qed (simp add: cfg_publish_def)

lemma txn_publish:
  "publish_fit G (RPublish g n v) \<Longrightarrow> safe (txn_ok G H) (\<lambda>_ _. True) (cs_publish g n v) []"
  by (auto simp: cs_publish_def transact_def txn_ok_def publish_fit_def intro: legal_publish)

text \<open>every transaction the store's operations submit, whatever DynamoDB answers, is legal: a
deployment's defaults only rewrite what was read unless an administrator has overridden it, grants
are only written for a manager of the same environment other than the grantee, and a
configuration is published only valid, as the successor of the revision it replaces.\<close>

theorem store_transactions:
  "safe (txn_ok G H) (\<lambda>_ _. True) (cs_sync G c f) [] \<and>
   safe (txn_ok G H) (\<lambda>_ _. True) (cs_set_grant G actor target) [] \<and>
   safe (txn_ok G H) (\<lambda>_ _. True) (cs_bootstrap sub env) [] \<and>
   (n \<le> max_int64 \<longrightarrow> safe (\<lambda>q _. case q of
        RPublish g' n' v \<Rightarrow> safe (txn_ok G H) (\<lambda>_ _. True) (cs_publish g' n' v) []
      | _ \<Rightarrow> True) (\<lambda>_ _. True) (cfg_publish G g n c source Ret) [])"
proof -
  have "safe (\<lambda>q _. case q of
        RPublish g' n' v \<Rightarrow> safe (txn_ok G H) (\<lambda>_ _. True) (cs_publish g' n' v) []
      | _ \<Rightarrow> True) (\<lambda>_ _. True) (cfg_publish G g n c source Ret) []" if "n \<le> max_int64"
    by (rule safe_mono [OF publish_calls [OF that]])
      (auto intro: txn_publish split: cfg_call.split)
  then show ?thesis by (simp add: txn_sync txn_grant txn_bootstrap)
qed

section \<open>The history of the configuration\<close>

lemma put_all_simps [simp]:
  "put_all [] db = db" "put_all (w # ws) db = put_all ws (put w db)"
  "all_puts [] = {}" "all_puts (w # ws) = put_of w \<union> all_puts ws"
  by (simp_all add: put_all_def all_puts_def)

text \<open>Nothing is deleted: what the table holds is in the past, and the past is still keyed.\<close>

definition kept :: "cfg_table \<Rightarrow> cfg_past \<Rightarrow> bool" where
  "kept db H \<longleftrightarrow> (\<forall>k i. db k = Some i \<longrightarrow> (k, i) \<in> H) \<and> (\<forall>k i. (k, i) \<in> H \<longrightarrow> db k \<noteq> None)"

lemma kept_put: "kept db H \<Longrightarrow> kept (put w db) (H \<union> put_of w)"
  by (cases w) (auto simp: kept_def)

lemma kept_put_all: "kept db H \<Longrightarrow> kept (put_all ws db) (H \<union> all_puts ws)"
proof (induction ws arbitrary: db H)
  case (Cons w ws)
  from Cons.IH [OF kept_put [OF Cons.prems, of w]] show ?case by (simp add: Un_assoc)
qed simp

text \<open>The items of one environment: its configuration and its versions.\<close>

definition at_revision :: "cfg_table \<Rightarrow> string \<Rightarrow> int \<Rightarrow> version option" where
  "at_revision db e n = (case db (version_key e n) of Some (VersionItem v) \<Rightarrow> Some v | _ \<Rightarrow> None)"

definition sound_item :: "'c cfglib \<Rightarrow> (int \<Rightarrow> version option) \<Rightarrow> string \<Rightarrow> cfg_item \<Rightarrow> bool" where
  "sound_item G A e i = (case i of
       ConfigItem c ov gen \<Rightarrow> gEnvironment c = e \<and> config_validate G c = None \<and>
         gRevision c \<le> max_int64 \<and>
         (\<exists>v. A (gRevision c) = Some v \<and> same_values c (vConfig v))
     | _ \<Rightarrow> False)"

definition current_revision :: "cfg_table \<Rightarrow> string \<Rightarrow> int" where
  "current_revision db e = (case db (config_key e) of Some (ConfigItem c ov gen) \<Rightarrow> gRevision c | _ \<Rightarrow> - 1)"

definition exact_history :: "cfg_table \<Rightarrow> string \<Rightarrow> bool" where
  "exact_history db e \<longleftrightarrow> (\<forall>m. 0 \<le> m \<longrightarrow> m \<le> max_int64 \<longrightarrow>
     (if m \<le> current_revision db e
      then \<exists>v. at_revision db e m = Some v \<and> gRevision (vConfig v) = m \<and> gEnvironment (vConfig v) = e
      else db (version_key e m) = None))"

definition chronicle :: "'c cfglib \<Rightarrow> string \<Rightarrow> cfg_table \<Rightarrow> cfg_past \<Rightarrow> bool" where
  "chronicle G e db H \<longleftrightarrow> exact_history db e \<and> - 1 \<le> current_revision db e \<and>
     (\<forall>i. (config_key e, i) \<in> H \<longrightarrow> sound_item G (at_revision db e) e i)"

lemma same_values_equiv:
  "same_values a a" "same_values a b \<Longrightarrow> same_values b a"
  "same_values a b \<Longrightarrow> same_values b c \<Longrightarrow> same_values a c"
  by (simp_all add: same_values_def)

text \<open>A write elsewhere leaves the chronicle of an environment alone.\<close>

definition foreign :: "string \<Rightarrow> cwrite \<Rightarrow> bool" where
  "foreign e w = (case w of
       PutItem k i c \<Rightarrow> k \<noteq> config_key e \<and> (\<forall>n. k \<noteq> version_key e n)
     | _ \<Rightarrow> True)"

lemma chronicle_frame:
  assumes "chronicle G e db H" "db' (config_key e) = db (config_key e)"
    "\<And>n. db' (version_key e n) = db (version_key e n)"
    "\<And>i. (config_key e, i) \<in> H' \<Longrightarrow> (config_key e, i) \<in> H"
  shows "chronicle G e db' H'"
proof -
  have "current_revision db' e = current_revision db e"
    by (simp add: current_revision_def assms(2))
  moreover have "at_revision db' e = at_revision db e"
    by (rule ext) (simp add: at_revision_def assms(3))
  ultimately show ?thesis
    using assms(1,4) by (simp add: chronicle_def exact_history_def assms(3))
qed

lemma chronicle_foreign:
  assumes "chronicle G e db H" "foreign e w"
  shows "chronicle G e (put w db) (H \<union> put_of w)"
proof (cases w)
  case (PutItem k i c)
  then show ?thesis
    using assms(2) by (intro chronicle_frame [OF assms(1)]) (auto simp: foreign_def)
qed (use assms in auto)

lemma chronicle_all_foreign:
  "list_all (foreign e) ws \<Longrightarrow> chronicle G e db H \<Longrightarrow> chronicle G e (put_all ws db) (H \<union> all_puts ws)"
proof (induction ws arbitrary: db H)
  case (Cons w ws)
  then have "chronicle G e (put w db) (H \<union> put_of w)" by (intro chronicle_foreign) simp_all
  then have "chronicle G e (put_all ws (put w db)) (H \<union> put_of w \<union> all_puts ws)"
    using Cons by simp
  then show ?case by (simp add: Un_assoc)
qed simp

text \<open>A rewrite of the current revision with the same values, and a successor with its version.\<close>

lemma chronicle_rewrite:
  assumes ch: "chronicle G e db H" and c: "gEnvironment c = e" "config_validate G c = None"
    and old: "(config_key e, ConfigItem b ov' gen') \<in> H" "same_values b c"
    and r: "gRevision b = current_revision db e" "gRevision c = current_revision db e"
  shows "chronicle G e (db(config_key e \<mapsto> ConfigItem c ov gen)) (insert (config_key e, ConfigItem c ov gen) H)"
proof -
  let ?db = "db(config_key e \<mapsto> ConfigItem c ov gen)"
  have r': "current_revision ?db e = current_revision db e"
    using r(2) by (simp add: current_revision_def)
  have at: "at_revision ?db e = at_revision db e"
    by (rule ext) (simp add: at_revision_def)
  have "sound_item G (at_revision db e) e (ConfigItem b ov' gen')"
    using ch old(1) by (simp add: chronicle_def)
  then have "sound_item G (at_revision db e) e (ConfigItem c ov gen)"
    using c r same_values_equiv(2,3) [OF old(2)] same_values_equiv(2) [OF old(2)]
    by (auto simp: sound_item_def intro: same_values_equiv(3))
  with ch show ?thesis by (auto simp: chronicle_def exact_history_def r' at)
qed

lemma chronicle_advance:
  assumes ch: "chronicle G e db H" and c: "gEnvironment c = e" "config_validate G c = None"
    and n: "gRevision c = current_revision db e + 1" "gRevision c \<le> max_int64" and v: "vConfig v = c"
  shows "chronicle G e (db(config_key e \<mapsto> ConfigItem c ov gen, version_key e (gRevision c) \<mapsto> VersionItem v))
    (H \<union> {(config_key e, ConfigItem c ov gen), (version_key e (gRevision c), VersionItem v)})"
proof -
  let ?n = "gRevision c"
  let ?db = "db(config_key e \<mapsto> ConfigItem c ov gen, version_key e ?n \<mapsto> VersionItem v)"
  have n0: "0 \<le> ?n" using ch n(1) by (simp add: chronicle_def)
  have r: "current_revision ?db e = ?n" by (simp add: current_revision_def)
  have at: "at_revision ?db e m = (if m = ?n then Some v else at_revision db e m)"
    if "0 \<le> m" "m \<le> max_int64" for m
    using fmt_revision_inj [OF n0 n(2) that] by (auto simp: at_revision_def version_key_eq)
  have slot: "?db (version_key e m) = (if m = ?n then Some (VersionItem v) else db (version_key e m))"
    if "0 \<le> m" "m \<le> max_int64" for m
    using fmt_revision_inj [OF n0 n(2) that] by (auto simp: version_key_eq)
  have "exact_history ?db e"
    unfolding exact_history_def
  proof (intro allI impI)
    fix m :: int
    assume m: "0 \<le> m" "m \<le> max_int64"
    have old: "if m \<le> current_revision db e
        then \<exists>v. at_revision db e m = Some v \<and> gRevision (vConfig v) = m \<and> gEnvironment (vConfig v) = e
        else db (version_key e m) = None"
      using ch m by (simp add: chronicle_def exact_history_def)
    show "if m \<le> current_revision ?db e
        then \<exists>v. at_revision ?db e m = Some v \<and> gRevision (vConfig v) = m \<and> gEnvironment (vConfig v) = e
        else ?db (version_key e m) = None"
      unfolding r at [OF m] slot [OF m] using old n(1) v c(1) by (auto split: if_splits)
  qed
  moreover have "sound_item G (at_revision ?db e) e i" if "(config_key e, i) \<in> H" for i
  proof -
    have s: "sound_item G (at_revision db e) e i" using ch that by (simp add: chronicle_def)
    then obtain d ov' gen' where i: "i = ConfigItem d ov' gen'" by (cases i) (simp_all add: sound_item_def)
    with s validate_facts [of G d] have d: "0 \<le> gRevision d" "gRevision d \<le> max_int64"
      by (simp_all add: sound_item_def)
    have "gRevision d \<noteq> ?n"
    proof
      assume e: "gRevision d = ?n"
      have "db (version_key e ?n) = None" using ch n n0 by (simp add: chronicle_def exact_history_def)
      with s i e show False by (simp add: sound_item_def at_revision_def)
    qed
    with s i at [OF d] show ?thesis by (simp add: sound_item_def)
  qed
  moreover have "sound_item G (at_revision ?db e) e (ConfigItem c ov gen)"
    using c n n0 v at [of ?n] same_values_equiv(1) by (simp add: sound_item_def)
  ultimately show ?thesis using n0 by (auto simp: chronicle_def r)
qed

text \<open>Revisions below the largest int64, the bound of the history theorem.\<close>

definition bounded :: "cfg_past \<Rightarrow> bool" where
  "bounded H \<longleftrightarrow> (\<forall>e c ov gen. (config_key e, ConfigItem c ov gen) \<in> H \<longrightarrow> gRevision c < max_int64)"

lemma validate_revision:
  "config_validate G c = None \<Longrightarrow> 0 \<le> n \<Longrightarrow> config_validate G (c\<lparr>gRevision := n\<rparr>) = None"
  by (auto simp: config_validate_def Let_def effective_onboarding_def split: if_splits option.splits)

lemma validate_updated:
  "config_validate G c = None \<Longrightarrow> config_validate G b = None \<Longrightarrow>
   config_validate G (c\<lparr>gRevision := gRevision b, gUpdatedAt := gUpdatedAt b\<rparr>) = None"
  by (auto simp: config_validate_def Let_def effective_onboarding_def split: if_splits option.splits)

lemma same_values_rev: "same_values b (c\<lparr>gRevision := n, gUpdatedAt := t\<rparr>) = same_values b c"
  by (simp add: same_values_def effective_onboarding_def)

lemma chronicle_sync:
  assumes ch: "chronicle G e db H" and k: "kept db H" and b: "bounded H" and c: "config_validate G c = None"
    and i: "(config_key (gEnvironment c), i) \<in> H" "stored_of i = Inr s"
    and h: "list_all (write_holds db) (sync_writes (Some s) c f)"
  shows "chronicle G e (put_all (sync_writes (Some s) c f) db) (H \<union> all_puts (sync_writes (Some s) c f))"
proof (cases "gEnvironment c = e")
  case False
  then have "gEnvironment (synced (Some s) c) \<noteq> e" by (simp add: synced_def)
  then show ?thesis
    by (intro chronicle_all_foreign [OF _ ch])
      (simp add: sync_writes_def Let_def foreign_def version_key_eq)
next
  case True
  let ?o = "scConfig s" and ?d = "synced (Some s) c"
  have d: "gEnvironment ?d = e" using True by (simp add: synced_def)
  obtain ov gen where ci: "i = ConfigItem ?o ov gen"
    using i(2) by (cases i) (auto simp: stored_of_def)
  with i(1) ch True have si: "sound_item G (at_revision db e) e i" by (simp add: chronicle_def)
  then have vo: "config_validate G ?o = None" by (simp add: ci sound_item_def)
  have bo: "gRevision ?o < max_int64" using b i(1) ci unfolding bounded_def by blast
  have add: "add64 (gRevision ?o) 1 = gRevision ?o + 1"
    using bo validate_facts [OF vo] by (auto simp: add64_def min_int64_def max_int64_def intro!: wrap64_id)
  have cur: "current_revision db e = gRevision ?o"
    using h validate_facts [OF vo] d
    by (auto simp: sync_writes_def Let_def current_revision_def split: option.splits cfg_item.splits)
  show ?thesis
  proof (cases "same_values ?o c")
    case True
    have ds: "?d = c\<lparr>gRevision := gRevision ?o, gUpdatedAt := gUpdatedAt ?o\<rparr>"
      using True by (simp add: synced_def)
    have "chronicle G e (db(config_key e \<mapsto> ConfigItem ?d (Some False) (Some (fnRevision f))))
        (insert (config_key e, ConfigItem ?d (Some False) (Some (fnRevision f))) H)"
      using i(1) \<open>gEnvironment c = e\<close> ci validate_updated [OF c vo] True cur
      by (intro chronicle_rewrite [OF ch d, where b = ?o and ov' = ov and gen' = gen])
        (simp_all add: ds same_values_rev)
    then show ?thesis using True by (simp add: sync_writes_def Let_def d sync_changed_def)
  next
    case False
    have ds: "?d = c\<lparr>gRevision := gRevision ?o + 1\<rparr>" using False add by (simp add: synced_def)
    let ?v = "\<lparr>vConfig = ?d, vActor = ''deployment:'' @ show_int (fnRevision f),
                 vAction = ''defaults'', vSourceRevision = None\<rparr>"
    have "chronicle G e (db(config_key e \<mapsto> ConfigItem ?d (Some False) (Some (fnRevision f)),
          version_key e (gRevision ?d) \<mapsto> VersionItem ?v))
        (H \<union> {(config_key e, ConfigItem ?d (Some False) (Some (fnRevision f))),
          (version_key e (gRevision ?d), VersionItem ?v)})"
      using validate_revision [OF c] validate_facts [OF vo] cur bo
      by (intro chronicle_advance [OF ch d]) (simp_all add: ds)
    then show ?thesis using False by (simp add: sync_writes_def Let_def d sync_changed_def insert_commute)
  qed
qed

lemma chronicle_new:
  assumes ch: "chronicle G e db H" and c: "config_validate G c = None"
    and h: "list_all (write_holds db) (sync_writes None c f)"
  shows "chronicle G e (put_all (sync_writes None c f) db) (H \<union> all_puts (sync_writes None c f))"
proof (cases "gEnvironment c = e")
  case False
  then show ?thesis
    by (intro chronicle_all_foreign [OF _ ch])
      (simp add: sync_writes_def Let_def foreign_def version_key_eq synced_def)
next
  case True
  let ?d = "c\<lparr>gRevision := 0\<rparr>"
  let ?v = "\<lparr>vConfig = ?d, vActor = ''deployment:'' @ show_int (fnRevision f),
               vAction = ''defaults'', vSourceRevision = None\<rparr>"
  have cur: "current_revision db e = - 1"
    using h True by (simp add: sync_writes_def Let_def current_revision_def synced_def)
  have "chronicle G e (db(config_key e \<mapsto> ConfigItem ?d (Some False) (Some (fnRevision f)),
        version_key e (gRevision ?d) \<mapsto> VersionItem ?v))
      (H \<union> {(config_key e, ConfigItem ?d (Some False) (Some (fnRevision f))),
        (version_key e (gRevision ?d), VersionItem ?v)})"
    using validate_revision [OF c] cur True
    by (intro chronicle_advance [OF ch]) (simp_all add: max_int64_def)
  then show ?thesis
    using True by (simp add: sync_writes_def Let_def sync_changed_def synced_def insert_commute)
qed

lemma chronicle_publish:
  assumes ch: "chronicle G e db H" and k: "kept db H" and n: "0 \<le> n" "n < max_int64" "gRevision (vConfig v) = n + 1"
    and c: "config_validate G (vConfig v) = None"
    and h: "list_all (write_holds db) (publish_writes g n v)"
  shows "chronicle G e (put_all (publish_writes g n v) db) (H \<union> all_puts (publish_writes g n v))"
proof (cases "gEnvironment (vConfig v) = e")
  case False
  then show ?thesis
    by (intro chronicle_all_foreign [OF _ ch])
      (simp add: publish_writes_def Let_def foreign_def version_key_eq grant_check_def)
next
  case True
  let ?c = "vConfig v"
  obtain i where i: "db (config_key e) = Some i" "item_revision i = Some n"
    using h True by (auto simp: publish_writes_def Let_def split: option.splits)
  with k have "(config_key e, i) \<in> H" unfolding kept_def by blast
  with ch have "sound_item G (at_revision db e) e i" by (simp add: chronicle_def)
  with i have cur: "current_revision db e = n"
    by (auto simp: current_revision_def sound_item_def split: cfg_item.splits)
  show ?thesis
    using chronicle_advance [OF ch True c, of v "Some True" None] n cur True
    by (simp add: publish_writes_def Let_def grant_check_def insert_commute)
qed

lemma chronicle_step:
  assumes l: "legal G H ws" and k: "kept db H" and b: "bounded H"
    and ch: "chronicle G e db H" and h: "list_all (write_holds db) ws"
  shows "chronicle G e (put_all ws db) (H \<union> all_puts ws)"
  using l
proof cases
  case (legal_publish n v g)
  show ?thesis
    unfolding legal_publish(1)
    by (rule chronicle_publish [OF ch k]) (use legal_publish h in simp_all)
next
  case (legal_grant a t at)
  then show ?thesis
    by (intro chronicle_all_foreign [OF _ ch])
      (simp add: grant_writes_def Let_def foreign_def grant_check_def)
next
  case (legal_bootstrap sub env)
  then show ?thesis
    by (intro chronicle_all_foreign [OF _ ch]) (simp add: bootstrap_writes_def foreign_def)
next
  case (legal_sync_new c f)
  show ?thesis
    unfolding legal_sync_new(1) by (rule chronicle_new [OF ch]) (use legal_sync_new h in simp_all)
next
  case (legal_sync c i s f)
  show ?thesis
    unfolding legal_sync(1)
    by (rule chronicle_sync [OF ch k b]) (use legal_sync h in simp_all)
qed

lemma reached_kept: "cfg_reached G s \<Longrightarrow> kept (fst s) (snd s)"
proof (induction rule: cfg_reached.induct)
  case (cfg_more s s')
  from cfg_more(2) show ?case
    by (rule cfg_step_cases) (use cfg_more(3) in \<open>simp add: kept_put_all\<close>)
qed (simp add: kept_def)

lemma reached_chronicle:
  "cfg_reached G s \<Longrightarrow> bounded (snd s) \<Longrightarrow> chronicle G e (fst s) (snd s)"
proof (induction rule: cfg_reached.induct)
  case cfg_empty
  show ?case by (simp add: chronicle_def exact_history_def current_revision_def)
next
  case (cfg_more s s')
  from cfg_more(2) show ?case
  proof (rule cfg_step_cases)
    fix H ws db
    assume s: "s = (db, H)" "s' = (put_all ws db, H \<union> all_puts ws)" and l: "legal G H ws"
      and h: "list_all (write_holds db) ws"
    have b: "bounded H" using cfg_more.prems s by (auto simp: bounded_def)
    show ?thesis
      unfolding s fst_conv snd_conv
      by (rule chronicle_step [OF l _ b _ h])
        (use reached_kept [OF cfg_more(1)] cfg_more.IH b s in simp_all)
  qed
qed

text \<open>C30: in every table the administrators, deployments and bootstraps can reach by their
interleaved transactions, an environment that has a configuration has every version from 0 to its
revision, each recorded under its own number, none beyond, and the current configuration is valid
and has the values of its version (while revisions stay below the largest int64).\<close>

theorem config_history:
  assumes "cfg_reached G (db, H)" "bounded H" "db (config_key e) = Some (ConfigItem c ov gen)"
  shows "gEnvironment c = e \<and> config_validate G c = None \<and>
    (\<exists>v. at_revision db e (gRevision c) = Some v \<and> same_values c (vConfig v)) \<and>
    (\<forall>m. 0 \<le> m \<and> m \<le> max_int64 \<longrightarrow>
       (if m \<le> gRevision c then \<exists>v. at_revision db e m = Some v \<and> gRevision (vConfig v) = m
        else db (version_key e m) = None))"
proof -
  have ch: "chronicle G e db H" using reached_chronicle [OF assms(1)] assms(2) by simp
  have r: "current_revision db e = gRevision c" by (simp add: current_revision_def assms(3))
  have "(config_key e, ConfigItem c ov gen) \<in> H"
    using reached_kept [OF assms(1)] assms(3) unfolding kept_def fst_conv snd_conv by blast
  then have "sound_item G (at_revision db e) e (ConfigItem c ov gen)"
    using ch by (simp add: chronicle_def)
  moreover have "if m \<le> gRevision c then \<exists>v. at_revision db e m = Some v \<and> gRevision (vConfig v) = m
      else db (version_key e m) = None" if "0 \<le> m" "m \<le> max_int64" for m
    using ch that unfolding chronicle_def exact_history_def r by metis
  ultimately show ?thesis by (simp add: sound_item_def)
qed

text \<open>A deployment and two colleagues, to apply the theorems to.\<close>

definition demo_cfglib :: "config cfglib" where
  "demo_cfglib = \<lparr>has_control = (\<lambda>s. False), is_rfc3339 = (\<lambda>s. True), rfc3339 = (\<lambda>n. show_int n),
     json_object = (\<lambda>s. None), json_strict = (\<lambda>s. None), space_trimmed = (\<lambda>s. s),
     marshal_policy = (\<lambda>p. pPurpose p)\<rparr>"

definition demo_fence :: fence where
  "demo_fence = \<lparr>fnTable = ''registry'', fnEnvironment = ''dev'', fnToken = ''t'', fnRevision = 1\<rparr>"

definition demo_sync :: "cwrite list" where
  "demo_sync = sync_writes None (default_config ''dev'') demo_fence"

definition demo_table :: "cfg_table \<times> cfg_past" where
  "demo_table = (put_all demo_sync Map.empty, {} \<union> all_puts demo_sync)"

lemma demo_config_valid: "config_validate demo_cfglib (default_config ''dev'') = None"
  by (code_simp)

lemma demo_reached: "cfg_reached demo_cfglib demo_table"
  unfolding demo_table_def demo_sync_def
  by (rule cfg_more [OF cfg_empty], rule cfg_commit, rule legal_sync_new [OF demo_config_valid])
    (simp add: sync_writes_def Let_def synced_def sync_changed_def default_config_def)

lemma demo_slot: "fst demo_table (config_key ''dev'') =
    Some (ConfigItem (default_config ''dev'') (Some False) (Some 1))"
  by (simp add: demo_table_def demo_sync_def sync_writes_def Let_def synced_def sync_changed_def
      default_config_def demo_fence_def)

lemma demo_bounded: "bounded (snd demo_table)"
  by (auto simp: bounded_def demo_table_def demo_sync_def sync_writes_def Let_def synced_def
      sync_changed_def default_config_def demo_fence_def max_int64_def)

theorem config_history_witness:
  "\<exists>v. at_revision (fst demo_table) ''dev'' 0 = Some v \<and> same_values (default_config ''dev'') (vConfig v)"
  using config_history [of demo_cfglib "fst demo_table" "snd demo_table" "''dev''" "default_config ''dev''"]
    demo_reached demo_bounded demo_slot by (simp add: default_config_def)

text \<open>Then a bootstrap, and the administrator publishes.\<close>

definition demo_admin :: grant where
  "demo_admin = \<lparr>grSubject = ''admin'', grEnvironment = ''dev'', grRevision = 1, grActive = True,
     grManageGrants = True\<rparr>"

definition demo_version :: version where
  "demo_version = \<lparr>vConfig = (default_config ''dev'')\<lparr>gRevision := 1\<rparr>, vActor = ''admin'',
     vAction = ''publish'', vSourceRevision = None\<rparr>"

definition demo_more :: "cwrite list \<Rightarrow> cfg_table \<times> cfg_past \<Rightarrow> cfg_table \<times> cfg_past" where
  "demo_more ws s = (put_all ws (fst s), snd s \<union> all_puts ws)"

definition demo_boot :: "cfg_table \<times> cfg_past" where
  "demo_boot = demo_more (bootstrap_writes ''admin'' ''dev'') demo_table"

definition demo_published :: "cfg_table \<times> cfg_past" where
  "demo_published = demo_more (publish_writes demo_admin 0 demo_version) demo_boot"

lemma reached_more:
  "cfg_reached G s \<Longrightarrow> legal G (snd s) ws \<Longrightarrow> list_all (write_holds (fst s)) ws \<Longrightarrow>
   cfg_reached G (demo_more ws s)"
  unfolding demo_more_def by (cases s) (auto intro: cfg_more cfg_commit)

lemmas demo_tables = demo_published_def demo_boot_def demo_table_def demo_sync_def demo_more_def
  demo_fence_def demo_version_def demo_admin_def bootstrap_writes_def publish_writes_def
  grant_check_def sync_writes_def synced_def sync_changed_def default_config_def Let_def

lemma demo_boot_reached: "cfg_reached demo_cfglib demo_boot"
  unfolding demo_boot_def
  by (rule reached_more [OF demo_reached legal_bootstrap]) (simp add: demo_tables version_key_eq)

lemma demo_published_reached: "cfg_reached demo_cfglib demo_published"
  unfolding demo_published_def
proof (rule reached_more [OF demo_boot_reached])
  have "config_validate demo_cfglib ((default_config ''dev'')\<lparr>gRevision := 1\<rparr>) = None"
    by (rule validate_revision [OF demo_config_valid]) simp
  then show "legal demo_cfglib (snd demo_boot) (publish_writes demo_admin 0 demo_version)"
    by (intro legal_publish) (simp_all add: demo_version_def demo_admin_def max_int64_def default_config_def)
  have "fmt_revision 0 \<noteq> fmt_revision 1" by code_simp
  then show "list_all (write_holds (fst demo_boot)) (publish_writes demo_admin 0 demo_version)"
    by (simp add: demo_tables version_key_eq)
qed

theorem store_transactions_witness:
  "safe (\<lambda>q _. case q of
        RPublish g' n' v \<Rightarrow> safe (txn_ok demo_cfglib {}) (\<lambda>_ _. True) (cs_publish g' n' v) []
      | _ \<Rightarrow> True) (\<lambda>_ _. True) (cfg_publish demo_cfglib demo_admin 3 (default_config ''dev'') None Ret) []"
  using store_transactions [where n = 3 and H = "{}" and G = demo_cfglib and g = demo_admin
    and c = "default_config ''dev''" and source = None] by (simp add: max_int64_def)

text \<open>Once an administrator has published a configuration of an environment, no deployment's
defaults replace it: the stored item is marked as an override in every later table.\<close>

theorem override_permanent:
  "cfg_reached G s \<Longrightarrow> (config_key e, ConfigItem c (Some True) gen) \<in> snd s \<Longrightarrow>
   \<exists>c' gen'. fst s (config_key e) = Some (ConfigItem c' (Some True) gen')"
proof (induction arbitrary: c gen rule: cfg_reached.induct)
  case (cfg_more s s')
  from cfg_more(2) show ?case
  proof (rule cfg_step_cases)
    fix H ws db
    assume s: "s = (db, H)" "s' = (put_all ws db, H \<union> all_puts ws)" and l: "legal G H ws"
      and h: "list_all (write_holds db) ws"
    have old: "\<exists>c' gen'. db (config_key e) = Some (ConfigItem c' (Some True) gen')"
      if "(config_key e, ConfigItem c (Some True) gen) \<in> H"
      using cfg_more.IH [of c gen] that s by simp
    note new = cfg_more.prems [unfolded s snd_conv]
    show ?thesis
      using l
    proof cases
      case (legal_publish n v g)
      with new old show ?thesis
        by (auto simp: s publish_writes_def Let_def grant_check_def)
    next
      case (legal_grant a t at)
      with new old show ?thesis by (auto simp: s grant_writes_def Let_def grant_check_def)
    next
      case (legal_bootstrap sub env)
      with new old show ?thesis by (auto simp: s bootstrap_writes_def)
    next
      case (legal_sync_new d f)
      with new old h show ?thesis
        by (auto simp: s sync_writes_def Let_def split: if_splits)
    next
      case (legal_sync d i t f)
      with new old h show ?thesis
        by (auto simp: s sync_writes_def Let_def split: if_splits)
    qed
  qed
qed simp

theorem override_permanent_witness:
  "\<exists>c gen. fst demo_published (config_key ''dev'') = Some (ConfigItem c (Some True) gen)"
  by (rule override_permanent [OF demo_published_reached, of _ "vConfig demo_version" None])
    (simp add: demo_tables)

section \<open>Who may change grants\<close>

definition audited :: "cfg_table \<Rightarrow> cfg_past \<Rightarrow> grant \<Rightarrow> bool" where
  "audited db H g \<longleftrightarrow> (\<exists>a at ga. db (audit_key g) = Some (AuditItem a g at) \<and> a \<noteq> grSubject g \<and>
     (grant_key a (grEnvironment g), GrantItem ga) \<in> H \<and> grActive ga \<and> grManageGrants ga)"

definition grants_from :: "cfg_table \<Rightarrow> cfg_past \<Rightarrow> string \<Rightarrow> string \<Rightarrow> bool" where
  "grants_from db H e u0 \<longleftrightarrow> (\<forall>k g. (k, GrantItem g) \<in> H \<longrightarrow> grEnvironment g = e \<longrightarrow>
     k = grant_key (grSubject g) e \<and> (audited db H g \<or> db (marker_key e) \<noteq> None \<and> grSubject g = u0))"

lemma audit_stays:
  "legal G H ws \<Longrightarrow> list_all (write_holds db) ws \<Longrightarrow> db (audit_key g) = Some i \<Longrightarrow>
   put_all ws db (audit_key g) = Some i"
  by (cases rule: legal.cases, assumption)
    (auto simp: publish_writes_def grant_writes_def bootstrap_writes_def sync_writes_def
      grant_check_def Let_def)

lemma marker_stays: "db k \<noteq> None \<Longrightarrow> put_all ws db k \<noteq> None"
proof (induction ws arbitrary: db)
  case (Cons w ws)
  then have "put w db k \<noteq> None" by (cases w) auto
  with Cons.IH show ?case by simp
qed simp

lemma audited_stays:
  "legal G H ws \<Longrightarrow> list_all (write_holds db) ws \<Longrightarrow> audited db H g \<Longrightarrow>
   audited (put_all ws db) (H \<union> all_puts ws) g"
  unfolding audited_def using audit_stays by blast

lemma grants_grow:
  assumes l: "legal G H ws" and h: "list_all (write_holds db) ws" and g: "grants_from db H e u0"
    and u: "db (marker_key e) \<noteq> None \<Longrightarrow> u1 = u0"
    and new: "\<And>k g. (k, GrantItem g) \<in> all_puts ws \<Longrightarrow> grEnvironment g = e \<Longrightarrow>
      k = grant_key (grSubject g) e \<and> (audited (put_all ws db) (H \<union> all_puts ws) g \<or>
        put_all ws db (marker_key e) \<noteq> None \<and> grSubject g = u1)"
  shows "grants_from (put_all ws db) (H \<union> all_puts ws) e u1"
  unfolding grants_from_def
proof (intro allI impI)
  fix k x
  assume x: "(k, GrantItem x) \<in> H \<union> all_puts ws" "grEnvironment x = e"
  show "k = grant_key (grSubject x) e \<and> (audited (put_all ws db) (H \<union> all_puts ws) x \<or>
      put_all ws db (marker_key e) \<noteq> None \<and> grSubject x = u1)"
  proof (cases "(k, GrantItem x) \<in> H")
    case True
    with g x have "k = grant_key (grSubject x) e" and
      "audited db H x \<or> db (marker_key e) \<noteq> None \<and> grSubject x = u0"
      unfolding grants_from_def by blast+
    with u audited_stays [OF l h, of x] marker_stays [of db "marker_key e" ws] show ?thesis by blast
  qed (use new x in blast)
qed

lemma grants_stay:
  assumes "legal G H ws" "list_all (write_holds db) ws" "grants_from db H e u0"
    and "\<And>k g. (k, GrantItem g) \<notin> all_puts ws"
  shows "grants_from (put_all ws db) (H \<union> all_puts ws) e u0"
  by (rule grants_grow [OF assms(1-3)]) (use assms(4) in auto)

lemma grants_step:
  assumes l: "legal G H ws" and h: "list_all (write_holds db) ws" and k: "kept db H"
    and g: "grants_from db H e u0"
  shows "\<exists>u1. grants_from (put_all ws db) (H \<union> all_puts ws) e u1"
  using l
proof cases
  case (legal_publish n v q)
  have "grants_from (put_all ws db) (H \<union> all_puts ws) e u0"
    by (rule grants_stay [OF l h g])
      (auto simp: legal_publish(1) publish_writes_def Let_def grant_check_def)
  then show ?thesis ..
next
  case (legal_sync_new c f)
  have "grants_from (put_all ws db) (H \<union> all_puts ws) e u0"
    by (rule grants_stay [OF l h g]) (auto simp: legal_sync_new(1) sync_writes_def Let_def split: if_splits)
  then show ?thesis ..
next
  case (legal_sync c i s f)
  have "grants_from (put_all ws db) (H \<union> all_puts ws) e u0"
    by (rule grants_stay [OF l h g]) (auto simp: legal_sync(1) sync_writes_def Let_def split: if_splits)
  then show ?thesis ..
next
  case (legal_grant a t at)
  let ?t = "next_grant t" and ?db = "put_all ws db" and ?H = "H \<union> all_puts ws"
  have t: "grSubject ?t = grSubject t" "grEnvironment ?t = grEnvironment t" by (simp_all add: next_grant_def)
  have m: "grEnvironment a = grEnvironment t" "grSubject a \<noteq> grSubject t"
    using legal_grant(2) by (simp_all add: may_grant_def)
  have ps: "all_puts ws = {(grant_key (grSubject t) (grEnvironment t), GrantItem ?t),
      (audit_key ?t, AuditItem (grSubject a) ?t at)}"
    by (simp add: legal_grant(1) grant_writes_def Let_def grant_check_def t insert_commute)
  obtain ga where ga: "db (grant_key (grSubject a) (grEnvironment a)) = Some (GrantItem ga)"
      "grActive ga" "grManageGrants ga"
    using h by (auto simp: legal_grant(1) grant_writes_def Let_def grant_check_def
        split: option.splits cfg_item.splits)
  have "(grant_key (grSubject a) (grEnvironment t), GrantItem ga) \<in> H"
    using ga(1) k unfolding kept_def m(1) by blast
  moreover have "?db (audit_key ?t) = Some (AuditItem (grSubject a) ?t at)"
    by (simp add: legal_grant(1) grant_writes_def Let_def grant_check_def)
  ultimately have "audited ?db ?H ?t"
    using ga(2,3) m(2) by (auto simp: audited_def t)
  then have "grants_from ?db ?H e u0"
    by (intro grants_grow [OF l h g]) (auto simp: ps t)
  then show ?thesis ..
next
  case (legal_bootstrap sub env)
  let ?db = "put_all ws db" and ?H = "H \<union> all_puts ws"
  have ps: "all_puts ws = {(marker_key env, MarkerItem), (grant_key sub env,
      GrantItem \<lparr>grSubject = sub, grEnvironment = env, grRevision = 1, grActive = True, grManageGrants = True\<rparr>)}"
    by (auto simp: legal_bootstrap bootstrap_writes_def)
  have m: "db (marker_key env) = None" "?db (marker_key env) \<noteq> None"
    using h by (simp_all add: legal_bootstrap bootstrap_writes_def)
  have "grants_from ?db ?H e (if env = e then sub else u0)"
    by (rule grants_grow [OF l h g]) (use m in \<open>auto simp: ps\<close>)
  then show ?thesis ..
qed

text \<open>C31: in every reachable table, every grant an environment has ever had is either the first
administrator's, one subject per environment and only after the bootstrap marker, or has its audit
record, written by someone other than the grantee who held an active managing grant of the same
environment.\<close>

theorem grants_authorised:
  "cfg_reached G s \<Longrightarrow> \<exists>u0. grants_from (fst s) (snd s) e u0"
proof (induction rule: cfg_reached.induct)
  case cfg_empty
  show ?case by (simp add: grants_from_def)
next
  case (cfg_more s s')
  then obtain u0 where "grants_from (fst s) (snd s) e u0" by blast
  with cfg_more(2) reached_kept [OF cfg_more(1)] show ?case
    by (elim cfg_step_cases) (auto dest: grants_step)
qed

theorem grants_authorised_witness:
  "\<exists>u0. grants_from (fst demo_published) (snd demo_published) ''dev'' u0 \<and>
     (grant_key ''admin'' ''dev'', GrantItem demo_admin) \<in> snd demo_published"
  using grants_authorised [OF demo_published_reached, of "''dev''"] by (auto simp: demo_tables)

section \<open>What is served\<close>

text \<open>the public endpoint answers 200 only with the stored configuration of its own
environment that passes validation, its onboarding policy filled in; every other answer carries
one of the two fixed error codes, and the repository is read at most once.\<close>

theorem public_served:
  "safe (\<lambda>q h. q = RGet env \<and> h = [])
     (\<lambda>s h. (case rsBody s of
        PublicConfig c \<Rightarrow> rsStatus s = 200 \<and> gEnvironment c = env \<and> gOnboarding c \<noteq> None \<and>
          (\<exists>r c0. h = [(RGet env, r)] \<and> g_config r = Inr c0 \<and> c = normalized c0 \<and>
             config_validate G c0 = None)
      | PublicError code \<Rightarrow> (rsStatus s, code) \<in> {(404, ''not_found''), (503, ''config_unavailable'')}))
     (public_handle G env rq) []"
  by (auto simp: public_handle_def repo_get_def normalized_def split: sum.split)

end
