(* ===== verification/RegistryProps.thy ===== *)
theory RegistryProps
  imports Registry
begin

text \<open>
  The registry's lease. For every interleaving of deployments: each revision is leased to one
  token, an update that commits under a lease commits under the latest one, and what is listed
  was validated and published under a lease. Then the course of one deployment against the
  table, with its retries and a competitor.
\<close>

section \<open>Names\<close>

lemma split_on_chars:
  "list_all (\<lambda>p. list_all P p) (split_on sep s) \<Longrightarrow> list_all (\<lambda>c. P c \<or> c = sep) s"
  by (induction sep s rule: split_on.induct) (auto split: if_splits list.splits)

text \<open>Every environment name the registry accepts is one the configuration accepts.\<close>

lemma registry_environment_valid:
  assumes "reg_valid_environment s"
  shows "valid_environment s"
proof -
  have "list_all (list_all lower_alnum) (split_on (CHR ''-'') s)"
    using assms by (auto simp: reg_valid_environment_def environment_name_def list_all_iff)
  from split_on_chars [OF this] show ?thesis
    using assms by (auto simp: reg_valid_environment_def environment_name_def valid_environment_def
        lower_alnum_def list_all_iff)
qed

section \<open>The updates the service submits\<close>

definition sound_entry :: "golib \<Rightarrow> reglib \<Rightarrow> string \<Rightarrow> entry \<Rightarrow> bool" where
  "sound_entry L R ident e \<longleftrightarrow> eID e = ident \<and> reg_validate L (eConfig e) \<and>
     eConfigHash e = reg_hash L R (eConfig e) \<and> 1 \<le> eRevision e"

inductive reg_legal :: "golib \<Rightarrow> reglib \<Rightarrow> string \<Rightarrow> reg_item set \<Rightarrow> reg_update \<Rightarrow> bool"
  for L :: golib and R :: reglib and ident :: string and H :: "reg_item set"
where
  legal_acquire: "deployment_token t \<Longrightarrow> reg_legal L R ident H (UAcquire t)"
| legal_new: "sound_entry L R ident e \<Longrightarrow> eRevision e = n \<Longrightarrow>
    reg_legal L R ident H (UFinish t n (FPublish e))"
| legal_same: "i \<in> H \<Longrightarrow> riEntry i = Some e \<Longrightarrow> reg_legal L R ident H (UFinish t n (FPublish e))"
| legal_retire: "reg_legal L R ident H (UFinish t n FRetire)"
| legal_delete: "reg_legal L R ident H (UFinish t n FDelete)"
| legal_abandon: "reg_legal L R ident H (UFinish t n FAbandon)"

definition reg_ok :: "golib \<Rightarrow> reglib \<Rightarrow> string \<Rightarrow> reg_item set \<Rightarrow> reg_call \<Rightarrow>
    (reg_call \<times> reg_resp) list \<Rightarrow> bool" where
  "reg_ok L R ident H q h = (case q of
       GUpdate i u \<Rightarrow> i = ident \<and> reg_valid_environment ident \<and>
         reg_legal L R ident (H \<union> {x. \<exists>r. (GGet ident, r) \<in> set h \<and> rg_item r = Inr (Some x)}) u
     | GGet i \<Rightarrow> i = ident
     | GSync d f \<Rightarrow> fnEnvironment f = ident \<and> reg_valid_environment ident
     | _ \<Rightarrow> True)"

lemma published_entry_legal:
  assumes "reg_validate L (chConfig c)" "1 \<le> chRevision c" "chRevision c = n"
    and "\<And>e. rrEntry (reg_view i) = Some e \<Longrightarrow> \<exists>x\<in>H. riEntry x = Some e"
  shows "reg_legal L R ident H (UFinish t n (FPublish (published_entry L R ident c (reg_view i) k)))"
proof (cases "\<exists>e. rrEntry (reg_view i) = Some e \<and> \<not> rrDeleted (reg_view i) \<and>
    eConfigHash e = reg_hash L R (chConfig c)")
  case True
  then obtain e where e: "rrEntry (reg_view i) = Some e" "\<not> rrDeleted (reg_view i)"
    "eConfigHash e = reg_hash L R (chConfig c)" by blast
  from assms(4) [OF e(1)] obtain x where "x \<in> H" "riEntry x = Some e" by blast
  with e show ?thesis by (simp add: published_entry_def legal_same)
next
  case False
  with assms(1-3) show ?thesis
    by (auto simp: published_entry_def Let_def sound_entry_def intro!: legal_new split: option.split)
qed

lemma view_entry: "rrEntry (reg_view i) = Some e \<Longrightarrow> \<exists>x. i = Some x \<and> riEntry x = Some e"
  by (auto simp: reg_view_def split: option.splits)

lemma finish_calls:
  assumes "reg_valid_environment ident"
  shows "safe (reg_ok L R ident H) (\<lambda>_ _. True) (reg_finish_change L R ident c) []"
proof -
  have p: "reg_legal L R ident (H \<union> {x. i = Some x})
      (UFinish (chToken c) (chRevision c) (FPublish (published_entry L R ident c (reg_view i) k)))"
    if "reg_validate L (chConfig c)" "\<not> chRevision c < 1" for i k
    by (rule published_entry_legal) (use that in \<open>auto dest!: view_entry\<close>)
  have o: "reg_legal L R ident X (UFinish t n FRetire)" "reg_legal L R ident X (UFinish t n FDelete)"
    "reg_legal L R ident X (UFinish t n FAbandon)" for X t n
    by (rule legal_retire legal_delete legal_abandon)+
  show ?thesis
    using assms p o
    by (simp add: reg_finish_change_def reg_get_def reg_commit_def reg_ok_def split: sum.split)
qed

text \<open>Whatever the table answers, a change submits only updates of its own, valid environment,
and only legal ones: a lease for a well-formed token, and under a receipt an entry that is valid,
hashed and numbered with the receipt's revision or is the entry just read.\<close>

theorem registry_updates:
  "safe (reg_ok L R ident H) (\<lambda>_ _. True) (reg_change L R runtime tbl ident c) []"
proof (cases "reg_valid_environment ident")
  case True
  have "safe (reg_ok L R ident H) (\<lambda>_ _. True) (reg_begin ident t) []" for t
    using True by (auto simp: reg_begin_def reg_get_def reg_ok_def legal_acquire split: sum.split)
  moreover have "safe (reg_ok L R ident H) (\<lambda>_ _. True) (reg_defaults tbl ident c) []"
    using True by (auto simp: reg_defaults_def reg_ok_def split: option.split)
  ultimately show ?thesis using finish_calls [OF True] by (simp add: reg_change_def)
qed (simp add: reg_change_def)

section \<open>All interleavings of deployments\<close>

record lease_state =
  lsItem :: "reg_item option"
  lsPast :: "reg_item set" \<comment> \<open>items the table has held\<close>
  lsLeases :: "(int \<times> string) set" \<comment> \<open>the leases taken: revision and token\<close>

fun lease_of :: "reg_update \<Rightarrow> reg_item \<Rightarrow> (int \<times> string) set" where
  "lease_of (UAcquire t) x = {(riRevision x, t)}"
| "lease_of (UFinish t n f) x = {}"

definition committed :: "reg_update \<Rightarrow> lease_state \<Rightarrow> lease_state" where
  "committed u s = (let x = reg_apply u (lsItem s) in
     \<lparr>lsItem = Some x, lsPast = insert x (lsPast s), lsLeases = lease_of u x \<union> lsLeases s\<rparr>)"

inductive reg_reached :: "golib \<Rightarrow> reglib \<Rightarrow> string \<Rightarrow> lease_state \<Rightarrow> bool"
  for L :: golib and R :: reglib and ident :: string where
  reg_none: "reg_reached L R ident \<lparr>lsItem = None, lsPast = {}, lsLeases = {}\<rparr>"
| reg_commits: "reg_reached L R ident s \<Longrightarrow> reg_legal L R ident (lsPast s) u \<Longrightarrow>
    reg_holds u (lsItem s) \<Longrightarrow> reg_reached L R ident (committed u s)"

definition item_revision_of :: "reg_item option \<Rightarrow> int" where
  "item_revision_of i = (case i of None \<Rightarrow> 0 | Some x \<Rightarrow> riRevision x)"

definition leases_ok :: "golib \<Rightarrow> reglib \<Rightarrow> string \<Rightarrow> lease_state \<Rightarrow> bool" where
  "leases_ok L R ident s \<longleftrightarrow>
     (\<forall>n t t'. (n, t) \<in> lsLeases s \<longrightarrow> (n, t') \<in> lsLeases s \<longrightarrow> t = t') \<and>
     (\<forall>n t. (n, t) \<in> lsLeases s \<longrightarrow> 1 \<le> n \<and> n \<le> item_revision_of (lsItem s)) \<and>
     0 \<le> item_revision_of (lsItem s) \<and>
     (\<forall>x t. lsItem s = Some x \<longrightarrow> riLock x = Some t \<longrightarrow> (riRevision x, t) \<in> lsLeases s) \<and>
     (\<forall>x. lsItem s = Some x \<longrightarrow> x \<in> lsPast s) \<and>
     (\<forall>x. x \<in> lsPast s \<longrightarrow> riRevision x \<le> item_revision_of (lsItem s)) \<and>
     (\<forall>x e. x \<in> lsPast s \<longrightarrow> riEntry x = Some e \<longrightarrow>
        sound_entry L R ident e \<and> eRevision e \<le> riRevision x)"

lemma leases_okI:
  assumes "\<And>n t t'. (n, t) \<in> K \<Longrightarrow> (n, t') \<in> K \<Longrightarrow> t = t'"
    and "\<And>n t. (n, t) \<in> K \<Longrightarrow> 1 \<le> n \<and> n \<le> riRevision y"
    and "0 \<le> riRevision y" "\<And>t. riLock y = Some t \<Longrightarrow> (riRevision y, t) \<in> K" "y \<in> P"
    and "\<And>x. x \<in> P \<Longrightarrow> riRevision x \<le> riRevision y"
    and "\<And>x e. x \<in> P \<Longrightarrow> riEntry x = Some e \<Longrightarrow> sound_entry L R ident e \<and> eRevision e \<le> riRevision x"
  shows "leases_ok L R ident \<lparr>lsItem = Some y, lsPast = P, lsLeases = K\<rparr>"
  using assms unfolding leases_ok_def item_revision_of_def by simp

lemma legal_entry_sound:
  assumes "leases_ok L R ident s" "reg_legal L R ident (lsPast s) (UFinish t n (FPublish e))"
    and "lsItem s = Some x" "riRevision x = n"
  shows "sound_entry L R ident e \<and> eRevision e \<le> n"
  using assms(2)
proof cases
  case legal_new
  then show ?thesis by simp
next
  case (legal_same i)
  with assms show ?thesis unfolding leases_ok_def item_revision_of_def by fastforce
qed

lemma leases_acquire:
  assumes "leases_ok L R ident s" "reg_holds (UAcquire t) (lsItem s)"
  shows "leases_ok L R ident (committed (UAcquire t) s)"
proof (cases "lsItem s")
  case None
  with assms show ?thesis
    by (auto simp: leases_ok_def committed_def Let_def item_revision_of_def reg_empty_def)
next
  case (Some x)
  let ?y = "x\<lparr>riLock := Some t, riRevision := riRevision x + 1\<rparr>"
  have c: "committed (UAcquire t) s = \<lparr>lsItem = Some ?y, lsPast = insert ?y (lsPast s),
      lsLeases = insert (riRevision x + 1, t) (lsLeases s)\<rparr>"
    using Some by (simp add: committed_def Let_def)
  have l: "1 \<le> n \<and> n \<le> riRevision x" if "(n, t') \<in> lsLeases s" for n t'
    using assms(1) that Some by (auto simp: leases_ok_def item_revision_of_def)
  have past: "riRevision y \<le> riRevision x" if "y \<in> lsPast s" for y
    using assms(1) that Some by (auto simp: leases_ok_def item_revision_of_def)
  have r: "0 \<le> riRevision x" "x \<in> lsPast s"
    using assms(1) Some by (auto simp: leases_ok_def item_revision_of_def)
  have e: "sound_entry L R ident e \<and> eRevision e \<le> riRevision y" if "y \<in> lsPast s" "riEntry y = Some e" for y e
    using assms(1) that by (auto simp: leases_ok_def)
  show ?thesis
    unfolding c
  proof (rule leases_okI)
    show "u = u'" if "(n, u) \<in> insert (riRevision x + 1, t) (lsLeases s)"
      "(n, u') \<in> insert (riRevision x + 1, t) (lsLeases s)" for n u u'
      using that l assms(1) by (fastforce simp: leases_ok_def)
    show "1 \<le> n \<and> n \<le> riRevision ?y" if "(n, u) \<in> insert (riRevision x + 1, t) (lsLeases s)" for n u
      using that l r by fastforce
    show "riRevision z \<le> riRevision ?y" if "z \<in> insert ?y (lsPast s)" for z
      using that past by fastforce
    show "sound_entry L R ident d \<and> eRevision d \<le> riRevision z"
      if "z \<in> insert ?y (lsPast s)" "riEntry z = Some d" for z d
      using that e e [OF r(2), of d] by fastforce
  qed (use r in simp_all)
qed

lemma leases_finish:
  assumes "leases_ok L R ident s" "reg_holds (UFinish t n f) (lsItem s)"
    and "reg_legal L R ident (lsPast s) (UFinish t n f)"
  shows "leases_ok L R ident (committed (UFinish t n f) s)"
proof -
  from assms(2) obtain x where x: "lsItem s = Some x" "riLock x = Some t" "riRevision x = n"
    by (auto split: option.splits)
  let ?y = "reg_finished t f x"
  have y: "riRevision ?y = n" "riLock ?y = None \<or> riLock ?y = Some t"
    using x by (auto simp: reg_finished_def split: reg_finish.split)
  have "sound_entry L R ident e \<and> eRevision e \<le> n" if "riEntry ?y = Some e" for e
  proof (cases "riEntry x = Some e")
    case True
    with assms(1) x show ?thesis unfolding leases_ok_def by blast
  next
    case False
    with that have "f = FPublish e"
      by (auto simp: reg_finished_def split: reg_finish.splits)
    with legal_entry_sound [OF assms(1)] assms(3) x show ?thesis by blast
  qed
  then have e: "sound_entry L R ident d \<and> eRevision d \<le> riRevision ?y" if "riEntry ?y = Some d" for d
    using that y(1) by blast
  have c: "committed (UFinish t n f) s = \<lparr>lsItem = Some ?y, lsPast = insert ?y (lsPast s), lsLeases = lsLeases s\<rparr>"
    using x by (simp add: committed_def Let_def)
  have o: "1 \<le> m \<and> m \<le> n" if "(m, u) \<in> lsLeases s" for m u
    using assms(1) that x by (auto simp: leases_ok_def item_revision_of_def)
  show ?thesis
    unfolding c
  proof (rule leases_okI)
    show "riRevision z \<le> riRevision ?y" if "z \<in> insert ?y (lsPast s)" for z
      using that assms(1) x y by (auto simp: leases_ok_def item_revision_of_def)
    show "sound_entry L R ident d \<and> eRevision d \<le> riRevision z"
      if "z \<in> insert ?y (lsPast s)" "riEntry z = Some d" for z d
      using that assms(1) e by (auto simp: leases_ok_def)
    show "(riRevision ?y, u) \<in> lsLeases s" if "riLock ?y = Some u" for u
      using that assms(1) x y by (auto simp: leases_ok_def)
    show "u = u'" if "(m, u) \<in> lsLeases s" "(m, u') \<in> lsLeases s" for m u u'
      using that assms(1) by (auto simp: leases_ok_def)
    show "0 \<le> riRevision ?y"
      using assms(1) x y by (auto simp: leases_ok_def item_revision_of_def)
  qed (use o y in auto)
qed

lemma reached_leases_ok: "reg_reached L R ident s \<Longrightarrow> leases_ok L R ident s"
proof (induction rule: reg_reached.induct)
  case (reg_commits s u)
  then show ?case by (cases u) (simp_all add: leases_acquire leases_finish del: reg_holds.simps)
qed (simp add: leases_ok_def item_revision_of_def)

text \<open>C33: in every interleaving of deployments of an environment, no revision is leased twice, an
update under a receipt takes effect only if the receipt is the latest lease, and a listed entry is
valid, hashed, of this environment and not newer than the lease.\<close>

theorem lease_fenced:
  assumes "reg_reached L R ident s"
  shows "(\<forall>n t t'. (n, t) \<in> lsLeases s \<longrightarrow> (n, t') \<in> lsLeases s \<longrightarrow> t = t') \<and>
    (\<forall>n t f. reg_holds (UFinish t n f) (lsItem s) \<longrightarrow>
       (n, t) \<in> lsLeases s \<and> (\<forall>m t'. (m, t') \<in> lsLeases s \<longrightarrow> m \<le> n)) \<and>
    (\<forall>x e. lsItem s = Some x \<longrightarrow> riEntry x = Some e \<longrightarrow>
       sound_entry L R ident e \<and> eRevision e \<le> riRevision x)"
  using reached_leases_ok [OF assms] unfolding leases_ok_def item_revision_of_def
  by (auto split: option.splits)

section \<open>One deployment\<close>

type_synonym reg_table = "string \<Rightarrow> reg_item option"

text \<open>The table as a handler: the environments of \<open>envs\<close> are what a scan returns, in one page.\<close>

definition blank :: reg_resp where
  "blank = \<lparr>rg_item = Inl CondFailed, rg_updated = Inl CondFailed, rg_page = Inl CondFailed,
     rg_sync = None, rg_unix = 0\<rparr>"

fun reg_serve :: "string list \<Rightarrow> reg_call \<Rightarrow> reg_table \<Rightarrow> reg_resp \<times> reg_table" where
  "reg_serve envs (GGet i) db = (blank\<lparr>rg_item := Inr (db i)\<rparr>, db)"
| "reg_serve envs (GUpdate i u) db =
     (if reg_holds u (db i)
      then (blank\<lparr>rg_updated := Inr (reg_apply u (db i))\<rparr>, db(i \<mapsto> reg_apply u (db i)))
      else (blank, db))"
| "reg_serve envs (GScan start) db =
     (blank\<lparr>rg_page := Inr (map (\<lambda>x. Some (riEntry x, riDeleted x)) (List.map_filter db envs), None)\<rparr>, db)"
| "reg_serve envs (GSync d f) db = (blank, db)"
| "reg_serve envs GNow db = (blank, db)"

definition deployment :: "string \<Rightarrow> string \<Rightarrow> int \<Rightarrow> configuration \<Rightarrow> change" where
  "deployment op token n c = \<lparr>chDefaults = None, chOperation = op, chToken = token, chRevision = n, chConfig = c\<rparr>"

lemma token_nonempty: "deployment_token t \<Longrightarrow> t \<noteq> ''''"
  by (auto simp: deployment_token_def)

lemma run_begin:
  assumes "deployment_token t" "reg_valid_environment ident" "reg_holds (UAcquire t) (db ident)"
  shows "run (reg_serve envs) (reg_change L R rt tbl ident (deployment ''begin'' t m c)) db =
    (Some (Inr (Receipt t (riRevision (reg_apply (UAcquire t) (db ident))))),
     db(ident \<mapsto> reg_apply (UAcquire t) (db ident)))"
  using assms token_nonempty [OF assms(1)]
  by (auto simp: reg_change_def deployment_def reg_begin_def reg_get_def reg_view_def go_string_def
      blank_def Let_def split: option.splits)

lemma run_begin_busy:
  assumes "deployment_token t" "reg_valid_environment ident" "db ident = Some x"
    "riLock x = Some u" "u \<noteq> t"
  shows "run (reg_serve envs) (reg_change L R rt tbl ident (deployment ''begin'' t m c)) db =
    (Some (Inl CondFailed), db)"
  using assms token_nonempty [OF assms(1)]
  by (auto simp: reg_change_def deployment_def reg_begin_def reg_get_def reg_view_def go_string_def
      blank_def Let_def split: option.splits)

lemma run_publish:
  assumes "reg_valid_environment ident" "deployment_token t" "1 \<le> n" "reg_validate L c"
    and "db ident = Some x" "riLock x = Some t" "riRevision x = n"
  shows "run (reg_serve envs) (reg_change L R rt tbl ident (deployment ''publish'' t n c)) db =
    (Some (Inr ChangeOk), db(ident \<mapsto> reg_finished t
       (FPublish (published_entry L R ident (deployment ''publish'' t n c) (reg_view (Some x)) 0)) x))"
  using assms token_nonempty [OF assms(2)]
  by (simp add: reg_change_def deployment_def reg_finish_change_def reg_get_def reg_view_def go_string_def
      already_done_def blank_def reg_commit_def)

lemma run_publish_again:
  assumes "reg_valid_environment ident" "deployment_token t" "1 \<le> n"
    and "db ident = Some x" "riLock x = None" "riLastToken x = Some t" "riRevision x = n"
    and "\<not> riDeleted x" "riEntry x = Some e" "eConfigHash e = reg_hash L R c"
  shows "run (reg_serve envs) (reg_change L R rt tbl ident (deployment ''publish'' t n c)) db =
    (Some (Inr ChangeOk), db)"
  using assms token_nonempty [OF assms(2)]
  by (simp add: reg_change_def deployment_def reg_finish_change_def reg_get_def reg_view_def go_string_def
      already_done_def blank_def reg_commit_def)

text \<open>a deployment with a fresh token of an environment that is not leased gets the next
revision; while it runs any other token is refused and changes nothing; its publication succeeds,
releases the lease and lists an entry with the configuration's hash; and repeating the publication
(after a lost answer) succeeds again without changing anything.\<close>

theorem deployment_completes:
  assumes "reg_valid_environment ident" "deployment_token t" "reg_validate L c"
    and free: "reg_holds (UAcquire t) (db ident)" and pos: "0 \<le> item_revision_of (db ident)"
  shows "\<exists>n x y e.
    run (reg_serve envs) (reg_change L R rt tbl ident (deployment ''begin'' t m c)) db =
      (Some (Inr (Receipt t n)), db(ident \<mapsto> x)) \<and> n = item_revision_of (db ident) + 1 \<and>
    (\<forall>t'. deployment_token t' \<longrightarrow> t' \<noteq> t \<longrightarrow>
       run (reg_serve envs) (reg_change L R rt tbl ident (deployment ''begin'' t' m c)) (db(ident \<mapsto> x)) =
         (Some (Inl CondFailed), db(ident \<mapsto> x))) \<and>
    run (reg_serve envs) (reg_change L R rt tbl ident (deployment ''publish'' t n c)) (db(ident \<mapsto> x)) =
      (Some (Inr ChangeOk), db(ident \<mapsto> y)) \<and>
    riLock y = None \<and> \<not> riDeleted y \<and> riEntry y = Some e \<and> eConfigHash e = reg_hash L R c \<and>
    run (reg_serve envs) (reg_change L R rt tbl ident (deployment ''publish'' t n c)) (db(ident \<mapsto> y)) =
      (Some (Inr ChangeOk), db(ident \<mapsto> y))"
proof -
  let ?n = "item_revision_of (db ident) + 1"
  define x where "x = reg_apply (UAcquire t) (db ident)"
  have x: "riLock x = Some t" "riRevision x = ?n"
    by (simp_all add: x_def Let_def item_revision_of_def reg_empty_def split: option.split)
  let ?e = "published_entry L R ident (deployment ''publish'' t ?n c) (reg_view (Some x)) 0"
  let ?y = "reg_finished t (FPublish ?e) x"
  have h: "eConfigHash ?e = reg_hash L R c"
    by (simp add: published_entry_def deployment_def Let_def split: option.split)
  have b: "run (reg_serve envs) (reg_change L R rt tbl ident (deployment ''begin'' t m c)) db =
      (Some (Inr (Receipt t ?n)), db(ident \<mapsto> x))"
    using run_begin [of t ident db, OF assms(2,1) free] x(2) by (simp add: x_def)
  have "run (reg_serve envs) (reg_change L R rt tbl ident (deployment ''begin'' t' m c)) (db(ident \<mapsto> x)) =
      (Some (Inl CondFailed), db(ident \<mapsto> x))" if "deployment_token t'" "t' \<noteq> t" for t'
    by (rule run_begin_busy [OF that(1) assms(1) _ x(1)]) (use that in auto)
  moreover have "run (reg_serve envs) (reg_change L R rt tbl ident (deployment ''publish'' t ?n c)) (db(ident \<mapsto> x)) =
      (Some (Inr ChangeOk), db(ident \<mapsto> ?y))"
    using run_publish [OF assms(1,2) _ assms(3) _ x, of "db(ident \<mapsto> x)"] pos by simp
  moreover have "run (reg_serve envs) (reg_change L R rt tbl ident (deployment ''publish'' t ?n c)) (db(ident \<mapsto> ?y)) =
      (Some (Inr ChangeOk), db(ident \<mapsto> ?y))"
    by (rule run_publish_again [OF assms(1,2), where x = ?y and e = ?e])
      (use pos x h in \<open>simp_all add: reg_finished_def\<close>)
  ultimately show ?thesis using b h
    by (intro exI [of _ ?n] exI [of _ x] exI [of _ ?y] exI [of _ ?e]) (simp add: reg_finished_def)
qed

definition demo_reglib :: reglib where
  "demo_reglib = \<lparr>marshal_configuration = APIURL, rfc3339_seconds = show_int, change_decoder = (\<lambda>b. None)\<rparr>"

definition demo_configuration :: configuration where
  "demo_configuration = \<lparr>APIURL = ''https://a'', AWSRegion = ''us-east-1'',
     CognitoUserPoolID = ''us-east-1_x'', CognitoClientID = ''client'', FeatureIDCapture = True\<rparr>"

definition demo_token :: string where
  "demo_token = replicate 48 (CHR ''a'')"

lemma demo_registry: "reg_valid_environment ''dev''" "deployment_token demo_token"
  "reg_validate demo_lib demo_configuration"
  by (code_simp, code_simp, code_simp)

theorem deployment_completes_witness:
  "\<exists>x. run (reg_serve []) (reg_change demo_lib demo_reglib False ''t'' ''dev''
      (deployment ''begin'' demo_token 0 demo_configuration)) Map.empty =
    (Some (Inr (Receipt demo_token 1)), Map.empty(''dev'' \<mapsto> x))"
  using deployment_completes [OF demo_registry, of Map.empty "[]" demo_reglib False "''t''" 0]
  by (auto simp: item_revision_of_def)

definition demo_leased :: lease_state where
  "demo_leased = committed (UAcquire demo_token) \<lparr>lsItem = None, lsPast = {}, lsLeases = {}\<rparr>"

theorem lease_fenced_witness: "(1, demo_token) \<in> lsLeases demo_leased"
proof -
  have "reg_reached demo_lib demo_reglib ''dev'' demo_leased"
    unfolding demo_leased_def
    by (rule reg_commits [OF reg_none]) (simp_all add: legal_acquire demo_registry)
  from conjunct1 [OF conjunct2 [OF lease_fenced [OF this]]]
  have "reg_holds (UFinish demo_token 1 FDelete) (lsItem demo_leased) \<longrightarrow> (1, demo_token) \<in> lsLeases demo_leased"
    by blast
  then show ?thesis by (simp add: demo_leased_def committed_def reg_empty_def Let_def)
qed

end
