(* ===== verification/SigninProps.thy ===== *)
theory SigninProps
  imports Signin
begin

text \<open>
  What sign-in and enrollment promise, whatever the provider, the configuration reader and the
  stores answer: whose password is set and after which checks, what a completed onboarding rests
  on, and where a session comes from.
\<close>

section \<open>Text and account\<close>

lemma digit_set: "is_digit c \<longleftrightarrow> c \<in> set ''0123456789''"
proof -
  have "\<forall>c. is_digit c \<longleftrightarrow> c \<in> set ''0123456789''" by code_simp
  then show ?thesis by blast
qed

lemma digits_only: "trim_set s ''0123456789'' = '''' \<longleftrightarrow> list_all is_digit s"
  unfolding trim_set_empty_iff list_all_iff digit_set by blast

section \<open>Setting a password\<close>

text \<open>The provider's answer \<open>u\<close> for \<open>token\<close> identifies \<open>name\<close> with the subject \<open>sub\<close>.\<close>

definition identifies :: "silib \<Rightarrow> enrollment \<Rightarrow> string \<Rightarrow> user_output \<Rightarrow> string \<Rightarrow> string \<Rightarrow> bool" where
  "identifies J s token u name sub \<longleftrightarrow> uoUsername u = name \<and> name \<noteq> '''' \<and> sub \<noteq> '''' \<and>
     attribute ''sub'' (uoAttributes u) = sub \<and> attribute ''email_verified'' (uoAttributes u) = ''true'' \<and>
     (\<exists>cl. token_claims J token = Some cl \<and> jwIssuer cl = enIssuer s \<and> jwClient cl = enClientID s \<and>
        jwUse cl = ''access'' \<and> jwSubject cl = sub)"

lemma account_of_identifies:
  "account_of J s token out = Some (name, sub) \<Longrightarrow> \<exists>u. out = Some u \<and> identifies J s token u name sub"
  by (auto simp: account_of_def identifies_def Let_def split: option.splits if_splits)

definition user_read :: "silib \<Rightarrow> enrollment \<Rightarrow> string \<Rightarrow> si_call \<times> si_resp \<Rightarrow> string \<Rightarrow> string \<Rightarrow> bool" where
  "user_read J s token e name sub \<longleftrightarrow> fst e = SGetUser token \<and>
     (\<exists>u. s_user (snd e) = Inr (Some u) \<and> identifies J s token u name sub)"

definition policy_read :: "'c cfglib \<Rightarrow> enrollment \<Rightarrow> si_call \<times> si_resp \<Rightarrow> onboarding \<Rightarrow> bool" where
  "policy_read G s e p \<longleftrightarrow> fst e = SConfig (enEnvironment s) \<and>
     (\<exists>c. s_config (snd e) = Inr c \<and> gEnvironment c = enEnvironment s \<and> config_validate G c = None \<and>
        p = effective_onboarding c)"

lemma safe_user:
  assumes "P (SGetUser token) h"
    and "\<And>h'. safe P Q (k (Inl Unauthenticated)) h'" "\<And>h'. safe P Q (k (Inl Unavailable)) h'"
    and "\<And>e name sub. user_read J s token e name sub \<Longrightarrow> safe P Q (k (Inr (name, sub))) (h @ [e])"
  shows "safe P Q (en_user J s token k) h"
proof -
  have "safe P Q (k (Inr a)) (h @ [(SGetUser token, r)])"
    if "s_user r = Inr out" "account_of J s token out = Some a" for r out a
    using account_of_identifies [of J s token out "fst a" "snd a"] that
      assms(4) [of "(SGetUser token, r)" "fst a" "snd a"] by (auto simp: user_read_def)
  with assms(1-3) show ?thesis
    unfolding en_user_def by (auto split: sum.split option.split)
qed

lemma safe_policy:
  assumes "P (SConfig (enEnvironment s)) h" "\<And>h'. safe P Q (k (Inl Unavailable)) h'"
    and "\<And>e p. policy_read G s e p \<Longrightarrow> safe P Q (k (Inr p)) (h @ [e])"
  shows "safe P Q (en_policy G s k) h"
proof -
  have "safe P Q (k (Inr (effective_onboarding c))) (h @ [(SConfig (enEnvironment s), r)])"
    if "s_config r = Inr c" "gEnvironment c = enEnvironment s" "config_validate G c = None" for r c
    using assms(3) [of "(SConfig (enEnvironment s), r)"] that by (auto simp: policy_read_def)
  with assms(1,2) show ?thesis
    unfolding en_policy_def by (auto split: sum.split option.split)
qed

text \<open>C34: a password is only set for the user the provider names for the token, with a verified
email and the claims of this pool, client and subject, after the validated configuration allowed
passwords and the password passed its policy; the fact is recorded only for that subject after the
provider accepted; and success is reported only when both succeeded.\<close>

theorem password_set_authorised:
  "safe
    (\<lambda>q h. case q of
       SSetPassword pool name pw \<Rightarrow> pool = enPoolID s \<and> pw = password \<and>
         (\<exists>e f sub p. h = [e, f] \<and> user_read J s token e name sub \<and> policy_read G s f p \<and>
            obPassword p \<noteq> Disabled \<and> password_check (obPasswordPolicy p) password = None)
     | SFactsMark sub pw captured \<Rightarrow> pw \<and> \<not> captured \<and>
         (\<exists>e f name r. h = [e, f, (SSetPassword (enPoolID s) name password, r)] \<and> s_done r \<and>
            user_read J s token e name sub)
     | SGetUser t \<Rightarrow> t = token \<and> h = []
     | SConfig env \<Rightarrow> env = enEnvironment s
     | _ \<Rightarrow> False)
    (\<lambda>x h. case x of Some _ \<Rightarrow> True | None \<Rightarrow>
       (\<exists>e f name r sub r'. h = [e, f, (SSetPassword (enPoolID s) name password, r),
          (SFactsMark sub True False, r')] \<and> s_done r \<and> s_done r' \<and> user_read J s token e name sub))
    (en_set_password J G s token password) []"
  unfolding en_set_password_def
  by (rule safe_user) (auto intro!: safe_policy)

section \<open>Completed onboarding\<close>

definition captured_by :: "string \<Rightarrow> facts \<Rightarrow> (si_call \<times> si_resp) list \<Rightarrow> bool" where
  "captured_by sub f h \<longleftrightarrow> fIDCaptured f \<or>
     (\<exists>r' r a. s_done r' \<and> (SAccount sub, r) \<in> set h \<and> s_account r = Inr a \<and>
        last h = (SFactsMark sub False True, r') \<and>
        (acIDCaptured a \<or> (\<exists>r'' c. (SCapture sub (acCurrentID a), r'') \<in> set h \<and> acCurrentID a \<noteq> '''' \<and>
           s_capture r'' = Inr c \<and> cState c = ''ready'')))"

text \<open>The reported flag is backed.\<close>

definition captured_ok :: "bool \<Rightarrow> string \<Rightarrow> facts \<Rightarrow> (si_call \<times> si_resp) list \<Rightarrow> bool" where
  "captured_ok b sub f h \<longleftrightarrow> (b \<longrightarrow> captured_by sub f h)"

lemma captured_ready:
  "s_done r' \<Longrightarrow> last h = (SFactsMark sub False True, r') \<Longrightarrow> (SAccount sub, r) \<in> set h \<Longrightarrow>
   s_account r = Inr a \<Longrightarrow> (SCapture sub (acCurrentID a), r'') \<in> set h \<Longrightarrow> acCurrentID a \<noteq> '''' \<Longrightarrow>
   s_capture r'' = Inr c \<Longrightarrow> cState c = ''ready'' \<Longrightarrow> captured_by sub f h"
  unfolding captured_by_def by blast

lemma safe_marked:
  assumes "P (SFactsMark sub False True) (h @ t)" "\<And>t. safe P Q (k None) (h @ t)"
    and "\<And>t. captured_by sub f (h @ t) \<Longrightarrow> safe P Q (k (Some True)) (h @ t)"
    and "\<And>r. s_done r \<Longrightarrow> captured_by sub f (h @ t @ [(SFactsMark sub False True, r)])"
  shows "safe P Q (mark_captured sub k) (h @ t)"
  using assms(1,2) assms(3) [OF assms(4)] by (simp add: mark_captured_def)

lemma safe_captured:
  assumes P: "\<And>t. P (SAccount sub) (h @ t)" "\<And>t. P (SFactsMark sub False True) (h @ t)"
      "\<And>t i. P (SCapture sub i) (h @ t)"
    and N: "\<And>t. safe P Q (k None) (h @ t)"
    and K: "\<And>t c. (c \<longrightarrow> captured_by sub f (h @ t)) \<Longrightarrow> safe P Q (k (Some c)) (h @ t)"
  shows "safe P Q (en_captured s sub f k) h"
proof (cases "\<not> fIDCaptured f \<and> enCaptures s")
  case False
  have "safe P Q (k (Some (fIDCaptured f))) (h @ [])" by (rule K) (simp add: captured_by_def)
  with False show ?thesis by (simp add: en_captured_def)
next
  case True
  have m: "safe P Q (mark_captured sub k) (h @ t)"
    if "\<And>r. s_done r \<Longrightarrow> captured_by sub f (h @ t @ [(SFactsMark sub False True, r)])" for t
    by (rule safe_marked) (use P(2) N K that in blast)+
  have f: "safe P Q (k (Some False)) (h @ t)" for t by (rule K) simp
  have a: "safe P Q (mark_captured sub k) (h @ [(SAccount sub, r)])"
    if "s_account r = Inr a" "acIDCaptured a" for r a
    by (rule m) (use that in \<open>auto simp: captured_by_def\<close>)
  have c: "safe P Q (mark_captured sub k) (h @ [(SAccount sub, r), (SCapture sub (acCurrentID a), r')])"
    if "s_account r = Inr a" "acCurrentID a \<noteq> ''''" "s_capture r' = Inr c" "cState c = ''ready''" for r r' a c
    by (rule m, rule captured_ready [where r = r and r'' = r' and a = a and c = c]) (use that in auto)
  show ?thesis
    using True P(1) [of "[]"] P(3) [where t = "[_]"] N f [of "[_]"] f [of "[_, _]"] a c
    by (simp add: en_captured_def split: sum.split)
qed

text \<open>An account status is reported only for the subject of the token; passkeys are what the
provider lists, the password fact what the store holds, and the capture fact is true only if it was
stored or was just recorded because the subject's account or its current, ready capture says so;
and onboarding is complete exactly when the current valid policy is satisfied by the three.\<close>

theorem status_sound:
  "safe
    (\<lambda>q h. case q of
       SGetUser t \<Rightarrow> t = token | SCredentials t \<Rightarrow> t = token | SConfig env \<Rightarrow> env = enEnvironment s
     | SFactsMark sub pw captured \<Rightarrow> \<not> pw \<and> captured \<and> (\<exists>name. user_read J s token (hd h) name sub)
     | SFactsGet sub \<Rightarrow> \<exists>name. user_read J s token (hd h) name sub
     | SAccount sub \<Rightarrow> \<exists>name. user_read J s token (hd h) name sub
     | SCapture sub ident \<Rightarrow> \<exists>name. user_read J s token (hd h) name sub
     | _ \<Rightarrow> False)
    (\<lambda>x h. case x of Inl _ \<Rightarrow> True | Inr st \<Rightarrow> (\<exists>e f name sub p r r' fs n t.
        h = [e, f, (SFactsGet sub, r), (SCredentials token, r')] @ t \<and> user_read J s token e name sub \<and>
        policy_read G s f p \<and> s_facts r = Some fs \<and> s_credentials r' = Inr (Some n) \<and>
        asPasskeyRegistered st = (n > 0) \<and> asPasswordRegistered st = fPasswordRegistered fs \<and>
        captured_ok (asIDCaptured st) sub fs h \<and>
        asComplete st = onboarding_complete p (n > 0) (fPasswordRegistered fs) (asIDCaptured st)))
    (en_status J G s token) []"
  unfolding en_status_def
proof (rule safe_user, goal_cases)
  case (4 e name sub)
  then show ?case
    by (simp split del: if_split, intro safe_policy; simp split: option.split sum.split)
      (cases e, intro conjI allI impI safe_captured; auto simp: captured_ok_def)
qed simp_all

section \<open>Sessions\<close>

definition asks_ok :: "si_call \<Rightarrow> bool" where
  "asks_ok q = (case q of
       SRespond method sess email field answer \<Rightarrow> email \<noteq> '''' \<and> length email \<le> 254 \<and> sess \<noteq> '''' \<and> length sess \<le> 8192 \<and>
         (method, field) \<in> {(''EMAIL_OTP'', ''EMAIL_OTP_CODE''), (''WEB_AUTHN'', ''CREDENTIAL''), (''PASSWORD'', ''PASSWORD'')} \<and>
         answer \<noteq> '''' \<and> (method = ''EMAIL_OTP'' \<longrightarrow> length answer = 6 \<and> list_all is_digit answer) \<and>
         (method = ''PASSWORD'' \<longrightarrow> length answer \<le> 256) \<and> length answer \<le> 32768
     | SInitiate email method \<Rightarrow> length email \<le> 254 \<and> method \<in> {''EMAIL_OTP'', ''WEB_AUTHN'', ''PASSWORD''}
     | SRefresh t \<Rightarrow> t \<noteq> '''' \<and> length t \<le> 8192
     | _ \<Rightarrow> True)"

lemma asks_other [simp]:
  "asks_ok (SGetUser t)" "asks_ok (SConfig e)" "asks_ok (SSetPassword a b c)" "asks_ok (SFactsMark u v w)"
  "asks_ok (SFactsGet u)" "asks_ok (SCredentials t)" "asks_ok (SAccount u)" "asks_ok (SCapture u i)"
  by (simp_all add: asks_ok_def)

definition issued_by :: "(si_call \<times> si_resp) list \<Rightarrow> si_session \<Rightarrow> bool" where
  "issued_by h t \<longleftrightarrow> siAccessToken t \<noteq> '''' \<and> (\<exists>q r out. h = [(q, r)] \<and> s_auth r = Inr out \<and>
     aoResult out = Some t \<and> ((\<exists>tok. q = SRefresh tok) \<or> (\<exists>m s e f a. q = SRespond m s e f a)))"

definition reply_ok :: "string \<Rightarrow> request \<Rightarrow> si_body response \<Rightarrow> (si_call \<times> si_resp) list \<Rightarrow> bool" where
  "reply_ok route rq x h \<longleftrightarrow> (case rsBody x of
       SiError e \<Rightarrow> rsStatus x \<in> {400, 401, 404, 409, 503}
     | _ \<Rightarrow> rsStatus x = 200 \<and> rqMethod rq = ''POST'' \<and> rqRawPath rq = ''/auth/'' @ route) \<and>
     (\<forall>t. rsBody x = SiSession t \<longrightarrow> issued_by h t)"

lemma tokens_issued: "si_tokens a = Inr t \<Longrightarrow> a = Some t \<and> siAccessToken t \<noteq> ''''"
  by (auto simp: si_tokens_def split: option.splits if_splits)

lemma failure_ok: "reply_ok route rq (si_failure e) h"
  by (cases e) (simp_all add: reply_ok_def si_failure_def si_reply_def)

lemma refresh_safe:
  "safe (\<lambda>q _. asks_ok q) (\<lambda>x h. \<forall>t. x = Inr t \<longrightarrow> issued_by h t) (si_refresh tok) []"
  by (auto simp: si_refresh_def asks_ok_def issued_by_def dest: tokens_issued split: sum.split)

lemma finish_safe:
  "safe (\<lambda>q _. asks_ok q) (\<lambda>x h. \<forall>t. x = Inr t \<longrightarrow> issued_by h t) (si_finish email method sess answer) []"
proof -
  have "asks_ok (SRespond method sess email field answer)"
    if "answer_field method answer = Some field"
      "\<not> (email = '''' \<or> length email > 254 \<or> sess = '''' \<or> length sess > 8192 \<or> answer = '''' \<or> length answer > 32768)"
    for field
    using that by (auto simp: asks_ok_def answer_field_def digits_only split: if_splits)
  then show ?thesis
    by (auto simp: si_finish_def issued_by_def dest: tokens_issued split: sum.split option.split)
qed

lemma start_safe: "safe (\<lambda>q _. asks_ok q) (\<lambda>_ _. True) (si_start email method) []"
  by (auto simp: si_start_def asks_ok_def split: sum.split)

lemma enrolled_calls:
  "safe (\<lambda>q _. asks_ok q) (\<lambda>_ _. True) (en_set_password J G s token password) []"
  "safe (\<lambda>q _. asks_ok q) (\<lambda>_ _. True) (en_status J G s token) []"
proof -
  have u: "safe (\<lambda>q _. asks_ok q) (\<lambda>_ _. True) (en_user J s token k) h"
    if "\<And>x h. safe (\<lambda>q _. asks_ok q) (\<lambda>_ _. True) (k x) h"
    for k :: "si_err + string \<times> string \<Rightarrow> 'z si_prog" and h
    using that by (auto simp: en_user_def split: sum.split option.split)
  have p: "safe (\<lambda>q _. asks_ok q) (\<lambda>_ _. True) (en_policy G s k) h"
    if "\<And>x h. safe (\<lambda>q _. asks_ok q) (\<lambda>_ _. True) (k x) h" for k :: "si_err + onboarding \<Rightarrow> 'z si_prog" and h
    using that by (auto simp: en_policy_def split: sum.split)
  have c: "safe (\<lambda>q _. asks_ok q) (\<lambda>_ _. True) (en_captured s sub f k) h"
    if "\<And>x h. safe (\<lambda>q _. asks_ok q) (\<lambda>_ _. True) (k x) h" for k :: "bool option \<Rightarrow> 'z si_prog" and h sub f
    using that by (auto simp: en_captured_def mark_captured_def split: sum.split)
  show "safe (\<lambda>q _. asks_ok q) (\<lambda>_ _. True) (en_set_password J G s token password) []"
    unfolding en_set_password_def by (auto intro!: u p split: sum.split)
  show "safe (\<lambda>q _. asks_ok q) (\<lambda>_ _. True) (en_status J G s token) []"
    unfolding en_status_def by (auto intro!: u p c split: sum.split option.split)
qed

lemma answer_safe:
  assumes "safe P (\<lambda>x h. \<forall>v. x = Inr v \<longrightarrow> R v h) p []"
    and "\<And>v h. R v h \<Longrightarrow> reply_ok route rq (si_reply 200 (f v)) h"
  shows "safe P (reply_ok route rq) (pbind p (si_answer f)) []"
  by (rule safe_bindI [OF assms(1)])
    (auto simp: si_answer_def failure_ok assms(2) split: sum.split)

text \<open>the handler answers 200 only to a POST of its route and otherwise one of five error
statuses; a session in an answer has a non-empty access token and is the one the provider returned
to this request's only call, a completed challenge or a refresh; and the provider is asked only
well-formed questions: a one-time code has six digits, no part is empty or beyond its length.\<close>

theorem signin_sessions:
  "safe (\<lambda>q _. asks_ok q) (reply_ok route rq) (si_serve J G en route rq) []"
proof (cases "rqMethod rq \<noteq> ''POST'' \<or> rqRawPath rq \<noteq> ''/auth/'' @ route")
  case True
  then show ?thesis by (auto simp: si_serve_def reply_ok_def si_reply_def)
next
  case False
  then have ok: "reply_ok route rq (si_reply 200 (SiSession t)) h" if "issued_by h t" for t h
    using that by (simp add: reply_ok_def si_reply_def)
  have ok': "reply_ok route rq (si_reply 200 (SiChallenge c)) h" "reply_ok route rq (si_reply 200 (SiStatus u)) h"
    "reply_ok route rq (si_reply 200 SiPasswordRegistered) h" for c u h
    using False by (simp_all add: reply_ok_def si_reply_def)
  have session: "safe (\<lambda>q _. asks_ok q) (reply_ok route rq) (pbind (si_refresh t) (si_answer SiSession)) []"
    "safe (\<lambda>q _. asks_ok q) (reply_ok route rq) (pbind (si_finish e m s a) (si_answer SiSession)) []" for t e m s a
    by (rule answer_safe [OF refresh_safe ok], assumption) (rule answer_safe [OF finish_safe ok])
  have other: "safe (\<lambda>q _. asks_ok q) (reply_ok route rq) (pbind p f) []"
    if "safe (\<lambda>q _. asks_ok q) (\<lambda>_ _. True) p []"
      "\<And>x h. safe (\<lambda>q _. asks_ok q) (reply_ok route rq) (f x) h" for p :: "'z si_prog" and f
    by (rule safe_bindI [OF that(1)]) (rule that(2))
  have start: "safe (\<lambda>q _. asks_ok q) (reply_ok route rq) (pbind (si_start e m) (si_answer SiChallenge)) []" for e m
    by (rule other [OF start_safe]) (auto simp: si_answer_def failure_ok ok' split: sum.split)
  have set: "safe (\<lambda>q _. asks_ok q) (reply_ok route rq) (pbind (en_set_password J G s t w)
      (\<lambda>e. Ret (case e of Some e \<Rightarrow> si_failure e | None \<Rightarrow> si_reply 200 SiPasswordRegistered))) []" for s t w
    by (rule other [OF enrolled_calls(1)]) (simp add: failure_ok ok' split: option.split)
  have status: "safe (\<lambda>q _. asks_ok q) (reply_ok route rq) (pbind (en_status J G s t) (si_answer SiStatus)) []" for s t
    by (rule other [OF enrolled_calls(2)]) (simp add: si_answer_def failure_ok ok' split: sum.split)
  have enrolled: "safe (\<lambda>q _. asks_ok q) (reply_ok route rq) (si_enrolled J G en route rq v) []" for v
  proof -
    define Q where "Q = reply_ok route rq"
    have "safe (\<lambda>q _. asks_ok q) Q (si_enrolled J G en route rq v) []"
      using set [folded Q_def] status [folded Q_def] failure_ok [of route rq, folded Q_def]
      by (simp add: si_enrolled_def split: option.split)
    then show ?thesis by (simp add: Q_def)
  qed
  have missing: "reply_ok route rq (si_reply 404 (SiError ''not_found'')) h" for h
    by (simp add: reply_ok_def si_reply_def)
  define Q where "Q = reply_ok route rq"
  have "safe (\<lambda>q _. asks_ok q) Q (si_serve J G en route rq) []"
    using False missing [folded Q_def] start [folded Q_def] session [folded Q_def] enrolled [folded Q_def]
      failure_ok [of route rq, folded Q_def]
    by (simp add: si_serve_def si_complete_def split: option.split)
  then show ?thesis by (simp add: Q_def)
qed

end
