(* ===== verification/EnvReset.thy ===== *)
theory EnvReset
  imports Capture "HOL-Library.Mapping"
begin

text \<open>
  The reset of an environment's data: \<open>envreset/service.go\<close> and \<open>store.go\<close>. One record, under
  the key \<open>CONTROL\<close>, is the progress of the current reset; \<open>Work\<close> claims it with a lease and
  does one phase per invocation, and every write compares the revision. The backend (snapshot of
  the functions' concurrency, pause, purge, clear, restore) and the store are the calls
  \<open>er_call\<close>. A missing item is read as the zero state.
\<close>

datatype er_err = ErInvalid | ErDisabled | ErConflict | ErOther string

record er_request =
  rqAction :: string
  rqEnvironment :: string
  rqConfirmation :: string
  rqOperation :: string
  rqActor :: string

type_synonym concurrency = "(string, int) mapping"

record er_state =
  esRevision :: int
  esOperation :: string
  esActor :: string
  esPhase :: string
  esError :: string
  esStartedAt :: int
  esUpdatedAt :: int
  esDue :: int
  esValidAfter :: int
  esLeaseUntil :: int
  esConcurrency :: concurrency

record er_status =
  stEnabled :: bool
  stEnvironment :: string
  stState :: er_state

record er_service =
  erEnvironment :: string
  erEnabled :: bool

definition zero_state :: er_state where
  "zero_state = \<lparr>esRevision = 0, esOperation = '''', esActor = '''', esPhase = '''', esError = '''',
     esStartedAt = 0, esUpdatedAt = 0, esDue = 0, esValidAfter = 0, esLeaseUntil = 0,
     esConcurrency = Mapping.empty\<rparr>"

datatype er_call =
    ELoad
  | ESave er_state er_state \<comment> \<open>compared with, written\<close>
  | ESnapshot
  | EPause concurrency
  | EPurge
  | EClear string
  | ERestore concurrency
  | ENow

record er_resp =
  e_item :: "er_err + er_state option"
  e_err :: "er_err option"
  e_snapshot :: "concurrency \<times> er_err option"
  e_clear :: "bool \<times> er_err option"
  e_unix :: int

type_synonym 'a er_prog = "(er_call, er_resp, 'a) prog"

definition er_load :: "(er_err + er_state \<Rightarrow> 'a er_prog) \<Rightarrow> 'a er_prog" where
  [call_simps]: "er_load k = Call ELoad (\<lambda>r. case e_item r of
       Inl e \<Rightarrow> k (Inl e)
     | Inr None \<Rightarrow> k (Inr zero_state)
     | Inr (Some s) \<Rightarrow> k (Inr s))"

definition er_save :: "er_state \<Rightarrow> er_state \<Rightarrow> (er_err option \<Rightarrow> 'a er_prog) \<Rightarrow> 'a er_prog" where
  [call_simps]: "er_save old new k = Call (ESave old new) (\<lambda>r. k (e_err r))"

definition er_now :: "(int \<Rightarrow> 'a er_prog) \<Rightarrow> 'a er_prog" where
  [call_simps]: "er_now k = Call ENow (\<lambda>r. k (e_unix r))"

section \<open>Status, start, resume\<close>

definition status_of :: "er_service \<Rightarrow> er_state \<Rightarrow> er_status" where
  "status_of s r = \<lparr>stEnabled = erEnabled s, stEnvironment = erEnvironment s, stState = r\<rparr>"

definition er_get_status :: "er_service \<Rightarrow> (er_err + er_status) er_prog" where
  "er_get_status s = er_load (\<lambda>x. case x of
       Inl e \<Rightarrow> Ret (Inl e) | Inr r \<Rightarrow> Ret (Inr (status_of s r)))"

definition started :: "er_state \<Rightarrow> string \<Rightarrow> string \<Rightarrow> int \<Rightarrow> int \<Rightarrow> er_state" where
  "started r operation actor t0 t1 = zero_state\<lparr>esRevision := esRevision r + 1, esOperation := operation,
     esActor := actor, esPhase := ''snapshot'', esStartedAt := t0, esUpdatedAt := t1,
     esValidAfter := esValidAfter r\<rparr>"

definition er_start :: "er_service \<Rightarrow> er_request \<Rightarrow> (er_err + er_status) er_prog" where
  "er_start s q =
    (if \<not> erEnabled s then Ret (Inl ErDisabled) else
     if rqEnvironment q \<noteq> erEnvironment s \<or> rqConfirmation q \<noteq> erEnvironment s \<or>
        \<not> valid_operation (rqOperation q) \<or> rqActor q = '''' \<or> length (rqActor q) > 128
     then Ret (Inl ErInvalid) else
     er_load (\<lambda>x. case x of
       Inl e \<Rightarrow> Ret (Inl e)
     | Inr r \<Rightarrow>
         if esOperation r = rqOperation q then Ret (Inr (status_of s r))
         else if esPhase r \<noteq> '''' \<and> esPhase r \<noteq> ''complete'' then Ret (Inl ErConflict)
         else er_now (\<lambda>t0. er_now (\<lambda>t1.
           let new = started r (rqOperation q) (rqActor q) t0 t1 in
           er_save r new (\<lambda>e. case e of
             Some err \<Rightarrow> Ret (Inl err) | None \<Rightarrow> Ret (Inr (status_of s new)))))))"

definition resumed :: "er_state \<Rightarrow> int \<Rightarrow> er_state" where
  "resumed r t = r\<lparr>esError := '''', esRevision := esRevision r + 1, esUpdatedAt := t\<rparr>"

definition er_resume :: "er_service \<Rightarrow> er_request \<Rightarrow> (er_err + er_status) er_prog" where
  "er_resume s q =
    (if \<not> erEnabled s then Ret (Inl ErDisabled) else
     er_load (\<lambda>x. case x of
       Inl e \<Rightarrow> Ret (Inl e)
     | Inr r \<Rightarrow>
         if rqEnvironment q \<noteq> erEnvironment s \<or> rqConfirmation q \<noteq> erEnvironment s \<or>
            rqOperation q \<noteq> esOperation r \<or> rqActor q = '''' \<or> esError r = ''''
         then Ret (Inl ErInvalid)
         else er_now (\<lambda>t.
           if esLeaseUntil r > t then Ret (Inl ErInvalid)
           else er_now (\<lambda>t'.
             er_save r (resumed r t') (\<lambda>e. case e of
               Some err \<Rightarrow> Ret (Inl err) | None \<Rightarrow> Ret (Inr (status_of s (resumed r t'))))))))"

section \<open>Work\<close>

definition active :: "er_state \<Rightarrow> bool" where
  "active r \<longleftrightarrow> esPhase r \<noteq> '''' \<and> esPhase r \<noteq> ''complete'' \<and> esError r = ''''"

definition leased :: "er_state \<Rightarrow> int \<Rightarrow> er_state" where
  "leased r t = r\<lparr>esRevision := esRevision r + 1, esLeaseUntil := t + 90\<rparr>"

definition cleared_phase :: "string \<Rightarrow> string" where
  "cleared_phase p = (if p = ''users'' then ''tables'' else if p = ''tables'' then ''objects''
     else if p = ''objects'' then ''restore'' else '''')"

text \<open>One phase of the claimed state \<open>r\<close>: the next state and the error.\<close>

definition er_phase :: "er_state \<Rightarrow> int \<Rightarrow> (er_state \<times> er_err option \<Rightarrow> 'a er_prog) \<Rightarrow> 'a er_prog" where
  "er_phase r t k =
    (if esPhase r = ''snapshot'' then Call ESnapshot (\<lambda>a. case e_snapshot a of (c, e) \<Rightarrow>
       let new = r\<lparr>esConcurrency := c\<rparr> in
       k (if e = None then new\<lparr>esPhase := ''pause''\<rparr> else new, e))
     else if esPhase r = ''pause'' then Call (EPause (esConcurrency r)) (\<lambda>a.
       k (if e_err a = None then r\<lparr>esPhase := ''drain'', esDue := t + 420\<rparr> else r, e_err a))
     else if esPhase r = ''drain'' then k (r\<lparr>esPhase := ''purge''\<rparr>, None)
     else if esPhase r = ''purge'' then Call EPurge (\<lambda>a.
       k (if e_err a = None then r\<lparr>esPhase := ''queue_wait'', esDue := t + 60\<rparr> else r, e_err a))
     else if esPhase r = ''queue_wait'' then k (r\<lparr>esPhase := ''users''\<rparr>, None)
     else if esPhase r \<in> {''users'', ''tables'', ''objects''} then Call (EClear (esPhase r)) (\<lambda>a.
       case e_clear a of (d, e) \<Rightarrow>
       k (if e = None \<and> d then
            (let new = r\<lparr>esPhase := cleared_phase (esPhase r)\<rparr>
             in if esPhase new = ''restore'' then new\<lparr>esValidAfter := t\<rparr> else new)
          else r, e))
     else if esPhase r = ''restore'' then Call (ERestore (esConcurrency r)) (\<lambda>a.
       k (if e_err a = None then r\<lparr>esPhase := ''complete''\<rparr> else r, e_err a))
     else k (r, Some ErInvalid))"

definition released :: "er_state \<Rightarrow> int \<Rightarrow> er_state" where
  "released n t = n\<lparr>esRevision := esRevision n + 1, esLeaseUntil := 0, esUpdatedAt := t\<rparr>"

definition failed :: "er_state \<Rightarrow> er_state" where
  "failed n = n\<lparr>esError := ''reset_step_failed''\<rparr>"

definition er_finish :: "er_state \<Rightarrow> er_state \<times> er_err option \<Rightarrow> er_err option er_prog" where
  "er_finish r x = (case x of (n, e) \<Rightarrow> er_now (\<lambda>t.
     if e = None then er_save r (released n t) Ret
     else if esPhase r = ''restore'' then Call (EPause (esConcurrency r)) (\<lambda>_.
       er_save r (failed ((released n t)\<lparr>esPhase := ''pause''\<rparr>)) Ret)
     else er_save r (failed (released n t)) Ret))"

definition er_work :: "er_err option er_prog" where
  "er_work = er_load (\<lambda>x. case x of
       Inl e \<Rightarrow> Ret (Some e)
     | Inr r \<Rightarrow> er_now (\<lambda>t.
         if \<not> active r \<or> esLeaseUntil r > t \<or> esDue r > t then Ret None else
         er_save r (leased r t) (\<lambda>e. case e of
           Some err \<Rightarrow> Ret (Some err)
         | None \<Rightarrow> er_phase (leased r t) t (er_finish (leased r t)))))"

section \<open>The store\<close>

text \<open>
  \<open>Save\<close> puts the record and an audit copy under the operation in one transaction, on the
  condition that the stored revision is the old one, or that there is none when that is 0.
\<close>

datatype er_cond = EAbsent | ERevision int

datatype er_dyn = EDynGet string | EDynPut string er_state er_cond string
  \<comment> \<open>key, state, condition, and the key of the audit copy\<close>

record er_dyn_resp =
  ed_item :: "er_err + er_state option"
  ed_put :: "er_err option \<times> string list" \<comment> \<open>error, and the codes of a cancelled transaction\<close>

definition es_load :: "(er_dyn, er_dyn_resp, er_err + er_state) prog" where
  "es_load = Call (EDynGet ''CONTROL'') (\<lambda>r. Ret (case ed_item r of
       Inl e \<Rightarrow> Inl e | Inr None \<Rightarrow> Inr zero_state | Inr (Some s) \<Rightarrow> Inr s))"

definition save_condition :: "er_state \<Rightarrow> er_cond" where
  "save_condition old = (if esRevision old = 0 then EAbsent else ERevision (esRevision old))"

definition es_save :: "er_state \<Rightarrow> er_state \<Rightarrow> (er_dyn, er_dyn_resp, er_err option) prog" where
  "es_save old new = Call (EDynPut ''CONTROL'' new (save_condition old) (''RESET#'' @ esOperation new))
     (\<lambda>r. Ret (case ed_put r of
        (None, codes) \<Rightarrow> None
      | (Some e, codes) \<Rightarrow> if ''ConditionalCheckFailed'' \<in> set codes then Some ErConflict else Some e))"

definition check_token :: "int \<Rightarrow> (er_dyn, er_dyn_resp, bool option) prog" where
  "check_token iat = pbind es_load (\<lambda>x. Ret (case x of
       Inl e \<Rightarrow> None
     | Inr r \<Rightarrow> Some ((esPhase r = '''' \<or> esPhase r = ''complete'') \<and>
         (esValidAfter r = 0 \<or> iat > esValidAfter r))))"

end
