(* ===== verification/EnvResetProps.thy ===== *)
theory EnvResetProps
  imports EnvReset Versioned
begin

text \<open>
  What a reset promises. \<open>er_step\<close> is its state machine, one rule per write of the code; every
  write of start, resume and work is such a step of a state the operation has read, so the
  interpretation \<open>resets\<close> of the optimistic store covers any number of concurrent workers and
  administrators. On the history it gives: a state in some phase comes after all earlier phases
  of the same reset, with the same snapshot. Then what a worker does under its lease, and that
  repeated work completes a reset.
\<close>

section \<open>The state machine\<close>

definition phases :: "string list" where
  "phases = [''snapshot'', ''pause'', ''drain'', ''purge'', ''queue_wait'', ''users'', ''tables'', ''objects'',
     ''restore'', ''complete'']"

text \<open>A state that a worker may claim at the time \<open>t\<close>, and the claim: a lease of 90 seconds.\<close>

definition waiting :: "er_state \<Rightarrow> int \<Rightarrow> bool" where
  "waiting b t \<longleftrightarrow> esPhase b \<noteq> '''' \<and> esPhase b \<noteq> ''complete'' \<and> esError b = '''' \<and> esLeaseUntil b \<le> t \<and> esDue b \<le> t"

definition claim :: "er_state \<Rightarrow> int \<Rightarrow> er_state" where
  "claim b t = b\<lparr>esRevision := esRevision b + 1, esLeaseUntil := t + 90\<rparr>"

text \<open>What the phase of the state \<open>b\<close>, claimed at \<open>t\<close>, makes of it, by the calls that are made before
and after the clock is read again.\<close>

inductive phase_result :: "er_state \<Rightarrow> int \<Rightarrow> (er_call \<times> er_resp) list \<Rightarrow> (er_call \<times> er_resp) list \<Rightarrow> er_state \<Rightarrow> bool"
  for b t where
  snapshot_taken: "esPhase b = ''snapshot'' \<Longrightarrow> e_snapshot a = (c, None) \<Longrightarrow>
    phase_result b t [(ESnapshot, a)] [] (b\<lparr>esConcurrency := c, esPhase := ''pause''\<rparr>)"
| snapshot_failed: "esPhase b = ''snapshot'' \<Longrightarrow> e_snapshot a = (c, Some e) \<Longrightarrow>
    phase_result b t [(ESnapshot, a)] [] (b\<lparr>esConcurrency := c, esError := ''reset_step_failed''\<rparr>)"
| paused: "esPhase b = ''pause'' \<Longrightarrow> e_err a = None \<Longrightarrow>
    phase_result b t [(EPause (esConcurrency b), a)] [] (b\<lparr>esPhase := ''drain'', esDue := t + 420\<rparr>)"
| pause_failed: "esPhase b = ''pause'' \<Longrightarrow> e_err a \<noteq> None \<Longrightarrow>
    phase_result b t [(EPause (esConcurrency b), a)] [] (b\<lparr>esError := ''reset_step_failed''\<rparr>)"
| drained: "esPhase b = ''drain'' \<Longrightarrow> phase_result b t [] [] (b\<lparr>esPhase := ''purge''\<rparr>)"
| purged: "esPhase b = ''purge'' \<Longrightarrow> e_err a = None \<Longrightarrow>
    phase_result b t [(EPurge, a)] [] (b\<lparr>esPhase := ''queue_wait'', esDue := t + 60\<rparr>)"
| purge_failed: "esPhase b = ''purge'' \<Longrightarrow> e_err a \<noteq> None \<Longrightarrow>
    phase_result b t [(EPurge, a)] [] (b\<lparr>esError := ''reset_step_failed''\<rparr>)"
| waited: "esPhase b = ''queue_wait'' \<Longrightarrow> phase_result b t [] [] (b\<lparr>esPhase := ''users''\<rparr>)"
| users_gone: "esPhase b = ''users'' \<Longrightarrow> e_clear a = (True, None) \<Longrightarrow>
    phase_result b t [(EClear ''users'', a)] [] (b\<lparr>esPhase := ''tables''\<rparr>)"
| tables_gone: "esPhase b = ''tables'' \<Longrightarrow> e_clear a = (True, None) \<Longrightarrow>
    phase_result b t [(EClear ''tables'', a)] [] (b\<lparr>esPhase := ''objects''\<rparr>)"
| objects_gone: "esPhase b = ''objects'' \<Longrightarrow> e_clear a = (True, None) \<Longrightarrow>
    phase_result b t [(EClear ''objects'', a)] [] (b\<lparr>esPhase := ''restore'', esValidAfter := t\<rparr>)"
| page_gone: "esPhase b \<in> {''users'', ''tables'', ''objects''} \<Longrightarrow> e_clear a = (False, None) \<Longrightarrow>
    phase_result b t [(EClear (esPhase b), a)] [] b"
| clear_failed: "esPhase b \<in> {''users'', ''tables'', ''objects''} \<Longrightarrow> e_clear a = (d, Some e) \<Longrightarrow>
    phase_result b t [(EClear (esPhase b), a)] [] (b\<lparr>esError := ''reset_step_failed''\<rparr>)"
| functions_restored: "esPhase b = ''restore'' \<Longrightarrow> e_err a = None \<Longrightarrow>
    phase_result b t [(ERestore (esConcurrency b), a)] [] (b\<lparr>esPhase := ''complete''\<rparr>)"
| restore_failed: "esPhase b = ''restore'' \<Longrightarrow> e_err a \<noteq> None \<Longrightarrow>
    phase_result b t [(ERestore (esConcurrency b), a)] [(EPause (esConcurrency b), p)]
      (b\<lparr>esPhase := ''pause'', esError := ''reset_step_failed''\<rparr>)"
| unknown: "esPhase b \<notin> set (butlast phases) \<Longrightarrow> phase_result b t [] [] (b\<lparr>esError := ''reset_step_failed''\<rparr>)"

inductive_cases phase_resultE: "phase_result b t l m n"

text \<open>The state machine: a reset starts when none is running, an administrator resumes a failed one
whose lease has expired, a worker claims a waiting state, and the result of a claim replaces it.\<close>

inductive er_step :: "er_state \<Rightarrow> er_state \<Rightarrow> bool" where
  step_start: "esPhase b = '''' \<or> esPhase b = ''complete'' \<Longrightarrow> esOperation b \<noteq> operation \<Longrightarrow>
    er_step b \<lparr>esRevision = esRevision b + 1, esOperation = operation, esActor = actor, esPhase = ''snapshot'',
      esError = '''', esStartedAt = t0, esUpdatedAt = t1, esDue = 0, esValidAfter = esValidAfter b,
      esLeaseUntil = 0, esConcurrency = Mapping.empty\<rparr>"
| step_resume: "esError b \<noteq> '''' \<Longrightarrow> esLeaseUntil b \<le> t \<Longrightarrow>
    er_step b (b\<lparr>esError := '''', esRevision := esRevision b + 1, esUpdatedAt := t'\<rparr>)"
| step_claim: "waiting b t \<Longrightarrow> er_step b (claim b t)"
| step_finish: "waiting b t \<Longrightarrow> phase_result (claim b t) t l m n \<Longrightarrow>
    er_step (claim b t) (n\<lparr>esRevision := esRevision n + 1, esLeaseUntil := 0, esUpdatedAt := u\<rparr>)"

inductive_cases er_step_cases: "er_step b a"

lemmas er_states = started_def resumed_def leased_def released_def failed_def zero_state_def

definition er_init :: "unit \<Rightarrow> er_state \<Rightarrow> bool" where
  "er_init k v \<longleftrightarrow> (\<exists>operation actor t0 t1. v = started zero_state operation actor t0 t1)"

definition er_good :: "unit \<Rightarrow> er_state \<Rightarrow> bool" where
  "er_good k v \<longleftrightarrow> 1 \<le> esRevision v \<and> esPhase v \<in> set phases \<and>
     (esLeaseUntil v \<noteq> 0 \<longrightarrow> esError v = '''' \<and> esPhase v \<noteq> ''complete'')"

lemma result_keeps: "phase_result b t l m n \<Longrightarrow> esRevision n = esRevision b \<and> esOperation n = esOperation b"
  by (induction rule: phase_result.induct) simp_all

lemma result_phases: "phase_result b t l m n \<Longrightarrow> esPhase b \<in> set phases \<Longrightarrow> esPhase n \<in> set phases"
  by (induction rule: phase_result.induct) (auto simp: phases_def)

lemma er_step_revision: "er_step b a \<Longrightarrow> esRevision a = esRevision b + 1"
  by (induction rule: er_step.induct) (simp_all add: claim_def result_keeps)

lemma er_init_good: "er_init k v \<Longrightarrow> er_good k v"
  by (auto simp: er_init_def er_good_def er_states phases_def)

lemma er_step_good: "er_good k b \<Longrightarrow> er_step b a \<Longrightarrow> er_good k a"
proof -
  assume b: "er_good k b" and "er_step b a"
  from this(2) b er_step_revision [OF this(2)] show "er_good k a"
  proof (cases rule: er_step.cases)
    case (step_finish r t l m n u)
    have "esPhase n \<in> set phases"
      using result_phases [OF step_finish(4)] b step_finish(1) by (simp add: er_good_def)
    with b er_step_revision [OF \<open>er_step b a\<close>] step_finish(2) show ?thesis by (simp add: er_good_def)
  qed (auto simp: er_good_def claim_def waiting_def phases_def)
qed

lemma started_step: "esPhase b = '''' \<or> esPhase b = ''complete'' \<Longrightarrow> esOperation b \<noteq> operation \<Longrightarrow>
    er_step b (started b operation actor t0 t1)"
  using step_start [of b operation actor t0 t1] by (simp add: started_def zero_state_def)

lemma resumed_step: "esError b \<noteq> '''' \<Longrightarrow> esLeaseUntil b \<le> t \<Longrightarrow> er_step b (resumed b t')"
  using step_resume [of b t t'] by (simp add: resumed_def)

section \<open>The operations keep the discipline\<close>

fun er_access :: "er_call \<Rightarrow> (unit, er_state) access" where
  "er_access ELoad = Read ()"
| "er_access (ESave old new) = (if esRevision old = 0 then Insert () new else Cas () old new)"
| "er_access _ = Other"

definition er_seen :: "er_resp \<Rightarrow> er_state option" where
  "er_seen r = (case e_item r of Inl e \<Rightarrow> None | Inr i \<Rightarrow> i)"

definition er_acked :: "er_resp \<Rightarrow> bool" where
  "er_acked r \<longleftrightarrow> e_err r = None"

definition same_revision :: "er_state \<Rightarrow> er_state \<Rightarrow> bool" where
  "same_revision c b \<longleftrightarrow> esRevision c = esRevision b"

abbreviation er_disc :: "'a er_prog \<Rightarrow> (unit \<times> er_state) set \<Rightarrow> bool" where
  "er_disc \<equiv> disciplined er_good er_init er_step er_access er_seen er_acked"

inductive er_ops :: "er_err option er_prog \<Rightarrow> bool" where
  op_work: "er_ops er_work"
| op_start: "er_ops (pbind (er_start s q) (\<lambda>_. Ret None))"
| op_resume: "er_ops (pbind (er_resume s q) (\<lambda>_. Ret None))"

lemma er_allowed [simp]:
  "allowed er_init er_step er_access K ELoad" "allowed er_init er_step er_access K ENow"
  "allowed er_init er_step er_access K ESnapshot" "allowed er_init er_step er_access K (EPause c)"
  "allowed er_init er_step er_access K EPurge" "allowed er_init er_step er_access K (EClear p)"
  "allowed er_init er_step er_access K (ERestore c)"
  "allowed er_init er_step er_access K (ESave b a) \<longleftrightarrow>
     (if esRevision b = 0 then er_init () a else ((), b) \<in> K \<and> er_step b a)"
  by (simp_all add: allowed_def)

lemma er_gains [simp]:
  "gains er_access er_seen er_acked ENow r = {}" "gains er_access er_seen er_acked ESnapshot r = {}"
  "gains er_access er_seen er_acked (EPause c) r = {}" "gains er_access er_seen er_acked EPurge r = {}"
  "gains er_access er_seen er_acked (EClear p) r = {}" "gains er_access er_seen er_acked (ERestore c) r = {}"
  by (simp_all add: gains_def)

lemma er_disc_load:
  assumes "\<And>e. er_disc (k (Inl e)) K" "er_disc (k (Inr zero_state)) K"
    and "\<And>s. er_good () s \<Longrightarrow> er_disc (k (Inr s)) (insert ((), s) K)"
  shows "er_disc (er_load k) K"
  using assms by (auto simp: er_load_def discipline_defs er_seen_def split: sum.split option.split)

lemma er_disc_last:
  assumes "if esRevision b = 0 then er_init () a else ((), b) \<in> K \<and> er_step b a"
    and "\<And>e K'. er_disc (k e) K'"
  shows "er_disc (er_save b a k) K"
  using assms by (simp add: er_save_def)

lemma er_disc_then:
  assumes "((), b) \<in> K" "er_step b a" "esRevision b \<noteq> 0"
    and "\<And>e K'. e \<noteq> None \<Longrightarrow> er_disc (k e) K'" "er_disc (k None) (insert ((), a) K)"
  shows "er_disc (er_save b a k) K"
proof -
  have "er_disc (k (e_err r)) (gains er_access er_seen er_acked (ESave b a) r \<union> K)" for r
    using assms(3-5) by (cases "e_err r") (simp_all add: discipline_defs er_acked_def)
  with assms(1-3) show ?thesis by (simp add: er_save_def)
qed

lemma er_disc_other:
  assumes "er_access q = Other" "\<And>r. er_disc (k r) K"
  shows "er_disc (Call q k) K"
  using assms by (simp add: discipline_defs)

lemma er_disc_now: "(\<And>t. er_disc (k t) K) \<Longrightarrow> er_disc (er_now k) K"
  unfolding er_now_def by (rule er_disc_other) simp_all

text \<open>The call of a phase, and what \<open>er_phase\<close> hands on: the result of the phase, or its error.\<close>

definition phase_call :: "er_state \<Rightarrow> er_call \<Rightarrow> bool" where
  "phase_call b q \<longleftrightarrow> (case q of
       ESnapshot \<Rightarrow> esPhase b = ''snapshot''
     | EPause c \<Rightarrow> esPhase b = ''pause'' \<and> c = esConcurrency b
     | EPurge \<Rightarrow> esPhase b = ''purge''
     | EClear p \<Rightarrow> esPhase b = p \<and> p \<in> {''users'', ''tables'', ''objects''}
     | ERestore c \<Rightarrow> esPhase b = ''restore'' \<and> c = esConcurrency b
     | _ \<Rightarrow> False)"

definition outcome :: "er_state \<Rightarrow> int \<Rightarrow> (er_call \<times> er_resp) list \<Rightarrow> er_state \<times> er_err option \<Rightarrow> bool" where
  "outcome b t l x \<longleftrightarrow>
    (if snd x = None then phase_result b t l [] (fst x)
     else if esPhase b = ''restore'' then (\<exists>a. l = [(ERestore (esConcurrency b), a)] \<and> e_err a \<noteq> None) \<and>
       (\<forall>p. phase_result b t l [(EPause (esConcurrency b), p)] (failed ((fst x)\<lparr>esPhase := ''pause''\<rparr>)))
     else phase_result b t l [] (failed (fst x)))"

lemma clear_outcome:
  assumes "esPhase b \<in> {''users'', ''tables'', ''objects''}"
  shows "\<exists>f. er_phase b t k = Call (EClear (esPhase b)) (\<lambda>a. k (f a)) \<and>
    (\<forall>a. outcome b t [(EClear (esPhase b), a)] (f a))"
proof (intro exI conjI allI)
  let ?f = "\<lambda>a. (if snd (e_clear a) = None \<and> fst (e_clear a)
       then (let new = b\<lparr>esPhase := cleared_phase (esPhase b)\<rparr>
             in if esPhase new = ''restore'' then new\<lparr>esValidAfter := t\<rparr> else new)
       else b, snd (e_clear a))"
  show "er_phase b t k = Call (EClear (esPhase b)) (\<lambda>a. k (?f a))"
    using assms by (auto simp: er_phase_def intro!: ext split: prod.split)
  show "outcome b t [(EClear (esPhase b), a)] (?f a)" for a
  proof -
    obtain d e where a: "e_clear a = (d, e)" by (cases "e_clear a")
    have "phase_result b t [(EClear (esPhase b), a)] [] (b\<lparr>esError := ''reset_step_failed''\<rparr>)" if "e \<noteq> None"
      using clear_failed [of b a d _ t] assms a that by auto
    moreover have "phase_result b t [(EClear (esPhase b), a)] [] b" if "e = None" "\<not> d"
      using page_gone [of b a t] assms a that by auto
    ultimately show ?thesis
      using assms a users_gone [of b a t] tables_gone [of b a t] objects_gone [of b a t]
      by (auto simp: outcome_def failed_def cleared_phase_def Let_def)
  qed
qed

lemma er_phase_outcome:
  shows "(\<exists>x. er_phase b t k = k x \<and> outcome b t [] x) \<or>
    (\<exists>q f. er_phase b t k = Call q (\<lambda>a. k (f a)) \<and> phase_call b q \<and> (\<forall>a. outcome b t [(q, a)] (f a)))"
proof -
  have call: ?thesis if "er_phase b t k = Call q (\<lambda>a. k (f a))" "phase_call b q" "\<And>a. outcome b t [(q, a)] (f a)" for q f
    using that by blast
  have ret: ?thesis if "er_phase b t k = k x" "outcome b t [] x" for x
    using that by blast
  consider "esPhase b = ''snapshot''" | "esPhase b = ''pause''" | "esPhase b = ''drain''" | "esPhase b = ''purge''"
    | "esPhase b = ''queue_wait''" | "esPhase b = ''users''" | "esPhase b = ''tables''" | "esPhase b = ''objects''"
    | "esPhase b = ''restore''" | "esPhase b \<notin> set (butlast phases)"
    by (auto simp: phases_def)
  then show ?thesis
  proof cases
    case 1
    let ?f = "\<lambda>a. (if snd (e_snapshot a) = None then b\<lparr>esConcurrency := fst (e_snapshot a), esPhase := ''pause''\<rparr>
        else b\<lparr>esConcurrency := fst (e_snapshot a)\<rparr>, snd (e_snapshot a))"
    have "outcome b t [(ESnapshot, a)] (?f a)" for a
      using 1 snapshot_taken [of b a "fst (e_snapshot a)" t] snapshot_failed [of b a "fst (e_snapshot a)" _ t]
      by (cases "e_snapshot a"; cases "snd (e_snapshot a)") (auto simp: outcome_def failed_def)
    then show ?thesis
      by (intro call [of ESnapshot ?f]) (use 1 in \<open>auto simp: er_phase_def Let_def phase_call_def split: prod.split\<close>)
  next
    case 2
    then show ?thesis
      by (intro call [of "EPause (esConcurrency b)"
            "\<lambda>a. (if e_err a = None then b\<lparr>esPhase := ''drain'', esDue := t + 420\<rparr> else b, e_err a)"])
        (auto simp: er_phase_def phase_call_def outcome_def failed_def intro: paused pause_failed)
  next
    case 3
    then show ?thesis
      by (intro ret [of "(b\<lparr>esPhase := ''purge''\<rparr>, None)"]) (auto simp: er_phase_def outcome_def intro: drained)
  next
    case 4
    then show ?thesis
      by (intro call [of EPurge "\<lambda>a. (if e_err a = None then b\<lparr>esPhase := ''queue_wait'', esDue := t + 60\<rparr> else b, e_err a)"])
        (auto simp: er_phase_def phase_call_def outcome_def failed_def intro: purged purge_failed)
  next
    case 5
    then show ?thesis
      by (intro ret [of "(b\<lparr>esPhase := ''users''\<rparr>, None)"]) (auto simp: er_phase_def outcome_def intro: waited)
  next
    case 9
    then show ?thesis
      by (intro call [of "ERestore (esConcurrency b)"
            "\<lambda>a. (if e_err a = None then b\<lparr>esPhase := ''complete''\<rparr> else b, e_err a)"])
        (auto simp: er_phase_def phase_call_def outcome_def failed_def intro: functions_restored restore_failed)
  next
    case 10
    then show ?thesis
      by (intro ret [of "(b, Some ErInvalid)"])
        (auto simp: er_phase_def outcome_def failed_def phases_def intro!: unknown)
  next
    case 6
    then show ?thesis using clear_outcome [of b t k] call by (fastforce simp: phase_call_def)
  next
    case 7
    then show ?thesis using clear_outcome [of b t k] call by (fastforce simp: phase_call_def)
  next
    case 8
    then show ?thesis using clear_outcome [of b t k] call by (fastforce simp: phase_call_def)
  qed
qed

lemma finish_step:
  "waiting r t \<Longrightarrow> phase_result (claim r t) t l m n \<Longrightarrow> er_step (claim r t) (released n u)"
  using step_finish [of r t l m n u] by (simp add: released_def)

lemma released_failed: "failed (released n u) = released (failed n) u"
  "(released n u)\<lparr>esPhase := p\<rparr> = released (n\<lparr>esPhase := p\<rparr>) u"
  by (simp_all add: er_states)

lemma er_disc_finish:
  assumes K: "((), claim r t) \<in> K" "1 \<le> esRevision r" "waiting r t" and o: "outcome (claim r t) t l x"
  shows "er_disc (er_finish (claim r t) x) K"
proof -
  have last: "er_disc (er_save (claim r t) (released n u) Ret) K" if "phase_result (claim r t) t l m n" for n u m
    by (rule er_disc_last) (use K that in \<open>auto simp: claim_def [THEN arg_cong [of _ _ esRevision]] intro: finish_step\<close>)
  show ?thesis
    using o last unfolding er_finish_def released_failed outcome_def
    by (cases x) (auto intro!: er_disc_now er_disc_other split: if_splits)
qed

lemma er_disc_phase:
  assumes K: "((), claim r t) \<in> K" "1 \<le> esRevision r" "waiting r t"
  shows "er_disc (er_phase (claim r t) t (er_finish (claim r t))) K"
  using er_phase_outcome [of "claim r t" t "er_finish (claim r t) :: _ \<Rightarrow> er_err option er_prog"]
proof (elim disjE exE conjE)
  fix q f
  assume q: "phase_call (claim r t) q" and o: "\<forall>a. outcome (claim r t) t [(q, a)] (f a)"
    and "er_phase (claim r t) t (er_finish (claim r t)) = Call q (\<lambda>a. er_finish (claim r t) (f a))"
  moreover have "er_access q = Other" using q by (cases q) (simp_all add: phase_call_def)
  moreover have "er_disc (er_finish (claim r t) (f a)) K" for a
    by (rule er_disc_finish [OF K]) (use o in blast)
  ultimately show ?thesis by (simp only: er_disc_other)
qed (use er_disc_finish [OF K] in simp)

lemma claim_leased: "claim r t = leased r t" "esRevision (claim r t) = esRevision r + 1"
  by (simp_all add: leased_def claim_def)

lemma er_disc_work: "er_disc er_work {}"
proof -
  have "er_disc (er_save r (claim r t) (\<lambda>e. case e of Some err \<Rightarrow> Ret (Some err)
      | None \<Rightarrow> er_phase (claim r t) t (er_finish (claim r t)))) {((), r)}"
    if "er_good () r" "waiting r t" for r t
    by (rule er_disc_then)
      (use that in \<open>auto simp: er_good_def intro: step_claim er_disc_phase\<close>)
  then show ?thesis
    unfolding er_work_def claim_leased(1)
    by (intro er_disc_load) (auto intro!: er_disc_now simp: active_def zero_state_def waiting_def)
qed

lemma er_pbind [simp]:
  "pbind (er_load k) f = er_load (\<lambda>x. pbind (k x) f)"
  "pbind (er_now g) f = er_now (\<lambda>t. pbind (g t) f)"
  "pbind (er_save b a h) f = er_save b a (\<lambda>e. pbind (h e) f)"
  by (auto simp: er_load_def er_now_def er_save_def split: sum.split option.split)

lemma er_disc_start: "er_disc (pbind (er_start s q) (\<lambda>_. Ret None)) {}"
proof -
  have o: "er_disc (pbind (case e of Some err \<Rightarrow> Ret (Inl err) | None \<Rightarrow> Ret (Inr x)) (\<lambda>_. Ret None)) K"
    for e :: "er_err option" and x :: er_status and K
    by (cases e) simp_all
  have z: "er_disc (er_save zero_state (started zero_state operation actor t0 t1)
      (\<lambda>e. pbind (case e of Some err \<Rightarrow> Ret (Inl err) | None \<Rightarrow> Ret (Inr x)) (\<lambda>_. Ret None))) {}"
    for operation actor t0 t1 and x :: er_status
    by (rule er_disc_last [OF _ o]) (auto simp: zero_state_def er_init_def)
  have g: "er_disc (er_save r (started r operation actor t0 t1)
      (\<lambda>e. pbind (case e of Some err \<Rightarrow> Ret (Inl err) | None \<Rightarrow> Ret (Inr x)) (\<lambda>_. Ret None))) {((), r)}"
    if "er_good () r" "esPhase r = '''' \<or> esPhase r = ''complete''" "esOperation r \<noteq> operation"
    for r operation actor t0 t1 and x :: er_status
    by (rule er_disc_last [OF _ o]) (use that in \<open>auto simp: er_good_def intro: started_step\<close>)
  show ?thesis
    unfolding er_start_def by (auto intro!: er_disc_load er_disc_now z g simp: Let_def)
qed

lemma er_disc_resume: "er_disc (pbind (er_resume s q) (\<lambda>_. Ret None)) {}"
proof -
  have o: "er_disc (pbind (case e of Some err \<Rightarrow> Ret (Inl err) | None \<Rightarrow> Ret (Inr x)) (\<lambda>_. Ret None)) K"
    for e :: "er_err option" and x :: er_status and K
    by (cases e) simp_all
  have g: "er_disc (er_save r (resumed r t)
      (\<lambda>e. pbind (case e of Some err \<Rightarrow> Ret (Inl err) | None \<Rightarrow> Ret (Inr x)) (\<lambda>_. Ret None))) {((), r)}"
    if "er_good () r" "esError r \<noteq> ''''" "esLeaseUntil r \<le> t'" for r t t' and x :: er_status
    by (rule er_disc_last [OF _ o]) (use that in \<open>auto simp: er_good_def intro: resumed_step\<close>)
  show ?thesis
    unfolding er_resume_def by (auto intro!: er_disc_load er_disc_now g simp: zero_state_def)
qed

lemma er_disciplined: "er_ops p \<Longrightarrow> er_disc p {}"
  by (induction rule: er_ops.induct) (rule er_disc_work er_disc_start er_disc_resume)+

interpretation resets: versioned esRevision same_revision er_good er_init er_step
  er_access er_seen er_acked er_ops
proof unfold_locales
  show "same_revision c b \<Longrightarrow> esRevision c = esRevision b" for c b
    by (simp add: same_revision_def)
  show "er_step b a \<Longrightarrow> esRevision b < esRevision a" for b a
    using er_step_revision [of b a] by simp
qed (fact er_init_good er_step_good er_disciplined)+

section \<open>Every phase, in order\<close>

definition rank :: "string \<Rightarrow> nat" where
  "rank p = length (takeWhile (\<lambda>q. q \<noteq> p) phases)"

text \<open>In the history \<open>xs\<close>, every phase before that of entry \<open>i\<close> was committed earlier, all the while
under the operation of entry \<open>i\<close>, and, once something may be paused, with its snapshot.\<close>

definition came_through :: "er_state list \<Rightarrow> nat \<Rightarrow> bool" where
  "came_through xs i \<longleftrightarrow> (\<forall>m<rank (esPhase (xs ! i)). \<exists>j<i. rank (esPhase (xs ! j)) = m \<and>
     (\<forall>l. j \<le> l \<and> l \<le> i \<longrightarrow> esOperation (xs ! l) = esOperation (xs ! i)) \<and>
     (0 < m \<longrightarrow> esConcurrency (xs ! j) = esConcurrency (xs ! i)))"

lemma rank_phases [simp]:
  "rank ''snapshot'' = 0" "rank ''pause'' = 1" "rank ''drain'' = 2" "rank ''purge'' = 3"
  "rank ''queue_wait'' = 4" "rank ''users'' = 5" "rank ''tables'' = 6" "rank ''objects'' = 7"
  "rank ''restore'' = 8" "rank ''complete'' = 9"
  by (simp_all add: rank_def phases_def)

text \<open>The three ways a write relates to the state it replaces.\<close>

lemma result_rank:
  "phase_result b t l m n \<Longrightarrow> rank (esPhase n) = 0 \<or>
     (rank (esPhase n) = rank (esPhase b) \<and> esConcurrency n = esConcurrency b \<or>
      rank (esPhase n) = Suc (rank (esPhase b)) \<and> (0 < rank (esPhase b) \<longrightarrow> esConcurrency n = esConcurrency b) \<or>
      rank (esPhase n) = 1 \<and> 1 < rank (esPhase b) \<and> esConcurrency n = esConcurrency b)"
  by (induction rule: phase_result.induct) auto

lemma er_step_rank:
  "er_step b a \<Longrightarrow> rank (esPhase a) = 0 \<or>
     esOperation a = esOperation b \<and>
     (rank (esPhase a) = rank (esPhase b) \<and> esConcurrency a = esConcurrency b \<or>
      rank (esPhase a) = Suc (rank (esPhase b)) \<and> (0 < rank (esPhase b) \<longrightarrow> esConcurrency a = esConcurrency b) \<or>
      rank (esPhase a) = 1 \<and> 1 < rank (esPhase b) \<and> esConcurrency a = esConcurrency b)"
proof (induction rule: er_step.induct)
  case (step_finish b t l m n u)
  from result_rank [OF this(2)] result_keeps [OF this(2)] show ?case by simp
qed (simp_all add: claim_def)

lemma came_through_step:
  assumes st: "er_step (xs ! i) (xs ! Suc i)" and c: "came_through xs i"
  shows "came_through xs (Suc i)"
proof -
  let ?r = "\<lambda>j. rank (esPhase (xs ! j))" and ?op = "\<lambda>j. esOperation (xs ! j)"
  and ?cc = "\<lambda>j. esConcurrency (xs ! j)"
  have "\<exists>j<Suc i. ?r j = m \<and> (\<forall>l. j \<le> l \<and> l \<le> Suc i \<longrightarrow> ?op l = ?op (Suc i)) \<and>
      (0 < m \<longrightarrow> ?cc j = ?cc (Suc i))" if m: "m < ?r (Suc i)" for m
  proof -
    from er_step_rank [OF st] m have op: "?op (Suc i) = ?op i" by linarith
    have cc: "?cc (Suc i) = ?cc i" if "0 < m" using er_step_rank [OF st] m that by linarith
    show ?thesis
    proof (cases "m < ?r i")
      case True
      then obtain j where j: "j < i" "?r j = m" "\<forall>l. j \<le> l \<and> l \<le> i \<longrightarrow> ?op l = ?op i"
        "0 < m \<longrightarrow> ?cc j = ?cc i"
        using c unfolding came_through_def by blast
      have "\<forall>l. j \<le> l \<and> l \<le> Suc i \<longrightarrow> ?op l = ?op (Suc i)" using j(3) op by (auto simp: le_Suc_eq)
      moreover have "0 < m \<longrightarrow> ?cc j = ?cc (Suc i)" using j(4) cc by simp
      moreover have "j < Suc i" using j(1) by simp
      ultimately show ?thesis using j(2) by blast
    next
      case False
      with er_step_rank [OF st] m have "?r i = m" by linarith
      moreover have "\<forall>l. i \<le> l \<and> l \<le> Suc i \<longrightarrow> ?op l = ?op (Suc i)" using op by (auto simp: le_Suc_eq)
      moreover have "0 < m \<longrightarrow> ?cc i = ?cc (Suc i)" using cc by (intro impI) (rule sym)
      ultimately have "i < Suc i \<and> ?r i = m \<and> (\<forall>l. i \<le> l \<and> l \<le> Suc i \<longrightarrow> ?op l = ?op (Suc i)) \<and>
          (0 < m \<longrightarrow> ?cc i = ?cc (Suc i))" by (intro conjI lessI)
      then show ?thesis by (rule exI [of _ i])
    qed
  qed
  then show ?thesis unfolding came_through_def by blast
qed

lemma path_came_through:
  assumes "successively er_step xs" "i < length xs" "rank (esPhase (xs ! 0)) = 0"
  shows "came_through xs i"
  using assms(2)
proof (induction i)
  case 0
  with assms(3) show ?case by (simp add: came_through_def)
next
  case (Suc i)
  have "er_step (xs ! i) (xs ! Suc i)"
    using assms(1) Suc.prems by (rule successively_nth)
  then show ?case by (rule came_through_step) (use Suc in simp)
qed

lemma linked_first: "linked l \<Longrightarrow> news l k \<noteq> [] \<Longrightarrow> (k, None, hd (news l k)) \<in> set l"
proof (induction l rule: rev_induct)
  case (snoc e l)
  obtain x b a where e: "e = (x, b, a)" by (cases e)
  with snoc.prems(1) have l: "linked l" "b = latest l x" by (simp_all add: linked_snoc)
  show ?case
  proof (cases "news l k = []")
    case True
    with snoc.prems(2) e have "x = k" by (simp split: if_splits)
    with True l(2) e show ?thesis by (simp add: latest_def)
  next
    case False
    with snoc.IH l(1) e show ?thesis by (auto simp: hd_append)
  qed
qed simp

section \<open>One lease at a time\<close>

text \<open>In the history \<open>xs\<close>, a state with a lease is only followed by the result of the phase it was
claimed for, or by another claim at a time after the lease has run out.\<close>

definition one_lease :: "er_state list \<Rightarrow> bool" where
  "one_lease xs \<longleftrightarrow> (\<forall>i. Suc i < length xs \<and> esLeaseUntil (xs ! i) \<noteq> 0 \<longrightarrow>
     (\<exists>l m n u. phase_result (xs ! i) (esLeaseUntil (xs ! i) - 90) l m n \<and>
        xs ! Suc i = n\<lparr>esRevision := esRevision n + 1, esLeaseUntil := 0, esUpdatedAt := u\<rparr>) \<or>
     (\<exists>t\<ge>esLeaseUntil (xs ! i). waiting (xs ! i) t \<and> xs ! Suc i = claim (xs ! i) t))"

lemma path_one_lease:
  assumes "successively er_step xs" "\<And>v. v \<in> set xs \<Longrightarrow> er_good () v"
  shows "one_lease xs"
  unfolding one_lease_def
proof (intro allI impI)
  fix i assume i: "Suc i < length xs \<and> esLeaseUntil (xs ! i) \<noteq> 0"
  have g: "er_good () (xs ! i)" using i by (intro assms(2)) simp
  have "er_step (xs ! i) (xs ! Suc i)" using i by (intro successively_nth [OF assms(1)]) simp
  then show "(\<exists>l m n u. phase_result (xs ! i) (esLeaseUntil (xs ! i) - 90) l m n \<and>
        xs ! Suc i = n\<lparr>esRevision := esRevision n + 1, esLeaseUntil := 0, esUpdatedAt := u\<rparr>) \<or>
     (\<exists>t\<ge>esLeaseUntil (xs ! i). waiting (xs ! i) t \<and> xs ! Suc i = claim (xs ! i) t)"
  proof (cases rule: er_step.cases)
    case (step_finish b t l m n u)
    then have "esLeaseUntil (xs ! i) - 90 = t" by (simp add: claim_def)
    with step_finish show ?thesis by metis
  next
    case (step_claim t)
    then show ?thesis by (auto simp: waiting_def)
  qed (use g i in \<open>auto simp: er_good_def phases_def\<close>)
qed

text \<open>
  What one worker does, call by call. It reads the state and the clock and claims the state only
  when that is waiting; \<open>claimed\<close> is the history of an acknowledged claim. Under it the worker
  makes the one call of the phase, and after it saves the result that the answer gives; when
  restoring fails, it pauses the functions again.
\<close>

inductive claimed :: "(er_call \<times> er_resp) list \<Rightarrow> er_state \<Rightarrow> int \<Rightarrow> bool" where
  "e_item a = Inr (Some r) \<Longrightarrow> waiting r (e_unix b) \<Longrightarrow> e_err c = None \<Longrightarrow>
   claimed [(ELoad, a), (ENow, b), (ESave r (claim r (e_unix b)), c)] r (e_unix b)"

inductive work_rules :: "er_call \<Rightarrow> (er_call \<times> er_resp) list \<Rightarrow> bool" where
  rule_load: "work_rules ELoad []"
| rule_now: "work_rules ENow h"
| rule_claim: "e_item a = Inr (Some r) \<Longrightarrow> waiting r (e_unix b) \<Longrightarrow>
    work_rules (ESave r (claim r (e_unix b))) [(ELoad, a), (ENow, b)]"
| rule_phase: "claimed h r t \<Longrightarrow> phase_call r q \<Longrightarrow> work_rules q h"
| rule_again: "claimed h r t \<Longrightarrow> e_err a \<noteq> None \<Longrightarrow>
    work_rules (EPause (esConcurrency r)) (h @ [(ERestore (esConcurrency r), a), (ENow, u)])"
| rule_result: "claimed h r t \<Longrightarrow> phase_result (claim r t) t l m n \<Longrightarrow>
    work_rules (ESave (claim r t) (n\<lparr>esRevision := esRevision n + 1, esLeaseUntil := 0, esUpdatedAt := e_unix u\<rparr>))
      (h @ l @ [(ENow, u)] @ m)"

lemma work_result:
  "claimed h r t \<Longrightarrow> phase_result (claim r t) t l m n \<Longrightarrow>
   work_rules (ESave (claim r t) (released n (e_unix u))) (h @ l @ (ENow, u) # m)"
  using rule_result [of h r t l m n u] by (simp add: released_def)

lemma work_finish:
  assumes "claimed h r t" "outcome (claim r t) t l x"
  shows "safe work_rules (\<lambda>_ _. True) (er_finish (claim r t) x) (h @ l)"
proof -
  note ok = work_result [OF assms(1)]
  have c: "esConcurrency (claim r t) = esConcurrency r" by (simp add: claim_def)
  show ?thesis
    using assms(2) ok [where m = "[]"] ok [where m = "[(EPause (esConcurrency r), _)]"] rule_again [OF assms(1)]
    unfolding er_finish_def released_failed outcome_def c
    by (cases x) (auto simp: er_now_def er_save_def rule_now split: if_splits)
qed

lemma work_phase:
  assumes "claimed h r t"
  shows "safe work_rules (\<lambda>_ _. True) (er_phase (claim r t) t (er_finish (claim r t))) h"
  using er_phase_outcome [of "claim r t" t "er_finish (claim r t) :: _ \<Rightarrow> er_err option er_prog"]
proof (elim disjE exE conjE)
  fix q f
  assume q: "phase_call (claim r t) q" and o: "\<forall>a. outcome (claim r t) t [(q, a)] (f a)"
    and "er_phase (claim r t) t (er_finish (claim r t)) = Call q (\<lambda>a. er_finish (claim r t) (f a))"
  moreover have "phase_call r q" using q by (cases q) (simp_all add: phase_call_def claim_def)
  moreover have "safe work_rules (\<lambda>_ _. True) (er_finish (claim r t) (f a)) (h @ [(q, a)])" for a
    by (rule work_finish [OF assms]) (use o in blast)
  ultimately show ?thesis using rule_phase [OF assms] by simp
next
  fix x
  assume "outcome (claim r t) t [] x" "er_phase (claim r t) t (er_finish (claim r t)) = er_finish (claim r t) x"
  with work_finish [OF assms, of "[]" x] show ?thesis by simp
qed

lemma work_follows: "safe work_rules (\<lambda>_ _. True) er_work []"
proof -
  have "safe work_rules (\<lambda>_ _. True) (er_phase (claim r (e_unix b)) (e_unix b) (er_finish (claim r (e_unix b))))
      [(ELoad, a), (ENow, b), (ESave r (claim r (e_unix b)), c)]"
    if "e_item a = Inr (Some r)" "waiting r (e_unix b)" "e_err c = None" for a b c r
    by (rule work_phase) (rule claimed.intros [OF that])
  moreover have "\<not> active zero_state" by (simp add: active_def zero_state_def)
  moreover have "waiting r t \<longleftrightarrow> \<not> (\<not> active r \<or> esLeaseUntil r > t \<or> esDue r > t)" for r t
    by (auto simp: waiting_def active_def)
  ultimately show ?thesis
    unfolding er_work_def claim_leased(1) [symmetric]
    by (auto simp: er_load_def er_now_def er_save_def rule_load rule_now intro!: rule_claim split: sum.split option.split)
qed

text \<open>C35: in every interleaving of administrators and workers the committed states of a reset form a
path of its state machine with increasing revisions, and each comes after all earlier phases of
the same operation and with the same snapshot of the functions' concurrency: nothing is cleared
before the pause, the drain and the purge, and nothing is restored or completed before all of it.
There is one lease at a time: a claimed state is only followed by the result of its claim, or by a
claim made after the lease has run out. And a worker claims only a state that is due, not failed
and free, and then makes exactly the call of its phase and saves what the answer gives: the next
phase when the call succeeded, the recorded error when it failed.\<close>

theorem reset_in_order:
  assumes "reached same_revision er_access er_seen er_acked er_ops s ps"
    and "i < length (news (commits s) ())"
  shows "successively er_step (news (commits s) ()) \<and>
    sorted_wrt (\<lambda>v w. esRevision v < esRevision w) (news (commits s) ()) \<and>
    came_through (news (commits s) ()) i \<and> one_lease (news (commits s) ()) \<and>
    safe work_rules (\<lambda>_ _. True) er_work []"
proof -
  let ?xs = "news (commits s) ()"
  have p: "successively er_step ?xs" by (rule resets.history_path [OF assms(1)])
  have "linked (commits s)" using resets.reached_grown [OF assms(1)] by (simp add: resets.grown_def)
  moreover have ne: "?xs \<noteq> []" using assms(2) by auto
  ultimately have "((), None, hd ?xs) \<in> set (commits s)" by (rule linked_first)
  from resets.committed_init [OF assms(1) this] have "rank (esPhase (?xs ! 0)) = 0"
    using ne by (auto simp: er_init_def er_states hd_conv_nth)
  from path_came_through [OF p assms(2) this] p resets.versions_increase [OF assms(1)]
    path_one_lease [OF p resets.written_good [OF assms(1)]] work_follows show ?thesis
    by blast
qed

text \<open>A store to run the operations against, with a backend that always succeeds.\<close>

definition er_blank :: er_resp where
  "er_blank = \<lparr>e_item = Inr None, e_err = None, e_snapshot = (Mapping.empty, None),
     e_clear = (True, None), e_unix = 1000\<rparr>"

definition er_store :: "er_call \<Rightarrow> (unit, er_state) shared \<Rightarrow> er_resp \<times> (unit, er_state) shared" where
  "er_store = plain_store same_revision er_access (\<lambda>v. er_blank\<lparr>e_item := Inr v\<rparr>)
     (\<lambda>b. er_blank\<lparr>e_err := (if b then None else Some ErConflict)\<rparr>) (\<lambda>q. er_blank)"

lemma er_store_serves:
  "serve same_revision er_access er_seen er_acked q (fst (er_store q s)) s (snd (er_store q s))"
  unfolding er_store_def by (rule plain_store_serves) (simp_all add: er_seen_def er_acked_def)

lemma er_store_simps:
  "er_store ELoad s = (er_blank\<lparr>e_item := Inr (table s ())\<rparr>, s)" "er_store ENow s = (er_blank, s)"
  "er_store ESnapshot s = (er_blank, s)"
  "er_store (ESave b a) s = (if esRevision b = 0
     then (if news (commits s) () = []
           then (er_blank, s\<lparr>table := (table s)(() \<mapsto> a), commits := commits s @ [((), None, a)]\<rparr>)
           else (er_blank\<lparr>e_err := Some ErConflict\<rparr>, s))
     else (case table s () of
         Some c \<Rightarrow> if esRevision c = esRevision b
           then (er_blank, s\<lparr>table := (table s)(() \<mapsto> a), commits := commits s @ [((), Some c, a)]\<rparr>)
           else (er_blank\<lparr>e_err := Some ErConflict\<rparr>, s)
       | None \<Rightarrow> (er_blank\<lparr>e_err := Some ErConflict\<rparr>, s)))"
  by (simp_all add: er_store_def plain_store_def same_revision_def er_blank_def split: option.split)

definition demo_reset :: er_request where
  "demo_reset = \<lparr>rqAction = ''start'', rqEnvironment = ''dev'', rqConfirmation = ''dev'',
     rqOperation = replicate 32 (CHR ''a''), rqActor = ''admin''\<rparr>"

definition after_start :: "(unit, er_state) shared" where
  "after_start = snd (run er_store (pbind (er_start \<lparr>erEnvironment = ''dev'', erEnabled = True\<rparr> demo_reset)
     (\<lambda>_. Ret (None :: er_err option))) no_records)"

definition after_work :: "(unit, er_state) shared" where
  "after_work = snd (run er_store er_work after_start)"

lemma demo_operation: "valid_operation (replicate 32 (CHR ''a''))"
  by code_simp

lemma after_work_reached: "\<exists>ps. reached same_revision er_access er_seen er_acked er_ops after_work ps"
proof -
  have "\<exists>ps. reached same_revision er_access er_seen er_acked er_ops after_start ps"
    unfolding after_start_def
    by (rule reached_run [where H = er_store], rule er_store_serves, rule reached_init, rule op_start)
  then obtain ps where "reached same_revision er_access er_seen er_acked er_ops after_start ps" by blast
  then show ?thesis
    unfolding after_work_def by (intro reached_run [where H = er_store]) (rule er_store_serves op_work | assumption)+
qed

lemma after_start_state: "after_start =
    (let v = started zero_state (replicate 32 (CHR ''a'')) ''admin'' 1000 1000
     in \<lparr>table = [() \<mapsto> v], commits = [((), None, v)]\<rparr>)"
  using demo_operation
  by (simp add: after_start_def er_start_def demo_reset_def call_simps er_store_simps no_records_def
      er_blank_def er_states Let_def)

lemma after_work_news: "map esPhase (news (commits after_work) ()) = [''snapshot'', ''snapshot'', ''pause'']"
  by (simp add: after_work_def after_start_state er_work_def call_simps er_store_simps er_blank_def
      er_phase_def er_finish_def er_states active_def Let_def news_def)

theorem reset_in_order_witness:
  "came_through (news (commits after_work) ()) 2 \<and> esPhase (news (commits after_work) () ! 2) = ''pause''"
proof -
  have l: "length (news (commits after_work) ()) = 3"
    using arg_cong [OF after_work_news, of length] by simp
  have "map esPhase (news (commits after_work) ()) ! 2 = ''pause''" by (simp add: after_work_news)
  moreover obtain ps where "reached same_revision er_access er_seen er_acked er_ops after_work ps"
    using after_work_reached by blast
  ultimately show ?thesis using reset_in_order [of after_work ps 2] l by simp
qed

section \<open>A reset completes\<close>

text \<open>The table and how many pages of users, tables and objects are left; \<open>t\<close> is the time.\<close>

record reset_world =
  rwState :: er_state
  rwPages :: "string \<Rightarrow> nat"

fun er_backend :: "int \<Rightarrow> er_call \<Rightarrow> reset_world \<Rightarrow> er_resp \<times> reset_world" where
  "er_backend t ELoad w = (er_blank\<lparr>e_item := Inr (Some (rwState w))\<rparr>, w)"
| "er_backend t (ESave b a) w =
     (if esRevision b = esRevision (rwState w) then (er_blank, w\<lparr>rwState := a\<rparr>)
      else (er_blank\<lparr>e_err := Some ErConflict\<rparr>, w))"
| "er_backend t (EClear p) w =
     (er_blank\<lparr>e_clear := (rwPages w p = 0, None)\<rparr>, w\<lparr>rwPages := (rwPages w)(p := rwPages w p - 1)\<rparr>)"
| "er_backend t ENow w = (er_blank\<lparr>e_unix := t\<rparr>, w)"
| "er_backend t q w = (er_blank, w)"

definition worked :: "int \<Rightarrow> reset_world \<Rightarrow> reset_world" where
  "worked t w = snd (run (er_backend t) er_work w)"

definition remaining :: "reset_world \<Rightarrow> nat" where
  "remaining w = (9 - rank (esPhase (rwState w))) +
     rwPages w ''users'' + rwPages w ''tables'' + rwPages w ''objects''"

definition on_course :: "int \<Rightarrow> reset_world \<Rightarrow> bool" where
  "on_course t w \<longleftrightarrow> esPhase (rwState w) \<in> set phases \<and> esError (rwState w) = '''' \<and>
     esLeaseUntil (rwState w) \<le> t \<and>
     list_all (\<lambda>p. rank p < rank (esPhase (rwState w)) \<longrightarrow> rwPages w p = 0) [''users'', ''tables'', ''objects'']"

text \<open>The waits that are still to come: 420 seconds after the pause, 60 after the purge.\<close>

definition waits :: "reset_world \<Rightarrow> int" where
  "waits w = (if rank (esPhase (rwState w)) \<le> 1 then 420 else 0) + (if rank (esPhase (rwState w)) \<le> 3 then 60 else 0)"

text \<open>An invocation before the state is due does nothing; one when it is due does its phase.\<close>

lemma worked_idle: "t < esDue (rwState w) \<Longrightarrow> worked t w = w"
  by (simp add: worked_def er_work_def call_simps er_blank_def)

lemma worked_step:
  assumes "on_course t w" "esPhase (rwState w) \<noteq> ''complete''" "esDue (rwState w) \<le> t" "0 \<le> t"
  shows "on_course t (worked t w) \<and> remaining (worked t w) < remaining w \<and>
    esDue (rwState (worked t w)) + waits (worked t w) \<le> t + waits w \<and> waits (worked t w) \<le> waits w"
proof -
  consider "esPhase (rwState w) = ''snapshot''" | "esPhase (rwState w) = ''pause''"
    | "esPhase (rwState w) = ''drain''" | "esPhase (rwState w) = ''purge''" | "esPhase (rwState w) = ''queue_wait''"
    | "esPhase (rwState w) = ''users''" | "esPhase (rwState w) = ''tables''" | "esPhase (rwState w) = ''objects''"
    | "esPhase (rwState w) = ''restore''"
    using assms by (auto simp: on_course_def phases_def)
  then show ?thesis
    using assms(1,3,4)
    by cases (simp_all add: worked_def er_work_def call_simps on_course_def active_def er_blank_def er_phase_def
        er_finish_def er_states remaining_def phases_def cleared_phase_def waits_def)
qed

text \<open>The worker invoked at the times \<open>tm\<close>, and the schedule: a sweep every minute (\<open>infra/reset.go\<close>)
and, in between, any further invocations, such as those of the loop in \<open>cmd/environment-reset\<close>.\<close>

primrec swept :: "(nat \<Rightarrow> int) \<Rightarrow> nat \<Rightarrow> reset_world \<Rightarrow> reset_world" where
  "swept tm 0 w = w"
| "swept tm (Suc n) w = worked (tm n) (swept tm n w)"

definition every_minute :: "(nat \<Rightarrow> int) \<Rightarrow> bool" where
  "every_minute tm \<longleftrightarrow> 0 \<le> tm 0 \<and> (\<forall>n. tm n \<le> tm (Suc n) \<and> tm (Suc n) \<le> tm n + 60) \<and> (\<forall>t. \<exists>n. t \<le> tm n)"

lemma swept_add: "swept tm (m + n) w = swept (\<lambda>i. tm (m + i)) n (swept tm m w)"
  by (induction n) simp_all

lemma every_minute_later: "every_minute tm \<Longrightarrow> tm 0 \<le> tm n"
  by (induction n) (auto simp: every_minute_def intro: order_trans)

lemma every_minute_shift:
  assumes "every_minute tm"
  shows "every_minute (\<lambda>i. tm (m + i))"
proof -
  have up: "tm n \<le> tm (n + k)" for n k
    by (induction k) (use assms in \<open>auto simp: every_minute_def intro: order_trans\<close>)
  have "\<exists>i. t \<le> tm (m + i)" for t
  proof -
    obtain n where "t \<le> tm n" using assms by (auto simp: every_minute_def)
    with up [of n m] show ?thesis by (intro exI [of _ n]) (simp add: add.commute)
  qed
  with assms every_minute_later [OF assms, of m] show ?thesis by (auto simp: every_minute_def)
qed

text \<open>The first invocation that finds the state due: nothing has changed until then.\<close>

lemma first_due:
  assumes "every_minute tm"
  obtains m where "swept tm m w = w" "esDue (rwState w) \<le> tm m"
    "tm m \<le> max (tm 0) (esDue (rwState w) + 60)"
proof -
  let ?d = "esDue (rwState w)"
  obtain n where n: "?d \<le> tm n" using assms by (auto simp: every_minute_def)
  define m where "m = (LEAST i. ?d \<le> tm i)"
  have m: "?d \<le> tm m" unfolding m_def by (rule LeastI [of _ n]) (rule n)
  have before: "tm i < ?d" if "i < m" for i using that not_less_Least [of i] unfolding m_def by fastforce
  have "i \<le> m \<Longrightarrow> swept tm i w = w" for i
    by (induction i) (use before in \<open>auto simp: worked_idle\<close>)
  moreover have "tm m \<le> max (tm 0) (?d + 60)"
  proof (cases m)
    case (Suc k)
    with before [of k] assms show ?thesis by (auto simp: every_minute_def le_max_iff_disj dest: spec [of _ k])
  qed simp
  ultimately show thesis using m that by blast
qed

definition reset_done :: "int \<Rightarrow> reset_world \<Rightarrow> bool" where
  "reset_done t w \<longleftrightarrow> esPhase (rwState w) = ''complete'' \<and> esError (rwState w) = '''' \<and>
     esLeaseUntil (rwState w) \<le> t \<and> rwPages w ''users'' = 0 \<and> rwPages w ''tables'' = 0 \<and> rwPages w ''objects'' = 0"

text \<open>C39: with a backend that succeeds and finitely many pages to delete, a worker invoked at any times
that are at most a minute apart completes the reset: all users, tables and objects are cleared and
no error or lease is left, at the latest one minute per remaining phase and page after the state
is due, plus the waits of the drain and the queues.\<close>

theorem reset_terminates:
  assumes "every_minute tm" "on_course (tm 0) w"
  shows "\<exists>n. reset_done (tm n) (swept tm (Suc n) w) \<and>
    tm n \<le> max (tm 0) (esDue (rwState w) + 60) + 60 * int (remaining w) + waits w"
  using assms
proof (induction "remaining w" arbitrary: tm w rule: less_induct)
  case less
  show ?case
  proof (cases "esPhase (rwState w) = ''complete''")
    case True
    then have "worked (tm 0) w = w" by (simp add: worked_def er_work_def call_simps er_blank_def active_def)
    with True less.prems(2) show ?thesis
      by (intro exI [of _ 0]) (simp add: on_course_def waits_def reset_done_def)
  next
    case False
    obtain m where m: "swept tm m w = w" "esDue (rwState w) \<le> tm m" "tm m \<le> max (tm 0) (esDue (rwState w) + 60)"
      by (rule first_due [OF less.prems(1)])
    have t: "tm 0 \<le> tm m" "0 \<le> tm m" "tm m \<le> tm (Suc m)" "tm (Suc m) \<le> tm m + 60"
      using every_minute_later [OF less.prems(1), of m] less.prems(1) by (auto simp: every_minute_def)
    let ?w = "worked (tm m) w" and ?tm = "\<lambda>i. tm (Suc m + i)"
    have "on_course (tm m) w" using less.prems(2) t(1) by (auto simp: on_course_def)
    from worked_step [OF this False m(2) t(2)] have c: "on_course (tm m) ?w"
      and d: "remaining ?w < remaining w" and e: "esDue (rwState ?w) + waits ?w \<le> tm m + waits w" "waits ?w \<le> waits w" by blast+
    have "on_course (?tm 0) ?w" using c t(3) by (auto simp: on_course_def)
    from less.hyps [OF d every_minute_shift [OF less.prems(1)] this] obtain n where
      n: "reset_done (tm (Suc m + n)) (swept ?tm (Suc n) ?w)"
        "tm (Suc m + n) \<le> max (tm (Suc m + 0)) (esDue (rwState ?w) + 60) + 60 * int (remaining ?w) + waits ?w" by blast
    moreover have "swept tm (Suc (Suc m + n)) w = swept ?tm (Suc n) ?w"
      using swept_add [of tm "Suc m" "Suc n" w] m(1) by simp
    ultimately show ?thesis using n d e t m(3) by (intro exI [of _ "Suc m + n"]) auto
  qed
qed

definition demo_world :: reset_world where
  "demo_world = \<lparr>rwState = started zero_state ''op'' ''admin'' 0 0, rwPages = (\<lambda>_. 2)\<rparr>"

theorem reset_terminates_witness:
  "\<exists>n\<le>24. reset_done (60 * int n) (swept (\<lambda>n. 60 * int n) (Suc n) demo_world)"
proof -
  have "\<exists>n. t \<le> 60 * int n" for t :: int by (rule exI [of _ "nat t"]) simp
  then have "every_minute (\<lambda>n. 60 * int n)" unfolding every_minute_def by auto
  moreover have "on_course (60 * int 0) demo_world" by (simp add: on_course_def demo_world_def er_states phases_def)
  moreover have "remaining demo_world = 15" "waits demo_world = 480" "esDue (rwState demo_world) = 0"
    by (simp_all add: remaining_def waits_def demo_world_def er_states)
  ultimately obtain n where "reset_done (60 * int n) (swept (\<lambda>n. 60 * int n) (Suc n) demo_world)"
    "60 * int n \<le> max (60 * int 0) (0 + 60) + 60 * int 15 + 480"
    using reset_terminates [of "\<lambda>n. 60 * int n" demo_world] by force
  then show ?thesis by (intro exI [of _ n]) simp
qed

end
