(* ===== verification/AdminApi.thy ===== *)
theory AdminApi
  imports RuntimeConfig EnvReset Passkey
begin

text \<open>
  The administrators' API, \<open>adminapi/handler.go\<close>, with the activation of passkeys as a second
  factor (\<open>passkey.go\<close>) and the client of the reset function (\<open>reset.go\<close>). The handler uses the
  configuration service, the identity provider and the reset client: their calls are under the
  constructors of \<open>ad_call\<close>.
\<close>

section \<open>Passkeys as a second factor\<close>

datatype factor_err = PasskeyNotReady | FactorOther string

datatype factor_call =
    FGetUser string
  | FCredentials string "string option" \<comment> \<open>token, NextToken\<close>
  | FPrefer string bool \<comment> \<open>token, whether TOTP stays preferred; both factors enabled\<close>

record factor_resp =
  f_user :: "factor_err + string list \<times> string"
    \<comment> \<open>UserMFASettingList, PreferredMfaSetting (empty where absent)\<close>
  f_page :: "factor_err + string list \<times> string option" \<comment> \<open>relying parties, NextToken\<close>
  f_done :: "factor_err option"

type_synonym 'a factor_prog = "(factor_call, factor_resp, 'a) prog"

text \<open>The pages of the credential list, each costing one unit of fuel.\<close>

fun find_credential :: "nat \<Rightarrow> string \<Rightarrow> string \<Rightarrow> string option \<Rightarrow> (factor_err + bool) factor_prog" where
  "find_credential 0 token host next = Spin"
| "find_credential (Suc fuel) token host next = Call (FCredentials token next) (\<lambda>r. case f_page r of
     Inl e \<Rightarrow> Ret (Inl e)
   | Inr (ids, after) \<Rightarrow>
       if host \<in> set ids then Ret (Inr True)
       else if after = None \<or> after = Some '''' then Ret (Inr False)
       else find_credential fuel token host after)"

definition mfa_activate :: "golib \<Rightarrow> nat \<Rightarrow> string \<Rightarrow> string \<Rightarrow> factor_err option factor_prog" where
  "mfa_activate L fuel login token = Call (FGetUser token) (\<lambda>r. case f_user r of
     Inl e \<Rightarrow> Ret (Some e)
   | Inr (factors, preferred) \<Rightarrow>
       if ''SOFTWARE_TOKEN_MFA'' \<notin> set factors then Ret (Some PasskeyNotReady) else
       (case url_parse L login of
          None \<Rightarrow> Ret (Some PasskeyNotReady)
        | Some u \<Rightarrow>
            if u_Hostname u = '''' then Ret (Some PasskeyNotReady) else
            pbind (find_credential fuel token (u_Hostname u) None) (\<lambda>x. case x of
              Inl e \<Rightarrow> Ret (Some e)
            | Inr found \<Rightarrow>
                if \<not> found then Ret (Some PasskeyNotReady)
                else Call (FPrefer token (preferred = ''SOFTWARE_TOKEN_MFA'')) (\<lambda>r'. Ret (f_done r')))))"

section \<open>The reset client\<close>

text \<open>The function is invoked over HTTPS; its reply is a status or an error code.\<close>

datatype lambda_call = LInvoke string er_request \<comment> \<open>function name\<close>

record lambda_resp = l_http :: "(nat \<times> string) option" \<comment> \<open>status and body, None on an error\<close>

record reset_reply =
  lrStatus :: "er_status option"
  lrError :: string

definition reset_unavailable :: cfg_err where "reset_unavailable = CfgOther ''reset_unavailable''"

definition reset_answer :: "(string \<Rightarrow> reset_reply option) \<Rightarrow> string \<Rightarrow> (nat \<times> string) option \<Rightarrow> cfg_err + er_status" where
  "reset_answer parse env a = (case a of
       None \<Rightarrow> Inl reset_unavailable
     | Some (st, data) \<Rightarrow>
         if st \<noteq> 200 then Inl reset_unavailable else
         (case parse data of
            None \<Rightarrow> Inl reset_unavailable
          | Some r \<Rightarrow>
              if lrError r = ''reset_disabled'' then Inl CfgForbidden
              else if lrError r = ''invalid_reset_request'' then Inl CfgInvalid
              else if lrError r = ''reset_in_progress'' then Inl CfgConflict
              else case lrStatus r of
                None \<Rightarrow> Inl reset_unavailable
              | Some x \<Rightarrow> if lrError r \<noteq> '''' \<or> stEnvironment x \<noteq> env then Inl reset_unavailable else Inr x))"

definition reset_invoke :: "(string \<Rightarrow> reset_reply option) \<Rightarrow> er_request \<Rightarrow>
    (lambda_call, lambda_resp, cfg_err + er_status) prog" where
  "reset_invoke parse q =
    (if \<not> valid_environment (rqEnvironment q) then Ret (Inl CfgInvalid) else
     Call (LInvoke (''attestra-reset-'' @ rqEnvironment q) q) (\<lambda>r.
       Ret (reset_answer parse (rqEnvironment q) (l_http r))))"

section \<open>The handler\<close>

datatype ad_call = ACfg cfg_call | AFactor factor_call | AReset er_request

record ad_resp =
  a_cfg :: cfg_resp
  a_factor :: factor_resp
  a_reset :: "cfg_err + er_status"

type_synonym 'a ad_prog = "(ad_call, ad_resp, 'a) prog"

datatype ad_body =
    AdError string
  | AdAsset string \<comment> \<open>the embedded page, script or style\<close>
  | AdSettings string string string string
  | AdActivated
  | AdGrants "grant list"
  | AdGrant grant
  | AdReset er_status
  | AdConfig config
  | AdHistory "version list"

record ad_handler =
  adReset :: bool \<comment> \<open>a reset client is configured\<close>
  adPasskeys :: bool
  adIssuer :: string
  adClientID :: string
  adOrigin :: string
  adLoginDomain :: string

record reset_input =
  riAction :: string
  riConfirmation :: string
  riOperation :: string

record publish_input =
  piExpected :: int
  piConfig :: config
  piRollback :: "int option"

record ad_json =
  ajEmpty :: "unit strict_decoder"
  ajReset :: "reset_input strict_decoder"
  ajPublish :: "publish_input strict_decoder"
  ajGrant :: "grant strict_decoder"

definition ad_reply :: "nat \<Rightarrow> ad_body \<Rightarrow> ad_body response" where
  "ad_reply st b = \<lparr>rsStatus = st, rsBody = b\<rparr>"

definition ad_failure :: "cfg_err \<Rightarrow> ad_body response" where
  "ad_failure e = (case e of
       CfgInvalid \<Rightarrow> ad_reply 400 (AdError ''invalid_config'')
     | CfgForbidden \<Rightarrow> ad_reply 403 (AdError ''environment_forbidden'')
     | CfgConflict \<Rightarrow> ad_reply 409 (AdError ''revision_conflict'')
     | CfgNotFound \<Rightarrow> ad_reply 404 (AdError ''not_found'')
     | _ \<Rightarrow> ad_reply 503 (AdError ''service_unavailable''))"

definition ad_decode :: "'a strict_decoder \<Rightarrow> request \<Rightarrow> 'a option" where
  "ad_decode D rq =
    (if length (rqBody rq) > 16000 then None else
     case body_text rq of None \<Rightarrow> None | Some b \<Rightarrow> strict_value D b)"

definition in_cfg :: "(cfg_err + 'a) cfg_prog \<Rightarrow> ('a \<Rightarrow> ad_body response ad_prog) \<Rightarrow> ad_body response ad_prog" where
  "in_cfg p k = pbind (lift_calls ACfg a_cfg p) (\<lambda>x. case x of
     Inl e \<Rightarrow> Ret (ad_failure e) | Inr v \<Rightarrow> k v)"

definition decoded :: "'i option \<Rightarrow> ('i \<Rightarrow> ad_body response ad_prog) \<Rightarrow> ad_body response ad_prog" where
  "decoded x k = (case x of None \<Rightarrow> Ret (ad_failure CfgInvalid) | Some v \<Rightarrow> k v)"

text \<open>The routes without authorization.\<close>

definition ad_public :: "ad_handler \<Rightarrow> string \<Rightarrow> ad_body response option" where
  "ad_public h path =
    (if path = ''/'' \<or> path = ''/callback'' then Some (ad_reply 200 (AdAsset ''web/index.html''))
     else if path = ''/app.js'' then Some (ad_reply 200 (AdAsset ''web/app.js''))
     else if path = ''/style.css'' then Some (ad_reply 200 (AdAsset ''web/style.css''))
     else if path = ''/settings''
     then Some (ad_reply 200 (AdSettings (adIssuer h) (adClientID h) (adOrigin h) (adLoginDomain h)))
     else None)"

definition ad_subject :: "ad_handler \<Rightarrow> request \<Rightarrow> string option" where
  "ad_subject h rq = (case rqClaims rq of
       None \<Rightarrow> None
     | Some c \<Rightarrow>
         if c ''sub'' = '''' \<or> c ''iss'' \<noteq> adIssuer h \<or> c ''client_id'' \<noteq> adClientID h \<or> c ''token_use'' \<noteq> ''access''
         then None else Some (c ''sub''))"

definition ad_activate :: "golib \<Rightarrow> ad_json \<Rightarrow> nat \<Rightarrow> ad_handler \<Rightarrow> request \<Rightarrow> ad_body response ad_prog" where
  "ad_activate L J fuel h rq = decoded (ad_decode (ajEmpty J) rq) (\<lambda>_.
     if \<not> adPasskeys h then Ret (ad_failure (CfgOther ''unavailable'')) else
     case bearer (rqHeaders rq ''authorization'') of
       None \<Rightarrow> Ret (ad_reply 401 (AdError ''admin_sign_in_required''))
     | Some token \<Rightarrow>
         pbind (lift_calls AFactor a_factor (mfa_activate L fuel (adLoginDomain h) token)) (\<lambda>e. Ret (case e of
           Some PasskeyNotReady \<Rightarrow> ad_reply 409 (AdError ''complete_totp_and_passkey_registration_first'')
         | Some (FactorOther t) \<Rightarrow> ad_failure (CfgOther t)
         | None \<Rightarrow> ad_reply 200 AdActivated)))"

definition ad_grants :: "string \<Rightarrow> ad_body response ad_prog" where
  "ad_grants sub = in_cfg (repo_grants sub Ret) (\<lambda>gs. Ret (ad_reply 200 (AdGrants (filter grActive gs))))"

definition ad_invoke :: "er_request \<Rightarrow> nat \<Rightarrow> ad_body response ad_prog" where
  "ad_invoke q st = Call (AReset q) (\<lambda>r. Ret (case a_reset r of
     Inl e \<Rightarrow> ad_failure e | Inr v \<Rightarrow> ad_reply st (AdReset v)))"

definition ad_reset :: "ad_json \<Rightarrow> ad_handler \<Rightarrow> string \<Rightarrow> string \<Rightarrow> grant \<Rightarrow> request \<Rightarrow> ad_body response ad_prog" where
  "ad_reset J h sub env g rq =
    (if \<not> grManageGrants g then Ret (ad_failure CfgForbidden) else
     if \<not> adReset h then Ret (ad_failure reset_unavailable) else
     let q = \<lparr>rqAction = ''status'', rqEnvironment = env, rqConfirmation = '''', rqOperation = '''', rqActor = sub\<rparr> in
     if rqMethod rq = ''POST'' then
       decoded (ad_decode (ajReset J) rq) (\<lambda>v.
         if (riAction v \<noteq> ''start'' \<and> riAction v \<noteq> ''resume'') \<or> riConfirmation v \<noteq> env \<or>
            \<not> valid_operation (riOperation v)
         then Ret (ad_failure CfgInvalid)
         else ad_invoke (q\<lparr>rqAction := riAction v, rqConfirmation := riConfirmation v,
                rqOperation := riOperation v\<rparr>) 202)
     else ad_invoke q 200)"

definition ad_publish :: "'c cfglib \<Rightarrow> ad_json \<Rightarrow> string \<Rightarrow> grant \<Rightarrow> request \<Rightarrow> ad_body response ad_prog" where
  "ad_publish G J env g rq = decoded (ad_decode (ajPublish J) rq) (\<lambda>v.
     if piExpected v < 0 then Ret (ad_failure CfgInvalid) else
     let go = (\<lambda>c. if gEnvironment c \<noteq> env then Ret (ad_failure CfgInvalid)
           else in_cfg (cfg_publish G g (piExpected v) c (piRollback v) Ret) (\<lambda>out.
             Ret (ad_reply 200 (AdConfig out))))
     in case piRollback v of
          Some n \<Rightarrow> in_cfg (repo_version env n Ret) (\<lambda>ver. go (vConfig ver))
        | None \<Rightarrow> go (piConfig v))"

definition ad_get_grant :: "string \<Rightarrow> grant \<Rightarrow> request \<Rightarrow> ad_body response ad_prog" where
  "ad_get_grant env g rq =
    (if \<not> grManageGrants g then Ret (ad_failure CfgForbidden) else
     let subject = rqQuery rq ''subject'' in
     if subject = '''' \<or> length subject > 100 then Ret (ad_failure CfgInvalid) else
     in_cfg (repo_grants subject Ret) (\<lambda>gs. Ret (ad_reply 200 (AdGrant
       (case find (\<lambda>t. grEnvironment t = env) gs of
          Some t \<Rightarrow> t
        | None \<Rightarrow> \<lparr>grSubject = subject, grEnvironment = env, grRevision = 0, grActive = False,
            grManageGrants = False\<rparr>)))))"

definition ad_set_grant :: "ad_json \<Rightarrow> string \<Rightarrow> grant \<Rightarrow> request \<Rightarrow> ad_body response ad_prog" where
  "ad_set_grant J env g rq = decoded (ad_decode (ajGrant J) rq) (\<lambda>target.
     if grEnvironment target \<noteq> env then Ret (ad_failure CfgInvalid) else
     Call (ACfg (RSetGrant g target)) (\<lambda>r. Ret (case g_err (a_cfg r) of
       Some e \<Rightarrow> ad_failure e
     | None \<Rightarrow> ad_reply 200 (AdGrant (target\<lparr>grRevision := add64 (grRevision target) 1\<rparr>)))))"

definition ad_environment :: "'c cfglib \<Rightarrow> ad_json \<Rightarrow> ad_handler \<Rightarrow> string \<Rightarrow> string list \<Rightarrow> grant \<Rightarrow> request \<Rightarrow>
    ad_body response ad_prog" where
  "ad_environment G J h sub p g rq =
    (let env = p ! 0; method = rqMethod rq;
         one = (length p = 1); sec = (\<lambda>s. length p = 2 \<and> p ! 1 = s)
     in if sec ''reset'' \<and> (method = ''GET'' \<or> method = ''POST'') then ad_reset J h sub env g rq
     else if method = ''GET'' \<and> one then in_cfg (repo_get env Ret) (\<lambda>c. Ret (ad_reply 200 (AdConfig c)))
     else if method = ''GET'' \<and> sec ''history'' then in_cfg (repo_history env Ret) (\<lambda>v. Ret (ad_reply 200 (AdHistory v)))
     else if method = ''POST'' \<and> one then ad_publish G J env g rq
     else if method = ''GET'' \<and> sec ''grants'' then ad_get_grant env g rq
     else if method = ''POST'' \<and> sec ''grants'' then ad_set_grant J env g rq
     else Ret (ad_failure CfgNotFound))"

definition ad_authorized :: "golib \<Rightarrow> 'c cfglib \<Rightarrow> ad_json \<Rightarrow> nat \<Rightarrow> ad_handler \<Rightarrow> string \<Rightarrow> request \<Rightarrow>
    ad_body response ad_prog" where
  "ad_authorized L G J fuel h sub rq =
    (let path = rqRawPath rq; prefix = ''/api/environments/'';
         p = split_on (CHR ''/'') (trim_prefix path prefix)
     in if rqMethod rq \<noteq> ''GET'' \<and> rqHeaders rq ''origin'' \<noteq> adOrigin h then Ret (ad_failure CfgForbidden)
     else if rqMethod rq = ''POST'' \<and> path = ''/api/passkey/activate'' then ad_activate L J fuel h rq
     else if rqMethod rq = ''GET'' \<and> path = ''/api/environments'' then ad_grants sub
     else if \<not> has_prefix path prefix \<or> length p > 2 \<or> \<not> valid_environment (p ! 0)
     then Ret (ad_failure CfgNotFound)
     else in_cfg (authorized sub (p ! 0) Ret) (\<lambda>g. ad_environment G J h sub p g rq))"

definition ad_handle :: "golib \<Rightarrow> 'c cfglib \<Rightarrow> ad_json \<Rightarrow> nat \<Rightarrow> ad_handler \<Rightarrow> request \<Rightarrow> ad_body response ad_prog" where
  "ad_handle L G J fuel h rq =
    (case (if rqMethod rq = ''GET'' then ad_public h (rqRawPath rq) else None) of
       Some x \<Rightarrow> Ret x
     | None \<Rightarrow> (case ad_subject h rq of
         None \<Rightarrow> Ret (ad_reply 401 (AdError ''admin_sign_in_required''))
       | Some sub \<Rightarrow> ad_authorized L G J fuel h sub rq))"

end
