(* ===== verification/AdminProps.thy ===== *)
theory AdminProps
  imports AdminApi
begin

text \<open>
  What the administrators' API promises, whatever the stores, the provider and the reset function
  answer: who may change what, and that a passkey becomes a second factor only after the provider
  has shown that it is one for the login domain.
\<close>

section \<open>Histories of lifted operations\<close>

text \<open>The history \<open>h\<close> of an operation as the lifted one sees it.\<close>

definition lowered :: "('q \<Rightarrow> 'q2) \<Rightarrow> ('r2 \<Rightarrow> 'r) \<Rightarrow> ('q2 \<times> 'r2) list \<Rightarrow> ('q \<times> 'r) list \<Rightarrow> bool" where
  "lowered f g = list_all2 (\<lambda>(q2, r2) (q, r). q2 = f q \<and> g r2 = r)"


lemma lowered_mem:
  "lowered f g t h \<Longrightarrow> (q, r) \<in> set h \<Longrightarrow> \<exists>r2. (f q, r2) \<in> set t \<and> g r2 = r"
  by (auto simp: lowered_def list_all2_conv_all_nth in_set_conv_nth case_prod_beta) (metis fst_conv snd_conv surj_pair)

lemma lowered_Nil [simp]: "lowered f g [] []"
  by (simp add: lowered_def)


section \<open>The second factor\<close>

text \<open>The provider has listed a credential for \<open>host\<close> to \<open>token\<close>, and a registered TOTP.\<close>

definition listed :: "string \<Rightarrow> string \<Rightarrow> (factor_call \<times> factor_resp) list \<Rightarrow> bool" where
  "listed token host h \<longleftrightarrow>
     (\<exists>nt r ids after. (FCredentials token nt, r) \<in> set h \<and> f_page r = Inr (ids, after) \<and> host \<in> set ids)"

definition totp_set :: "string \<Rightarrow> (factor_call \<times> factor_resp) list \<Rightarrow> bool" where
  "totp_set token h \<longleftrightarrow> (\<exists>r factors pref. (FGetUser token, r) \<in> set h \<and> f_user r = Inr (factors, pref) \<and>
     ''SOFTWARE_TOKEN_MFA'' \<in> set factors)"

definition factor_ready :: "string \<Rightarrow> string \<Rightarrow> (factor_call \<times> factor_resp) list \<Rightarrow> bool" where
  "factor_ready token host h \<longleftrightarrow> host \<noteq> [] \<and> totp_set token h \<and> listed token host h"





definition factor_outcome :: "string \<Rightarrow> string \<Rightarrow> factor_err option \<Rightarrow> (factor_call \<times> factor_resp) list \<Rightarrow> bool" where
  "factor_outcome token host x h \<longleftrightarrow> x \<noteq> None \<or>
     (\<exists>b h' r. h = h' @ [(FPrefer token b, r)] \<and> f_done r = None \<and> factor_ready token host h')"

definition login_host :: "golib \<Rightarrow> string \<Rightarrow> string" where
  "login_host L login = (case url_parse L login of None \<Rightarrow> '''' | Some u \<Rightarrow> u_Hostname u)"


section \<open>Who may do what\<close>

text \<open>
  The subject the claims of a token name, if it is an access token of this issuer for this client;
  the environment a path names, the origin check, and a grant read from the store.
\<close>

definition verified_subject :: "ad_handler \<Rightarrow> request \<Rightarrow> string \<Rightarrow> bool" where
  "verified_subject h rq sub \<longleftrightarrow> sub \<noteq> '''' \<and> (\<exists>claims. rqClaims rq = Some claims \<and> claims ''sub'' = sub \<and>
     claims ''iss'' = adIssuer h \<and> claims ''client_id'' = adClientID h \<and> claims ''token_use'' = ''access'')"


definition target_env :: "request \<Rightarrow> string" where
  "target_env rq = split_on (CHR ''/'') (trim_prefix (rqRawPath rq) ''/api/environments/'') ! 0"

definition same_origin :: "ad_handler \<Rightarrow> request \<Rightarrow> bool" where
  "same_origin h rq \<longleftrightarrow> rqMethod rq \<noteq> ''GET'' \<and> rqHeaders rq ''origin'' = adOrigin h"

definition read_grant :: "string \<Rightarrow> request \<Rightarrow> (ad_call \<times> ad_resp) list \<Rightarrow> grant \<Rightarrow> bool" where
  "read_grant sub rq tr g \<longleftrightarrow> has_prefix (rqRawPath rq) ''/api/environments/'' \<and> valid_environment (target_env rq) \<and>
     grEnvironment g = target_env rq \<and> grActive g \<and>
     (\<exists>r gs. (ACfg (RGrants sub), r) \<in> set tr \<and> g_grants (a_cfg r) = Inr gs \<and> g \<in> set gs)"






text \<open>What an answer may hold.\<close>

definition admin_answer :: "golib \<Rightarrow> ad_handler \<Rightarrow> request \<Rightarrow> ad_body response \<Rightarrow> (ad_call \<times> ad_resp) list \<Rightarrow> bool" where
  "admin_answer L h rq x tr = (case rsBody x of
       AdError e \<Rightarrow> 400 \<le> rsStatus x
     | AdAsset f \<Rightarrow> tr = []
     | AdSettings a b c d \<Rightarrow> tr = []
     | AdGrants gs \<Rightarrow> list_all grActive gs \<and> (\<exists>sub r all. verified_subject h rq sub \<and>
         (ACfg (RGrants sub), r) \<in> set tr \<and> g_grants (a_cfg r) = Inr all \<and> set gs \<subseteq> set all)
     | AdActivated \<Rightarrow> (\<exists>sub. verified_subject h rq sub) \<and> same_origin h rq \<and> (\<exists>token t. bearer (rqHeaders rq ''authorization'') = Some token \<and>
         lowered AFactor a_factor tr t \<and> factor_outcome token (login_host L (adLoginDomain h)) None t)
     | _ \<Rightarrow> (\<exists>sub g. verified_subject h rq sub \<and> read_grant sub rq tr g))"

subsection \<open>The calls of the configuration service, lifted\<close>





subsection \<open>The routes\<close>

lemma answer_error [simp]: "admin_answer L h rq (ad_failure e) tr" "admin_answer L h rq (ad_reply 401 (AdError t)) tr"
  "admin_answer L h rq (ad_reply 409 (AdError t)) tr"
  by (simp_all add: admin_answer_def ad_failure_def ad_reply_def split: cfg_err.split)














end
