(* ===== verification/CaptureStore.thy ===== *)
theory CaptureStore
  imports CaptureService
begin

text \<open>
  The durable store of the capture service, \<open>awscapture/store.go\<close>. One table holds the owner's
  account, the captures, the mapping from a creation key to its capture, and the events of captures
  that became ready; the keys tell them apart. An item is a constructor of \<open>cap_item\<close>; a capture
  also carries the attributes of the work index, or its expiry. \<open>attributevalue\<close> is taken to store
  and load a value as it is; an item of another kind is an error of loading. Transactions are the
  source's writes and conditions as data. The sweep \<open>Pending\<close> hands the due jobs to the queue.
\<close>

section \<open>Items and writes\<close>

datatype cap_item =
    AccountItem cap_account
  | RecordItem cap_record "(string \<times> int) option" "int option" \<comment> \<open>work and due, or ttl\<close>
  | MappingItem string int \<comment> \<open>CaptureID, ttl\<close>
  | ReadyItem cap_record int \<comment> \<open>Manifest, ttl\<close>

datatype cap_cond = CapAbsent | CapRevision int

datatype cap_write =
    CapPut string cap_item cap_cond
  | CapMarkReady string \<comment> \<open>SET IDCaptured, ADD Revision 1\<close>

datatype txn_err =
    TxnCheckFailed \<comment> \<open>ConditionalCheckFailedException\<close>
  | TxnCancelled "string list" \<comment> \<open>the codes of TransactionCanceledException\<close>
  | TxnOther string

datatype ct_call =
    CtGet string
  | CtTransact "cap_write list"
  | CtQuery string int "string option" \<comment> \<open>work, now, ExclusiveStartKey; at most 100 items\<close>
  | CtSend job

record ct_resp =
  ct_item :: "txn_err + cap_item option"
  ct_done :: "txn_err option"
  ct_page :: "txn_err + cap_record option list \<times> string option"
    \<comment> \<open>None where an item does not load; LastEvaluatedKey\<close>
  ct_sent :: "cap_err option"

type_synonym 'a ct_prog = "(ct_call, ct_resp, 'a) prog"

section \<open>Keys\<close>

definition owner_key :: "golib \<Rightarrow> string \<Rightarrow> string" where
  "owner_key L owner = hex_encode (sha256 L owner)"

definition record_key :: "golib \<Rightarrow> string \<Rightarrow> string \<Rightarrow> string" where
  "record_key L owner i = ''CAP#'' @ owner_key L owner @ ''#'' @ i"

definition account_key :: "golib \<Rightarrow> string \<Rightarrow> string" where
  "account_key L owner = ''ACCOUNT#'' @ owner_key L owner"

definition mapping_key :: "golib \<Rightarrow> string \<Rightarrow> string \<Rightarrow> string" where
  "mapping_key L owner operation = ''CREATE#'' @ owner_key L owner @ ''#'' @ operation"

definition ready_key :: "golib \<Rightarrow> string \<Rightarrow> string \<Rightarrow> string" where
  "ready_key L owner i = ''READY#'' @ owner_key L owner @ ''#'' @ i"

section \<open>Reads\<close>

definition plain_error :: "txn_err \<Rightarrow> cap_err" where
  "plain_error e = (case e of TxnOther t \<Rightarrow> CapOther t | _ \<Rightarrow> CapOther ''dynamodb'')"

definition ct_get :: "string \<Rightarrow> (cap_err + cap_item \<Rightarrow> 'a ct_prog) \<Rightarrow> 'a ct_prog" where
  [call_simps]: "ct_get key k = Call (CtGet key) (\<lambda>r. case ct_item r of
       Inl e \<Rightarrow> k (Inl (plain_error e))
     | Inr None \<Rightarrow> k (Inl CapNotFound)
     | Inr (Some i) \<Rightarrow> k (Inr i))"

definition empty_account :: "string \<Rightarrow> cap_account" where
  "empty_account owner = \<lparr>acIDCaptured = False, acOwner = owner, acCurrentID = '''', acRevision = 0,
     acVersion = 0, acDay = '''', acCreatedToday = 0\<rparr>"

definition unmarshal_error :: cap_err where "unmarshal_error = CapOther ''unmarshal''"

text \<open>The account is loaded over one with the owner filled in: an item that \<open>CapMarkReady\<close> made where
there was none has no \<open>Owner\<close>, which the empty owner stands for.\<close>

definition loaded_account :: "string \<Rightarrow> cap_account \<Rightarrow> cap_account" where
  "loaded_account owner a = (if acOwner a = '''' then a\<lparr>acOwner := owner\<rparr> else a)"

definition cs_account :: "golib \<Rightarrow> string \<Rightarrow> (cap_err + cap_account) ct_prog" where
  "cs_account L owner = ct_get (account_key L owner) (\<lambda>x. Ret (case x of
       Inl e \<Rightarrow> if e = CapNotFound then Inr (empty_account owner) else Inl e
     | Inr (AccountItem a) \<Rightarrow> Inr (loaded_account owner a)
     | Inr _ \<Rightarrow> Inl unmarshal_error))"

definition cs_get :: "golib \<Rightarrow> string \<Rightarrow> string \<Rightarrow> (cap_err + cap_record) ct_prog" where
  "cs_get L owner i = ct_get (record_key L owner i) (\<lambda>x. Ret (case x of
       Inl e \<Rightarrow> Inl e
     | Inr (RecordItem r _ _) \<Rightarrow> if cOwner r \<noteq> owner then Inl CapNotFound else Inr r
     | Inr _ \<Rightarrow> Inl unmarshal_error))"

definition cs_find_create :: "golib \<Rightarrow> string \<Rightarrow> string \<Rightarrow> (cap_err + cap_record) ct_prog" where
  "cs_find_create L owner operation = ct_get (mapping_key L owner operation) (\<lambda>x. case x of
       Inl e \<Rightarrow> Ret (Inl e)
     | Inr (MappingItem i _) \<Rightarrow> cs_get L owner i
     | Inr _ \<Rightarrow> Ret (Inl unmarshal_error))"

section \<open>Transactions\<close>

definition record_item :: "cap_record \<Rightarrow> cap_item" where
  "record_item r = RecordItem r (if cWork r \<noteq> '''' then Some (cWork r, cDue r) else None)
     (if cWork r = '''' then Some (cTTL r) else None)"

definition cap_conditional :: "txn_err option \<Rightarrow> cap_err option" where
  "cap_conditional e = (case e of
       None \<Rightarrow> None
     | Some TxnCheckFailed \<Rightarrow> Some CapConflict
     | Some (TxnCancelled codes) \<Rightarrow>
         if ''ConditionalCheckFailed'' \<in> set codes then Some CapConflict else Some (CapOther ''cancelled'')
     | Some (TxnOther t) \<Rightarrow> Some (CapOther t))"

definition create_writes :: "golib \<Rightarrow> cap_account \<Rightarrow> cap_account \<Rightarrow> cap_record \<Rightarrow> cap_write list" where
  "create_writes L before after r =
    [CapPut (account_key L (cOwner r)) (AccountItem after)
       (if acRevision before = 0 then CapAbsent else CapRevision (acRevision before)),
     CapPut (record_key L (cOwner r) (cID r)) (record_item r) CapAbsent,
     CapPut (mapping_key L (cOwner r) (cCreateKey r)) (MappingItem (cID r) (cTTL r)) CapAbsent]"

definition cs_create :: "golib \<Rightarrow> cap_account \<Rightarrow> cap_account \<Rightarrow> cap_record \<Rightarrow> cap_err option ct_prog" where
  "cs_create L before after r = Call (CtTransact (create_writes L before after r)) (\<lambda>x.
     Ret (cap_conditional (ct_done x)))"

definition swap_writes :: "golib \<Rightarrow> cap_record \<Rightarrow> cap_record \<Rightarrow> bool \<Rightarrow> cap_write list" where
  "swap_writes L before after ready =
    [CapPut (record_key L (cOwner after) (cID after)) (record_item after) (CapRevision (cRevision before))] @
    (if ready
     then [CapPut (ready_key L (cOwner after) (cID after)) (ReadyItem after (cTTL after)) CapAbsent,
           CapMarkReady (account_key L (cOwner after))]
     else [])"

definition cs_swap :: "golib \<Rightarrow> cap_record \<Rightarrow> cap_record \<Rightarrow> bool \<Rightarrow> cap_err option ct_prog" where
  "cs_swap L before after ready = Call (CtTransact (swap_writes L before after ready)) (\<lambda>x.
     Ret (cap_conditional (ct_done x)))"

section \<open>The sweep\<close>

definition job_of :: "cap_record \<Rightarrow> job" where
  "job_of r = \<lparr>jOwner = cOwner r, jID = cID r, jGeneration = cGeneration r, jWork = cWork r\<rparr>"

fun send_jobs :: "cap_record option list \<Rightarrow> (cap_err option \<Rightarrow> 'a ct_prog) \<Rightarrow> 'a ct_prog" where
  "send_jobs [] k = k None"
| "send_jobs (None # rs) k = k (Some unmarshal_error)"
| "send_jobs (Some r # rs) k = Call (CtSend (job_of r)) (\<lambda>x. case ct_sent x of
     Some e \<Rightarrow> k (Some e) | None \<Rightarrow> send_jobs rs k)"

text \<open>At most ten pages a sweep and kind of work: \<open>n\<close> counts those left.\<close>

fun pending_pages :: "nat \<Rightarrow> string \<Rightarrow> int \<Rightarrow> string option \<Rightarrow> (cap_err option \<Rightarrow> 'a ct_prog) \<Rightarrow> 'a ct_prog" where
  "pending_pages 0 work now cursor k = k None"
| "pending_pages (Suc n) work now cursor k = Call (CtQuery work now cursor) (\<lambda>r. case ct_page r of
     Inl e \<Rightarrow> k (Some (plain_error e))
   | Inr (rs, following) \<Rightarrow> send_jobs rs (\<lambda>e. case e of
       Some err \<Rightarrow> k (Some err)
     | None \<Rightarrow> (case following of None \<Rightarrow> k None | Some c \<Rightarrow> pending_pages n work now (Some c) k)))"

definition cs_pending :: "int \<Rightarrow> cap_err option ct_prog" where
  "cs_pending now = pending_pages 10 ''validate'' now None (\<lambda>e. case e of
     Some err \<Rightarrow> Ret (Some err)
   | None \<Rightarrow> pending_pages 10 ''extract'' now None (\<lambda>e. case e of
       Some err \<Rightarrow> Ret (Some err)
     | None \<Rightarrow> pending_pages 10 ''cleanup'' now None Ret))"

end
