(* ===== verification/CapStoreProps.thy ===== *)
theory CapStoreProps
  imports CaptureStore CaptureProps
begin

text \<open>
  The DynamoDB store of captures implements the optimistic store the capture service relies on:
  each store operation, against a table with the documented transactions, is a step of \<open>serve\<close>.
  And the fact that an owner has been captured is never lost, although accounts are written by
  creations that started from an older copy.
\<close>

section \<open>The table\<close>

type_synonym cap_table = "string \<Rightarrow> cap_item option"

fun item_revision :: "cap_item \<Rightarrow> int option" where
  "item_revision (AccountItem a) = Some (acRevision a)"
| "item_revision (RecordItem r w t) = Some (cRevision r)"
| "item_revision _ = None"

definition cond_holds :: "cap_item option \<Rightarrow> cap_cond \<Rightarrow> bool" where
  "cond_holds x c = (case c of
       CapAbsent \<Rightarrow> x = None
     | CapRevision n \<Rightarrow> (case x of None \<Rightarrow> False | Some i \<Rightarrow> item_revision i = Some n))"

definition marked :: "cap_item option \<Rightarrow> cap_item" where
  "marked x = (case x of
       Some (AccountItem a) \<Rightarrow> AccountItem (a\<lparr>acIDCaptured := True, acRevision := acRevision a + 1\<rparr>)
     | _ \<Rightarrow> AccountItem ((empty_account '''')\<lparr>acIDCaptured := True, acRevision := 1\<rparr>))"

fun write_holds :: "cap_table \<Rightarrow> cap_write \<Rightarrow> bool" where
  "write_holds tb (CapPut k i c) = cond_holds (tb k) c"
| "write_holds tb (CapMarkReady k) = True"

fun write_effect :: "cap_write \<Rightarrow> cap_table \<Rightarrow> cap_table" where
  "write_effect (CapPut k i c) tb = tb(k \<mapsto> i)"
| "write_effect (CapMarkReady k) tb = tb(k \<mapsto> marked (tb k))"

text \<open>A transaction is atomic; its acknowledgement may be lost, and a refused one is not acknowledged.\<close>

inductive ct_serve :: "ct_call \<Rightarrow> ct_resp \<Rightarrow> cap_table \<Rightarrow> cap_table \<Rightarrow> bool" where
  ct_commit: "list_all (write_holds tb) ws \<Longrightarrow> ct_serve (CtTransact ws) r tb (fold write_effect ws tb)"
| ct_refuse: "ct_done r \<noteq> None \<Longrightarrow> ct_serve (CtTransact ws) r tb tb"
| ct_read: "ct_item r = Inr (tb k) \<or> (\<exists>e. ct_item r = Inl e) \<Longrightarrow> ct_serve (CtGet k) r tb tb"
| ct_query: "ct_serve (CtQuery w n c) r tb tb"
| ct_send: "ct_serve (CtSend j) r tb tb"

inductive_simps ct_get_step [simp]: "ct_serve (CtGet k) r tb tb'"

lemma keys_distinct [simp]:
  "record_key L a i \<noteq> account_key L b" "record_key L a i \<noteq> mapping_key L b j" "record_key L a i \<noteq> ready_key L b j"
  "account_key L b \<noteq> record_key L a i" "mapping_key L b j \<noteq> record_key L a i" "ready_key L b j \<noteq> record_key L a i"
  "account_key L a \<noteq> mapping_key L b j" "account_key L a \<noteq> ready_key L b j"
  "mapping_key L b j \<noteq> account_key L a" "ready_key L b j \<noteq> account_key L a"
  by (simp_all add: record_key_def account_key_def mapping_key_def ready_key_def)

section \<open>The capture service's store\<close>

definition cap_store_operation :: "golib \<Rightarrow> cap_call \<Rightarrow> cap_resp \<Rightarrow> cap_resp ct_prog" where
  "cap_store_operation L q base = (case q of
       CAccount owner \<Rightarrow> pbind (cs_account L owner) (\<lambda>x. Ret (base\<lparr>c_account := x\<rparr>))
     | CGet owner i \<Rightarrow> pbind (cs_get L owner i) (\<lambda>x. Ret (base\<lparr>c_rec := x\<rparr>))
     | CFindCreate owner key \<Rightarrow> pbind (cs_find_create L owner key) (\<lambda>x. Ret (base\<lparr>c_rec := x\<rparr>))
     | CCreate b a r \<Rightarrow> pbind (cs_create L b a r) (\<lambda>e. Ret (base\<lparr>c_err := e\<rparr>))
     | CSwap b a ready \<Rightarrow> pbind (cs_swap L b a ready) (\<lambda>e. Ret (base\<lparr>c_err := e\<rparr>))
     | _ \<Rightarrow> Ret base)"

text \<open>
  For the owners and ids in play, \<open>U\<close>, whose keys do not collide, the table and the abstract store
  hold the same captures.
\<close>

definition stored_at :: "golib \<Rightarrow> cap_table \<Rightarrow> string \<times> string \<Rightarrow> cap_record option" where
  "stored_at L tb x = (case tb (record_key L (fst x) (snd x)) of
       Some (RecordItem r w t) \<Rightarrow> Some r | _ \<Rightarrow> None)"

definition cap_represents :: "golib \<Rightarrow> (string \<times> string) set \<Rightarrow> cap_table \<Rightarrow>
    (string \<times> string, cap_record) shared \<Rightarrow> bool" where
  "cap_represents L U tb sh \<longleftrightarrow>
     inj_on (\<lambda>x. record_key L (fst x) (snd x)) U \<and>
     (\<forall>x\<in>U. table sh x = stored_at L tb x \<and>
        (\<forall>i. tb (record_key L (fst x) (snd x)) = Some i \<longrightarrow> (\<exists>r. i = record_item r \<and> cOwner r = fst x)))"

definition in_play :: "(string \<times> string) set \<Rightarrow> (string \<times> string, cap_record) shared \<Rightarrow> cap_call \<Rightarrow> bool" where
  "in_play U sh q = (case cap_access q of
       Read x \<Rightarrow> x \<in> U
     | Insert x v \<Rightarrow> x \<in> U \<and> (table sh x \<noteq> None \<or> news (commits sh) x = [])
     | Cas x b a \<Rightarrow> x \<in> U
     | Other \<Rightarrow> True)"

lemma cap_conditional_None [simp]: "cap_conditional e = None \<longleftrightarrow> e = None"
  by (auto simp: cap_conditional_def split: option.split txn_err.split)

lemma cap_conditional_Some [simp]: "\<exists>y. cap_conditional (Some x) = Some y"
  by (simp flip: not_None_eq)

abbreviation cap_steps :: "golib \<Rightarrow> (string \<times> string) set \<Rightarrow> cap_call \<Rightarrow> cap_resp \<Rightarrow>
    (string \<times> string, cap_record) shared \<Rightarrow> cap_table \<Rightarrow> bool" where
  "cap_steps L U q r sh tb' \<equiv>
     \<exists>sh'. serve same_revision cap_access cap_seen cap_acked q r sh sh' \<and> cap_represents L U tb' sh'"

text \<open>Writing one record, and nothing else below the keys of captures.\<close>

lemma represents_put:
  assumes "cap_represents L U tb sh" "x \<in> U" "x = (cOwner r, cID r)"
    and "\<And>a i. tb' (record_key L a i) = (if record_key L a i = record_key L (fst x) (snd x) then Some (record_item r)
          else tb (record_key L a i))"
  shows "cap_represents L U tb' (sh\<lparr>table := (table sh)(x \<mapsto> r), commits := c\<rparr>)"
proof -
  have inj: "inj_on (\<lambda>x. record_key L (fst x) (snd x)) U" using assms(1) by (simp add: cap_represents_def)
  have same: "record_key L (fst y) (snd y) = record_key L (fst x) (snd x) \<longleftrightarrow> y = x" if "y \<in> U" for y
    using inj that assms(2) by (auto simp: inj_on_def)
  have "stored_at L tb' y = (if y = x then Some r else stored_at L tb y)" if "y \<in> U" for y
    using same [OF that] by (simp add: stored_at_def assms(4) record_item_def)
  with assms(1,3) same show ?thesis
    by (auto simp: cap_represents_def assms(4))
qed

lemma refused_cap:
  "cap_access q = Insert k a \<or> cap_access q = Cas k b a \<Longrightarrow> c_err r \<noteq> None \<Longrightarrow> cap_represents L U tb sh \<Longrightarrow>
   cap_steps L U q r sh tb"
  using serve_refused [of cap_access q k a b cap_acked r] unfolding cap_acked_def by blast

lemma create_steps:
  assumes "ct_serve (CtTransact (create_writes L b a r)) x tb tb'" "c_err z = cap_conditional (ct_done x)"
    and "cap_represents L U tb sh" "in_play U sh (CCreate b a r)"
  shows "cap_steps L U (CCreate b a r) z sh tb'"
  using assms(1)
proof (cases rule: ct_serve.cases)
  case ct_commit
  let ?k = "(cOwner r, cID r)"
  have U: "?k \<in> U" using assms(4) by (simp add: in_play_def)
  have "tb (record_key L (cOwner r) (cID r)) = None"
    using ct_commit by (auto simp: create_writes_def cond_holds_def)
  then have "table sh ?k = None" using assms(3) U by (auto simp: cap_represents_def stored_at_def)
  then have "news (commits sh) ?k = []" using assms(4) by (simp add: in_play_def)
  from serve_insert [of cap_access "CCreate b a r" ?k r sh same_revision cap_seen cap_acked z, OF _ this]
  have "serve same_revision cap_access cap_seen cap_acked (CCreate b a r) z sh
    (sh\<lparr>table := (table sh)(?k \<mapsto> r), commits := commits sh @ [(?k, None, r)]\<rparr>)" by simp
  moreover have "cap_represents L U tb' (sh\<lparr>table := (table sh)(?k \<mapsto> r), commits := commits sh @ [(?k, None, r)]\<rparr>)"
    by (rule represents_put [OF assms(3) U refl]) (use ct_commit in \<open>auto simp: create_writes_def\<close>)
  ultimately show ?thesis by blast
next
  case ct_refuse
  then show ?thesis using assms(2,3) by (intro refused_cap [of "CCreate b a r" "(cOwner r, cID r)" r]) auto
qed

lemma swap_keeps:
  "fold write_effect (swap_writes L b a ready) tb (record_key L o' i) =
     (if record_key L o' i = record_key L (cOwner a) (cID a) then Some (record_item a) else tb (record_key L o' i))"
  by (simp add: swap_writes_def)

lemma cap_swap_steps:
  assumes "ct_serve (CtTransact (swap_writes L b a ready)) x tb tb'" "c_err z = cap_conditional (ct_done x)"
    and "cap_represents L U tb sh" "in_play U sh (CSwap b a ready)"
  shows "cap_steps L U (CSwap b a ready) z sh tb'"
  using assms(1)
proof (cases rule: ct_serve.cases)
  case ct_commit
  let ?k = "(cOwner a, cID a)"
  have U: "?k \<in> U" using assms(4) by (simp add: in_play_def)
  have "cond_holds (tb (record_key L (cOwner a) (cID a))) (CapRevision (cRevision b))"
    using ct_commit by (auto simp: swap_writes_def)
  then obtain i where i: "tb (record_key L (cOwner a) (cID a)) = Some i" "item_revision i = Some (cRevision b)"
    by (auto simp: cond_holds_def split: option.splits)
  then obtain c where "i = record_item c"
    using assms(3) U by (auto simp: cap_represents_def dest!: bspec [of U _ ?k])
  with i assms(3) U have "table sh ?k = Some c" "same_revision c b"
    by (auto simp: cap_represents_def stored_at_def record_item_def same_revision_def)
  from serve_cas [of cap_access "CSwap b a ready" ?k b a sh c same_revision cap_seen cap_acked z, OF _ this]
  have "serve same_revision cap_access cap_seen cap_acked (CSwap b a ready) z sh
    (sh\<lparr>table := (table sh)(?k \<mapsto> a), commits := commits sh @ [(?k, Some c, a)]\<rparr>)" by simp
  moreover have "cap_represents L U tb' (sh\<lparr>table := (table sh)(?k \<mapsto> a), commits := commits sh @ [(?k, Some c, a)]\<rparr>)"
    by (rule represents_put [OF assms(3) U refl]) (use ct_commit swap_keeps in simp)
  ultimately show ?thesis by blast
next
  case ct_refuse
  then show ?thesis using assms(2,3) by (intro refused_cap [of "CSwap b a ready" "(cOwner a, cID a)" a b]) auto
qed

text \<open>What a read of a key can give.\<close>

definition loads :: "cap_table \<Rightarrow> string \<Rightarrow> cap_err + cap_item \<Rightarrow> bool" where
  "loads tb key y \<longleftrightarrow> (\<exists>e. y = Inl (plain_error e)) \<or>
     y = (case tb key of None \<Rightarrow> Inl CapNotFound | Some i \<Rightarrow> Inr i)"

lemma runs_ct_getE:
  assumes "runs ct_serve (ct_get key k) tb x tb'"
  obtains y where "loads tb key y" "runs ct_serve (k y) tb x tb'"
proof -
  from assms obtain r s where s: "ct_serve (CtGet key) r tb s" and
    r: "runs ct_serve (case ct_item r of Inl e \<Rightarrow> k (Inl (plain_error e)) | Inr None \<Rightarrow> k (Inl CapNotFound)
       | Inr (Some i) \<Rightarrow> k (Inr i)) s x tb'"
    unfolding ct_get_def runs_Call by (elim exE conjE)
  then have a: "ct_item r = Inr (tb key) \<or> (\<exists>e. ct_item r = Inl e)" "s = tb" by auto
  show thesis
  proof (cases "ct_item r")
    case (Inl e)
    with r a(2) show ?thesis by (intro that [of "Inl (plain_error e)"]) (auto simp: loads_def)
  next
    case (Inr z)
    with r a show ?thesis
      by (intro that [of "case tb key of None \<Rightarrow> Inl CapNotFound | Some i \<Rightarrow> Inr i"])
        (auto simp: loads_def split: option.splits)
  qed
qed

lemma get_keeps: "runs ct_serve (cs_get L owner i) tb x tb' \<Longrightarrow> tb' = tb"
  unfolding cs_get_def by (erule runs_ct_getE) simp

lemma reads_keep:
  "runs ct_serve (cs_account L owner) tb y tb' \<Longrightarrow> tb' = tb"
  "runs ct_serve (cs_find_create L owner key) tb x tb' \<Longrightarrow> tb' = tb"
  unfolding cs_account_def cs_find_create_def
  by (erule runs_ct_getE, simp) (erule runs_ct_getE, auto split: sum.splits cap_item.splits dest: get_keeps)

lemma read_steps:
  assumes "runs ct_serve (cs_get L owner i) tb x tb'" "cap_represents L U tb sh" "(owner, i) \<in> U" "c_rec z = x"
  shows "cap_steps L U (CGet owner i) z sh tb'"
proof -
  have t: "tb' = tb" by (rule get_keeps [OF assms(1)])
  from assms(1) obtain y where y: "loads tb (record_key L owner i) y"
    "x = (case y of Inl e \<Rightarrow> Inl e | Inr (RecordItem r _ _) \<Rightarrow> if cOwner r \<noteq> owner then Inl CapNotFound else Inr r
      | Inr _ \<Rightarrow> Inl unmarshal_error)"
    unfolding cs_get_def by (elim runs_ct_getE) simp
  have "table sh (owner, i) = stored_at L tb (owner, i)"
    and "tb (record_key L owner i) = Some j \<Longrightarrow> \<exists>r. j = record_item r \<and> cOwner r = owner" for j
    using assms(2,3) unfolding cap_represents_def by auto
  with y assms(4) have "cap_seen z = None \<or> cap_seen z = table sh (owner, i)"
    by (cases "tb (record_key L owner i)") (auto simp: loads_def cap_seen_def stored_at_def record_item_def)
  with t assms(2) serve_read [of cap_access "CGet owner i" "(owner, i)" cap_seen z sh same_revision cap_acked]
  show ?thesis by auto
qed

lemma other_cap: "cap_access q = Other \<Longrightarrow> cap_represents L U tb sh \<Longrightarrow> cap_steps L U q r sh tb"
  using serve_other [of cap_access q same_revision cap_seen cap_acked r sh] by blast

text \<open>
  What a transaction does to the whole table, written out from the store's description: a creation
  writes the account, the record and the mapping of its idempotency key together; a replacement
  writes the record and, when the capture became ready, its event and the fact in the account.
  Nothing else changes, and what was acknowledged took effect.
\<close>

definition kept_record :: "cap_record \<Rightarrow> cap_item" where
  "kept_record r = (if cWork r = '''' then RecordItem r None (Some (cTTL r))
     else RecordItem r (Some (cWork r, cDue r)) None)"

definition at_revision :: "cap_item option \<Rightarrow> int \<Rightarrow> bool" where
  "at_revision x n \<longleftrightarrow> (case x of
       Some (AccountItem a) \<Rightarrow> acRevision a = n | Some (RecordItem r _ _) \<Rightarrow> cRevision r = n | _ \<Rightarrow> False)"

definition creation_committed :: "golib \<Rightarrow> cap_account \<Rightarrow> cap_account \<Rightarrow> cap_record \<Rightarrow>
    cap_table \<Rightarrow> cap_table \<Rightarrow> bool" where
  "creation_committed L b a x tb tb' \<longleftrightarrow>
     (let A = ''ACCOUNT#'' @ owner_key L (cOwner x);
          R = ''CAP#'' @ owner_key L (cOwner x) @ ''#'' @ cID x;
          M = ''CREATE#'' @ owner_key L (cOwner x) @ ''#'' @ cCreateKey x
      in (if acRevision b = 0 then tb A = None else at_revision (tb A) (acRevision b)) \<and>
         tb R = None \<and> tb M = None \<and>
         tb' = tb(A \<mapsto> AccountItem a, R \<mapsto> kept_record x, M \<mapsto> MappingItem (cID x) (cTTL x)))"

definition replacement_committed :: "golib \<Rightarrow> cap_record \<Rightarrow> cap_record \<Rightarrow> bool \<Rightarrow>
    cap_table \<Rightarrow> cap_table \<Rightarrow> bool" where
  "replacement_committed L b a ready tb tb' \<longleftrightarrow>
     (let A = ''ACCOUNT#'' @ owner_key L (cOwner a);
          R = ''CAP#'' @ owner_key L (cOwner a) @ ''#'' @ cID a;
          E = ''READY#'' @ owner_key L (cOwner a) @ ''#'' @ cID a
      in at_revision (tb R) (cRevision b) \<and>
         (if ready
          then tb E = None \<and> tb' = tb(R \<mapsto> kept_record a, E \<mapsto> ReadyItem a (cTTL a), A \<mapsto> marked (tb A))
          else tb' = tb(R \<mapsto> kept_record a)))"

definition one_transaction :: "golib \<Rightarrow> cap_call \<Rightarrow> cap_resp \<Rightarrow> cap_table \<Rightarrow> cap_table \<Rightarrow> bool" where
  "one_transaction L q r tb tb' \<longleftrightarrow> (case q of
       CCreate b a x \<Rightarrow> creation_committed L b a x tb tb' \<or> tb' = tb \<and> c_err r \<noteq> None
     | CSwap b a ready \<Rightarrow> replacement_committed L b a ready tb tb' \<or> tb' = tb \<and> c_err r \<noteq> None
     | _ \<Rightarrow> tb' = tb)"

lemma cond_holds_revision: "cond_holds x (CapRevision n) \<longleftrightarrow> at_revision x n"
  by (auto simp: cond_holds_def at_revision_def split: option.split cap_item.split)

lemma cond_holds_absent: "cond_holds x CapAbsent \<longleftrightarrow> x = None"
  by (simp add: cond_holds_def)

lemmas written_out = creation_committed_def replacement_committed_def create_writes_def swap_writes_def
  cond_holds_revision cond_holds_absent record_item_def kept_record_def
  account_key_def record_key_def mapping_key_def ready_key_def

lemma create_whole:
  assumes "ct_serve (CtTransact (create_writes L b a x)) r tb tb'"
  shows "creation_committed L b a x tb tb' \<or> tb' = tb \<and> ct_done r \<noteq> None"
  using assms
proof (cases rule: ct_serve.cases)
  case ct_commit
  then show ?thesis by (simp add: written_out Let_def split: if_splits)
qed simp

lemma swap_whole:
  assumes "ct_serve (CtTransact (swap_writes L b a ready)) r tb tb'"
  shows "replacement_committed L b a ready tb tb' \<or> tb' = tb \<and> ct_done r \<noteq> None"
  using assms
proof (cases rule: ct_serve.cases)
  case ct_commit
  then show ?thesis by (simp add: written_out Let_def split: if_splits)
qed simp

lemma whole_transaction:
  assumes "runs ct_serve (cap_store_operation L q base) tb r tb'"
  shows "one_transaction L q r tb tb'"
proof (cases q)
  case (CCreate b a x)
  with assms show ?thesis
    by (auto simp: cap_store_operation_def cs_create_def one_transaction_def dest!: create_whole)
next
  case (CSwap b a ready)
  with assms show ?thesis
    by (auto simp: cap_store_operation_def cs_swap_def one_transaction_def dest!: swap_whole)
qed (use assms in \<open>auto simp: cap_store_operation_def runs_pbind one_transaction_def dest!: reads_keep get_keeps\<close>)

lemma operation_steps:
  assumes "runs ct_serve (cap_store_operation L q base) tb r tb'" "cap_represents L U tb sh" "in_play U sh q"
  shows "cap_steps L U q r sh tb'"
proof (cases q)
  case (CGet owner i)
  with assms show ?thesis
    by (auto simp: cap_store_operation_def runs_pbind in_play_def intro: read_steps)
next
  case (CCreate b a x)
  with assms show ?thesis
    by (auto simp: cap_store_operation_def cs_create_def intro: create_steps)
next
  case (CSwap b a ready)
  with assms show ?thesis
    by (auto simp: cap_store_operation_def cs_swap_def intro: cap_swap_steps)
qed (use assms(1,2) in \<open>auto simp: cap_store_operation_def runs_pbind dest!: reads_keep intro!: other_cap\<close>)

text \<open>C10: every store operation of the capture service, run against the table, is a step of the
abstract optimistic store that the concurrency theorems of the captures are about: a capture is only
created where there was none, only replaced at the revision that was read, and a read shows the
owner's stored capture or none. On the table it is all or nothing: a creation writes the account, the
record and the mapping of its key together, a replacement by a ready capture writes the record, its
event and the captured fact of the account together, nothing else changes, and what is acknowledged
took effect.\<close>

theorem capture_store_refines:
  assumes "runs ct_serve (cap_store_operation L q base) tb r tb'" "cap_represents L U tb sh" "in_play U sh q"
  shows "(\<exists>sh'. serve same_revision cap_access cap_seen cap_acked q r sh sh' \<and> cap_represents L U tb' sh') \<and>
    one_transaction L q r tb tb'"
  using operation_steps [OF assms] whole_transaction [OF assms(1)] by blast

section \<open>The captured fact\<close>

text \<open>
  The account of an owner over time. \<open>held\<close> are the copies of accounts that creations work on, under
  the key of their item; a creation carries over the fact of its copy and raises its revision, which
  is what \<open>create_ok\<close> says of every creation of the service. \<open>tried\<close> and \<open>acked\<close> are the accounts
  whose owners had a ready capture submitted, respectively acknowledged.
\<close>

record fact_state =
  fcTable :: cap_table
  fcHeld :: "(string \<times> cap_account) set"
  fcTried :: "string set"
  fcAcked :: "string set"

inductive fact_reached :: "golib \<Rightarrow> fact_state \<Rightarrow> bool" for L where
  fact_init: "fact_reached L \<lparr>fcTable = (\<lambda>_. None), fcHeld = {}, fcTried = {}, fcAcked = {}\<rparr>"
| fact_read: "fact_reached L s \<Longrightarrow> runs ct_serve (cs_account L owner) (fcTable s) (Inr a) tb \<Longrightarrow>
    fact_reached L (s\<lparr>fcTable := tb, fcHeld := insert (account_key L owner, a) (fcHeld s)\<rparr>)"
| fact_create: "fact_reached L s \<Longrightarrow> (account_key L (cOwner r), b) \<in> fcHeld s \<Longrightarrow>
    acIDCaptured a = acIDCaptured b \<Longrightarrow> acRevision a = acRevision b + 1 \<Longrightarrow>
    runs ct_serve (cs_create L b a r) (fcTable s) e tb \<Longrightarrow> fact_reached L (s\<lparr>fcTable := tb\<rparr>)"
| fact_swap: "fact_reached L s \<Longrightarrow> runs ct_serve (cs_swap L b a ready) (fcTable s) e tb \<Longrightarrow>
    fact_reached L (s\<lparr>fcTable := tb,
      fcTried := (if ready then insert (account_key L (cOwner a)) (fcTried s) else fcTried s),
      fcAcked := (if ready \<and> e = None then insert (account_key L (cOwner a)) (fcAcked s) else fcAcked s)\<rparr>)"

text \<open>The invariant of one account item: a copy is never ahead of it, and one of the same revision
has its fact.\<close>

definition copy_behind :: "cap_account \<Rightarrow> cap_item option \<Rightarrow> bool" where
  "copy_behind b x = (case x of
       None \<Rightarrow> \<not> acIDCaptured b \<and> acRevision b = 0
     | Some (AccountItem c) \<Rightarrow> acRevision b \<le> acRevision c \<and> (acRevision b = acRevision c \<longrightarrow> acIDCaptured b = acIDCaptured c)
     | _ \<Rightarrow> False)"

definition item_good :: "cap_item option \<Rightarrow> cap_account set \<Rightarrow> bool \<Rightarrow> bool \<Rightarrow> bool" where
  "item_good x held tried acked \<longleftrightarrow> (\<forall>b\<in>held. copy_behind b x) \<and> (case x of
       None \<Rightarrow> \<not> acked
     | Some (AccountItem c) \<Rightarrow> 1 \<le> acRevision c \<and> (acked \<longrightarrow> acIDCaptured c) \<and> (acIDCaptured c \<longrightarrow> tried)
     | _ \<Rightarrow> False)"

definition facts_good :: "golib \<Rightarrow> fact_state \<Rightarrow> bool" where
  "facts_good L s \<longleftrightarrow> (\<forall>owner. item_good (fcTable s (account_key L owner)) {b. (account_key L owner, b) \<in> fcHeld s}
     (account_key L owner \<in> fcTried s) (account_key L owner \<in> fcAcked s))"

lemma loaded_account_fields [simp]:
  "acIDCaptured (loaded_account owner a) = acIDCaptured a" "acRevision (loaded_account owner a) = acRevision a"
  by (simp_all add: loaded_account_def)

lemma item_good_simps [simp]:
  "item_good None held t k \<longleftrightarrow> (\<forall>b\<in>held. \<not> acIDCaptured b \<and> acRevision b = 0) \<and> \<not> k"
  "item_good (Some (AccountItem c)) held t k \<longleftrightarrow>
     (\<forall>b\<in>held. acRevision b \<le> acRevision c \<and> (acRevision b = acRevision c \<longrightarrow> acIDCaptured b = acIDCaptured c)) \<and>
     1 \<le> acRevision c \<and> (k \<longrightarrow> acIDCaptured c) \<and> (acIDCaptured c \<longrightarrow> t)"
  "\<not> item_good (Some (RecordItem r w d)) held t k" "\<not> item_good (Some (MappingItem i l)) held t k"
  "\<not> item_good (Some (ReadyItem r l)) held t k"
  by (auto simp: item_good_def copy_behind_def)

lemma item_goodE:
  assumes "item_good x held t k"
  obtains "x = None" | c where "x = Some (AccountItem c)"
  using assms by (cases x) (auto simp: item_good_def split: cap_item.splits)

lemma item_read:
  assumes "item_good x held t k" "b = (case x of Some (AccountItem c) \<Rightarrow> loaded_account owner c | _ \<Rightarrow> empty_account owner)"
  shows "item_good x (insert b held) t k"
  using assms(1) by (cases rule: item_goodE) (use assms in \<open>auto simp: empty_account_def\<close>)

lemma item_create:
  assumes "item_good x held t k" "b \<in> held" "acIDCaptured a = acIDCaptured b" "acRevision a = acRevision b + 1"
    and "cond_holds x (if acRevision b = 0 then CapAbsent else CapRevision (acRevision b))"
  shows "item_good (Some (AccountItem a)) held t k"
  using assms(1)
proof (cases rule: item_goodE)
  case 1
  with assms show ?thesis by (auto simp: cond_holds_def split: if_splits)
next
  case (2 c)
  then have held: "\<forall>b\<in>held. acRevision b \<le> acRevision c \<and> (acRevision b = acRevision c \<longrightarrow> acIDCaptured b = acIDCaptured c)"
    and c: "1 \<le> acRevision c" "k \<longrightarrow> acIDCaptured c" "acIDCaptured c \<longrightarrow> t" using assms(1) by simp_all
  have r: "acRevision b = acRevision c" using assms(5) 2 by (simp add: cond_holds_def split: if_splits)
  then have "acIDCaptured b = acIDCaptured c" using held assms(2) by blast
  with held c r assms(3,4) show ?thesis by fastforce
qed

lemma item_marked:
  assumes "item_good x held t k"
  shows "item_good (Some (marked x)) held True k'"
  using assms
proof (cases rule: item_goodE)
  case 1
  with assms show ?thesis by (simp add: marked_def empty_account_def)
next
  case (2 c)
  with assms have "\<forall>b\<in>held. acRevision b \<le> acRevision c" "1 \<le> acRevision c" by auto
  with 2 show ?thesis by (fastforce simp: marked_def)
qed

lemma item_tried:
  assumes "item_good x held t k"
  shows "item_good x held (p \<or> t) k"
  using assms by (cases rule: item_goodE) (use assms in auto)

lemma fold_marks: "fold write_effect (swap_writes L b a ready) tb (account_key L owner) =
    (if ready \<and> account_key L owner = account_key L (cOwner a) then Some (marked (tb (account_key L owner)))
     else tb (account_key L owner))"
  by (simp add: swap_writes_def)

lemma fold_creates: "fold write_effect (create_writes L b a r) tb (account_key L owner) =
    (if account_key L owner = account_key L (cOwner r) then Some (AccountItem a) else tb (account_key L owner))"
  by (simp add: create_writes_def)

lemma account_answer:
  assumes "runs ct_serve (cs_account L owner) tb (Inr a) tb'"
  shows "a = (case tb (account_key L owner) of Some (AccountItem c) \<Rightarrow> loaded_account owner c | _ \<Rightarrow> empty_account owner)"
proof -
  from assms obtain y where y: "loads tb (account_key L owner) y"
    "Inr a = (case y of Inl e \<Rightarrow> if e = CapNotFound then Inr (empty_account owner) else Inl e
      | Inr (AccountItem a) \<Rightarrow> Inr (loaded_account owner a) | Inr _ \<Rightarrow> Inl unmarshal_error)"
    unfolding cs_account_def by (elim runs_ct_getE) simp
  moreover have "plain_error e \<noteq> CapNotFound" for e by (cases e) (simp_all add: plain_error_def)
  ultimately show ?thesis
    by (auto simp: loads_def split: option.splits cap_item.splits sum.splits if_splits)
qed

lemma facts_invariant: "fact_reached L s \<Longrightarrow> facts_good L s"
proof (induction rule: fact_reached.induct)
  case fact_init
  then show ?case by (simp add: facts_good_def item_good_def)
next
  case (fact_read s owner a tb)
  have "{b. (k', b) \<in> insert (k, a) H} = (if k' = k then insert a {b. (k', b) \<in> H} else {b. (k', b) \<in> H})"
    for k k' :: string and H by auto
  with account_answer [OF fact_read(2)] reads_keep(1) [OF fact_read(2)] fact_read.IH show ?case
    unfolding facts_good_def by (auto simp del: item_good_simps intro: item_read)
next
  case (fact_create s r b a e tb)
  from fact_create(5) obtain x where "ct_serve (CtTransact (create_writes L b a r)) x (fcTable s) tb"
    by (auto simp: cs_create_def)
  then show ?case
  proof (cases rule: ct_serve.cases)
    case ct_commit
    then have "cond_holds (fcTable s (account_key L (cOwner r))) (if acRevision b = 0 then CapAbsent else CapRevision (acRevision b))"
      by (simp add: create_writes_def)
    moreover have "item_good (fcTable s (account_key L (cOwner r))) {b. (account_key L (cOwner r), b) \<in> fcHeld s}
        (account_key L (cOwner r) \<in> fcTried s) (account_key L (cOwner r) \<in> fcAcked s)"
      using fact_create.IH by (simp add: facts_good_def del: item_good_simps)
    ultimately have "item_good (Some (AccountItem a)) {b. (account_key L (cOwner r), b) \<in> fcHeld s}
        (account_key L (cOwner r) \<in> fcTried s) (account_key L (cOwner r) \<in> fcAcked s)"
      using fact_create(2-4) by (intro item_create [of "fcTable s (account_key L (cOwner r))" _ _ _ b]) auto
    with fact_create.IH ct_commit show ?thesis
      by (simp add: facts_good_def fold_creates del: item_good_simps)
  qed (use fact_create.IH in \<open>simp add: facts_good_def\<close>)
next
  case (fact_swap s b a ready e tb)
  from fact_swap(2) obtain x where x: "ct_serve (CtTransact (swap_writes L b a ready)) x (fcTable s) tb"
    "e = cap_conditional (ct_done x)"
    by (auto simp: cs_swap_def)
  from x(1) show ?case
  proof (cases rule: ct_serve.cases)
    case ct_commit
    with fact_swap.IH show ?thesis by (auto simp: facts_good_def fold_marks simp del: item_good_simps intro: item_marked)
  qed (use x(2) fact_swap.IH in \<open>auto simp: facts_good_def simp del: item_good_simps intro: item_tried\<close>)
qed

text \<open>C11: the fact that an owner's identity was captured is permanent and not made up: once a
capture of the owner was acknowledged as ready, every read of the account shows the fact, also when
creations write back copies of the account they read before; and an account that shows it had a
ready capture submitted.\<close>

theorem captured_fact_permanent:
  assumes "fact_reached L s" "runs ct_serve (cs_account L owner) (fcTable s) (Inr a) tb"
  shows "(account_key L owner \<in> fcAcked s \<longrightarrow> acIDCaptured a) \<and> (acIDCaptured a \<longrightarrow> account_key L owner \<in> fcTried s)"
proof -
  from facts_invariant [OF assms(1)] have "item_good (fcTable s (account_key L owner)) {b. (account_key L owner, b) \<in> fcHeld s}
     (account_key L owner \<in> fcTried s) (account_key L owner \<in> fcAcked s)"
    by (simp add: facts_good_def)
  then show ?thesis
    by (cases rule: item_goodE) (use account_answer [OF assms(2)] \<open>item_good _ _ _ _\<close> in \<open>auto simp: empty_account_def\<close>)
qed

section \<open>Demonstrations\<close>

definition ct_ok :: ct_resp where
  "ct_ok = \<lparr>ct_item = Inr None, ct_done = None, ct_page = Inr ([], None), ct_sent = None\<rparr>"

lemma create_runs: "list_all (write_holds tb) (create_writes L b a r) \<Longrightarrow>
    runs ct_serve (cs_create L b a r) tb None (fold write_effect (create_writes L b a r) tb)"
  unfolding cs_create_def runs_Call runs_Ret
  by (rule exI [of _ ct_ok]) (auto simp: ct_ok_def cap_conditional_def simp del: fold_simps intro: ct_commit)

lemma swap_runs: "list_all (write_holds tb) (swap_writes L b a ready) \<Longrightarrow>
    runs ct_serve (cs_swap L b a ready) tb None (fold write_effect (swap_writes L b a ready) tb)"
  unfolding cs_swap_def runs_Call runs_Ret
  by (rule exI [of _ ct_ok]) (auto simp: ct_ok_def cap_conditional_def simp del: fold_simps intro: ct_commit)

lemma account_runs: "runs ct_serve (cs_account L owner) tb (case tb (account_key L owner) of
       None \<Rightarrow> Inr (empty_account owner) | Some (AccountItem a) \<Rightarrow> Inr (loaded_account owner a) | _ \<Rightarrow> Inl unmarshal_error) tb"
  unfolding cs_account_def ct_get_def runs_Call
  by (rule exI [of _ "ct_ok\<lparr>ct_item := Inr (tb (account_key L owner))\<rparr>"])
    (auto split: option.split cap_item.split)

definition demo_copy :: cap_account where "demo_copy = (empty_account (cOwner made))\<lparr>acRevision := 1\<rparr>"
definition demo_done :: cap_record where "demo_done = made\<lparr>cRevision := 2, cState := ''ready''\<rparr>"

lemma demo_owner [simp]: "cOwner demo_done = cOwner made" "cID demo_done = cID made"
  by (simp_all add: demo_done_def)

theorem captured_fact_permanent_witness:
  "\<exists>s a tb. fact_reached demo_lib s \<and> runs ct_serve (cs_account demo_lib (cOwner made)) (fcTable s) (Inr a) tb \<and> acIDCaptured a"
proof -
  let ?k = "account_key demo_lib (cOwner made)" and ?b = "empty_account (cOwner made)"
  let ?s0 = "\<lparr>fcTable = (\<lambda>_. None), fcHeld = {}, fcTried = {}, fcAcked = {}\<rparr>"
  let ?s1 = "?s0\<lparr>fcTable := (\<lambda>_. None), fcHeld := insert (?k, ?b) (fcHeld ?s0)\<rparr>"
  define t2 where "t2 = fold write_effect (create_writes demo_lib ?b demo_copy made) (\<lambda>_. None)"
  define t3 where "t3 = fold write_effect (swap_writes demo_lib made demo_done True) t2"
  have 1: "fact_reached demo_lib ?s1"
    by (rule fact_read [OF fact_init]) (use account_runs [of demo_lib "cOwner made" "\<lambda>_. None"] in simp)
  have c: "list_all (write_holds (\<lambda>_. None)) (create_writes demo_lib ?b demo_copy made)"
    by (simp add: create_writes_def cond_holds_def empty_account_def)
  have 2: "fact_reached demo_lib (?s1\<lparr>fcTable := t2\<rparr>)"
    using create_runs [OF c] unfolding t2_def
    by (intro fact_create [OF 1, of made ?b demo_copy]) (simp_all add: demo_copy_def empty_account_def del: fold_simps)
  have "list_all (write_holds t2) (swap_writes demo_lib made demo_done True)"
    by (simp add: t2_def create_writes_def swap_writes_def cond_holds_def record_item_def ready_key_def mapping_key_def record_key_def account_key_def)
  from fact_swap [OF 2, OF swap_runs, simplified, OF this]
  obtain s where s: "fact_reached demo_lib s" "fcTable s = t3" "?k \<in> fcAcked s" by (auto simp: t3_def)
  have t3: "t3 ?k = Some (marked (Some (AccountItem demo_copy)))"
    by (simp add: t3_def t2_def fold_marks fold_creates)
  then have r: "runs ct_serve (cs_account demo_lib (cOwner made)) (fcTable s) (Inr (loaded_account (cOwner made) (demo_copy\<lparr>acIDCaptured := True, acRevision := 2\<rparr>))) t3"
    using account_runs [of demo_lib "cOwner made" t3] s(2) by (simp add: marked_def demo_copy_def)
  from captured_fact_permanent [OF s(1) r] s(1,3) r show ?thesis by blast
qed

theorem capture_store_refines_witness:
  "\<exists>sh'. serve same_revision cap_access cap_seen cap_acked (CCreate no_account no_account made) cap_blank
       (no_records :: (string \<times> string, cap_record) shared) sh' \<and>
     cap_represents demo_lib {(cOwner made, cID made)}
       (fold write_effect (create_writes demo_lib no_account no_account made) (\<lambda>_. None)) sh' \<and>
     one_transaction demo_lib (CCreate no_account no_account made) cap_blank (\<lambda>_. None)
       (fold write_effect (create_writes demo_lib no_account no_account made) (\<lambda>_. None))"
proof -
  have "ct_serve (CtTransact (create_writes demo_lib no_account no_account made)) ct_ok (\<lambda>_. None)
      (fold write_effect (create_writes demo_lib no_account no_account made) (\<lambda>_. None))"
    by (rule ct_commit) (simp add: create_writes_def cond_holds_def no_account_def)
  then have "runs ct_serve (cap_store_operation demo_lib (CCreate no_account no_account made) cap_blank) (\<lambda>_. None)
      (cap_blank\<lparr>c_err := None\<rparr>) (fold write_effect (create_writes demo_lib no_account no_account made) (\<lambda>_. None))"
    unfolding cap_store_operation_def cs_create_def
    by (auto simp: ct_ok_def cap_conditional_def simp del: fold_simps intro!: exI [of _ ct_ok])
  moreover have "cap_blank\<lparr>c_err := None\<rparr> = cap_blank" by (simp add: cap_blank_def)
  ultimately show ?thesis
    using capture_store_refines [of demo_lib "CCreate no_account no_account made" cap_blank "\<lambda>_. None"
        "cap_blank\<lparr>c_err := None\<rparr>" _ "{(cOwner made, cID made)}" no_records]
    by (simp add: cap_represents_def stored_at_def in_play_def no_records_def del: fold_simps)
qed

end
