(* ===== verification/AwsHttp.thy ===== *)
theory AwsHttp
  imports Gateway
begin

text \<open>
  Signed calls to AWS endpoints: \<open>internal/awshttp/client.go\<close>. Building the request, the
  credentials, the SigV4 signer and the HTTP client are the calls \<open>http_call\<close>; a response is what
  the client hands back, its body being read afterwards. The client's deadline and redirect policy
  are inside the call \<open>HSend\<close>.
\<close>

record listing =
  lsVersions :: "(string \<times> string) list" \<comment> \<open>Key, VersionId\<close>
  lsMarkers :: "(string \<times> string) list"
  lsTruncated :: bool

text \<open>URLs and S3 listings.\<close>

record aws_text =
  values_encode :: "(string \<times> string) list \<Rightarrow> string" \<comment> \<open>url.Values.Encode\<close>
  url_string :: "string \<Rightarrow> string \<Rightarrow> string \<Rightarrow> string" \<comment> \<open>url.URL.String of an https URL: host, path, query\<close>
  parse_listing :: "string \<Rightarrow> listing option" \<comment> \<open>encoding/xml on the answer of a list request\<close>

record http_request =
  hqService :: string
  hqMethod :: string
  hqTarget :: string
  hqBody :: string
  hqHeaders :: "(string \<times> string) list"

record http_response =
  hrStatus :: int
  hrHeader :: "string \<Rightarrow> string" \<comment> \<open>Header.Get\<close>
  hrBody :: string
  hrReadError :: bool \<comment> \<open>reading the body fails\<close>

datatype http_call =
    HNew string string \<comment> \<open>http.NewRequestWithContext: method, target\<close>
  | HCredentials
  | HSign http_request
  | HSend http_request

record http_resp =
  h_ok :: bool \<comment> \<open>of the first three\<close>
  h_response :: "http_response option" \<comment> \<open>None: the client failed\<close>

type_synonym 'a http_prog = "(http_call, http_resp, 'a) prog"

text \<open>The request every adapter sends: a body hash for S3, the signature, then the client.\<close>

definition content_hash :: "golib \<Rightarrow> string \<Rightarrow> string \<Rightarrow> (string \<times> string) list" where
  "content_hash L service body =
    (if service = ''s3'' then [(''x-amz-content-sha256'', hex_encode (sha256 L body))] else [])"

definition send_signed :: "golib \<Rightarrow> string \<Rightarrow> string \<Rightarrow> string \<Rightarrow> string \<Rightarrow> (string \<times> string) list \<Rightarrow>
    (http_response option \<Rightarrow> 'a http_prog) \<Rightarrow> 'a http_prog" where
  "send_signed L service meth target body headers k =
    Call (HNew meth target) (\<lambda>r. if \<not> h_ok r then k None else
    Call HCredentials (\<lambda>r. if \<not> h_ok r then k None else
    let q = \<lparr>hqService = service, hqMethod = meth, hqTarget = target, hqBody = body,
             hqHeaders = headers @ content_hash L service body\<rparr>
    in Call (HSign q) (\<lambda>r. if \<not> h_ok r then k None else
    Call (HSend q) (\<lambda>r. k (h_response r)))))"

text \<open>\<open>io.ReadAll\<close> of a limited body.\<close>

definition read_limited :: "nat \<Rightarrow> http_response \<Rightarrow> string option" where
  "read_limited n r = (if hrReadError r then None else Some (take n (hrBody r)))"

text \<open>The status and the whole body; \<open>None\<close> is \<open>ErrUnavailable\<close>.\<close>

definition http_result :: "http_response option \<Rightarrow> (int \<times> string) option" where
  "http_result x = (case x of
      None \<Rightarrow> None
    | Some r \<Rightarrow> (case read_limited (1024 * 1024 + 1) r of
        None \<Rightarrow> None
      | Some b \<Rightarrow> if length b > 1024 * 1024 then None else Some (hrStatus r, b)))"

definition http_do :: "golib \<Rightarrow> string \<Rightarrow> string \<Rightarrow> string \<Rightarrow> string \<Rightarrow> (string \<times> string) list \<Rightarrow>
    (int \<times> string) option http_prog" where
  "http_do L service meth target body headers =
     send_signed L service meth target body headers (\<lambda>x. Ret (http_result x))"

lemma take_short: "length (take (Suc n) xs) \<le> n \<Longrightarrow> take (Suc n) xs = xs"
  by (cases "length xs \<le> n") auto

lemma http_result_cases: "http_result x = None \<or> (\<exists>r. x = Some r \<and> http_result x = Some (hrStatus r, hrBody r))"
  using take_short [of "1024 * 1024"]
  by (auto simp: http_result_def read_limited_def split: option.splits if_splits)

lemma http_result_None [simp]: "http_result None = None"
  by (simp add: http_result_def)

end
