(* ===== verification/EnvBackend.thy ===== *)
theory EnvBackend
  imports EnvReset AwsHttp
begin

text \<open>
  The backend of a reset on AWS: \<open>envreset/aws.go\<close>. Functions are paused by setting their reserved
  concurrency to zero, queues are purged, and users, tables and objects are deleted a page at a
  time. The REST calls go through \<open>awshttp\<close>; the SDK calls are constructors of \<open>be_call\<close>. URLs,
  query strings, JSON and XML are the functions of \<open>be_lib\<close>.
\<close>

record manifest =
  mfFunctions :: "string list"
  mfTables :: "string list"
  mfPool :: string
  mfBucket :: string
  mfQueues :: "string list"

record be_lib = aws_text +
  path_escape :: "string \<Rightarrow> string" \<comment> \<open>url.PathEscape\<close>
  parse_concurrency :: "string \<Rightarrow> int option option" \<comment> \<open>json.Unmarshal, the field may be missing\<close>

record backend =
  beLib :: golib
  beText :: be_lib
  beRegion :: string
  beManifest :: manifest

datatype be_call =
    BHttp http_call
  | BDescribePool string
  | BListUsers string int
  | BDeleteUser string string
  | BScan string int
  | BBatchDelete string "string list"

record be_resp =
  b_http :: http_resp
  b_pool :: "er_err + bool option" \<comment> \<open>AllowAdminCreateUserOnly; None where a part of the answer is nil\<close>
  b_users :: "er_err + string list"
  b_items :: "er_err + string option list" \<comment> \<open>the id attribute of each item\<close>
  b_missing :: bool \<comment> \<open>the error of a deletion is UserNotFoundException\<close>
  b_err :: "er_err option"

type_synonym 'a be_prog = "(be_call, be_resp, 'a) prog"

definition unavailable_error :: er_err where "unavailable_error = ErOther ''aws_operation_unavailable''"

definition be_do :: "backend \<Rightarrow> string \<Rightarrow> string \<Rightarrow> string \<Rightarrow> string \<Rightarrow> (string \<times> string) list \<Rightarrow>
    ((int \<times> string) option \<Rightarrow> 'a be_prog) \<Rightarrow> 'a be_prog" where
  "be_do b service meth target body headers k =
    pbind (lift_calls BHttp b_http (http_do (beLib b) service meth target body headers)) k"

section \<open>Functions\<close>

definition fn_target :: "backend \<Rightarrow> string \<Rightarrow> string \<Rightarrow> string" where
  "fn_target b meth name = ''https://lambda.'' @ beRegion b @ ''.amazonaws.com/'' @
     (if meth = ''GET'' then ''2019-09-30'' else ''2017-10-31'') @ ''/functions/'' @
     path_escape (beText b) name @ ''/concurrency''"

definition fn_body :: "string \<Rightarrow> int \<Rightarrow> string" where
  "fn_body meth count = (if meth = ''PUT''
     then ''{'' @ [CHR 0x22] @ ''ReservedConcurrentExecutions'' @ [CHR 0x22] @ '':'' @ show_int count @ ''}'' else [])"

definition be_lambda :: "backend \<Rightarrow> string \<Rightarrow> string \<Rightarrow> int \<Rightarrow> (er_err + string \<Rightarrow> 'a be_prog) \<Rightarrow> 'a be_prog" where
  "be_lambda b name meth count k =
    be_do b ''lambda'' meth (fn_target b meth name) (fn_body meth count)
      [(''Content-Type'', ''application/json'')] (\<lambda>x. case x of
        None \<Rightarrow> k (Inl unavailable_error)
      | Some (status, data) \<Rightarrow>
          if status < 200 \<or> status > 299 then k (Inl unavailable_error) else k (Inr data))"

fun snapshot_functions :: "backend \<Rightarrow> string list \<Rightarrow> concurrency \<Rightarrow> (er_err + concurrency) be_prog" where
  "snapshot_functions b [] out = Ret (Inr out)"
| "snapshot_functions b (name # names) out = be_lambda b name ''GET'' 0 (\<lambda>x. case x of
     Inl e \<Rightarrow> Ret (Inl e)
   | Inr data \<Rightarrow> (case parse_concurrency (beText b) data of
       None \<Rightarrow> Ret (Inl unavailable_error)
     | Some None \<Rightarrow> snapshot_functions b names (Mapping.update name (- 1) out)
     | Some (Some n) \<Rightarrow> snapshot_functions b names (Mapping.update name n out)))"

definition be_snapshot :: "backend \<Rightarrow> (er_err + concurrency) be_prog" where
  "be_snapshot b = Call (BDescribePool (mfPool (beManifest b))) (\<lambda>r.
     if b_pool r = Inr (Some True) then snapshot_functions b (mfFunctions (beManifest b)) Mapping.empty
     else Ret (Inl unavailable_error))"

definition validate_snapshot :: "manifest \<Rightarrow> concurrency \<Rightarrow> er_err option" where
  "validate_snapshot m c =
    (if Mapping.size c \<noteq> length (mfFunctions m) then Some ErInvalid
     else if list_all (\<lambda>name. case Mapping.lookup c name of None \<Rightarrow> False | Some n \<Rightarrow> \<not> n < - 1) (mfFunctions m)
     then None else Some ErInvalid)"

fun pause_functions :: "backend \<Rightarrow> string list \<Rightarrow> er_err option be_prog" where
  "pause_functions b [] = Ret None"
| "pause_functions b (name # names) = be_lambda b name ''PUT'' 0 (\<lambda>x. case x of
     Inl e \<Rightarrow> Ret (Some e) | Inr data \<Rightarrow> pause_functions b names)"

definition be_pause :: "backend \<Rightarrow> concurrency \<Rightarrow> er_err option be_prog" where
  "be_pause b c = (case validate_snapshot (beManifest b) c of
       Some e \<Rightarrow> Ret (Some e)
     | None \<Rightarrow> pause_functions b (mfFunctions (beManifest b)))"

definition saved :: "concurrency \<Rightarrow> string \<Rightarrow> int" where
  "saved c name = (case Mapping.lookup c name of None \<Rightarrow> 0 | Some n \<Rightarrow> n)"

fun restore_functions :: "backend \<Rightarrow> concurrency \<Rightarrow> string list \<Rightarrow> er_err option be_prog" where
  "restore_functions b c [] = Ret None"
| "restore_functions b c (name # names) =
     be_lambda b name (if saved c name < 0 then ''DELETE'' else ''PUT'') (saved c name) (\<lambda>x. case x of
       Inl e \<Rightarrow> Ret (Some e) | Inr data \<Rightarrow> restore_functions b c names)"

definition be_restore :: "backend \<Rightarrow> concurrency \<Rightarrow> er_err option be_prog" where
  "be_restore b c = (case validate_snapshot (beManifest b) c of
       Some e \<Rightarrow> Ret (Some e)
     | None \<Rightarrow> restore_functions b c (sort (mfFunctions (beManifest b))))"

section \<open>Queues\<close>

fun purge_queues :: "backend \<Rightarrow> string list \<Rightarrow> er_err option be_prog" where
  "purge_queues b [] = Ret None"
| "purge_queues b (q # qs) = be_do b ''sqs'' ''POST'' q
     (values_encode (beText b) [(''Action'', ''PurgeQueue''), (''Version'', ''2012-11-05'')])
     [(''Content-Type'', ''application/x-www-form-urlencoded'')] (\<lambda>x. case x of
       None \<Rightarrow> Ret (Some unavailable_error)
     | Some (status, data) \<Rightarrow>
         if status \<noteq> 200 \<and> \<not> (status = 400 \<and> str_contains data ''PurgeQueueInProgress'')
         then Ret (Some unavailable_error) else purge_queues b qs)"

definition be_purge :: "backend \<Rightarrow> er_err option be_prog" where
  "be_purge b = purge_queues b (mfQueues (beManifest b))"

section \<open>Deletion, a page at a time\<close>

fun delete_users :: "string \<Rightarrow> string list \<Rightarrow> bool \<Rightarrow> (bool \<times> er_err option) be_prog" where
  "delete_users pool [] d = Ret (d, None)"
| "delete_users pool (u # us) d = Call (BDeleteUser pool u) (\<lambda>r. case b_err r of
     Some e \<Rightarrow> if b_missing r then delete_users pool us d else Ret (False, Some e)
   | None \<Rightarrow> delete_users pool us d)"

definition clear_users :: "backend \<Rightarrow> (bool \<times> er_err option) be_prog" where
  "clear_users b = Call (BListUsers (mfPool (beManifest b)) 25) (\<lambda>r. case b_users r of
     Inl e \<Rightarrow> Ret (False, Some e)
   | Inr us \<Rightarrow> delete_users (mfPool (beManifest b)) us (us = []))"

fun clear_tables :: "string list \<Rightarrow> (bool \<times> er_err option) be_prog" where
  "clear_tables [] = Ret (True, None)"
| "clear_tables (t # ts) = Call (BScan t 25) (\<lambda>r. case b_items r of
     Inl e \<Rightarrow> Ret (False, Some e)
   | Inr [] \<Rightarrow> clear_tables ts
   | Inr items \<Rightarrow> if None \<in> set items then Ret (False, Some ErInvalid) else
       Call (BBatchDelete t (map the items)) (\<lambda>r. Ret (False, b_err r)))"

definition bucket_url :: "backend \<Rightarrow> string \<Rightarrow> (string \<times> string) list \<Rightarrow> string" where
  "bucket_url b path query = url_string (beText b)
     (mfBucket (beManifest b) @ ''.s3.'' @ beRegion b @ ''.amazonaws.com'') path (values_encode (beText b) query)"

fun delete_objects :: "backend \<Rightarrow> (string \<times> string) list \<Rightarrow> bool \<Rightarrow> (bool \<times> er_err option) be_prog" where
  "delete_objects b [] d = Ret (d, None)"
| "delete_objects b ((key, version) # os) d =
     be_do b ''s3'' ''DELETE'' (bucket_url b (''/'' @ key) [(''versionId'', version)]) [] [] (\<lambda>x. case x of
       None \<Rightarrow> Ret (False, Some unavailable_error)
     | Some (status, data) \<Rightarrow> if status \<noteq> 204 then Ret (False, Some unavailable_error) else delete_objects b os d)"

definition clear_objects :: "backend \<Rightarrow> (bool \<times> er_err option) be_prog" where
  "clear_objects b =
    be_do b ''s3'' ''GET'' (bucket_url b ''/'' [(''versions'', []), (''max-keys'', ''25'')]) [] [] (\<lambda>x. case x of
      None \<Rightarrow> Ret (False, Some unavailable_error)
    | Some (status, data) \<Rightarrow> if status \<noteq> 200 then Ret (False, Some unavailable_error) else
        (case parse_listing (beText b) data of
          None \<Rightarrow> Ret (False, Some unavailable_error)
        | Some l \<Rightarrow> delete_objects b (lsVersions l @ lsMarkers l)
            (lsVersions l @ lsMarkers l = [] \<and> \<not> lsTruncated l)))"

definition be_clear :: "backend \<Rightarrow> string \<Rightarrow> (bool \<times> er_err option) be_prog" where
  "be_clear b kind =
    (if kind = ''users'' then clear_users b
     else if kind = ''tables'' then clear_tables (mfTables (beManifest b))
     else if kind = ''objects'' then clear_objects b
     else Ret (False, Some ErInvalid))"

end
