(* ===== verification/EnvBackendProps.thy ===== *)
theory EnvBackendProps
  imports EnvBackend
begin

text \<open>
  The reset backend against the services it calls: an environment with the reserved concurrency of
  its functions and its users, items and objects. Restoring undoes any number of pauses, and data
  is only reported as cleared when there is none.
\<close>

section \<open>The environment\<close>

record env_state =
  enConcurrency :: "string \<Rightarrow> int option" \<comment> \<open>None: unreserved\<close>
  enUsers :: "string \<Rightarrow> string set" \<comment> \<open>of each pool\<close>
  enTables :: "string \<Rightarrow> string set"
  enObjects :: "(string \<times> string) set" \<comment> \<open>versions and delete markers of the bucket\<close>

definition reserve :: "string \<Rightarrow> int option \<Rightarrow> env_state \<Rightarrow> env_state" where
  "reserve name n s = s\<lparr>enConcurrency := (enConcurrency s)(name := n)\<rparr>"

lemma reserve_simps [simp]:
  "enConcurrency (reserve name n s) = (enConcurrency s)(name := n)" "enUsers (reserve name n s) = enUsers s"
  "enTables (reserve name n s) = enTables s" "enObjects (reserve name n s) = enObjects s"
  by (simp_all add: reserve_def)

text \<open>A status that says the request took effect.\<close>

definition accepted :: "http_resp \<Rightarrow> bool" where
  "accepted r \<longleftrightarrow> (case h_response r of None \<Rightarrow> False | Some hr \<Rightarrow> 200 \<le> hrStatus hr \<and> hrStatus hr \<le> 299)"

text \<open>
  The address of the bucket, and the queries that list every version and delete marker: those of
  \<open>ListObjectVersions\<close> without a prefix or a marker to start from.
\<close>

definition bucket_address :: "backend \<Rightarrow> string \<Rightarrow> (string \<times> string) list \<Rightarrow> string" where
  "bucket_address b path query = url_string (beText b)
     (mfBucket (beManifest b) @ ''.s3.'' @ beRegion b @ ''.amazonaws.com'') path (values_encode (beText b) query)"

definition lists_versions :: "(string \<times> string) list \<Rightarrow> bool" where
  "lists_versions query \<longleftrightarrow> (''versions'', []) \<in> set query \<and>
     (\<forall>(k, v)\<in>set query. k = ''versions'' \<or> k = ''max-keys'' \<and> (\<exists>n. 1 \<le> n \<and> n \<le> 1000 \<and> v = show_int n))"

definition versions_address :: "backend \<Rightarrow> string \<Rightarrow> bool" where
  "versions_address b target \<longleftrightarrow> (\<exists>query. lists_versions query \<and> target = bucket_address b ''/'' query)"

definition version_address :: "backend \<Rightarrow> string \<Rightarrow> string \<Rightarrow> string" where
  "version_address b key version = bucket_address b (''/'' @ key) [(''versionId'', version)]"

text \<open>
  What a sent request does. Only a listing of the versions of this bucket tells of its objects, and
  a deletion that names no version adds a delete marker. A request that takes effect may be answered with anything, or not at
  all; one that does not is not answered with a 2xx status.
\<close>

inductive sent :: "backend \<Rightarrow> http_request \<Rightarrow> http_resp \<Rightarrow> env_state \<Rightarrow> env_state \<Rightarrow> bool" for b where
  sent_get: "hqService q = ''lambda'' \<Longrightarrow> hqMethod q = ''GET'' \<Longrightarrow> hqTarget q = fn_target b ''GET'' name \<Longrightarrow> name \<in> set (mfFunctions (beManifest b)) \<Longrightarrow>
    (\<And>hr. accepted r \<Longrightarrow> h_response r = Some hr \<Longrightarrow>
       parse_concurrency (beText b) (hrBody hr) = Some (enConcurrency s name)) \<Longrightarrow> sent b q r s s"
| sent_put: "hqService q = ''lambda'' \<Longrightarrow> hqMethod q = ''PUT'' \<Longrightarrow> hqTarget q = fn_target b ''PUT'' name \<Longrightarrow>
    name \<in> set (mfFunctions (beManifest b)) \<Longrightarrow> hqBody q = fn_body ''PUT'' n \<Longrightarrow> sent b q r s (reserve name (Some n) s)"
| sent_delete: "hqService q = ''lambda'' \<Longrightarrow> hqMethod q = ''DELETE'' \<Longrightarrow> hqTarget q = fn_target b ''DELETE'' name \<Longrightarrow>
    name \<in> set (mfFunctions (beManifest b)) \<Longrightarrow> sent b q r s (reserve name None s)"
| sent_list: "hqService q = ''s3'' \<Longrightarrow> hqMethod q = ''GET'' \<Longrightarrow> versions_address b (hqTarget q) \<Longrightarrow>
    (\<And>hr l. accepted r \<Longrightarrow> h_response r = Some hr \<Longrightarrow> parse_listing (beText b) (hrBody hr) = Some l \<Longrightarrow>
       set (lsVersions l @ lsMarkers l) \<subseteq> enObjects s \<and>
       (lsVersions l @ lsMarkers l = [] \<and> \<not> lsTruncated l \<longrightarrow> enObjects s = {})) \<Longrightarrow> sent b q r s s"
| sent_elsewhere: "hqService q = ''s3'' \<Longrightarrow> hqMethod q = ''GET'' \<Longrightarrow> \<not> versions_address b (hqTarget q) \<Longrightarrow>
    sent b q r s s" \<comment> \<open>another listing or bucket answers anything\<close>
| sent_remove: "hqService q = ''s3'' \<Longrightarrow> hqMethod q = ''DELETE'' \<Longrightarrow> hqTarget q = version_address b key version \<Longrightarrow>
    sent b q r s (s\<lparr>enObjects := enObjects s - {(key, version)}\<rparr>)"
| sent_mark: "hqService q = ''s3'' \<Longrightarrow> hqMethod q = ''DELETE'' \<Longrightarrow>
    (\<And>key version. hqTarget q \<noteq> version_address b key version) \<Longrightarrow>
    sent b q r s (s\<lparr>enObjects := insert marker (enObjects s)\<rparr>)"
| sent_other: "hqService q = ''sqs'' \<Longrightarrow> sent b q r s s"
| sent_refused: "\<not> accepted r \<Longrightarrow> sent b q r s s"

inductive be_serve :: "backend \<Rightarrow> be_call \<Rightarrow> be_resp \<Rightarrow> env_state \<Rightarrow> env_state \<Rightarrow> bool" for b where
  serve_new: "be_serve b (BHttp (HNew m t)) r s s"
| serve_credentials: "be_serve b (BHttp HCredentials) r s s"
| serve_sign: "be_serve b (BHttp (HSign q)) r s s"
| serve_send: "sent b q (b_http r) s s' \<Longrightarrow> be_serve b (BHttp (HSend q)) r s s'"
| serve_pool: "be_serve b (BDescribePool p) r s s"
| serve_users: "(\<And>us. 0 < n \<Longrightarrow> b_users r = Inr us \<Longrightarrow> set us \<subseteq> enUsers s p \<and> (us = [] \<longrightarrow> enUsers s p = {})) \<Longrightarrow>
    be_serve b (BListUsers p n) r s s"
| serve_delete: "be_serve b (BDeleteUser p u) r s (s\<lparr>enUsers := (enUsers s)(p := enUsers s p - {u})\<rparr>)"
| serve_keep: "b_err r \<noteq> None \<Longrightarrow> (b_missing r \<Longrightarrow> u \<notin> enUsers s p) \<Longrightarrow> be_serve b (BDeleteUser p u) r s s"
| serve_scan: "(\<And>is. 0 < n \<Longrightarrow> b_items r = Inr is \<Longrightarrow> (\<forall>i. Some i \<in> set is \<longrightarrow> i \<in> enTables s t) \<and> (is = [] \<longrightarrow> enTables s t = {})) \<Longrightarrow>
    be_serve b (BScan t n) r s s"
| serve_batch: "D \<subseteq> set is \<Longrightarrow> be_serve b (BBatchDelete t is) r s (s\<lparr>enTables := (enTables s)(t := enTables s t - D)\<rparr>)"

inductive_simps serve_http [simp]: "be_serve b (BHttp c) r s s'"
inductive_simps serve_describe [simp]: "be_serve b (BDescribePool p) r s s'"
inductive_simps serve_list_users [simp]: "be_serve b (BListUsers p n) r s s'"
inductive_simps serve_delete_user [simp]: "be_serve b (BDeleteUser p u) r s s'"
inductive_simps serve_scan_table [simp]: "be_serve b (BScan t n) r s s'"
inductive_simps serve_batch_delete [simp]: "be_serve b (BBatchDelete t ids) r s s'"

section \<open>One request\<close>

text \<open>What \<open>http_do\<close> answers, and what it did.\<close>

inductive did :: "backend \<Rightarrow> string \<Rightarrow> string \<Rightarrow> string \<Rightarrow> string \<Rightarrow> (int \<times> string) option \<Rightarrow> env_state \<Rightarrow> env_state \<Rightarrow> bool"
  for b service meth target body where
  did_nothing: "did b service meth target body None s s"
| did_lost: "hqService q = service \<Longrightarrow> hqMethod q = meth \<Longrightarrow> hqTarget q = target \<Longrightarrow> hqBody q = body \<Longrightarrow>
    sent b q r s s' \<Longrightarrow> did b service meth target body None s s'"
| did_answer: "hqService q = service \<Longrightarrow> hqMethod q = meth \<Longrightarrow> hqTarget q = target \<Longrightarrow> hqBody q = body \<Longrightarrow>
    sent b q r s s' \<Longrightarrow> h_response r = Some hr \<Longrightarrow> did b service meth target body (Some (hrStatus hr, hrBody hr)) s s'"

lemma be_do_runs:
  assumes "runs (be_serve b) (be_do b service meth target body headers k) s a s''"
  obtains x s' where "did b service meth target body x s s'" "runs (be_serve b) (k x) s' a s''"
proof -
  from assms obtain x s' where
    x: "runs (be_serve b) (lift_calls BHttp b_http (http_do (beLib b) service meth target body headers)) s x s'"
    and k: "runs (be_serve b) (k x) s' a s''"
    unfolding be_do_def runs_pbind by blast
  have "did b service meth target body (http_result (h_response r)) s s'" if
    q: "sent b \<lparr>hqService = service, hqMethod = meth, hqTarget = target, hqBody = body, hqHeaders = hs\<rparr> r s s'"
    (is "sent b ?q r s s'") for r hs
    using http_result_cases [of "h_response r"]
  proof (elim disjE exE conjE)
    assume "http_result (h_response r) = None"
    with did_lost [of ?q service meth target body b r s s'] q show ?thesis by simp
  next
    fix hr assume "h_response r = Some hr" "http_result (h_response r) = Some (hrStatus hr, hrBody hr)"
    with did_answer [of ?q service meth target body b r s s' hr] q show ?thesis by simp
  qed
  then have "did b service meth target body x s s'"
    using x did_nothing [of b service meth target body s] unfolding http_do_def send_signed_def Let_def
    by (cases x) (auto split: if_splits, metis)
  with k show thesis by (rule that [rotated])
qed

section \<open>Concurrency of the functions\<close>

lemma show_int_inj: "0 \<le> m \<Longrightarrow> 0 \<le> n \<Longrightarrow> show_int m = show_int n \<Longrightarrow> m = n"
  using show_nat_inj [of "nat m" "nat n"] by (simp add: show_int_def)

lemma fn_body_inj: "0 \<le> m \<Longrightarrow> fn_body ''PUT'' n = fn_body ''PUT'' m \<longleftrightarrow> n = m"
proof -
  have "CHR ''-'' \<notin> set (show_nat k)" for k
    using show_nat_digits [of "CHR ''-''" k] by (auto simp: is_digit_def between_def)
  then have "show_nat k \<noteq> CHR ''-'' # xs" for k xs by (metis list.set_intros(1))
  then show "0 \<le> m \<Longrightarrow> fn_body ''PUT'' n = fn_body ''PUT'' m \<longleftrightarrow> n = m"
    using show_int_inj [of n m] by (cases "n < 0") (auto simp: fn_body_def show_int_def dest: sym)
qed

text \<open>The names of the functions are told apart by their URLs.\<close>

definition distinct_urls :: "backend \<Rightarrow> bool" where
  "distinct_urls b \<longleftrightarrow> inj_on (path_escape (beText b)) (set (mfFunctions (beManifest b)))"

lemma fn_target_inj:
  "distinct_urls b \<Longrightarrow> x \<in> set (mfFunctions (beManifest b)) \<Longrightarrow> y \<in> set (mfFunctions (beManifest b)) \<Longrightarrow>
   fn_target b meth x = fn_target b meth y \<longleftrightarrow> x = y"
  by (auto simp: distinct_urls_def fn_target_def inj_on_def)

lemma did_get:
  assumes "did b ''lambda'' ''GET'' (fn_target b ''GET'' name) body x s s'" "distinct_urls b"
    and "name \<in> set (mfFunctions (beManifest b))"
  shows "s' = s \<and> (case x of None \<Rightarrow> True | Some (status, data) \<Rightarrow>
     200 \<le> status \<and> status \<le> 299 \<longrightarrow> parse_concurrency (beText b) data = Some (enConcurrency s name))"
  using assms(1)
proof (cases rule: did.cases)
  case (did_answer q r hr)
  from did_answer(6) assms(2,3) did_answer show ?thesis
    by (cases rule: sent.cases) (auto simp: accepted_def fn_target_inj)
next
  case (did_lost q r)
  from did_lost(6) did_lost show ?thesis by (cases rule: sent.cases) auto
qed simp

lemma did_put:
  assumes "did b ''lambda'' ''PUT'' (fn_target b ''PUT'' name) (fn_body ''PUT'' n) x s s'" "distinct_urls b"
    and "name \<in> set (mfFunctions (beManifest b))" "0 \<le> n"
  shows "s' = reserve name (Some n) s \<or> s' = s \<and> (case x of None \<Rightarrow> True | Some (status, data) \<Rightarrow> \<not> (200 \<le> status \<and> status \<le> 299))"
  using assms(1)
proof (cases rule: did.cases)
  case (did_answer q r hr)
  from did_answer(6) assms(2-) did_answer show ?thesis
    by (cases rule: sent.cases) (auto simp: accepted_def fn_target_inj fn_body_inj)
next
  case (did_lost q r)
  from did_lost(6) assms(2-) did_lost show ?thesis
    by (cases rule: sent.cases) (auto simp: fn_target_inj fn_body_inj)
qed simp

lemma did_delete:
  assumes "did b ''lambda'' ''DELETE'' (fn_target b ''DELETE'' name) body x s s'" "distinct_urls b"
    and "name \<in> set (mfFunctions (beManifest b))"
  shows "s' = reserve name None s \<or> s' = s \<and> (case x of None \<Rightarrow> True | Some (status, data) \<Rightarrow> \<not> (200 \<le> status \<and> status \<le> 299))"
  using assms(1)
proof (cases rule: did.cases)
  case (did_answer q r hr)
  from did_answer(6) assms(2-) did_answer show ?thesis
    by (cases rule: sent.cases) (auto simp: accepted_def fn_target_inj)
next
  case (did_lost q r)
  from did_lost(6) assms(2-) did_lost show ?thesis
    by (cases rule: sent.cases) (auto simp: fn_target_inj)
qed simp

text \<open>What \<open>be_lambda\<close> answers, and what it did.\<close>

definition lambda_did :: "backend \<Rightarrow> string \<Rightarrow> string \<Rightarrow> int \<Rightarrow> er_err + string \<Rightarrow> env_state \<Rightarrow> env_state \<Rightarrow> bool" where
  "lambda_did b name meth c y s s' \<longleftrightarrow> (\<exists>x. did b ''lambda'' meth (fn_target b meth name) (fn_body meth c) x s s' \<and>
     y = (case x of None \<Rightarrow> Inl unavailable_error | Some (status, data) \<Rightarrow>
            if status < 200 \<or> status > 299 then Inl unavailable_error else Inr data))"

lemma be_lambda_runs:
  assumes "runs (be_serve b) (be_lambda b name meth c k) s a s''"
  obtains y s' where "lambda_did b name meth c y s s'" "runs (be_serve b) (k y) s' a s''"
proof -
  from assms obtain x s' where x: "did b ''lambda'' meth (fn_target b meth name) (fn_body meth c) x s s'"
    and r: "runs (be_serve b) (case x of None \<Rightarrow> k (Inl unavailable_error) | Some (status, data) \<Rightarrow>
          if status < 200 \<or> status > 299 then k (Inl unavailable_error) else k (Inr data)) s' a s''"
    unfolding be_lambda_def by (elim be_do_runs)
  show thesis
  proof (rule that)
    show "lambda_did b name meth c (case x of None \<Rightarrow> Inl unavailable_error | Some (status, data) \<Rightarrow>
            if status < 200 \<or> status > 299 then Inl unavailable_error else Inr data) s s'"
      using x unfolding lambda_did_def by blast
  qed (use r in \<open>auto split: option.splits if_splits\<close>)
qed

lemma lambda_get:
  "lambda_did b name ''GET'' c y s s' \<Longrightarrow> distinct_urls b \<Longrightarrow> name \<in> set (mfFunctions (beManifest b)) \<Longrightarrow>
   s' = s \<and> (\<forall>d. y = Inr d \<longrightarrow> parse_concurrency (beText b) d = Some (enConcurrency s name))"
  unfolding lambda_did_def using did_get by (fastforce split: option.splits if_splits)

lemma lambda_failed:
  "lambda_did b name meth c y s s' \<Longrightarrow> (\<And>x. did b ''lambda'' meth (fn_target b meth name) (fn_body meth c) x s s' \<Longrightarrow>
     P \<or> s' = s \<and> (case x of None \<Rightarrow> True | Some (status, data) \<Rightarrow> \<not> (200 \<le> status \<and> status \<le> 299))) \<Longrightarrow>
   P \<or> s' = s \<and> (\<exists>e. y = Inl e)"
  unfolding lambda_did_def by (elim exE conjE) (fastforce split: option.splits if_splits prod.splits)

lemma lambda_put:
  assumes "lambda_did b name ''PUT'' n y s s'" "distinct_urls b" "name \<in> set (mfFunctions (beManifest b))" "0 \<le> n"
  shows "s' = reserve name (Some n) s \<or> s' = s \<and> (\<exists>e. y = Inl e)"
  by (rule lambda_failed [OF assms(1)]) (rule did_put [OF _ assms(2-)])

lemma lambda_delete:
  assumes "lambda_did b name ''DELETE'' n y s s'" "distinct_urls b" "name \<in> set (mfFunctions (beManifest b))"
  shows "s' = reserve name None s \<or> s' = s \<and> (\<exists>e. y = Inl e)"
  by (rule lambda_failed [OF assms(1)]) (rule did_delete [OF _ assms(2-)])

lemma pause_runs:
  assumes "runs (be_serve b) (pause_functions b names) s e s'" "distinct_urls b"
    and "set names \<subseteq> set (mfFunctions (beManifest b))"
  shows "(\<forall>n. n \<notin> set names \<longrightarrow> enConcurrency s' n = enConcurrency s n) \<and>
    (e = None \<longrightarrow> (\<forall>n\<in>set names. enConcurrency s' n = Some 0))"
  using assms
proof (induction names arbitrary: s)
  case (Cons name names)
  from Cons.prems(1) obtain y s1 where 1: "lambda_did b name ''PUT'' 0 y s s1"
    and r: "runs (be_serve b) (case y of Inl e \<Rightarrow> Ret (Some e) | Inr data \<Rightarrow> pause_functions b names) s1 e s'"
    by (auto elim: be_lambda_runs)
  have p: "s1 = reserve name (Some 0) s \<or> s1 = s \<and> (\<exists>e. y = Inl e)"
    using lambda_put [OF 1 Cons.prems(2)] Cons.prems(3) by simp
  show ?case
  proof (cases y)
    case (Inl err)
    with r p show ?thesis by auto
  next
    case (Inr data)
    with r p have "runs (be_serve b) (pause_functions b names) (reserve name (Some 0) s) e s'" by simp
    from Cons.IH [OF this Cons.prems(2)] Cons.prems(3) show ?thesis by (cases "name \<in> set names") auto
  qed
qed auto

definition restored :: "concurrency \<Rightarrow> string \<Rightarrow> int option" where
  "restored c name = (if saved c name < 0 then None else Some (saved c name))"

lemma restore_runs:
  assumes "runs (be_serve b) (restore_functions b c names) s e s'" "distinct_urls b"
    and "set names \<subseteq> set (mfFunctions (beManifest b))"
  shows "(\<forall>n. n \<notin> set names \<longrightarrow> enConcurrency s' n = enConcurrency s n) \<and>
    (e = None \<longrightarrow> (\<forall>n\<in>set names. enConcurrency s' n = restored c n))"
  using assms
proof (induction names arbitrary: s)
  case (Cons name names)
  from Cons.prems(1) obtain y s1 where
    1: "lambda_did b name (if saved c name < 0 then ''DELETE'' else ''PUT'') (saved c name) y s s1"
    and r: "runs (be_serve b) (case y of Inl e \<Rightarrow> Ret (Some e) | Inr data \<Rightarrow> restore_functions b c names) s1 e s'"
    unfolding restore_functions.simps by (elim be_lambda_runs)
  have p: "s1 = reserve name (restored c name) s \<or> s1 = s \<and> (\<exists>e. y = Inl e)"
  proof (cases "saved c name < 0")
    case True
    with 1 lambda_delete [of b name "saved c name" y s s1] Cons.prems(2,3) show ?thesis by (simp add: restored_def)
  next
    case False
    with 1 lambda_put [of b name "saved c name" y s s1] Cons.prems(2,3) show ?thesis by (simp add: restored_def)
  qed
  show ?case
  proof (cases y)
    case (Inl err)
    with r p show ?thesis by auto
  next
    case (Inr data)
    with r p have "runs (be_serve b) (restore_functions b c names) (reserve name (restored c name) s) e s'" by simp
    from Cons.IH [OF this Cons.prems(2)] Cons.prems(3) show ?thesis by (cases "name \<in> set names") auto
  qed
qed auto

text \<open>What a snapshot holds for a function.\<close>

definition noted :: "env_state \<Rightarrow> string \<Rightarrow> int" where
  "noted s n = (case enConcurrency s n of None \<Rightarrow> - 1 | Some m \<Rightarrow> m)"

lemma snapshot_runs:
  assumes "runs (be_serve b) (snapshot_functions b names out) s (Inr c) s'" "distinct_urls b"
    and "set names \<subseteq> set (mfFunctions (beManifest b))"
  shows "s' = s \<and> Mapping.lookup c = (\<lambda>n. if n \<in> set names then Some (noted s n) else Mapping.lookup out n)"
  using assms
proof (induction names arbitrary: out)
  case (Cons name names)
  from Cons.prems(1) obtain y s1 where 1: "lambda_did b name ''GET'' 0 y s s1"
    and r: "runs (be_serve b) (case y of Inl e \<Rightarrow> Ret (Inl e) | Inr data \<Rightarrow> (case parse_concurrency (beText b) data of
       None \<Rightarrow> Ret (Inl unavailable_error)
     | Some None \<Rightarrow> snapshot_functions b names (Mapping.update name (- 1) out)
     | Some (Some n) \<Rightarrow> snapshot_functions b names (Mapping.update name n out))) s1 (Inr c) s'"
    unfolding snapshot_functions.simps by (elim be_lambda_runs)
  have g: "s1 = s" "y = Inr d \<Longrightarrow> parse_concurrency (beText b) d = Some (enConcurrency s name)" for d
    using lambda_get [OF 1 Cons.prems(2)] Cons.prems(3) by simp_all
  from r g have "runs (be_serve b) (snapshot_functions b names (Mapping.update name (noted s name) out)) s (Inr c) s'"
    by (cases y) (auto simp: noted_def split: option.splits)
  from Cons.IH [OF this Cons.prems(2)] Cons.prems(3) show ?case
    by (auto simp: lookup_update' fun_eq_iff)
qed simp

text \<open>Reserved concurrency is not negative.\<close>

definition sane :: "env_state \<Rightarrow> bool" where
  "sane s \<longleftrightarrow> (\<forall>name n. enConcurrency s name = Some n \<longrightarrow> 0 \<le> n)"

lemma be_snapshot_runs:
  assumes "runs (be_serve b) (be_snapshot b) s (Inr c) s'" "distinct_urls b"
  shows "s' = s \<and> Mapping.lookup c = (\<lambda>n. if n \<in> set (mfFunctions (beManifest b)) then Some (noted s n) else None)"
proof -
  from assms(1) have "runs (be_serve b) (snapshot_functions b (mfFunctions (beManifest b)) Mapping.empty) s (Inr c) s'"
    by (auto simp: be_snapshot_def split: if_splits)
  from snapshot_runs [OF this assms(2) order_refl] show ?thesis by (simp cong: if_cong)
qed

text \<open>C37: a snapshot that succeeds is a well-formed concurrency map: it has an entry for exactly the
functions of the manifest, each at least \<open>-1\<close>, so that \<open>Pause\<close> and \<open>Restore\<close> accept it whenever the
manifest names no function twice; and taking it changes nothing.\<close>

theorem snapshot_well_formed:
  assumes "runs (be_serve b) (be_snapshot b) s (Inr c) s'" "distinct_urls b" "sane s"
  shows "Mapping.keys c = set (mfFunctions (beManifest b)) \<and> s' = s \<and>
    (validate_snapshot (beManifest b) c = None \<longleftrightarrow> distinct (mfFunctions (beManifest b)))"
proof -
  note c = be_snapshot_runs [OF assms(1,2)]
  then have k: "Mapping.keys c = set (mfFunctions (beManifest b))"
    by (auto simp: keys_dom_lookup split: if_splits)
  moreover have "\<not> noted s n < - 1" for n
    using assms(3) by (auto simp: noted_def sane_def not_less split: option.split intro: order_trans [of "-1" 0])
  ultimately show ?thesis
    using c by (auto simp: validate_snapshot_def Mapping.size_def list_all_iff card_distinct distinct_card)
qed

text \<open>Any number of pauses and restores, with any outcome.\<close>

inductive attempts :: "backend \<Rightarrow> concurrency \<Rightarrow> env_state \<Rightarrow> env_state \<Rightarrow> bool" for b c where
  attempts_none: "attempts b c s s"
| attempts_pause: "attempts b c s s' \<Longrightarrow> runs (be_serve b) (be_pause b c) s' e s'' \<Longrightarrow> attempts b c s s''"
| attempts_restore: "attempts b c s s' \<Longrightarrow> runs (be_serve b) (be_restore b c) s' e s'' \<Longrightarrow> attempts b c s s''"

lemma be_pause_runs:
  assumes "runs (be_serve b) (be_pause b c) s e s'" "distinct_urls b"
  shows "(\<forall>n. n \<notin> set (mfFunctions (beManifest b)) \<longrightarrow> enConcurrency s' n = enConcurrency s n) \<and>
    (e = None \<longrightarrow> (\<forall>n\<in>set (mfFunctions (beManifest b)). enConcurrency s' n = Some 0))"
  using assms pause_runs [of b "mfFunctions (beManifest b)" s e s']
  by (auto simp: be_pause_def split: option.splits)

lemma be_restore_runs:
  assumes "runs (be_serve b) (be_restore b c) s e s'" "distinct_urls b"
  shows "(\<forall>n. n \<notin> set (mfFunctions (beManifest b)) \<longrightarrow> enConcurrency s' n = enConcurrency s n) \<and>
    (e = None \<longrightarrow> (\<forall>n\<in>set (mfFunctions (beManifest b)). enConcurrency s' n = restored c n))"
  using assms restore_runs [of b c "sort (mfFunctions (beManifest b))" s e s']
  by (auto simp: be_restore_def split: option.splits)

lemma attempts_frame:
  "attempts b c s s' \<Longrightarrow> distinct_urls b \<Longrightarrow> n \<notin> set (mfFunctions (beManifest b)) \<Longrightarrow> enConcurrency s' n = enConcurrency s n"
  by (induction rule: attempts.induct) (auto dest: be_pause_runs be_restore_runs)

text \<open>C36: restoring undoes pausing: after a snapshot and any number of pauses and restores that may
fail halfway or lose their answers, a restore that succeeds leaves the reserved concurrency of every
function as it was when the snapshot was taken; a pause that succeeds leaves every function of the
manifest at zero; and no other function is touched.\<close>

theorem restore_undoes_pauses:
  assumes "runs (be_serve b) (be_snapshot b) s (Inr c) s1" "attempts b c s1 s2"
    and "distinct_urls b" "sane s"
  shows "(runs (be_serve b) (be_restore b c) s2 None s3 \<longrightarrow> enConcurrency s3 = enConcurrency s) \<and>
    (runs (be_serve b) (be_pause b c) s2 None s3 \<longrightarrow>
       enConcurrency s3 = (\<lambda>n. if n \<in> set (mfFunctions (beManifest b)) then Some 0 else enConcurrency s n))"
proof -
  note c = be_snapshot_runs [OF assms(1,3)]
  have f: "n \<notin> set (mfFunctions (beManifest b)) \<Longrightarrow> enConcurrency s2 n = enConcurrency s n" for n
    using attempts_frame [OF assms(2,3)] c by simp
  have r: "n \<in> set (mfFunctions (beManifest b)) \<Longrightarrow> restored c n = enConcurrency s n" for n
    using c assms(4) by (cases "enConcurrency s n") (force simp: restored_def saved_def noted_def sane_def)+
  show ?thesis
  proof (intro conjI impI ext)
    fix n assume "runs (be_serve b) (be_restore b c) s2 None s3"
    from be_restore_runs [OF this assms(3)] f r show "enConcurrency s3 n = enConcurrency s n"
      by (cases "n \<in> set (mfFunctions (beManifest b))") auto
  next
    fix n assume "runs (be_serve b) (be_pause b c) s2 None s3"
    from be_pause_runs [OF this assms(3)] f
    show "enConcurrency s3 n = (if n \<in> set (mfFunctions (beManifest b)) then Some 0 else enConcurrency s n)"
      by auto
  qed
qed

section \<open>Deletion\<close>

fun emptied :: "backend \<Rightarrow> string \<Rightarrow> env_state \<Rightarrow> bool" where
  "emptied b kind s = (if kind = ''users'' then enUsers s (mfPool (beManifest b)) = {}
     else if kind = ''tables'' then (\<forall>t\<in>set (mfTables (beManifest b)). enTables s t = {})
     else kind = ''objects'' \<and> enObjects s = {})"

text \<open>What clearing may do to the environment: take users of the manifest's pool, items of its
tables and objects of its bucket away.\<close>

definition shrinks :: "backend \<Rightarrow> env_state \<Rightarrow> env_state \<Rightarrow> bool" where
  "shrinks b s s' \<longleftrightarrow> enConcurrency s' = enConcurrency s \<and> enObjects s' \<subseteq> enObjects s \<and>
     (\<forall>p. if p = mfPool (beManifest b) then enUsers s' p \<subseteq> enUsers s p else enUsers s' p = enUsers s p) \<and>
     (\<forall>t. if t \<in> set (mfTables (beManifest b)) then enTables s' t \<subseteq> enTables s t else enTables s' t = enTables s t)"

lemma shrinks_refl [simp]: "shrinks b s s"
  by (simp add: shrinks_def)

lemma shrinks_trans: "shrinks b s s' \<Longrightarrow> shrinks b s' s'' \<Longrightarrow> shrinks b s s''"
  unfolding shrinks_def by (auto split: if_splits) (metis subsetD)+

lemma users_deleted: "runs (be_serve b) (delete_users (mfPool (beManifest b)) us d) s x s' \<Longrightarrow>
    shrinks b s s' \<and> (snd x = None \<longrightarrow>
      enUsers s' (mfPool (beManifest b)) = enUsers s (mfPool (beManifest b)) - set us \<and> fst x = d)"
proof (induction us arbitrary: s)
  case (Cons u us)
  let ?p = "mfPool (beManifest b)"
  from Cons.prems obtain r s1 where 1: "be_serve b (BDeleteUser ?p u) r s s1"
    and r: "runs (be_serve b) (case b_err r of Some e \<Rightarrow> if b_missing r then delete_users ?p us d else Ret (False, Some e)
      | None \<Rightarrow> delete_users ?p us d) s1 x s'"
    by (simp only: delete_users.simps runs_Call) blast
  from 1 have s1: "shrinks b s s1" "enUsers s1 ?p = enUsers s ?p - {u} \<or>
      s1 = s \<and> b_err r \<noteq> None \<and> (b_missing r \<longrightarrow> u \<notin> enUsers s ?p)"
    by (auto simp: shrinks_def)
  show ?case
  proof (cases "b_err r = None \<or> b_missing r")
    case True
    with r have "runs (be_serve b) (delete_users ?p us d) s1 x s'" by (cases "b_err r") simp_all
    from Cons.IH [OF this] have i: "shrinks b s1 s'" "snd x = None \<longrightarrow> enUsers s' ?p = enUsers s1 ?p - set us \<and> fst x = d"
      by simp_all
    have "enUsers s1 ?p - set us = enUsers s ?p - set (u # us)" using s1(2) True by auto
    with i s1(1) show ?thesis using shrinks_trans by metis
  next
    case False
    with r have "x = (False, b_err r)" "s' = s1" by (cases "b_err r"; simp)+
    with False s1(1) show ?thesis by auto
  qed
qed simp

lemma users_cleared:
  assumes "runs (be_serve b) (clear_users b) s x s'"
  shows "shrinks b s s' \<and> (x = (True, None) \<longrightarrow> enUsers s' (mfPool (beManifest b)) = {})"
proof -
  let ?p = "mfPool (beManifest b)"
  from assms obtain r s1 where 1: "be_serve b (BListUsers ?p 25) r s s1"
    and r: "runs (be_serve b) (case b_users r of Inl e \<Rightarrow> Ret (False, Some e)
      | Inr us \<Rightarrow> delete_users ?p us (us = [])) s1 x s'"
    by (simp only: clear_users_def runs_Call) blast
  show ?thesis
  proof (cases "b_users r")
    case (Inl e)
    with r 1 show ?thesis by auto
  next
    case (Inr us)
    with 1 have us: "us = [] \<longrightarrow> enUsers s ?p = {}" "s1 = s" by auto
    with r Inr have "runs (be_serve b) (delete_users ?p us (us = [])) s x s'" by simp
    from users_deleted [OF this] have "shrinks b s s'"
      and d: "snd x = None \<longrightarrow> enUsers s' ?p = enUsers s ?p - set us \<and> fst x = (us = [])" by blast+
    moreover have "enUsers s' ?p = {}" if "x = (True, None)"
      using d that us(1) by simp
    ultimately show ?thesis by blast
  qed
qed

lemma tables_cleared:
  "runs (be_serve b) (clear_tables ts) s x s' \<Longrightarrow> set ts \<subseteq> set (mfTables (beManifest b)) \<Longrightarrow>
   shrinks b s s' \<and> (x = (True, None) \<longrightarrow> s' = s \<and> (\<forall>t\<in>set ts. enTables s t = {}))"
proof (induction ts)
  case (Cons t ts)
  from Cons.prems(1) obtain r s1 where 1: "be_serve b (BScan t 25) r s s1"
    and r: "runs (be_serve b) (case b_items r of Inl e \<Rightarrow> Ret (False, Some e) | Inr [] \<Rightarrow> clear_tables ts
      | Inr items \<Rightarrow> if None \<in> set items then Ret (False, Some ErInvalid) else
          Call (BBatchDelete t (map the items)) (\<lambda>r. Ret (False, b_err r))) s1 x s'"
    by (simp only: clear_tables.simps runs_Call) blast
  show ?case
  proof (cases "b_items r")
    case (Inl e)
    with r 1 show ?thesis by auto
  next
    case (Inr items)
    then show ?thesis
    proof (cases items)
      case Nil
      with 1 r Inr have "runs (be_serve b) (clear_tables ts) s x s'" "enTables s t = {}" by auto
      with Cons.IH Cons.prems(2) show ?thesis by auto
    next
      case (Cons i js)
      with 1 r Inr \<open>set (t # ts) \<subseteq> _\<close> show ?thesis by (auto simp: shrinks_def split: if_splits)
    qed
  qed
qed simp

lemma did_remove:
  assumes "did b ''s3'' ''DELETE'' (bucket_url b (''/'' @ key) [(''versionId'', version)]) body x s s'"
  shows "shrinks b s s'"
proof -
  have a: "bucket_url b (''/'' @ key) [(''versionId'', version)] = version_address b key version"
    unfolding bucket_url_def version_address_def bucket_address_def by (rule refl)
  have s: "shrinks b s s'"
    if "sent b q r s s'" "hqService q = ''s3''" "hqMethod q = ''DELETE''" "hqTarget q = version_address b key version" for q r
    using that by (cases rule: sent.cases) (auto simp: shrinks_def)
  show ?thesis
    using assms unfolding a by (cases rule: did.cases) (auto intro: s)
qed

lemma did_list:
  assumes "did b ''s3'' ''GET'' (bucket_url b ''/'' [(''versions'', []), (''max-keys'', ''25'')]) body x s s'"
  shows "s' = s \<and> (\<forall>data l. x = Some (200, data) \<and> parse_listing (beText b) data = Some l \<and>
      lsVersions l @ lsMarkers l = [] \<and> \<not> lsTruncated l \<longrightarrow> enObjects s = {})"
proof -
  let ?u = "bucket_url b ''/'' [(''versions'', []), (''max-keys'', ''25'')]"
  have "show_int 25 = ''25''" by code_simp
  then have "lists_versions [(''versions'', []), (''max-keys'', ''25'')]"
    unfolding lists_versions_def by (auto intro!: exI [of _ 25])
  then have a: "versions_address b ?u"
    unfolding versions_address_def bucket_url_def bucket_address_def by blast
  have s: "s' = s \<and> (\<forall>hr l. accepted r \<and> h_response r = Some hr \<and> parse_listing (beText b) (hrBody hr) = Some l \<and>
      lsVersions l @ lsMarkers l = [] \<and> \<not> lsTruncated l \<longrightarrow> enObjects s = {})"
    if "sent b q r s s'" "hqService q = ''s3''" "hqMethod q = ''GET''" "hqTarget q = ?u" for q r
    using that(1) by (cases rule: sent.cases) (use that(2-) a in \<open>auto simp del: append_is_Nil_conv\<close>)
  from assms show ?thesis
  proof (cases rule: did.cases)
    case (did_answer q r hr)
    from s [OF did_answer(6,2,3,4)] did_answer(1,7) show ?thesis by (auto simp: accepted_def)
  next
    case (did_lost q r)
    from s [OF did_lost(6,2,3,4)] did_lost(1) show ?thesis by simp
  qed simp
qed

lemma objects_deleted: "runs (be_serve b) (delete_objects b os d) s x s' \<Longrightarrow>
    shrinks b s s' \<and> (snd x = None \<longrightarrow> fst x = d)"
proof (induction os arbitrary: s)
  case (Cons o' os)
  obtain key version where o': "o' = (key, version)" by (cases o')
  from Cons.prems obtain y s1 where
    1: "did b ''s3'' ''DELETE'' (bucket_url b (''/'' @ key) [(''versionId'', version)]) [] y s s1"
    and r: "runs (be_serve b) (case y of None \<Rightarrow> Ret (False, Some unavailable_error)
      | Some (status, data) \<Rightarrow> if status \<noteq> 204 then Ret (False, Some unavailable_error) else delete_objects b os d) s1 x s'"
    unfolding o' delete_objects.simps by (elim be_do_runs)
  from r have "s' = s1 \<and> x = (False, Some unavailable_error) \<or> runs (be_serve b) (delete_objects b os d) s1 x s'"
    by (cases y) (auto split: if_splits)
  with Cons.IH did_remove [OF 1] show ?case by (auto intro: shrinks_trans)
qed simp

lemma objects_cleared:
  assumes "runs (be_serve b) (clear_objects b) s x s'"
  shows "shrinks b s s' \<and> (x = (True, None) \<longrightarrow> enObjects s' = {})"
proof -
  from assms obtain y s1 where
    1: "did b ''s3'' ''GET'' (bucket_url b ''/'' [(''versions'', []), (''max-keys'', ''25'')]) [] y s s1"
    and r: "runs (be_serve b) (case y of None \<Rightarrow> Ret (False, Some unavailable_error)
      | Some (status, data) \<Rightarrow> if status \<noteq> 200 then Ret (False, Some unavailable_error) else
        (case parse_listing (beText b) data of None \<Rightarrow> Ret (False, Some unavailable_error)
        | Some l \<Rightarrow> delete_objects b (lsVersions l @ lsMarkers l)
            (lsVersions l @ lsMarkers l = [] \<and> \<not> lsTruncated l))) s1 x s'"
    unfolding clear_objects_def by (elim be_do_runs)
  note l = did_list [OF 1]
  from r have "s' = s1 \<and> \<not> fst x \<or> (\<exists>data l. y = Some (200, data) \<and> parse_listing (beText b) data = Some l \<and>
      runs (be_serve b) (delete_objects b (lsVersions l @ lsMarkers l)
            (lsVersions l @ lsMarkers l = [] \<and> \<not> lsTruncated l)) s1 x s')"
    by (cases y) (auto split: if_splits option.splits)
  then show ?thesis
  proof (elim disjE exE conjE)
    fix data ls
    assume "y = Some (200, data)" "parse_listing (beText b) data = Some ls"
      and "runs (be_serve b) (delete_objects b (lsVersions ls @ lsMarkers ls)
            (lsVersions ls @ lsMarkers ls = [] \<and> \<not> lsTruncated ls)) s1 x s'"
    with l objects_deleted [OF this(3)] show ?thesis by (auto simp: shrinks_def)
  qed (use l in auto)
qed

text \<open>C38: whatever the requests answer, clearing a kind of data reports that it is done only when there
is none of that kind left: no user in the manifest's pool, no item in any table of the manifest, no
version or delete marker in the bucket. It never adds data, touches no other pool or table, and does
not touch the functions. The services promise no more than their documentation: a listing tells of
the pool or table it names, and of the bucket only when it asks for all versions.\<close>

theorem clear_done_means_empty:
  assumes "runs (be_serve b) (be_clear b kind) s (d, e) s'"
  shows "shrinks b s s' \<and> (d \<and> e = None \<longrightarrow> emptied b kind s')"
  using assms users_cleared [of b s "(d, e)" s'] tables_cleared [of b "mfTables (beManifest b)" s "(d, e)" s']
    objects_cleared [of b s "(d, e)" s']
  by (auto simp: be_clear_def split: if_splits)

section \<open>Demonstrations\<close>

definition answer_200 :: "string \<Rightarrow> be_resp" where
  "answer_200 d = \<lparr>b_http = \<lparr>h_ok = True, h_response = Some \<lparr>hrStatus = 200, hrHeader = (\<lambda>_. []),
       hrBody = d, hrReadError = False\<rparr>\<rparr>, b_pool = Inr (Some True), b_users = Inr [], b_items = Inr [],
     b_missing = False, b_err = None\<rparr>"

lemma http_result_200: "length d \<le> 1024 * 1024 \<Longrightarrow> http_result (h_response (b_http (answer_200 d))) = Some (200, d)"
  by (simp add: http_result_def read_limited_def answer_200_def)

text \<open>The environment can answer every request of the functions with 200.\<close>

lemma be_lambda_runsI:
  assumes "\<And>q. hqService q = ''lambda'' \<Longrightarrow> hqMethod q = meth \<Longrightarrow> hqTarget q = fn_target b meth name \<Longrightarrow>
      hqBody q = fn_body meth c \<Longrightarrow> sent b q (b_http (answer_200 d)) s s1"
    and "length d \<le> 1024 * 1024" "runs (be_serve b) (k (Inr d)) s1 x s''"
  shows "runs (be_serve b) (be_lambda b name meth c k) s x s''"
proof -
  have 1: "sent b \<lparr>hqService = ''lambda'', hqMethod = meth, hqTarget = fn_target b meth name, hqBody = fn_body meth c,
      hqHeaders = [(''Content-Type'', ''application/json'')] @ content_hash (beLib b) ''lambda'' (fn_body meth c)\<rparr>
      (b_http (answer_200 d)) s s1"
    by (rule assms(1)) simp_all
  show ?thesis
    unfolding be_lambda_def be_do_def http_do_def send_signed_def Let_def
    using assms(3) http_result_200 [OF assms(2)] 1
    by (auto simp: runs_pbind answer_200_def intro!: exI [of _ "answer_200 d"] exI [of _ s1] exI [of _ "Some (200, d)"])
qed

lemma pause_can: "set names \<subseteq> set (mfFunctions (beManifest b)) \<Longrightarrow> \<exists>s'. runs (be_serve b) (pause_functions b names) s None s'"
proof (induction names arbitrary: s)
  case (Cons name names)
  then obtain s' where "runs (be_serve b) (pause_functions b names) (reserve name (Some 0) s) None s'" by auto
  with Cons.prems show ?case
    by (auto intro!: exI [of _ s'] be_lambda_runsI [where d = "[]"] sent_put)
qed auto

lemma restore_can: "set names \<subseteq> set (mfFunctions (beManifest b)) \<Longrightarrow> \<exists>s'. runs (be_serve b) (restore_functions b c names) s None s'"
proof (induction names arbitrary: s)
  case (Cons name names)
  then obtain s' where "runs (be_serve b) (restore_functions b c names) (reserve name (restored c name) s) None s'" by auto
  with Cons.prems show ?case
    by (cases "saved c name < 0")
      (auto simp: restored_def intro!: exI [of _ s'] be_lambda_runsI [where d = "[]"] sent_put sent_delete)
qed auto

lemma snapshot_can:
  assumes "\<And>name. \<exists>d. length d \<le> 1024 * 1024 \<and> parse_concurrency (beText b) d = Some (enConcurrency s name)"
  shows "set names \<subseteq> set (mfFunctions (beManifest b)) \<Longrightarrow> \<exists>c. runs (be_serve b) (snapshot_functions b names out) s (Inr c) s"
proof (induction names arbitrary: out)
  case (Cons name names)
  obtain d where d: "length d \<le> 1024 * 1024" "parse_concurrency (beText b) d = Some (enConcurrency s name)"
    using assms by blast
  obtain c where c: "runs (be_serve b) (snapshot_functions b names (Mapping.update name (noted s name) out)) s (Inr c) s"
    using Cons by (metis set_subset_Cons subset_trans)
  have "runs (be_serve b) (snapshot_functions b (name # names) out) s (Inr c) s"
    unfolding snapshot_functions.simps
    by (rule be_lambda_runsI [where d = d and ?s1.0 = s]) (use Cons.prems c d in
      \<open>auto simp: answer_200_def noted_def split: option.splits intro!: sent_get\<close>)
  then show ?case by blast
qed auto

definition demo_manifest :: manifest where
  "demo_manifest = \<lparr>mfFunctions = [''f'', ''g''], mfTables = [''t''], mfPool = ''p'', mfBucket = ''b'', mfQueues = []\<rparr>"

definition demo_text :: be_lib where
  "demo_text = \<lparr>values_encode = (\<lambda>_. []), url_string = (\<lambda>h p q. h @ p), parse_listing = (\<lambda>_. None),
     path_escape = (\<lambda>x. x), parse_concurrency = (\<lambda>d. if d = [] then Some None else Some (Some (int (length d))))\<rparr>"

definition demo_backend :: backend where
  "demo_backend = \<lparr>beLib = demo_lib, beText = demo_text, beRegion = ''r'', beManifest = demo_manifest\<rparr>"

definition demo_env :: env_state where
  "demo_env = \<lparr>enConcurrency = [''f'' \<mapsto> 5], enUsers = (\<lambda>_. {}), enTables = (\<lambda>_. {}), enObjects = {}\<rparr>"

lemma demo_env_ok: "distinct_urls demo_backend" "sane demo_env"
  by (simp_all add: distinct_urls_def demo_backend_def demo_text_def sane_def demo_env_def)

lemma demo_snapshot: "\<exists>c. runs (be_serve demo_backend) (be_snapshot demo_backend) demo_env (Inr c) demo_env"
proof -
  have "\<exists>d. length d \<le> 1024 * 1024 \<and> parse_concurrency (beText demo_backend) d = Some (enConcurrency demo_env name)" for name
    by (rule exI [of _ "if name = ''f'' then ''12345'' else []"]) (simp add: demo_backend_def demo_text_def demo_env_def)
  from snapshot_can [OF this order_refl] obtain c where
    "runs (be_serve demo_backend) (snapshot_functions demo_backend (mfFunctions (beManifest demo_backend)) Mapping.empty) demo_env (Inr c) demo_env"
    by blast
  then show ?thesis
    unfolding be_snapshot_def by (auto intro!: exI [of _ c] exI [of _ "answer_200 []"] simp: answer_200_def)
qed

theorem snapshot_well_formed_witness:
  "\<exists>c. runs (be_serve demo_backend) (be_snapshot demo_backend) demo_env (Inr c) demo_env \<and>
     Mapping.keys c = {''f'', ''g''} \<and> validate_snapshot demo_manifest c = None"
proof -
  obtain c where c: "runs (be_serve demo_backend) (be_snapshot demo_backend) demo_env (Inr c) demo_env"
    using demo_snapshot by blast
  from snapshot_well_formed [OF this demo_env_ok] c show ?thesis
    by (auto simp: demo_backend_def demo_manifest_def intro!: exI [of _ c])
qed

theorem restore_undoes_pauses_witness:
  "\<exists>c s2 s3. attempts demo_backend c demo_env s2 \<and> enConcurrency s2 ''f'' = Some 0 \<and>
     runs (be_serve demo_backend) (be_restore demo_backend c) s2 None s3 \<and> enConcurrency s3 = [''f'' \<mapsto> 5]"
proof -
  obtain c where c: "runs (be_serve demo_backend) (be_snapshot demo_backend) demo_env (Inr c) demo_env"
    using demo_snapshot by blast
  have v: "validate_snapshot (beManifest demo_backend) c = None"
  proof -
    from be_snapshot_runs [OF c demo_env_ok(1)]
    have "Mapping.keys c = {''f'', ''g''}" "Mapping.lookup c ''f'' = Some 5" "Mapping.lookup c ''g'' = Some (- 1)"
      by (auto simp: keys_dom_lookup demo_backend_def demo_manifest_def noted_def demo_env_def split: if_splits)
    then show ?thesis by (simp add: validate_snapshot_def demo_backend_def demo_manifest_def Mapping.size_def)
  qed
  obtain s2 where p: "runs (be_serve demo_backend) (be_pause demo_backend c) demo_env None s2"
    using pause_can [OF order_refl] v by (auto simp: be_pause_def)
  then have a: "attempts demo_backend c demo_env s2" by (rule attempts_pause [OF attempts_none])
  obtain s3 where r: "runs (be_serve demo_backend) (be_restore demo_backend c) s2 None s3"
    using restore_can [of "sort (mfFunctions (beManifest demo_backend))" demo_backend c s2] v by (auto simp: be_restore_def)
  have "enConcurrency s3 = enConcurrency demo_env" "enConcurrency s2 ''f'' = Some 0"
    using restore_undoes_pauses [OF c a demo_env_ok] r
      restore_undoes_pauses [OF c attempts_none demo_env_ok] p
    by (auto simp: demo_backend_def demo_manifest_def)
  with a r show ?thesis by (auto simp: demo_env_def)
qed

theorem clear_done_means_empty_witness:
  "runs (be_serve demo_backend) (be_clear demo_backend ''users'') demo_env (True, None) demo_env \<and>
     emptied demo_backend ''users'' demo_env"
proof -
  have r: "runs (be_serve demo_backend) (be_clear demo_backend ''users'') demo_env (True, None) demo_env"
    unfolding be_clear_def clear_users_def
    by (auto simp: demo_env_def answer_200_def intro!: exI [of _ "answer_200 []"])
  from clear_done_means_empty [OF this] r show ?thesis by simp
qed

end
