(* ===== verification/CaptureObjects.thy ===== *)
theory CaptureObjects
  imports Capture AwsHttp
begin

text \<open>
  The objects and the queue of the capture service: \<open>awscapture/transport.go\<close>. Uploads go to
  presigned URLs; \<open>Head\<close>, \<open>Read\<close> and \<open>Write\<close> pin versions of objects; \<open>DeleteCapture\<close> deletes every
  version below the two prefixes of a capture, at most 25 pages each. Requests are those of
  \<open>AwsHttp\<close>; presigning is a call of its own. The JSON of a job and the form of a message are the
  functions \<open>job_json\<close> and \<open>values_encode\<close>.
\<close>

record transport =
  tpLib :: golib
  tpText :: aws_text
  tpRegion :: string
  tpBucket :: string
  tpQueue :: string
  tpJob :: "job \<Rightarrow> string option" \<comment> \<open>json.Marshal\<close>

text \<open>Presigning a PUT: the URL, the headers that are signed, and the length of the body.\<close>

datatype tp_call = THttp http_call | TPresign string "(string \<times> string) list" int

record tp_resp =
  t_http :: http_resp
  t_url :: "string option"

type_synonym 'a tp_prog = "(tp_call, tp_resp, 'a) prog"

definition aws_error :: cap_err where "aws_error = CapOther ''storage_unavailable''"

definition object_url :: "transport \<Rightarrow> string \<Rightarrow> (string \<times> string) list \<Rightarrow> string" where
  "object_url t key query = url_string (tpText t) (tpBucket t @ ''.s3.'' @ tpRegion t @ ''.amazonaws.com'')
     (''/'' @ key) (values_encode (tpText t) query)"

definition tp_request :: "transport \<Rightarrow> string \<Rightarrow> string \<Rightarrow> string \<Rightarrow> string \<Rightarrow> (string \<times> string) list \<Rightarrow>
    (cap_err + http_response \<Rightarrow> 'a tp_prog) \<Rightarrow> 'a tp_prog" where
  "tp_request t service meth target body headers k =
    pbind (lift_calls THttp t_http (send_signed (tpLib t) service meth target body headers Ret)) (\<lambda>x. case x of
      None \<Rightarrow> k (Inl aws_error) | Some r \<Rightarrow> k (Inr r))"

section \<open>Uploads\<close>

definition upload_headers :: "string \<Rightarrow> (string \<times> string) list" where
  "upload_headers checksum = [(''Content-Type'', ''image/jpeg''), (''x-amz-checksum-sha256'', checksum),
     (''x-amz-server-side-encryption'', ''AES256'')]"

definition tp_presign :: "transport \<Rightarrow> upload \<Rightarrow> (cap_err + string \<times> (string \<times> string) list) tp_prog" where
  "tp_presign t u =
    (let target = object_url t (uKey u) [(''X-Amz-Expires'', ''300'')]; headers = upload_headers (uSHA256 u)
     in Call (THttp (HNew ''PUT'' target)) (\<lambda>r. if \<not> h_ok (t_http r) then Ret (Inl aws_error) else
        Call (THttp HCredentials) (\<lambda>r. if \<not> h_ok (t_http r) then Ret (Inl aws_error) else
        Call (TPresign target headers (uSize u)) (\<lambda>r. Ret (case t_url r of
          None \<Rightarrow> Inl aws_error | Some url \<Rightarrow> Inr (url, headers))))))"

definition zero_asset :: asset where
  "zero_asset = \<lparr>aUploadID = [], aSlot = [], aKey = [], aVersionID = [], aSHA256 = [], aSize = 0\<rparr>"

definition tp_head :: "transport \<Rightarrow> upload \<Rightarrow> (cap_err + asset) tp_prog" where
  "tp_head t u = tp_request t ''s3'' ''HEAD'' (object_url t (uKey u) []) [] [(''x-amz-checksum-mode'', ''ENABLED'')]
    (\<lambda>x. Ret (case x of
      Inl e \<Rightarrow> Inl e
    | Inr r \<Rightarrow>
        if hrStatus r = 404 then Inl CapIncomplete
        else if hrStatus r \<noteq> 200 then Inl aws_error
        else (case parse_int64 (hrHeader r ''Content-Length'') of (n, ok) \<Rightarrow>
          if \<not> ok \<or> n \<noteq> uSize u \<or> hrHeader r ''Content-Type'' \<noteq> ''image/jpeg'' then Inl CapImage
          else Inr (zero_asset\<lparr>aVersionID := hrHeader r ''x-amz-version-id'', aSize := n,
                 aSHA256 := hrHeader r ''x-amz-checksum-sha256''\<rparr>))))"

section \<open>Versions\<close>

definition tp_read :: "transport \<Rightarrow> asset \<Rightarrow> (cap_err + string) tp_prog" where
  "tp_read t a = tp_request t ''s3'' ''GET'' (object_url t (aKey a) [(''versionId'', aVersionID a)]) [] []
    (\<lambda>x. Ret (case x of
      Inl e \<Rightarrow> Inl e
    | Inr r \<Rightarrow>
        if hrStatus r \<noteq> 200 then Inl aws_error
        else (case read_limited (nat (MaxBytes + 1)) r of
          None \<Rightarrow> Inl aws_error
        | Some b \<Rightarrow> if int (length b) > MaxBytes then Inl CapImage else Inr b)))"

definition processed_prefix :: "string \<Rightarrow> string" where
  "processed_prefix p = replace_first p ''uploads/'' ''processed/''"

definition written_key :: "transport \<Rightarrow> cap_record \<Rightarrow> string \<Rightarrow> string \<Rightarrow> string" where
  "written_key t r slot b = processed_prefix (object_prefix (tpLib t) (cOwner r) (cID r)) @
     show_int (cGeneration r) @ ''/'' @ slot @ ''-'' @ hex_encode (sha256 (tpLib t) b) @ ''.jpg''"

definition tp_write :: "transport \<Rightarrow> cap_record \<Rightarrow> string \<Rightarrow> string \<Rightarrow> (cap_err + asset) tp_prog" where
  "tp_write t r slot b =
    (let hash = std_encode (sha256 (tpLib t) b); key = written_key t r slot b
     in tp_request t ''s3'' ''PUT'' (object_url t key []) b (upload_headers hash) (\<lambda>x. Ret (case x of
          Inl e \<Rightarrow> Inl e
        | Inr a \<Rightarrow>
            let version = hrHeader a ''x-amz-version-id''
            in if hrStatus a \<noteq> 200 \<or> version = [] \<or> version = ''null'' then Inl aws_error
               else Inr (zero_asset\<lparr>aSlot := slot, aKey := key, aVersionID := version, aSHA256 := hash,
                      aSize := int (length b)\<rparr>))))"

section \<open>Deletion\<close>

text \<open>What the XML decoder sees of a response: at most a megabyte.\<close>

definition read_listing :: "transport \<Rightarrow> http_response \<Rightarrow> (string \<times> string) list option" where
  "read_listing t r = (case read_limited (1024 * 1024) r of
       None \<Rightarrow> None
     | Some d \<Rightarrow> (case parse_listing (tpText t) d of
         None \<Rightarrow> None | Some l \<Rightarrow> Some (lsVersions l @ lsMarkers l)))"

fun delete_versions :: "transport \<Rightarrow> (string \<times> string) list \<Rightarrow> (cap_err option \<Rightarrow> 'a tp_prog) \<Rightarrow> 'a tp_prog" where
  "delete_versions t [] k = k None"
| "delete_versions t ((key, version) # os) k =
     tp_request t ''s3'' ''DELETE'' (object_url t key [(''versionId'', version)]) [] [] (\<lambda>x. case x of
       Inl e \<Rightarrow> k (Some e)
     | Inr r \<Rightarrow> if hrStatus r \<noteq> 204 then k (Some aws_error) else delete_versions t os k)"

definition list_query :: "string \<Rightarrow> (string \<times> string) list" where
  "list_query prefix = [(''versions'', []), (''prefix'', prefix), (''max-keys'', ''100'')]"

text \<open>\<open>n\<close> counts the pages that are left.\<close>

fun delete_pages :: "transport \<Rightarrow> nat \<Rightarrow> string \<Rightarrow> (cap_err option \<Rightarrow> 'a tp_prog) \<Rightarrow> 'a tp_prog" where
  "delete_pages t 0 prefix k = k (Some aws_error)"
| "delete_pages t (Suc n) prefix k =
     tp_request t ''s3'' ''GET'' (object_url t [] (list_query prefix)) [] [] (\<lambda>x. case x of
       Inl e \<Rightarrow> k (Some e)
     | Inr r \<Rightarrow>
         if hrStatus r \<noteq> 200 then k (Some aws_error)
         else (case read_listing t r of
           None \<Rightarrow> k (Some aws_error)
         | Some [] \<Rightarrow> k None
         | Some os \<Rightarrow> delete_versions t os (\<lambda>e. case e of
             Some err \<Rightarrow> k (Some err) | None \<Rightarrow> delete_pages t n prefix k)))"

definition delete_prefix :: "transport \<Rightarrow> string \<Rightarrow> (cap_err option \<Rightarrow> 'a tp_prog) \<Rightarrow> 'a tp_prog" where
  "delete_prefix t prefix k = delete_pages t 25 prefix k"

definition tp_delete_capture :: "transport \<Rightarrow> string \<Rightarrow> cap_err option tp_prog" where
  "tp_delete_capture t prefix = delete_prefix t prefix (\<lambda>e. case e of
     Some err \<Rightarrow> Ret (Some err)
   | None \<Rightarrow> delete_prefix t (processed_prefix prefix) Ret)"

section \<open>The queue\<close>

definition tp_send :: "transport \<Rightarrow> job \<Rightarrow> cap_err option tp_prog" where
  "tp_send t j = (case tpJob t j of
     None \<Rightarrow> Ret (Some (CapOther ''json''))
   | Some b \<Rightarrow> tp_request t ''sqs'' ''POST'' (tpQueue t)
       (values_encode (tpText t) [(''Action'', ''SendMessage''), (''Version'', ''2012-11-05''), (''MessageBody'', b)])
       [(''Content-Type'', ''application/x-www-form-urlencoded'')] (\<lambda>x. Ret (case x of
         Inl e \<Rightarrow> Some e
       | Inr r \<Rightarrow> if hrStatus r \<noteq> 200 then Some aws_error else None)))"

end
