(* ===== verification/CaptureObjectsProps.thy ===== *)
theory CaptureObjectsProps
  imports CaptureObjects CaptureService
begin

text \<open>
  The objects of captures against the bucket: what \<open>DeleteCapture\<close> reports as deleted is gone, for
  every key that an upload or the worker gives to an object of the capture, and other captures keep
  theirs.
\<close>

section \<open>The bucket\<close>

type_synonym bucket = "(string \<times> string) set" \<comment> \<open>key, version\<close>

definition answered :: "http_resp \<Rightarrow> int \<Rightarrow> http_response \<Rightarrow> bool" where
  "answered r status hr \<longleftrightarrow> h_response r = Some hr \<and> hrStatus hr = status"

definition succeeded :: "http_resp \<Rightarrow> bool" where
  "succeeded r \<longleftrightarrow> (case h_response r of None \<Rightarrow> False | Some hr \<Rightarrow> 200 \<le> hrStatus hr \<and> hrStatus hr \<le> 299)"

text \<open>
  A request that takes effect may be answered with anything, or not at all; one that does not is not
  answered with a 2xx status. A page lists versions below the prefix, and at least one if there is one.
\<close>

inductive stored :: "transport \<Rightarrow> http_request \<Rightarrow> http_resp \<Rightarrow> bucket \<Rightarrow> bucket \<Rightarrow> bool" for t where
  stored_put: "hqMethod q = ''PUT'' \<Longrightarrow> hqTarget q = object_url t key [] \<Longrightarrow>
    (\<And>hr. answered r 200 hr \<Longrightarrow> hrHeader hr ''x-amz-version-id'' = version) \<Longrightarrow> stored t q r S (insert (key, version) S)"
| stored_delete: "hqMethod q = ''DELETE'' \<Longrightarrow> hqTarget q = object_url t key [(''versionId'', version)] \<Longrightarrow>
    stored t q r S (S - {(key, version)})"
| stored_read: "hqMethod q \<in> {''GET'', ''HEAD''} \<Longrightarrow>
    (\<And>prefix hr os. hqMethod q = ''GET'' \<Longrightarrow> hqTarget q = object_url t [] (list_query prefix) \<Longrightarrow> answered r 200 hr \<Longrightarrow>
       read_listing t hr = Some os \<Longrightarrow>
       set os \<subseteq> {x \<in> S. has_prefix (fst x) prefix} \<and> (os = [] \<longrightarrow> {x \<in> S. has_prefix (fst x) prefix} = {})) \<Longrightarrow> stored t q r S S"
| stored_post: "hqMethod q = ''POST'' \<Longrightarrow> stored t q r S S"
| stored_refused: "\<not> succeeded r \<Longrightarrow> stored t q r S S"

inductive tp_serve :: "transport \<Rightarrow> tp_call \<Rightarrow> tp_resp \<Rightarrow> bucket \<Rightarrow> bucket \<Rightarrow> bool" for t where
  tp_new: "tp_serve t (THttp (HNew m u)) r S S"
| tp_credentials: "tp_serve t (THttp HCredentials) r S S"
| tp_sign: "tp_serve t (THttp (HSign q)) r S S"
| tp_sent: "stored t q (t_http r) S S' \<Longrightarrow> tp_serve t (THttp (HSend q)) r S S'"
| tp_presigned: "tp_serve t (TPresign u h n) r S S"

inductive_simps serve_request [simp]: "tp_serve t (THttp c) r S S'"
inductive_simps serve_presign [simp]: "tp_serve t (TPresign u h n) r S S'"

text \<open>Object versions are told apart by their URLs.\<close>

definition distinct_versions :: "transport \<Rightarrow> bool" where
  "distinct_versions t \<longleftrightarrow> (\<forall>k v k' v'. object_url t k [(''versionId'', v)] = object_url t k' [(''versionId'', v')] \<longrightarrow>
     k = k' \<and> v = v')"

text \<open>What a request answers, and what it did.\<close>

definition answer_of :: "http_response option \<Rightarrow> cap_err + http_response" where
  "answer_of y = (case y of None \<Rightarrow> Inl aws_error | Some r \<Rightarrow> Inr r)"

lemma answer_of_simps [simp]: "answer_of None = Inl aws_error" "answer_of (Some r) = Inr r"
  "answer_of y = Inr r \<longleftrightarrow> y = Some r"
  by (auto simp: answer_of_def split: option.split)

inductive asked :: "transport \<Rightarrow> string \<Rightarrow> string \<Rightarrow> cap_err + http_response \<Rightarrow> bucket \<Rightarrow> bucket \<Rightarrow> bool"
  for t meth target where
  asked_nothing: "asked t meth target (Inl aws_error) S S"
| asked_sent: "hqMethod q = meth \<Longrightarrow> hqTarget q = target \<Longrightarrow> stored t q r S S' \<Longrightarrow>
    asked t meth target (answer_of (h_response r)) S S'"

lemma tp_request_runs:
  assumes "runs (tp_serve t) (tp_request t service meth target body headers k) S a S''"
  obtains x S' where "asked t meth target x S S'" "runs (tp_serve t) (k x) S' a S''"
proof -
  from assms obtain y S' where
    y: "runs (tp_serve t) (lift_calls THttp t_http (send_signed (tpLib t) service meth target body headers Ret)) S y S'"
    and k: "runs (tp_serve t) (case y of None \<Rightarrow> k (Inl aws_error) | Some r \<Rightarrow> k (Inr r)) S' a S''"
    unfolding tp_request_def runs_pbind by blast
  have "asked t meth target (answer_of (h_response r)) S S'" if
    "stored t \<lparr>hqService = service, hqMethod = meth, hqTarget = target, hqBody = body, hqHeaders = hs\<rparr> r S S'" for r hs
    using asked_sent [OF _ _ that] by simp
  then have "asked t meth target (answer_of y) S S'"
    using y asked_nothing [of t meth target S] unfolding send_signed_def Let_def
    by (auto split: if_splits)
  from that [OF this] k show thesis by (cases y) simp_all
qed

lemma refused_answer: "\<not> succeeded r \<Longrightarrow> answer_of (h_response r) = Inr hr \<Longrightarrow> hrStatus hr \<noteq> 200 \<and> hrStatus hr \<noteq> 204"
  by (auto simp: succeeded_def)

lemma asked_delete:
  assumes "asked t ''DELETE'' (object_url t key [(''versionId'', version)]) x S S'" "distinct_versions t"
  shows "S' = S - {(key, version)} \<or> S' = S \<and> (\<forall>r. x = Inr r \<longrightarrow> hrStatus r \<noteq> 204)"
  using assms(1)
proof (cases rule: asked.cases)
  case (asked_sent q r)
  from asked_sent(4) show ?thesis
  proof (cases rule: stored.cases)
    case (stored_delete key' version')
    with asked_sent(3) have "object_url t key [(''versionId'', version)] = object_url t key' [(''versionId'', version')]" by simp
    with assms(2) have "key' = key \<and> version' = version" unfolding distinct_versions_def by metis
    with stored_delete show ?thesis by simp
  next
    case stored_refused
    with asked_sent(1) refused_answer [of r] show ?thesis by auto
  qed (use asked_sent(2) in simp_all)
qed simp

lemma asked_list:
  assumes "asked t ''GET'' (object_url t [] (list_query prefix)) x S S'"
  shows "S' = S \<and> (\<forall>r os. x = Inr r \<and> hrStatus r = 200 \<and> read_listing t r = Some os \<longrightarrow>
      set os \<subseteq> {x \<in> S. has_prefix (fst x) prefix} \<and> (os = [] \<longrightarrow> {x \<in> S. has_prefix (fst x) prefix} = {}))"
  using assms
proof (cases rule: asked.cases)
  case (asked_sent q r)
  from asked_sent(4) show ?thesis
  proof (cases rule: stored.cases)
    case stored_read
    show ?thesis
    proof (intro conjI allI impI)
      fix hr os
      assume *: "x = Inr hr \<and> hrStatus hr = 200 \<and> read_listing t hr = Some os"
      then have "answered r 200 hr" using asked_sent(1) by (simp add: answered_def)
      with stored_read(3) [of prefix hr os] asked_sent(2,3) *
      show "set os \<subseteq> {x \<in> S. has_prefix (fst x) prefix}" "os = [] \<Longrightarrow> {x \<in> S. has_prefix (fst x) prefix} = {}"
        by simp_all
    qed (use stored_read in simp)
  next
    case stored_refused
    with asked_sent(1) refused_answer [of r] show ?thesis by auto
  qed (use asked_sent(2) in simp_all)
qed simp

section \<open>Deletion\<close>

definition below :: "string \<Rightarrow> bucket \<Rightarrow> bucket" where
  "below prefix S = {x \<in> S. has_prefix (fst x) prefix}"

text \<open>Something below the prefix may have gone, and nothing else has changed.\<close>

definition swept_below :: "string \<Rightarrow> bucket \<Rightarrow> bucket \<Rightarrow> bool" where
  "swept_below prefix S S' \<longleftrightarrow> S' \<subseteq> S \<and> S - S' \<subseteq> below prefix S"

lemma swept_refl [simp]: "swept_below prefix S S"
  by (simp add: swept_below_def)

lemma swept_trans: "swept_below prefix S S' \<Longrightarrow> swept_below prefix S' S'' \<Longrightarrow> swept_below prefix S S''"
  by (auto simp: swept_below_def below_def)

lemma delete_versions_runs:
  assumes "runs (tp_serve t) (delete_versions t os k) S a S''" "distinct_versions t"
    and "\<forall>x\<in>set os. has_prefix (fst x) prefix"
  shows "\<exists>e S'. runs (tp_serve t) (k e) S' a S'' \<and> swept_below prefix S S'"
  using assms
proof (induction os arbitrary: S)
  case (Cons o' os)
  obtain key version where o': "o' = (key, version)" by (cases o')
  from Cons.prems(1) obtain x S1 where
    1: "asked t ''DELETE'' (object_url t key [(''versionId'', version)]) x S S1"
    and r: "runs (tp_serve t) (case x of Inl e \<Rightarrow> k (Some e)
      | Inr r \<Rightarrow> if hrStatus r \<noteq> 204 then k (Some aws_error) else delete_versions t os k) S1 a S''"
    unfolding o' delete_versions.simps by (elim tp_request_runs)
  have s: "swept_below prefix S S1"
    using asked_delete [OF 1 Cons.prems(2)] Cons.prems(3) o' by (auto simp: swept_below_def below_def)
  show ?case
  proof (cases "\<exists>r. x = Inr r \<and> hrStatus r = 204")
    case True
    with r have "runs (tp_serve t) (delete_versions t os k) S1 a S''" by auto
    from Cons.IH [OF this Cons.prems(2)] Cons.prems(3) s show ?thesis by (auto dest: swept_trans)
  next
    case False
    with r obtain e where "runs (tp_serve t) (k e) S1 a S''" by (cases x) (auto split: if_splits)
    with s show ?thesis by blast
  qed
qed (use swept_refl in fastforce)

lemma delete_pages_runs:
  assumes "runs (tp_serve t) (delete_pages t n prefix k) S a S''" "distinct_versions t"
  shows "\<exists>e S'. runs (tp_serve t) (k e) S' a S'' \<and> swept_below prefix S S' \<and> (e = None \<longrightarrow> below prefix S' = {})"
  using assms
proof (induction n arbitrary: S)
  case (Suc n)
  from Suc.prems(1) obtain x S1 where
    1: "asked t ''GET'' (object_url t [] (list_query prefix)) x S S1"
    and r: "runs (tp_serve t) (case x of Inl e \<Rightarrow> k (Some e) | Inr r \<Rightarrow>
         if hrStatus r \<noteq> 200 then k (Some aws_error)
         else (case read_listing t r of
           None \<Rightarrow> k (Some aws_error)
         | Some [] \<Rightarrow> k None
         | Some os \<Rightarrow> delete_versions t os (\<lambda>e. case e of
             Some err \<Rightarrow> k (Some err) | None \<Rightarrow> delete_pages t n prefix k))) S1 a S''"
    unfolding delete_pages.simps by (elim tp_request_runs)
  note l = asked_list [OF 1]
  show ?case
  proof (cases "\<exists>hr o' os. x = Inr hr \<and> hrStatus hr = 200 \<and> read_listing t hr = Some (o' # os)")
    case True
    then obtain hr o' os where o': "x = Inr hr" "hrStatus hr = 200" "read_listing t hr = Some (o' # os)" by blast
    with r l have "runs (tp_serve t) (delete_versions t (o' # os) (\<lambda>e. case e of
             Some err \<Rightarrow> k (Some err) | None \<Rightarrow> delete_pages t n prefix k)) S a S''" by simp
    from delete_versions_runs [OF this Suc.prems(2), of prefix] l o' obtain e S2 where
      e: "runs (tp_serve t) (case e of Some err \<Rightarrow> k (Some err) | None \<Rightarrow> delete_pages t n prefix k) S2 a S''"
      and s: "swept_below prefix S S2" by auto
    show ?thesis
    proof (cases e)
      case None
      with e have "runs (tp_serve t) (delete_pages t n prefix k) S2 a S''" by simp
      from Suc.IH [OF this Suc.prems(2)] s show ?thesis by (auto dest: swept_trans)
    qed (use e s in auto)
  next
    case False
    have "\<exists>e. runs (tp_serve t) (k e) S1 a S'' \<and> (e = None \<longrightarrow> below prefix S = {})"
    proof (cases "\<exists>hr. x = Inr hr \<and> hrStatus hr = 200 \<and> read_listing t hr = Some []")
      case True
      with r l have "runs (tp_serve t) (k None) S1 a S''" "below prefix S = {}" by (auto simp: below_def)
      then show ?thesis by blast
    next
      case empty: False
      have "\<exists>err. runs (tp_serve t) (k (Some err)) S1 a S''"
      proof (cases x)
        case (Inr hr)
        with r False empty show ?thesis
          by (cases "read_listing t hr") (auto split: if_splits list.splits simp: neq_Nil_conv)
      qed (use r in auto)
      then show ?thesis by blast
    qed
    with l show ?thesis using swept_refl by metis
  qed
next
  case 0
  then show ?case using swept_refl by fastforce
qed

lemma delete_capture_runs:
  assumes "runs (tp_serve t) (tp_delete_capture t prefix) S e S'" "distinct_versions t"
  shows "S' \<subseteq> S \<and> S - S' \<subseteq> below prefix S \<union> below (processed_prefix prefix) S \<and>
    (e = None \<longrightarrow> below prefix S' = {} \<and> below (processed_prefix prefix) S' = {})"
proof -
  from delete_pages_runs [OF assms(1) [unfolded tp_delete_capture_def delete_prefix_def [of _ prefix]] assms(2)]
  obtain e1 S1 where
    1: "runs (tp_serve t) (case e1 of Some err \<Rightarrow> Ret (Some err)
        | None \<Rightarrow> delete_prefix t (processed_prefix prefix) Ret) S1 e S'"
    and s: "swept_below prefix S S1" "e1 = None \<longrightarrow> below prefix S1 = {}"
    by blast
  show ?thesis
  proof (cases e1)
    case None
    with 1 have "runs (tp_serve t) (delete_pages t 25 (processed_prefix prefix) Ret) S1 e S'"
      by (simp add: delete_prefix_def)
    from delete_pages_runs [OF this assms(2)] have
      "swept_below (processed_prefix prefix) S1 S'" "e = None \<longrightarrow> below (processed_prefix prefix) S' = {}" by auto
    with s None show ?thesis unfolding swept_below_def below_def by blast
  next
    case (Some err)
    with 1 s show ?thesis by (auto simp: swept_below_def)
  qed
qed

text \<open>The prefix of a capture's processed objects, and the keys the service and the worker use.\<close>

lemma processed_of: "processed_prefix (object_prefix L owner i) = ''processed/'' @ hex_encode (sha256 L owner) @ ''/'' @ i @ ''/''"
  by (simp add: processed_prefix_def object_prefix_def has_prefix_def)

lemma has_prefix_append [simp]: "has_prefix (p @ s) p"
  by (simp add: has_prefix_def)

text \<open>
  The objects of a capture, by the keys the service and the worker give them, and what it means that
  two captures are different: another id, or an owner with another digest. Ids hold no slash, as the
  service only makes and accepts hexadecimal ones.
\<close>

definition image_of :: "transport \<Rightarrow> string \<Rightarrow> string \<Rightarrow> string \<Rightarrow> bool" where
  "image_of t owner i key \<longleftrightarrow> (\<exists>j u. key = uKey (new_upload (tpLib t) owner i j u)) \<or>
     (\<exists>r slot image. cOwner r = owner \<and> cID r = i \<and> key = written_key t r slot image)"

definition other_capture :: "golib \<Rightarrow> string \<Rightarrow> string \<Rightarrow> string \<Rightarrow> string \<Rightarrow> bool" where
  "other_capture L owner i owner' i' \<longleftrightarrow>
     (i' \<noteq> i \<or> sha256 L owner' \<noteq> sha256 L owner) \<and> CHR ''/'' \<notin> set i \<and> CHR ''/'' \<notin> set i'"

lemma valid_ids_have_no_slash: "valid_id i \<Longrightarrow> CHR ''/'' \<notin> set i"
  by (auto simp: valid_id_def char_classes list_all_iff)

lemma hex_digit_facts:
  "n < 16 \<Longrightarrow> hex_digit n \<in> set ''0123456789abcdef''"
  "m < 16 \<Longrightarrow> n < 16 \<Longrightarrow> hex_digit m = hex_digit n \<Longrightarrow> m = n"
proof -
  show "hex_digit n \<in> set ''0123456789abcdef''" if "n < 16"
    unfolding hex_digit_def by (rule nth_mem) (use that in simp)
  have "distinct ''0123456789abcdef''" by code_simp
  then show "m < 16 \<Longrightarrow> n < 16 \<Longrightarrow> hex_digit m = hex_digit n \<Longrightarrow> m = n"
    unfolding hex_digit_def by (subst (asm) nth_eq_iff_index_eq) simp_all
qed

lemma byte_parts: "byte c div 16 < 16" "byte c mod 16 < 16"
proof -
  have "byte c < 256" by simp
  then have "byte c < 16 * 16" by simp
  then show "byte c div 16 < 16" "byte c mod 16 < 16" by (simp_all only: less_mult_imp_div_less mod_less_divisor zero_less_numeral)
qed

lemma hex_digit_no_slash: "n < 16 \<Longrightarrow> hex_digit n \<noteq> CHR ''/''"
  using hex_digit_facts(1) [of n] by auto

lemma hex_has_no_slash: "CHR ''/'' \<notin> set (hex_encode s)"
  using hex_digit_no_slash [OF byte_parts(1)] hex_digit_no_slash [OF byte_parts(2)]
  by (induction s) (simp_all add: hex_encode_def eq_commute [of "CHR ''/''"])

lemma byte_eqI: "byte c div 16 = byte d div 16 \<Longrightarrow> byte c mod 16 = byte d mod 16 \<Longrightarrow> c = d"
  by (metis div_mult_mod_eq of_char_eq_iff)

lemma hex_encode_inj: "hex_encode s = hex_encode t \<Longrightarrow> s = t"
proof (induction s arbitrary: t)
  case Nil
  then show ?case by (cases t) (simp_all add: hex_encode_def)
next
  case (Cons c s)
  then obtain d t' where t: "t = d # t'" by (cases t) (simp_all add: hex_encode_def)
  with Cons.prems have "hex_digit (byte c div 16) = hex_digit (byte d div 16)"
    "hex_digit (byte c mod 16) = hex_digit (byte d mod 16)" "hex_encode s = hex_encode t'"
    by (simp_all add: hex_encode_def)
  with hex_digit_facts(2) byte_parts byte_eqI [of c d] Cons.IH [of t'] t show ?case by metis
qed

lemma same_capture:
  assumes "hex_encode (sha256 L owner) @ ''/'' @ i @ ''/'' @ u = hex_encode (sha256 L owner') @ ''/'' @ i' @ ''/'' @ v"
  shows "\<not> other_capture L owner i owner' i'"
  using split_at_separator [OF assms [simplified] hex_has_no_slash hex_has_no_slash] split_at_separator [of i _ u i' v]
    hex_encode_inj [of "sha256 L owner" "sha256 L owner'"]
  by (auto simp: other_capture_def)

definition folder :: "golib \<Rightarrow> string \<Rightarrow> string \<Rightarrow> string" where
  "folder L owner i = hex_encode (sha256 L owner) @ ''/'' @ i @ ''/''"

lemma processed_folder: "processed_prefix (object_prefix L owner i) = ''processed/'' @ folder L owner i"
  by (simp only: processed_of folder_def)

lemma uploads_folder: "object_prefix L owner i = ''uploads/'' @ folder L owner i"
  by (simp add: object_prefix_def folder_def)

lemma image_prefix:
  assumes "image_of t owner i key"
  shows "\<exists>u. key = ''uploads/'' @ folder (tpLib t) owner i @ u \<or> key = ''processed/'' @ folder (tpLib t) owner i @ u"
  using assms unfolding image_of_def new_upload_def written_key_def processed_folder
  unfolding uploads_folder by auto

lemma image_below:
  assumes "image_of t owner i key"
  shows "has_prefix key (object_prefix (tpLib t) owner i) \<or>
    has_prefix key (processed_prefix (object_prefix (tpLib t) owner i))"
  using image_prefix [OF assms] unfolding processed_folder unfolding uploads_folder
  by (auto simp: has_prefix_def)

lemma has_prefixE: "has_prefix key p \<Longrightarrow> \<exists>u. key = p @ u"
  by (metis append_take_drop_id has_prefix_def)

lemma other_folder: "other_capture L owner i owner' i' \<Longrightarrow> folder L owner i @ u \<noteq> folder L owner' i' @ v"
  unfolding folder_def using same_capture [of L owner i u owner' i' v] by auto

lemma other_not_below:
  assumes "image_of t owner' i' key" "other_capture (tpLib t) owner i owner' i'"
  shows "\<not> has_prefix key (object_prefix (tpLib t) owner i) \<and>
    \<not> has_prefix key (processed_prefix (object_prefix (tpLib t) owner i))"
  using image_prefix [OF assms(1)] other_folder [OF assms(2)]
  unfolding processed_folder unfolding uploads_folder
  by (auto dest!: has_prefixE dest: sym)

text \<open>C14: when the deletion of a capture succeeds, none of its images is left in the bucket, in any
version: neither an object under a key that an upload of the capture was given, nor one under a key
that a worker wrote for any generation of it. Whether it succeeds or not, it adds nothing, and every
image of another capture - of another id, also of the same owner, or of another owner - stays, as
does everything outside the two prefixes of the capture, although requests may take effect without an
answer.\<close>

theorem deletion_leaves_no_image:
  assumes "runs (tp_serve t) (tp_delete_capture t (object_prefix (tpLib t) owner i)) S e S'" "distinct_versions t"
  shows "(e = None \<longrightarrow> (\<forall>(key, version)\<in>S'. (\<forall>j u. key \<noteq> uKey (new_upload (tpLib t) owner i j u)) \<and>
       (\<forall>r slot image. cOwner r = owner \<and> cID r = i \<longrightarrow> key \<noteq> written_key t r slot image))) \<and>
    S' \<subseteq> S \<and> (\<forall>(key, version)\<in>S. \<not> has_prefix key (object_prefix (tpLib t) owner i) \<and>
       \<not> has_prefix key (processed_prefix (object_prefix (tpLib t) owner i)) \<longrightarrow> (key, version) \<in> S') \<and>
    (\<forall>(key, version)\<in>S. \<forall>owner' i'. other_capture (tpLib t) owner i owner' i' \<and> image_of t owner' i' key \<longrightarrow>
       (key, version) \<in> S')"
proof -
  note d = delete_capture_runs [OF assms]
  have gone: "\<forall>(key, version)\<in>S'. \<not> image_of t owner i key" if "e = None"
    using d that image_below [of t owner i] unfolding below_def by fastforce
  have rest: "(key, version) \<in> S'" if "(key, version) \<in> S"
    "\<not> has_prefix key (object_prefix (tpLib t) owner i)"
    "\<not> has_prefix key (processed_prefix (object_prefix (tpLib t) owner i))" for key version
    using d that by (auto simp: below_def)
  have others: "(key, version) \<in> S'" if "(key, version) \<in> S" "image_of t owner' i' key"
    "other_capture (tpLib t) owner i owner' i'" for key version owner' i'
    using other_not_below [OF that(2,3)] by (intro rest [OF that(1)]) blast+
  show ?thesis
  proof (intro conjI impI)
    show "\<forall>(key, version)\<in>S'. (\<forall>j u. key \<noteq> uKey (new_upload (tpLib t) owner i j u)) \<and>
       (\<forall>r slot image. cOwner r = owner \<and> cID r = i \<longrightarrow> key \<noteq> written_key t r slot image)" if "e = None"
      using gone [OF that] by (simp add: image_of_def split_beta)
    show "S' \<subseteq> S" using d by blast
  qed (use rest others in \<open>clarify, blast\<close>)+
qed

section \<open>Demonstrations\<close>

text \<open>URLs that keep the key and the version apart, and a listing that is never more than empty.\<close>

definition demo_aws :: aws_text where
  "demo_aws = \<lparr>values_encode = (\<lambda>q. concat (map snd q)),
     url_string = (\<lambda>h p q. replicate (length p) (CHR ''.'') @ CHR '':'' # p @ q),
     parse_listing = (\<lambda>d. Some \<lparr>lsVersions = [], lsMarkers = [], lsTruncated = False\<rparr>)\<rparr>"

definition demo_transport :: transport where
  "demo_transport = \<lparr>tpLib = demo_lib, tpText = demo_aws, tpRegion = ''r'', tpBucket = ''b'', tpQueue = ''q'',
     tpJob = (\<lambda>_. None)\<rparr>"

lemma dots_inj: "replicate m (CHR ''.'') @ CHR '':'' # u = replicate n (CHR ''.'') @ CHR '':'' # v \<Longrightarrow> m = n \<and> u = v"
proof (induction m arbitrary: n)
  case 0
  then show ?case by (cases n) simp_all
next
  case (Suc m)
  then show ?case by (cases n) simp_all
qed

lemma demo_url_parts:
  "object_url demo_transport k q = object_url demo_transport k' q' \<longleftrightarrow> k = k' \<and> concat (map snd q) = concat (map snd q')"
proof
  assume "object_url demo_transport k q = object_url demo_transport k' q'"
  then have "replicate (length (''/'' @ k)) (CHR ''.'') @ CHR '':'' # ((''/'' @ k) @ concat (map snd q)) =
      replicate (length (''/'' @ k')) (CHR ''.'') @ CHR '':'' # ((''/'' @ k') @ concat (map snd q'))"
    unfolding object_url_def demo_transport_def demo_aws_def by (simp only: transport.simps aws_text.simps)
  from dots_inj [OF this] have "length k = length k'" "k @ concat (map snd q) = k' @ concat (map snd q')" by simp_all
  then show "k = k' \<and> concat (map snd q) = concat (map snd q')" by simp
qed (simp add: object_url_def demo_transport_def demo_aws_def)

lemma demo_distinct: "distinct_versions demo_transport"
  unfolding distinct_versions_def demo_url_parts by simp

definition replied :: "http_response \<Rightarrow> tp_resp" where
  "replied hr = \<lparr>t_http = \<lparr>h_ok = True, h_response = Some hr\<rparr>, t_url = None\<rparr>"

lemma tp_request_runsI:
  assumes "\<And>q. hqMethod q = meth \<Longrightarrow> hqTarget q = target \<Longrightarrow> stored t q (t_http (replied hr)) S S1"
    and "runs (tp_serve t) (k (Inr hr)) S1 a S2"
  shows "runs (tp_serve t) (tp_request t service meth target body headers k) S a S2"
proof -
  have "stored t \<lparr>hqService = service, hqMethod = meth, hqTarget = target, hqBody = body,
      hqHeaders = headers @ content_hash (tpLib t) service body\<rparr> (t_http (replied hr)) S S1"
    by (rule assms(1)) simp_all
  then have "runs (tp_serve t) (lift_calls THttp t_http (send_signed (tpLib t) service meth target body headers Ret)) S (Some hr) S1"
    unfolding send_signed_def Let_def by (auto simp: replied_def intro!: exI [of _ "replied hr"])
  with assms(2) show ?thesis unfolding tp_request_def runs_pbind by force
qed

definition demo_page :: http_response where
  "demo_page = \<lparr>hrStatus = 200, hrHeader = (\<lambda>_. []), hrBody = [], hrReadError = False\<rparr>"

lemma empty_page:
  assumes "below prefix S = {}" "runs (tp_serve demo_transport) (k None) S a S'"
  shows "runs (tp_serve demo_transport) (delete_prefix demo_transport prefix k) S a S'"
proof -
  have e: "read_listing demo_transport demo_page = Some []"
    by (simp add: read_listing_def read_limited_def demo_transport_def demo_aws_def demo_page_def)
  have "runs (tp_serve demo_transport) (delete_pages demo_transport (Suc 24) prefix k) S a S'"
    unfolding delete_pages.simps
  proof (rule tp_request_runsI)
    fix q :: http_request assume q: "hqMethod q = ''GET''" "hqTarget q = object_url demo_transport [] (list_query prefix)"
    show "stored demo_transport q (t_http (replied demo_page)) S S"
      by (rule stored_read)
        (use q e assms(1) in \<open>auto simp: demo_url_parts list_query_def answered_def replied_def below_def\<close>)
  qed (use assms(2) e in \<open>simp add: demo_page_def\<close>)
  then show ?thesis by (simp add: delete_prefix_def eval_nat_numeral)
qed

text \<open>Deleting a capture without objects, beside one that has some.\<close>

definition demo_bucket :: bucket where
  "demo_bucket = {(''uploads/x'', ''v'')}"

theorem deletion_leaves_no_image_witness:
  "runs (tp_serve demo_transport) (tp_delete_capture demo_transport (object_prefix demo_lib ''o'' ''i'')) demo_bucket None demo_bucket \<and>
     (''uploads/x'', ''v'') \<in> demo_bucket \<and> (\<forall>j u. ''uploads/x'' \<noteq> uKey (new_upload demo_lib ''o'' ''i'' j u))"
proof -
  have t: "tpLib demo_transport = demo_lib" by (simp add: demo_transport_def)
  have k: "object_prefix demo_lib ''o'' ''i'' = ''uploads/6f'' @ drop 2 (hex_encode (sha256 demo_lib ''o'')) @ ''/i/''"
    by (simp add: object_prefix_def demo_lib_def hex_encode_def hex_digit_def)
  have p: "processed_prefix (object_prefix demo_lib ''o'' ''i'') =
      ''processed/'' @ hex_encode (sha256 demo_lib ''o'') @ ''/'' @ ''i'' @ ''/''"
    by (rule processed_of)
  have "runs (tp_serve demo_transport) (tp_delete_capture demo_transport (object_prefix demo_lib ''o'' ''i'')) demo_bucket None demo_bucket"
    unfolding tp_delete_capture_def
    by (rule empty_page, simp add: below_def demo_bucket_def has_prefix_def k, simp, rule empty_page)
      (simp_all add: below_def demo_bucket_def has_prefix_def p)
  with deletion_leaves_no_image [OF _ demo_distinct, of "''o''" "''i''" demo_bucket None demo_bucket] t show ?thesis
    by (auto simp: demo_bucket_def)
qed

end
