(* ===== verification/ExtractorProps.thy ===== *)
theory ExtractorProps
  imports Extractor
begin

text \<open>
  What the extraction sends and accepts: images sized down without overflow, one request of bounded
  size, and only valid card data from a bounded, complete answer.
\<close>

lemma scaled_side:
  assumes "1 \<le> a" "a \<le> b" "1 \<le> (n :: int)" "n < b"
  shows "1 \<le> max 1 (a * n div b) \<and> max 1 (a * n div b) \<le> a \<and> max 1 (a * n div b) \<le> n"
proof -
  have "a * n div b \<le> a * b div b" using assms by (intro zdiv_mono1) simp_all
  moreover have "a * n div b \<le> b * n div b" using assms by (intro zdiv_mono1) simp_all
  ultimately show ?thesis using assms by auto
qed

lemma limited_size_bounds:
  assumes "1 \<le> w" "1 \<le> h" "1 \<le> limit" "limited_size limit w h = (w', h')"
  shows "1 \<le> w' \<and> w' \<le> w \<and> w' \<le> limit \<and> 1 \<le> h' \<and> h' \<le> h \<and> h' \<le> limit"
  using assms scaled_side [of h w limit] scaled_side [of w h limit]
  by (auto simp: limited_size_def split: if_splits)

text \<open>An encoding of the image at one of the sizes: no side is longer than the limit or than it was,
and the products of the computation fit into 64 bits.\<close>

definition sized_down :: "'im inference \<Rightarrow> string \<Rightarrow> string \<Rightarrow> bool" where
  "sized_down J data out \<longleftrightarrow> int (length data) \<le> MaxBytes \<and> length out \<le> 1200000 \<and>
     (\<exists>w h im limit w' h'. in_config J data = Some (w, h) \<and> in_decode J data = Some im \<and> w * h \<le> MaxPixels \<and>
        limit \<in> {1600, 1200, 960} \<and> limited_size limit w h = (w', h') \<and>
        1 \<le> w' \<and> w' \<le> min w limit \<and> 1 \<le> h' \<and> h' \<le> min h limit \<and>
        w * limit \<le> max_int64 \<and> h * limit \<le> max_int64 \<and>
        in_encode J (if w' \<noteq> w \<or> h' \<noteq> h then in_resize J im w' h' else im) = Some out)"

lemma encode_limited_some:
  "encode_limited J im w h limits = Some out \<Longrightarrow>
   length out \<le> 1200000 \<and> (\<exists>limit w' h'. limit \<in> set limits \<and> limited_size limit w h = (w', h') \<and>
     in_encode J (if w' \<noteq> w \<or> h' \<noteq> h then in_resize J im w' h' else im) = Some out)"
proof (induction limits)
  case (Cons limit limits)
  obtain w' h' where s: "limited_size limit w h = (w', h')" by (cases "limited_size limit w h")
  let ?im = "if w' \<noteq> w \<or> h' \<noteq> h then in_resize J im w' h' else im"
  show ?case
  proof (cases "in_encode J ?im")
    case (Some out')
    then show ?thesis
    proof (cases "length out' \<le> 1200000")
      case True
      with Some Cons.prems have "out' = out" by (simp add: s Let_def del: not_None_eq)
      with Some True s show ?thesis by (meson list.set_intros(1))
    next
      case False
      with Some Cons.prems have "encode_limited J im w h limits = Some out" by (simp add: s Let_def del: not_None_eq)
      from Cons.IH [OF this] show ?thesis by (meson list.set_intros(2))
    qed
  qed (use Cons.prems in \<open>simp add: s Let_def\<close>)
qed simp

lemma inference_sized_down:
  assumes "inference_jpeg J data = Some out"
  shows "sized_down J data out"
proof -
  from assms obtain w h im where c: "int (length data) \<le> MaxBytes" "in_config J data = Some (w, h)" "1 \<le> w" "1 \<le> h"
    "w * h \<le> MaxPixels" "in_decode J data = Some im" "encode_limited J im w h [1600, 1200, 960] = Some out"
    by (auto simp: inference_jpeg_def simp del: encode_limited.simps split: if_splits option.splits)
  from encode_limited_some [OF c(7)] obtain limit w' h' where
    l: "length out \<le> 1200000" "limit \<in> {1600, 1200, 960}" "limited_size limit w h = (w', h')"
    "in_encode J (if w' \<noteq> w \<or> h' \<noteq> h then in_resize J im w' h' else im) = Some out" by auto
  have b: "1 \<le> w' \<and> w' \<le> w \<and> w' \<le> limit \<and> 1 \<le> h' \<and> h' \<le> h \<and> h' \<le> limit"
    using limited_size_bounds [OF c(3,4) _ l(3)] l(2) by (auto simp del: encode_limited.simps)
  have "w * 1 \<le> w * h" "1 * h \<le> w * h" using c(3,4) by (auto intro: mult_mono)
  then have "w \<le> MaxPixels" "h \<le> MaxPixels" using c(5) by auto
  moreover have "1 \<le> limit" "limit \<le> 1600" using l(2) by auto
  ultimately have "w * limit \<le> MaxPixels * 1600" "h * limit \<le> MaxPixels * 1600"
    using c(3,4) by (auto intro: mult_mono)
  then have "w * limit \<le> max_int64" "h * limit \<le> max_int64" by (auto simp: MaxPixels_def max_int64_def)
  with c(1,2,5,6) l b show ?thesis
    unfolding sized_down_def
    by (intro conjI exI [of _ w] exI [of _ h] exI [of _ im] exI [of _ limit] exI [of _ w'] exI [of _ h'])
      (simp_all only: simp_thms min_def if_True if_False split: if_split)
qed

text \<open>The one request of an extraction, and the answers it accepts.\<close>

definition extract_call_ok :: "transport \<Rightarrow> 'im inference \<Rightarrow> (string \<times> string) list \<Rightarrow> tp_call \<Rightarrow>
    (tp_call \<times> tp_resp) list \<Rightarrow> bool" where
  "extract_call_ok t J images q h = (case q of
       THttp (HSend rq) \<Rightarrow>
         (\<exists>x y a b. images = [(''front'', x), (''back'', y)] \<and> sized_down J x a \<and> sized_down J y b \<and>
            in_marshal J (extract_request [text_part ''front'', image_part a, text_part ''back'', image_part b]) =
              Some (hqBody rq) \<and>
            length (hqBody rq) \<le> 3500000 \<and> hqTarget rq = bedrock_target t \<and> hqMethod rq = ''POST'') \<and>
         (\<forall>rq' r. (THttp (HSend rq'), r) \<notin> set h)
     | _ \<Rightarrow> True)"

definition extract_result_ok :: "transport \<Rightarrow> 'im inference \<Rightarrow> cap_err + card_data \<Rightarrow> (tp_call \<times> tp_resp) list \<Rightarrow> bool" where
  "extract_result_ok t J res h = (case res of
       Inl e \<Rightarrow> e = extraction_error
     | Inr d \<Rightarrow> card_valid d \<and> (\<exists>rq r hr content. (THttp (HSend rq), r) \<in> set h \<and> h_response (t_http r) = Some hr \<and>
         hrStatus hr = 200 \<and> length (hrBody hr) \<le> 65536 \<and> in_choices J (hrBody hr) = Some [(''stop'', content)] \<and>
         length (answer_text (tpLib t) content) \<le> 8192 \<and>
         in_card J (answer_text (tpLib t) content) = Some (d, True)))"

lemma only_choice_Some [simp]: "only_choice x = Some c \<longleftrightarrow> x = Some [(''stop'', c)]"
  by (auto simp: only_choice_def split: option.split list.split)

lemma card_of_Inr: "card_of J text = Inr d \<longleftrightarrow>
    has_prefix text ''{'' \<and> length text \<le> 8192 \<and> in_card J text = Some (d, True) \<and> card_valid d"
  by (auto simp: card_of_def split: option.split)

lemma extract_answer_ok:
  "extract_answer L J hr = Inr d \<Longrightarrow> card_valid d \<and> (\<exists>content. hrStatus hr = 200 \<and> length (hrBody hr) \<le> 65536 \<and>
     in_choices J (hrBody hr) = Some [(''stop'', content)] \<and> length (answer_text L content) \<le> 8192 \<and>
     in_card J (answer_text L content) = Some (d, True))"
  using take_short [of 65536 "hrBody hr"]
  by (auto simp: extract_answer_def read_limited_def card_of_Inr split: if_splits option.splits)

lemma extract_answer_error: "extract_answer L J hr = Inl e \<Longrightarrow> e = extraction_error"
  by (auto simp: extract_answer_def card_of_def split: if_splits option.splits)

lemma image_parts_two:
  "image_parts J [''front'', ''back''] images = Some parts \<Longrightarrow>
   \<exists>x y a b. images = [(''front'', x), (''back'', y)] \<and> inference_jpeg J x = Some a \<and> inference_jpeg J y = Some b \<and>
     parts = [text_part ''front'', image_part a, text_part ''back'', image_part b]"
  by (cases images; cases "tl images"; cases "tl (tl images)") (auto split: if_splits option.splits)

text \<open>C15: an extraction sends at most one request, to the model's endpoint of its own region, made from
exactly a front and a back image, each sized down to at most 1600 pixels a side and 1.2 MB without
overflow, in a body of at most 3.5 MB; and it returns card data only when it is valid and came as the
single complete choice of a 200 answer of at most 64 KB, decoded strictly.\<close>

theorem extraction_bounded:
  "safe (extract_call_ok t J images) (extract_result_ok t J) (bedrock_extract t J images) []"
proof (cases "image_parts J [''front'', ''back''] images")
  case None
  then show ?thesis by (simp add: bedrock_extract_def extract_result_ok_def)
next
  case (Some parts)
  then obtain x y a b where p: "images = [(''front'', x), (''back'', y)]" "sized_down J x a" "sized_down J y b"
    "parts = [text_part ''front'', image_part a, text_part ''back'', image_part b]"
    using image_parts_two inference_sized_down by blast
  have ok: "extract_call_ok t J images (THttp (HSend \<lparr>hqService = s, hqMethod = ''POST'', hqTarget = bedrock_target t,
      hqBody = body, hqHeaders = hs\<rparr>)) h"
    if "in_marshal J (extract_request parts) = Some body" "\<not> length body > 3500000"
      "\<forall>rq' r. (THttp (HSend rq'), r) \<notin> set h" for s body hs h
    using p that unfolding extract_call_ok_def by auto
  have others: "extract_call_ok t J images (THttp (HNew m u)) h" "extract_call_ok t J images (THttp HCredentials) h"
    "extract_call_ok t J images (THttp (HSign q)) h" for m u q h
    by (simp_all add: extract_call_ok_def)
  have err: "extract_result_ok t J (Inl extraction_error) h" for h by (simp add: extract_result_ok_def)
  have res: "extract_result_ok t J (extract_answer (tpLib t) J hr) (h @ [(THttp (HSend rq), r)])"
    if "h_response (t_http r) = Some hr" for hr h rq r
    using that extract_answer_ok [of "tpLib t" J hr] extract_answer_error [of "tpLib t" J hr]
    unfolding extract_result_ok_def by (cases "extract_answer (tpLib t) J hr") fastforce+
  show ?thesis
    using Some ok others err res [of _ _ "[_, _, _]", simplified]
    unfolding bedrock_extract_def tp_request_def send_signed_def Let_def
    by (auto split: option.split)
qed

end
