(* ===== verification/Dns.thy ===== *)
theory Dns
  imports Golib
begin

text \<open>
  DNS records at the provider: \<open>tools/deploy/internal/dns/cloudflare.go\<close>. Setup plans records, has the
  plan approved and applies it; teardown deletes records that were approved before. Building a
  request and sending it are the calls \<open>dns_call\<close>; JSON and the Unicode tables are the functions of
  \<open>dns_lib\<close>. The loops over pages run until the provider says there is no further page, so they
  have a bound \<open>n\<close> on the pages as an argument (\<open>Spin\<close> past it).
\<close>

record dns_record =
  drID :: string
  drType :: string
  drName :: string
  drContent :: string
  drTTL :: int
  drProxied :: bool

datatype cf_error = CfError int string "cf_error list" \<comment> \<open>Code, Message, Chain\<close>

record zone =
  znID :: string
  znName :: string
  znStatus :: string

record dns_change =
  dcRecord :: dns_record
  dcAction :: string
  dcID :: string

record envelope =
  enSuccess :: bool
  enErrors :: "cf_error list"
  enResult :: string \<comment> \<open>json.RawMessage\<close>
  enPages :: int

record dns_request =
  dqMethod :: string
  dqURL :: string
  dqBody :: string
  dqHeaders :: "(string \<times> string) list"

datatype dns_call =
    DNew string string
  | DSend dns_request

record dns_resp =
  dn_ok :: bool
  dn_answer :: "(int \<times> string) option" \<comment> \<open>status, the bytes read of the body; None: the client failed\<close>

type_synonym 'a dns_prog = "(dns_call, dns_resp, 'a) prog"

record dns_lib =
  dlGo :: golib
  parse_envelope :: "string \<Rightarrow> envelope option" \<comment> \<open>the first JSON value\<close>
  parse_zones :: "string \<Rightarrow> zone list option"
  parse_records :: "string \<Rightarrow> dns_record list option option" \<comment> \<open>Some None: a nil slice\<close>
  record_json :: "dns_record \<Rightarrow> string"
  to_runes :: "string \<Rightarrow> nat list"
  of_runes :: "nat list \<Rightarrow> string"
  is_control :: "nat \<Rightarrow> bool"
  is_format :: "nat \<Rightarrow> bool" \<comment> \<open>unicode.Cf\<close>

record client =
  clLib :: dns_lib
  clToken :: string
  clBase :: string

section \<open>Requests\<close>

fun replace_all :: "nat \<Rightarrow> string \<Rightarrow> string \<Rightarrow> string \<Rightarrow> string" where
  "replace_all skip [] old new = []"
| "replace_all (Suc n) (c # s) old new = replace_all n s old new"
| "replace_all 0 (c # s) old new =
     (if has_prefix (c # s) old then new @ replace_all (length old - 1) s old new
      else c # replace_all 0 s old new)"

definition clean :: "client \<Rightarrow> string \<Rightarrow> string" where
  "clean c s =
    (let s = (if clToken c \<noteq> [] then replace_all 0 s (clToken c) ''[redacted]'' else s);
         r = map (\<lambda>r. if is_control (clLib c) r \<or> is_format (clLib c) r then 32 else r) (to_runes (clLib c) s)
     in if length r > 240 then of_runes (clLib c) (take 240 r) @ [CHR 0xE2, CHR 0x80, CHR 0xA6]
        else of_runes (clLib c) r)"

fun append_errors :: "client \<Rightarrow> cf_error list \<Rightarrow> nat \<times> string \<Rightarrow> nat \<times> string" where
  "append_errors c [] st = st"
| "append_errors c (CfError code msg chain # items) (count, message) =
    (if count \<ge> 3 then (count, message)
     else append_errors c items (append_errors c chain
       (Suc count, message @ ''; code '' @ show_int code @ '': '' @ clean c msg)))"

definition status_advice :: "int \<Rightarrow> nat \<Rightarrow> string" where
  "status_advice status count =
    (if status = 400 then ''; request rejected; check the error above and enter only the API token value (no Bearer prefix)''
     else if status = 401 \<or> status = 403 then ''; check API token validity and zone-scoped Zone Read / DNS Edit permissions''
     else if status = 429 then ''; rate limit reached; retry later''
     else if count = 0 then ''; invalid or unsuccessful response (body suppressed)'' else [])"

definition response_error :: "client \<Rightarrow> int \<Rightarrow> string \<Rightarrow> string \<Rightarrow> cf_error list \<Rightarrow> string" where
  "response_error c status meth path details =
    (let start = ''Cloudflare HTTP '' @ show_int status @ '' during '' @ meth @ '' '' @
                 clean c (hd (split_on (CHR ''?'') path));
         (count, message) = append_errors c details (0, start)
     in message @ status_advice status count @ ''; completed changes are retained'')"

definition cf_outcome :: "client \<Rightarrow> string \<Rightarrow> string \<Rightarrow> (int \<times> string) option \<Rightarrow> string + int \<times> string" where
  "cf_outcome c meth path x = (case x of
      None \<Rightarrow> Inl ''Cloudflare request failed; check connectivity and token (details suppressed)''
    | Some (status, body) \<Rightarrow> (case parse_envelope (clLib c) (take (2 * 2 ^ 20) body) of
        None \<Rightarrow> Inl (response_error c status meth path [])
      | Some e \<Rightarrow> if status < 200 \<or> status \<ge> 300 \<or> \<not> enSuccess e
          then Inl (response_error c status meth path (enErrors e))
          else Inr (enPages e, enResult e)))"

definition cf_headers :: "client \<Rightarrow> (string \<times> string) list" where
  "cf_headers c = [(''Authorization'', ''Bearer '' @ clToken c), (''Content-Type'', ''application/json'')]"

text \<open>The pages the envelope names, and its result still encoded.\<close>

definition cf_request :: "client \<Rightarrow> string \<Rightarrow> string \<Rightarrow> string \<Rightarrow> (string + int \<times> string) dns_prog" where
  "cf_request c meth path body =
    Call (DNew meth (clBase c @ path)) (\<lambda>r. if \<not> dn_ok r then Ret (Inl ''cannot prepare Cloudflare request'') else
    Call (DSend \<lparr>dqMethod = meth, dqURL = clBase c @ path, dqBody = body, dqHeaders = cf_headers c\<rparr>) (\<lambda>r.
      Ret (cf_outcome c meth path (dn_answer r))))"

definition cf_decode :: "(string \<Rightarrow> 'b option) \<Rightarrow> string + int \<times> string \<Rightarrow> string + int \<times> 'b" where
  "cf_decode parse x = (case x of
      Inl e \<Rightarrow> Inl e
    | Inr (pages, raw) \<Rightarrow> (case parse raw of None \<Rightarrow> Inl ''invalid Cloudflare result'' | Some b \<Rightarrow> Inr (pages, b)))"

section \<open>Names\<close>

definition dns_name :: "client \<Rightarrow> string \<Rightarrow> string" where
  "dns_name c s = trim_suffix (to_lower (dlGo (clLib c)) s) ''.''"

definition within_zone :: "client \<Rightarrow> string \<Rightarrow> string \<Rightarrow> bool" where
  "within_zone c name zone \<longleftrightarrow>
     dns_name c name = dns_name c zone \<or> has_suffix (dns_name c name) (''.'' @ dns_name c zone)"

definition valid_id :: "string \<Rightarrow> bool" where
  "valid_id s \<longleftrightarrow> length s = 32 \<and>
     list_all (\<lambda>x. between (CHR ''a'') (CHR ''f'') x \<or> between (CHR ''A'') (CHR ''F'') x \<or> is_digit x) s"

section \<open>Listings\<close>

definition last_page :: "int \<Rightarrow> nat \<Rightarrow> nat \<Rightarrow> nat \<Rightarrow> bool" where
  "last_page pages page got full \<longleftrightarrow> (pages > 0 \<and> int page \<ge> pages) \<or> (pages = 0 \<and> got < full)"

definition zones_path :: "nat \<Rightarrow> string" where
  "zones_path page = ''/zones?per_page=50&page='' @ show_nat page"

fun zones_from :: "client \<Rightarrow> string \<Rightarrow> nat \<Rightarrow> zone list \<Rightarrow> nat \<Rightarrow> (string + zone list) dns_prog" where
  "zones_from c domain page acc 0 = Spin"
| "zones_from c domain page acc (Suc n) =
    pbind (cf_request c ''GET'' (zones_path page) []) (\<lambda>x. case cf_decode (parse_zones (clLib c)) x of
      Inl e \<Rightarrow> Ret (Inl e)
    | Inr (pages, batch) \<Rightarrow>
        (let acc = acc @ filter (\<lambda>z. znStatus z = ''active'' \<and> valid_id (znID z) \<and> within_zone c domain (znName z)) batch
         in if last_page pages page (length batch) 50 then Ret (Inr acc)
            else zones_from c domain (Suc page) acc n))"

definition cf_zones :: "nat \<Rightarrow> client \<Rightarrow> string \<Rightarrow> (string + zone list) dns_prog" where
  "cf_zones n c domain = zones_from c domain 1 [] n"

definition records_path :: "client \<Rightarrow> string \<Rightarrow> string \<Rightarrow> nat \<Rightarrow> string" where
  "records_path c zone name page = ''/zones/'' @ zone @ ''/dns_records?name='' @
     query_escape (dlGo (clLib c)) name @ ''&per_page=100&page='' @ show_nat page"

fun records_from :: "client \<Rightarrow> string \<Rightarrow> string \<Rightarrow> nat \<Rightarrow> dns_record list \<Rightarrow> nat \<Rightarrow>
    (string + dns_record list) dns_prog" where
  "records_from c zone name page acc 0 = Spin"
| "records_from c zone name page acc (Suc n) =
    pbind (cf_request c ''GET'' (records_path c zone name page) []) (\<lambda>x.
      case cf_decode (parse_records (clLib c)) x of
        Inl e \<Rightarrow> Ret (Inl e)
      | Inr (pages, None) \<Rightarrow> Ret (Inl ''incomplete Cloudflare DNS record listing'')
      | Inr (pages, Some batch) \<Rightarrow>
          if \<not> list_all (\<lambda>r. dns_name c (drName r) = dns_name c name) batch
          then Ret (Inl ''Cloudflare returned a record outside the requested name'')
          else if last_page pages page (length batch) 100 then Ret (Inr (acc @ batch))
          else records_from c zone name (Suc page) (acc @ batch) n)"

definition cf_records :: "nat \<Rightarrow> client \<Rightarrow> string \<Rightarrow> string \<Rightarrow> (string + dns_record list) dns_prog" where
  "cf_records n c zone name =
    (if \<not> valid_id zone then Ret (Inl ''invalid Cloudflare zone ID'') else records_from c zone name 1 [] n)"

section \<open>The plan of a change\<close>

definition planned :: "dns_record \<Rightarrow> string \<Rightarrow> string \<Rightarrow> dns_change" where
  "planned want action i = \<lparr>dcRecord = want, dcAction = action, dcID = i\<rparr>"

fun plan_loop :: "client \<Rightarrow> dns_record \<Rightarrow> nat \<Rightarrow> bool \<Rightarrow> dns_record list \<Rightarrow> string + dns_change" where
  "plan_loop c want count matched [] = Inr (planned want (if matched then ''keep'' else ''create'') [])"
| "plan_loop c want count matched (old # olds) =
    (if drType want = ''TXT'' then
       if drType old = ''CNAME'' \<or> drType old = ''NS''
       then Inl (''conflicting '' @ drType old @ '' at '' @ drName want @ ''; resolve it manually before retrying'')
       else plan_loop c want count
         (matched \<or> (drType old = ''TXT'' \<and> trim_set (drContent old) [CHR 0x22] = drContent want)) olds
     else if drType old \<noteq> ''CNAME'' \<or> dns_name c (drContent old) \<noteq> dns_name c (drContent want) \<or> count > 1
     then Inl (''conflicting record at '' @ drName want @ ''; no automatic replacement; review it in Cloudflare'')
     else if drProxied old then
       if \<not> valid_id (drID old) then Inl ''invalid Cloudflare DNS record ID''
       else Inr (planned want ''unproxy'' (drID old))
     else plan_loop c want count True olds)"

definition plan_record :: "client \<Rightarrow> dns_record \<Rightarrow> dns_record list \<Rightarrow> string + dns_change" where
  "plan_record c want existing =
    (if drType want \<noteq> ''TXT'' \<and> drType want \<noteq> ''CNAME'' then Inl ''only SES TXT and CNAME records are supported''
     else plan_loop c want (length existing) False existing)"

fun plan_all :: "nat \<Rightarrow> client \<Rightarrow> string \<Rightarrow> dns_record list \<Rightarrow> dns_change list \<Rightarrow>
    (string + dns_change list) dns_prog" where
  "plan_all n c zone [] acc = Ret (Inr acc)"
| "plan_all n c zone (want # wants) acc = pbind (cf_records n c zone (drName want)) (\<lambda>x. case x of
     Inl e \<Rightarrow> Ret (Inl e)
   | Inr existing \<Rightarrow> (case plan_record c want existing of
       Inl e \<Rightarrow> Ret (Inl e)
     | Inr change \<Rightarrow> plan_all n c zone wants (acc @ [change])))"

definition dns_plan :: "nat \<Rightarrow> client \<Rightarrow> string \<Rightarrow> dns_record list \<Rightarrow> (string + dns_change list) dns_prog" where
  "dns_plan n c zone desired = plan_all n c zone desired []"

section \<open>Applying a plan\<close>

definition zone_path :: "string \<Rightarrow> string" where
  "zone_path zone = ''/zones/'' @ zone @ ''/dns_records''"

definition record_path :: "string \<Rightarrow> string \<Rightarrow> string" where
  "record_path zone i = zone_path zone @ ''/'' @ i"

definition write_change :: "client \<Rightarrow> string \<Rightarrow> dns_change \<Rightarrow> dns_record \<Rightarrow> (string + int \<times> string) dns_prog" where
  "write_change c zone current want =
    (if dcAction current = ''unproxy''
     then cf_request c ''PATCH'' (record_path zone (dcID current))
       (CHR ''{'' # CHR 0x22 # ''proxied'' @ CHR 0x22 # '':false}'')
     else cf_request c ''POST'' (zone_path zone)
       (record_json (clLib c) (want\<lparr>drTTL := 300, drProxied := False\<rparr>)))"

text \<open>What a re-read name asks for now: nothing, or the change that was reviewed.\<close>

definition change_due :: "client \<Rightarrow> dns_change \<Rightarrow> string + dns_record list \<Rightarrow> string + dns_change option" where
  "change_due c ch x = (case x of
      Inl e \<Rightarrow> Inl e
    | Inr existing \<Rightarrow> (case plan_record c (dcRecord ch) existing of
        Inl e \<Rightarrow> Inl e
      | Inr current \<Rightarrow>
          if dcAction current = ''keep'' then Inr None
          else if dcAction current \<noteq> dcAction ch \<or> dcID current \<noteq> dcID ch
          then Inl ''DNS changed since review; rerun to review the new plan''
          else Inr (Some current)))"

fun apply_changes :: "nat \<Rightarrow> client \<Rightarrow> string \<Rightarrow> dns_change list \<Rightarrow> string option dns_prog" where
  "apply_changes n c zone [] = Ret None"
| "apply_changes n c zone (ch # chs) = pbind (cf_records n c zone (drName (dcRecord ch))) (\<lambda>x.
     case change_due c ch x of
       Inl e \<Rightarrow> Ret (Some e)
     | Inr None \<Rightarrow> apply_changes n c zone chs
     | Inr (Some current) \<Rightarrow> pbind (write_change c zone current (dcRecord ch)) (\<lambda>y. case y of
         Inl e \<Rightarrow> Ret (Some e) | Inr _ \<Rightarrow> apply_changes n c zone chs))"

definition read_back :: "string + dns_change list \<Rightarrow> string option" where
  "read_back x = (case x of
      Inl e \<Rightarrow> Some e
    | Inr after \<Rightarrow> if list_all (\<lambda>ch. dcAction ch = ''keep'') after then None
        else Some ''DNS read-back verification incomplete; rerun setup, keeping successful changes'')"

definition dns_apply :: "nat \<Rightarrow> client \<Rightarrow> string \<Rightarrow> dns_change list \<Rightarrow> string option dns_prog" where
  "dns_apply n c zone changes = pbind (apply_changes n c zone changes) (\<lambda>e. case e of
     Some e \<Rightarrow> Ret (Some e)
   | None \<Rightarrow> pbind (dns_plan n c zone (map dcRecord changes)) (\<lambda>x. Ret (read_back x)))"

section \<open>Deletion\<close>

definition same_record :: "client \<Rightarrow> dns_record \<Rightarrow> dns_record \<Rightarrow> bool" where
  "same_record c want r \<longleftrightarrow> drType r = drType want \<and>
     ((drType r = ''TXT'' \<and> trim_set (drContent r) [CHR 0x22] = trim_set (drContent want) [CHR 0x22]) \<or>
      (drType r = ''CNAME'' \<and> dns_name c (drContent r) = dns_name c (drContent want)))"

fun candidates :: "client \<Rightarrow> dns_record \<Rightarrow> dns_record list \<Rightarrow> dns_record list \<Rightarrow> string + dns_record list" where
  "candidates c want acc [] = Inr acc"
| "candidates c want acc (r # rs) =
    (if dns_name c (drName r) \<noteq> dns_name c (drName want) then Inl ''unexpected DNS name''
     else if same_record c want r then
       if \<not> valid_id (drID r) then Inl ''invalid DNS record ID'' else candidates c want (acc @ [r]) rs
     else if drType want = ''CNAME'' \<or> drType r = ''CNAME'' \<or> drType r = ''NS''
     then Inl (''DNS conflict at '' @ drName want @ ''; inspect it before teardown'')
     else candidates c want acc rs)"

definition deletion_candidates :: "client \<Rightarrow> dns_record \<Rightarrow> dns_record list \<Rightarrow> string + dns_record list" where
  "deletion_candidates c want existing = candidates c want [] existing"

text \<open>Whether the approved record is there to delete; it may be gone already.\<close>

definition deletion_due :: "client \<Rightarrow> dns_record \<Rightarrow> string + dns_record list \<Rightarrow> string + bool" where
  "deletion_due c a x = (case x of
      Inl e \<Rightarrow> Inl e
    | Inr current \<Rightarrow> (case deletion_candidates c a current of
        Inl e \<Rightarrow> Inl e
      | Inr matches \<Rightarrow>
          if \<not> list_all (\<lambda>r. drID r = drID a) matches
          then Inl ''matching DNS record was replaced since approval; inspect the saved teardown plan''
          else Inr (matches \<noteq> [])))"

fun delete_approved :: "nat \<Rightarrow> client \<Rightarrow> string \<Rightarrow> dns_record list \<Rightarrow> string option dns_prog" where
  "delete_approved n c zone [] = Ret None"
| "delete_approved n c zone (a # as) = pbind (cf_records n c zone (drName a)) (\<lambda>x. case deletion_due c a x of
     Inl e \<Rightarrow> Ret (Some e)
   | Inr found \<Rightarrow>
       if \<not> found then delete_approved n c zone as
       else pbind (cf_request c ''DELETE'' (record_path zone (drID a)) []) (\<lambda>y. case y of
         Inl e \<Rightarrow> Ret (Some e) | Inr _ \<Rightarrow> delete_approved n c zone as))"

fun verify_deleted :: "nat \<Rightarrow> client \<Rightarrow> string \<Rightarrow> dns_record list \<Rightarrow> string option dns_prog" where
  "verify_deleted n c zone [] = Ret None"
| "verify_deleted n c zone (a # as) = pbind (cf_records n c zone (drName a)) (\<lambda>x. case x of
     Inl e \<Rightarrow> Ret (Some e)
   | Inr current \<Rightarrow>
       if drID a \<in> drID ` set current then Ret (Some ''DNS deletion read-back failed'')
       else verify_deleted n c zone as)"

definition delete_dns :: "nat \<Rightarrow> client \<Rightarrow> string \<Rightarrow> dns_record list \<Rightarrow> string option dns_prog" where
  "delete_dns n c zone records = pbind (delete_approved n c zone records) (\<lambda>e. case e of
     Some e \<Rightarrow> Ret (Some e) | None \<Rightarrow> verify_deleted n c zone records)"

end
