(* ===== verification/DnsProps.thy ===== *)
theory DnsProps
  imports Dns
begin

text \<open>
  What the DNS client promises: it writes only what a listing made right before justifies, and a
  success was read back. A listing in a history is an execution of \<open>cf_records\<close>.
\<close>

definition listed :: "nat \<Rightarrow> client \<Rightarrow> string \<Rightarrow> string \<Rightarrow> (dns_call \<times> dns_resp) list \<Rightarrow> dns_record list \<Rightarrow> bool" where
  "listed n c zone name t rs \<longleftrightarrow> execs (cf_records n c zone name) t (Inr rs)"

definition reading :: "dns_call \<Rightarrow> bool" where
  "reading q = (case q of DNew m u \<Rightarrow> True | DSend r \<Rightarrow> dqMethod r = ''GET'')"

lemma reading_simps [simp]: "reading (DNew m u)" "reading (DSend r) \<longleftrightarrow> dqMethod r = ''GET''"
  by (simp_all add: reading_def)

section \<open>Listings\<close>

lemma safe_cf_request:
  assumes "\<And>r. P (DNew meth (clBase c @ path)) h"
    and "\<And>r. P (DSend \<lparr>dqMethod = meth, dqURL = clBase c @ path, dqBody = body, dqHeaders = cf_headers c\<rparr>)
             (h @ [(DNew meth (clBase c @ path), r)])"
  shows "safe P (\<lambda>_ _. True) (cf_request c meth path body) h"
  using assms by (simp add: cf_request_def)

lemma safe_records_from:
  assumes "\<And>q h. reading q \<Longrightarrow> P q h"
  shows "safe P (\<lambda>_ _. True) (records_from c zone name page acc n) h"
proof (induction n arbitrary: page acc h)
  case (Suc n)
  show ?case unfolding records_from.simps
    by (rule safe_bindI [OF safe_cf_request]) (auto simp: assms Suc.IH split: sum.split option.split)
qed simp

lemma safe_cf_records: "(\<And>q h. reading q \<Longrightarrow> P q h) \<Longrightarrow> safe P (\<lambda>_ _. True) (cf_records n c zone name) h"
  by (simp add: cf_records_def safe_records_from)

lemma execs_reading:
  assumes "execs p t a" "safe (\<lambda>q _. reading q) (\<lambda>_ _. True) p h"
  shows "list_all (\<lambda>(q, r). reading q) t"
  using assms by (induction arbitrary: h rule: execs.induct) auto

lemma listing_reads: "execs (cf_records n c zone name) t x \<Longrightarrow> list_all (\<lambda>(q, r). reading q) t"
  by (erule execs_reading [where h = "[]"]) (rule safe_cf_records)

section \<open>What deletion selects\<close>
















section \<open>What a plan asks for\<close>

text \<open>Nothing in the way of \<open>want\<close>; and \<open>want\<close> published, unproxied.\<close>

definition txt_published :: "dns_record \<Rightarrow> dns_record \<Rightarrow> bool" where
  "txt_published want r \<longleftrightarrow> drType r = ''TXT'' \<and> trim_set (drContent r) [CHR 0x22] = drContent want"

definition free_for :: "dns_record \<Rightarrow> dns_record list \<Rightarrow> bool" where
  "free_for want rs \<longleftrightarrow>
     (if drType want = ''TXT''
      then list_all (\<lambda>r. drType r \<notin> {''CNAME'', ''NS''} \<and> \<not> txt_published want r) rs
      else drType want = ''CNAME'' \<and> rs = [])"

definition in_place :: "client \<Rightarrow> dns_record \<Rightarrow> bool \<Rightarrow> string \<Rightarrow> dns_record list \<Rightarrow> bool" where
  "in_place c want proxied i rs \<longleftrightarrow>
     (if drType want = ''TXT''
      then list_all (\<lambda>r. drType r \<notin> {''CNAME'', ''NS''}) rs \<and> (\<exists>r\<in>set rs. txt_published want r) \<and> \<not> proxied
      else drType want = ''CNAME'' \<and> (\<exists>r. rs = [r] \<and> drType r = ''CNAME'' \<and> drProxied r = proxied \<and>
             dns_name c (drContent r) = dns_name c (drContent want) \<and> (proxied \<longrightarrow> i = drID r \<and> valid_id i)))"

definition change_fits :: "client \<Rightarrow> dns_record \<Rightarrow> dns_record list \<Rightarrow> dns_change \<Rightarrow> bool" where
  "change_fits c want rs ch \<longleftrightarrow> dcRecord ch = want \<and>
     (if dcAction ch = ''keep'' then in_place c want False [] rs
      else if dcAction ch = ''unproxy'' then in_place c want True (dcID ch) rs
      else dcAction ch = ''create'' \<and> free_for want rs)"

lemma plan_loop_txt:
  assumes "drType want = ''TXT''"
  shows "plan_loop c want k m rs = Inr ch \<Longrightarrow>
     list_all (\<lambda>r. drType r \<notin> {''CNAME'', ''NS''}) rs \<and>
     ch = planned want (if m \<or> (\<exists>r\<in>set rs. txt_published want r) then ''keep'' else ''create'') []"
proof (induction rs arbitrary: m)
  case (Cons r rs)
  from Cons.prems Cons.IH [of "m \<or> txt_published want r"] assms show ?case
    by (auto simp: txt_published_def [of want r] split: if_splits)
qed simp

lemma plan_record_fits: "plan_record c want rs = Inr ch \<Longrightarrow> change_fits c want rs ch"
proof (cases "drType want = ''TXT''")
  case True
  assume "plan_record c want rs = Inr ch"
  with True have "plan_loop c want (length rs) False rs = Inr ch" by (simp add: plan_record_def)
  from plan_loop_txt [OF True this] True show ?thesis
    by (auto simp: change_fits_def planned_def in_place_def free_for_def list_all_iff)
next
  case False
  assume pl: "plan_record c want rs = Inr ch"
  with False have "drType want = ''CNAME''" by (auto simp: plan_record_def split: if_splits)
  with pl show ?thesis
  proof (cases rs)
    case (Cons r rs')
    with pl \<open>drType want = ''CNAME''\<close> show ?thesis
      by (cases rs') (auto simp: plan_record_def change_fits_def planned_def in_place_def split: if_splits)
  qed (auto simp: plan_record_def change_fits_def planned_def free_for_def)
qed

section \<open>Applying a plan\<close>

definition change_call :: "client \<Rightarrow> string \<Rightarrow> dns_change \<Rightarrow> dns_call" where
  "change_call c zone ch =
    (if dcAction ch = ''unproxy''
     then DSend \<lparr>dqMethod = ''PATCH'', dqURL = clBase c @ record_path zone (dcID ch),
       dqBody = CHR ''{'' # CHR 0x22 # ''proxied'' @ CHR 0x22 # '':false}'', dqHeaders = cf_headers c\<rparr>
     else DSend \<lparr>dqMethod = ''POST'', dqURL = clBase c @ zone_path zone,
       dqBody = record_json (clLib c) ((dcRecord ch)\<lparr>drTTL := 300, drProxied := False\<rparr>), dqHeaders = cf_headers c\<rparr>)"

definition change_justified :: "nat \<Rightarrow> client \<Rightarrow> string \<Rightarrow> dns_change list \<Rightarrow> dns_call \<Rightarrow>
    (dns_call \<times> dns_resp) list \<Rightarrow> bool" where
  "change_justified n c zone changes q h \<longleftrightarrow> reading q \<or>
     (\<exists>ch\<in>set changes. \<exists>h0 t rs x cur. q = change_call c zone cur \<and> h = h0 @ t @ [x] \<and>
        listed n c zone (drName (dcRecord ch)) t rs \<and> change_fits c (dcRecord ch) rs cur \<and>
        dcAction cur \<noteq> ''keep'' \<and> dcAction cur = dcAction ch \<and> dcID cur = dcID ch)"

definition published_at_end :: "nat \<Rightarrow> client \<Rightarrow> string \<Rightarrow> dns_record \<Rightarrow> (dns_call \<times> dns_resp) list \<Rightarrow> bool" where
  "published_at_end n c zone want h \<longleftrightarrow> (\<exists>h0 t h1 rs. h = h0 @ t @ h1 \<and> listed n c zone (drName want) t rs \<and>
     in_place c want False [] rs \<and> list_all (\<lambda>(q, r). reading q) (t @ h1))"

definition changes_confirmed :: "nat \<Rightarrow> client \<Rightarrow> string \<Rightarrow> dns_change list \<Rightarrow> string option \<Rightarrow>
    (dns_call \<times> dns_resp) list \<Rightarrow> bool" where
  "changes_confirmed n c zone changes e h \<longleftrightarrow>
     e \<noteq> None \<or> list_all (\<lambda>ch. published_at_end n c zone (dcRecord ch) h) changes"

lemma change_due_fits:
  "change_due c ch x = Inr (Some cur) \<Longrightarrow> \<exists>rs. x = Inr rs \<and> change_fits c (dcRecord ch) rs cur \<and>
     dcAction cur \<noteq> ''keep'' \<and> dcAction cur = dcAction ch \<and> dcID cur = dcID ch"
  by (auto simp: change_due_def dest: plan_record_fits split: sum.splits if_splits)

lemma change_reading: "reading q \<Longrightarrow> change_justified n c zone changes q h"
  by (simp add: change_justified_def)

lemma change_listing: "safe (change_justified n c zone changes) (\<lambda>_ _. True) (cf_records m c z name) h"
  by (rule safe_cf_records) (rule change_reading)

lemma write_change_safe:
  assumes "dcRecord cur = want"
    and "\<And>x. change_justified n c zone changes (change_call c zone cur) (h @ [x])"
  shows "safe (change_justified n c zone changes) (\<lambda>_ _. True) (write_change c zone cur want) h"
  unfolding write_change_def using assms
  by (auto simp: change_call_def intro!: safe_cf_request) (auto simp: change_justified_def)

lemma apply_changes_safe:
  "set chs \<subseteq> set changes \<Longrightarrow>
   safe (change_justified n c zone changes) (\<lambda>_ _. True) (apply_changes n c zone chs) h"
proof (induction chs arbitrary: h)
  case (Cons ch chs h)
  have wr: "safe (change_justified n c zone changes) (\<lambda>_ _. True) (write_change c zone cur (dcRecord ch)) (h @ t)"
    if ex: "execs (cf_records n c zone (drName (dcRecord ch))) t x"
      and due: "change_due c ch x = Inr (Some cur)" for t x cur
  proof (rule write_change_safe)
    from change_due_fits [OF due] obtain rs where rs: "x = Inr rs" "change_fits c (dcRecord ch) rs cur"
      "dcAction cur \<noteq> ''keep''" "dcAction cur = dcAction ch" "dcID cur = dcID ch" by blast
    then show "dcRecord cur = dcRecord ch" by (simp add: change_fits_def)
    show "change_justified n c zone changes (change_call c zone cur) ((h @ t) @ [y])" for y
      using rs ex Cons.prems unfolding change_justified_def listed_def
      by (intro disjI2 bexI [of _ ch] exI [of _ h] exI [of _ t] exI [of _ rs] exI [of _ y] exI [of _ cur]) auto
  qed
  have next_ok: "safe (change_justified n c zone changes) (\<lambda>_ _. True) (apply_changes n c zone chs) h'" for h'
    using Cons by simp
  show ?case unfolding apply_changes.simps
    by (rule safe_bind_execs [OF change_listing])
      (auto simp: next_ok split: sum.splits option.splits intro!: safe_bindI [OF wr])
qed simp

lemma published_append:
  "published_at_end n c zone a h \<Longrightarrow> list_all (\<lambda>(q, r). reading q) t \<Longrightarrow> published_at_end n c zone a (h @ t)"
  unfolding published_at_end_def by (metis (no_types, lifting) append.assoc list_all_append)

definition keeps_hold :: "nat \<Rightarrow> client \<Rightarrow> string \<Rightarrow> (dns_call \<times> dns_resp) list \<Rightarrow> dns_change list \<Rightarrow> bool" where
  "keeps_hold n c zone h chs \<longleftrightarrow>
     list_all (\<lambda>ch. dcAction ch = ''keep'' \<longrightarrow> published_at_end n c zone (dcRecord ch) h) chs"

lemma keeps_hold_append:
  "keeps_hold n c zone h chs \<Longrightarrow> list_all (\<lambda>(q, r). reading q) t \<Longrightarrow> keeps_hold n c zone (h @ t) chs"
  by (auto simp: keeps_hold_def list_all_iff intro: published_append)

lemma keeps_hold_step:
  assumes "keeps_hold n c zone h acc" "execs (cf_records n c zone (drName want)) t (Inr rs)"
    "plan_record c want rs = Inr ch"
  shows "keeps_hold n c zone (h @ t) (acc @ [ch])"
proof -
  note fits = plan_record_fits [OF assms(3)] and rd = listing_reads [OF assms(2)]
  from fits have w: "dcRecord ch = want" by (simp add: change_fits_def)
  have "published_at_end n c zone (dcRecord ch) (h @ t)" if "dcAction ch = ''keep''"
    unfolding published_at_end_def listed_def w using fits that assms(2) rd
    by (intro exI [of _ h] exI [of _ t] exI [of _ "[]"] exI [of _ rs]) (simp add: change_fits_def)
  with keeps_hold_append [OF assms(1) rd] show ?thesis by (simp add: keeps_hold_def)
qed

definition planned_all :: "nat \<Rightarrow> client \<Rightarrow> string \<Rightarrow> dns_record list \<Rightarrow> string + dns_change list \<Rightarrow>
    (dns_call \<times> dns_resp) list \<Rightarrow> bool" where
  "planned_all n c zone wants x h \<longleftrightarrow>
     (case x of Inl e \<Rightarrow> True | Inr chs \<Rightarrow> map dcRecord chs = wants \<and> keeps_hold n c zone h chs)"

lemma plan_all_safe:
  assumes "\<And>q h. reading q \<Longrightarrow> P q h"
  shows "keeps_hold n c zone h acc \<Longrightarrow>
   safe P (planned_all n c zone (map dcRecord acc @ wants)) (plan_all n c zone wants acc) h"
proof (induction wants arbitrary: acc h)
  case (Cons want wants acc h)
  show ?case unfolding plan_all.simps
  proof (rule safe_bind_execs [OF safe_cf_records [of P]], rule assms)
    fix x t
    assume ex: "execs (cf_records n c zone (drName want)) t x"
    show "safe P (planned_all n c zone (map dcRecord acc @ want # wants)) (case x of
         Inl e \<Rightarrow> Ret (Inl e)
       | Inr existing \<Rightarrow> (case plan_record c want existing of
           Inl e \<Rightarrow> Ret (Inl e)
         | Inr change \<Rightarrow> plan_all n c zone wants (acc @ [change]))) (h @ t)"
    proof (cases x)
      case (Inr rs)
      show ?thesis
      proof (cases "plan_record c want rs")
        case pl: (Inr ch)
        from plan_record_fits [OF pl] have "dcRecord ch = want" by (simp add: change_fits_def)
        with Cons.IH [OF keeps_hold_step [OF Cons.prems ex [unfolded Inr] pl]] Inr pl show ?thesis by simp
      qed (simp add: Inr planned_all_def)
    qed (simp add: planned_all_def)
  qed
qed (simp add: planned_all_def)

lemma read_back_confirmed:
  "planned_all n c zone (map dcRecord changes) x h \<Longrightarrow> changes_confirmed n c zone changes (read_back x) h"
proof (cases x)
  case (Inr chs)
  assume "planned_all n c zone (map dcRecord changes) x h"
  with Inr have m: "map dcRecord changes = map dcRecord chs" and k: "keeps_hold n c zone h chs"
    by (simp_all add: planned_all_def)
  have "list_all (\<lambda>w. published_at_end n c zone w h) (map dcRecord changes)"
    if "list_all (\<lambda>ch. dcAction ch = ''keep'') chs"
    unfolding m using k that by (auto simp: keeps_hold_def list_all_iff)
  with Inr show ?thesis by (auto simp: changes_confirmed_def read_back_def list.pred_map comp_def)
qed (simp add: changes_confirmed_def read_back_def)

text \<open>C27: Setup writes a DNS record only after a listing of its name made right before still asks for
  the change that was reviewed: it creates a record only where nothing conflicts with it and nothing
  publishes it yet, and otherwise only switches the proxy off on the one record that already has the
  wanted target; it never replaces or deletes. Success means that, after its last write, a complete
  listing of every name held the wanted record unproxied.\<close>

theorem dns_apply_reviewed:
  "safe (change_justified n c zone changes) (changes_confirmed n c zone changes)
     (dns_apply n c zone changes) []"
proof -
  have "safe (change_justified n c zone changes) (planned_all n c zone (map dcRecord changes))
      (dns_plan n c zone (map dcRecord changes)) h" for h
    unfolding dns_plan_def using plan_all_safe [of "change_justified n c zone changes" n c zone h "[]"]
    by (simp add: change_reading keeps_hold_def)
  then have "safe (change_justified n c zone changes) (changes_confirmed n c zone changes)
      (pbind (dns_plan n c zone (map dcRecord changes)) (\<lambda>x. Ret (read_back x))) h" for h
    by (rule safe_bindI) (simp add: read_back_confirmed)
  then show ?thesis unfolding dns_apply_def
    by (intro safe_bindI [OF apply_changes_safe]) (auto simp: changes_confirmed_def split: option.split)
qed

end
