(* ===== verification/Files.thy ===== *)
theory Files
  imports Gateway
begin

text \<open>
  The deployment tool keeps its progress in local files. \<open>file_call\<close> are the calls of package \<open>os\<close>
  it makes; the checkpoint writers of \<open>workflow/nuke.go\<close> (\<open>save\<close>), \<open>workflow/teardown.go\<close>
  (\<open>save\<close>) and \<open>workflow/bootstrap_checkpoint.go\<close> (\<open>saveMemory\<close>) replace a file through a
  temporary one and a backup. \<open>fs_step\<close> is the file system: a rename replaces its target at once, a
  write that fails may leave anything in the file it wrote. Modes are not modelled.
\<close>

datatype file_error = FNotExist | FFailed string

datatype file_call =
    FMkdirAll string
  | FCreateTemp string string string \<comment> \<open>directory, the pattern before and after its star\<close>
  | FWrite string string
  | FSync string
  | FClose string
  | FWriteFile string string
  | FStat string
  | FRename string string
  | FRemove string
  | FOpen string
  | FInfo string
  | FRead string

record file_resp =
  f_err :: "file_error option"
  f_name :: string \<comment> \<open>of \<open>FCreateTemp\<close>\<close>
  f_regular :: bool
  f_size :: nat
  f_data :: string

type_synonym 'a file_prog = "(file_call, file_resp, 'a) prog"

section \<open>Checkpoint writers\<close>

text \<open>\<open>defer os.Remove(name)\<close>: the result stands whatever the removal says.\<close>

definition removing :: "string \<Rightarrow> 'a file_prog \<Rightarrow> 'a file_prog" where
  "removing name p = pbind p (\<lambda>x. Call (FRemove name) (\<lambda>r. Ret x))"

definition swap_in :: "string \<Rightarrow> string \<Rightarrow> file_error option file_prog" where
  "swap_in temp path = Call (FRename temp path) (\<lambda>r. case f_err r of
     Some e \<Rightarrow> Ret (Some e)
   | None \<Rightarrow> Call (FRemove (path @ ''.bak'')) (\<lambda>r.
       Ret (if f_err r = Some FNotExist then None else f_err r)))"

definition nuke_replace :: "string \<Rightarrow> string \<Rightarrow> file_error option file_prog" where
  "nuke_replace temp path = Call (FStat path) (\<lambda>r. case f_err r of
     None \<Rightarrow> Call (FRename path (path @ ''.bak'')) (\<lambda>r. case f_err r of
       Some e \<Rightarrow> Ret (Some e) | None \<Rightarrow> swap_in temp path)
   | Some FNotExist \<Rightarrow> swap_in temp path
   | Some (FFailed e) \<Rightarrow> Ret (Some (FFailed e)))"

definition nuke_path :: "string \<Rightarrow> string \<Rightarrow> string" where
  "nuke_path dir account = dir @ ''/nuke.'' @ account @ ''.local.json''"

text \<open>\<open>b\<close> is the encoded report.\<close>

definition nuke_save_file :: "string \<Rightarrow> string \<Rightarrow> string \<Rightarrow> file_error option file_prog" where
  "nuke_save_file dir account b = Call (FCreateTemp dir ''nuke-report-'' []) (\<lambda>r. case f_err r of
     Some e \<Rightarrow> Ret (Some e)
   | None \<Rightarrow> (let temp = f_name r in removing temp (
       Call (FWrite temp (b @ [CHR 0x0A])) (\<lambda>r. case f_err r of
         Some e \<Rightarrow> Call (FClose temp) (\<lambda>_. Ret (Some e))
       | None \<Rightarrow> Call (FClose temp) (\<lambda>r. case f_err r of
           Some e \<Rightarrow> Ret (Some e)
         | None \<Rightarrow> nuke_replace temp (nuke_path dir account))))))"

text \<open>The writers of the teardown and the setup checkpoints ignore what the last removal says; they
  differ in what they do when \<open>os.Stat\<close> fails.\<close>

definition swap_in_quietly :: "string \<Rightarrow> file_error option file_prog" where
  "swap_in_quietly path = Call (FRename (path @ ''.tmp'') path) (\<lambda>r. case f_err r of
     Some e \<Rightarrow> Ret (Some e)
   | None \<Rightarrow> Call (FRemove (path @ ''.bak'')) (\<lambda>_. Ret None))"

definition backup_then :: "string \<Rightarrow> file_error option file_prog \<Rightarrow> file_error option file_prog" where
  "backup_then path p = Call (FRename path (path @ ''.bak'')) (\<lambda>r. case f_err r of
     Some e \<Rightarrow> Ret (Some e) | None \<Rightarrow> p)"

definition teardown_save :: "string \<Rightarrow> string \<Rightarrow> file_error option file_prog" where
  "teardown_save path b = Call (FWriteFile (path @ ''.tmp'') (b @ [CHR 0x0A])) (\<lambda>r. case f_err r of
     Some e \<Rightarrow> Ret (Some e)
   | None \<Rightarrow> Call (FStat path) (\<lambda>r. case f_err r of
       None \<Rightarrow> backup_then path (swap_in_quietly path)
     | Some e \<Rightarrow> swap_in_quietly path))"

definition save_memory :: "string \<Rightarrow> string \<Rightarrow> string \<Rightarrow> file_error option file_prog" where
  "save_memory dir path b = Call (FMkdirAll dir) (\<lambda>r. case f_err r of
     Some e \<Rightarrow> Ret (Some e)
   | None \<Rightarrow> Call (FWriteFile (path @ ''.tmp'') (b @ [CHR 0x0A])) (\<lambda>r. case f_err r of
       Some e \<Rightarrow> Ret (Some e)
     | None \<Rightarrow> Call (FStat path) (\<lambda>r. case f_err r of
         None \<Rightarrow> backup_then path (swap_in_quietly path)
       | Some FNotExist \<Rightarrow> swap_in_quietly path
       | Some (FFailed e) \<Rightarrow> Ret (Some (FFailed e)))))"

section \<open>The file system\<close>

type_synonym files = "string \<rightharpoonup> string"

inductive fs_step :: "file_call \<Rightarrow> file_resp \<Rightarrow> files \<Rightarrow> files \<Rightarrow> bool" where
  fs_failed: "f_err r = Some (FFailed e) \<Longrightarrow> fs_step q r s s"
| fs_partial: "f_err r = Some (FFailed e) \<Longrightarrow> q = FWrite p b \<or> q = FWriteFile p b \<Longrightarrow> fs_step q r s (s(p \<mapsto> b'))"
| fs_mkdir: "f_err r = None \<Longrightarrow> fs_step (FMkdirAll d) r s s"
| fs_temp: "f_err r = None \<Longrightarrow> f_name r = d @ ''/'' @ pre @ x @ post \<Longrightarrow> f_name r \<notin> dom s \<Longrightarrow>
    fs_step (FCreateTemp d pre post) r s (s(f_name r \<mapsto> []))"
| fs_write: "f_err r = None \<Longrightarrow> q = FWrite p b \<or> q = FWriteFile p b \<Longrightarrow> fs_step q r s (s(p \<mapsto> b))"
| fs_sync: "f_err r = None \<Longrightarrow> fs_step (FSync p) r s s"
| fs_close: "f_err r = None \<Longrightarrow> fs_step (FClose p) r s s"
| fs_stat: "f_err r = None \<Longrightarrow> p \<in> dom s \<Longrightarrow> fs_step (FStat p) r s s"
| fs_rename: "f_err r = None \<Longrightarrow> s a = Some b \<Longrightarrow> fs_step (FRename a p) r s ((s(a := None))(p \<mapsto> b))"
| fs_remove: "f_err r = None \<Longrightarrow> p \<in> dom s \<Longrightarrow> fs_step (FRemove p) r s (s(p := None))"
| fs_open: "f_err r = None \<Longrightarrow> p \<in> dom s \<Longrightarrow> fs_step (FOpen p) r s s"
| fs_info: "f_err r = None \<Longrightarrow> s p = Some b \<Longrightarrow> f_size r = length b \<Longrightarrow> f_regular r \<Longrightarrow> fs_step (FInfo p) r s s"
| fs_read: "f_err r = None \<Longrightarrow> s p = Some b \<Longrightarrow> f_data r = b \<Longrightarrow> fs_step (FRead p) r s s"
| fs_absent: "f_err r = Some FNotExist \<Longrightarrow> p \<notin> dom s \<Longrightarrow>
    q \<in> {FStat p, FRename p x, FRemove p, FOpen p} \<Longrightarrow> fs_step q r s s"

inductive_simps fs_mkdir_step: "fs_step (FMkdirAll d) r s s'"
inductive_simps fs_temp_step: "fs_step (FCreateTemp d pre post) r s s'"
inductive_simps fs_write_step: "fs_step (FWrite p b) r s s'"
inductive_simps fs_write_file_step: "fs_step (FWriteFile p b) r s s'"
inductive_simps fs_close_step: "fs_step (FClose p) r s s'"
inductive_simps fs_sync_step: "fs_step (FSync p) r s s'"
inductive_simps fs_stat_step: "fs_step (FStat p) r s s'"
inductive_simps fs_rename_step: "fs_step (FRename a b) r s s'"
inductive_simps fs_remove_step: "fs_step (FRemove p) r s s'"
inductive_simps fs_open_step: "fs_step (FOpen p) r s s'"
inductive_simps fs_info_step: "fs_step (FInfo p) r s s'"
inductive_simps fs_read_step: "fs_step (FRead p) r s s'"

lemmas fs_steps = fs_mkdir_step fs_temp_step fs_write_step fs_write_file_step fs_close_step fs_sync_step
  fs_stat_step fs_rename_step fs_remove_step fs_open_step fs_info_step fs_read_step

section \<open>Along a run\<close>

text \<open>\<open>during S I Q p s\<close>: whatever the service answers, every state on the way of \<open>p\<close> satisfies \<open>I\<close>, so
  also the one an interruption leaves, and a result satisfies \<open>Q\<close> of it and the last state.\<close>

primrec during :: "('q \<Rightarrow> 'r \<Rightarrow> 's \<Rightarrow> 's \<Rightarrow> bool) \<Rightarrow> ('s \<Rightarrow> bool) \<Rightarrow> ('a \<Rightarrow> 's \<Rightarrow> bool) \<Rightarrow>
    ('q, 'r, 'a) prog \<Rightarrow> 's \<Rightarrow> bool" where
  "during S I Q (Ret a) = (\<lambda>s. I s \<and> Q a s)"
| "during S I Q (Call q k) = (\<lambda>s. I s \<and> (\<forall>r s'. S q r s s' \<longrightarrow> during S I Q (k r) s'))"
| "during S I Q Spin = I"

lemma during_pbind: "during S I Q (pbind p f) s \<longleftrightarrow> during S I (\<lambda>a s. during S I Q (f a) s) p s"
proof -
  have "during S I Q p s \<Longrightarrow> I s" for p :: "('a, 'b, 'd) prog" and Q s by (cases p) auto
  then show ?thesis by (induction p arbitrary: s) auto
qed

lemma during_runs: "during S I Q p s \<Longrightarrow> runs S p s a s' \<Longrightarrow> I s' \<and> Q a s'"
  by (induction p arbitrary: s) (auto simp: runs.simps [of S Spin])

lemma during_mono:
  "during S I Q p s \<Longrightarrow> (\<And>s. I s \<Longrightarrow> I' s) \<Longrightarrow> (\<And>a s. I s \<Longrightarrow> Q a s \<Longrightarrow> Q' a s) \<Longrightarrow> during S I' Q' p s"
  by (induction p arbitrary: s) auto

end
