(* ===== verification/FilesProps.thy ===== *)
theory FilesProps
  imports Files
begin

text \<open>An interrupted checkpoint writer loses neither the old checkpoint nor the new one.\<close>

text \<open>What a reader recovers: the file, or its backup.\<close>

definition recover :: "string \<Rightarrow> files \<Rightarrow> string option" where
  "recover path s = (case s path of Some b \<Rightarrow> Some b | None \<Rightarrow> s (path @ ''.bak''))"

definition old_or_new :: "string \<Rightarrow> string option \<Rightarrow> string \<Rightarrow> files \<Rightarrow> bool" where
  "old_or_new path old b s \<longleftrightarrow> recover path s = old \<or> recover path s = Some (b @ [CHR 0x0A])"

definition stored_if_ok :: "string \<Rightarrow> string \<Rightarrow> file_error option \<Rightarrow> files \<Rightarrow> bool" where
  "stored_if_ok path b e s \<longleftrightarrow> e \<noteq> None \<or> s path = Some (b @ [CHR 0x0A])"

lemma recover_upd: "p \<noteq> path \<Longrightarrow> p \<noteq> path @ ''.bak'' \<Longrightarrow> recover path (s(p := x)) = recover path s"
  by (auto simp: recover_def split: option.split)

lemma old_or_new_upd:
  "p \<noteq> path \<Longrightarrow> p \<noteq> path @ ''.bak'' \<Longrightarrow> old_or_new path old b (s(p := x)) = old_or_new path old b s"
  by (simp add: old_or_new_def recover_upd)

lemma old_or_new_start [simp]: "old_or_new path (recover path s) b s"
  by (simp add: old_or_new_def)

lemma stored_if_ok_failed [simp]: "stored_if_ok path b (Some e) s"
  by (simp add: stored_if_ok_def)

lemma swap_in_quietly_during:
  assumes "old_or_new path old b s" "s (path @ ''.tmp'') = Some (b @ [CHR 0x0A])"
  shows "during fs_step (old_or_new path old b) (stored_if_ok path b) (swap_in_quietly path) s"
  using assms
  by (auto simp: swap_in_quietly_def fs_steps old_or_new_def stored_if_ok_def recover_def
      split: option.splits)

lemma backup_then_during:
  assumes "old_or_new path old b s" "s (path @ ''.tmp'') = Some (b @ [CHR 0x0A])"
  shows "during fs_step (old_or_new path old b) (stored_if_ok path b) (backup_then path (swap_in_quietly path)) s"
  using assms swap_in_quietly_during
  by (auto simp: backup_then_def fs_steps old_or_new_def stored_if_ok_def recover_def
      split: option.splits)

lemma teardown_save_during:
  "during fs_step (old_or_new path (recover path s) b) (stored_if_ok path b) (teardown_save path b) s"
  by (auto simp: teardown_save_def fs_steps old_or_new_upd split: option.splits
      intro!: backup_then_during swap_in_quietly_during)

lemma save_memory_during:
  "during fs_step (old_or_new path (recover path s) b) (stored_if_ok path b) (save_memory dir path b) s"
  by (auto simp: save_memory_def fs_steps old_or_new_upd split: option.splits file_error.splits
      intro!: backup_then_during swap_in_quietly_during)

lemma swap_in_during:
  assumes "old_or_new path old b s" "s temp = Some (b @ [CHR 0x0A])" "temp \<noteq> path" "temp \<noteq> path @ ''.bak''"
  shows "during fs_step (old_or_new path old b) (stored_if_ok path b) (swap_in temp path) s"
  using assms
  by (auto simp: swap_in_def fs_steps old_or_new_def stored_if_ok_def recover_def
      split: option.splits if_splits)

lemma nuke_replace_during:
  assumes "old_or_new path old b s" "s temp = Some (b @ [CHR 0x0A])" "temp \<noteq> path" "temp \<noteq> path @ ''.bak''"
  shows "during fs_step (old_or_new path old b) (stored_if_ok path b) (nuke_replace temp path) s"
  using assms swap_in_during
  by (auto simp: nuke_replace_def fs_steps old_or_new_def stored_if_ok_def recover_def
      split: option.splits file_error.splits)

lemma removing_during:
  assumes "during fs_step (old_or_new path old b) (stored_if_ok path b) p s"
    "temp \<noteq> path" "temp \<noteq> path @ ''.bak''"
  shows "during fs_step (old_or_new path old b) (stored_if_ok path b) (removing temp p) s"
  using assms unfolding removing_def
  by (induction p arbitrary: s) (auto simp: fs_steps old_or_new_upd stored_if_ok_def)

lemma nuke_save_during:
  "during fs_step (old_or_new (nuke_path dir account) (recover (nuke_path dir account) s) b)
     (stored_if_ok (nuke_path dir account) b) (nuke_save_file dir account b) s"
proof -
  let ?p = "nuke_path dir account"
  have body: "during fs_step (old_or_new ?p (recover ?p s) b) (stored_if_ok ?p b) (removing t (
       Call (FWrite t (b @ [CHR 0x0A])) (\<lambda>r. case f_err r of
         Some e \<Rightarrow> Call (FClose t) (\<lambda>_. Ret (Some e))
       | None \<Rightarrow> Call (FClose t) (\<lambda>r. case f_err r of
           Some e \<Rightarrow> Ret (Some e) | None \<Rightarrow> nuke_replace t ?p)))) (s(t \<mapsto> []))"
    if t: "t \<noteq> ?p" "t \<noteq> ?p @ ''.bak''" for t
    by (rule removing_during [OF _ t])
      (auto simp: fs_steps old_or_new_upd t split: option.splits intro!: nuke_replace_during)
  show ?thesis
    by (auto simp: nuke_save_file_def Let_def fs_temp_step intro!: body split: option.splits)
      (auto simp: nuke_path_def)
qed

text \<open>C28: The writers of the teardown, setup and deletion checkpoints never lose one: at every point
  of a run, also where it is interrupted or a file operation fails, what a reader recovers from the
  file or its backup is the checkpoint that was there before or the complete new one, and a writer
  that reports success has stored the new one.\<close>

theorem checkpoint_survives:
  "during fs_step (old_or_new p (recover p s) b) (stored_if_ok p b) (teardown_save p b) s \<and>
   during fs_step (old_or_new p (recover p s) b) (stored_if_ok p b) (save_memory dir p b) s \<and>
   during fs_step (old_or_new (nuke_path dir account) (recover (nuke_path dir account) s) b)
     (stored_if_ok (nuke_path dir account) b) (nuke_save_file dir account b) s"
  by (simp add: teardown_save_during save_memory_during nuke_save_during)

end
