(* ===== verification/Vault.thy ===== *)
theory Vault
  imports Files
begin

text \<open>
  The encrypted credential vault of the deployment tool:
  \<open>tools/deploy/internal/vault/credential_vault.go\<close>. Files are the calls of \<open>Files\<close>; randomness and the
  user's configuration directory are calls too. Argon2, AES-GCM, Unicode and JSON are the functions of
  \<open>vault_lib\<close>. Clearing of buffers and closing of the file that was read are not modelled.
\<close>

record credentials =
  crIndexPulumi :: string
  crGitHub :: string
  crCloudflare :: string
  crPulumi :: string
  crAWSAccess :: string
  crAWSSecret :: string
  crAWSToken :: string

record vault =
  vaPath :: string
  vaScope :: string
  vaKey :: string
  vaSalt :: string

record vault_envelope =
  veVersion :: int
  veSalt :: string
  veNonce :: string
  veCiphertext :: string

record vault_lib =
  vlGo :: golib
  nfc :: "string \<Rightarrow> string" \<comment> \<open>norm.NFC.String\<close>
  vl_runes :: "string \<Rightarrow> nat list"
  vl_control :: "nat \<Rightarrow> bool" \<comment> \<open>unicode.IsControl\<close>
  argon2id :: "string \<Rightarrow> string \<Rightarrow> string" \<comment> \<open>passphrase, salt; the other parameters are constants\<close>
  gcm_seal :: "string \<Rightarrow> string \<Rightarrow> string \<Rightarrow> string \<Rightarrow> string" \<comment> \<open>key, nonce, plaintext, scope\<close>
  gcm_open :: "string \<Rightarrow> string \<Rightarrow> string \<Rightarrow> string \<Rightarrow> string option" \<comment> \<open>key, nonce, ciphertext, scope\<close>
  creds_json :: "credentials \<Rightarrow> string"
  parse_creds :: "string \<Rightarrow> credentials option"
  envelope_json :: "vault_envelope \<Rightarrow> string"
  parse_vault :: "string \<Rightarrow> vault_envelope option"
  dir_of :: "string \<Rightarrow> string" \<comment> \<open>filepath.Dir\<close>
  path_join :: "string list \<Rightarrow> string"

datatype vault_call =
    VFile file_call
  | VRandom nat
  | VConfigDir

record vault_resp =
  v_file :: file_resp
  v_random :: "string option"
  v_dir :: "string option"

type_synonym 'a vault_prog = "(vault_call, vault_resp, 'a) prog"

datatype vault_error =
    VErr string
  | VFileErr file_error
  | VRandErr
  | VCipherErr

definition vault_limit :: nat where "vault_limit = 64 * 1024"

section \<open>Passphrases\<close>

definition weak_phrases :: "string list" where
  "weak_phrases = [''correct horse battery staple'', ''this is my password'', ''this is my passphrase'',
     ''password123'', ''qwertyuiop'', ''1234567890'', ''abcdefghijklmnopqrst'', ''attestra'']"

definition repeats :: "nat \<Rightarrow> nat list \<Rightarrow> bool" where
  "repeats period rs = list_all (\<lambda>i. rs ! i = rs ! (i mod period)) [period..<length rs]"

definition validate_passphrase :: "vault_lib \<Rightarrow> string \<Rightarrow> string option" where
  "validate_passphrase V phrase =
    (let value = nfc V phrase; count = length (vl_runes V value); lower = to_lower (vlGo V) value in
     if count < 20 \<or> count > 1024
     then Some (''use 20'' @ [CHR 0xE2, CHR 0x80, CHR 0x93] @ ''1024 characters; five or more randomly chosen words are recommended'')
     else if trim_space (vlGo V) value \<noteq> value
     then Some ''avoid leading or trailing whitespace; spaces between words are welcome''
     else if list_ex (vl_control V) (vl_runes V value) then Some ''use printable characters and spaces''
     else if list_ex (str_contains lower) weak_phrases
     then Some ''that passphrase contains a common example or predictable phrase; choose unrelated random words''
     else if list_ex (\<lambda>period. repeats period (vl_runes V lower)) [1..<9]
     then Some ''avoid repeated characters or repeated short patterns''
     else None)"

definition vault_key :: "vault_lib \<Rightarrow> string \<Rightarrow> string \<Rightarrow> string" where
  "vault_key V passphrase salt = argon2id V (nfc V passphrase) salt"

text \<open>\<open>aes.NewCipher\<close> accepts keys of these lengths; \<open>NewGCM\<close> accepts its result.\<close>

definition vault_cipher :: "string \<Rightarrow> bool" where
  "vault_cipher key \<longleftrightarrow> length key \<in> {16, 24, 32}"

section \<open>Operations\<close>

definition vault_location :: "vault_lib \<Rightarrow> string \<Rightarrow> string \<Rightarrow> (vault_error + string \<times> string) vault_prog" where
  "vault_location V repo environment = Call VConfigDir (\<lambda>r. case v_dir r of
     None \<Rightarrow> Ret (Inl (VErr ''no configuration directory''))
   | Some dir \<Rightarrow>
       (let scope = ''attestra-credentials-v1'' @ [CHR 0x00] @ repo @ [CHR 0x00] @ environment;
            i = hex_encode (sha256 (vlGo V) scope)
        in Ret (Inr (path_join V [dir, ''attestra'', ''credentials'', i @ ''.vault.enc''], scope))))"

definition vault_create :: "vault_lib \<Rightarrow> string \<Rightarrow> string \<Rightarrow> string \<Rightarrow> (vault_error + vault) vault_prog" where
  "vault_create V path scope passphrase = (case validate_passphrase V passphrase of
     Some e \<Rightarrow> Ret (Inl (VErr e))
   | None \<Rightarrow> Call (VRandom 16) (\<lambda>r. case v_random r of
       None \<Rightarrow> Ret (Inl VRandErr)
     | Some salt \<Rightarrow> Ret (Inr \<lparr>vaPath = path, vaScope = scope, vaKey = vault_key V passphrase salt, vaSalt = salt\<rparr>)))"

definition envelope_ok :: "vault_envelope \<Rightarrow> bool" where
  "envelope_ok e \<longleftrightarrow> veVersion e = 1 \<and> length (veSalt e) = 16 \<and> length (veNonce e) = 12 \<and>
     \<not> length (veCiphertext e) < 16"

definition opened :: "vault_lib \<Rightarrow> string \<Rightarrow> string \<Rightarrow> string \<Rightarrow> vault_envelope \<Rightarrow> vault_error + vault \<times> credentials" where
  "opened V path scope passphrase e =
    (let key = vault_key V passphrase (veSalt e) in
     if \<not> vault_cipher key then Inl VCipherErr
     else case gcm_open V key (veNonce e) (veCiphertext e) scope of
       None \<Rightarrow> Inl (VErr ''could not unlock credentials: incorrect passphrase, changed vault, or different repository/environment'')
     | Some plain \<Rightarrow> (case parse_creds V plain of
         None \<Rightarrow> Inl (VErr ''invalid credential vault contents'')
       | Some values \<Rightarrow> Inr (\<lparr>vaPath = path, vaScope = scope, vaKey = key, vaSalt = veSalt e\<rparr>, values)))"

definition unlocked :: "vault_lib \<Rightarrow> string \<Rightarrow> string \<Rightarrow> string \<Rightarrow> string \<Rightarrow> vault_error + vault \<times> credentials" where
  "unlocked V path scope passphrase data = (case parse_vault V data of
     None \<Rightarrow> Inl (VErr ''invalid or unsupported credential vault'')
   | Some e \<Rightarrow> if \<not> envelope_ok e then Inl (VErr ''invalid or unsupported credential vault'')
       else opened V path scope passphrase e)"

definition vault_unlock :: "vault_lib \<Rightarrow> string \<Rightarrow> string \<Rightarrow> string \<Rightarrow> (vault_error + vault \<times> credentials) vault_prog" where
  "vault_unlock V path scope passphrase = Call (VFile (FOpen path)) (\<lambda>r. case f_err (v_file r) of
     Some e \<Rightarrow> Ret (Inl (VFileErr e))
   | None \<Rightarrow> Call (VFile (FInfo path)) (\<lambda>r. case f_err (v_file r) of
       Some e \<Rightarrow> Ret (Inl (VFileErr e))
     | None \<Rightarrow> if \<not> f_regular (v_file r) \<or> f_size (v_file r) > vault_limit
         then Ret (Inl (VErr ''invalid credential vault file''))
         else (let size = f_size (v_file r) in
           Call (VFile (FRead path)) (\<lambda>r.
             let data = take size (f_data (v_file r))
             in if f_err (v_file r) \<noteq> None \<or> length data \<noteq> size
                then Ret (Inl (VErr ''cannot read credential vault''))
                else Ret (unlocked V path scope passphrase data)))))"

text \<open>Writing the encrypted file: a temporary file in the same directory, then a rename over it.\<close>

definition fill_and_rename :: "string \<Rightarrow> string \<Rightarrow> string \<Rightarrow> file_error option file_prog" where
  "fill_and_rename temp path data = Call (FWrite temp data) (\<lambda>r. case f_err r of
     Some e \<Rightarrow> Call (FClose temp) (\<lambda>_. Ret (Some e))
   | None \<Rightarrow> Call (FSync temp) (\<lambda>r. case f_err r of
       Some e \<Rightarrow> Call (FClose temp) (\<lambda>_. Ret (Some e))
     | None \<Rightarrow> Call (FClose temp) (\<lambda>r. case f_err r of
         Some e \<Rightarrow> Ret (Some e)
       | None \<Rightarrow> Call (FRename temp path) (\<lambda>r. Ret (f_err r)))))"

definition vault_write :: "vault_lib \<Rightarrow> string \<Rightarrow> string \<Rightarrow> file_error option file_prog" where
  "vault_write V path data = Call (FMkdirAll (dir_of V path)) (\<lambda>r. case f_err r of
     Some e \<Rightarrow> Ret (Some e)
   | None \<Rightarrow> Call (FCreateTemp (dir_of V path) ''.vault-'' ''.tmp'') (\<lambda>r. case f_err r of
       Some e \<Rightarrow> Ret (Some e)
     | None \<Rightarrow> removing (f_name r) (fill_and_rename (f_name r) path data)))"

definition sealed :: "vault_lib \<Rightarrow> vault \<Rightarrow> string \<Rightarrow> string \<Rightarrow> vault_envelope" where
  "sealed V v nonce plain = \<lparr>veVersion = 1, veSalt = vaSalt v, veNonce = nonce,
     veCiphertext = gcm_seal V (vaKey v) nonce plain (vaScope v)\<rparr>"

definition vault_save :: "vault_lib \<Rightarrow> vault \<Rightarrow> credentials \<Rightarrow> vault_error option vault_prog" where
  "vault_save V v values =
    (let plain = creds_json V values in
     if length plain > vault_limit div 2 then Ret (Some (VErr ''credential values exceed vault size limit''))
     else if \<not> vault_cipher (vaKey v) then Ret (Some VCipherErr)
     else Call (VRandom 12) (\<lambda>r. case v_random r of
       None \<Rightarrow> Ret (Some VRandErr)
     | Some nonce \<Rightarrow>
         pbind (lift_calls VFile v_file (vault_write V (vaPath v) (envelope_json V (sealed V v nonce plain))))
           (\<lambda>e. Ret (map_option VFileErr e))))"

definition rotate_passphrase :: "vault_lib \<Rightarrow> vault \<Rightarrow> credentials \<Rightarrow> string \<Rightarrow> (vault_error + vault) vault_prog" where
  "rotate_passphrase V v values phrase =
    (if nfc V phrase = nfc V (crPulumi values) \<or> nfc V phrase = nfc V (crIndexPulumi values)
     then Ret (Inl (VErr ''use a vault passphrase different from the Pulumi passphrases''))
     else pbind (vault_create V (vaPath v) (vaScope v) phrase) (\<lambda>x. case x of
       Inl e \<Rightarrow> Ret (Inl e)
     | Inr next \<Rightarrow> pbind (vault_save V next values) (\<lambda>e. case e of
         Some e \<Rightarrow> Ret (Inl e) | None \<Rightarrow> Ret (Inr next))))"

end
