(* ===== verification/VaultProps.thy ===== *)
theory VaultProps
  imports Vault
begin

text \<open>The vault gives back what was saved, and its file is replaced as a whole.\<close>

inductive vault_step :: "vault_call \<Rightarrow> vault_resp \<Rightarrow> files \<Rightarrow> files \<Rightarrow> bool" where
  vault_file: "fs_step c (v_file r) s s' \<Longrightarrow> vault_step (VFile c) r s s'"
| vault_random: "v_random r = None \<or> (\<exists>x. v_random r = Some x \<and> length x = n) \<Longrightarrow> vault_step (VRandom n) r s s"
| vault_dir: "vault_step VConfigDir r s s"

inductive_simps vault_file_step [simp]: "vault_step (VFile c) r s s'"
inductive_simps vault_random_step [simp]: "vault_step (VRandom n) r s s'"
inductive_simps vault_dir_step [simp]: "vault_step VConfigDir r s s'"

lemma during_lift:
  "during fs_step I Q p s \<Longrightarrow> during vault_step I Q (lift_calls VFile v_file p) s"
  by (induction p arbitrary: s) auto

section \<open>Replacement\<close>

text \<open>Paths as \<open>Location\<close> makes them are never the name of a temporary file.\<close>

definition vault_name :: "string \<Rightarrow> bool" where
  "vault_name path \<longleftrightarrow> has_suffix path ''.vault.enc''"

lemma has_suffix_split: "has_suffix s p \<Longrightarrow> \<exists>u. s = u @ p"
  unfolding has_suffix_def by (metis append_take_drop_id)

lemma vault_name_temp: "vault_name path \<Longrightarrow> dir @ ''/'' @ ''.vault-'' @ x @ ''.tmp'' \<noteq> path"
proof
  assume v: "vault_name path" and eq: "dir @ ''/'' @ ''.vault-'' @ x @ ''.tmp'' = path"
  from v obtain u where "path = u @ ''.vault.enc''" unfolding vault_name_def using has_suffix_split by blast
  with eq have "last (dir @ ''/'' @ ''.vault-'' @ x @ ''.tmp'') = last (u @ ''.vault.enc'')" by simp
  then show False by simp
qed

lemma vault_temp:
  assumes "fs_step (FCreateTemp dir ''.vault-'' ''.tmp'') r s s'" "vault_name path"
  obtains (failed) e where "f_err r = Some e" "s' = s"
  | (made) "f_err r = None" "f_name r \<noteq> path" "s' = s(f_name r \<mapsto> [])"
proof (cases "f_err r")
  case None
  with assms have "s' = s(f_name r \<mapsto> [])" "\<exists>x. f_name r = dir @ ''/'' @ ''.vault-'' @ x @ ''.tmp''"
    by (auto simp: fs_temp_step)
  with None vault_name_temp [OF assms(2)] show thesis by (metis made)
next
  case (Some e)
  with assms(1) show thesis by (auto simp: fs_temp_step intro: failed)
qed

definition old_or :: "string \<Rightarrow> string option \<Rightarrow> string \<Rightarrow> files \<Rightarrow> bool" where
  "old_or path old data s \<longleftrightarrow> s path = old \<or> s path = Some data"

definition written :: "string \<Rightarrow> string \<Rightarrow> file_error option \<Rightarrow> files \<Rightarrow> bool" where
  "written path data e s \<longleftrightarrow> e \<noteq> None \<or> s path = Some data"

lemma written_failed [simp]: "written path data (Some e) s"
  by (simp add: written_def)

lemma old_or_upd [simp]: "p \<noteq> path \<Longrightarrow> old_or path old data (s(p := x)) = old_or path old data s"
  by (simp add: old_or_def)

lemma fill_and_rename_during:
  "t \<noteq> path \<Longrightarrow> old_or path old data s \<Longrightarrow>
   during fs_step (old_or path old data) (written path data) (fill_and_rename t path data) s"
  by (auto simp: fill_and_rename_def fs_steps split: option.splits)
    (auto simp: old_or_def written_def)

lemma removing_written:
  "during fs_step (old_or path old data) (written path data) p s \<Longrightarrow> t \<noteq> path \<Longrightarrow>
   during fs_step (old_or path old data) (written path data) (removing t p) s"
  unfolding removing_def by (induction p arbitrary: s) (auto simp: fs_steps written_def)

lemma vault_write_during:
  assumes "vault_name path"
  shows "during fs_step (old_or path (s path) data) (written path data) (vault_write V path data) s"
proof -
  have "old_or path (s path) data s" by (simp add: old_or_def)
  then show ?thesis
    by (auto simp: vault_write_def fs_mkdir_step split: option.split elim!: vault_temp [OF _ assms]
        intro!: removing_written fill_and_rename_during)
qed

text \<open>A file that holds \<open>values\<close>, sealed under a fresh nonce.\<close>

definition holds :: "vault_lib \<Rightarrow> vault \<Rightarrow> credentials \<Rightarrow> string option \<Rightarrow> bool" where
  "holds V v values x \<longleftrightarrow> (\<exists>nonce. length nonce = 12 \<and> length (creds_json V values) \<le> vault_limit div 2 \<and>
     x = Some (envelope_json V (sealed V v nonce (creds_json V values))))"

definition saved_if_ok :: "vault_lib \<Rightarrow> vault \<Rightarrow> credentials \<Rightarrow> vault_error option \<Rightarrow> files \<Rightarrow> bool" where
  "saved_if_ok V v values e s \<longleftrightarrow> e \<noteq> None \<or> holds V v values (s (vaPath v))"

definition old_or_saved :: "vault_lib \<Rightarrow> vault \<Rightarrow> credentials \<Rightarrow> string option \<Rightarrow> files \<Rightarrow> bool" where
  "old_or_saved V v values old s \<longleftrightarrow> s (vaPath v) = old \<or> holds V v values (s (vaPath v))"

lemma vault_save_during:
  assumes "vault_name (vaPath v)"
  shows "during vault_step (old_or_saved V v values (s (vaPath v))) (saved_if_ok V v values) (vault_save V v values) s"
proof -
  let ?I = "old_or_saved V v values (s (vaPath v))"
  let ?data = "\<lambda>nonce. envelope_json V (sealed V v nonce (creds_json V values))"
  have "during vault_step ?I (\<lambda>e. during vault_step ?I (saved_if_ok V v values) (Ret (map_option VFileErr e)))
      (lift_calls VFile v_file (vault_write V (vaPath v) (?data nonce))) s"
    if n: "length nonce = 12" "length (creds_json V values) \<le> vault_limit div 2" for nonce
  proof (rule during_lift, rule during_mono [OF vault_write_during [OF assms, of s "?data nonce"]])
    have h: "holds V v values (Some (?data nonce))" using n by (auto simp: holds_def)
    show I: "?I s'" if "old_or (vaPath v) (s (vaPath v)) (?data nonce) s'" for s'
      using that h unfolding old_or_def old_or_saved_def by metis
    show "during vault_step ?I (saved_if_ok V v values) (Ret (map_option VFileErr e)) s'"
      if "old_or (vaPath v) (s (vaPath v)) (?data nonce) s'" "written (vaPath v) (?data nonce) e s'" for e s'
      using I [OF that(1)] that(2) h by (auto simp: written_def saved_if_ok_def)
  qed
  then show ?thesis
    by (auto simp: vault_save_def Let_def during_pbind old_or_saved_def saved_if_ok_def split: option.splits)
qed

text \<open>Saving replaces the vault as a whole: at every point of a save, also where it is interrupted
  or a file operation fails, the file at the vault's path is the one that was there before or a
  complete new one that seals the given credentials, and a save that reports success left the latter.\<close>

theorem vault_replaced:
  assumes "vault_name (vaPath v)"
  shows "during vault_step (old_or_saved V v values (s (vaPath v))) (saved_if_ok V v values)
    (vault_save V v values) s"
  by (rule vault_save_during [OF assms])

section \<open>Round trip\<close>

text \<open>What the libraries document: authenticated encryption opens what it sealed and adds 16 bytes,
  keys have the length asked for, and JSON decodes what it encoded, byte slices in base64.\<close>

definition base64_length :: "nat \<Rightarrow> nat" where
  "base64_length n = 4 * ((n + 2) div 3)"

definition vault_laws :: "vault_lib \<Rightarrow> bool" where
  "vault_laws V \<longleftrightarrow>
     (\<forall>k n p a. gcm_open V k n (gcm_seal V k n p a) a = Some p \<and>
        length (gcm_seal V k n p a) = length p + 16) \<and>
     (\<forall>p t. length (argon2id V p t) = 32) \<and>
     (\<forall>c. parse_creds V (creds_json V c) = Some c) \<and>
     (\<forall>e. veVersion e = 1 \<longrightarrow> parse_vault V (envelope_json V e) = Some e \<and>
        length (envelope_json V e) \<le> 128 + base64_length (length (veSalt e)) +
          base64_length (length (veNonce e)) + base64_length (length (veCiphertext e)))"

lemma base64_mono: "m \<le> n \<Longrightarrow> base64_length m \<le> base64_length n"
  unfolding base64_length_def by (intro mult_le_mono div_le_mono) auto

lemma vault_law_size:
  "vault_laws V \<Longrightarrow> veVersion e = 1 \<Longrightarrow> length (envelope_json V e) \<le> 128 +
     base64_length (length (veSalt e)) + base64_length (length (veNonce e)) + base64_length (length (veCiphertext e))"
  by (simp add: vault_laws_def)

lemma sealed_fits:
  assumes "vault_laws V" "length (vaSalt v) = 16" "length nonce = 12" "length plain \<le> vault_limit div 2"
  shows "length (envelope_json V (sealed V v nonce plain)) \<le> vault_limit"
proof -
  let ?c = "gcm_seal V (vaKey v) nonce plain (vaScope v)"
  from assms(1,4) have "length ?c \<le> 32784" by (simp add: vault_laws_def vault_limit_def)
  then have "base64_length (length ?c) \<le> base64_length 32784" by (rule base64_mono)
  moreover have "length (envelope_json V (sealed V v nonce plain)) \<le>
      128 + base64_length 16 + base64_length 12 + base64_length (length ?c)"
    using vault_law_size [OF assms(1), of "sealed V v nonce plain"] assms(2,3) by (simp add: sealed_def)
  ultimately show ?thesis by (simp add: base64_length_def vault_limit_def)
qed

lemma unlocked_sealed:
  assumes "vault_laws V" "vaPath v = path" "vaScope v = scope" "length (vaSalt v) = 16"
    "vaKey v = vault_key V phrase (vaSalt v)" "length nonce = 12"
  shows "unlocked V path scope phrase (envelope_json V (sealed V v nonce (creds_json V values))) = Inr (v, values)"
  using assms
  by (cases v) (simp add: unlocked_def opened_def sealed_def envelope_ok_def vault_laws_def vault_cipher_def vault_key_def)

text \<open>The outcome of an unlock when the file system answers: anything it refused is an error of its own.\<close>

definition file_trouble :: "vault_error \<Rightarrow> bool" where
  "file_trouble e \<longleftrightarrow> (\<exists>x. e = VFileErr x) \<or> e = VErr ''cannot read credential vault''"

lemma unlock_runs:
  assumes "runs vault_step (vault_unlock V path scope phrase) s x s'" "s path = Some data" "length data \<le> vault_limit"
  shows "x = unlocked V path scope phrase data \<or> (\<exists>e. x = Inl e \<and> file_trouble e)"
  using assms by (auto simp: vault_unlock_def Let_def fs_steps file_trouble_def split: option.splits if_splits)

lemma vault_create_runs:
  assumes "runs vault_step (vault_create V path scope phrase) s (Inr v) s'"
  shows "vaPath v = path \<and> vaScope v = scope \<and> length (vaSalt v) = 16 \<and> vaKey v = vault_key V phrase (vaSalt v)"
  using assms by (auto simp: vault_create_def split: option.splits)

text \<open>What a vault saved is what it gives back: after a vault was made for a path, a scope and a
  passphrase and its save reported success, unlocking that path with the same scope and passphrase
  returns the credentials and an equal vault, unless the file system fails; in particular the file
  of credentials the save accepts is never too large to be read back.\<close>

theorem vault_round_trip:
  assumes "vault_laws V" "vault_name path"
    and "runs vault_step (vault_create V path scope phrase) s (Inr v) s1"
    and "runs vault_step (vault_save V v values) s1 None s2"
    and "runs vault_step (vault_unlock V path scope phrase) s2 x s3"
  shows "x = Inr (v, values) \<or> (\<exists>e. x = Inl e \<and> file_trouble e)"
proof -
  from vault_create_runs [OF assms(3)] have v: "vaPath v = path" "vaScope v = scope" "length (vaSalt v) = 16"
      "vaKey v = vault_key V phrase (vaSalt v)" by auto
  with assms(2) have "vault_name (vaPath v)" by simp
  from during_runs [OF vault_save_during [OF this] assms(4)] v(1)
  obtain nonce where n: "length nonce = 12" "length (creds_json V values) \<le> vault_limit div 2"
      "s2 path = Some (envelope_json V (sealed V v nonce (creds_json V values)))"
    by (auto simp: saved_if_ok_def holds_def)
  from unlock_runs [OF assms(5) n(3) sealed_fits [OF assms(1) v(3) n(1,2)]]
  show ?thesis by (simp add: unlocked_sealed [OF assms(1) v n(1)])
qed

section \<open>A library and a file system that satisfy the laws\<close>

fun join_with :: "char \<Rightarrow> string list \<Rightarrow> string" where
  "join_with sep [] = []"
| "join_with sep [w] = w"
| "join_with sep (w # ws) = w @ sep # join_with sep ws"

lemma split_word: "sep \<notin> set w \<Longrightarrow> split_on sep (w @ sep # s) = w # split_on sep s"
  by (induction w) auto

lemma split_single: "sep \<notin> set w \<Longrightarrow> split_on sep w = [w]"
  by (induction w) auto

lemma split_join: "ws \<noteq> [] \<Longrightarrow> list_all (\<lambda>w. sep \<notin> set w) ws \<Longrightarrow> split_on sep (join_with sep ws) = ws"
  by (induction ws rule: join_with.induct) (auto simp: split_word split_single)

lemma length_join: "ws \<noteq> [] \<Longrightarrow> length (join_with sep ws) = length (concat ws) + length ws - 1"
  by (induction sep ws rule: join_with.induct) (auto simp: Suc_diff_le)

definition demo_words :: "string list \<Rightarrow> string" where
  "demo_words ws = join_with (CHR '';'') (map std_encode ws)"

definition demo_parse :: "string \<Rightarrow> string list option" where
  "demo_parse s = those (map std_decode (split_on (CHR '';'') s))"

lemma std_encode_chars: "c \<in> set (std_encode s) \<Longrightarrow> c \<in> set std_alphabet \<or> c = CHR ''=''"
  using set_encode_with [of std_alphabet s] by (auto simp: std_encode_def Let_def split: if_splits)

lemma demo_words_parse: "ws \<noteq> [] \<Longrightarrow> demo_parse (demo_words ws) = Some ws"
proof -
  assume "ws \<noteq> []"
  have "CHR '';'' \<notin> set (std_encode s)" for s
    using std_encode_chars [of "CHR '';''" s] by (auto simp: std_alphabet_def)
  then have "split_on (CHR '';'') (demo_words ws) = map std_encode ws"
    unfolding demo_words_def by (intro split_join) (use \<open>ws \<noteq> []\<close> in \<open>auto simp: list_all_iff\<close>)
  moreover have "those (map Some ws) = Some ws" by (induction ws) auto
  ultimately show ?thesis by (simp add: demo_parse_def comp_def std_roundtrip)
qed

lemma base64_padding:
  fixes n :: nat
  shows "(4 * n + 2) div 3 + (4 - (4 * n + 2) div 3 mod 4) mod 4 = base64_length n"
proof -
  obtain q r where n: "n = 3 * q + r" and "r < 3"
    using mod_div_decomp [of n 3] by (metis mod_less_divisor mult.commute zero_less_numeral)
  then consider "r = 0" | "r = 1" | "r = 2" by linarith
  then show ?thesis
  proof cases
    case 1
    with n have "(4 * n + 2) div 3 = 4 * q" "(n + 2) div 3 = q" by presburger+
    then show ?thesis by (simp add: base64_length_def)
  next
    case 2
    with n have d: "(4 * n + 2) div 3 = 4 * q + 2" "(n + 2) div 3 = q + 1" by presburger+
    have "(4 * q + 2) mod 4 = 2" by presburger
    then show ?thesis unfolding base64_length_def d by simp
  next
    case 3
    with n have d: "(4 * n + 2) div 3 = 4 * q + 3" "(n + 2) div 3 = q + 1" by presburger+
    have "(4 * q + 3) mod 4 = 3" by presburger
    then show ?thesis unfolding base64_length_def d by simp
  qed
qed

lemma length_std_encode: "length (std_encode s) = base64_length (length s)"
  using base64_padding [of "length s"]
  by (simp add: std_encode_def Let_def encode_with_def length_to_sextets)

definition demo_vault :: vault_lib where
  "demo_vault = \<lparr>vlGo = demo_lib, nfc = id, vl_runes = map byte, vl_control = (\<lambda>r. r < 32),
     argon2id = (\<lambda>p t. take 32 (p @ t @ replicate 32 (CHR ''0''))),
     gcm_seal = (\<lambda>k n p a. p @ replicate 16 (CHR ''t'')),
     gcm_open = (\<lambda>k n c a. Some (take (length c - 16) c)),
     creds_json = (\<lambda>c. demo_words [crIndexPulumi c, crGitHub c, crCloudflare c, crPulumi c, crAWSAccess c,
       crAWSSecret c, crAWSToken c]),
     parse_creds = (\<lambda>s. case demo_parse s of Some [a, b, c, d, e, f, g] \<Rightarrow>
       Some \<lparr>crIndexPulumi = a, crGitHub = b, crCloudflare = c, crPulumi = d, crAWSAccess = e,
             crAWSSecret = f, crAWSToken = g\<rparr> | _ \<Rightarrow> None),
     envelope_json = (\<lambda>e. demo_words [veSalt e, veNonce e, veCiphertext e]),
     parse_vault = (\<lambda>s. case demo_parse s of Some [a, b, c] \<Rightarrow>
       Some \<lparr>veVersion = 1, veSalt = a, veNonce = b, veCiphertext = c\<rparr> | _ \<Rightarrow> None),
     dir_of = (\<lambda>p. ''d''), path_join = join_with (CHR ''/'')\<rparr>"

lemma length_demo_words: "length (demo_words [a, b, c]) =
    base64_length (length a) + base64_length (length b) + base64_length (length c) + 2"
  by (simp add: demo_words_def length_std_encode)

lemma demo_vault_laws: "vault_laws demo_vault"
  unfolding vault_laws_def by (auto simp: demo_vault_def demo_words_parse length_demo_words)

text \<open>A file system that does what it is asked.\<close>

definition calm :: file_resp where
  "calm = \<lparr>f_err = None, f_name = [], f_regular = True, f_size = 0, f_data = []\<rparr>"

fun honest :: "file_call \<Rightarrow> files \<Rightarrow> file_resp \<times> files" where
  "honest (FMkdirAll d) s = (calm, s)"
| "honest (FCreateTemp d pre post) s =
     (let f = d @ ''/'' @ pre @ ''1'' @ post
      in if f \<in> dom s then (calm\<lparr>f_err := Some (FFailed [])\<rparr>, s) else (calm\<lparr>f_name := f\<rparr>, s(f \<mapsto> [])))"
| "honest (FWrite p b) s = (calm, s(p \<mapsto> b))"
| "honest (FSync p) s = (calm, s)"
| "honest (FClose p) s = (calm, s)"
| "honest (FWriteFile p b) s = (calm, s(p \<mapsto> b))"
| "honest (FRename a p) s = (case s a of None \<Rightarrow> (calm\<lparr>f_err := Some FNotExist\<rparr>, s)
     | Some b \<Rightarrow> (calm, (s(a := None))(p \<mapsto> b)))"
| "honest (FRemove p) s = (if p \<in> dom s then (calm, s(p := None)) else (calm\<lparr>f_err := Some FNotExist\<rparr>, s))"
| "honest (FStat p) s = (if p \<in> dom s then calm else calm\<lparr>f_err := Some FNotExist\<rparr>, s)"
| "honest (FOpen p) s = (if p \<in> dom s then calm else calm\<lparr>f_err := Some FNotExist\<rparr>, s)"
| "honest (FInfo p) s = (case s p of None \<Rightarrow> (calm\<lparr>f_err := Some (FFailed [])\<rparr>, s)
     | Some b \<Rightarrow> (calm\<lparr>f_size := length b\<rparr>, s))"
| "honest (FRead p) s = (case s p of None \<Rightarrow> (calm\<lparr>f_err := Some (FFailed [])\<rparr>, s)
     | Some b \<Rightarrow> (calm\<lparr>f_data := b\<rparr>, s))"

lemma honest_step: "fs_step c (fst (honest c s)) s (snd (honest c s))"
  by (cases c) (auto simp: fs_steps calm_def Let_def split: option.splits)

fun honest_vault :: "vault_call \<Rightarrow> files \<Rightarrow> vault_resp \<times> files" where
  "honest_vault (VFile c) s = (\<lparr>v_file = fst (honest c s), v_random = None, v_dir = None\<rparr>, snd (honest c s))"
| "honest_vault (VRandom n) s = (\<lparr>v_file = calm, v_random = Some (replicate n (CHR ''r'')), v_dir = None\<rparr>, s)"
| "honest_vault VConfigDir s = (\<lparr>v_file = calm, v_random = None, v_dir = Some ''d''\<rparr>, s)"

lemma honest_vault_step: "vault_step c (fst (honest_vault c s)) s (snd (honest_vault c s))"
  by (cases c) (auto simp: honest_step)

lemma run_runs:
  "(\<And>c s. S c (fst (H c s)) s (snd (H c s))) \<Longrightarrow> run H p s = (Some a, s') \<Longrightarrow> runs S p s a s'"
  by (induction p arbitrary: s) (auto simp: runs_call, blast)

definition demo_path :: string where "demo_path = ''d/a.vault.enc''"
definition demo_phrase :: string where "demo_phrase = ''otter meadow lantern cobalt nebula''"
definition demo_creds :: credentials where
  "demo_creds = \<lparr>crIndexPulumi = ''i'', crGitHub = ''g'', crCloudflare = [], crPulumi = ''p'',
     crAWSAccess = [], crAWSSecret = [], crAWSToken = []\<rparr>"
definition demo_made :: vault where
  "demo_made = \<lparr>vaPath = demo_path, vaScope = ''s'',
     vaKey = vault_key demo_vault demo_phrase (replicate 16 (CHR ''r'')), vaSalt = replicate 16 (CHR ''r'')\<rparr>"

lemma demo_create: "run honest_vault (vault_create demo_vault demo_path ''s'' demo_phrase) Map.empty = (Some (Inr demo_made), Map.empty)"
proof -
  have "validate_passphrase demo_vault demo_phrase = None" by code_simp
  then show ?thesis by (simp add: vault_create_def demo_made_def)
qed

lemma run_honest_lift: "run honest_vault (lift_calls VFile v_file p) s = run honest p s"
  by (induction p arbitrary: s) auto

lemma demo_write: "fst (run honest (vault_write demo_vault demo_path data) Map.empty) = Some None"
  by (simp add: vault_write_def removing_def fill_and_rename_def Let_def calm_def demo_path_def demo_vault_def)

lemma demo_saved: "fst (run honest_vault (vault_save demo_vault demo_made demo_creds) Map.empty) = Some None"
proof -
  have "length (creds_json demo_vault demo_creds) \<le> vault_limit div 2"
    by (simp add: demo_vault_def demo_creds_def demo_words_def length_std_encode base64_length_def vault_limit_def)
  moreover have "vault_cipher (vaKey demo_made)"
    by (simp add: vault_cipher_def demo_made_def vault_key_def demo_vault_def demo_phrase_def)
  moreover have "vaPath demo_made = demo_path" by (simp add: demo_made_def)
  ultimately show ?thesis
    by (auto simp: vault_save_def run_pbind run_honest_lift demo_write split: prod.split option.split)
      (use demo_write in \<open>auto simp: prod_eq_iff\<close>)
qed

lemma demo_unlocked: "\<exists>x. fst (run honest_vault (vault_unlock demo_vault demo_path ''s'' demo_phrase) s) = Some x"
  by (rule returns_run) (auto simp: vault_unlock_def Let_def split: option.split)

theorem vault_round_trip_witness:
  "\<exists>s1 s2 x s3. runs vault_step (vault_create demo_vault demo_path ''s'' demo_phrase) Map.empty (Inr demo_made) s1 \<and>
     runs vault_step (vault_save demo_vault demo_made demo_creds) s1 None s2 \<and>
     runs vault_step (vault_unlock demo_vault demo_path ''s'' demo_phrase) s2 x s3 \<and>
     (x = Inr (demo_made, demo_creds) \<or> (\<exists>e. x = Inl e \<and> file_trouble e))"
proof -
  have n: "vault_name demo_path" by code_simp
  note runs = run_runs [of vault_step honest_vault, OF honest_vault_step]
  have c: "runs vault_step (vault_create demo_vault demo_path ''s'' demo_phrase) Map.empty (Inr demo_made) Map.empty"
    by (rule runs [OF demo_create])
  obtain s2 where "run honest_vault (vault_save demo_vault demo_made demo_creds) Map.empty = (Some None, s2)"
    using demo_saved by (metis prod.collapse)
  then have sv: "runs vault_step (vault_save demo_vault demo_made demo_creds) Map.empty None s2" by (rule runs)
  obtain x s3 where "run honest_vault (vault_unlock demo_vault demo_path ''s'' demo_phrase) s2 = (Some x, s3)"
    using demo_unlocked by (metis prod.collapse)
  then have u: "runs vault_step (vault_unlock demo_vault demo_path ''s'' demo_phrase) s2 x s3" by (rule runs)
  from vault_round_trip [OF demo_vault_laws n c sv u] c sv u show ?thesis by blast
qed

theorem vault_replaced_witness:
  "during vault_step (old_or_saved demo_vault demo_made demo_creds None)
    (saved_if_ok demo_vault demo_made demo_creds) (vault_save demo_vault demo_made demo_creds) Map.empty"
  using vault_replaced [of demo_made demo_vault demo_creds Map.empty]
  by (simp add: demo_made_def demo_path_def vault_name_def has_suffix_def)

end
