(* ===== verification/Github.thy ===== *)
theory Github
  imports Golib
begin

text \<open>
  The client of GitHub's REST API: \<open>tools/deploy/internal/github/github_api.go\<close>. Preparing a request,
  sending it and sealing a secret (\<open>box.SealAnonymous\<close>, which draws randomness) are the calls
  \<open>gh_call\<close>; JSON and \<open>url.PathEscape\<close> are the functions of \<open>gh_lib\<close>. The listing of environments ends
  when a page is short, so it has a bound on the pages (\<open>Spin\<close> past it).
\<close>

record gh_request =
  gqMethod :: string
  gqURL :: string
  gqBody :: string
  gqHeaders :: "(string \<times> string) list"

datatype gh_call =
    GNew string string
  | GSend gh_request
  | GSeal string string \<comment> \<open>public key, secret\<close>

record gh_resp =
  g_ok :: bool
  g_answer :: "(int \<times> string) option" \<comment> \<open>status, the bytes read of the body; None: the client failed\<close>
  g_sealed :: "string option"

type_synonym 'a gh_prog = "(gh_call, gh_resp, 'a) prog"

record gh_lib =
  gl_path_escape :: "string \<Rightarrow> string"
  object_json :: "(string \<times> string) list \<Rightarrow> string" \<comment> \<open>json.Marshal of a map of strings\<close>
  parse_value :: "string \<Rightarrow> string option" \<comment> \<open>the field Value\<close>
  parse_public_key :: "string \<Rightarrow> (string \<times> string) option" \<comment> \<open>key, key_id\<close>
  parse_environments :: "string \<Rightarrow> string list option" \<comment> \<open>the names\<close>
  parse_total :: "string \<Rightarrow> int option" \<comment> \<open>total_count\<close>

record github =
  ghLib :: gh_lib
  ghToken :: string
  ghBase :: string

section \<open>Requests\<close>

definition gh_headers :: "github \<Rightarrow> (string \<times> string) list" where
  "gh_headers g = [(''Authorization'', ''Bearer '' @ ghToken g), (''Accept'', ''application/vnd.github+json''),
     (''X-GitHub-Api-Version'', ''2026-03-10''), (''Content-Type'', ''application/json'')]"

text \<open>\<open>None\<close>: a read found nothing; otherwise the status and the body the decoder may read.\<close>

definition gh_outcome :: "string \<Rightarrow> string \<Rightarrow> (int \<times> string) option \<Rightarrow> string + (int \<times> string) option" where
  "gh_outcome meth path x = (case x of
      None \<Rightarrow> Inl ''GitHub request failed; check connectivity (credentials are not printed)''
    | Some (status, body) \<Rightarrow>
        if status = 404 \<and> meth = ''GET'' then Inr None
        else if status < 200 \<or> status \<ge> 300
        then Inl (''GitHub '' @ meth @ '' '' @ path @ '' returned HTTP '' @ show_int status @
                  ''; check token permissions and repository access'')
        else Inr (Some (status, take (2 * 2 ^ 20) body)))"

definition gh_request :: "github \<Rightarrow> string \<Rightarrow> string \<Rightarrow> string \<Rightarrow> (string + (int \<times> string) option) gh_prog" where
  "gh_request g meth path body =
    Call (GNew meth (ghBase g @ path)) (\<lambda>r. if \<not> g_ok r then Ret (Inl ''could not prepare GitHub request'') else
    Call (GSend \<lparr>gqMethod = meth, gqURL = ghBase g @ path, gqBody = body, gqHeaders = gh_headers g\<rparr>) (\<lambda>r.
      Ret (gh_outcome meth path (g_answer r))))"

text \<open>A decoded answer; an answer without content leaves the zero value \<open>z\<close>.\<close>

definition gh_decode :: "(string \<Rightarrow> 'b option) \<Rightarrow> 'b \<Rightarrow> string + (int \<times> string) option \<Rightarrow> string + 'b option" where
  "gh_decode parse z x = (case x of
      Inl e \<Rightarrow> Inl e
    | Inr None \<Rightarrow> Inr None
    | Inr (Some (status, body)) \<Rightarrow>
        if status = 204 then Inr (Some z)
        else (case parse body of None \<Rightarrow> Inl ''invalid GitHub API response'' | Some v \<Rightarrow> Inr (Some v)))"

definition gh_found :: "string + (int \<times> string) option \<Rightarrow> string + bool" where
  "gh_found x = (case x of Inl e \<Rightarrow> Inl e | Inr y \<Rightarrow> Inr (y \<noteq> None))"

definition environment_path :: "github \<Rightarrow> string \<Rightarrow> string \<Rightarrow> string" where
  "environment_path g repo environment = ''/repos/'' @ repo @ ''/environments/'' @ gl_path_escape (ghLib g) environment"

section \<open>Environments\<close>

record gh_snapshot =
  gsExists :: bool
  gsVariables :: "string \<rightharpoonup> string"
  gsSecret :: bool

definition gh_variables :: "string list" where
  "gh_variables = [''AWS_ACCOUNT_ID'', ''AWS_ROLE_ARN'', ''AWS_REGION'', ''PULUMI_BACKEND_URL'', ''PULUMI_STACK'']"

definition secret_path :: "string \<Rightarrow> string" where
  "secret_path path = path @ ''/secrets/PULUMI_CONFIG_PASSPHRASE''"

text \<open>The snapshot so far, and the error that ended the inspection.\<close>

fun inspect_variables :: "github \<Rightarrow> string \<Rightarrow> string list \<Rightarrow> gh_snapshot \<Rightarrow>
    (gh_snapshot \<times> string option) gh_prog" where
  "inspect_variables g path [] s = pbind (gh_request g ''GET'' (secret_path path) []) (\<lambda>x.
     case gh_found x of Inl e \<Rightarrow> Ret (s, Some e) | Inr b \<Rightarrow> Ret (s\<lparr>gsSecret := b\<rparr>, None))"
| "inspect_variables g path (name # names) s =
     pbind (gh_request g ''GET'' (path @ ''/variables/'' @ name) []) (\<lambda>x.
       case gh_decode (parse_value (ghLib g)) [] x of
         Inl e \<Rightarrow> Ret (s, Some e)
       | Inr None \<Rightarrow> inspect_variables g path names s
       | Inr (Some v) \<Rightarrow> inspect_variables g path names (s\<lparr>gsVariables := (gsVariables s)(name \<mapsto> v)\<rparr>))"

definition no_snapshot :: gh_snapshot where
  "no_snapshot = \<lparr>gsExists = False, gsVariables = Map.empty, gsSecret = False\<rparr>"

definition inspect_environment :: "github \<Rightarrow> string \<Rightarrow> string \<Rightarrow> (gh_snapshot \<times> string option) gh_prog" where
  "inspect_environment g repo environment =
    (let path = environment_path g repo environment
     in pbind (gh_request g ''GET'' path []) (\<lambda>x. case gh_found x of
          Inl e \<Rightarrow> Ret (no_snapshot, Some e)
        | Inr False \<Rightarrow> Ret (no_snapshot, None)
        | Inr True \<Rightarrow> inspect_variables g path gh_variables (no_snapshot\<lparr>gsExists := True\<rparr>)))"

definition seal_secret :: "string \<Rightarrow> string \<Rightarrow> (string + string) gh_prog" where
  "seal_secret public_key secret = (case std_decode public_key of
     None \<Rightarrow> Ret (Inl ''invalid GitHub environment public key'')
   | Some raw \<Rightarrow> if length raw \<noteq> 32 then Ret (Inl ''invalid GitHub environment public key'') else
       Call (GSeal raw secret) (\<lambda>r. case g_sealed r of
         None \<Rightarrow> Ret (Inl ''could not encrypt environment secret'')
       | Some c \<Rightarrow> Ret (Inr (std_encode c))))"

section \<open>Saving an environment\<close>

text \<open>The names saved so far, and an error.\<close>

type_synonym saved_names = "string list \<times> string option"

definition map_value :: "(string \<rightharpoonup> string) \<Rightarrow> string \<Rightarrow> string" where
  "map_value m k = (case m k of None \<Rightarrow> [] | Some v \<Rightarrow> v)"

definition branch_policy :: string where
  "branch_policy = (let q = CHR 0x22 in
     ''{'' @ [q] @ ''deployment_branch_policy'' @ [q] @ '':{'' @ [q] @ ''custom_branch_policies'' @ [q] @ '':true,'' @
     [q] @ ''protected_branches'' @ [q] @ '':false}}'')"

definition create_environment :: "github \<Rightarrow> string \<Rightarrow> string \<Rightarrow> saved_names gh_prog" where
  "create_environment g path environment =
    pbind (gh_request g ''PUT'' path branch_policy) (\<lambda>x. case x of
      Inl e \<Rightarrow> Ret ([], Some e)
    | Inr _ \<Rightarrow> pbind (gh_request g ''POST'' (path @ ''/deployment-branch-policies'')
        (object_json (ghLib g) [(''name'', ''main''), (''type'', ''branch'')])) (\<lambda>x. case x of
          Inl e \<Rightarrow> Ret ([environment @ '' environment''], Some e)
        | Inr _ \<Rightarrow> Ret ([environment @ '' environment'', ''main branch restriction''], None)))"

definition variable_request :: "github \<Rightarrow> string \<Rightarrow> bool \<Rightarrow> string \<Rightarrow> string \<Rightarrow> (string + (int \<times> string) option) gh_prog" where
  "variable_request g path known name v =
    gh_request g (if known then ''PATCH'' else ''POST'')
      (path @ ''/variables'' @ (if known then ''/'' @ gl_path_escape (ghLib g) name else []))
      (object_json (ghLib g) [(''name'', name), (''value'', v)])"

fun save_variables :: "github \<Rightarrow> string \<Rightarrow> (string \<rightharpoonup> string) \<Rightarrow> (string \<rightharpoonup> string) \<Rightarrow> string list \<Rightarrow> string list \<Rightarrow>
    saved_names gh_prog" where
  "save_variables g path previous values [] saved = Ret (saved, None)"
| "save_variables g path previous values (name # names) saved =
    (if previous name = Some (map_value values name) then save_variables g path previous values names saved
     else pbind (variable_request g path (previous name \<noteq> None) name (map_value values name)) (\<lambda>x. case x of
       Inl e \<Rightarrow> Ret (saved, Some e)
     | Inr _ \<Rightarrow> save_variables g path previous values names (saved @ [name])))"

definition save_secret :: "github \<Rightarrow> string \<Rightarrow> string \<Rightarrow> string list \<Rightarrow> saved_names gh_prog" where
  "save_secret g path passphrase saved =
    (if passphrase = [] then Ret (saved, None) else
     pbind (gh_request g ''GET'' (path @ ''/secrets/public-key'') []) (\<lambda>x.
       case gh_decode (parse_public_key (ghLib g)) ([], []) x of
         Inl e \<Rightarrow> Ret (saved, Some e)
       | Inr None \<Rightarrow> Ret (saved, Some ''environment encryption key unavailable'')
       | Inr (Some (key, key_id)) \<Rightarrow>
           if key_id = [] then Ret (saved, Some ''environment encryption key unavailable'') else
           pbind (seal_secret key passphrase) (\<lambda>y. case y of
             Inl e \<Rightarrow> Ret (saved, Some e)
           | Inr encrypted \<Rightarrow> pbind (gh_request g ''PUT'' (secret_path path)
               (object_json (ghLib g) [(''encrypted_value'', encrypted), (''key_id'', key_id)])) (\<lambda>z. case z of
                 Inl e \<Rightarrow> Ret (saved, Some e)
               | Inr _ \<Rightarrow> Ret (saved @ [''PULUMI_CONFIG_PASSPHRASE''], None)))))"

definition verified_error :: "(string \<rightharpoonup> string) \<Rightarrow> gh_snapshot \<Rightarrow> string option" where
  "verified_error values after =
    (case filter (\<lambda>name. map_value (gsVariables after) name \<noteq> map_value values name) gh_variables of
       name # _ \<Rightarrow> Some (''verification failed for '' @ name)
     | [] \<Rightarrow> if gsSecret after then None else Some ''passphrase secret presence could not be verified'')"

definition save_environment :: "github \<Rightarrow> string \<Rightarrow> string \<Rightarrow> gh_snapshot \<Rightarrow> (string \<rightharpoonup> string) \<Rightarrow> string \<Rightarrow>
    saved_names gh_prog" where
  "save_environment g repo environment previous values passphrase =
    (let path = environment_path g repo environment in
     pbind (if gsExists previous then Ret ([], None) else create_environment g path environment) (\<lambda>(saved, e).
       if e \<noteq> None then Ret (saved, e) else
       pbind (save_variables g path (gsVariables previous) values gh_variables saved) (\<lambda>(saved, e).
         if e \<noteq> None then Ret (saved, e) else
         pbind (save_secret g path passphrase saved) (\<lambda>(saved, e).
           if e \<noteq> None then Ret (saved, e) else
           pbind (inspect_environment g repo environment) (\<lambda>(after, e).
             if e \<noteq> None then Ret (saved, e) else Ret (saved, verified_error values after))))))"

section \<open>Listing and deployments\<close>

definition environments_path :: "string \<Rightarrow> nat \<Rightarrow> string" where
  "environments_path repo page = ''/repos/'' @ repo @ ''/environments?per_page=100&page='' @ show_nat page"

fun environments_from :: "github \<Rightarrow> string \<Rightarrow> nat \<Rightarrow> string list \<Rightarrow> nat \<Rightarrow> (string + string list) gh_prog" where
  "environments_from g repo page acc 0 = Spin"
| "environments_from g repo page acc (Suc n) = pbind (gh_request g ''GET'' (environments_path repo page) []) (\<lambda>x.
     case gh_decode (parse_environments (ghLib g)) [] x of
       Inl e \<Rightarrow> Ret (Inl e)
     | Inr None \<Rightarrow> Ret (Inl ''cannot list repository environments; check token permissions'')
     | Inr (Some names) \<Rightarrow> if length names < 100 then Ret (Inr (acc @ names))
         else environments_from g repo (Suc page) (acc @ names) n)"

definition list_environments :: "nat \<Rightarrow> github \<Rightarrow> string \<Rightarrow> (string + string list) gh_prog" where
  "list_environments n g repo = environments_from g repo 1 [] n"

definition run_statuses :: "string list" where
  "run_statuses = [''queued'', ''in_progress'', ''waiting'', ''pending'', ''requested'']"

fun no_deployments :: "github \<Rightarrow> string \<Rightarrow> string list \<Rightarrow> string option gh_prog" where
  "no_deployments g repo [] = Ret None"
| "no_deployments g repo (status # ss) =
     pbind (gh_request g ''GET'' (''/repos/'' @ repo @ ''/actions/workflows/deploy.yml/runs?per_page=1&status='' @ status) [])
       (\<lambda>x. case gh_decode (parse_total (ghLib g)) 0 x of
         Inl e \<Rightarrow> Ret (Some e)
       | Inr None \<Rightarrow> Ret (Some ''cannot inspect Deploy workflow; no teardown authorized'')
       | Inr (Some n) \<Rightarrow> if n > 0
           then Ret (Some ''Deploy workflow has active or waiting runs; finish/cancel them before teardown'')
           else no_deployments g repo ss)"

definition ensure_no_deployments :: "github \<Rightarrow> string \<Rightarrow> string option gh_prog" where
  "ensure_no_deployments g repo = no_deployments g repo run_statuses"

definition shares :: "(string \<rightharpoonup> string) \<Rightarrow> gh_snapshot \<Rightarrow> bool" where
  "shares values other \<longleftrightarrow>
     map_value (gsVariables other) ''AWS_ROLE_ARN'' = map_value values ''AWS_ROLE_ARN'' \<or>
     (map_value (gsVariables other) ''PULUMI_BACKEND_URL'' = map_value values ''PULUMI_BACKEND_URL'' \<and>
      map_value (gsVariables other) ''PULUMI_STACK'' = map_value values ''PULUMI_STACK'')"

fun sharing_from :: "github \<Rightarrow> string \<Rightarrow> string \<Rightarrow> (string \<rightharpoonup> string) \<Rightarrow> string list \<Rightarrow> string option gh_prog" where
  "sharing_from g repo environment values [] = Ret None"
| "sharing_from g repo environment values (name # names) =
    (if name = environment then sharing_from g repo environment values names
     else pbind (inspect_environment g repo name) (\<lambda>(other, e). case e of
       Some e \<Rightarrow> Ret (Some e)
     | None \<Rightarrow> if shares values other
         then Ret (Some (''environment '' @ name @ '' shares this role or stack; resolve sharing before teardown''))
         else sharing_from g repo environment values names))"

definition check_sharing :: "nat \<Rightarrow> github \<Rightarrow> string \<Rightarrow> string \<Rightarrow> (string \<rightharpoonup> string) \<Rightarrow> string option gh_prog" where
  "check_sharing n g repo environment values = pbind (list_environments n g repo) (\<lambda>x. case x of
     Inl e \<Rightarrow> Ret (Some e)
   | Inr names \<Rightarrow> sharing_from g repo environment values names)"

end
