(* ===== verification/GithubProps.thy ===== *)
theory GithubProps
  imports Github
begin

text \<open>What the GitHub client promises to setup and to teardown.\<close>

section \<open>Saving an environment\<close>

definition changed_names :: "(string \<rightharpoonup> string) \<Rightarrow> (string \<rightharpoonup> string) \<Rightarrow> string list \<Rightarrow> string list" where
  "changed_names previous values names = filter (\<lambda>name. previous name \<noteq> Some (map_value values name)) names"

lemma save_variables_execs:
  "execs (save_variables g path previous values names saved) t (saved', None) \<Longrightarrow>
     saved' = saved @ changed_names previous values names"
proof (induction names arbitrary: saved t)
  case (Cons name names)
  from Cons.prems show ?case
    by (auto simp: changed_names_def [of _ _ "name # names"] execs_unfold split: if_splits
        dest!: Cons.IH) (simp_all add: changed_names_def)
qed (simp add: changed_names_def)

lemma save_secret_execs:
  "execs (save_secret g path passphrase saved) t (saved', None) \<Longrightarrow>
     saved' = saved @ (if passphrase = [] then [] else [''PULUMI_CONFIG_PASSPHRASE''])"
  by (auto simp: save_secret_def execs_unfold split: if_splits)

lemma create_environment_execs:
  "execs (create_environment g path environment) t (saved', None) \<Longrightarrow>
     saved' = [environment @ '' environment'', ''main branch restriction'']"
  by (auto simp: create_environment_def execs_unfold)

lemma verified_error_None:
  "verified_error values after = None \<longleftrightarrow>
     gsSecret after \<and> list_all (\<lambda>n. map_value (gsVariables after) n = map_value values n) gh_variables"
proof (cases "filter (\<lambda>n. map_value (gsVariables after) n \<noteq> map_value values n) gh_variables")
  case Nil
  then show ?thesis by (auto simp: verified_error_def filter_empty_conv list_all_iff)
next
  case (Cons n ns)
  then have "n \<in> set (filter (\<lambda>n. map_value (gsVariables after) n \<noteq> map_value values n) gh_variables)" by simp
  then have "\<not> list_all (\<lambda>n. map_value (gsVariables after) n = map_value values n) gh_variables"
    by (auto simp: list_all_iff)
  with Cons show ?thesis by (simp add: verified_error_def)
qed

definition saved_all :: "string \<Rightarrow> gh_snapshot \<Rightarrow> (string \<rightharpoonup> string) \<Rightarrow> string \<Rightarrow> string list" where
  "saved_all environment previous values passphrase =
     (if gsExists previous then [] else [environment @ '' environment'', ''main branch restriction'']) @
     changed_names (gsVariables previous) values gh_variables @
     (if passphrase = [] then [] else [''PULUMI_CONFIG_PASSPHRASE''])"

lemma execs_phase:
  "execs (pbind p (\<lambda>(s, e). if e \<noteq> None then Ret (s, e) else f s)) t (x, None) \<longleftrightarrow>
     (\<exists>t1 t2 s. t = t1 @ t2 \<and> execs p t1 (s, None) \<and> execs (f s) t2 (x, None))"
proof -
  have "execs (case a of (s, e) \<Rightarrow> if e \<noteq> None then Ret (s, e) else f s) t2 (x, None) \<longleftrightarrow>
      (\<exists>s. a = (s, None) \<and> execs (f s) t2 (x, None))" for a t2
    by (cases a; cases "snd a") auto
  then show ?thesis unfolding execs_pbind by auto
qed

text \<open>A GitHub environment is reported saved only when, after the last write, a complete inspection
  found every variable with the value asked for and the passphrase secret present; the names it
  returns then are the environment and its branch restriction if it was new, the variables whose
  value differed, and the secret if one was given.\<close>

theorem environment_saved:
  assumes "execs (save_environment g repo environment previous values passphrase) t (saved, None)"
  shows "saved = saved_all environment previous values passphrase \<and>
    (\<exists>t0 t1 after. t = t0 @ t1 \<and> execs (inspect_environment g repo environment) t1 (after, None) \<and>
       gsSecret after \<and> list_all (\<lambda>n. map_value (gsVariables after) n = map_value values n) gh_variables)"
proof -
  let ?path = "environment_path g repo environment"
  from assms [unfolded save_environment_def Let_def execs_phase]
  obtain t1 u1 s1 t2 u2 s2 t3 u3 saved' where t: "t = t1 @ u1" "u1 = t2 @ u2" "u2 = t3 @ u3"
    and c: "execs (if gsExists previous then Ret ([], None) else create_environment g ?path environment) t1 (s1, None)"
    and v: "execs (save_variables g ?path (gsVariables previous) values gh_variables s1) t2 (s2, None)"
    and p: "execs (save_secret g ?path passphrase s2) t3 (saved', None)"
    and f: "execs (pbind (inspect_environment g repo environment) (\<lambda>(after, e).
      if e \<noteq> None then Ret (saved', e) else Ret (saved', verified_error values after))) u3 (saved, None)"
    by blast
  from f obtain after where i: "execs (inspect_environment g repo environment) u3 (after, None)"
    and ok: "verified_error values after = None" and s: "saved' = saved"
    by (auto simp: execs_unfold split: if_splits)
  have "s1 = (if gsExists previous then [] else [environment @ '' environment'', ''main branch restriction''])"
    using c create_environment_execs by (auto split: if_splits)
  with save_variables_execs [OF v] save_secret_execs [OF p] s
  have "saved = saved_all environment previous values passphrase" by (simp add: saved_all_def)
  moreover have "t = (t1 @ t2 @ t3) @ u3" using t by simp
  ultimately show ?thesis using i ok unfolding verified_error_None by blast
qed

section \<open>Before a teardown\<close>

text \<open>
  GitHub's state while a teardown checks it: how many deployment runs have a status, the
  environments, and their variables. An honest GitHub answers a read with 404 only where there is
  nothing, and with a result only from that state; it may always fail. A page of environments has
  one hundred of them.
\<close>

record gh_world =
  gwRuns :: "string \<Rightarrow> int"
  gwEnvironments :: "string list"
  gwVariable :: "string \<Rightarrow> string \<Rightarrow> string option" \<comment> \<open>environment, name\<close>

definition runs_url :: "github \<Rightarrow> string \<Rightarrow> string \<Rightarrow> string" where
  "runs_url g repo status = ghBase g @ ''/repos/'' @ repo @
     ''/actions/workflows/deploy.yml/runs?per_page=1&status='' @ status"

definition page_url :: "github \<Rightarrow> string \<Rightarrow> nat \<Rightarrow> string" where
  "page_url g repo k = ghBase g @ ''/repos/'' @ repo @ ''/environments?per_page=100&page='' @ show_nat (Suc k)"

definition environment_url :: "github \<Rightarrow> string \<Rightarrow> string \<Rightarrow> string" where
  "environment_url g repo name = ghBase g @ ''/repos/'' @ repo @ ''/environments/'' @ gl_path_escape (ghLib g) name"

definition tells :: "gh_resp \<Rightarrow> (string \<Rightarrow> 'b option) \<Rightarrow> 'b option \<Rightarrow> bool" where
  "tells r parse v \<longleftrightarrow> (\<forall>status body. g_answer r = Some (status, body) \<longrightarrow>
     (status = 404 \<longrightarrow> v = None) \<and>
     (200 \<le> status \<and> status < 300 \<longrightarrow> status = 200 \<and>
        (\<exists>x. v = Some x \<and> parse (take (2 * 2 ^ 20) body) \<in> {None, Some x})))"

definition honest_answer :: "github \<Rightarrow> string \<Rightarrow> gh_world \<Rightarrow> string \<Rightarrow> gh_resp \<Rightarrow> bool" where
  "honest_answer g repo w url r \<longleftrightarrow>
     (\<forall>status. url = runs_url g repo status \<longrightarrow> tells r (parse_total (ghLib g)) (Some (gwRuns w status))) \<and>
     (\<forall>k. url = page_url g repo k \<longrightarrow>
        tells r (parse_environments (ghLib g)) (Some (take 100 (drop (100 * k) (gwEnvironments w))))) \<and>
     (\<forall>name. url = environment_url g repo name \<and> name \<in> set (gwEnvironments w) \<longrightarrow>
        (\<forall>body. g_answer r \<noteq> Some (404, body))) \<and>
     (\<forall>name key. url = environment_url g repo name @ ''/variables/'' @ key \<longrightarrow>
        tells r (parse_value (ghLib g)) (gwVariable w name key))"

definition gh_honest :: "github \<Rightarrow> string \<Rightarrow> gh_world \<Rightarrow> (gh_call \<times> gh_resp) list \<Rightarrow> bool" where
  "gh_honest g repo w h \<longleftrightarrow> (\<forall>q r. (GSend q, r) \<in> set h \<and> gqMethod q = ''GET'' \<longrightarrow>
     honest_answer g repo w (gqURL q) r)"

lemma honest_read:
  assumes "gh_honest g repo w t" "(GSend q, r) \<in> set t" "gqMethod q = ''GET''"
  shows "gqURL q = runs_url g repo status \<Longrightarrow> tells r (parse_total (ghLib g)) (Some (gwRuns w status))"
    "gqURL q = page_url g repo k \<Longrightarrow>
       tells r (parse_environments (ghLib g)) (Some (take 100 (drop (100 * k) (gwEnvironments w))))"
    "gqURL q = environment_url g repo name \<Longrightarrow> name \<in> set (gwEnvironments w) \<Longrightarrow> g_answer r \<noteq> Some (404, body)"
    "gqURL q = environment_url g repo name @ ''/variables/'' @ key \<Longrightarrow>
       tells r (parse_value (ghLib g)) (gwVariable w name key)"
proof -
  have "honest_answer g repo w (gqURL q) r" using assms unfolding gh_honest_def by blast
  note h = this [unfolded honest_answer_def]
  show "gqURL q = runs_url g repo status \<Longrightarrow> tells r (parse_total (ghLib g)) (Some (gwRuns w status))"
    using h by blast
  show "gqURL q = page_url g repo k \<Longrightarrow>
      tells r (parse_environments (ghLib g)) (Some (take 100 (drop (100 * k) (gwEnvironments w))))"
    using h by blast
  show "gqURL q = environment_url g repo name \<Longrightarrow> name \<in> set (gwEnvironments w) \<Longrightarrow> g_answer r \<noteq> Some (404, body)"
    using h by blast
  show "gqURL q = environment_url g repo name @ ''/variables/'' @ key \<Longrightarrow>
      tells r (parse_value (ghLib g)) (gwVariable w name key)"
    using h by blast
qed

text \<open>What the two checks are for: no run in a status in which it waits or works, and no other
  environment with the same role, or with the same backend and stack. An unset variable counts as empty.\<close>

definition no_run :: "gh_world \<Rightarrow> bool" where
  "no_run w \<longleftrightarrow> gwRuns w ''queued'' \<le> 0 \<and> gwRuns w ''in_progress'' \<le> 0 \<and> gwRuns w ''waiting'' \<le> 0 \<and>
     gwRuns w ''pending'' \<le> 0 \<and> gwRuns w ''requested'' \<le> 0"

definition differs :: "(string \<rightharpoonup> string) \<Rightarrow> (string \<rightharpoonup> string) \<Rightarrow> string \<Rightarrow> bool" where
  "differs u v key \<longleftrightarrow> (case u key of None \<Rightarrow> '''' | Some x \<Rightarrow> x) \<noteq> (case v key of None \<Rightarrow> '''' | Some x \<Rightarrow> x)"

definition shared_by_none :: "gh_world \<Rightarrow> string \<Rightarrow> (string \<rightharpoonup> string) \<Rightarrow> bool" where
  "shared_by_none w environment vals \<longleftrightarrow> (\<forall>name\<in>set (gwEnvironments w). name \<noteq> environment \<longrightarrow>
     differs (gwVariable w name) vals ''AWS_ROLE_ARN'' \<and>
     (differs (gwVariable w name) vals ''PULUMI_BACKEND_URL'' \<or> differs (gwVariable w name) vals ''PULUMI_STACK''))"

text \<open>The history shows, for each of the statuses, an answer without runs.\<close>

definition idle_shown :: "github \<Rightarrow> string \<Rightarrow> string \<Rightarrow> (gh_call \<times> gh_resp) list \<Rightarrow> bool" where
  "idle_shown g repo status h \<longleftrightarrow> (\<exists>q r code body n. (GSend q, r) \<in> set h \<and> gqMethod q = ''GET'' \<and>
     gqURL q = runs_url g repo status \<and> g_answer r = Some (code, body) \<and> 200 \<le> code \<and> code < 300 \<and>
     (code = 204 \<or> parse_total (ghLib g) (take (2 * 2 ^ 20) body) = Some n \<and> n \<le> 0))"

definition quiet_shown :: "github \<Rightarrow> string \<Rightarrow> (gh_call \<times> gh_resp) list \<Rightarrow> bool" where
  "quiet_shown g repo h \<longleftrightarrow> idle_shown g repo ''queued'' h \<and> idle_shown g repo ''in_progress'' h \<and>
     idle_shown g repo ''waiting'' h \<and> idle_shown g repo ''pending'' h \<and> idle_shown g repo ''requested'' h"

lemma idle_shown_mono: "idle_shown g repo status h \<Longrightarrow> set h \<subseteq> set h' \<Longrightarrow> idle_shown g repo status h'"
  unfolding idle_shown_def by blast

lemma gh_honest_append [simp]: "gh_honest g repo w (t @ u) \<longleftrightarrow> gh_honest g repo w t \<and> gh_honest g repo w u"
  unfolding gh_honest_def set_append Un_iff by blast

subsection \<open>Requests\<close>

lemma gh_get_execs:
  assumes "execs (gh_request g ''GET'' path body) t x"
  shows "(\<exists>e. x = Inl e) \<or> (\<exists>q r. (GSend q, r) \<in> set t \<and> gqMethod q = ''GET'' \<and> gqURL q = ghBase g @ path \<and>
     x = gh_outcome ''GET'' path (g_answer r))"
  using assms by (auto simp: gh_request_def execs_Call split: if_splits)

lemma outcome_Some: "gh_outcome meth path y = Inr (Some (status, b)) \<Longrightarrow>
    \<exists>body. y = Some (status, body) \<and> b = take (2 * 2 ^ 20) body \<and> 200 \<le> status \<and> status < 300"
  by (auto simp: gh_outcome_def split: option.splits if_splits)

lemma outcome_None: "gh_outcome meth path y = Inr None \<Longrightarrow> \<exists>body. y = Some (404, body)"
  by (auto simp: gh_outcome_def split: option.splits if_splits)

lemma decoded_Some:
  "gh_decode parse z x = Inr (Some v) \<Longrightarrow> \<exists>status b. x = Inr (Some (status, b)) \<and>
     (status = 204 \<and> v = z \<or> status \<noteq> 204 \<and> parse b = Some v)"
  by (auto simp: gh_decode_def split: sum.splits option.splits if_splits)

lemma decoded_None: "gh_decode parse z x = Inr None \<Longrightarrow> x = Inr None"
  by (auto simp: gh_decode_def split: sum.splits option.splits if_splits)

lemma told:
  assumes "execs (gh_request g ''GET'' path body) t x" "gh_decode parse z x = Inr v"
    and "\<And>q r. (GSend q, r) \<in> set t \<Longrightarrow> gqMethod q = ''GET'' \<Longrightarrow> gqURL q = ghBase g @ path \<Longrightarrow> tells r parse y"
  shows "v = y"
proof -
  from assms(2) have "\<nexists>e. x = Inl e" by (auto simp: gh_decode_def)
  with gh_get_execs [OF assms(1)] obtain q r where q: "(GSend q, r) \<in> set t" "gqMethod q = ''GET''"
    "gqURL q = ghBase g @ path" "x = gh_outcome ''GET'' path (g_answer r)" by blast
  from assms(3) [OF q(1-3)] have h: "tells r parse y" .
  show ?thesis
  proof (cases v)
    case None
    with decoded_None assms(2) q(4) have "gh_outcome ''GET'' path (g_answer r) = Inr None" by metis
    then obtain full where "g_answer r = Some (404, full)" using outcome_None by blast
    with h have "y = None" unfolding tells_def by blast
    with None show ?thesis by simp
  next
    case (Some a)
    from decoded_Some [OF assms(2) [unfolded Some]] obtain status b where b: "x = Inr (Some (status, b))"
      "status = 204 \<and> a = z \<or> status \<noteq> 204 \<and> parse b = Some a" by blast
    from outcome_Some [OF b(1) [unfolded q(4)]] obtain full where "g_answer r = Some (status, full)"
      "b = take (2 * 2 ^ 20) full" "200 \<le> status" "status < 300" by blast
    with h b(2) have "status = 200" "\<exists>x. y = Some x \<and> parse b \<in> {None, Some x}" by (auto simp: tells_def)
    with b(2) Some show ?thesis by auto
  qed
qed

subsection \<open>The two checks\<close>

lemma no_deployments_idle:
  "execs (no_deployments g repo ss) t None \<Longrightarrow> status \<in> set ss \<Longrightarrow> idle_shown g repo status t"
proof (induction ss arbitrary: t)
  case (Cons s ss)
  from Cons.prems(1) obtain t1 t2 x n where t: "t = t1 @ t2" "execs (gh_request g ''GET''
      (''/repos/'' @ repo @ ''/actions/workflows/deploy.yml/runs?per_page=1&status='' @ s) []) t1 x"
      "gh_decode (parse_total (ghLib g)) 0 x = Inr (Some n)" "\<not> n > 0" "execs (no_deployments g repo ss) t2 None"
    by (auto simp: execs_unfold split: if_splits)
  show ?case
  proof (cases "status = s")
    case True
    from decoded_Some [OF t(3)] obtain code b where b: "x = Inr (Some (code, b))"
      "code = 204 \<or> parse_total (ghLib g) b = Some n" by blast
    with gh_get_execs [OF t(2)] obtain q r where q: "(GSend q, r) \<in> set t1" "gqMethod q = ''GET''"
      "gqURL q = runs_url g repo s" "gh_outcome ''GET'' (''/repos/'' @ repo @
         ''/actions/workflows/deploy.yml/runs?per_page=1&status='' @ s) (g_answer r) = Inr (Some (code, b))"
      unfolding runs_url_def by auto
    from outcome_Some [OF q(4)] b(2) t(4) q(1-3) have "idle_shown g repo s t1"
      unfolding idle_shown_def by (metis linorder_not_less)
    then show ?thesis using True t(1) idle_shown_mono by fastforce
  next
    case False
    with Cons.prems(2) Cons.IH [OF t(5)] t(1) show ?thesis using idle_shown_mono by fastforce
  qed
qed simp

lemma quiet_execs:
  assumes "execs (ensure_no_deployments g repo) t None"
  shows "quiet_shown g repo t"
  using no_deployments_idle [OF assms [unfolded ensure_no_deployments_def]]
  by (simp add: quiet_shown_def run_statuses_def)

lemma idle_honest:
  assumes "idle_shown g repo status t" "gh_honest g repo w t"
  shows "gwRuns w status \<le> 0"
proof -
  from assms(1) obtain q r code body n where q: "(GSend q, r) \<in> set t" "gqMethod q = ''GET''"
     "gqURL q = runs_url g repo status" "g_answer r = Some (code, body)" "200 \<le> code" "code < 300"
     "code = 204 \<or> parse_total (ghLib g) (take (2 * 2 ^ 20) body) = Some n \<and> n \<le> 0"
    unfolding idle_shown_def by blast
  from honest_read(1) [OF assms(2) q(1,2,3)] have "tells r (parse_total (ghLib g)) (Some (gwRuns w status))" .
  with q(4-7) show ?thesis by (auto simp: tells_def)
qed

lemma environments_honest:
  assumes "execs (environments_from g repo (Suc k) acc n) t (Inr names)" "gh_honest g repo w t"
  shows "names = acc @ drop (100 * k) (gwEnvironments w)"
  using assms
proof (induction n arbitrary: k acc t)
  case (Suc n)
  from Suc.prems(1) obtain t1 t2 x where t: "t = t1 @ t2"
    and x1: "execs (gh_request g ''GET'' (environments_path repo (Suc k)) []) t1 x"
    and r: "execs (case gh_decode (parse_environments (ghLib g)) [] x of
       Inl e \<Rightarrow> Ret (Inl e)
     | Inr None \<Rightarrow> Ret (Inl ''cannot list repository environments; check token permissions'')
     | Inr (Some names) \<Rightarrow> if length names < 100 then Ret (Inr (acc @ names))
         else environments_from g repo (Suc (Suc k)) (acc @ names) n) t2 (Inr names)"
    unfolding environments_from.simps execs_pbind by blast
  from r obtain page where x2: "gh_decode (parse_environments (ghLib g)) [] x = Inr (Some page)"
    and n: "execs (if length page < 100 then Ret (Inr (acc @ page))
       else environments_from g repo (Suc (Suc k)) (acc @ page) n) t2 (Inr names)"
    by (auto split: sum.splits option.splits)
  note x = x1 x2
  from t Suc.prems(2) have w: "gh_honest g repo w t1" "gh_honest g repo w t2" by simp_all
  have "Some page = Some (take 100 (drop (100 * k) (gwEnvironments w)))"
    by (rule told [OF x], rule honest_read(2) [OF w(1)]) (simp_all add: page_url_def environments_path_def)
  then have page: "page = take 100 (drop (100 * k) (gwEnvironments w))" by simp
  show ?case
  proof (cases "length page < 100")
    case True
    with n have "names = acc @ page" by simp
    moreover have "page = drop (100 * k) (gwEnvironments w)" using True page by auto
    ultimately show ?thesis by simp
  next
    case False
    with n have "execs (environments_from g repo (Suc (Suc k)) (acc @ page) n) t2 (Inr names)" by simp
    from Suc.IH [OF this w(2)] have "names = (acc @ page) @ drop 100 (drop (100 * k) (gwEnvironments w))"
      by (simp add: add.commute)
    then show ?thesis unfolding page by (simp only: append_assoc append_take_drop_id)
  qed
qed simp

lemma variables_honest:
  assumes "execs (inspect_variables g (environment_path g repo name) keys s) t (s', None)" "gh_honest g repo w t"
    and "distinct keys" "\<forall>k\<in>set keys. gsVariables s k = None"
  shows "gsVariables s' key = (if key \<in> set keys then gwVariable w name key else gsVariables s key)"
  using assms
proof (induction keys arbitrary: s t)
  case Nil
  then show ?case by (auto simp: execs_unfold)
next
  case (Cons k keys)
  from Cons.prems(1) obtain t1 t2 x where t: "t = t1 @ t2"
    and x1: "execs (gh_request g ''GET'' (environment_path g repo name @ ''/variables/'' @ k) []) t1 x"
    and r: "execs (case gh_decode (parse_value (ghLib g)) [] x of
         Inl e \<Rightarrow> Ret (s, Some e)
       | Inr None \<Rightarrow> inspect_variables g (environment_path g repo name) keys s
       | Inr (Some v) \<Rightarrow> inspect_variables g (environment_path g repo name) keys
           (s\<lparr>gsVariables := (gsVariables s)(k \<mapsto> v)\<rparr>)) t2 (s', None)"
    unfolding inspect_variables.simps execs_pbind by blast
  from r obtain v where x2: "gh_decode (parse_value (ghLib g)) [] x = Inr v"
    and n: "execs (inspect_variables g (environment_path g repo name) keys
       (case v of None \<Rightarrow> s | Some y \<Rightarrow> s\<lparr>gsVariables := (gsVariables s)(k \<mapsto> y)\<rparr>)) t2 (s', None)"
    by (auto split: sum.splits option.splits)
  note x = x1 x2
  from t Cons.prems(2) have w: "gh_honest g repo w t1" "gh_honest g repo w t2" by simp_all
  have v: "v = gwVariable w name k"
    by (rule told [OF x], rule honest_read(4) [OF w(1)]) (simp_all add: environment_url_def environment_path_def)
  have "gsVariables s' key = (if key \<in> set keys then gwVariable w name key
      else gsVariables (case v of None \<Rightarrow> s | Some y \<Rightarrow> s\<lparr>gsVariables := (gsVariables s)(k \<mapsto> y)\<rparr>) key)"
    by (rule Cons.IH [OF n w(2)]) (use Cons.prems(3,4) in \<open>auto split: option.split\<close>)
  with v Cons.prems(3,4) show ?case by (auto split: option.splits)
qed

lemma inspected_honest:
  assumes "execs (inspect_environment g repo name) t (other, None)" "gh_honest g repo w t"
    and "name \<in> set (gwEnvironments w)" "key \<in> set gh_variables"
  shows "gsVariables other key = gwVariable w name key"
proof -
  from assms(1) obtain t1 t2 x where t: "t = t1 @ t2"
    "execs (gh_request g ''GET'' (environment_path g repo name) []) t1 x"
    and r: "execs (case gh_found x of
          Inl e \<Rightarrow> Ret (no_snapshot, Some e)
        | Inr False \<Rightarrow> Ret (no_snapshot, None)
        | Inr True \<Rightarrow> inspect_variables g (environment_path g repo name) gh_variables
            (no_snapshot\<lparr>gsExists := True\<rparr>)) t2 (other, None)"
    unfolding inspect_environment_def Let_def execs_pbind by blast
  from r obtain found where f: "gh_found x = Inr found"
    and n: "found \<Longrightarrow> execs (inspect_variables g (environment_path g repo name) gh_variables
       (no_snapshot\<lparr>gsExists := True\<rparr>)) t2 (other, None)"
    by (auto split: sum.splits bool.splits)
  have found
  proof (rule ccontr)
    assume "\<not> found"
    with f have "x = Inr None" by (auto simp: gh_found_def simp del: not_None_eq split: sum.splits)
    with gh_get_execs [OF t(2)] obtain q r where q: "(GSend q, r) \<in> set t1" "gqMethod q = ''GET''"
      "gqURL q = environment_url g repo name" "gh_outcome ''GET'' (environment_path g repo name) (g_answer r) = Inr None"
      unfolding environment_url_def environment_path_def by auto
    from assms(2) t(1) have w: "gh_honest g repo w t1" by simp
    from outcome_None [OF q(4)] honest_read(3) [OF w q(1-3) assms(3)] show False by blast
  qed
  from variables_honest [OF n [OF this], of w key] t(1) assms(2,4) show ?thesis
    by (simp add: no_snapshot_def) (simp add: gh_variables_def)
qed

lemma shares_differs:
  "\<not> shares vals other \<longleftrightarrow> differs (gsVariables other) vals ''AWS_ROLE_ARN'' \<and>
     (differs (gsVariables other) vals ''PULUMI_BACKEND_URL'' \<or> differs (gsVariables other) vals ''PULUMI_STACK'')"
  by (auto simp: shares_def differs_def map_value_def)

lemma sharing_honest:
  assumes "execs (sharing_from g repo environment vals names) t None" "gh_honest g repo w t"
    and "set names \<subseteq> set (gwEnvironments w)" "name \<in> set names" "name \<noteq> environment"
  shows "differs (gwVariable w name) vals ''AWS_ROLE_ARN'' \<and>
     (differs (gwVariable w name) vals ''PULUMI_BACKEND_URL'' \<or> differs (gwVariable w name) vals ''PULUMI_STACK'')"
  using assms
proof (induction names arbitrary: t)
  case (Cons n names)
  show ?case
  proof (cases "n = environment")
    case False
    with Cons.prems(1) obtain t1 t2 other where t: "t = t1 @ t2" "execs (inspect_environment g repo n) t1 (other, None)"
        "\<not> shares vals other" "execs (sharing_from g repo environment vals names) t2 None"
      by (auto simp: execs_unfold split: if_splits)
    show ?thesis
    proof (cases "name = n")
      case True
      have "gsVariables other key = gwVariable w n key" if "key \<in> set gh_variables" for key
        by (rule inspected_honest [OF t(2) _ _ that]) (use t(1) Cons.prems(2,3) in auto)
      then have "gsVariables other ''AWS_ROLE_ARN'' = gwVariable w n ''AWS_ROLE_ARN''"
        "gsVariables other ''PULUMI_BACKEND_URL'' = gwVariable w n ''PULUMI_BACKEND_URL''"
        "gsVariables other ''PULUMI_STACK'' = gwVariable w n ''PULUMI_STACK''"
        by (simp_all add: gh_variables_def)
      with t(3) True show ?thesis unfolding shares_differs differs_def by simp
    qed (use Cons t in auto)
  qed (use Cons in auto)
qed simp

text \<open>C29: Teardown of an environment goes on only when nothing else depends on it. If both checks pass,
  then, of whatever GitHub honestly answered from its state, no deployment run is queued, in progress,
  waiting, pending or requested, and no other environment of the repository, on whichever page of the
  listing, has the role of this one, or its backend together with its stack.\<close>

theorem teardown_alone:
  assumes "execs (ensure_no_deployments g repo) t None"
    and "execs (check_sharing n g repo environment vals) u None" "gh_honest g repo w (t @ u)"
  shows "no_run w \<and> shared_by_none w environment vals"
proof
  from assms(3) have w: "gh_honest g repo w t" "gh_honest g repo w u" by simp_all
  show "no_run w"
    using quiet_execs [OF assms(1)] idle_honest [OF _ w(1)] by (simp add: quiet_shown_def no_run_def)
  from assms(2) obtain u0 u1 names where u: "u = u0 @ u1" "execs (list_environments n g repo) u0 (Inr names)"
      "execs (sharing_from g repo environment vals names) u1 None"
    by (auto simp: check_sharing_def execs_unfold)
  with w(2) have "names = gwEnvironments w"
    using environments_honest [of g repo 0 "[]" n u0 names w] by (simp add: list_environments_def)
  with sharing_honest [OF u(3), of w] u(1) w(2) show "shared_by_none w environment vals"
    by (simp add: shared_by_none_def)
qed

section \<open>A concrete exchange\<close>

definition demo_gh :: github where
  "demo_gh = \<lparr>ghLib = \<lparr>gl_path_escape = id, object_json = (\<lambda>m. concat (map snd m)), parse_value = Some,
     parse_public_key = (\<lambda>s. Some (s, s)), parse_environments = (\<lambda>s. Some [''dev'', ''prod'']),
     parse_total = (\<lambda>s. Some 0)\<rparr>, ghToken = ''t'', ghBase = ''b''\<rparr>"

definition demo_answers :: "gh_call \<Rightarrow> unit \<Rightarrow> gh_resp \<times> unit" where
  "demo_answers q s = (\<lparr>g_ok = True, g_answer = Some (200, ''v''), g_sealed = Some ''c''\<rparr>, ())"

definition demo_values :: "string \<rightharpoonup> string" where "demo_values = (\<lambda>k. Some ''v'')"
definition other_values :: "string \<rightharpoonup> string" where "other_values = (\<lambda>k. Some ''w'')"

lemma demo_request: "run demo_answers (pbind (gh_request demo_gh meth path body) k) s =
    run demo_answers (k (gh_outcome meth path (Some (200, ''v'')))) ()"
  by (simp add: gh_request_def demo_answers_def)

lemma demo_found: "gh_found (gh_outcome meth path (Some (200, ''v''))) = Inr True"
  by (simp add: gh_outcome_def gh_found_def)

lemma demo_decoded: "parse ''v'' = Some v \<Longrightarrow> gh_decode parse z (gh_outcome meth path (Some (200, ''v''))) = Inr (Some v)"
  by (simp add: gh_outcome_def gh_decode_def)

lemma demo_inspected: "\<exists>after. run demo_answers (inspect_environment demo_gh repo environment) s = (Some (after, None), ()) \<and>
    gsSecret after \<and> (\<forall>n\<in>set gh_variables. gsVariables after n = Some ''v'')"
  by (simp add: inspect_environment_def Let_def gh_variables_def demo_request demo_found
      demo_decoded [where v = "''v''"] demo_gh_def [THEN arg_cong [of _ _ ghLib]])

lemma demo_run_execs: "run demo_answers p () = (Some a, u) \<Longrightarrow> execs p (trace_of demo_answers p ()) a"
  by (rule run_execs) simp

theorem environment_saved_witness:
  "\<exists>t. execs (save_environment demo_gh ''o/r'' ''dev'' \<lparr>gsExists = True, gsVariables = demo_values, gsSecret = True\<rparr>
       demo_values []) t ([], None) \<and>
     (\<exists>t0 t1 after. t = t0 @ t1 \<and> execs (inspect_environment demo_gh ''o/r'' ''dev'') t1 (after, None) \<and> gsSecret after)"
proof -
  let ?p = "save_environment demo_gh ''o/r'' ''dev'' \<lparr>gsExists = True, gsVariables = demo_values, gsSecret = True\<rparr> demo_values []"
  obtain after where i: "run demo_answers (inspect_environment demo_gh ''o/r'' ''dev'') () = (Some (after, None), ())"
      "gsSecret after" "\<forall>n\<in>set gh_variables. gsVariables after n = Some ''v''"
    using demo_inspected by blast
  then have "verified_error demo_values after = None"
    unfolding verified_error_None by (auto simp: list_all_iff map_value_def demo_values_def)
  moreover have "save_variables demo_gh path demo_values demo_values gh_variables [] = Ret ([], None)" for path
    by (simp add: gh_variables_def demo_values_def map_value_def)
  ultimately have "run demo_answers ?p () = (Some ([], None), ())"
    using i(1) by (simp add: save_environment_def save_secret_def run_pbind)
  from demo_run_execs [OF this] environment_saved [OF this [THEN demo_run_execs]] show ?thesis by blast
qed

text \<open>A repository with a second environment, of another role, and without runs.\<close>

definition calm_gh :: github where
  "calm_gh = \<lparr>ghLib = \<lparr>gl_path_escape = id, object_json = (\<lambda>m. []), parse_value = (\<lambda>s. Some ''v''),
     parse_public_key = (\<lambda>s. None), parse_environments = (\<lambda>s. Some (if s = ''e'' then [''dev'', ''prod''] else [])),
     parse_total = (\<lambda>s. Some 0)\<rparr>, ghToken = ''t'', ghBase = ''b''\<rparr>"

definition first_page :: string where
  "first_page = ''/repos/o/r/environments?per_page=100&page=1''"

definition calm_answers :: "gh_call \<Rightarrow> unit \<Rightarrow> gh_resp \<times> unit" where
  "calm_answers q s = (\<lparr>g_ok = True, g_answer = Some (200, case q of
     GSend r \<Rightarrow> if gqURL r = ''b'' @ first_page then ''e'' else ''v'' | _ \<Rightarrow> []), g_sealed = None\<rparr>, ())"

definition calm_state :: gh_world where
  "calm_state = \<lparr>gwRuns = (\<lambda>status. 0), gwEnvironments = [''dev'', ''prod''], gwVariable = (\<lambda>name key. Some ''v'')\<rparr>"

lemma calm_base: "ghBase calm_gh = ''b''"
  by (simp add: calm_gh_def)

lemma calm_request: "run calm_answers (pbind (gh_request calm_gh ''GET'' path []) k) s =
    run calm_answers (k (Inr (Some (200, if path = first_page then ''e'' else ''v'')))) ()"
  by (simp add: gh_request_def calm_answers_def calm_base gh_outcome_def)

lemma calm_decoded:
  "gh_decode (parse_value (ghLib calm_gh)) z (Inr (Some (200, b))) = Inr (Some ''v'')"
  "gh_decode (parse_total (ghLib calm_gh)) n (Inr (Some (200, b))) = Inr (Some 0)"
  "gh_decode (parse_environments (ghLib calm_gh)) l (Inr (Some (200, ''e''))) = Inr (Some [''dev'', ''prod''])"
  "gh_found (Inr (Some y)) = Inr True"
  by (simp_all add: gh_decode_def calm_gh_def gh_found_def)

lemma calm_inspected: "\<exists>after. run calm_answers (inspect_environment calm_gh repo environment) s = (Some (after, None), ()) \<and>
    (\<forall>n\<in>set gh_variables. gsVariables after n = Some ''v'')"
  by (simp add: inspect_environment_def Let_def gh_variables_def calm_request calm_decoded)

lemma show_digit: "show_nat (Suc 0) = ''1''"
  by code_simp

lemma calm_page: "page_url calm_gh ''o/r'' k = ''b'' @ first_page \<longleftrightarrow> k = 0"
proof -
  have "show_nat (Suc k) = ''1'' \<longleftrightarrow> k = 0"
    using show_nat_inj [of "Suc k" "Suc 0"] by (auto simp: show_digit)
  then show ?thesis by (simp add: page_url_def first_page_def calm_base)
qed

lemma trace_answers: "(q, r) \<in> set (trace_of H p ()) \<Longrightarrow> r = fst (H q ())"
  by (induction p) auto

lemma calm_tells:
  assumes "parse (if gqURL q = ''b'' @ first_page then ''e'' else ''v'') = Some x"
  shows "tells (fst (calm_answers (GSend q) ())) parse (Some x)"
  using assms by (auto simp: tells_def calm_answers_def)

lemma calm_honest: "gh_honest calm_gh ''o/r'' calm_state (trace_of calm_answers p ())"
proof -
  have pages: "parse_environments (ghLib calm_gh) (if page_url calm_gh ''o/r'' k = ''b'' @ first_page then ''e'' else ''v'') =
      Some (take 100 (drop (100 * k) (gwEnvironments calm_state)))" for k
    unfolding calm_page by (cases k) (simp_all add: calm_gh_def calm_state_def)
  have others: "parse_total (ghLib calm_gh) b = Some (gwRuns calm_state status)"
    "parse_value (ghLib calm_gh) b = Some ''v''" "gwVariable calm_state name key = Some ''v''" for b status name key
    by (simp_all add: calm_gh_def calm_state_def)
  have "g_answer (fst (calm_answers (GSend q) ())) \<noteq> Some (404, body)" for q body
    by (simp add: calm_answers_def)
  moreover have "tells (fst (calm_answers (GSend q) ())) (parse_environments (ghLib calm_gh))
      (Some (take 100 (drop (100 * k) (gwEnvironments calm_state))))" if "gqURL q = page_url calm_gh ''o/r'' k" for q k
    by (rule calm_tells) (simp only: that pages)
  ultimately have "honest_answer calm_gh ''o/r'' calm_state (gqURL q) (fst (calm_answers (GSend q) ()))" for q
    unfolding honest_answer_def others(3) using calm_tells [OF others(1)] calm_tells [OF others(2)] by simp
  then show ?thesis unfolding gh_honest_def using trace_answers by metis
qed

theorem teardown_alone_witness:
  "no_run calm_state \<and> shared_by_none calm_state ''dev'' other_values"
proof -
  have "run calm_answers (ensure_no_deployments calm_gh ''o/r'') () = (Some None, ())"
    by (simp add: ensure_no_deployments_def run_statuses_def calm_request calm_decoded)
  then have idle: "execs (ensure_no_deployments calm_gh ''o/r'') (trace_of calm_answers (ensure_no_deployments calm_gh ''o/r'') ()) None"
    by (intro run_execs) simp
  obtain other where i: "run calm_answers (inspect_environment calm_gh ''o/r'' ''prod'') () = (Some (other, None), ())"
      "\<forall>n\<in>set gh_variables. gsVariables other n = Some ''v''"
    using calm_inspected by blast
  then have "\<not> shares other_values other"
    by (simp add: shares_def map_value_def other_values_def gh_variables_def)
  moreover have "environments_path ''o/r'' 1 = first_page"
    by (simp add: environments_path_def first_page_def show_digit)
  ultimately have "run calm_answers (check_sharing 1 calm_gh ''o/r'' ''dev'' other_values) () = (Some None, ())"
    using i(1) by (simp add: check_sharing_def list_environments_def run_pbind [of _ _ "\<lambda>x. case x of Inl e \<Rightarrow> _ e | Inr n \<Rightarrow> _ n"]
      calm_request calm_decoded run_pbind [of _ "inspect_environment _ _ _"])
  then have alone: "execs (check_sharing 1 calm_gh ''o/r'' ''dev'' other_values)
      (trace_of calm_answers (check_sharing 1 calm_gh ''o/r'' ''dev'' other_values) ()) None"
    by (intro run_execs) simp
  show ?thesis by (rule teardown_alone [OF idle alone]) (simp add: calm_honest)
qed

end
