(* ===== verification/Workflow.thy ===== *)
theory Workflow
  imports Dns Github Vault
begin

text \<open>
  The calls of the deployment tool's workflows (\<open>tools/deploy/internal/workflow\<close>) and its client of
  the AWS command line (\<open>tools/deploy/internal/aws/client.go\<close>). Commands, prompts, files, GitHub,
  Cloudflare and the environment index are the constructors of \<open>wf_call\<close>; the clients of the last
  three run under a constructor of their own. JSON is the functions of \<open>wf_lib\<close>: a function per shape
  the sources decode into, and \<open>jval\<close> for documents that are compared as a whole.
\<close>

datatype wf_err =
    WRemains \<comment> \<open>\<open>errTeardownResourceRemains\<close>\<close>
  | WAwsError string string \<comment> \<open>\<open>aws.Error\<close>: operation, code\<close>
  | WText string
  | WFileError file_error

definition err_text :: "wf_err \<Rightarrow> string" where
  "err_text e = (case e of
      WRemains \<Rightarrow> ''resource still exists''
    | WAwsError operation code \<Rightarrow> ''AWS '' @ operation @ '': '' @ code @ '' (check permissions/session; completed changes retained)''
    | WText s \<Rightarrow> s
    | WFileError e \<Rightarrow> (case e of FNotExist \<Rightarrow> ''file does not exist'' | FFailed s \<Rightarrow> s))"

record runner =
  rnBackend :: string
  rnRegion :: string
  rnPassphrase :: string

datatype wf_call =
    WAws string "string list" \<comment> \<open>the AWS command line: region of its environment, arguments\<close>
  | WExec runner string "string list" \<comment> \<open>\<open>commandRunner.Exec\<close>: directory, command and arguments\<close>
  | WGithub gh_call
  | WDns dns_call
  | WVault vault_call
  | WFile file_call
  | WLstat string
  | WInput string \<comment> \<open>a prompt\<close>
  | WConfirm string \<comment> \<open>a yes/no prompt\<close>
  | WNow
  | WSleep nat \<comment> \<open>seconds\<close>
  | WIndex string string string int \<comment> \<open>\<open>registry.Client.Change\<close>: operation, environment, token, revision\<close>
  | WIndexRead string \<comment> \<open>GET of the public index\<close>
  | WGlob string \<comment> \<open>\<open>filepath.Glob\<close>, whose error is dropped\<close>
  | WRandom nat \<comment> \<open>\<open>rand.Read\<close> of that many bytes\<close>

record wf_resp =
  w_stdout :: string
  w_stderr :: "string option" \<comment> \<open>None: the AWS command succeeded\<close>
  w_exec :: "wf_err + string"
  w_gh :: gh_resp
  w_dns :: dns_resp
  w_vault :: vault_resp
  w_file :: file_resp
  w_input :: "wf_err + string"
  w_confirm :: "wf_err + bool"
  w_now :: string
  w_index :: "wf_err + string \<times> int" \<comment> \<open>the receipt: token, revision\<close>
  w_read :: "wf_err + int \<times> string" \<comment> \<open>status and body\<close>
  w_glob :: "string list"
  w_random :: "wf_err + string"

type_synonym 'a wf_prog = "(wf_call, wf_resp, 'a) prog"

section \<open>The AWS command line\<close>

definition aws_flags :: "string list" where
  "aws_flags = [''--output'', ''json'', ''--no-cli-pager'', ''--cli-connect-timeout'', ''10'', ''--cli-read-timeout'', ''30'']"

text \<open>The submatch of \<open>\(([A-Za-z0-9.]+)\) when calling\<close>.\<close>

fun error_code :: "string \<Rightarrow> string option" where
  "error_code [] = None"
| "error_code (c # s) =
    (let code = takeWhile (\<lambda>x. is_alnum x \<or> x = CHR ''.'') s
     in if c = CHR ''('' \<and> code \<noteq> [] \<and> has_prefix (drop (length code) s) '') when calling'' then Some code
        else error_code s)"

datatype aws_answer =
    AwsFail wf_err
  | AwsMissing
  | AwsDone string \<comment> \<open>standard output\<close>

definition operation_of :: "string list \<Rightarrow> string" where
  "operation_of args = (case take 2 args of [] \<Rightarrow> [] | [a] \<Rightarrow> a | a # b # _ \<Rightarrow> a @ '' '' @ b)"

text \<open>\<open>renew\<close> is \<open>RenewalFailure\<close>, which knows the environment.\<close>

definition aws_outcome :: "(string \<Rightarrow> string option) \<Rightarrow> string list \<Rightarrow> string option \<Rightarrow> string \<Rightarrow> aws_answer" where
  "aws_outcome renew args failed out = (case failed of
      None \<Rightarrow> AwsDone out
    | Some stderr \<Rightarrow> (case renew stderr of
        Some e \<Rightarrow> AwsFail (WText e)
      | None \<Rightarrow> (case error_code stderr of
          Some code \<Rightarrow> if code = ''NoSuchEntity'' then AwsMissing else AwsFail (WAwsError (operation_of args) code)
        | None \<Rightarrow> AwsFail (WText (''AWS '' @ operation_of args @
            '' failed; check AWS CLI installation, connectivity and session'')))))"

text \<open>A call of \<open>API.Call\<close>; a result that is not wanted is not decoded.\<close>

definition aws_found :: "aws_answer \<Rightarrow> wf_err + bool" where
  "aws_found x = (case x of AwsFail e \<Rightarrow> Inl e | AwsMissing \<Rightarrow> Inr False | AwsDone out \<Rightarrow> Inr True)"

definition aws_decode :: "(string \<Rightarrow> 'b option) \<Rightarrow> aws_answer \<Rightarrow> wf_err + 'b option" where
  "aws_decode parse x = (case x of
      AwsFail e \<Rightarrow> Inl e
    | AwsMissing \<Rightarrow> Inr None
    | AwsDone out \<Rightarrow> (case parse out of None \<Rightarrow> Inl (WText ''invalid AWS response'') | Some v \<Rightarrow> Inr (Some v)))"

definition aws_error :: "wf_err + 'b \<Rightarrow> wf_err option" where
  "aws_error x = (case x of Inl e \<Rightarrow> Some e | Inr _ \<Rightarrow> None)"

section \<open>Documents\<close>

text \<open>A decoded JSON value; the members of an object are listed by key, as \<open>json.Marshal\<close> writes them.\<close>

datatype jval =
    JNull
  | JBool bool
  | JNumber string
  | JString string
  | JArray "jval list"
  | JObject "(string \<times> jval) list"

type_synonym raw_object = "(string \<times> string) list" \<comment> \<open>\<open>map[string]json.RawMessage\<close>\<close>

record resource = \<comment> \<open>of a Pulumi stack export\<close>
  rsType :: string
  rsURN :: string
  rsID :: string
  rsExternal :: bool
  rsRetain :: bool
  rsProvider :: string
  rsInputs :: raw_object
  rsOutputs :: raw_object

record role_snapshot =
  roArn :: string
  roTrust :: jval
  roTags :: "(string \<times> string) list"

record version_page =
  vpObjects :: "(string \<times> string) list" \<comment> \<open>Key, VersionId: the versions, then the delete markers\<close>
  vpTruncated :: bool

record dns_option =
  doName :: string
  doType :: string
  doValue :: string

text \<open>In the decoders of exports, the outer \<open>option\<close> is an error, then come the pointers or slices
  that may be nil.\<close>

record wf_lib =
  wlRenew :: "string \<Rightarrow> string \<Rightarrow> string option" \<comment> \<open>region, standard error\<close>
  wlGo :: golib
  wlVault :: vault_lib
  json_string :: "string \<Rightarrow> string option"
  json_strings :: "string \<Rightarrow> string list option"
  json_object :: "string \<Rightarrow> raw_object option"
  json_items :: "string \<Rightarrow> string list option option"
  string_map_json :: "(string \<times> string) list \<Rightarrow> string"
  parse_entries :: "string \<Rightarrow> (string \<times> string) list option" \<comment> \<open>Name, Type\<close>
  parse_inventory :: "string \<Rightarrow> resource list option option option" \<comment> \<open>deployment, its resources\<close>
  parse_types :: "string \<Rightarrow> string list option option" \<comment> \<open>deployment, the types\<close>
  parse_evidence :: "string \<Rightarrow> resource list option option"
  parse_dns_options :: "string \<Rightarrow> dns_option list option"
  parse_target :: "string \<Rightarrow> string option" \<comment> \<open>TargetDomainName\<close>
  parse_role :: "string \<Rightarrow> role_snapshot option"
  parse_page :: "string \<Rightarrow> version_page option"
  parse_list :: "string \<Rightarrow> (string list \<times> bool) option" \<comment> \<open>the named list and IsTruncated\<close>
  parse_deleted :: "string \<Rightarrow> nat option" \<comment> \<open>length of Errors\<close>
  delete_payload :: "(string \<times> string) list \<Rightarrow> string"
  parse_stacks :: "string \<Rightarrow> string list option option" \<comment> \<open>the names; nil\<close>
  parse_index :: "string \<Rightarrow> (int \<times> string list option) option" \<comment> \<open>SchemaVersion, the IDs\<close>

definition aws :: "wf_lib \<Rightarrow> string \<Rightarrow> string list \<Rightarrow> (aws_answer \<Rightarrow> 'a wf_prog) \<Rightarrow> 'a wf_prog" where
  "aws W region args k = Call (WAws region (args @ aws_flags)) (\<lambda>r.
     k (aws_outcome (wlRenew W region) args (w_stderr r) (w_stdout r)))"

definition exec :: "runner \<Rightarrow> string \<Rightarrow> string list \<Rightarrow> (wf_err + string \<Rightarrow> 'a wf_prog) \<Rightarrow> 'a wf_prog" where
  "exec rn dir args k = Call (WExec rn dir args) (\<lambda>r. k (w_exec r))"

definition github_run :: "'b gh_prog \<Rightarrow> ('b \<Rightarrow> 'a wf_prog) \<Rightarrow> 'a wf_prog" where
  "github_run p k = pbind (lift_calls WGithub w_gh p) k"

definition dns_run :: "'b dns_prog \<Rightarrow> ('b \<Rightarrow> 'a wf_prog) \<Rightarrow> 'a wf_prog" where
  "dns_run p k = pbind (lift_calls WDns w_dns p) k"

definition vault_run :: "'b vault_prog \<Rightarrow> ('b \<Rightarrow> 'a wf_prog) \<Rightarrow> 'a wf_prog" where
  "vault_run p k = pbind (lift_calls WVault w_vault p) k"

definition file_run :: "file_error option file_prog \<Rightarrow> (wf_err option \<Rightarrow> 'a wf_prog) \<Rightarrow> 'a wf_prog" where
  "file_run p k = pbind (lift_calls WFile w_file p) (\<lambda>e. k (map_option WFileError e))"

definition text_error :: "string option \<Rightarrow> wf_err option" where
  "text_error e = map_option WText e"

text \<open>\<open>typedConfirmation\<close>.\<close>

definition typed_confirmation :: "string \<Rightarrow> string \<Rightarrow> (wf_err option \<Rightarrow> 'a wf_prog) \<Rightarrow> 'a wf_prog" where
  "typed_confirmation label expected k = Call (WInput label) (\<lambda>r. case w_input r of
     Inl e \<Rightarrow> k (Some e)
   | Inr answer \<Rightarrow> k (if answer \<noteq> expected then Some (WText ''confirmation did not match; cancelled'') else None))"

section \<open>Listings of stacks\<close>

fun stack_among :: "string \<Rightarrow> string \<Rightarrow> string list \<Rightarrow> wf_err + bool" where
  "stack_among name project [] = Inr False"
| "stack_among name project (s # ss) =
    (if s = [] then Inl (WText ''invalid Pulumi stack entry; no stack initialized'')
     else if s = name \<or> has_suffix s (''/'' @ project @ ''/'' @ name) then Inr True
     else stack_among name project ss)"

definition stack_listed_in :: "wf_lib \<Rightarrow> string \<Rightarrow> string \<Rightarrow> string \<Rightarrow> wf_err + bool" where
  "stack_listed_in W data name project = (case parse_stacks W data of
      Some (Some names) \<Rightarrow> stack_among name project names
    | _ \<Rightarrow> Inl (WText ''invalid Pulumi stack list; no stack initialized''))"

definition stack_listed :: "wf_lib \<Rightarrow> string \<Rightarrow> string \<Rightarrow> wf_err + bool" where
  "stack_listed W data name = stack_listed_in W data name ''attestra-auth-email''"

end
