(* ===== verification/Teardown.thy ===== *)
theory Teardown
  imports Workflow
begin

text \<open>
  Teardown of an environment: the inventory of what has to be gone (\<open>workflow/teardown_inventory.go\<close>),
  the checked removals (\<open>teardown_cleanup.go\<close>),
  the final validation (\<open>teardown_verify.go\<close>) and the steps of a run. The interactive part of
  \<open>runTeardown\<close> before the typed confirmation is not modelled. Messages on the terminal are not modelled.
\<close>

record probe =
  pbName :: string
  pbKind :: string
  pbID :: string
  pbZone :: string
  pbRecordType :: string
  pbRetained :: bool

record td_result =
  trName :: string
  trStatus :: string
  trDetail :: string

record td_index = \<comment> \<open>\<open>pendingIndex\<close>, as far as a teardown uses it\<close>
  tiAPI :: string
  tiRegion :: string
  tiEnvironment :: string
  tiToken :: string
  tiRevision :: int

record progress =
  tpCaptured :: bool
  tpInventory :: "probe list"
  tpValidation :: "td_result list"
  tpValidatedAt :: string
  tpLocalDone :: bool
  tpDeleteVault :: bool
  tpIndex :: "td_index option"
  tpIndexRemoved :: bool
  tpIndexRetired :: bool
  tpCleanupDone :: bool
  tpRepository :: string
  tpEnvironment :: string
  tpValues :: "string \<rightharpoonup> string"
  tpDomain :: string
  tpBucket :: string
  tpZone :: string
  tpDesired :: "dns_record list"
  tpDNS :: "dns_record list"
  tpDestroyed :: bool
  tpDNSDone :: bool
  tpDNSSkipped :: bool
  tpRoleDone :: bool
  tpStackRemoved :: bool
  tpComplete :: bool

section \<open>Inventory\<close>

definition field :: "(string \<Rightarrow> string option) \<Rightarrow> raw_object \<Rightarrow> string \<Rightarrow> string" where
  "field unmarshal out key = (case map_of out key of None \<Rightarrow> [] | Some raw \<Rightarrow>
     (case unmarshal raw of None \<Rightarrow> [] | Some s \<Rightarrow> s))"

text \<open>How a resource type is probed: by its own identifier, or through the parent that an output names.\<close>

definition own_kinds :: "(string \<times> string) list" where
  "own_kinds = [(''aws:lambda/function:Function'', ''lambda''),
     (''aws:lambda/eventSourceMapping:EventSourceMapping'', ''mapping''),
     (''aws:iam/role:Role'', ''role''), (''aws:dynamodb/table:Table'', ''table''),
     (''aws:s3/bucketV2:BucketV2'', ''bucket''),
     (''aws:cloudfront/distribution:Distribution'', ''distribution''),
     (''aws:cloudfront/originAccessControl:OriginAccessControl'', ''origin-access-control''),
     (''aws:sqs/queue:Queue'', ''queue''), (''aws:cognito/userPool:UserPool'', ''pool''),
     (''aws:cognito/userPoolDomain:UserPoolDomain'', ''cognito-domain''),
     (''aws:ses/domainIdentity:DomainIdentity'', ''ses''), (''aws:apigatewayv2/api:Api'', ''api''),
     (''aws:apigatewayv2/domainName:DomainName'', ''domain''),
     (''aws:acm/certificate:Certificate'', ''certificate''),
     (''aws:cloudwatch/metricAlarm:MetricAlarm'', ''alarm'')]"

definition parent_kinds :: "(string \<times> string \<times> string) list" where
  "parent_kinds = [(''aws:lambda/permission:Permission'', ''lambda'', ''function''),
     (''aws:iam/rolePolicy:RolePolicy'', ''role'', ''role''),
     (''aws:iam/rolePolicyAttachment:RolePolicyAttachment'', ''role'', ''role''),
     (''aws:s3/bucketVersioningV2:BucketVersioningV2'', ''bucket'', ''bucket''),
     (''aws:s3/bucketLifecycleConfigurationV2:BucketLifecycleConfigurationV2'', ''bucket'', ''bucket''),
     (''aws:s3/bucketOwnershipControls:BucketOwnershipControls'', ''bucket'', ''bucket''),
     (''aws:s3/bucketPublicAccessBlock:BucketPublicAccessBlock'', ''bucket'', ''bucket''),
     (''aws:s3/bucketServerSideEncryptionConfigurationV2:BucketServerSideEncryptionConfigurationV2'', ''bucket'', ''bucket''),
     (''aws:s3/bucketPolicy:BucketPolicy'', ''bucket'', ''bucket''),
     (''aws:s3/bucketObjectv2:BucketObjectv2'', ''bucket'', ''bucket''),
     (''aws:cognito/userPoolClient:UserPoolClient'', ''pool'', ''userPoolId''),
     (''aws:cognito/managedLoginBranding:ManagedLoginBranding'', ''pool'', ''userPoolId''),
     (''aws:ses/domainDkim:DomainDkim'', ''ses'', ''domain''),
     (''aws:apigatewayv2/integration:Integration'', ''api'', ''apiId''),
     (''aws:apigatewayv2/route:Route'', ''api'', ''apiId''),
     (''aws:apigatewayv2/stage:Stage'', ''api'', ''apiId''),
     (''aws:apigatewayv2/authorizer:Authorizer'', ''api'', ''apiId''),
     (''aws:apigatewayv2/apiMapping:ApiMapping'', ''domain'', ''domainName''),
     (''aws:acm/certificateValidation:CertificateValidation'', ''certificate'', ''certificateArn''),
     (''aws:cloudwatch/eventTarget:EventTarget'', ''rule'', ''rule'')]"

definition resource_probe :: "wf_lib \<Rightarrow> string \<Rightarrow> string \<Rightarrow> string \<Rightarrow> raw_object \<Rightarrow> probe" where
  "resource_probe W kind urn i out =
    (let v = field (json_string W) out;
         p = \<lparr>pbName = urn, pbKind = ''unsupported'', pbID = i, pbZone = [], pbRecordType = [], pbRetained = False\<rparr>
     in case map_of own_kinds kind of
          Some k \<Rightarrow> p\<lparr>pbKind := k\<rparr>
        | None \<Rightarrow> (case map_of parent_kinds kind of
            Some (k, key) \<Rightarrow> p\<lparr>pbKind := k, pbID := v key\<rparr>
          | None \<Rightarrow>
              if kind = ''aws:cloudwatch/eventRule:EventRule''
              then p\<lparr>pbKind := ''rule'', pbID := (if v ''name'' \<noteq> [] then v ''name'' else i)\<rparr>
              else if kind = ''aws:route53/record:Record''
              then p\<lparr>pbKind := ''record'', pbID := v ''name'', pbZone := v ''zoneId'', pbRecordType := v ''type''\<rparr>
              else p))"

definition probe_key :: "probe \<Rightarrow> string" where
  "probe_key p = pbName p @ [CHR 0x00] @ pbID p"

fun add_probes :: "wf_lib \<Rightarrow> resource list \<Rightarrow> probe list \<Rightarrow> probe list" where
  "add_probes W [] known = known"
| "add_probes W (r # rs) known =
    (if has_prefix (rsType r) ''pulumi:'' then add_probes W rs known
     else let p = (resource_probe W (rsType r) (rsURN r) (rsID r) (rsOutputs r))
                    \<lparr>pbRetained := rsExternal r \<or> rsRetain r\<rparr>
          in if probe_key p \<in> set (map probe_key known) then add_probes W rs known
             else add_probes W rs (known @ [p]))"

definition capture_inventory :: "wf_lib \<Rightarrow> string \<Rightarrow> progress \<Rightarrow> wf_err + progress" where
  "capture_inventory W data p = (case parse_inventory W data of
      Some (Some (Some rs)) \<Rightarrow> Inr (p\<lparr>tpInventory := add_probes W rs (tpInventory p)\<rparr>)
    | _ \<Rightarrow> Inl (WText ''invalid inventory export''))"

section \<open>Probing a resource\<close>

definition probe_args :: "wf_lib \<Rightarrow> probe \<Rightarrow> wf_err + string list" where
  "probe_args W p =
    (let i = pbID p; k = pbKind p in
     if k = ''lambda'' then Inr [''lambda'', ''get-function-configuration'', ''--function-name'', i]
     else if k = ''mapping'' then Inr [''lambda'', ''get-event-source-mapping'', ''--uuid'', i]
     else if k = ''role'' then Inr [''iam'', ''get-role'', ''--role-name'', i]
     else if k = ''table'' then Inr [''dynamodb'', ''describe-table'', ''--table-name'', i]
     else if k = ''bucket'' then Inr [''s3api'', ''get-bucket-location'', ''--bucket'', i]
     else if k = ''queue'' then Inr [''sqs'', ''get-queue-attributes'', ''--queue-url'', i, ''--attribute-names'', ''QueueArn'']
     else if k = ''pool'' then Inr [''cognito-idp'', ''describe-user-pool'', ''--user-pool-id'', i]
     else if k = ''cognito-domain'' then Inr [''cognito-idp'', ''describe-user-pool-domain'', ''--domain'', i]
     else if k = ''ses'' then Inr [''ses'', ''get-identity-verification-attributes'', ''--identities'', i]
     else if k = ''api'' then Inr [''apigatewayv2'', ''get-api'', ''--api-id'', i]
     else if k = ''domain'' then Inr [''apigatewayv2'', ''get-domain-name'', ''--domain-name'', i]
     else if k = ''distribution'' then Inr [''cloudfront'', ''get-distribution'', ''--id'', i]
     else if k = ''origin-access-control'' then Inr [''cloudfront'', ''get-origin-access-control'', ''--id'', i]
     else if k = ''certificate'' then
       (let parts = split_on (CHR '':'') i in
        Inr ([''acm'', ''describe-certificate'', ''--certificate-arn'', i] @
          (if length parts = 6 \<and> parts ! 3 \<noteq> [] then [''--region'', parts ! 3] else [])))
     else if k = ''rule'' then Inr [''events'', ''describe-rule'', ''--name'', i]
     else if k = ''alarm'' then Inr [''cloudwatch'', ''describe-alarms'', ''--alarm-names'', i,
       ''--alarm-types'', ''MetricAlarm'', ''CompositeAlarm'']
     else if k = ''record'' then
       if pbZone p = [] \<or> pbRecordType p = [] then Inl (WText ''DNS identifier missing'')
       else Inr [''route53'', ''list-resource-record-sets'', ''--cli-input-json'',
         string_map_json W [(''HostedZoneId'', pbZone p), (''MaxItems'', ''1''), (''StartRecordName'', i),
           (''StartRecordType'', pbRecordType p)], ''--no-paginate'']
     else Inl (WText ''unsupported resource type; deletion requires manual verification''))"

definition missing_codes :: "(string \<times> string) list" where
  "missing_codes = [(''role'', ''NoSuchEntity''), (''bucket'', ''NoSuchBucket''),
     (''queue'', ''AWS.SimpleQueueService.NonExistentQueue''), (''api'', ''NotFoundException''),
     (''domain'', ''NotFoundException''), (''distribution'', ''NoSuchDistribution''),
     (''origin-access-control'', ''NoSuchOriginAccessControl''), (''record'', ''NoSuchHostedZone'')]"

definition missing_code :: "string \<Rightarrow> string" where
  "missing_code kind = (case map_of missing_codes kind of Some c \<Rightarrow> c | None \<Rightarrow> ''ResourceNotFoundException'')"

definition answer_field :: "string \<Rightarrow> string" where
  "answer_field kind =
    (if kind = ''cognito-domain'' then ''DomainDescription''
     else if kind = ''ses'' then ''VerificationAttributes''
     else if kind = ''alarm'' then ''MetricAlarms''
     else if kind = ''record'' then ''ResourceRecordSets'' else [])"

text \<open>\<open>None\<close> is verified absence.\<close>

definition empty_object :: "wf_lib \<Rightarrow> string \<Rightarrow> string \<Rightarrow> wf_err option" where
  "empty_object W err raw = (case json_object W raw of
      None \<Rightarrow> Some (WText err)
    | Some m \<Rightarrow> if m = [] then None else Some WRemains)"

definition same_name :: "wf_lib \<Rightarrow> string \<Rightarrow> string \<Rightarrow> bool" where
  "same_name W a b \<longleftrightarrow>
     trim_suffix (to_lower (wlGo W) a) ''.'' = trim_suffix (to_lower (wlGo W) b) ''.''"

fun record_absent :: "wf_lib \<Rightarrow> probe \<Rightarrow> (string \<times> string) list \<Rightarrow> wf_err option" where
  "record_absent W p [] = None"
| "record_absent W p ((name, kind) # rs) =
    (if name = [] \<or> kind = [] then Some (WText ''incomplete Route53 record'')
     else if same_name W name (pbID p) \<and> kind = pbRecordType p then Some WRemains
     else record_absent W p rs)"

definition items_len :: "string list option option \<Rightarrow> nat option" where
  "items_len x = (case x of None \<Rightarrow> None | Some None \<Rightarrow> Some 0 | Some (Some xs) \<Rightarrow> Some (length xs))"

definition present :: "raw_object \<Rightarrow> string \<Rightarrow> string option" where
  "present body key = (case map_of body key of None \<Rightarrow> None | Some raw \<Rightarrow> if raw = ''null'' then None else Some raw)"

definition alarms_absent :: "wf_lib \<Rightarrow> raw_object \<Rightarrow> string \<Rightarrow> wf_err option" where
  "alarms_absent W body raw = (case items_len (json_items W raw) of
      None \<Rightarrow> Some (WText ''invalid alarm response'')
    | Some n \<Rightarrow> if n > 0 then Some WRemains else
        (case present body ''CompositeAlarms'' of
          None \<Rightarrow> Some (WText ''incomplete alarm response'')
        | Some raw \<Rightarrow> (case items_len (json_items W raw) of
            None \<Rightarrow> Some (WText ''incomplete alarm response'')
          | Some m \<Rightarrow> if m > 0 then Some WRemains else None)))"

definition listed_absent :: "wf_lib \<Rightarrow> probe \<Rightarrow> raw_object \<Rightarrow> wf_err option" where
  "listed_absent W p body = (case present body (answer_field (pbKind p)) of
      None \<Rightarrow> Some (WText ''incomplete AWS verification response'')
    | Some raw \<Rightarrow>
        if pbKind p = ''cognito-domain'' then empty_object W ''invalid Cognito domain response'' raw
        else if pbKind p = ''ses'' then empty_object W ''invalid SES verification response'' raw
        else if pbKind p = ''record'' then (case parse_entries W raw of
            None \<Rightarrow> Some (WText ''invalid Route53 response'')
          | Some rs \<Rightarrow> record_absent W p rs)
        else alarms_absent W body raw)"

definition probe_verdict :: "wf_lib \<Rightarrow> probe \<Rightarrow> aws_answer \<Rightarrow> wf_err option" where
  "probe_verdict W p x = (case aws_decode (json_object W) x of
      Inl e \<Rightarrow> (case e of
          WAwsError operation code \<Rightarrow>
            if code = missing_code (pbKind p) \<or> (pbKind p = ''queue'' \<and> code = ''QueueDoesNotExist'') then None
            else Some e
        | _ \<Rightarrow> Some e)
    | Inr None \<Rightarrow> if pbKind p = ''role'' then None else Some (WText ''AWS did not return an authoritative result'')
    | Inr (Some body) \<Rightarrow> if answer_field (pbKind p) = [] then Some WRemains else listed_absent W p body)"

definition verify_probe :: "wf_lib \<Rightarrow> string \<Rightarrow> probe \<Rightarrow> wf_err option wf_prog" where
  "verify_probe W region p =
    (if pbID p = [] then Ret (Some (WText ''resource identifier missing; cannot verify deletion'')) else
     case probe_args W p of
       Inl e \<Rightarrow> Ret (Some e)
     | Inr args \<Rightarrow> aws W region args (\<lambda>x. Ret (probe_verdict W p x)))"

section \<open>The state of a stack\<close>

fun destroyed_types :: "string list \<Rightarrow> wf_err option" where
  "destroyed_types [] = None"
| "destroyed_types (t # ts) =
    (if t \<noteq> ''pulumi:pulumi:Stack'' \<and> \<not> has_prefix t ''pulumi:providers:''
     then Some (WText (''resource remains in state: '' @ t @ ''; external cleanup was not started''))
     else destroyed_types ts)"

definition ensure_destroyed :: "wf_lib \<Rightarrow> string \<Rightarrow> wf_err option" where
  "ensure_destroyed W data = (case parse_types W data of
      Some (Some ts) \<Rightarrow> destroyed_types ts
    | _ \<Rightarrow> Some (WText ''cannot verify empty Pulumi state''))"

section \<open>The deployment role\<close>

record metadata =
  mdID :: int
  mdName :: string
  mdOwner :: string
  mdOwnerID :: int

text \<open>\<open>strings.Split(s, ":role/")\<close>.\<close>

fun split_str :: "nat \<Rightarrow> string \<Rightarrow> string \<Rightarrow> string list" where
  "split_str skip sep [] = [[]]"
| "split_str (Suc n) sep (c # s) = split_str n sep s"
| "split_str 0 sep (c # s) =
    (if has_prefix (c # s) sep then [] # split_str (length sep - 1) sep s
     else case split_str 0 sep s of [] \<Rightarrow> [[c]] | w # ws \<Rightarrow> (c # w) # ws)"

definition legacy_subject :: "metadata \<Rightarrow> string \<Rightarrow> string" where
  "legacy_subject m environment = ''repo:'' @ mdOwner m @ ''/'' @ mdName m @ '':environment:'' @ environment"

definition immutable_subject :: "metadata \<Rightarrow> string \<Rightarrow> string" where
  "immutable_subject m environment = ''repo:'' @ mdOwner m @ ''@'' @ show_int (mdOwnerID m) @ ''/'' @ mdName m @
     ''@'' @ show_int (mdID m) @ '':environment:'' @ environment"

definition github_trust :: "string \<Rightarrow> string \<Rightarrow> jval" where
  "github_trust account subject = JObject [
     (''Statement'', JArray [JObject [
        (''Action'', JString ''sts:AssumeRoleWithWebIdentity''),
        (''Condition'', JObject [(''StringEquals'', JObject [
           (''token.actions.githubusercontent.com:aud'', JString ''sts.amazonaws.com''),
           (''token.actions.githubusercontent.com:sub'', JString subject)])]),
        (''Effect'', JString ''Allow''),
        (''Principal'', JObject [(''Federated'',
           JString (''arn:aws:iam::'' @ account @ '':oidc-provider/token.actions.githubusercontent.com''))])]]),
     (''Version'', JString ''2012-10-17'')]"

definition bound_subjects :: "metadata \<Rightarrow> string \<Rightarrow> (string \<times> string) list \<Rightarrow> string list" where
  "bound_subjects m environment tags =
     map snd (filter (\<lambda>(k, v). k = ''attestra-subject'' \<and>
       (v = legacy_subject m environment \<or> v = immutable_subject m environment)) tags)"

definition owned :: "string \<Rightarrow> (string \<times> string) list \<Rightarrow> bool" where
  "owned environment tags \<longleftrightarrow> (''attestra-setup'', ''github-'' @ environment) \<in> set tags"

definition role_error :: "string \<Rightarrow> string \<Rightarrow> metadata \<Rightarrow> role_snapshot \<Rightarrow> string option" where
  "role_error arn environment m role =
    (let subjects = bound_subjects m environment (roTags role) in
     if roArn role \<noteq> arn \<or> \<not> owned environment (roTags role) \<or> subjects = []
     then Some ''deployment role ownership does not match repository/environment; role left untouched''
     else if roTrust role \<noteq> github_trust (split_on (CHR '':'') arn ! 4) (last subjects)
     then Some ''deployment role trust was changed or shared; inspect before teardown''
     else None)"

definition managed_policies :: "string list" where
  "managed_policies = [''attestra-index'', ''attestra-state'', ''attestra-iam'', ''attestra-services'',
     ''attestra-dns'', ''attestra-state-kms'']"

text \<open>A listing of the role; a missing role leaves it empty.\<close>

definition role_listing :: "wf_lib \<Rightarrow> string \<Rightarrow> string \<Rightarrow> string \<Rightarrow> (wf_err + string list \<times> bool \<Rightarrow> 'a wf_prog) \<Rightarrow> 'a wf_prog" where
  "role_listing W region operation name k =
    aws W region [''iam'', operation, ''--role-name'', name] (\<lambda>x. k (case aws_decode (parse_list W) x of
      Inl e \<Rightarrow> Inl e | Inr None \<Rightarrow> Inr ([], False) | Inr (Some l) \<Rightarrow> Inr l))"

definition inspect_contents :: "wf_lib \<Rightarrow> string \<Rightarrow> string \<Rightarrow> (wf_err + string \<times> string list) wf_prog" where
  "inspect_contents W region name =
    role_listing W region ''list-instance-profiles-for-role'' name (\<lambda>x. case x of
      Inl e \<Rightarrow> Ret (Inl e)
    | Inr (profiles, trunc) \<Rightarrow> if profiles \<noteq> [] \<or> trunc
        then Ret (Inl (WText ''deployment role is attached to instance profiles; inspect before teardown'')) else
    role_listing W region ''list-role-policies'' name (\<lambda>x. case x of
      Inl e \<Rightarrow> Ret (Inl e)
    | Inr (policies, trunc) \<Rightarrow> if trunc then Ret (Inl (WText ''incomplete IAM policy listing''))
        else if \<not> set policies \<subseteq> set managed_policies
        then Ret (Inl (WText ''deployment role has unmanaged policies; inspect before teardown'')) else
    role_listing W region ''list-attached-role-policies'' name (\<lambda>x. case x of
      Inl e \<Rightarrow> Ret (Inl e)
    | Inr (attached, trunc) \<Rightarrow> if attached \<noteq> [] \<or> trunc
        then Ret (Inl (WText ''deployment role has attached policies; inspect before teardown''))
        else Ret (Inr (name, policies)))))"

definition inspect_role :: "wf_lib \<Rightarrow> string \<Rightarrow> string \<Rightarrow> string \<Rightarrow> metadata \<Rightarrow> (wf_err + string \<times> string list) wf_prog" where
  "inspect_role W region arn environment m =
    (case split_str 0 '':role/'' arn of
       [_, name] \<Rightarrow>
         if CHR ''/'' \<in> set name then Ret (Inl (WText ''role paths require manual cleanup'')) else
         aws W region [''iam'', ''get-role'', ''--role-name'', name] (\<lambda>x. case aws_decode (parse_role W) x of
           Inl e \<Rightarrow> Ret (Inl e)
         | Inr None \<Rightarrow> Ret (Inr (name, []))
         | Inr (Some role) \<Rightarrow> (case role_error arn environment m role of
             Some e \<Rightarrow> Ret (Inl (WText e))
           | None \<Rightarrow> inspect_contents W region name))
     | _ \<Rightarrow> Ret (Inl (WText ''invalid role ARN'')))"

fun delete_policies :: "wf_lib \<Rightarrow> string \<Rightarrow> string \<Rightarrow> string list \<Rightarrow> wf_err option wf_prog" where
  "delete_policies W region name [] = Ret None"
| "delete_policies W region name (policy # ps) =
     aws W region [''iam'', ''delete-role-policy'', ''--role-name'', name, ''--policy-name'', policy] (\<lambda>x.
       case aws_found x of Inl e \<Rightarrow> Ret (Some e) | Inr _ \<Rightarrow> delete_policies W region name ps)"

definition remove_role :: "wf_lib \<Rightarrow> string \<Rightarrow> string \<Rightarrow> wf_err option wf_prog" where
  "remove_role W region name =
    aws W region [''iam'', ''delete-role'', ''--role-name'', name] (\<lambda>x. case aws_found x of
      Inl e \<Rightarrow> Ret (Some e)
    | Inr _ \<Rightarrow> aws W region [''iam'', ''get-role'', ''--role-name'', name] (\<lambda>x. case aws_found x of
        Inl e \<Rightarrow> Ret (Some e)
      | Inr found \<Rightarrow> Ret (if found then Some (WText ''role deletion not verified'') else None)))"

definition delete_role :: "wf_lib \<Rightarrow> string \<Rightarrow> string \<Rightarrow> string \<Rightarrow> metadata \<Rightarrow> wf_err option wf_prog" where
  "delete_role W region arn environment m = pbind (inspect_role W region arn environment m) (\<lambda>x. case x of
     Inl e \<Rightarrow> Ret (Some e)
   | Inr (name, policies) \<Rightarrow> pbind (delete_policies W region name policies) (\<lambda>e. case e of
       Some e \<Rightarrow> Ret (Some e)
     | None \<Rightarrow> remove_role W region name))"

end
