(* ===== verification/TeardownRun.thy ===== *)
theory TeardownRun
  imports Teardown
begin

text \<open>
  The steps of a teardown and its final validation (\<open>runTeardownSteps\<close> with the steps of
  \<open>runTeardown\<close>, \<open>workflow/teardown_verify.go\<close>, \<open>teardown_local.go\<close>, \<open>purgeEvidence\<close>). \<open>td_env\<close> is
  what the steps close over. The deletion of versions ends when a listing is empty, so it has a
  bound on its rounds, as the listings of DNS records and deployments have (\<open>teFuel\<close>).
\<close>

record td_env =
  teLib :: wf_lib
  teFuel :: nat
  teRoot :: string
  tePath :: string \<comment> \<open>of the checkpoint\<close>
  teRegion :: string
  teAccount :: string
  teBackend :: string
  teRunner :: runner
  teGithub :: github
  teMetadata :: metadata
  teClient :: "client option" \<comment> \<open>Cloudflare\<close>
  teIndex :: "wf_err + (string \<times> string) option" \<comment> \<open>\<open>newIndexClient\<close> or \<open>indexClientFromConfig\<close>: URL and region\<close>
  teExists :: bool \<comment> \<open>the stack is listed\<close>
  teJson :: "progress \<Rightarrow> string"
  teCheckpoint :: "string \<Rightarrow> (string \<times> string \<times> string) option" \<comment> \<open>Repository, Environment, Stack\<close>
  teBackendHost :: "string \<Rightarrow> string option" \<comment> \<open>url.Parse, its Host\<close>

definition join :: "td_env \<Rightarrow> string list \<Rightarrow> string" where
  "join E parts = path_join (wlVault (teLib E)) parts"

section \<open>Purging a bucket\<close>

definition versions_args :: "string \<Rightarrow> string \<Rightarrow> string list" where
  "versions_args bucket account = [''s3api'', ''list-object-versions'', ''--bucket'', bucket,
     ''--expected-bucket-owner'', account, ''--max-keys'', ''1000'', ''--no-paginate'']"

definition delete_args :: "string \<Rightarrow> string \<Rightarrow> string \<Rightarrow> string list" where
  "delete_args bucket account file = [''s3api'', ''delete-objects'', ''--bucket'', bucket,
     ''--expected-bucket-owner'', account, ''--delete'', ''file://'' @ file]"

text \<open>A page of deletions through a payload file.\<close>

definition delete_page :: "wf_lib \<Rightarrow> string \<Rightarrow> string \<Rightarrow> string \<Rightarrow> (string \<times> string) list \<Rightarrow> wf_err option wf_prog" where
  "delete_page W region bucket account objects =
    Call (WFile (FCreateTemp [] ''attestra-evidence-delete-'' ''.json'')) (\<lambda>r. case f_err (w_file r) of
      Some e \<Rightarrow> Ret (Some (WFileError e))
    | None \<Rightarrow> (let file = f_name (w_file r) in
        Call (WFile (FWrite file (delete_payload W objects))) (\<lambda>w.
        Call (WFile (FClose file)) (\<lambda>c.
          if f_err (w_file w) \<noteq> None \<or> f_err (w_file c) \<noteq> None
          then Call (WFile (FRemove file)) (\<lambda>_. Ret (Some (WText ''cannot prepare evidence deletion payload'')))
          else aws W region (delete_args bucket account file) (\<lambda>x.
            Call (WFile (FRemove file)) (\<lambda>_. Ret (case aws_decode (parse_deleted W) x of
              Inl e \<Rightarrow> Some e
            | Inr None \<Rightarrow> None
            | Inr (Some n) \<Rightarrow> if n > 0
                then Some (WText ''S3 rejected evidence deletion; inspect object lock/permissions; no bypass attempted'')
                else None)))))))"

text \<open>The page read; a bucket that is gone counts as an empty last page.\<close>

definition version_listing :: "wf_lib \<Rightarrow> aws_answer \<Rightarrow> wf_err + version_page option" where
  "version_listing W x = (case aws_decode (parse_page W) x of
      Inl (WAwsError operation code) \<Rightarrow> if code = ''NoSuchBucket'' then Inr None else Inl (WAwsError operation code)
    | Inl e \<Rightarrow> Inl e
    | Inr None \<Rightarrow> Inr (Some \<lparr>vpObjects = [], vpTruncated = False\<rparr>)
    | Inr (Some page) \<Rightarrow> Inr (Some page))"

fun purge_rounds :: "wf_lib \<Rightarrow> string \<Rightarrow> string \<Rightarrow> string \<Rightarrow> nat \<Rightarrow> wf_err option wf_prog" where
  "purge_rounds W region bucket account 0 = Spin"
| "purge_rounds W region bucket account (Suc n) =
     aws W region (versions_args bucket account) (\<lambda>x. case version_listing W x of
       Inl e \<Rightarrow> Ret (Some e)
     | Inr None \<Rightarrow> Ret None
     | Inr (Some page) \<Rightarrow>
         if vpObjects page = [] then
           Ret (if vpTruncated page then Some (WText ''incomplete S3 version listing'') else None)
         else pbind (delete_page W region bucket account (vpObjects page)) (\<lambda>e. case e of
           Some e \<Rightarrow> Ret (Some e) | None \<Rightarrow> purge_rounds W region bucket account n))"

definition purge_evidence :: "nat \<Rightarrow> wf_lib \<Rightarrow> (string \<Rightarrow> string option) \<Rightarrow> string \<Rightarrow> string \<Rightarrow> string \<Rightarrow> string \<Rightarrow>
    wf_err option wf_prog" where
  "purge_evidence n W host region bucket account backend =
    (if host backend = None \<or> bucket = [] \<or> host backend = Some bucket
     then Ret (Some (WText ''refusing to purge an empty name or the state bucket''))
     else purge_rounds W region bucket account n)"

section \<open>Local records\<close>

definition name_segment :: "string \<Rightarrow> bool" where
  "name_segment s \<longleftrightarrow> s \<noteq> [] \<and> list_all (\<lambda>c. is_lower c \<or> is_digit c) s"

definition validate_environment :: "string \<Rightarrow> wf_err option" where
  "validate_environment name =
    (if length name > 32 \<or> name = [] \<or> \<not> is_lower (hd name) \<or> \<not> list_all name_segment (split_on (CHR ''-'') name)
     then Some (WText (''use 1'' @ [CHR 0xE2, CHR 0x80, CHR 0x93] @
       ''32 lowercase letters, digits or single hyphens; start with a letter and end with a letter/digit''))
     else None)"

definition local_records :: "td_env \<Rightarrow> string \<Rightarrow> string list" where
  "local_records E environment =
    [join E [teRoot E, ''.attestra'', ''deploy.'' @ environment @ ''.local.json''],
     join E [teRoot E, ''.attestra'', ''bootstrap.'' @ environment @ ''.local.json''],
     join E [teRoot E, ''.attestra'', ''bootstrap.'' @ environment @ ''.local.json.bak'']] @
    (if environment = ''dev'' then
       [join E [teRoot E, ''.attestra'', ''bootstrap.local.json''],
        join E [teRoot E, ''.attestra'', ''bootstrap.local.json.bak'']] else [])"

definition record_belongs :: "td_env \<Rightarrow> progress \<Rightarrow> string \<Rightarrow> bool" where
  "record_belongs E p data = (case teCheckpoint E data of
      None \<Rightarrow> False
    | Some (repository, environment, stack) \<Rightarrow> repository = tpRepository p \<and>
        (environment = [] \<or> environment = tpEnvironment p) \<and> (stack = [] \<or> stack = tpEnvironment p))"

fun check_records :: "td_env \<Rightarrow> progress \<Rightarrow> string list \<Rightarrow> wf_err option wf_prog" where
  "check_records E p [] = Ret None"
| "check_records E p (path # paths) = Call (WFile (FRead path)) (\<lambda>r. case f_err (w_file r) of
     Some FNotExist \<Rightarrow> check_records E p paths
   | Some e \<Rightarrow> Ret (Some (WFileError e))
   | None \<Rightarrow> if record_belongs E p (f_data (w_file r)) then check_records E p paths
       else Ret (Some (WText (''local setup record belongs to another repository/environment or is invalid; '' @
         ''inspect it before local cleanup''))))"

fun remove_files :: "string list \<Rightarrow> wf_err option wf_prog" where
  "remove_files [] = Ret None"
| "remove_files (path # paths) = Call (WFile (FRemove path)) (\<lambda>r. case f_err (w_file r) of
     Some (FFailed e) \<Rightarrow> Ret (Some (WFileError (FFailed e)))
   | _ \<Rightarrow> remove_files paths)"

definition cleanup_local :: "td_env \<Rightarrow> progress \<Rightarrow> wf_err option wf_prog" where
  "cleanup_local E p = (case validate_environment (tpEnvironment p) of
     Some e \<Rightarrow> Ret (Some e)
   | None \<Rightarrow> (let records = local_records E (tpEnvironment p);
         paths = records @ [join E [teRoot E, ''android-config'', tpEnvironment p @ ''.properties'']] in
       pbind (check_records E p records) (\<lambda>e. case e of
         Some e \<Rightarrow> Ret (Some e)
       | None \<Rightarrow> if tpDeleteVault p then
             vault_run (vault_location (wlVault (teLib E)) (tpRepository p) (tpEnvironment p)) (\<lambda>x. case x of
               Inl _ \<Rightarrow> Ret (Some (WText ''no configuration directory''))
             | Inr (path, _) \<Rightarrow> remove_files (paths @ [path]))
           else remove_files paths)))"

section \<open>Final validation\<close>

definition checked :: "string \<Rightarrow> wf_err option \<Rightarrow> td_result" where
  "checked name e = (case e of
      None \<Rightarrow> \<lparr>trName = name, trStatus = ''DELETED'', trDetail = ''absence verified''\<rparr>
    | Some e \<Rightarrow> \<lparr>trName = name, trStatus = (if e = WRemains then ''REMAINS'' else ''FAILED''), trDetail = err_text e\<rparr>)"

definition report_error :: "td_result list \<Rightarrow> wf_err option" where
  "report_error rep = (if list_ex (\<lambda>v. trStatus v = ''FAILED'' \<or> trStatus v = ''REMAINS'') rep
     then Some (WText (''teardown validation failed; inspect the report, resolve remaining resources or access '' @
       ''errors, then rerun teardown with its saved checkpoint''))
     else None)"

fun last_part :: "string \<Rightarrow> string option" where
  "last_part [] = None"
| "last_part (c # s) = (case last_part s of
     Some t \<Rightarrow> Some t
   | None \<Rightarrow> if has_prefix (c # s) ''::'' then Some (drop 2 (c # s)) else None)"

definition short_name :: "string \<Rightarrow> string" where
  "short_name name = (case last_part name of Some t \<Rightarrow> t | None \<Rightarrow> name)"

definition cache_key :: "probe \<Rightarrow> string" where
  "cache_key p = pbKind p @ [CHR 0x00] @ pbID p @ [CHR 0x00] @ pbZone p @ [CHR 0x00] @ pbRecordType p"

fun verify_inventory :: "td_env \<Rightarrow> probe list \<Rightarrow> (string \<rightharpoonup> wf_err option) \<Rightarrow> td_result list \<Rightarrow>
    td_result list wf_prog" where
  "verify_inventory E [] cache rep = Ret rep"
| "verify_inventory E (p # ps) cache rep =
    (if pbRetained p then verify_inventory E ps cache
       (rep @ [\<lparr>trName = short_name (pbName p), trStatus = ''RETAINED'',
                trDetail = ''external resource or Pulumi retainOnDelete''\<rparr>])
     else case cache (cache_key p) of
       Some e \<Rightarrow> verify_inventory E ps cache (rep @ [checked (short_name (pbName p)) e])
     | None \<Rightarrow> pbind (verify_probe (teLib E) (teRegion E) p) (\<lambda>e.
         verify_inventory E ps (cache(cache_key p \<mapsto> e)) (rep @ [checked (short_name (pbName p)) e])))"

definition role_probe :: "progress \<Rightarrow> probe" where
  "role_probe p = \<lparr>pbName = [], pbKind = ''role'',
     pbID = last (split_on (CHR ''/'') (map_value (tpValues p) ''AWS_ROLE_ARN'')),
     pbZone = [], pbRecordType = [], pbRetained = False\<rparr>"

definition remains_if :: "wf_err + bool \<Rightarrow> wf_err option" where
  "remains_if x = (case x of Inl e \<Rightarrow> Some e | Inr found \<Rightarrow> if found then Some WRemains else None)"

definition verify_stack :: "td_env \<Rightarrow> progress \<Rightarrow> wf_err option wf_prog" where
  "verify_stack E p = exec (teRunner E) (join E [teRoot E, ''infra''])
     [''pulumi'', ''stack'', ''ls'', ''--json'', ''--non-interactive''] (\<lambda>x. Ret (remains_if (case x of
       Inl e \<Rightarrow> Inl e | Inr data \<Rightarrow> stack_listed (teLib E) data (tpEnvironment p))))"

definition verify_github :: "td_env \<Rightarrow> progress \<Rightarrow> wf_err option wf_prog" where
  "verify_github E p =
    (let path = environment_path (teGithub E) (tpRepository p) (tpEnvironment p)
     in github_run (gh_request (teGithub E) ''GET'' path []) (\<lambda>x. Ret (case gh_found x of
          Inl e \<Rightarrow> Some (WText e) | Inr found \<Rightarrow> if found then Some WRemains else None)))"

definition dns_verdict :: "client \<Rightarrow> dns_record \<Rightarrow> string + dns_record list \<Rightarrow> wf_err option" where
  "dns_verdict c want x = (case x of
      Inl e \<Rightarrow> Some (WText e)
    | Inr current \<Rightarrow> (case deletion_candidates c want current of
        Inl e \<Rightarrow> Some (WText e)
      | Inr matches \<Rightarrow> if matches = [] then None else Some WRemains))"

fun verify_dns :: "td_env \<Rightarrow> client \<Rightarrow> string \<Rightarrow> dns_record list \<Rightarrow> td_result list \<Rightarrow> td_result list wf_prog" where
  "verify_dns E c zone [] rep = Ret rep"
| "verify_dns E c zone (want # ws) rep = dns_run (cf_records (teFuel E) c zone (drName want)) (\<lambda>x.
     verify_dns E c zone ws (rep @ [checked (''DNS '' @ drType want @ '' '' @ drName want) (dns_verdict c want x)]))"

definition verify_dns_part :: "td_env \<Rightarrow> progress \<Rightarrow> td_result list wf_prog" where
  "verify_dns_part E p =
    (if tpDNSSkipped p then Ret [\<lparr>trName = ''Cloudflare DNS'', trStatus = ''SKIPPED'',
         trDetail = ''records retained by your choice; manual cleanup required''\<rparr>]
     else if tpDesired p \<noteq> [] \<and> tpZone p \<noteq> [] then (case teClient E of
         None \<Rightarrow> Ret [checked ''Cloudflare DNS'' (Some (WText ''Cloudflare credentials unavailable for final read-back''))]
       | Some c \<Rightarrow> verify_dns E c (tpZone p) (tpDesired p) [])
     else if tpDesired p \<noteq> [] \<and> \<not> tpDNSDone p
     then Ret [checked ''Cloudflare DNS'' (Some (WText ''no verified DNS cleanup or zone evidence''))]
     else Ret [])"

definition local_paths :: "td_env \<Rightarrow> string \<Rightarrow> string list" where
  "local_paths E environment =
    [join E [''.attestra'', ''deploy.'' @ environment @ ''.local.json''],
     join E [''infra'', ''Pulumi.'' @ environment @ ''.yaml''],
     join E [''.attestra'', ''bootstrap.'' @ environment @ ''.local.json''],
     join E [''.attestra'', ''bootstrap.'' @ environment @ ''.local.json.bak''],
     join E [''android-config'', environment @ ''.properties'']] @
    (if environment = ''dev'' then
       [join E [''.attestra'', ''bootstrap.local.json''], join E [''.attestra'', ''bootstrap.local.json.bak'']] else [])"

definition lstat_verdict :: "wf_resp \<Rightarrow> wf_err option" where
  "lstat_verdict r = (case f_err (w_file r) of
      Some FNotExist \<Rightarrow> None | Some e \<Rightarrow> Some (WFileError e) | None \<Rightarrow> Some WRemains)"

fun verify_files :: "td_env \<Rightarrow> string list \<Rightarrow> td_result list \<Rightarrow> td_result list wf_prog" where
  "verify_files E [] rep = Ret rep"
| "verify_files E (path # paths) rep = Call (WLstat (join E [teRoot E, path])) (\<lambda>r.
     verify_files E paths (rep @ [checked path (lstat_verdict r)]))"

definition verify_vault :: "td_env \<Rightarrow> progress \<Rightarrow> td_result list wf_prog" where
  "verify_vault E p =
    (if \<not> tpDeleteVault p then Ret [\<lparr>trName = ''Credential vault'', trStatus = ''RETAINED'',
         trDetail = ''deletion not requested (if present)''\<rparr>]
     else vault_run (vault_location (wlVault (teLib E)) (tpRepository p) (tpEnvironment p)) (\<lambda>x. case x of
       Inl _ \<Rightarrow> Ret [checked ''Credential vault'' (Some (WText ''no configuration directory''))]
     | Inr (path, _) \<Rightarrow> Call (WLstat path) (\<lambda>r. Ret [checked ''Credential vault'' (lstat_verdict r)])))"

fun entry_absent :: "string \<Rightarrow> string list \<Rightarrow> wf_err option" where
  "entry_absent environment [] = None"
| "entry_absent environment (i # is) =
    (if i = [] then Some (WText ''invalid index entry'')
     else if i = environment then Some WRemains else entry_absent environment is)"

definition index_verdict :: "wf_lib \<Rightarrow> string \<Rightarrow> wf_err + int \<times> string \<Rightarrow> wf_err option" where
  "index_verdict W environment x = (case x of
      Inl e \<Rightarrow> Some e
    | Inr (status, body) \<Rightarrow>
        if status \<noteq> 200 then Some (WText (''index read returned HTTP '' @ show_int status)) else
        (case parse_index W (take (4 * 2 ^ 20) body) of
          Some (version, Some ids) \<Rightarrow> if version = 1 then entry_absent environment ids
            else Some (WText ''invalid environment index response'')
        | _ \<Rightarrow> Some (WText ''invalid environment index response'')))"

definition index_client :: "td_env \<Rightarrow> (string \<times> string) option" where
  "index_client E = (case teIndex E of Inl e \<Rightarrow> None | Inr c \<Rightarrow> c)"

definition verify_index :: "td_env \<Rightarrow> progress \<Rightarrow> td_result list wf_prog" where
  "verify_index E p = (case index_client E of
     None \<Rightarrow> Ret [\<lparr>trName = ''Environment index'', trStatus = ''SKIPPED'',
       trDetail = ''no index was configured for this environment''\<rparr>]
   | Some (url, region) \<Rightarrow> Call (WIndexRead (url @ ''/v1/environments'')) (\<lambda>r.
       Ret [checked ''Public environment index entry'' (index_verdict (teLib E) (tpEnvironment p) (w_read r))]))"

definition retained_notes :: "td_result list" where
  "retained_notes =
    [\<lparr>trName = ''Shared infrastructure and recovery data'', trStatus = ''RETAINED'',
      trDetail = ''state bucket/history, shared index/OIDC/DNS zone, teardown checkpoint and YAML backup''\<rparr>,
     \<lparr>trName = ''Service-created history outside Pulumi'', trStatus = ''RETAINED'',
      trDetail = ''Lambda log groups and AWS-managed backups may remain; not part of the captured stack''\<rparr>]"

definition missing_inventory :: "progress \<Rightarrow> td_result list" where
  "missing_inventory p = (if tpCaptured p then [] else [checked ''AWS inventory'' (Some (WText
     (''legacy checkpoint has no pre-destroy inventory; restore evidence from a pre-destroy stack export for '' @
      ''manual verification; cannot certify all resources'')))])"

definition verify_teardown :: "td_env \<Rightarrow> progress \<Rightarrow> td_result list wf_prog" where
  "verify_teardown E p =
    pbind (verify_inventory E (tpInventory p) Map.empty (missing_inventory p)) (\<lambda>rep.
    pbind (verify_probe (teLib E) (teRegion E) (role_probe p)) (\<lambda>role.
    pbind (verify_stack E p) (\<lambda>stack.
    pbind (verify_github E p) (\<lambda>gh.
    pbind (verify_dns_part E p) (\<lambda>dns.
    pbind (verify_files E (local_paths E (tpEnvironment p)) []) (\<lambda>files.
    pbind (verify_vault E p) (\<lambda>vault.
    pbind (verify_index E p) (\<lambda>index.
      Ret (rep @ [checked ''Deployment role'' role, checked ''Pulumi stack'' stack,
                  checked ''GitHub environment'' gh] @ dns @ files @ vault @ index @ retained_notes)))))))))"

section \<open>Validation with retries\<close>

definition persist :: "td_env \<Rightarrow> progress \<Rightarrow> (wf_err option \<Rightarrow> 'a wf_prog) \<Rightarrow> 'a wf_prog" where
  "persist E p k = file_run (teardown_save (tePath E) (teJson E p)) k"

definition has_status :: "string \<Rightarrow> td_result list \<Rightarrow> bool" where
  "has_status status rep \<longleftrightarrow> list_ex (\<lambda>v. trStatus v = status) rep"

text \<open>\<open>n\<close> further attempts follow the current one.\<close>

fun finalize :: "td_env \<Rightarrow> nat \<Rightarrow> progress \<Rightarrow> (progress \<times> wf_err option) wf_prog" where
  "finalize E n p = pbind (verify_teardown E p) (\<lambda>rep. Call WNow (\<lambda>r.
     let p = p\<lparr>tpValidation := rep, tpValidatedAt := w_now r\<rparr> in
     persist E p (\<lambda>e. case e of
       Some e \<Rightarrow> Ret (p, Some e)
     | None \<Rightarrow> (case n of
         0 \<Rightarrow> Ret (p, report_error rep)
       | Suc m \<Rightarrow> if \<not> has_status ''REMAINS'' rep \<or> has_status ''FAILED'' rep then Ret (p, report_error rep)
           else Call (WSleep 5) (\<lambda>_. finalize E m p)))))"

declare finalize.simps [simp del]

definition finalize_validation :: "td_env \<Rightarrow> progress \<Rightarrow> (progress \<times> wf_err option) wf_prog" where
  "finalize_validation E p = finalize E 2 p"

end
