(* ===== verification/TeardownSteps.thy ===== *)
theory TeardownSteps
  imports TeardownRun
begin

text \<open>
  A teardown from its typed confirmation on (\<open>runTeardown\<close>): the checkpoint is saved and the lease of the
  environment's index entry taken, then the steps run. Each reads its own mark in the checkpoint, does
  its removal, verifies it, sets the mark and saves the checkpoint, so an interrupted run resumes after
  the last mark. The client of the index, which \<open>newIndexClient\<close> and \<open>indexClientFromConfig\<close> make, is
  given (\<open>teIndex\<close>).
\<close>

type_synonym td_step = "progress \<Rightarrow> (progress \<times> wf_err option) wf_prog"

definition stopped :: "string \<Rightarrow> wf_err \<Rightarrow> wf_err" where
  "stopped name e = WText (name @ '' stopped: '' @ err_text e @
     ''; completed removals are permanent; rerun teardown to resume'')"

fun run_steps :: "(string \<times> td_step) list \<Rightarrow> td_step" where
  "run_steps [] p = Ret (p, None)"
| "run_steps ((name, step) # steps) p = pbind (step p) (\<lambda>(p, e). case e of
     Some e \<Rightarrow> Ret (p, Some (stopped name e))
   | None \<Rightarrow> run_steps steps p)"

text \<open>Marks are set before the checkpoint is saved; a failed save stops the run.\<close>

definition persisted :: "td_env \<Rightarrow> progress \<Rightarrow> (progress \<times> wf_err option) wf_prog" where
  "persisted E p = persist E p (\<lambda>e. Ret (p, e))"

definition quiet_fleet :: "td_env \<Rightarrow> (wf_err option \<Rightarrow> 'a wf_prog) \<Rightarrow> progress \<Rightarrow> 'a wf_prog" where
  "quiet_fleet E k p = github_run (ensure_no_deployments (teGithub E) (tpRepository p)) (\<lambda>e. k (text_error e))"

definition infra :: "td_env \<Rightarrow> string" where
  "infra E = join E [teRoot E, ''infra'']"

definition and_then :: "td_step \<Rightarrow> td_step \<Rightarrow> td_step" where
  "and_then f g p = pbind (f p) (\<lambda>(p, e). case e of Some e \<Rightarrow> Ret (p, Some e) | None \<Rightarrow> g p)"

section \<open>Before the steps\<close>

definition index_pending :: "td_env \<Rightarrow> string \<Rightarrow> string" where
  "index_pending E environment =
     join E [teRoot E, ''.attestra'', ''index-publication.'' @ environment @ ''.local.json'']"

text \<open>The token under which the lease is taken is drawn and saved before it is used.\<close>

definition draw_token :: "td_env \<Rightarrow> string \<Rightarrow> string \<Rightarrow> td_step" where
  "draw_token E url region p = (case tpIndex p of
     Some i \<Rightarrow> Ret (p, None)
   | None \<Rightarrow> Call (WRandom 24) (\<lambda>r. case w_random r of
       Inl e \<Rightarrow> Ret (p, Some e)
     | Inr token \<Rightarrow> persisted E (p\<lparr>tpIndex := Some \<lparr>tiAPI = url, tiRegion = region,
         tiEnvironment = tpEnvironment p, tiToken = hex_encode token, tiRevision = 0\<rparr>\<rparr>)))"

text \<open>A nil dereference stops the program.\<close>

definition nil_receipt :: wf_err where
  "nil_receipt = WText ''invalid memory address or nil pointer dereference''"

definition take_lease :: "td_env \<Rightarrow> td_step" where
  "take_lease E p = (case tpIndex p of
     None \<Rightarrow> Ret (p, Some nil_receipt)
   | Some i \<Rightarrow> if tiRevision i = 0 then
       Call (WIndex ''begin'' (tpEnvironment p) (tiToken i) 0) (\<lambda>r. case w_index r of
         Inl e \<Rightarrow> Ret (p, Some e)
       | Inr (token, revision) \<Rightarrow>
           persisted E (p\<lparr>tpIndex := Some (i\<lparr>tiToken := token, tiRevision := revision\<rparr>)\<rparr>))
     else persisted E p)"

definition begin_index :: "td_env \<Rightarrow> td_step" where
  "begin_index E p = (case teIndex E of
     Inl e \<Rightarrow> Ret (p, Some e)
   | Inr None \<Rightarrow> Ret (p, None)
   | Inr (Some (url, region)) \<Rightarrow>
       if tpIndexRemoved p then Ret (p, None) else
       Call (WGlob (index_pending E (tpEnvironment p) @ ''*'')) (\<lambda>r.
         if w_glob r \<noteq> [] then
           Ret (p, Some (WText ''resolve the pending deployment index receipt before teardown''))
         else and_then (draw_token E url region) (take_lease E) p))"

definition start_teardown :: "td_env \<Rightarrow> td_step" where
  "start_teardown E p =
    typed_confirmation ''Type the environment name to permanently tear it down'' (tpEnvironment p) (\<lambda>e. case e of
      Some e \<Rightarrow> Ret (p, Some e)
    | None \<Rightarrow> and_then (persisted E) (begin_index E) p)"

section \<open>Destroying the stack\<close>

definition confirm_purge :: "td_env \<Rightarrow> progress \<Rightarrow> wf_err option wf_prog" where
  "confirm_purge E p =
    (if tpBucket p = [] then Ret None else
     Call (WConfirm (''Permanently purge all ID evidence versions in '' @ tpBucket p @
         ''? Required if this application bucket is nonempty.'')) (\<lambda>r. case w_confirm r of
       Inl e \<Rightarrow> Ret (Some e)
     | Inr purge \<Rightarrow> if \<not> purge then Ret None else
         typed_confirmation ''Type the evidence bucket name to authorize permanent data deletion'' (tpBucket p) (\<lambda>e.
           case e of
             Some e \<Rightarrow> Ret (Some e)
           | None \<Rightarrow> purge_evidence (teFuel E) (teLib E) (teBackendHost E) (teRegion E) (tpBucket p)
               (teAccount E) (teBackend E))))"

definition destroy_args :: "string \<Rightarrow> string list" where
  "destroy_args environment = [''pulumi'', ''destroy'', ''--stack'', environment, ''--yes'', ''--non-interactive'']"

definition export_args :: "string \<Rightarrow> string list" where
  "export_args environment = [''pulumi'', ''stack'', ''export'', ''--stack'', environment]"

definition destroy_stack :: "td_env \<Rightarrow> progress \<Rightarrow> wf_err option wf_prog" where
  "destroy_stack E p =
    exec (teRunner E) (infra E) (destroy_args (tpEnvironment p)) (\<lambda>x. case x of
      Inl e \<Rightarrow> Ret (Some e)
    | Inr _ \<Rightarrow> exec (teRunner E) (infra E) (export_args (tpEnvironment p)) (\<lambda>x. Ret (case x of
        Inl e \<Rightarrow> Some e | Inr data \<Rightarrow> ensure_destroyed (teLib E) data)))"

definition step_destroy :: "td_env \<Rightarrow> td_step" where
  "step_destroy E p =
    (if tpDestroyed p then Ret (p, None) else
     quiet_fleet E (\<lambda>e. case e of
       Some e \<Rightarrow> Ret (p, Some e)
     | None \<Rightarrow> pbind (confirm_purge E p) (\<lambda>e. case e of
         Some e \<Rightarrow> Ret (p, Some e)
       | None \<Rightarrow> pbind (destroy_stack E p) (\<lambda>e. case e of
           Some e \<Rightarrow> Ret (p, Some e)
         | None \<Rightarrow> persisted E (p\<lparr>tpDestroyed := True\<rparr>)))) p)"

section \<open>External cleanup\<close>

definition change_index :: "string \<Rightarrow> progress \<Rightarrow> (wf_err option \<Rightarrow> 'a wf_prog) \<Rightarrow> 'a wf_prog" where
  "change_index operation p k = (case tpIndex p of
     None \<Rightarrow> k (Some nil_receipt)
   | Some i \<Rightarrow> Call (WIndex operation (tpEnvironment p) (tiToken i) (tiRevision i)) (\<lambda>r.
       k (case w_index r of Inl e \<Rightarrow> Some e | Inr receipt \<Rightarrow> None)))"

definition step_retire :: "td_env \<Rightarrow> td_step" where
  "step_retire E p =
    (if index_client E = None \<or> tpIndexRetired p then Ret (p, None) else
     change_index ''retire'' p (\<lambda>e. case e of
       Some e \<Rightarrow> Ret (p, Some e) | None \<Rightarrow> persisted E (p\<lparr>tpIndexRetired := True\<rparr>)))"

text \<open>\<open>cleanupTeardownDNS\<close>.\<close>

definition step_dns :: "td_env \<Rightarrow> td_step" where
  "step_dns E p =
    (if tpDNSDone p \<or> tpDNSSkipped p then Ret (p, None)
     else if tpDNS p = [] then persisted E (p\<lparr>tpDNSDone := True\<rparr>)
     else case teClient E of
       None \<Rightarrow> Ret (p, Some (WText ''Cloudflare client missing for approved DNS cleanup''))
     | Some c \<Rightarrow> dns_run (delete_dns (teFuel E) c (tpZone p) (tpDNS p)) (\<lambda>e. case text_error e of
         Some e \<Rightarrow> Ret (p, Some e) | None \<Rightarrow> persisted E (p\<lparr>tpDNSDone := True\<rparr>)))"

definition step_role :: "td_env \<Rightarrow> td_step" where
  "step_role E p =
    (if tpRoleDone p then Ret (p, None) else
     quiet_fleet E (\<lambda>e. case e of
       Some e \<Rightarrow> Ret (p, Some e)
     | None \<Rightarrow> pbind (delete_role (teLib E) (teRegion E) (map_value (tpValues p) ''AWS_ROLE_ARN'')
           (tpEnvironment p) (teMetadata E)) (\<lambda>e. case e of
         Some e \<Rightarrow> Ret (p, Some e) | None \<Rightarrow> persisted E (p\<lparr>tpRoleDone := True\<rparr>))) p)"

definition backup_yaml :: "td_env \<Rightarrow> string \<Rightarrow> wf_err option wf_prog" where
  "backup_yaml E yaml = Call (WFile (FRead yaml)) (\<lambda>r. case f_err (w_file r) of
     None \<Rightarrow> (let b = f_data (w_file r) in Call WNow (\<lambda>t.
       Call (WFile (FWriteFile (yaml @ ''.bak.teardown.'' @ w_now t) b)) (\<lambda>r.
         Ret (map_option WFileError (f_err (w_file r))))))
   | Some FNotExist \<Rightarrow> Ret None
   | Some e \<Rightarrow> Ret (Some (WFileError e)))"

definition step_stack :: "td_env \<Rightarrow> td_step" where
  "step_stack E p =
    (if tpStackRemoved p then Ret (p, None)
     else if \<not> teExists E then persisted E (p\<lparr>tpStackRemoved := True\<rparr>)
     else pbind (backup_yaml E (join E [infra E, ''Pulumi.'' @ tpEnvironment p @ ''.yaml''])) (\<lambda>e. case e of
       Some e \<Rightarrow> Ret (p, Some e)
     | None \<Rightarrow> exec (teRunner E) (infra E)
         [''pulumi'', ''stack'', ''rm'', tpEnvironment p, ''--yes'', ''--non-interactive''] (\<lambda>x. case x of
           Inl e \<Rightarrow> Ret (p, Some e) | Inr _ \<Rightarrow> persisted E (p\<lparr>tpStackRemoved := True\<rparr>))))"

definition settings_changed :: "progress \<Rightarrow> gh_snapshot \<Rightarrow> bool" where
  "settings_changed p now \<longleftrightarrow>
     \<not> list_all (\<lambda>key. map_value (gsVariables now) key = map_value (tpValues p) key) gh_variables"

definition delete_environment :: "td_env \<Rightarrow> progress \<Rightarrow> wf_err option wf_prog" where
  "delete_environment E p =
    (let g = teGithub E; path = environment_path g (tpRepository p) (tpEnvironment p) in
     github_run (inspect_environment g (tpRepository p) (tpEnvironment p)) (\<lambda>(now, e). case e of
       Some e \<Rightarrow> Ret (Some (WText e))
     | None \<Rightarrow>
         if gsExists now \<and> settings_changed p now then Ret (Some (WText ''GitHub settings changed; cleanup stopped''))
         else pbind (if gsExists now then github_run (gh_request g ''DELETE'' path []) (\<lambda>x. Ret (case x of
                       Inl e \<Rightarrow> Some (WText e) | Inr _ \<Rightarrow> None)) else Ret None) (\<lambda>e. case e of
           Some e \<Rightarrow> Ret (Some e)
         | None \<Rightarrow> github_run (gh_request g ''GET'' path []) (\<lambda>x. Ret (case gh_found x of
             Inl e \<Rightarrow> Some (WText e)
           | Inr found \<Rightarrow> if found then Some (WText ''GitHub environment deletion not verified'') else None)))))"

definition github_done :: "td_env \<Rightarrow> td_step" where
  "github_done E p =
    (if tpCleanupDone p then Ret (p, None) else
     quiet_fleet E (\<lambda>e. case e of
       Some e \<Rightarrow> Ret (p, Some e)
     | None \<Rightarrow> pbind (delete_environment E p) (\<lambda>e. case e of
         Some e \<Rightarrow> Ret (p, Some e) | None \<Rightarrow> persisted E (p\<lparr>tpCleanupDone := True\<rparr>))) p)"

definition local_done :: "td_env \<Rightarrow> td_step" where
  "local_done E p =
    (if tpLocalDone p then Ret (p, None) else
     pbind (cleanup_local E p) (\<lambda>e. case e of
       Some e \<Rightarrow> Ret (p, Some e) | None \<Rightarrow> persisted E (p\<lparr>tpLocalDone := True\<rparr>)))"

definition index_done :: "td_env \<Rightarrow> td_step" where
  "index_done E p =
    (if index_client E = None \<or> tpIndexRemoved p then Ret (p, None) else
     change_index ''delete'' p (\<lambda>e. case e of
       Some e \<Rightarrow> Ret (p, Some e) | None \<Rightarrow> Ret (p\<lparr>tpIndexRemoved := True\<rparr>, None)))"

definition step_github :: "td_env \<Rightarrow> td_step" where
  "step_github E = and_then (github_done E) (and_then (local_done E) (and_then (finalize_validation E)
     (and_then (index_done E) (\<lambda>p. persisted E (p\<lparr>tpComplete := True\<rparr>)))))"

definition teardown_steps :: "td_env \<Rightarrow> (string \<times> td_step) list" where
  "teardown_steps E =
    [(''Pulumi destroy'', step_destroy E), (''Environment index retirement'', step_retire E),
     (''Cloudflare cleanup'', step_dns E), (''Deployment role cleanup'', step_role E),
     (''Pulumi stack removal'', step_stack E), (''GitHub environment cleanup'', step_github E)]"

definition run_teardown :: "td_env \<Rightarrow> td_step" where
  "run_teardown E = and_then (start_teardown E) (run_steps (teardown_steps E))"

end
