(* ===== verification/TeardownProps.thy ===== *)
theory TeardownProps
  imports TeardownSteps
begin

text \<open>What a teardown promises: absence on evidence, removals of owned things only, in order.\<close>

section \<open>Answers that establish absence\<close>

text \<open>
  How AWS is asked about a resource of each kind, and the codes that say it does not exist: service,
  operation, the option that takes the identifier, further options, and the codes.
\<close>

definition inquiries :: "(string \<times> (string \<times> string \<times> string \<times> string list) \<times> string list) list" where
  "inquiries =
    [(''lambda'', (''lambda'', ''get-function-configuration'', ''--function-name'', []), [''ResourceNotFoundException'']),
     (''mapping'', (''lambda'', ''get-event-source-mapping'', ''--uuid'', []), [''ResourceNotFoundException'']),
     (''role'', (''iam'', ''get-role'', ''--role-name'', []), [''NoSuchEntity'']),
     (''table'', (''dynamodb'', ''describe-table'', ''--table-name'', []), [''ResourceNotFoundException'']),
     (''bucket'', (''s3api'', ''get-bucket-location'', ''--bucket'', []), [''NoSuchBucket'']),
     (''queue'', (''sqs'', ''get-queue-attributes'', ''--queue-url'', [''--attribute-names'', ''QueueArn'']),
        [''AWS.SimpleQueueService.NonExistentQueue'', ''QueueDoesNotExist'']),
     (''pool'', (''cognito-idp'', ''describe-user-pool'', ''--user-pool-id'', []), [''ResourceNotFoundException'']),
     (''cognito-domain'', (''cognito-idp'', ''describe-user-pool-domain'', ''--domain'', []), [''ResourceNotFoundException'']),
     (''ses'', (''ses'', ''get-identity-verification-attributes'', ''--identities'', []), [''ResourceNotFoundException'']),
     (''api'', (''apigatewayv2'', ''get-api'', ''--api-id'', []), [''NotFoundException'']),
     (''domain'', (''apigatewayv2'', ''get-domain-name'', ''--domain-name'', []), [''NotFoundException'']),
     (''distribution'', (''cloudfront'', ''get-distribution'', ''--id'', []), [''NoSuchDistribution'']),
     (''origin-access-control'', (''cloudfront'', ''get-origin-access-control'', ''--id'', []), [''NoSuchOriginAccessControl'']),
     (''certificate'', (''acm'', ''describe-certificate'', ''--certificate-arn'', []), [''ResourceNotFoundException'']),
     (''rule'', (''events'', ''describe-rule'', ''--name'', []), [''ResourceNotFoundException'']),
     (''alarm'', (''cloudwatch'', ''describe-alarms'', ''--alarm-names'', [''--alarm-types'', ''MetricAlarm'', ''CompositeAlarm'']),
        [''ResourceNotFoundException''])]"

text \<open>
  The question is about exactly this resource. A certificate may be asked for in the region of its
  ARN; a DNS record is asked for in its zone, by name and type.
\<close>

inductive asks_about :: "wf_lib \<Rightarrow> probe \<Rightarrow> string list \<Rightarrow> bool" for W p where
  ask_own: "(pbKind p, (service, operation, option, extra), codes) \<in> set inquiries \<Longrightarrow>
     asks_about W p ([service, operation, option, pbID p] @ extra)"
| ask_region: "pbKind p = ''certificate'' \<Longrightarrow> split_on (CHR '':'') (pbID p) = [a, b, c, region, d, e] \<Longrightarrow>
     asks_about W p [''acm'', ''describe-certificate'', ''--certificate-arn'', pbID p, ''--region'', region]"
| ask_record: "pbKind p = ''record'' \<Longrightarrow> pbZone p \<noteq> [] \<Longrightarrow> pbRecordType p \<noteq> [] \<Longrightarrow>
     map_of input ''HostedZoneId'' = Some (pbZone p) \<Longrightarrow> map_of input ''StartRecordName'' = Some (pbID p) \<Longrightarrow>
     map_of input ''StartRecordType'' = Some (pbRecordType p) \<Longrightarrow>
     asks_about W p [''route53'', ''list-resource-record-sets'', ''--cli-input-json'', string_map_json W input, ''--no-paginate'']"

definition not_found :: "string \<Rightarrow> string \<Rightarrow> bool" where
  "not_found kind code \<longleftrightarrow> (\<exists>question codes. (kind, question, codes) \<in> set inquiries \<and> code \<in> set codes) \<or>
     kind = ''record'' \<and> code = ''NoSuchHostedZone''"

text \<open>The command failed, not for its credentials, and its error output names the code.\<close>

definition names_code :: "string \<Rightarrow> string \<Rightarrow> bool" where
  "names_code text code \<longleftrightarrow> (\<exists>u v. text = u @ ''('' @ code @ '') when calling'' @ v)"

definition refused_with :: "wf_lib \<Rightarrow> string \<Rightarrow> wf_resp \<Rightarrow> string \<Rightarrow> bool" where
  "refused_with W region r code \<longleftrightarrow>
     (\<exists>text. w_stderr r = Some text \<and> wlRenew W region text = None \<and> names_code text code)"

definition no_items :: "wf_lib \<Rightarrow> string \<Rightarrow> bool" where
  "no_items W raw \<longleftrightarrow> raw \<noteq> ''null'' \<and> (json_items W raw = Some None \<or> json_items W raw = Some (Some []))"

text \<open>Names of DNS records are compared without case and without a final dot.\<close>

definition dns_equal :: "wf_lib \<Rightarrow> string \<Rightarrow> string \<Rightarrow> bool" where
  "dns_equal W a b \<longleftrightarrow>
     (let f = (\<lambda>s. if s \<noteq> [] \<and> last s = CHR ''.'' then butlast s else s)
      in f (to_lower (wlGo W) a) = f (to_lower (wlGo W) b))"

text \<open>The answers that prove the resource gone.\<close>

inductive gone_answer :: "wf_lib \<Rightarrow> string \<Rightarrow> probe \<Rightarrow> wf_resp \<Rightarrow> bool" for W region p r where
  gone_code: "not_found (pbKind p) code \<Longrightarrow> refused_with W region r code \<Longrightarrow> gone_answer W region p r"
| gone_object: "(pbKind p, key) \<in> {(''cognito-domain'', ''DomainDescription''), (''ses'', ''VerificationAttributes'')} \<Longrightarrow>
     w_stderr r = None \<Longrightarrow> json_object W (w_stdout r) = Some body \<Longrightarrow>
     map_of body key = Some raw \<Longrightarrow> raw \<noteq> ''null'' \<Longrightarrow> json_object W raw = Some [] \<Longrightarrow>
     gone_answer W region p r"
| gone_record: "pbKind p = ''record'' \<Longrightarrow> w_stderr r = None \<Longrightarrow> json_object W (w_stdout r) = Some body \<Longrightarrow>
     map_of body ''ResourceRecordSets'' = Some raw \<Longrightarrow> raw \<noteq> ''null'' \<Longrightarrow> parse_entries W raw = Some rs \<Longrightarrow>
     \<forall>(name, kind)\<in>set rs. name \<noteq> [] \<and> kind \<noteq> [] \<and> \<not> (dns_equal W name (pbID p) \<and> kind = pbRecordType p) \<Longrightarrow>
     gone_answer W region p r"
| gone_alarm: "pbKind p = ''alarm'' \<Longrightarrow> w_stderr r = None \<Longrightarrow> json_object W (w_stdout r) = Some body \<Longrightarrow>
     map_of body ''MetricAlarms'' = Some raw \<Longrightarrow> no_items W raw \<Longrightarrow>
     map_of body ''CompositeAlarms'' = Some raw' \<Longrightarrow> no_items W raw' \<Longrightarrow>
     gone_answer W region p r"

text \<open>The history shows the question about the resource and such an answer.\<close>

definition shown_gone :: "wf_lib \<Rightarrow> string \<Rightarrow> probe \<Rightarrow> (wf_call \<times> wf_resp) list \<Rightarrow> bool" where
  "shown_gone W region p t \<longleftrightarrow> pbID p \<noteq> [] \<and> (\<exists>args r. (WAws region (args @ aws_flags), r) \<in> set t \<and>
     asks_about W p args \<and> gone_answer W region p r)"

lemma present_Some: "present body key = Some raw \<longleftrightarrow> map_of body key = Some raw \<and> raw \<noteq> ''null''"
  by (auto simp: present_def split: option.splits)

lemma has_suffix_dot: "has_suffix s ''.'' \<longleftrightarrow> s \<noteq> [] \<and> last s = CHR ''.''"
  by (cases s rule: rev_cases) (auto simp: has_suffix_def)

lemma same_name_iff: "same_name W a b \<longleftrightarrow> dns_equal W a b"
  by (simp add: same_name_def dns_equal_def trim_suffix_def has_suffix_dot butlast_conv_take)

lemma record_absent_None:
  "record_absent W p rs = None \<Longrightarrow>
     \<forall>(name, kind)\<in>set rs. name \<noteq> [] \<and> kind \<noteq> [] \<and> \<not> (dns_equal W name (pbID p) \<and> kind = pbRecordType p)"
  by (induction rs rule: record_absent.induct) (auto simp: same_name_iff split: if_splits)

lemma items_len_0: "items_len x = Some 0 \<longleftrightarrow> x = Some None \<or> x = Some (Some [])"
  by (auto simp: items_len_def split: option.splits)

lemma alarms_absent_None:
  "alarms_absent W body raw = None \<Longrightarrow> items_len (json_items W raw) = Some 0 \<and>
     (\<exists>raw'. map_of body ''CompositeAlarms'' = Some raw' \<and> no_items W raw')"
  by (auto simp: alarms_absent_def present_Some no_items_def items_len_0 [symmetric] split: option.splits if_splits)

lemma starts_withE: "has_prefix s p \<Longrightarrow> \<exists>v. s = p @ v"
  by (metis append_take_drop_id has_prefix_def)

lemma error_code_Some: "error_code s = Some code \<Longrightarrow> names_code s code"
proof (induction s)
  case (Cons c s)
  define w where "w = takeWhile (\<lambda>x. is_alnum x \<or> x = CHR ''.'') s"
  have s: "s = w @ drop (length w) s" unfolding w_def by (metis append_take_drop_id takeWhile_eq_take)
  show ?case
  proof (cases "c = CHR ''('' \<and> w \<noteq> [] \<and> has_prefix (drop (length w) s) '') when calling''")
    case True
    then obtain v where "drop (length w) s = '') when calling'' @ v" using starts_withE by blast
    with s have "s = w @ '') when calling'' @ v" by metis
    moreover have "code = w" "c = CHR ''(''" using True Cons.prems by (simp_all add: Let_def w_def)
    ultimately show ?thesis unfolding names_code_def by (intro exI [of _ "[]"] exI [of _ v]) simp
  next
    case False
    with Cons.prems have "error_code s = Some code" by (simp add: Let_def w_def split: if_splits)
    from Cons.IH [OF this] obtain u v where "s = u @ ''('' @ code @ '') when calling'' @ v"
      unfolding names_code_def by blast
    then have "c # s = (c # u) @ ''('' @ code @ '') when calling'' @ v" by simp
    then show ?thesis unfolding names_code_def by blast
  qed
qed simp

definition answered :: "wf_lib \<Rightarrow> string \<Rightarrow> string list \<Rightarrow> wf_resp \<Rightarrow> aws_answer" where
  "answered W region args r = aws_outcome (wlRenew W region) args (w_stderr r) (w_stdout r)"

lemma answered_refused:
  "answered W region args r = AwsFail (WAwsError operation code) \<Longrightarrow> refused_with W region r code"
  "answered W region args r = AwsMissing \<Longrightarrow> refused_with W region r ''NoSuchEntity''"
  by (auto simp: answered_def aws_outcome_def refused_with_def dest: error_code_Some split: option.splits if_splits)

lemma answered_done: "answered W region args r = AwsDone out \<Longrightarrow> w_stderr r = None \<and> out = w_stdout r"
  by (auto simp: answered_def aws_outcome_def split: option.splits if_splits)

lemma listed_absent_gone:
  assumes "listed_absent W p body = None" "json_object W (w_stdout r) = Some body" "w_stderr r = None"
    and "answer_field (pbKind p) \<noteq> []"
  shows "gone_answer W region p r"
proof -
  from assms(1) obtain raw where l: "present body (answer_field (pbKind p)) = Some raw"
    by (auto simp: listed_absent_def split: option.splits)
  from assms(4) consider (object) key where "(pbKind p, key) \<in> {(''cognito-domain'', ''DomainDescription''), (''ses'', ''VerificationAttributes'')}"
      "answer_field (pbKind p) = key"
    | (entry) "pbKind p = ''record''" | (alarm) "pbKind p = ''alarm''"
    by (auto simp: answer_field_def split: if_splits)
  then show ?thesis
  proof cases
    case object
    with l assms(1) have "json_object W raw = Some []"
      by (auto simp: listed_absent_def empty_object_def split: option.splits if_splits)
    with l object gone_object [OF object(1) assms(3,2)] show ?thesis by (simp add: present_Some)
  next
    case entry
    with l assms(1) obtain rs where "parse_entries W raw = Some rs" "record_absent W p rs = None"
      by (auto simp: listed_absent_def split: option.splits)
    with gone_record [OF entry assms(3,2)] l record_absent_None entry show ?thesis
      by (simp add: answer_field_def present_Some)
  next
    case alarm
    with l assms(1) have "alarms_absent W body raw = None" by (simp add: listed_absent_def)
    from alarms_absent_None [OF this] gone_alarm [OF alarm assms(3,2)] l alarm show ?thesis
      by (auto simp: answer_field_def present_Some no_items_def items_len_0)
  qed
qed

lemma probe_args_asks:
  assumes "probe_args W p = Inr args"
  shows "asks_about W p args"
proof (cases "pbKind p \<in> {''record'', ''certificate''}")
  case True
  then consider (entry) "pbKind p = ''record''" | (certificate) "pbKind p = ''certificate''" by blast
  then show ?thesis
  proof cases
    case entry
    with assms show ?thesis by (auto simp: probe_args_def Let_def intro!: ask_record split: if_splits)
  next
    case certificate
    let ?q = "[''acm'', ''describe-certificate'', ''--certificate-arn'', pbID p]"
    have "asks_about W p (?q @ [])" by (rule ask_own) (simp add: certificate inquiries_def)
    moreover have "asks_about W p (?q @ [''--region'', split_on (CHR '':'') (pbID p) ! 3])"
      if six: "length (split_on (CHR '':'') (pbID p)) = 6"
    proof -
      from six obtain a b c x d e where "split_on (CHR '':'') (pbID p) = [a, b, c, x, d, e]"
        by (auto simp: length_Suc_conv eval_nat_numeral)
      with ask_region [OF certificate this] show ?thesis by simp
    qed
    ultimately show ?thesis using assms certificate by (auto simp: probe_args_def Let_def split: if_splits)
  qed
next
  case False
  with assms obtain service operation option extra codes where
    "(pbKind p, (service, operation, option, extra), codes) \<in> set inquiries"
    "args = [service, operation, option, pbID p] @ extra"
    unfolding probe_args_def Let_def by (auto simp: inquiries_def split: if_splits)
  then show ?thesis using ask_own by simp
qed

lemma missing_code_not_found:
  assumes "asks_about W p args"
  shows "not_found (pbKind p) (missing_code (pbKind p))" "pbKind p = ''queue'' \<Longrightarrow> not_found (pbKind p) ''QueueDoesNotExist''"
    "pbKind p = ''role'' \<Longrightarrow> not_found (pbKind p) ''NoSuchEntity''"
proof -
  have "pbKind p = ''record'' \<or> pbKind p \<in> fst ` set inquiries"
    using assms by cases (force simp: inquiries_def)+
  then show "not_found (pbKind p) (missing_code (pbKind p))"
    by (auto simp: not_found_def inquiries_def missing_code_def missing_codes_def)
qed (simp_all add: not_found_def inquiries_def)

lemma probe_verdict_gone:
  assumes "probe_verdict W p (answered W region args r) = None" "asks_about W p args"
  shows "gone_answer W region p r"
proof (cases "answered W region args r")
  case (AwsFail e)
  with assms(1) obtain operation code where e: "e = WAwsError operation code"
    and code: "code = missing_code (pbKind p) \<or> pbKind p = ''queue'' \<and> code = ''QueueDoesNotExist''"
    by (cases e) (auto simp: probe_verdict_def aws_decode_def split: if_splits)
  from gone_code [OF _ answered_refused(1) [OF AwsFail [unfolded e]]] code missing_code_not_found [OF assms(2)]
  show ?thesis by auto
next
  case AwsMissing
  with assms(1) have "pbKind p = ''role''" by (auto simp: probe_verdict_def aws_decode_def split: if_splits)
  from gone_code [OF missing_code_not_found(3) [OF assms(2) this] answered_refused(2) [OF AwsMissing]] show ?thesis .
next
  case (AwsDone out)
  with assms(1) obtain body where b: "json_object W out = Some body" "answer_field (pbKind p) \<noteq> []"
      "listed_absent W p body = None"
    by (auto simp: probe_verdict_def aws_decode_def split: option.splits if_splits)
  with answered_done [OF AwsDone] listed_absent_gone [OF b(3)] show ?thesis by simp
qed

lemma execs_aws: "execs (aws W region args k) t x \<longleftrightarrow>
    (\<exists>r t'. t = (WAws region (args @ aws_flags), r) # t' \<and> execs (k (answered W region args r)) t' x)"
  by (auto simp: aws_def execs_Call answered_def)

lemma verify_probe_gone:
  assumes "execs (verify_probe W region p) t None"
  shows "\<exists>args r. t = [(WAws region (args @ aws_flags), r)] \<and> pbID p \<noteq> [] \<and> asks_about W p args \<and>
    gone_answer W region p r"
proof -
  from assms obtain args r where a: "probe_args W p = Inr args" "pbID p \<noteq> []"
      "t = [(WAws region (args @ aws_flags), r)]" "probe_verdict W p (answered W region args r) = None"
    by (auto simp: verify_probe_def execs_aws split: if_splits sum.splits)
  with probe_verdict_gone [OF a(4) probe_args_asks [OF a(1)]] probe_args_asks show ?thesis by blast
qed

text \<open>C25: A resource counts as removed only on an authoritative answer: the probe made one call, which
  asked AWS for exactly that resource, by its identifier, and was told so by a code that says that a
  resource of this kind does not exist, or by a complete answer that holds the entry asked for nowhere. A
  denial, another error, an answer that cannot be read or lacks a field, an unknown kind or a missing
  identifier never count.\<close>

theorem probe_absence:
  assumes "execs (verify_probe W region p) t None"
  shows "\<exists>args r. t = [(WAws region (args @ aws_flags), r)] \<and> pbID p \<noteq> [] \<and> asks_about W p args \<and>
    gone_answer W region p r"
  by (rule verify_probe_gone [OF assms])

section \<open>The deployment role\<close>

definition role_read :: "wf_call \<Rightarrow> bool" where
  "role_read q \<longleftrightarrow> (\<exists>region operation rest. q = WAws region (''iam'' # operation # rest) \<and>
     operation \<in> {''get-role'', ''list-instance-profiles-for-role'', ''list-role-policies'', ''list-attached-role-policies''})"

lemma role_readI [simp]:
  "role_read (WAws region (''iam'' # ''get-role'' # rest))"
  "role_read (WAws region (''iam'' # ''list-instance-profiles-for-role'' # rest))"
  "role_read (WAws region (''iam'' # ''list-role-policies'' # rest))"
  "role_read (WAws region (''iam'' # ''list-attached-role-policies'' # rest))"
  by (auto simp: role_read_def)

lemma safe_aws: "safe P Q (aws W region args k) h \<longleftrightarrow> P (WAws region (args @ aws_flags)) h \<and>
    (\<forall>r. safe P Q (k (answered W region args r)) (h @ [(WAws region (args @ aws_flags), r)]))"
  by (simp add: aws_def answered_def)

lemma safe_role_listing:
  "safe P Q (role_listing W region operation name k) h \<longleftrightarrow>
     P (WAws region ([''iam'', operation, ''--role-name'', name] @ aws_flags)) h \<and>
     (\<forall>r. safe P Q (k (case aws_decode (parse_list W) (answered W region [''iam'', operation, ''--role-name'', name] r) of
        Inl e \<Rightarrow> Inl e | Inr None \<Rightarrow> Inr ([], False) | Inr (Some l) \<Rightarrow> Inr l))
       (h @ [(WAws region ([''iam'', operation, ''--role-name'', name] @ aws_flags), r)]))"
  by (simp add: role_listing_def safe_aws)

lemma inspect_contents_safe:
  assumes "\<And>q h. role_read q \<Longrightarrow> P q h"
  shows "safe P (\<lambda>_ _. True) (inspect_contents W region name) h"
  unfolding inspect_contents_def safe_role_listing
  by (auto simp: assms safe_role_listing split: sum.split)

lemma inspect_role_safe:
  assumes "\<And>q h. role_read q \<Longrightarrow> P q h"
  shows "safe P (\<lambda>_ _. True) (inspect_role W region arn environment m) h"
  unfolding inspect_role_def
  by (auto simp: assms safe_aws inspect_contents_safe split: list.split sum.split option.split)

text \<open>The role is this environment's: its ARN and tags say so, its trust is the one setup writes, and
  nothing that setup does not manage is attached to it.\<close>

definition role_owned :: "wf_lib \<Rightarrow> string \<Rightarrow> string \<Rightarrow> string \<Rightarrow> metadata \<Rightarrow> string list \<Rightarrow>
    (wf_call \<times> wf_resp) list \<Rightarrow> bool" where
  "role_owned W region arn environment m policies t \<longleftrightarrow> set policies \<subseteq> set managed_policies \<and>
     (\<exists>name r t' role. t = (WAws region ([''iam'', ''get-role'', ''--role-name'', name] @ aws_flags), r) # t' \<and>
        aws_decode (parse_role W) (answered W region [''iam'', ''get-role'', ''--role-name'', name] r) = Inr (Some role) \<and>
        roArn role = arn \<and> owned environment (roTags role) \<and> bound_subjects m environment (roTags role) \<noteq> [] \<and>
        roTrust role = github_trust (split_on (CHR '':'') arn ! 4) (last (bound_subjects m environment (roTags role))))"

definition role_gone :: "wf_lib \<Rightarrow> string \<Rightarrow> string list \<Rightarrow> (wf_call \<times> wf_resp) list \<Rightarrow> bool" where
  "role_gone W region policies t \<longleftrightarrow> policies = [] \<and>
     (\<exists>name r. t = [(WAws region ([''iam'', ''get-role'', ''--role-name'', name] @ aws_flags), r)] \<and>
        aws_decode (parse_role W) (answered W region [''iam'', ''get-role'', ''--role-name'', name] r) = Inr None)"

lemma execs_role_listing:
  "execs (role_listing W region operation name k) t x \<Longrightarrow> \<exists>y t'. execs (k y) t' x"
  by (auto simp: role_listing_def execs_aws)

lemma inspect_contents_execs:
  assumes "execs (inspect_contents W region name) t (Inr (name', policies))"
  shows "name' = name \<and> set policies \<subseteq> set managed_policies"
  using assms unfolding inspect_contents_def
  by (auto simp: role_listing_def execs_aws execs_unfold simp del: split_paired_Ex split: if_splits)

lemma role_error_None:
  "role_error arn environment m role = None \<Longrightarrow> roArn role = arn \<and> owned environment (roTags role) \<and>
     bound_subjects m environment (roTags role) \<noteq> [] \<and>
     roTrust role = github_trust (split_on (CHR '':'') arn ! 4) (last (bound_subjects m environment (roTags role)))"
  by (auto simp: role_error_def Let_def split: if_splits)

lemma inspect_role_execs:
  assumes "execs (inspect_role W region arn environment m) t (Inr (name, policies))"
  shows "split_str 0 '':role/'' arn = [hd (split_str 0 '':role/'' arn), name] \<and>
    (role_owned W region arn environment m policies t \<or> role_gone W region policies t)"
proof -
  from assms obtain pre n where s: "split_str 0 '':role/'' arn = [pre, n]" "CHR ''/'' \<notin> set n"
    by (auto simp: inspect_role_def split: list.splits if_splits)
  with assms obtain r t' where t: "t = (WAws region ([''iam'', ''get-role'', ''--role-name'', n] @ aws_flags), r) # t'"
    and k: "execs (case aws_decode (parse_role W) (answered W region [''iam'', ''get-role'', ''--role-name'', n] r) of
           Inl e \<Rightarrow> Ret (Inl e)
         | Inr None \<Rightarrow> Ret (Inr (n, []))
         | Inr (Some role) \<Rightarrow> (case role_error arn environment m role of
             Some e \<Rightarrow> Ret (Inl (WText e))
           | None \<Rightarrow> inspect_contents W region n)) t' (Inr (name, policies))"
    by (auto simp: inspect_role_def execs_aws)
  let ?x = "aws_decode (parse_role W) (answered W region [''iam'', ''get-role'', ''--role-name'', n] r)"
  from k consider (gone) "?x = Inr None" "t' = []" "name = n" "policies = []"
    | (found) role where "?x = Inr (Some role)" "role_error arn environment m role = None"
        "execs (inspect_contents W region n) t' (Inr (name, policies))"
    by (auto simp: execs_case_sum execs_case_option)
  then show ?thesis
  proof cases
    case gone
    with s t show ?thesis by (auto simp: role_gone_def)
  next
    case found
    from inspect_contents_execs [OF found(3)] role_error_None [OF found(2)] s t found(1)
    show ?thesis by (auto simp: role_owned_def)
  qed
qed

text \<open>Which deletions an execution of the inspection allows.\<close>

definition role_deletion :: "string \<Rightarrow> string \<Rightarrow> string list \<Rightarrow> wf_call \<Rightarrow> bool" where
  "role_deletion region name policies q \<longleftrightarrow>
     (\<exists>policy\<in>set policies. q = WAws region ([''iam'', ''delete-role-policy'', ''--role-name'', name, ''--policy-name'', policy] @ aws_flags)) \<or>
     q = WAws region ([''iam'', ''delete-role'', ''--role-name'', name] @ aws_flags)"

definition role_allowed :: "wf_lib \<Rightarrow> string \<Rightarrow> string \<Rightarrow> string \<Rightarrow> metadata \<Rightarrow> wf_call \<Rightarrow>
    (wf_call \<times> wf_resp) list \<Rightarrow> bool" where
  "role_allowed W region arn environment m q h \<longleftrightarrow> role_read q \<or>
     (\<exists>t h1 policies. h = t @ h1 \<and> role_deletion region (last (split_str 0 '':role/'' arn)) policies q \<and>
        (role_owned W region arn environment m policies t \<or> role_gone W region policies t))"

definition role_verified :: "wf_lib \<Rightarrow> string \<Rightarrow> string \<Rightarrow> wf_err option \<Rightarrow> (wf_call \<times> wf_resp) list \<Rightarrow> bool" where
  "role_verified W region arn e h \<longleftrightarrow> e \<noteq> None \<or> (\<exists>h0 r.
     h = h0 @ [(WAws region ([''iam'', ''get-role'', ''--role-name'', last (split_str 0 '':role/'' arn)] @ aws_flags), r)] \<and>
     aws_found (answered W region [''iam'', ''get-role'', ''--role-name'', last (split_str 0 '':role/'' arn)] r) = Inr False)"

lemma delete_policies_safe:
  assumes "\<And>policy new. policy \<in> set ps \<Longrightarrow> P (WAws region ([''iam'', ''delete-role-policy'', ''--role-name'', name,
      ''--policy-name'', policy] @ aws_flags)) (past @ new)"
  shows "safe P (\<lambda>e h. \<exists>h1. h = past @ h1) (delete_policies W region name ps) (past @ new)"
  using assms
proof (induction ps arbitrary: new)
  case (Cons p ps)
  have "safe P (\<lambda>e h. \<exists>h1. h = past @ h1) (delete_policies W region name ps) (past @ h2)" for h2
    by (rule Cons.IH) (use Cons.prems in auto)
  note this [of "new @ [x]" for x, simplified]
  with Cons.prems [of p new] show ?case by (simp add: safe_aws split: sum.split)
qed auto

text \<open>Teardown removes a deployment role only after inspecting it, and only what the inspection
  covers: the role's ARN, ownership tags and trust are this repository's and environment's, every
  inline policy it deletes is one that setup manages and nothing else is attached (or the role was
  already gone, and then it deletes no policy); it reports success only when the role is read as
  missing afterwards.\<close>

theorem role_removal_owned:
  "safe (role_allowed W region arn environment m) (role_verified W region arn)
     (delete_role W region arn environment m) []"
  unfolding delete_role_def
proof (rule safe_bind_execs)
  show "safe (role_allowed W region arn environment m) (\<lambda>_ _. True) (inspect_role W region arn environment m) []"
    by (rule inspect_role_safe) (simp add: role_allowed_def)
next
  fix x t
  assume ex: "execs (inspect_role W region arn environment m) t x"
  let ?P = "role_allowed W region arn environment m"
  have "safe ?P (role_verified W region arn) (pbind (delete_policies W region name policies) (\<lambda>e. case e of
       Some e \<Rightarrow> Ret (Some e) | None \<Rightarrow> remove_role W region name)) t" if x: "x = Inr (name, policies)" for name policies
  proof -
    note i = inspect_role_execs [OF ex [unfolded x]]
    then have o: "role_owned W region arn environment m policies t \<or> role_gone W region policies t" by blast
    from i have n: "last (split_str 0 '':role/'' arn) = name" by (metis last.simps list.distinct(1))
    have allowed: "?P q (t @ h1)" if "role_deletion region name policies q" for q h1
      unfolding role_allowed_def n using that o by blast
    have "safe ?P (role_verified W region arn) (remove_role W region name) (t @ h1)" for h1
    proof -
      have "?P (WAws region (''iam'' # ''get-role'' # rest)) h" for rest h by (simp add: role_allowed_def)
      moreover have "?P (WAws region ([''iam'', ''delete-role'', ''--role-name'', name] @ aws_flags)) (t @ h1)"
        by (rule allowed) (simp add: role_deletion_def)
      ultimately show ?thesis by (auto simp: remove_role_def safe_aws role_verified_def n split: sum.split)
    qed
    then show ?thesis
      by (intro safe_bindI [OF delete_policies_safe [where past = t and new = "[]", simplified]])
        (auto intro!: allowed simp: role_deletion_def role_verified_def split: option.split)
  qed
  then show "safe ?P (role_verified W region arn) (case x of Inl e \<Rightarrow> Ret (Some e)
     | Inr (name, policies) \<Rightarrow> pbind (delete_policies W region name policies) (\<lambda>e. case e of
         Some e \<Rightarrow> Ret (Some e) | None \<Rightarrow> remove_role W region name)) ([] @ t)"
    by (auto simp: role_verified_def split: sum.split)
qed

end
