(* ===== verification/TeardownOrder.thy ===== *)
theory TeardownOrder
  imports TeardownProps GithubProps VaultProps
begin

text \<open>The order of a teardown's removals, and what its completion means.\<close>

section \<open>Calls that leave everything outside this machine as it is\<close>

definition query_name :: "string \<Rightarrow> bool" where
  "query_name operation \<longleftrightarrow> has_prefix operation ''get-'' \<or> has_prefix operation ''describe-'' \<or> has_prefix operation ''list-''"

definition gh_reading :: "gh_call \<Rightarrow> bool" where
  "gh_reading q = (case q of GSend r \<Rightarrow> gqMethod r = ''GET'' | _ \<Rightarrow> True)"

definition keeps_remote :: "wf_call \<Rightarrow> bool" where
  "keeps_remote q = (case q of
      WAws region (service # operation # rest) \<Rightarrow> query_name operation
    | WAws region _ \<Rightarrow> False
    | WExec rn dir args \<Rightarrow> take 2 args = [''pulumi'', ''stack''] \<and> hd (drop 2 args) \<in> {''export'', ''ls''}
    | WGithub c \<Rightarrow> gh_reading c
    | WDns c \<Rightarrow> (case c of DNew m u \<Rightarrow> True | DSend r \<Rightarrow> dqMethod r = ''GET'')
    | WIndex operation environment token revision \<Rightarrow> False
    | _ \<Rightarrow> True)"

lemma keeps_remote_simps [simp]:
  "keeps_remote (WAws region (service # operation # rest)) \<longleftrightarrow> query_name operation"
  "keeps_remote (WExec rn dir (''pulumi'' # ''stack'' # ''export'' # rest))"
  "keeps_remote (WGithub c) \<longleftrightarrow> gh_reading c"
  "keeps_remote (WFile fc)" "keeps_remote (WVault v)" "keeps_remote (WLstat f)" "keeps_remote (WInput s)"
  "keeps_remote (WConfirm s)" "keeps_remote WNow" "keeps_remote (WSleep n)" "keeps_remote (WGlob f)" "keeps_remote (WRandom n)"
  by (simp_all add: keeps_remote_def)

lemma gh_reading_simps [simp]:
  "gh_reading (GNew m u)" "gh_reading (GSeal k s)" "gh_reading (GSend r) \<longleftrightarrow> gqMethod r = ''GET''"
  by (simp_all add: gh_reading_def)

lemma safe_lift_calls:
  assumes "\<And>q h. R q \<Longrightarrow> P (f q) h" "safe (\<lambda>q _. R q) (\<lambda>_ _. True) p past"
  shows "safe P (\<lambda>_ _. True) (lift_calls f g p) h"
  using assms(2)
proof (induction p arbitrary: h past)
  case (Call q k)
  have "safe P (\<lambda>_ _. True) (lift_calls f g (k (g r))) (h @ [(f q, r)])" for r
    by (rule Call.IH [where past = "past @ [(q, g r)]"]) (use Call.prems in auto)
  with Call.prems assms(1) show ?case by simp
qed auto



section \<open>Order\<close>

text \<open>
  What the history shows, in terms of calls and answers: the environment's or the bucket's name was
  typed; GitHub answered, for each status, that no deployment run has it; a destroy of the stack
  succeeded and the state exported after it holds nothing but the stack and its providers.
\<close>

definition typed :: "string \<Rightarrow> (wf_call \<times> wf_resp) list \<Rightarrow> bool" where
  "typed name h \<longleftrightarrow> (\<exists>label r. (WInput label, r) \<in> set h \<and> w_input r = Inr name)"

definition on_github :: "wf_call \<times> wf_resp \<Rightarrow> (gh_call \<times> gh_resp) list" where
  "on_github x = (case fst x of WGithub c \<Rightarrow> [(c, w_gh (snd x))] | _ \<Rightarrow> [])"

definition github_part :: "(wf_call \<times> wf_resp) list \<Rightarrow> (gh_call \<times> gh_resp) list" where
  "github_part h = concat (map on_github h)"

definition quiet_before :: "td_env \<Rightarrow> progress \<Rightarrow> (wf_call \<times> wf_resp) list \<Rightarrow> bool" where
  "quiet_before E p h \<longleftrightarrow> quiet_shown (teGithub E) (tpRepository p) (github_part h)"

definition in_infra :: "td_env \<Rightarrow> string list \<Rightarrow> wf_call" where
  "in_infra E args = WExec (teRunner E) (join E [teRoot E, ''infra'']) args"

definition destroying :: "td_env \<Rightarrow> progress \<Rightarrow> wf_call \<Rightarrow> bool" where
  "destroying E p q \<longleftrightarrow> q = in_infra E [''pulumi'', ''destroy'', ''--stack'', tpEnvironment p, ''--yes'', ''--non-interactive'']"

definition empty_state :: "wf_lib \<Rightarrow> string \<Rightarrow> bool" where
  "empty_state W data \<longleftrightarrow> (\<exists>types. parse_types W data = Some (Some types) \<and>
     (\<forall>t\<in>set types. t = ''pulumi:pulumi:Stack'' \<or> has_prefix t ''pulumi:providers:''))"

definition destroyed_before :: "td_env \<Rightarrow> progress \<Rightarrow> (wf_call \<times> wf_resp) list \<Rightarrow> bool" where
  "destroyed_before E p h \<longleftrightarrow> tpDestroyed p \<or>
     (\<exists>h0 q r h1 r' h2 out data. h = h0 @ (q, r) # h1 @ (in_infra E [''pulumi'', ''stack'', ''export'', ''--stack'', tpEnvironment p], r') # h2 \<and>
        destroying E p q \<and> w_exec r = Inr out \<and> w_exec r' = Inr data \<and> empty_state (teLib E) data)"

definition purging :: "td_env \<Rightarrow> progress \<Rightarrow> wf_call \<Rightarrow> bool" where
  "purging E p q \<longleftrightarrow> (\<exists>file. q = WAws (teRegion E) (delete_args (tpBucket p) (teAccount E) file @ aws_flags)) \<and>
     teBackendHost E (teBackend E) \<notin> {None, Some (tpBucket p)}"






definition removal_ok :: "td_env \<Rightarrow> progress \<Rightarrow> wf_call \<Rightarrow> (wf_call \<times> wf_resp) list \<Rightarrow> bool" where
  "removal_ok E p q h \<longleftrightarrow> keeps_remote q \<or> destroyed_before E p h \<or>
     (quiet_before E p h \<and> (destroying E p q \<or> (purging E p q \<and> typed (tpBucket p) h)))"



lemma github_part_append [simp]: "github_part (h @ t) = github_part h @ github_part t"
  by (simp add: github_part_def)






lemma execs_on_github: "execs (lift_calls WGithub w_gh p) t x \<Longrightarrow> execs p (github_part t) x"
proof (induction p arbitrary: t)
  case (Call q k)
  then show ?case by (auto simp: execs_Call github_part_def on_github_def)
qed (auto simp: github_part_def)

subsection \<open>Destroying the stack\<close>

lemma keeps_ok: "keeps_remote q \<Longrightarrow> removal_ok E p q h"
  by (simp add: removal_ok_def)

lemma persisted_safe: "safe (removal_ok E p) (\<lambda>_ _. True) (persisted E p') h"
  unfolding persisted_def persist_def file_run_def
  by (rule safe_bindI [OF safe_lift_calls [where R = "\<lambda>_. True" and past = "[]"]])
    (auto simp: keeps_ok intro: safe_true)










subsection \<open>The lease\<close>

lemma removal_ok_index [simp]: "removal_ok E (p\<lparr>tpIndex := i\<rparr>) = removal_ok E p"
  unfolding removal_ok_def destroyed_before_def quiet_before_def destroying_def purging_def by simp








section \<open>Completion\<close>

lemma execs_and_then:
  "execs (and_then f g p) t (p', None) \<longleftrightarrow>
     (\<exists>t1 t2 p1. t = t1 @ t2 \<and> execs (f p) t1 (p1, None) \<and> execs (g p1) t2 (p', None))"
  by (force simp: and_then_def execs_unfold)

lemma execs_run_steps:
  "execs (run_steps ((name, s) # ss) p) t (p', None) \<longleftrightarrow>
     (\<exists>t1 t2 p1. t = t1 @ t2 \<and> execs (s p) t1 (p1, None) \<and> execs (run_steps ss p1) t2 (p', None))"
  by (force simp: execs_unfold)

text \<open>
  The inventory holds no zero byte, as identifiers of AWS never do, so that resources that are looked up
  together are the same.
\<close>

definition plain_probe :: "probe \<Rightarrow> bool" where
  "plain_probe pr \<longleftrightarrow> CHR 0x00 \<notin> set (pbKind pr @ pbID pr @ pbZone pr @ pbRecordType pr)"

lemma cache_key_same:
  assumes "cache_key q = cache_key pr" "plain_probe q" "plain_probe pr"
  shows "pbKind q = pbKind pr" "pbID q = pbID pr" "pbZone q = pbZone pr" "pbRecordType q = pbRecordType pr"
  using assms unfolding cache_key_def plain_probe_def
  by (auto dest!: split_at_separator)

lemma shown_gone_same:
  assumes "shown_gone W region q t" "pbKind q = pbKind pr" "pbID q = pbID pr" "pbZone q = pbZone pr"
    "pbRecordType q = pbRecordType pr"
  shows "shown_gone W region pr t"
proof -
  have "asks_about W pr args" if "asks_about W q args" for args
    using that assms(2-5) by (simp add: asks_about.simps)
  moreover have "gone_answer W region pr r" if "gone_answer W region q r" for r
    using that assms(2-5) by (simp add: gone_answer.simps)
  ultimately show ?thesis using assms(1,3) unfolding shown_gone_def by metis
qed

definition seen_absent :: "td_env \<Rightarrow> probe \<Rightarrow> (wf_call \<times> wf_resp) list \<Rightarrow> bool" where
  "seen_absent E pr t \<longleftrightarrow>
     (\<exists>q. plain_probe q \<and> cache_key q = cache_key pr \<and> shown_gone (teLib E) (teRegion E) q t)"

lemma shown_gone_mono: "shown_gone W region p t \<Longrightarrow> set t \<subseteq> set t' \<Longrightarrow> shown_gone W region p t'"
  unfolding shown_gone_def by blast

lemma probed_gone: "execs (verify_probe W region p) t None \<Longrightarrow> shown_gone W region p t"
  using verify_probe_gone unfolding shown_gone_def by fastforce

lemma seen_absent_mono: "seen_absent E pr t \<Longrightarrow> set t \<subseteq> set t' \<Longrightarrow> seen_absent E pr t'"
  unfolding seen_absent_def using shown_gone_mono by blast

lemma seen_absent_after: "seen_absent E pr t \<Longrightarrow> seen_absent E pr (t0 @ t)"
  by (erule seen_absent_mono) simp

lemma seen_absent_before: "seen_absent E pr t \<Longrightarrow> seen_absent E pr (t @ t1)"
  by (erule seen_absent_mono) simp

lemma seen_absent_here:
  "execs (verify_probe (teLib E) (teRegion E) q) u None \<Longrightarrow> cache_key q = cache_key pr \<Longrightarrow> plain_probe q \<Longrightarrow>
   seen_absent E pr (u @ t)"
  unfolding seen_absent_def by (intro exI [of _ q] conjI shown_gone_mono [OF probed_gone]) auto

lemma checked_status: "trStatus (checked name e) \<in> {''FAILED'', ''REMAINS''} \<longleftrightarrow> e \<noteq> None"
  by (auto simp: checked_def split: option.split)

definition sound :: "td_result list \<Rightarrow> bool" where
  "sound rep \<longleftrightarrow> (\<forall>v\<in>set rep. trStatus v \<notin> {''FAILED'', ''REMAINS''})"

lemma sound_append [simp]: "sound (vs @ ws) \<longleftrightarrow> sound vs \<and> sound ws"
  by (auto simp: sound_def)

lemma sound_checked [simp]: "sound (checked name e # vs) \<longleftrightarrow> e = None \<and> sound vs"
  using checked_status [of name e] by (auto simp: sound_def)

lemma report_error_None: "report_error rep = None \<longleftrightarrow> sound rep"
  by (auto simp: report_error_def sound_def list_ex_iff)

lemma verify_inventory_execs:
  "execs (verify_inventory E ps cache rep) t rep' \<Longrightarrow> sound rep' \<Longrightarrow> list_all plain_probe ps \<Longrightarrow>
     sound rep \<and> (\<forall>pr\<in>set ps. pbRetained pr \<or> cache (cache_key pr) = Some None \<or> seen_absent E pr t)"
proof (induction ps arbitrary: cache rep t)
  case (Cons pr ps)
  consider (retained) "pbRetained pr" | (hit) e where "\<not> pbRetained pr" "cache (cache_key pr) = Some e"
    | (miss) "\<not> pbRetained pr" "cache (cache_key pr) = None" by blast
  then show ?case
  proof cases
    case retained
    with Cons.prems(1) obtain rep0 where ex: "execs (verify_inventory E ps cache (rep @ rep0)) t rep'" by auto
    from Cons.IH [OF ex Cons.prems(2)] Cons.prems(3) retained show ?thesis by simp
  next
    case hit
    with Cons.prems have ex: "execs (verify_inventory E ps cache (rep @ [checked (short_name (pbName pr)) e])) t rep'" by simp
    from Cons.IH [OF ex Cons.prems(2)] Cons.prems(3) hit show ?thesis by simp
  next
    case miss
    with Cons.prems obtain u t2 e where t: "t = u @ t2" "execs (verify_probe (teLib E) (teRegion E) pr) u e"
      and ex: "execs (verify_inventory E ps (cache(cache_key pr \<mapsto> e)) (rep @ [checked (short_name (pbName pr)) e])) t2 rep'"
      by (auto simp: execs_pbind)
    from Cons.prems(3) have plain: "plain_probe pr" "list_all plain_probe ps" by simp_all
    note ih = Cons.IH [OF ex Cons.prems(2) plain(2)]
    then have e: "e = None" by simp
    have new: "seen_absent E q t" if "cache_key pr = cache_key q" for q
      unfolding t(1) by (rule seen_absent_here [OF t(2) [unfolded e] that plain(1)])
    have "pbRetained q \<or> cache (cache_key q) = Some None \<or> seen_absent E q t" if "q \<in> set ps" for q
    proof (cases "cache_key pr = cache_key q")
      case False
      with ih that have "pbRetained q \<or> cache (cache_key q) = Some None \<or> seen_absent E q t2" by auto
      then show ?thesis unfolding t(1) using seen_absent_after by blast
    qed (simp add: new)
    moreover from ih have "sound rep" by simp
    ultimately show ?thesis using new [of pr] by simp
  qed
qed simp

text \<open>The backend listed its stacks, and none is this environment's; GitHub has no such environment.\<close>

definition stack_gone :: "td_env \<Rightarrow> progress \<Rightarrow> (wf_call \<times> wf_resp) list \<Rightarrow> bool" where
  "stack_gone E p t \<longleftrightarrow> (\<exists>r data names. (in_infra E [''pulumi'', ''stack'', ''ls'', ''--json'', ''--non-interactive''], r) \<in> set t \<and>
     w_exec r = Inr data \<and> parse_stacks (teLib E) data = Some (Some names) \<and>
     (\<forall>s\<in>set names. s \<noteq> [] \<and> s \<noteq> tpEnvironment p \<and> \<not> has_suffix s (''/attestra-auth-email/'' @ tpEnvironment p)))"

definition environment_gone :: "td_env \<Rightarrow> progress \<Rightarrow> (wf_call \<times> wf_resp) list \<Rightarrow> bool" where
  "environment_gone E p t \<longleftrightarrow> (\<exists>q r body. (WGithub (GSend q), r) \<in> set t \<and> gqMethod q = ''GET'' \<and>
     gqURL q = environment_url (teGithub E) (tpRepository p) (tpEnvironment p) \<and> g_answer (w_gh r) = Some (404, body))"

definition deployment_role :: "progress \<Rightarrow> probe" where
  "deployment_role p = \<lparr>pbName = [], pbKind = ''role'',
     pbID = last (split_on (CHR ''/'') (case tpValues p ''AWS_ROLE_ARN'' of None \<Rightarrow> [] | Some arn \<Rightarrow> arn)),
     pbZone = [], pbRecordType = [], pbRetained = False\<rparr>"

definition seen_verified :: "td_env \<Rightarrow> progress \<Rightarrow> (wf_call \<times> wf_resp) list \<Rightarrow> bool" where
  "seen_verified E p t \<longleftrightarrow> tpCaptured p \<and>
     (\<forall>pr\<in>set (tpInventory p). pbRetained pr \<or> shown_gone (teLib E) (teRegion E) pr t) \<and>
     shown_gone (teLib E) (teRegion E) (deployment_role p) t \<and> stack_gone E p t \<and> environment_gone E p t"

lemma stack_gone_mono: "stack_gone E p t \<Longrightarrow> set t \<subseteq> set t' \<Longrightarrow> stack_gone E p t'"
  unfolding stack_gone_def by blast

lemma environment_gone_mono: "environment_gone E p t \<Longrightarrow> set t \<subseteq> set t' \<Longrightarrow> environment_gone E p t'"
  unfolding environment_gone_def by blast

lemma seen_verified_mono: "seen_verified E p t \<Longrightarrow> set t \<subseteq> set t' \<Longrightarrow> seen_verified E p t'"
  unfolding seen_verified_def using shown_gone_mono stack_gone_mono environment_gone_mono by meson

lemma seen_verified_append: "seen_verified E p t \<Longrightarrow> seen_verified E p (t0 @ t @ t1)"
  by (erule seen_verified_mono) auto

lemma role_probe_deployment: "role_probe p = deployment_role p"
  by (simp add: role_probe_def deployment_role_def map_value_def)

lemma stack_among_False: "stack_among name project names = Inr False \<Longrightarrow>
    \<forall>s\<in>set names. s \<noteq> [] \<and> s \<noteq> name \<and> \<not> has_suffix s (''/'' @ project @ ''/'' @ name)"
  by (induction names) (auto split: if_splits)

lemma remains_if_None: "remains_if x = None \<longleftrightarrow> x = Inr False"
  by (auto simp: remains_if_def split: sum.split)

lemma verify_stack_None:
  assumes "execs (verify_stack E p) t None"
  shows "stack_gone E p t"
proof -
  let ?q = "in_infra E [''pulumi'', ''stack'', ''ls'', ''--json'', ''--non-interactive'']"
  from assms obtain r where t: "(?q, r) \<in> set t" and n: "remains_if (case w_exec r of
       Inl e \<Rightarrow> Inl e | Inr data \<Rightarrow> stack_listed (teLib E) data (tpEnvironment p)) = None"
    by (auto simp: verify_stack_def exec_def execs_Call in_infra_def)
  from n obtain data where q: "w_exec r = Inr data"
    and l: "stack_listed (teLib E) data (tpEnvironment p) = Inr False"
    by (auto simp: remains_if_None split: sum.splits)
  from l obtain names where "parse_stacks (teLib E) data = Some (Some names)"
    "stack_among (tpEnvironment p) ''attestra-auth-email'' names = Inr False"
    by (auto simp: stack_listed_def stack_listed_in_def split: option.splits)
  with stack_among_False [OF this(2)] q t show ?thesis
    unfolding stack_gone_def by (intro exI [of _ r] exI [of _ data] exI [of _ names]) simp
qed

lemma verify_github_None:
  assumes "execs (verify_github E p) t None"
  shows "environment_gone E p t"
proof -
  from assms obtain x where x: "execs (lift_calls WGithub w_gh (gh_request (teGithub E) ''GET''
      (environment_path (teGithub E) (tpRepository p) (tpEnvironment p)) [])) t x"
    and f: "(case gh_found x of Inl e \<Rightarrow> Some (WText e) | Inr found \<Rightarrow> if found then Some WRemains else None) = None"
    by (auto simp: verify_github_def github_run_def Let_def execs_pbind)
  from f have None: "x = Inr None" by (auto simp: gh_found_def simp del: not_None_eq split: sum.splits if_splits)
  from gh_get_execs [OF execs_on_github [OF x]] None obtain q r where
    q: "(GSend q, r) \<in> set (github_part t)" "gqMethod q = ''GET''"
      "gqURL q = ghBase (teGithub E) @ environment_path (teGithub E) (tpRepository p) (tpEnvironment p)"
      "gh_outcome ''GET'' (environment_path (teGithub E) (tpRepository p) (tpEnvironment p)) (g_answer r) = Inr None"
    by auto
  from q(1) obtain r' where "(WGithub (GSend q), r') \<in> set t" "r = w_gh r'"
    by (auto simp: github_part_def on_github_def split: wf_call.splits)
  with q outcome_None [OF q(4)] show ?thesis
    by (auto simp: environment_gone_def environment_url_def environment_path_def)
qed

lemma verify_teardown_execs:
  assumes "execs (verify_teardown E p) t rep" "sound rep" "list_all plain_probe (tpInventory p)"
  shows "seen_verified E p t"
proof -
  from assms(1) obtain t1 t2 t3 t4 t5 rep1 role stack gh rest where t: "t = t1 @ t2 @ t3 @ t4 @ t5"
    and i: "execs (verify_inventory E (tpInventory p) Map.empty (missing_inventory p)) t1 rep1"
    and r: "execs (verify_probe (teLib E) (teRegion E) (role_probe p)) t2 role"
    and s: "execs (verify_stack E p) t3 stack" and g: "execs (verify_github E p) t4 gh"
    and rep: "rep = rep1 @ [checked ''Deployment role'' role, checked ''Pulumi stack'' stack, checked ''GitHub environment'' gh] @ rest"
    by (auto simp: verify_teardown_def execs_pbind)
  from rep assms(2) have ok: "sound rep1" "role = None" "stack = None" "gh = None"
    by simp_all
  from verify_inventory_execs [OF i ok(1) assms(3)] have inv: "sound (missing_inventory p)"
    "\<forall>pr\<in>set (tpInventory p). pbRetained pr \<or> seen_absent E pr t1" by simp_all
  from inv(1) have "tpCaptured p"
    by (simp add: missing_inventory_def split: if_splits)
  moreover have "pbRetained pr \<or> shown_gone (teLib E) (teRegion E) pr t" if "pr \<in> set (tpInventory p)" for pr
  proof -
    have "plain_probe pr" using assms(3) that by (simp add: list_all_iff)
    then have "shown_gone (teLib E) (teRegion E) pr t1" if "seen_absent E pr t1"
      using that cache_key_same shown_gone_same unfolding seen_absent_def by metis
    moreover have "set t1 \<subseteq> set t" using t by auto
    ultimately show ?thesis using inv(2) that shown_gone_mono by blast
  qed
  moreover have "shown_gone (teLib E) (teRegion E) (deployment_role p) t"
    using probed_gone [OF r [unfolded ok(2)]] t unfolding role_probe_deployment by (auto intro: shown_gone_mono)
  moreover have "stack_gone E p t"
    by (rule stack_gone_mono [OF verify_stack_None [OF s [unfolded ok(3)]]]) (auto simp: t)
  moreover have "environment_gone E p t"
    by (rule environment_gone_mono [OF verify_github_None [OF g [unfolded ok(4)]]]) (auto simp: t)
  ultimately show ?thesis unfolding seen_verified_def by blast
qed

text \<open>The checkpoint but for the report of the last validation.\<close>

definition validated_with :: "progress \<Rightarrow> td_result list \<Rightarrow> string \<Rightarrow> progress" where
  "validated_with p rep time = p\<lparr>tpValidation := rep, tpValidatedAt := time\<rparr>"

lemma validated_fields [simp]:
  "tpCaptured (validated_with p rep time) = tpCaptured p" "tpInventory (validated_with p rep time) = tpInventory p"
  "tpEnvironment (validated_with p rep time) = tpEnvironment p" "tpRepository (validated_with p rep time) = tpRepository p"
  "tpValues (validated_with p rep time) = tpValues p" "tpZone (validated_with p rep time) = tpZone p"
  "tpDesired (validated_with p rep time) = tpDesired p" "tpDNSDone (validated_with p rep time) = tpDNSDone p"
  "tpDNSSkipped (validated_with p rep time) = tpDNSSkipped p" "tpDeleteVault (validated_with p rep time) = tpDeleteVault p"
  "tpValidation (validated_with p rep time) = rep"
  by (simp_all add: validated_with_def)

lemma validated_parts [simp]:
  "missing_inventory (validated_with p rep time) = missing_inventory p"
  "role_probe (validated_with p rep time) = role_probe p"
  "verify_stack E (validated_with p rep time) = verify_stack E p"
  "verify_github E (validated_with p rep time) = verify_github E p"
  "verify_dns_part E (validated_with p rep time) = verify_dns_part E p"
  "verify_vault E (validated_with p rep time) = verify_vault E p"
  "verify_index E (validated_with p rep time) = verify_index E p"
  unfolding missing_inventory_def role_probe_def verify_stack_def verify_github_def verify_dns_part_def
    verify_vault_def verify_index_def validated_fields
  by (rule refl)+

lemma verify_teardown_scope [simp]:
  "verify_teardown E (validated_with p rep time) = verify_teardown E p"
  "seen_verified E (validated_with p rep time) t = seen_verified E p t"
  unfolding verify_teardown_def seen_verified_def stack_gone_def environment_gone_def deployment_role_def
    validated_fields validated_parts by (rule refl)+

lemma finalize_execs:
  "execs (finalize E n p) t (p', None) \<Longrightarrow> list_all plain_probe (tpInventory p) \<Longrightarrow>
     (\<exists>rep time. p' = validated_with p rep time \<and> sound rep) \<and> seen_verified E p t"
proof (induction n arbitrary: p t)
  case 0
  from "0.prems"(1) obtain t1 t2 rep time where t: "t = t1 @ t2" "execs (verify_teardown E p) t1 rep" "report_error rep = None"
      "p' = validated_with p rep time"
    by (auto simp: finalize.simps [of _ 0] execs_unfold execs_Call Let_def persist_def file_run_def validated_with_def)
  with verify_teardown_execs [OF t(2) _ "0.prems"(2)] seen_verified_append [of E p t1 "[]" t2] show ?case
    by (auto simp: report_error_None)
next
  case (Suc n)
  from Suc.prems(1) obtain t1 t2 rep time where t: "t = t1 @ t2" "execs (verify_teardown E p) t1 rep"
      "(report_error rep = None \<and> p' = validated_with p rep time) \<or>
       (\<exists>t0 t3. t2 = t0 @ t3 \<and> execs (finalize E n (validated_with p rep time)) t3 (p', None))"
    by (auto simp: finalize.simps [of _ "Suc n"] execs_unfold execs_Call Let_def persist_def file_run_def
        validated_with_def split: if_splits) (metis append_Cons append_Nil append.assoc)+
  from t(3) show ?case
  proof
    assume "report_error rep = None \<and> p' = validated_with p rep time"
    with verify_teardown_execs [OF t(2) _ Suc.prems(2)] seen_verified_append [of E p t1 "[]" t2] t(1) show ?case
      by (auto simp: report_error_None)
  next
    assume "\<exists>t0 t3. t2 = t0 @ t3 \<and> execs (finalize E n (validated_with p rep time)) t3 (p', None)"
    then obtain t0 t3 where u: "t2 = t0 @ t3" "execs (finalize E n (validated_with p rep time)) t3 (p', None)" by blast
    from Suc.prems(2) have plain: "list_all plain_probe (tpInventory (validated_with p rep time))" by simp
    from Suc.IH [OF u(2) plain] have "seen_verified E p t3" by simp
    then have "seen_verified E p t"
      using seen_verified_append [of E p t3 "t1 @ t0" "[]"] t(1) u(1) by simp
    moreover from Suc.IH [OF u(2) plain] have "\<exists>rep time. p' = validated_with p rep time \<and> sound rep"
      by (auto simp: validated_with_def)
    ultimately show ?case by blast
  qed
qed

lemma persisted_execs: "execs (persisted E p) t (p', None) \<Longrightarrow> p' = p"
  by (auto simp: persisted_def persist_def file_run_def execs_pbind)

lemma finalize_inventory: "execs (finalize E n p) t (p', e) \<Longrightarrow> tpInventory p' = tpInventory p"
proof (induction n arbitrary: p t)
  case 0
  then show ?case
    by (auto simp: finalize.simps [of _ 0] execs_unfold execs_Call Let_def persist_def file_run_def)
next
  case (Suc n)
  then show ?case
    by (auto simp: finalize.simps [of _ "Suc n"] execs_unfold execs_Call Let_def persist_def file_run_def split: if_splits)
qed

text \<open>The last step: what the validation sees is the state after every removal but the index entry's.\<close>

lemma step_github_execs:
  assumes "execs (step_github E p) t (p', None)" "list_all plain_probe (tpInventory p')"
  shows "tpComplete p' \<and> sound (tpValidation p') \<and> seen_verified E p' t"
proof -
  from assms(1) obtain t1 t2 t3 t4 t5 p1 p2 p3 p4 where t: "t = t1 @ t2 @ t3 @ t4 @ t5"
    and f: "execs (finalize_validation E p2) t3 (p3, None)" and i: "execs (index_done E p3) t4 (p4, None)"
    and p: "execs (persisted E (p4\<lparr>tpComplete := True\<rparr>)) t5 (p', None)"
    unfolding step_github_def execs_and_then by blast
  have p4: "p4 = p3 \<or> p4 = p3\<lparr>tpIndexRemoved := True\<rparr>"
    using i by (auto simp: index_done_def change_index_def execs_Call execs_unfold split: if_splits option.splits)
  from persisted_execs [OF p] have p': "p' = p4\<lparr>tpComplete := True\<rparr>" .
  have "tpInventory p3 = tpInventory p2" using finalize_inventory f by (simp add: finalize_validation_def)
  with p4 p' assms(2) have "list_all plain_probe (tpInventory p2)" by auto
  from finalize_execs [OF f [unfolded finalize_validation_def] this] obtain rep time where
    v: "p3 = validated_with p2 rep time" "sound rep" "seen_verified E p2 t3" by blast
  have same: "seen_verified E (q\<lparr>tpIndexRemoved := b\<rparr>) u = seen_verified E q u"
    "seen_verified E (q\<lparr>tpComplete := b\<rparr>) u = seen_verified E q u" for q b u
    by (simp_all add: seen_verified_def stack_gone_def environment_gone_def deployment_role_def)
  have "seen_verified E p3 t3" using v by simp
  then have "seen_verified E p' t3" using p4 p' same by auto
  from seen_verified_append [OF this, of "t1 @ t2" "t4 @ t5"] t
  have "seen_verified E p' t" by simp
  moreover have "sound (tpValidation p')" using p4 p' v(1,2) by auto
  moreover have "tpComplete p'" using p' by simp
  ultimately show ?thesis by blast
qed

text \<open>C24: A teardown that reports success has seen everything gone: its inventory was captured before
  the destroy; for every resource of it that is neither external nor retained, and for the deployment
  role, AWS answered a question about exactly that resource in a way that says it does not exist; the
  backend's list of stacks was read and holds no stack of the environment's name; GitHub answered that
  it has no such environment; and the report it saved has no failed and no remaining entry.\<close>

theorem teardown_complete:
  assumes "execs (run_teardown E p) t (p', None)" "list_all plain_probe (tpInventory p')"
  shows "tpComplete p' \<and> sound (tpValidation p') \<and> seen_verified E p' t"
proof -
  from assms(1) obtain ta tb p1 where ta: "t = ta @ tb" "execs (run_steps (teardown_steps E) p1) tb (p', None)"
    unfolding run_teardown_def execs_and_then by blast
  then obtain t0 u q where "tb = t0 @ u" "execs (run_steps [(''GitHub environment cleanup'', step_github E)] q) u (p', None)"
    unfolding teardown_steps_def execs_run_steps by (metis append.assoc)
  then obtain u1 where "tb = t0 @ u1" "execs (step_github E q) u1 (p', None)"
    unfolding execs_run_steps by auto
  with step_github_execs [OF _ assms(2)] seen_verified_append [of E p' u1 "ta @ t0" "[]"] ta(1) show ?thesis by auto
qed

section \<open>A concrete run\<close>

definition demo_wf :: wf_lib where
  "demo_wf = \<lparr>wlRenew = (\<lambda>_ _. None), wlGo = demo_lib, wlVault = \<lparr>vlGo = demo_lib, nfc = id, vl_runes = map byte,
       vl_control = (\<lambda>r. False), argon2id = (\<lambda>p t. p), gcm_seal = (\<lambda>k n p a. p), gcm_open = (\<lambda>k n c a. Some c),
       creds_json = (\<lambda>c. []), parse_creds = (\<lambda>s. None), envelope_json = (\<lambda>e. []), parse_vault = (\<lambda>s. None),
       dir_of = id, path_join = concat\<rparr>,
     json_string = Some, json_strings = (\<lambda>s. None), json_object = (\<lambda>s. Some []), json_items = (\<lambda>s. None),
     string_map_json = (\<lambda>m. []), parse_entries = (\<lambda>s. None), parse_inventory = (\<lambda>s. None),
     parse_types = (\<lambda>s. Some (Some [])), parse_evidence = (\<lambda>s. None), parse_dns_options = (\<lambda>s. None),
     parse_target = (\<lambda>s. None), parse_role = (\<lambda>s. None), parse_page = (\<lambda>s. None), parse_list = (\<lambda>s. None),
     parse_deleted = (\<lambda>s. Some 0), delete_payload = (\<lambda>m. []), parse_stacks = (\<lambda>s. Some (Some [])),
     parse_index = (\<lambda>s. None)\<rparr>"

definition demo_env :: td_env where
  "demo_env = \<lparr>teLib = demo_wf, teFuel = 2, teRoot = ''r'', tePath = ''p'', teRegion = ''us-east-2'',
     teAccount = ''123456789012'', teBackend = ''s3://b'', teRunner = \<lparr>rnBackend = ''s3://b'', rnRegion = ''us-east-2'',
     rnPassphrase = []\<rparr>, teGithub = demo_gh, teMetadata = \<lparr>mdID = 1, mdName = ''r'', mdOwner = ''o'', mdOwnerID = 2\<rparr>,
     teClient = None, teIndex = Inr None, teExists = True, teJson = (\<lambda>p. []), teCheckpoint = (\<lambda>s. None),
     teBackendHost = (\<lambda>s. Some ''b'')\<rparr>"

definition demo_role :: probe where
  "demo_role = \<lparr>pbName = ''urn::deploy'', pbKind = ''role'', pbID = ''deploy'', pbZone = [], pbRecordType = [], pbRetained = False\<rparr>"

definition demo_progress :: progress where
  "demo_progress = \<lparr>tpCaptured = True, tpInventory = [demo_role], tpValidation = [], tpValidatedAt = [], tpLocalDone = True,
     tpDeleteVault = False, tpIndex = None, tpIndexRemoved = False, tpIndexRetired = False, tpCleanupDone = True, tpRepository = ''o/r'',
     tpEnvironment = ''qa'', tpValues = [''AWS_ROLE_ARN'' \<mapsto> ''arn:aws:iam::1:role/deploy''], tpDomain = [], tpBucket = [],
     tpZone = [], tpDesired = [], tpDNS = [], tpDestroyed = True, tpDNSDone = True, tpDNSSkipped = False,
     tpRoleDone = True, tpStackRemoved = True, tpComplete = False\<rparr>"

text \<open>Nothing is there any more, and every file operation succeeds.\<close>

definition demo_world :: "wf_call \<Rightarrow> unit \<Rightarrow> wf_resp \<times> unit" where
  "demo_world q s = (\<lparr>w_stdout = [], w_stderr = Some ''An error occurred (NoSuchEntity) when calling'',
     w_exec = Inr [], w_gh = \<lparr>g_ok = True, g_answer = Some (404, []), g_sealed = None\<rparr>,
     w_dns = \<lparr>dn_ok = False, dn_answer = None\<rparr>,
     w_vault = \<lparr>v_file = calm, v_random = None, v_dir = None\<rparr>,
     w_file = (case q of WLstat f \<Rightarrow> calm\<lparr>f_err := Some FNotExist\<rparr> | _ \<Rightarrow> calm),
     w_input = Inr ''qa'', w_confirm = Inr False, w_now = ''now'', w_index = Inr ([], 1), w_read = Inr (200, []),
     w_glob = [], w_random = Inr []\<rparr>, ())"

lemma demo_persist: "run demo_world (persist E p k) s = run demo_world (k None) ()"
  by (simp add: persist_def file_run_def teardown_save_def backup_then_def swap_in_quietly_def demo_world_def calm_def)

lemma demo_outcome: "aws_outcome (wlRenew demo_wf r) args (Some ''An error occurred (NoSuchEntity) when calling'') out = AwsMissing"
proof -
  have "error_code ''An error occurred (NoSuchEntity) when calling'' = Some ''NoSuchEntity''" by code_simp
  then show ?thesis by (simp add: aws_outcome_def demo_wf_def)
qed

lemma demo_probe: "run demo_world (pbind (verify_probe demo_wf region (demo_role\<lparr>pbName := n\<rparr>)) k) s = run demo_world (k None) ()"
  by (simp add: verify_probe_def demo_role_def probe_args_def aws_def demo_world_def demo_outcome probe_verdict_def aws_decode_def)

theorem probe_absence_witness:
  "\<exists>r. gone_answer demo_wf ''us-east-2'' demo_role r \<and>
     asks_about demo_wf demo_role [''iam'', ''get-role'', ''--role-name'', ''deploy'']"
proof -
  have "demo_role\<lparr>pbName := ''urn::deploy''\<rparr> = demo_role" by (simp add: demo_role_def)
  then have "fst (run demo_world (verify_probe demo_wf ''us-east-2'' demo_role) ()) = Some None"
    using demo_probe [of "''us-east-2''" "''urn::deploy''" Ret "()"] by simp
  from probe_absence [OF run_execs [OF this]] obtain args r where
    "asks_about demo_wf demo_role args" "gone_answer demo_wf ''us-east-2'' demo_role r" by blast
  moreover from this(1) have "args = [''iam'', ''get-role'', ''--role-name'', ''deploy'']"
    by cases (auto simp: demo_role_def inquiries_def)
  ultimately show ?thesis by blast
qed

lemma demo_stack: "run demo_world (pbind (verify_stack demo_env p) k) s = run demo_world (k None) ()"
  by (simp add: verify_stack_def exec_def demo_world_def demo_env_def demo_wf_def stack_listed_def stack_listed_in_def remains_if_def)

lemma demo_github: "run demo_world (pbind (verify_github demo_env p) k) s = run demo_world (k None) ()"
  by (simp add: verify_github_def github_run_def gh_request_def demo_world_def Let_def gh_outcome_def gh_found_def)

lemma demo_files: "run demo_world (pbind (verify_files E paths rep) k) s =
    run demo_world (k (rep @ map (\<lambda>f. checked f None) paths)) ()"
proof (induction paths arbitrary: rep s)
  case (Cons path paths)
  have "lstat_verdict (fst (demo_world (WLstat f) s)) = None" for f s
    by (simp add: lstat_verdict_def demo_world_def calm_def)
  with Cons show ?case by simp
qed simp

lemma sound_files: "sound (map (\<lambda>f. checked f None) paths)"
  by (induction paths) (simp_all add: sound_def checked_def)

lemma demo_verified:
  "\<exists>rep. run demo_world (verify_teardown demo_env demo_progress) s = (Some rep, ()) \<and> sound rep"
proof -
  have inv: "verify_inventory demo_env (tpInventory demo_progress) Map.empty (missing_inventory demo_progress) =
      pbind (verify_probe demo_wf ''us-east-2'' (demo_role\<lparr>pbName := ''urn::deploy''\<rparr>)) (\<lambda>e. Ret [checked (short_name ''urn::deploy'') e])"
    by (simp add: demo_progress_def demo_env_def demo_role_def missing_inventory_def)
  have role: "role_probe demo_progress = demo_role\<lparr>pbName := []\<rparr>"
    by (simp add: role_probe_def demo_progress_def demo_role_def map_value_def)
  have parts: "verify_dns_part demo_env demo_progress = Ret []" "verify_index demo_env demo_progress = Ret ix"
      "verify_vault demo_env demo_progress = Ret va"
    if "ix = [\<lparr>trName = ''Environment index'', trStatus = ''SKIPPED'', trDetail = ''no index was configured for this environment''\<rparr>]"
      "va = [\<lparr>trName = ''Credential vault'', trStatus = ''RETAINED'', trDetail = ''deletion not requested (if present)''\<rparr>]" for ix va
    using that by (simp_all add: verify_dns_part_def verify_index_def index_client_def verify_vault_def demo_progress_def demo_env_def)
  have E: "teLib demo_env = demo_wf" "teRegion demo_env = ''us-east-2''" by (simp_all add: demo_env_def)
  show ?thesis
    unfolding verify_teardown_def inv role parts [OF refl refl] E
    by (simp add: pbind_assoc demo_probe demo_stack demo_github demo_files)
      (simp add: sound_files, simp add: sound_def retained_notes_def)
qed

lemma demo_finalized:
  "\<exists>rep. run demo_world (finalize_validation demo_env demo_progress) s = (Some (validated_with demo_progress rep ''now'', None), ())"
proof -
  obtain rep where rep: "run demo_world (verify_teardown demo_env demo_progress) () = (Some rep, ())" "sound rep"
    using demo_verified by blast
  then have "\<not> has_status ''REMAINS'' rep" "report_error rep = None"
    by (auto simp: has_status_def sound_def list_ex_iff report_error_None)
  moreover have "w_now (fst (demo_world WNow ())) = ''now''" by (simp add: demo_world_def)
  ultimately show ?thesis
    by (intro exI [of _ rep]) (simp add: finalize_validation_def numeral_2_eq_2 finalize.simps [of _ "Suc (Suc 0)"]
        run_pbind rep demo_persist validated_with_def Let_def)
qed

lemma demo_persisted: "run demo_world (persisted demo_env q) s = (Some (q, None), ())"
  by (simp add: persisted_def demo_persist)

lemma demo_start: "run demo_world (start_teardown demo_env demo_progress) s = (Some (demo_progress, None), ())"
proof -
  have "w_input (fst (demo_world (WInput l) ())) = Inr (tpEnvironment demo_progress)" for l
    by (simp add: demo_world_def demo_progress_def)
  moreover have "teIndex demo_env = Inr None" by (simp add: demo_env_def)
  ultimately show ?thesis
    by (simp add: start_teardown_def typed_confirmation_def and_then_def run_pbind demo_persisted begin_index_def)
qed

lemma teardown_demo_run:
  "\<exists>rep. run demo_world (run_teardown demo_env demo_progress) () =
     (Some ((validated_with demo_progress rep ''now'')\<lparr>tpComplete := True\<rparr>, None), ())"
proof -
  obtain rep where rep: "run demo_world (finalize_validation demo_env demo_progress) () =
      (Some (validated_with demo_progress rep ''now'', None), ())" using demo_finalized by blast
  have E: "index_client demo_env = None" by (simp add: demo_env_def index_client_def)
  have p: "tpDestroyed demo_progress" "tpDNSDone demo_progress" "tpRoleDone demo_progress" "tpStackRemoved demo_progress"
      "tpCleanupDone demo_progress" "tpLocalDone demo_progress" by (simp_all add: demo_progress_def)
  have "run demo_world (run_steps (teardown_steps demo_env) demo_progress) () =
     (Some ((validated_with demo_progress rep ''now'')\<lparr>tpComplete := True\<rparr>, None), ())"
    by (simp add: teardown_steps_def step_destroy_def step_retire_def step_dns_def step_role_def
        step_stack_def step_github_def and_then_def github_done_def local_done_def index_done_def p E run_pbind rep
        demo_persisted)
  then show ?thesis
    by (intro exI [of _ rep]) (simp add: run_teardown_def and_then_def [of "start_teardown _"] run_pbind demo_start)
qed

theorem teardown_complete_witness:
  "\<exists>t p'. execs (run_teardown demo_env demo_progress) t (p', None) \<and> tpComplete p' \<and> seen_verified demo_env p' t"
proof -
  from teardown_demo_run obtain rep where "fst (run demo_world (run_teardown demo_env demo_progress) ()) =
      Some ((validated_with demo_progress rep ''now'')\<lparr>tpComplete := True\<rparr>, None)"
    by (metis fst_conv)
  note x = run_execs [OF this]
  have "list_all plain_probe (tpInventory ((validated_with demo_progress rep ''now'')\<lparr>tpComplete := True\<rparr>))"
    by (simp add: demo_progress_def validated_with_def plain_probe_def demo_role_def)
  from teardown_complete [OF x this] x show ?thesis by blast
qed

end
