(* ===== verification/RegClient.thy ===== *)
theory RegClient
  imports Registry
begin

text \<open>
  The deployment tool's client of the environment registry:
  \<open>tools/deploy/internal/registry/client.go\<close>. A change is posted up to three times with the same
  body, since the registry answers a repeated change like the first one. Building and signing a
  request, the credentials provider, the HTTP client and the pause between attempts are the calls
  \<open>rc_call\<close>; encoding/json is the functions of \<open>rc_lib\<close>.
\<close>

record receipt =
  rpToken :: string
  rpRevision :: int

datatype rc_err =
    RcConflict \<comment> \<open>\<open>ErrConflict\<close>\<close>
  | RcText string
  | RcOther string \<comment> \<open>an error of a library\<close>

record rc_keys =
  rkAccess :: string
  rkSecret :: string
  rkToken :: string

record rc_client =
  rcURL :: string
  rcRegion :: string
  rcEnvironment :: string
  rcCredentials :: rc_keys
  rcProvider :: bool

record rc_request =
  sqURL :: string
  sqBody :: string
  sqHash :: string
  sqKeys :: rc_keys
  sqRegion :: string

datatype rc_call =
    RcNew string
  | RcRetrieve
  | RcSign rc_request
  | RcDo rc_request
  | RcSleep nat \<comment> \<open>milliseconds\<close>

record rc_resp =
  rc_failed :: "string option" \<comment> \<open>of building and signing a request\<close>
  rc_keys :: "string + rc_keys"
  rc_answer :: "(int \<times> (string + string)) option" \<comment> \<open>status, the read of the body; None: the client failed\<close>

type_synonym 'a rc_prog = "(rc_call, rc_resp, 'a) prog"

record rc_lib =
  rlGo :: golib
  change_json :: "change \<Rightarrow> string"
  parse_receipt :: "string \<Rightarrow> receipt option"
  parse_ok :: "string \<Rightarrow> bool option"

text \<open>What an attempt says: the result, or an error after which the change is posted again.\<close>

datatype rc_outcome = RcDone "rc_err + receipt" | RcRetry rc_err

definition rc_accepted :: "rc_lib \<Rightarrow> change \<Rightarrow> string \<Rightarrow> rc_err + receipt" where
  "rc_accepted X ch data = (case parse_receipt X data of
      None \<Rightarrow> Inl (RcText ''invalid registry response'')
    | Some r \<Rightarrow>
        if chOperation ch = ''begin'' then
          if rpToken r \<noteq> chToken ch \<or> rpRevision r < 1
          then Inl (RcText ''invalid registry acquisition receipt'') else Inr r
        else if parse_ok X data \<noteq> Some True
        then Inl (RcText ''registry did not confirm the change'') else Inr r)"

definition rc_outcome :: "rc_lib \<Rightarrow> change \<Rightarrow> (int \<times> (string + string)) option \<Rightarrow> rc_outcome" where
  "rc_outcome X ch answer = (case answer of
      None \<Rightarrow> RcRetry (RcText ''registry request failed; retry with the saved deployment receipt'')
    | Some (status, Inl e) \<Rightarrow> RcRetry (RcOther e)
    | Some (status, Inr body) \<Rightarrow>
        if status = 200 then RcDone (rc_accepted X ch (take 65536 body))
        else if status = 409 then RcDone (Inl RcConflict)
        else let e = RcText (''registry update rejected (HTTP '' @ show_int status @
                   ''); check deployment role execute-api permission and registry logs'')
             in if status < 500 \<and> status \<noteq> 429 then RcDone (Inl e) else RcRetry e)"

definition rc_target :: "rc_client \<Rightarrow> string" where
  "rc_target c = rcURL c @ ''/v1/environments/'' @ rcEnvironment c @ ''/changes''"

definition rc_send :: "rc_lib \<Rightarrow> rc_client \<Rightarrow> change \<Rightarrow> rc_keys \<Rightarrow> rc_outcome rc_prog" where
  "rc_send X c ch keys =
    (let q = \<lparr>sqURL = rc_target c, sqBody = change_json X ch,
              sqHash = hex_encode (sha256 (rlGo X) (change_json X ch)), sqKeys = keys, sqRegion = rcRegion c\<rparr>
     in Call (RcSign q) (\<lambda>r. case rc_failed r of
          Some e \<Rightarrow> Ret (RcDone (Inl (RcOther e)))
        | None \<Rightarrow> Call (RcDo q) (\<lambda>r. Ret (rc_outcome X ch (rc_answer r)))))"

definition rc_attempt :: "rc_lib \<Rightarrow> rc_client \<Rightarrow> change \<Rightarrow> rc_outcome rc_prog" where
  "rc_attempt X c ch = Call (RcNew (rc_target c)) (\<lambda>r. case rc_failed r of
     Some e \<Rightarrow> Ret (RcDone (Inl (RcOther e)))
   | None \<Rightarrow>
       if rcProvider c then Call RcRetrieve (\<lambda>r. case rc_keys r of
         Inl e \<Rightarrow> Ret (RcDone (Inl (RcOther e))) | Inr keys \<Rightarrow> rc_send X c ch keys)
       else rc_send X c ch (rcCredentials c))"

text \<open>Attempt \<open>i\<close>, with \<open>n\<close> more to come.\<close>

fun rc_change_from :: "rc_lib \<Rightarrow> rc_client \<Rightarrow> change \<Rightarrow> nat \<Rightarrow> nat \<Rightarrow> (rc_err + receipt) rc_prog" where
  "rc_change_from X c ch i n = pbind (rc_attempt X c ch) (\<lambda>o1. case o1 of
     RcDone x \<Rightarrow> Ret x
   | RcRetry e \<Rightarrow> (case n of
       0 \<Rightarrow> Ret (Inl e)
     | Suc m \<Rightarrow> Call (RcSleep ((i + 1) * 250)) (\<lambda>_. rc_change_from X c ch (i + 1) m)))"

declare rc_change_from.simps [simp del]

definition rc_change :: "rc_lib \<Rightarrow> rc_client \<Rightarrow> change \<Rightarrow> (rc_err + receipt) rc_prog" where
  "rc_change X c ch = rc_change_from X c ch 0 2"

section \<open>The body of every attempt\<close>

lemma rc_outcome_DoneE:
  assumes "rc_outcome X ch a = RcDone (Inr r)"
  obtains body where "a = Some (200, Inr body)" "rc_accepted X ch (take 65536 body) = Inr r"
  using assms by (auto simp: rc_outcome_def Let_def split: option.splits sum.splits if_splits)

definition rc_call_of :: "rc_lib \<Rightarrow> rc_client \<Rightarrow> change \<Rightarrow> rc_call \<Rightarrow> bool" where
  "rc_call_of X c ch q = (case q of
      RcDo r \<Rightarrow> sqBody r = change_json X ch \<and> sqURL r = rc_target c | _ \<Rightarrow> True)"

lemma rc_attempt_safe:
  assumes "\<And>q h. rc_call_of X c ch q \<Longrightarrow> P q h"
  shows "safe P (\<lambda>_ _. True) (rc_attempt X c ch) h"
  by (auto intro!: assms simp: rc_attempt_def rc_send_def rc_call_of_def Let_def split: option.split sum.split)

lemma rc_change_from_safe:
  assumes "\<And>q h. rc_call_of X c ch q \<Longrightarrow> P q h"
  shows "safe P (\<lambda>_ _. True) (rc_change_from X c ch i n) h"
proof (induction n arbitrary: i h)
  case 0
  show ?case unfolding rc_change_from.simps [of X c ch i 0]
    by (rule safe_bindI [OF rc_attempt_safe [OF assms]]) (auto split: rc_outcome.split)
next
  case (Suc n)
  have "P (RcSleep m) h" for m h by (rule assms) (simp add: rc_call_of_def)
  with Suc.IH show ?case unfolding rc_change_from.simps [of X c ch i "Suc n"]
    by (intro safe_bindI [OF rc_attempt_safe [OF assms]]) (auto split: rc_outcome.split)
qed

lemma rc_change_safe:
  assumes "\<And>q h. rc_call_of X c ch q \<Longrightarrow> P q h"
  shows "safe P (\<lambda>_ _. True) (rc_change X c ch) h"
  unfolding rc_change_def by (rule rc_change_from_safe [OF assms])

end
