(* ===== verification/Deploy.thy ===== *)
theory Deploy
  imports RegClient Workflow
begin

text \<open>
  A deployment of an environment, \<open>workflow/deploy.go\<close>: the checks of its options, of the state
  bucket and of the stack, the migration of a stack, and the build, preview and update of
  \<open>executeCore\<close>; and the initialization of a stack, \<open>bootstrapStack\<close> of \<open>workflow/bootstrap_stack.go\<close>.
  Commands run with an environment, the list of its entries; they, files, prompts, randomness and
  the registry client are the calls \<open>dp_call\<close>. JSON, regular expressions over \<open>string\<close> and paths are
  the functions of \<open>dp_lib\<close>, or written out.
\<close>

datatype dp_call =
    DExec "string list" string "string list" \<comment> \<open>\<open>commandRunner.Exec\<close>: environment, directory, command and arguments\<close>
  | DFile file_call
  | DGlob string
  | DLock string \<comment> \<open>opened with \<open>O_CREATE\<close> and \<open>O_EXCL\<close>, and closed\<close>
  | DInput string
  | DRandom nat
  | DSecret string \<comment> \<open>the caller's \<open>setSecret\<close>\<close>
  | DReg rc_call

record dp_resp =
  d_exec :: "wf_err + string"
  d_file :: file_resp
  d_glob :: "wf_err + string list"
  d_ok :: bool
  d_input :: "wf_err + string"
  d_random :: "string option"
  d_secret :: "wf_err option"
  d_reg :: rc_resp

type_synonym 'a dp_prog = "(dp_call, dp_resp, 'a) prog"

record options =
  opReleaseIndex :: bool
  opSkipIndex :: bool
  opPublishOnly :: bool
  opReuseBuild :: bool
  opTargets :: "string list"
  opRoot :: string
  opStack :: string
  opBackend :: string
  opRegion :: string
  opMigrateFrom :: string
  opCI :: string
  opPull :: bool

record privacy =
  pvBlockAcls :: bool
  pvIgnoreAcls :: bool
  pvBlockPolicy :: bool
  pvRestrict :: bool

record stack_value =
  svValue :: string
  svSecret :: bool

record dp_lib =
  dxGo :: golib
  dxReg :: rc_lib
  dxRawPath :: "string \<Rightarrow> string" \<comment> \<open>RawPath of the parsed URL\<close>
  dxJoin :: "string list \<Rightarrow> string"
  dxDir :: "string \<Rightarrow> string"
  dxStatus :: "string \<Rightarrow> string option" \<comment> \<open>of the bucket's versioning\<close>
  dxPrivacy :: "string \<Rightarrow> privacy option"
  dxVersion :: "string \<Rightarrow> (int \<times> int \<times> int) option" \<comment> \<open>\<open>fmt.Sscanf\<close> with \<open>v%d.%d.%d\<close>\<close>
  dxSecrets :: "string \<Rightarrow> (string \<times> nat) option" \<comment> \<open>type of the secrets provider, number of resources\<close>
  dxConfig :: "string \<Rightarrow> (string \<rightharpoonup> stack_value) option"
  dxStacks :: "string \<Rightarrow> string list option option" \<comment> \<open>the names; nil\<close>

definition dexec :: "string list \<Rightarrow> string \<Rightarrow> string list \<Rightarrow> (wf_err + string \<Rightarrow> 'a dp_prog) \<Rightarrow> 'a dp_prog" where
  "dexec env dir args k = Call (DExec env dir args) (\<lambda>r. k (d_exec r))"

definition dp_text :: "string \<Rightarrow> wf_err option dp_prog" where
  "dp_text e = Ret (Some (WText e))"

definition dp_infra :: "dp_lib \<Rightarrow> options \<Rightarrow> string" where
  "dp_infra X o1 = dxJoin X [opRoot o1, ''infra'']"

section \<open>Options\<close>

text \<open>\<open>^[a-z0-9][a-z0-9.-]{1,61}[a-z0-9]$\<close>\<close>

definition bucket_name :: "string \<Rightarrow> bool" where
  "bucket_name s \<longleftrightarrow> 3 \<le> length s \<and> length s \<le> 63 \<and> lower_alnum (hd s) \<and> lower_alnum (last s) \<and>
     list_all (\<lambda>c. lower_alnum c \<or> c = CHR ''.'' \<or> c = CHR ''-'') s"

text \<open>\<open>^[A-Za-z0-9_-]+$\<close>\<close>

definition stack_name :: "string \<Rightarrow> bool" where
  "stack_name s \<longleftrightarrow> s \<noteq> [] \<and> list_all (\<lambda>c. is_alnum c \<or> c = CHR ''_'' \<or> c = CHR ''-'') s"

text \<open>\<open>^[A-Za-z0-9][A-Za-z0-9_-]*$\<close>\<close>

definition owner_name :: "string \<Rightarrow> bool" where
  "owner_name s \<longleftrightarrow> stack_name s \<and> is_alnum (hd s)"

definition migration_error :: "options \<Rightarrow> string option" where
  "migration_error o1 =
    (let parts = split_on (CHR ''/'') (opMigrateFrom o1) in
     if opMigrateFrom o1 = [] then None
     else if length parts \<noteq> 3 \<or> \<not> owner_name (parts ! 0) \<or> parts ! 1 \<noteq> ''attestra-auth-email'' \<or> parts ! 2 \<noteq> opStack o1
     then Some ''migration source must be OWNER/attestra-auth-email/STACK, with the same stack name''
     else if opPull o1 then Some ''--pull cannot be combined with migration''
     else None)"

definition state_url_ok :: "dp_lib \<Rightarrow> string \<Rightarrow> url option" where
  "state_url_ok X s = (case url_parse (dxGo X) s of
      None \<Rightarrow> None
    | Some u \<Rightarrow> if u_Scheme u \<noteq> ''s3'' \<or> u_Host u = [] \<or> u_User u \<or> u_RawQuery u \<noteq> [] \<or> u_Fragment u \<noteq> [] \<or>
        dxRawPath X s \<noteq> [] then None else Some u)"

definition path_ok :: "string \<Rightarrow> bool" where
  "path_ok p \<longleftrightarrow> \<not> str_contains p ''..'' \<and> list_all (\<lambda>c. c \<notin> {CHR 0x0D, CHR 0x0A, CHR 0x5C}) p"

definition options_error :: "dp_lib \<Rightarrow> options \<Rightarrow> string option" where
  "options_error X o1 = (case state_url_ok X (opBackend o1) of
      None \<Rightarrow> Some ''state URL must be s3://bucket or s3://bucket/prefix, without credentials or query parameters''
    | Some u \<Rightarrow>
        if \<not> bucket_name (u_Host u) then Some ''invalid S3 bucket name''
        else if \<not> path_ok (u_Path u) then Some ''invalid S3 state prefix''
        else if \<not> stack_name (opStack o1) then Some ''use a simple stack name, e.g. dev''
        else if \<not> region_name (opRegion o1) then Some ''invalid AWS region''
        else migration_error o1)"

section \<open>The state bucket\<close>

definition bucket_args :: "string \<Rightarrow> string \<Rightarrow> string \<Rightarrow> string list" where
  "bucket_args operation bucket account =
     [''aws'', ''s3api'', operation, ''--bucket'', bucket, ''--expected-bucket-owner'', account]"

definition blocked :: "privacy \<Rightarrow> bool" where
  "blocked p \<longleftrightarrow> pvBlockAcls p \<and> pvIgnoreAcls p \<and> pvBlockPolicy p \<and> pvRestrict p"

definition url_host :: "dp_lib \<Rightarrow> string \<Rightarrow> string" where
  "url_host X s = (case url_parse (dxGo X) s of None \<Rightarrow> [] | Some u \<Rightarrow> u_Host u)"

definition check_bucket :: "dp_lib \<Rightarrow> string list \<Rightarrow> options \<Rightarrow> string \<Rightarrow> wf_err option dp_prog" where
  "check_bucket X env o1 account = (let host = url_host X (opBackend o1); json = [''--output'', ''json''] in
     dexec env (opRoot o1) (bucket_args ''head-bucket'' host account) (\<lambda>x. case x of
       Inl e \<Rightarrow> dp_text (''could not verify existing state bucket '' @ host @ '' for account '' @ account @
         ''; this does not establish that the bucket is missing. Check AWS access and connectivity before '' @
         ''changing the state backend: '' @ err_text e)
     | Inr _ \<Rightarrow> dexec env (opRoot o1) (bucket_args ''get-bucket-versioning'' host account @ json) (\<lambda>x. case x of
         Inl e \<Rightarrow> dp_text (''could not check state bucket '' @ host @ '' versioning: '' @ err_text e)
       | Inr data \<Rightarrow>
           if dxStatus X data \<noteq> Some ''Enabled''
           then dp_text ''enable versioning on the state bucket before continuing'' else
           dexec env (opRoot o1) (bucket_args ''get-public-access-block'' host account @ json) (\<lambda>x. case x of
             Inl e \<Rightarrow> dp_text (''could not check state bucket '' @ host @ '' public access block: '' @ err_text e)
           | Inr data \<Rightarrow> (case dxPrivacy X data of
               None \<Rightarrow> dp_text ''invalid bucket public access configuration''
             | Some p \<Rightarrow> if \<not> blocked p
                 then dp_text ''enable all four public access block settings on the state bucket''
                 else Ret None)))))"

definition pull_repository :: "dp_lib \<Rightarrow> string list \<Rightarrow> string \<Rightarrow> wf_err option dp_prog" where
  "pull_repository X env root = dexec env root [''git'', ''status'', ''--porcelain''] (\<lambda>x. case x of
     Inl e \<Rightarrow> Ret (Some e)
   | Inr status \<Rightarrow>
       if trim_space (dxGo X) status \<noteq> [] then dp_text ''commit or stash changes before using --pull''
       else dexec env root [''git'', ''pull'', ''--ff-only''] (\<lambda>x. Ret (aws_error x)))"

section \<open>The stack\<close>

definition config_value :: "(string \<rightharpoonup> stack_value) \<Rightarrow> string \<Rightarrow> string" where
  "config_value c key = (case c key of None \<Rightarrow> [] | Some v \<Rightarrow> svValue v)"

definition provider_keys :: "string list" where
  "provider_keys = [''profile'', ''accessKey'', ''secretKey'', ''token'', ''assumeRole'', ''assumeRoles'',
     ''assumeRoleWithWebIdentity'', ''sharedCredentialsFiles'', ''sharedConfigFiles'', ''endpoints'']"

fun provider_override :: "(string \<rightharpoonup> stack_value) \<Rightarrow> string list \<Rightarrow> string option" where
  "provider_override c [] = None"
| "provider_override c (k # ks) = (if c (''aws:'' @ k) \<noteq> None then Some k else provider_override c ks)"

definition runtime_missing :: "dp_lib \<Rightarrow> (string \<rightharpoonup> stack_value) \<Rightarrow> bool" where
  "runtime_missing X c \<longleftrightarrow>
     trim_space (dxGo X) (config_value c ''attestra-auth-email:runtimeTableName'') = [] \<or>
     trim_space (dxGo X) (config_value c ''attestra-auth-email:runtimeTableArn'') = []"

definition stack_config_error :: "dp_lib \<Rightarrow> options \<Rightarrow> bool \<Rightarrow> string \<Rightarrow> string option" where
  "stack_config_error X o1 runtime data = (case dxConfig X data of
      None \<Rightarrow> Some ''invalid stack configuration''
    | Some c \<Rightarrow> (case provider_override c provider_keys of
        Some k \<Rightarrow> Some (''remove aws:'' @ k @ '' from this stack's configuration so the entered credentials are used'')
      | None \<Rightarrow>
          if config_value c ''aws:region'' \<noteq> opRegion o1
          then Some ''entered AWS region must match the stack's aws:region configuration''
          else if runtime \<and> runtime_missing X c
          then Some (''shared admin/runtime setup is incomplete for '' @ opStack o1 @
            '' (runtimeTableName and runtimeTableArn are required); run .'' @ [CHR 0x5C] @ ''setup.bat -Stack '' @ opStack o1 @
            '' -force-setup on Windows or ./setup.sh -stack '' @ opStack o1 @ '' -force-setup on macOS/Linux, complete '' @
            ''the shared dashboard setup and provide your administrator email, then retry deployment; setup writes '' @
            ''these values automatically'')
          else None))"

definition dp_export_args :: "options \<Rightarrow> string list" where
  "dp_export_args o1 = [''pulumi'', ''stack'', ''export'', ''--stack'', opStack o1]"

definition config_args :: "options \<Rightarrow> string list" where
  "config_args o1 = [''pulumi'', ''config'', ''--json'', ''--stack'', opStack o1]"

definition check_requirements :: "dp_lib \<Rightarrow> string list \<Rightarrow> options \<Rightarrow> bool \<Rightarrow> wf_err option dp_prog" where
  "check_requirements X env o1 runtime = dexec env (dp_infra X o1) (dp_export_args o1) (\<lambda>x. case x of
     Inl e \<Rightarrow> dp_text ''could not read S3 stack state; no deployment started''
   | Inr data \<Rightarrow>
       if map_option fst (dxSecrets X data) \<noteq> Some ''passphrase''
       then dp_text (''S3 stack must use passphrase secrets encryption; migrate it with --secrets-provider '' @
         ''passphrase first'')
       else dexec env (dp_infra X o1) (config_args o1) (\<lambda>x. case x of
         Inl e \<Rightarrow> dp_text ''could not read stack configuration''
       | Inr data \<Rightarrow> Ret (map_option WText (stack_config_error X o1 runtime data))))"

section \<open>Deploying\<close>

definition lambda_names :: "string list" where
  "lambda_names = [''signup'', ''resend'', ''confirm'', ''challenge'', ''passkeyoptions'', ''passkeycomplete'',
     ''capture'', ''capture-worker'', ''capture-dispatcher'', ''auth-email-start'', ''auth-email-complete'',
     ''auth-passkey-start'', ''auth-passkey-complete'', ''auth-refresh'', ''auth-status'', ''auth-password-start'',
     ''auth-password-complete'', ''auth-password-set'', ''app-config'', ''admin'', ''environment-reset'']"

fun check_archives :: "dp_lib \<Rightarrow> string \<Rightarrow> string list \<Rightarrow> wf_err option dp_prog" where
  "check_archives X root [] = Ret None"
| "check_archives X root (name # names) = Call (DFile (FStat (dxJoin X [root, ''dist'', name @ ''.zip'']))) (\<lambda>r.
     if f_err (d_file r) \<noteq> None \<or> \<not> f_regular (d_file r) \<or> f_size (d_file r) = 0
     then dp_text (''built archive '' @ name @ '' is missing or empty; restart deployment to rebuild'')
     else check_archives X root names)"

definition build_command :: "string list" where
  "build_command = [''go'', ''-C'', ''tools/deploy'', ''run'', ''.'', ''-build'']"

definition target_args :: "options \<Rightarrow> string list" where
  "target_args o1 = concat (map (\<lambda>t. [''--target'', t]) (opTargets o1))"

definition preview_args :: "options \<Rightarrow> string list" where
  "preview_args o1 = [''pulumi'', ''preview'', ''--stack'', opStack o1] @ target_args o1 @
     (if opCI o1 \<noteq> [] then [''--non-interactive''] else [])"

definition up_args :: "options \<Rightarrow> string list" where
  "up_args o1 = [''pulumi'', ''up'', ''--stack'', opStack o1] @ target_args o1 @
     (if opCI o1 = ''deploy'' then [''--yes'', ''--non-interactive''] else [])"

definition version_ok :: "dp_lib \<Rightarrow> wf_err + string \<Rightarrow> bool" where
  "version_ok X x = (case x of
      Inl e \<Rightarrow> False
    | Inr s \<Rightarrow> (case dxVersion X (trim_space (dxGo X) s) of
        None \<Rightarrow> False
      | Some (major, minor, patch) \<Rightarrow> \<not> (major < 3 \<or> (major = 3 \<and> minor < 254))))"

definition migrate_stack :: "dp_lib \<Rightarrow> string list \<Rightarrow> options \<Rightarrow> wf_err option dp_prog" where
  "migrate_stack X env o1 = dexec env (dp_infra X o1) [''pulumi'', ''version''] (\<lambda>v.
     if \<not> version_ok X v then dp_text ''migration needs Pulumi CLI 3.254.0 or later'' else
     dexec env (dp_infra X o1) [''pulumi'', ''stack'', ''migrate'', ''https://api.pulumi.com'', opMigrateFrom o1,
         ''--target'', opStack o1, ''--secrets-provider'', ''passphrase''] (\<lambda>x. case x of
       Inl e \<Rightarrow> dp_text (''migration did not complete; inspect the destination and local configuration before '' @
         ''retrying; nothing deployed: '' @ err_text e)
     | Inr _ \<Rightarrow> dexec env (dp_infra X o1) [''pulumi'', ''config'', ''rm'', ''aws:profile'', ''--stack'', opStack o1] (\<lambda>x.
         case x of
           Inl e \<Rightarrow> dp_text (''state migrated, but profile removal failed; nothing deployed: '' @ err_text e)
         | Inr _ \<Rightarrow> pbind (check_requirements X env o1 False) (\<lambda>e. Ret (map_option
             (\<lambda>e. WText (''state migrated; review required before deployment: '' @ err_text e)) e)))))"

definition build_step :: "dp_lib \<Rightarrow> string list \<Rightarrow> options \<Rightarrow> wf_err option dp_prog" where
  "build_step X env o1 = (if opReuseBuild o1 then check_archives X (opRoot o1) lambda_names
     else dexec env (opRoot o1) build_command (\<lambda>x. Ret (aws_error x)))"

definition select_args :: "options \<Rightarrow> string list" where
  "select_args o1 = [''pulumi'', ''stack'', ''select'', opStack o1, ''--non-interactive'']"

definition preview_and_up :: "dp_lib \<Rightarrow> string list \<Rightarrow> options \<Rightarrow> wf_err option dp_prog" where
  "preview_and_up X env o1 = dexec env (dp_infra X o1) (preview_args o1) (\<lambda>x. case x of
     Inl e \<Rightarrow> Ret (Some e)
   | Inr _ \<Rightarrow> if opCI o1 = ''preview'' then Ret None
       else dexec env (dp_infra X o1) (up_args o1) (\<lambda>x. Ret (aws_error x)))"

definition execute_core :: "dp_lib \<Rightarrow> string list \<Rightarrow> options \<Rightarrow> wf_err option dp_prog" where
  "execute_core X env o1 =
    (if opMigrateFrom o1 \<noteq> [] then migrate_stack X env o1 else
     dexec env (dp_infra X o1) (select_args o1) (\<lambda>x. case x of
       Inl e \<Rightarrow> dp_text (''cannot select the S3 stack; check access or run --migrate-from '' @
         ''OWNER/attestra-auth-email/STACK once; no empty stack was created'')
     | Inr _ \<Rightarrow> pbind (check_requirements X env o1 True) (\<lambda>e. case e of
         Some e \<Rightarrow> Ret (Some e)
       | None \<Rightarrow> pbind (build_step X env o1) (\<lambda>e. case e of
           Some e \<Rightarrow> Ret (Some e)
         | None \<Rightarrow> preview_and_up X env o1))))"

section \<open>A new stack\<close>

definition dp_stack_listed :: "dp_lib \<Rightarrow> string \<Rightarrow> string \<Rightarrow> wf_err + bool" where
  "dp_stack_listed X data name = (case dxStacks X data of
      Some (Some names) \<Rightarrow> stack_among name ''attestra-auth-email'' names
    | _ \<Rightarrow> Inl (WText ''invalid Pulumi stack list; no stack initialized''))"

definition init_args :: "options \<Rightarrow> string list" where
  "init_args o1 = [''pulumi'', ''stack'', ''init'', opStack o1, ''--secrets-provider'', ''passphrase'', ''--non-interactive'']"

definition set_args :: "options \<Rightarrow> string \<Rightarrow> string \<Rightarrow> string list" where
  "set_args o1 key v = [''pulumi'', ''config'', ''set'', ''--stack'', opStack o1, ''--non-interactive'', key, ''--'', v]"

definition proof_key :: string where "proof_key = ''attestra-auth-email:proofKey''"

definition stack_yaml :: "dp_lib \<Rightarrow> options \<Rightarrow> string" where
  "stack_yaml X o1 = dxJoin X [dp_infra X o1, ''Pulumi.'' @ opStack o1 @ ''.yaml'']"

definition init_stack :: "dp_lib \<Rightarrow> string list \<Rightarrow> options \<Rightarrow> bool \<Rightarrow> wf_err option dp_prog" where
  "init_stack X env o1 known = Call (DGlob (stack_yaml X o1 @ ''.bak.*'')) (\<lambda>r. case d_glob r of
     Inl e \<Rightarrow> Ret (Some e)
   | Inr backups \<Rightarrow> Call (DFile (FStat (stack_yaml X o1))) (\<lambda>r. let stat = f_err (d_file r) in
       if stat \<noteq> None \<and> stat \<noteq> Some FNotExist then Ret (map_option WFileError stat)
       else if known \<or> stat = None \<or> backups \<noteq> []
       then dp_text (''stack '' @ opStack o1 @ '' is missing from '' @ opBackend o1 @
         '', but local configuration, a backup, or setup history indicates previous setup; no stack initialized '' @
         ''and no configuration changed. Select its original backend or migrate/restore its existing state. If '' @
         ''that environment was deliberately destroyed, archive its old YAML, backups, and bootstrap checkpoint '' @
         ''before starting fresh'')
       else dexec env (dp_infra X o1) (init_args o1) (\<lambda>x. Ret (case x of
         Inl e \<Rightarrow> Some (WText (''stack initialization failed; keep any YAML backup and inspect backend before '' @
           ''retrying: '' @ err_text e))
       | Inr _ \<Rightarrow> None))))"

text \<open>The members of the configuration are visited in the order of a Go map, here \<open>order\<close>.\<close>

definition foreign_setting :: "string list \<Rightarrow> string option" where
  "foreign_setting order = find (\<lambda>k. has_prefix k ''aws:'' \<and> k \<noteq> ''aws:region'') order"

definition proof_key_ok :: "dp_lib \<Rightarrow> (string \<rightharpoonup> stack_value) \<Rightarrow> bool" where
  "proof_key_ok X c = (case c proof_key of
      None \<Rightarrow> True
    | Some v \<Rightarrow> (case std_decode (svValue v) of None \<Rightarrow> False | Some raw \<Rightarrow> length raw \<ge> 32 \<and> svSecret v))"

definition current_error :: "dp_lib \<Rightarrow> options \<Rightarrow> bool \<Rightarrow> nat \<Rightarrow> (string \<rightharpoonup> stack_value) \<Rightarrow> string list \<Rightarrow> string option" where
  "current_error X o1 existed resources c order =
    (if (case c ''aws:region'' of None \<Rightarrow> False | Some v \<Rightarrow> svValue v \<noteq> opRegion o1)
     then Some ''existing stack region differs; select its original region''
     else case foreign_setting order of
       Some k \<Rightarrow> Some (''existing provider setting '' @ k @ '' requires manual review before bootstrap; nothing overwritten'')
     | None \<Rightarrow>
         if existed \<and> resources > 0 \<and> c proof_key = None
         then Some (''existing stack has resources but proofKey is missing from local configuration; restore its '' @
           ''matching YAML/config before resuming; no new key generated'')
         else if \<not> proof_key_ok X c
         then Some (''existing proofKey must be an encrypted base64 secret with at least 32 bytes; repair it '' @
           ''deliberately'')
         else None)"

definition keeps_setting :: "(string \<rightharpoonup> stack_value) \<Rightarrow> (string \<times> string) \<Rightarrow> bool" where
  "keeps_setting c kv = (case c (fst kv) of
      None \<Rightarrow> False
    | Some v \<Rightarrow> fst kv \<noteq> ''attestra-auth-email:androidAssociations'' \<and>
        \<not> (fst kv = ''attestra-auth-email:route53ZoneId'' \<and> svValue v = [] \<and> snd kv \<noteq> []))"

fun set_defaults :: "dp_lib \<Rightarrow> string list \<Rightarrow> options \<Rightarrow> (string \<rightharpoonup> stack_value) \<Rightarrow> (string \<times> string) list \<Rightarrow>
    wf_err option dp_prog" where
  "set_defaults X env o1 c [] = Ret None"
| "set_defaults X env o1 c (kv # kvs) =
    (if keeps_setting c kv then set_defaults X env o1 c kvs
     else dexec env (dp_infra X o1) (set_args o1 (fst kv) (snd kv)) (\<lambda>x. case x of
       Inl e \<Rightarrow> Ret (Some e) | Inr _ \<Rightarrow> set_defaults X env o1 c kvs))"

definition new_proof_key :: "(string \<rightharpoonup> stack_value) \<Rightarrow> wf_err option dp_prog" where
  "new_proof_key c =
    (if c proof_key \<noteq> None then Ret None else
     Call (DRandom 32) (\<lambda>r. case d_random r of
       None \<Rightarrow> dp_text ''rand.Read''
     | Some raw \<Rightarrow> Call (DSecret (std_encode raw)) (\<lambda>r. Ret (map_option (\<lambda>e. WText
         (''proofKey not saved; rerun with the same stack passphrase: '' @ err_text e)) (d_secret r)))))"

definition configure_stack :: "dp_lib \<Rightarrow> (string \<Rightarrow> string list) \<Rightarrow> string list \<Rightarrow> options \<Rightarrow> (string \<times> string) list \<Rightarrow>
    bool \<Rightarrow> wf_err option dp_prog" where
  "configure_stack X order env o1 defaults existed =
    dexec env (dp_infra X o1) [''pulumi'', ''stack'', ''export'', ''--show-secrets'', ''--stack'', opStack o1] (\<lambda>x. case x of
      Inl e \<Rightarrow> Ret (Some e)
    | Inr data \<Rightarrow> (case dxSecrets X data of
        Some (kind, resources) \<Rightarrow>
          if kind \<noteq> ''passphrase''
          then dp_text ''stack must use passphrase encryption; migrate existing state first'' else
          dexec env (dp_infra X o1) [''pulumi'', ''config'', ''--json'', ''--show-secrets'', ''--stack'', opStack o1,
              ''--non-interactive''] (\<lambda>x. case x of
            Inl e \<Rightarrow> dp_text (''cannot decrypt stack configuration; use the original passphrase and matching '' @
              ''local YAML; no configuration overwritten'')
          | Inr data \<Rightarrow> (case dxConfig X data of
              None \<Rightarrow> dp_text ''invalid Pulumi configuration response''
            | Some c \<Rightarrow> (case current_error X o1 existed resources c (order data) of
                Some e \<Rightarrow> dp_text e
              | None \<Rightarrow> pbind (set_defaults X env o1 c (sort_key fst defaults)) (\<lambda>e. case e of
                  Some e \<Rightarrow> Ret (Some e) | None \<Rightarrow> new_proof_key c))))
      | None \<Rightarrow> dp_text ''stack must use passphrase encryption; migrate existing state first''))"

definition bootstrap_stack :: "dp_lib \<Rightarrow> (string \<Rightarrow> string list) \<Rightarrow> string list \<Rightarrow> options \<Rightarrow> (string \<times> string) list \<Rightarrow>
    bool \<Rightarrow> wf_err option dp_prog" where
  "bootstrap_stack X order env o1 defaults known =
    dexec env (dp_infra X o1) [''pulumi'', ''stack'', ''ls'', ''--json'', ''--non-interactive''] (\<lambda>x. case x of
      Inl e \<Rightarrow> dp_text (''cannot list backend stacks; check access before retrying; no stack initialized'')
    | Inr data \<Rightarrow> (case dp_stack_listed X data (opStack o1) of
        Inl e \<Rightarrow> Ret (Some e)
      | Inr existed \<Rightarrow> pbind (if existed
            then dexec env (dp_infra X o1) (select_args o1) (\<lambda>x. Ret (aws_error x))
            else init_stack X env o1 known) (\<lambda>e. case e of
          Some e \<Rightarrow> Ret (Some e) | None \<Rightarrow> configure_stack X order env o1 defaults existed)))"

end
