(* ===== verification/DeployIndex.thy ===== *)
theory DeployIndex
  imports Deploy
begin

text \<open>
  A deployment under the lease of the environment registry, \<open>workflow/index_client.go\<close> and \<open>execute\<close>
  of \<open>deploy.go\<close>: the pending receipt is kept in a file, saved before the lease is asked for, after it
  was granted, after the deployment and with the configuration to publish, so an interrupted run is
  resumed or released deliberately. \<open>lease\<close> is the runner's field \<open>indexLease\<close>, which setup fills.
\<close>

record pending =
  pnAPI :: string
  pnRegion :: string
  pnEnvironment :: string
  pnDefaults :: "config option"
  pnReceipt :: receipt
  pnConfig :: configuration
  pnReady :: bool
  pnDeployed :: bool

record outputs =
  ouAPI :: string
  ouPool :: string
  ouClient :: string
  ouCapture :: bool
  ouDefaults :: "config option"

record 'c index_lib =
  ixDeploy :: dp_lib
  ixConfig :: "'c cfglib"
  ixUpper :: "string \<Rightarrow> string" \<comment> \<open>strings.ToUpper\<close>
  ixSource :: "string \<Rightarrow> wf_err option" \<comment> \<open>the error of \<open>decodeCredentialSource\<close>\<close>
  ixJson :: "pending \<Rightarrow> string"
  ixPending :: "string \<Rightarrow> pending option"
  ixOutputs :: "string \<Rightarrow> outputs option"
  ixErrText :: "cfg_err \<Rightarrow> string" \<comment> \<open>the text of an error of package \<open>runtimeconfig\<close>\<close>

definition rc_error :: "rc_err \<Rightarrow> wf_err" where
  "rc_error e = WText (case e of
      RcConflict \<Rightarrow> ''environment is locked by another deployment or this deployment was superseded; inspect '' @
        ''pending index receipts before retrying''
    | RcText s \<Rightarrow> s
    | RcOther s \<Rightarrow> s)"

definition reg_run :: "'c index_lib \<Rightarrow> rc_client \<Rightarrow> change \<Rightarrow> (rc_err + receipt) dp_prog" where
  "reg_run I c ch = lift_calls DReg d_reg (rc_change (dxReg (ixDeploy I)) c ch)"

definition reg_step :: "'c index_lib \<Rightarrow> rc_client \<Rightarrow> change \<Rightarrow> wf_err option dp_prog" where
  "reg_step I c ch = pbind (reg_run I c ch) (\<lambda>x. Ret (case x of Inl e \<Rightarrow> Some (rc_error e) | Inr _ \<Rightarrow> None))"

section \<open>The client\<close>

definition no_config :: configuration where
  "no_config = \<lparr>APIURL = [], AWSRegion = [], CognitoUserPoolID = [], CognitoClientID = [], FeatureIDCapture = False\<rparr>"

definition the_change :: "string \<Rightarrow> receipt \<Rightarrow> change" where
  "the_change operation r = \<lparr>chDefaults = None, chOperation = operation, chToken = rpToken r,
     chRevision = rpRevision r, chConfig = no_config\<rparr>"

definition begin_change :: "string \<Rightarrow> change" where
  "begin_change token = the_change ''begin'' \<lparr>rpToken = token, rpRevision = 0\<rparr>"

text \<open>\<open>strings.SplitN(v, "=", 2)\<close> with two parts.\<close>

definition entry_pair :: "string \<Rightarrow> (string \<times> string) option" where
  "entry_pair v = (if CHR ''='' \<in> set v
     then Some (takeWhile (\<lambda>c. c \<noteq> CHR ''='') v, tl (dropWhile (\<lambda>c. c \<noteq> CHR ''='') v)) else None)"

fun read_environment :: "'c index_lib \<Rightarrow> string list \<Rightarrow> rc_client \<Rightarrow> wf_err + rc_client" where
  "read_environment I [] c = Inr c"
| "read_environment I (v # vs) c = (case entry_pair v of
      None \<Rightarrow> read_environment I vs c
    | Some (k, x) \<Rightarrow> (let key = ixUpper I k; keys = rcCredentials c in
        if key = ''ATTESTRA_AWS_CREDENTIAL_SOURCE'' then (case ixSource I x of
            Some e \<Rightarrow> Inl e | None \<Rightarrow> read_environment I vs (c\<lparr>rcProvider := True\<rparr>))
        else read_environment I vs (
          if key = ''AWS_ACCESS_KEY_ID'' then c\<lparr>rcCredentials := keys\<lparr>rkAccess := x\<rparr>\<rparr>
          else if key = ''AWS_SECRET_ACCESS_KEY'' then c\<lparr>rcCredentials := keys\<lparr>rkSecret := x\<rparr>\<rparr>
          else if key = ''AWS_SESSION_TOKEN'' then c\<lparr>rcCredentials := keys\<lparr>rkToken := x\<rparr>\<rparr> else c)))"

text \<open>\<open>^[a-z0-9]+\.execute-api\.REGION\.amazonaws\.com$\<close>\<close>

definition api_host :: "string \<Rightarrow> string \<Rightarrow> bool" where
  "api_host region host = (let suffix = ''.execute-api.'' @ region @ ''.amazonaws.com'';
       name = take (length host - length suffix) host
     in has_suffix host suffix \<and> name \<noteq> [] \<and> list_all lower_alnum name)"

definition registry_url :: "'c index_lib \<Rightarrow> rc_client \<Rightarrow> bool" where
  "registry_url I c = (case url_parse (dxGo (ixDeploy I)) (rcURL c) of
      None \<Rightarrow> False
    | Some u \<Rightarrow> u_Scheme u = ''https'' \<and> \<not> u_User u \<and> u_RawQuery u = [] \<and> u_Fragment u = [] \<and> u_Path u = [] \<and>
        api_host (rcRegion c) (u_Host u))"

definition signing_keys :: "rc_client \<Rightarrow> bool" where
  "signing_keys c \<longleftrightarrow> rcProvider c \<or> (rkAccess (rcCredentials c) \<noteq> [] \<and> rkSecret (rcCredentials c) \<noteq> [])"

definition new_index_client :: "'c index_lib \<Rightarrow> string list \<Rightarrow> string \<Rightarrow> string \<Rightarrow> string \<Rightarrow> wf_err + rc_client" where
  "new_index_client I env address region stack = (case read_environment I env
        \<lparr>rcURL = address, rcRegion = region, rcEnvironment = stack,
         rcCredentials = \<lparr>rkAccess = [], rkSecret = [], rkToken = []\<rparr>, rcProvider = False\<rparr> of
      Inl e \<Rightarrow> Inl e
    | Inr c \<Rightarrow> if registry_url I c \<and> signing_keys c \<and> reg_valid_environment stack then Inr c
        else Inl (WText ''invalid registry endpoint or AWS signing credentials; rerun setup''))"

definition client_from_config :: "'c index_lib \<Rightarrow> string list \<Rightarrow> options \<Rightarrow> (wf_err + rc_client option) dp_prog" where
  "client_from_config I env o1 = dexec env (dp_infra (ixDeploy I) o1) (config_args o1) (\<lambda>x. Ret (case x of
     Inl e \<Rightarrow> Inl e
   | Inr data \<Rightarrow> (case dxConfig (ixDeploy I) data of
       None \<Rightarrow> Inl (WText ''invalid registry configuration'')
     | Some c \<Rightarrow> (let address = config_value c ''attestra-auth-email:indexApiUrl'' in
         if address = [] then Inr None
         else case new_index_client I env address (config_value c ''attestra-auth-email:indexRegion'') (opStack o1) of
           Inl e \<Rightarrow> Inl e | Inr cl \<Rightarrow> Inr (Some cl)))))"

section \<open>What is published\<close>

definition output_config :: "options \<Rightarrow> outputs \<Rightarrow> configuration" where
  "output_config o1 u = \<lparr>APIURL = ouAPI u, AWSRegion = opRegion o1, CognitoUserPoolID = ouPool u,
     CognitoClientID = ouClient u, FeatureIDCapture = ouCapture u\<rparr>"

definition defaults_error :: "'c index_lib \<Rightarrow> options \<Rightarrow> config \<Rightarrow> string option" where
  "defaults_error I o1 d = (case config_validate (ixConfig I) d of
      Some e \<Rightarrow> Some (''stack '' @ opStack o1 @ '' runtimeDefaults output is invalid (schemaVersion='' @
        show_int (gSchemaVersion d) @ ''); publication receipt retained. An older deployment may have exported an empty '' @
        ''object; see docs/environment-index.md for runtime defaults recovery: '' @ ixErrText I e)
    | None \<Rightarrow> if gEnvironment d \<noteq> opStack o1 then Some ''runtime defaults environment mismatch'' else None)"

definition https_url :: "golib \<Rightarrow> string \<Rightarrow> bool" where
  "https_url L s = (case url_parse L s of
      None \<Rightarrow> False
    | Some u \<Rightarrow> u_Scheme u = ''https'' \<and> u_Hostname u \<noteq> [] \<and> \<not> u_User u \<and> u_RawQuery u = [] \<and> u_Fragment u = [])"

definition registry_error :: "'c index_lib \<Rightarrow> configuration \<Rightarrow> string option" where
  "registry_error I c =
    (if \<not> https_url (dxGo (ixDeploy I)) (APIURL c) then Some ''invalid HTTPS API URL''
     else if \<not> reg_validate (dxGo (ixDeploy I)) c then Some ''invalid public Cognito configuration'' else None)"

definition publication :: "'c index_lib \<Rightarrow> options \<Rightarrow> string \<Rightarrow> wf_err + configuration \<times> config option" where
  "publication I o1 data = (case ixOutputs I data of
      None \<Rightarrow> Inl (WText ''invalid application outputs'')
    | Some u \<Rightarrow> (case (case ouDefaults u of None \<Rightarrow> None | Some d \<Rightarrow> defaults_error I o1 d) of
        Some e \<Rightarrow> Inl (WText e)
      | None \<Rightarrow> (case registry_error I (output_config o1 u) of
          Some e \<Rightarrow> Inl (WText e) | None \<Rightarrow> Inr (output_config o1 u, ouDefaults u))))"

definition output_args :: "options \<Rightarrow> string list" where
  "output_args o1 = [''pulumi'', ''stack'', ''output'', ''--json'', ''--stack'', opStack o1]"

definition publication_configuration :: "'c index_lib \<Rightarrow> string list \<Rightarrow> options \<Rightarrow>
    (wf_err + configuration \<times> config option) dp_prog" where
  "publication_configuration I env o1 = dexec env (dp_infra (ixDeploy I) o1) (output_args o1) (\<lambda>x. Ret (case x of
     Inl e \<Rightarrow> Inl e | Inr data \<Rightarrow> publication I o1 data))"

section \<open>The pending receipt\<close>

definition pending_path :: "'c index_lib \<Rightarrow> options \<Rightarrow> string" where
  "pending_path I o1 = dxJoin (ixDeploy I) [opRoot o1, ''.attestra'', ''index-publication.'' @ opStack o1 @ ''.local.json'']"

definition lock_path :: "string \<Rightarrow> string" where
  "lock_path path = path @ ''.lock''"

definition save_pending :: "'c index_lib \<Rightarrow> string \<Rightarrow> pending \<Rightarrow> wf_err option dp_prog" where
  "save_pending I path p = Call (DFile (FMkdirAll (dxDir (ixDeploy I) path))) (\<lambda>r. case f_err (d_file r) of
     Some e \<Rightarrow> Ret (Some (WFileError e))
   | None \<Rightarrow> Call (DFile (FWriteFile (path @ ''.tmp'') (ixJson I p))) (\<lambda>r. case f_err (d_file r) of
       Some e \<Rightarrow> Ret (Some (WFileError e))
     | None \<Rightarrow> Call (DFile (FRename (path @ ''.tmp'') path)) (\<lambda>r.
         Ret (map_option WFileError (f_err (d_file r))))))"

definition remove_pending :: "string \<Rightarrow> wf_err option dp_prog" where
  "remove_pending path = Call (DFile (FRemove path)) (\<lambda>r. Ret (map_option WFileError (f_err (d_file r))))"

text \<open>Steps that stop at the first error.\<close>

definition then_do :: "wf_err option dp_prog \<Rightarrow> wf_err option dp_prog \<Rightarrow> wf_err option dp_prog" where
  "then_do p q = pbind p (\<lambda>e. case e of Some e \<Rightarrow> Ret (Some e) | None \<Rightarrow> q)"

definition defaults_change :: "pending \<Rightarrow> change" where
  "defaults_change p = (the_change ''defaults'' (pnReceipt p))\<lparr>chDefaults := pnDefaults p\<rparr>"

definition publish_change :: "pending \<Rightarrow> change" where
  "publish_change p = (the_change ''publish'' (pnReceipt p))\<lparr>chConfig := pnConfig p\<rparr>"

definition push_publication :: "'c index_lib \<Rightarrow> rc_client \<Rightarrow> pending \<Rightarrow> wf_err option dp_prog" where
  "push_publication I c p = then_do (if pnDefaults p \<noteq> None then reg_step I c (defaults_change p) else Ret None)
     (reg_step I c (publish_change p))"

text \<open>The publication is read and saved, then handed to \<open>k\<close>.\<close>

definition ready_publication :: "'c index_lib \<Rightarrow> string list \<Rightarrow> options \<Rightarrow> string \<Rightarrow> pending \<Rightarrow>
    (pending \<Rightarrow> wf_err option dp_prog) \<Rightarrow> wf_err option dp_prog" where
  "ready_publication I env o1 path p k = pbind (publication_configuration I env o1) (\<lambda>x. case x of
     Inl e \<Rightarrow> Ret (Some e)
   | Inr (config, defaults) \<Rightarrow> (let p = p\<lparr>pnConfig := config, pnDefaults := defaults, pnReady := True\<rparr>
       in then_do (save_pending I path p) (k p)))"

definition publication_pending :: "wf_err \<Rightarrow> wf_err" where
  "publication_pending e = WText (''deployment succeeded; index publication pending. Retry with deploy '' @
     ''-publish-index using the same checkout/receipt: '' @ err_text e)"

definition abandon_work :: "'c index_lib \<Rightarrow> rc_client \<Rightarrow> string \<Rightarrow> pending \<Rightarrow> wf_err \<Rightarrow> wf_err option dp_prog" where
  "abandon_work I c path p e = pbind (reg_run I c (the_change ''abandon'' (pnReceipt p))) (\<lambda>x. case x of
     Inl _ \<Rightarrow> Ret (Some e) | Inr _ \<Rightarrow> pbind (remove_pending path) (\<lambda>_. Ret (Some e)))"

definition perform_work :: "'c index_lib \<Rightarrow> string list \<Rightarrow> options \<Rightarrow> rc_client \<Rightarrow> string \<Rightarrow> pending \<Rightarrow>
    wf_err option dp_prog \<Rightarrow> wf_err option dp_prog" where
  "perform_work I env o1 c path p work = pbind work (\<lambda>e. case e of
     Some e \<Rightarrow> abandon_work I c path p e
   | None \<Rightarrow> (let p = p\<lparr>pnDeployed := True\<rparr> in then_do (save_pending I path p)
       (pbind (ready_publication I env o1 path p (push_publication I c)) (\<lambda>e. case e of
          Some e \<Rightarrow> Ret (Some (publication_pending e)) | None \<Rightarrow> remove_pending path))))"

section \<open>Working under the lease\<close>

text \<open>A new lease; \<open>lost\<close> wraps an error that is not a conflict, and \<open>k\<close> goes on with the receipt.\<close>

definition fresh_pending :: "rc_client \<Rightarrow> options \<Rightarrow> string \<Rightarrow> pending" where
  "fresh_pending c o1 token = \<lparr>pnAPI = rcURL c, pnRegion = rcRegion c, pnEnvironment = opStack o1, pnDefaults = None,
     pnReceipt = \<lparr>rpToken = token, rpRevision = 0\<rparr>, pnConfig = no_config, pnReady = False, pnDeployed = False\<rparr>"

definition take_lease :: "'c index_lib \<Rightarrow> options \<Rightarrow> rc_client \<Rightarrow> string \<Rightarrow> (wf_err \<Rightarrow> wf_err) \<Rightarrow>
    (wf_err + pending) dp_prog" where
  "take_lease I o1 c path lost = Call (DRandom 24) (\<lambda>r. case d_random r of
     None \<Rightarrow> Ret (Inl (WText ''rand.Read''))
   | Some raw \<Rightarrow> (let p = fresh_pending c o1 (hex_encode raw) in
       pbind (save_pending I path p) (\<lambda>e. case e of
         Some e \<Rightarrow> Ret (Inl e)
       | None \<Rightarrow> pbind (reg_run I c (begin_change (hex_encode raw))) (\<lambda>x. case x of
           Inl e \<Rightarrow> if e = RcConflict then pbind (remove_pending path) (\<lambda>_. Ret (Inl (rc_error e)))
             else Ret (Inl (lost (rc_error e)))
         | Inr receipt \<Rightarrow> Ret (Inr (p\<lparr>pnReceipt := receipt\<rparr>))))))"

definition lease_lost :: "wf_err \<Rightarrow> wf_err" where
  "lease_lost e = WText (''registry lease was not acquired; pending request retained for inspection: '' @ err_text e)"

definition fresh_work :: "'c index_lib \<Rightarrow> string list \<Rightarrow> options \<Rightarrow> rc_client \<Rightarrow> string \<Rightarrow> wf_err option dp_prog \<Rightarrow>
    wf_err option dp_prog" where
  "fresh_work I env o1 c path work = pbind (take_lease I o1 c path lease_lost) (\<lambda>x. case x of
     Inl e \<Rightarrow> Ret (Some e)
   | Inr p \<Rightarrow> then_do (save_pending I path p) (perform_work I env o1 c path p work))"

text \<open>\<open>-release-index-lock\<close>.\<close>

definition acknowledged_lease :: "'c index_lib \<Rightarrow> rc_client \<Rightarrow> string \<Rightarrow> pending \<Rightarrow> (wf_err + pending) dp_prog" where
  "acknowledged_lease I c path p =
    (if rpRevision (pnReceipt p) \<noteq> 0 then Ret (Inr p) else
     pbind (reg_run I c (begin_change (rpToken (pnReceipt p)))) (\<lambda>x. case x of
       Inl e \<Rightarrow> Ret (Inl (rc_error e))
     | Inr receipt \<Rightarrow> (let p = p\<lparr>pnReceipt := receipt\<rparr> in
         pbind (save_pending I path p) (\<lambda>e. Ret (case e of Some e \<Rightarrow> Inl e | None \<Rightarrow> Inr p)))))"

definition release_label :: string where
  "release_label = ''After verifying no deployment is running, type the environment to release its saved index lock''"

definition release_lease :: "'c index_lib \<Rightarrow> options \<Rightarrow> rc_client \<Rightarrow> string \<Rightarrow> pending \<Rightarrow> wf_err option dp_prog" where
  "release_lease I o1 c path p = Call (DInput release_label) (\<lambda>r. case d_input r of
     Inl e \<Rightarrow> Ret (Some e)
   | Inr answer \<Rightarrow>
       if answer \<noteq> opStack o1 then dp_text ''confirmation did not match; cancelled'' else
       pbind (acknowledged_lease I c path p) (\<lambda>x. case x of
         Inl e \<Rightarrow> Ret (Some e)
       | Inr p \<Rightarrow> then_do (reg_step I c (the_change ''abandon'' (pnReceipt p))) (remove_pending path)))"

definition resume_publication :: "'c index_lib \<Rightarrow> string list \<Rightarrow> options \<Rightarrow> rc_client \<Rightarrow> string \<Rightarrow> pending \<Rightarrow>
    wf_err option dp_prog" where
  "resume_publication I env o1 c path p = then_do
    (if pnReady p then push_publication I c p
     else ready_publication I env o1 path p (push_publication I c)) (remove_pending path)"

definition pending_matches :: "rc_client \<Rightarrow> options \<Rightarrow> pending \<Rightarrow> bool" where
  "pending_matches c o1 p \<longleftrightarrow> pnAPI p = rcURL c \<and> pnEnvironment p = opStack o1 \<and> pnRegion p = rcRegion c"

text \<open>The error and the lease the runner has then; only the work of a setup uses its lease up.\<close>

type_synonym leased = "wf_err option \<times> pending option"

definition with_lease :: "pending option \<Rightarrow> wf_err option dp_prog \<Rightarrow> leased dp_prog" where
  "with_lease lease p = pbind p (\<lambda>e. Ret (e, lease))"

definition interrupted :: "wf_err option dp_prog" where
  "interrupted = dp_text (''interrupted deployment holds a registry lock; inspect Pulumi and the pending receipt '' @
     ''before explicitly releasing it; see docs/environment-index.md'')"

definition resume_work :: "'c index_lib \<Rightarrow> string list \<Rightarrow> options \<Rightarrow> rc_client \<Rightarrow> string \<Rightarrow> pending option \<Rightarrow>
    wf_err option dp_prog option \<Rightarrow> pending \<Rightarrow> leased dp_prog" where
  "resume_work I env o1 c path lease work p =
    (if opReleaseIndex o1 then with_lease lease (release_lease I o1 c path p)
     else case work of
       Some w \<Rightarrow>
         if \<not> pnDeployed p \<and> map_option pnReceipt lease = Some (pnReceipt p)
         then with_lease None (perform_work I env o1 c path p w)
         else if \<not> pnDeployed p then with_lease lease interrupted
         else with_lease lease (then_do (resume_publication I env o1 c path p) (fresh_work I env o1 c path w))
     | None \<Rightarrow> with_lease lease (if \<not> pnDeployed p then interrupted else resume_publication I env o1 c path p))"

definition locked :: "string \<Rightarrow> pending option \<Rightarrow> string \<Rightarrow> leased dp_prog \<Rightarrow> leased dp_prog" where
  "locked path lease busy p = Call (DLock (lock_path path)) (\<lambda>r. if \<not> d_ok r then Ret (Some (WText busy), lease)
     else pbind p (\<lambda>x. Call (DFile (FRemove (lock_path path))) (\<lambda>_. Ret x)))"

definition foreign_receipt :: "wf_err option dp_prog" where
  "foreign_receipt = dp_text ''pending registry receipt does not match this environment; inspect it before continuing''"

definition nothing_pending :: "wf_err option dp_prog" where
  "nothing_pending = dp_text ''no pending publication; no changes made''"

definition under_lock :: "'c index_lib \<Rightarrow> string list \<Rightarrow> options \<Rightarrow> rc_client \<Rightarrow> pending option \<Rightarrow>
    wf_err option dp_prog option \<Rightarrow> leased dp_prog" where
  "under_lock I env o1 c lease work = (let path = pending_path I o1 in
     Call (DFile (FRead path)) (\<lambda>r. case f_err (d_file r) of
       None \<Rightarrow> (case ixPending I (f_data (d_file r)) of
         Some p \<Rightarrow> if pending_matches c o1 p then resume_work I env o1 c path lease work p
           else with_lease lease foreign_receipt
       | None \<Rightarrow> with_lease lease foreign_receipt)
     | Some FNotExist \<Rightarrow> with_lease lease (case work of
         Some w \<Rightarrow> if opReleaseIndex o1 then nothing_pending else fresh_work I env o1 c path w
       | None \<Rightarrow> nothing_pending)
     | Some e \<Rightarrow> Ret (Some (WFileError e), lease)))"

definition with_index_client :: "'c index_lib \<Rightarrow> string list \<Rightarrow> options \<Rightarrow> rc_client \<Rightarrow> pending option \<Rightarrow>
    wf_err option dp_prog option \<Rightarrow> leased dp_prog" where
  "with_index_client I env o1 c lease work = locked (pending_path I o1) lease
     (''another local index/deployment operation is active; inspect the publication .lock file before removing a '' @
      ''stale lock'') (under_lock I env o1 c lease work)"

definition with_index :: "'c index_lib \<Rightarrow> string list \<Rightarrow> options \<Rightarrow> pending option \<Rightarrow> wf_err option dp_prog option \<Rightarrow>
    leased dp_prog" where
  "with_index I env o1 lease work = pbind (client_from_config I env o1) (\<lambda>x. case x of
     Inl e \<Rightarrow> Ret (Some e, lease)
   | Inr None \<Rightarrow> with_lease lease (case work of
       None \<Rightarrow> dp_text ''registry not configured; run setup first'' | Some w \<Rightarrow> w)
   | Inr (Some c) \<Rightarrow> with_index_client I env o1 c lease work)"

text \<open>\<open>execute\<close>, on the runner of the tool.\<close>

definition execute :: "'c index_lib \<Rightarrow> string list \<Rightarrow> options \<Rightarrow> pending option \<Rightarrow> leased dp_prog" where
  "execute I env o1 lease =
    (let core = execute_core (ixDeploy I) env o1 in
     if \<not> opSkipIndex o1 \<and> opTargets o1 = [] \<and> opMigrateFrom o1 = [] \<and> opCI o1 \<noteq> ''preview'' then
       with_index I env o1 lease (if opPublishOnly o1 \<or> opReleaseIndex o1 then None else Some core)
     else with_lease lease core)"

section \<open>The lease of a setup\<close>

definition acquire_setup :: "'c index_lib \<Rightarrow> string list \<Rightarrow> options \<Rightarrow> rc_client \<Rightarrow> pending option \<Rightarrow>
    leased dp_prog" where
  "acquire_setup I env o1 c lease = (case lease of
     Some p \<Rightarrow> if pending_matches c o1 p then Ret (None, lease)
       else Ret (Some (WText (''shared registry differs from the active setup lock; inspect configuration before '' @
         ''retrying'')), lease)
   | None \<Rightarrow> (let path = pending_path I o1 in
       Call (DFile (FStat path)) (\<lambda>r.
         pbind (case f_err (d_file r) of
             None \<Rightarrow> pbind (with_index_client I env o1 c None None) (\<lambda>(e, l). Ret e)
           | Some FNotExist \<Rightarrow> Ret None
           | Some e \<Rightarrow> Ret (Some (WFileError e))) (\<lambda>e. case e of
           Some e \<Rightarrow> Ret (Some e, None)
         | None \<Rightarrow> Call (DLock (lock_path path)) (\<lambda>r. if \<not> d_ok r
             then Ret (Some (WText ''another local index operation is active; inspect its lock before retrying''), None)
             else pbind (pbind (take_lease I o1 c path id) (\<lambda>x. case x of
                 Inl e \<Rightarrow> Ret (Some e, None)
               | Inr p \<Rightarrow> pbind (save_pending I path p) (\<lambda>e. Ret (e, Some p)))) (\<lambda>x.
               Call (DFile (FRemove (lock_path path))) (\<lambda>_. Ret x)))))))"

definition release_setup :: "'c index_lib \<Rightarrow> string list \<Rightarrow> options \<Rightarrow> pending option \<Rightarrow> unit dp_prog" where
  "release_setup I env o1 lease = (case lease of
     None \<Rightarrow> Ret ()
   | Some p \<Rightarrow> (case new_index_client I env (pnAPI p) (pnRegion p) (pnEnvironment p) of
       Inl e \<Rightarrow> Ret ()
     | Inr c \<Rightarrow> pbind (reg_run I c (the_change ''abandon'' (pnReceipt p))) (\<lambda>x. case x of
         Inl e \<Rightarrow> Ret ()
       | Inr _ \<Rightarrow> pbind (remove_pending (pending_path I (o1\<lparr>opStack := pnEnvironment p\<rparr>))) (\<lambda>_. Ret ()))))"

end
