(* ===== verification/DeployProps.thy ===== *)
theory DeployProps
  imports DeployIndex
begin

text \<open>
  What a deployment under a lease guarantees (\<open>DeployIndex\<close>), and what the initialization of a stack
  leaves alone (\<open>Deploy\<close>). Facts about a history are stated with \<open>within\<close>: the history has a whole
  execution of a program with that result.
\<close>

section \<open>What a history shows\<close>

definition read_pending :: "'c index_lib \<Rightarrow> string \<Rightarrow> pending \<Rightarrow> (dp_call \<times> dp_resp) list \<Rightarrow> bool" where
  "read_pending I path p h \<longleftrightarrow> (\<exists>r. (DFile (FRead path), r) \<in> set h \<and> f_err (d_file r) = None \<and>
     ixPending I (f_data (d_file r)) = Some p)"

definition known :: "'c index_lib \<Rightarrow> string \<Rightarrow> pending \<Rightarrow> (dp_call \<times> dp_resp) list \<Rightarrow> bool" where
  "known I path p h \<longleftrightarrow> within (save_pending I path p) None h \<or> read_pending I path p h"

definition granted :: "'c index_lib \<Rightarrow> rc_client \<Rightarrow> receipt \<Rightarrow> (dp_call \<times> dp_resp) list \<Rightarrow> bool" where
  "granted I c r h \<longleftrightarrow> within (reg_run I c (begin_change (rpToken r))) (Inr r) h"

definition accepted :: "'c index_lib \<Rightarrow> rc_client \<Rightarrow> change \<Rightarrow> (dp_call \<times> dp_resp) list \<Rightarrow> bool" where
  "accepted I c ch h \<longleftrightarrow> (\<exists>r. within (reg_run I c ch) (Inr r) h)"

definition confirmed :: "options \<Rightarrow> (dp_call \<times> dp_resp) list \<Rightarrow> bool" where
  "confirmed o1 h \<longleftrightarrow> (\<exists>r. (DInput release_label, r) \<in> set h \<and> d_input r = Inr (opStack o1))"

definition succeeded :: "dp_call \<Rightarrow> (dp_call \<times> dp_resp) list \<Rightarrow> bool" where
  "succeeded q h \<longleftrightarrow> (\<exists>r x. (q, r) \<in> set h \<and> d_exec r = Inr x)"

named_theorems later "facts about a history stay true"

lemma within_later [later]: "within p x h \<Longrightarrow> within p x (h @ t)" by (rule within_before)
lemma read_later [later]: "read_pending I path p h \<Longrightarrow> read_pending I path p (h @ t)"
  by (auto simp: read_pending_def)
lemma known_later [later]: "known I path p h \<Longrightarrow> known I path p (h @ t)"
  by (auto simp: known_def intro: later)
lemma granted_later [later]: "granted I c r h \<Longrightarrow> granted I c r (h @ t)" by (auto simp: granted_def intro: later)
lemma accepted_later [later]: "accepted I c ch h \<Longrightarrow> accepted I c ch (h @ t)"
  by (auto simp: accepted_def intro: later)
lemma confirmed_later [later]: "confirmed o1 h \<Longrightarrow> confirmed o1 (h @ t)" by (auto simp: confirmed_def)
lemma succeeded_later [later]: "succeeded q h \<Longrightarrow> succeeded q (h @ t)" by (auto simp: succeeded_def)

section \<open>The protocol\<close>

text \<open>A change that may be asked for: a lease for a receipt that is on disk; its release once the work
  failed or the release was confirmed; a publication of a deployed and complete receipt.\<close>

definition change_allowed :: "'c index_lib \<Rightarrow> options \<Rightarrow> string \<Rightarrow> wf_err option dp_prog \<Rightarrow> change \<Rightarrow>
    (dp_call \<times> dp_resp) list \<Rightarrow> bool" where
  "change_allowed I o1 path w ch h \<longleftrightarrow> (\<exists>p. known I path p h \<and>
     (ch = begin_change (rpToken (pnReceipt p)) \<or>
      (ch = the_change ''abandon'' (pnReceipt p) \<and> ((\<exists>e. within w (Some e) h) \<or> confirmed o1 h)) \<or>
      (pnDeployed p \<and> pnReady p \<and> (ch = defaults_change p \<or> ch = publish_change p))))"

definition deployed_before :: "'c index_lib \<Rightarrow> string \<Rightarrow> wf_err option dp_prog \<Rightarrow> (dp_call \<times> dp_resp) list \<Rightarrow> bool" where
  "deployed_before I path w h \<longleftrightarrow> within w None h \<or> (\<exists>p. read_pending I path p h \<and> pnDeployed p)"

text \<open>The receipt may go once it was published or given up, or the lease belongs to another.\<close>

definition settled :: "'c index_lib \<Rightarrow> rc_client \<Rightarrow> string \<Rightarrow> (dp_call \<times> dp_resp) list \<Rightarrow> bool" where
  "settled I c path h \<longleftrightarrow> (\<exists>p. known I path p h \<and>
     (accepted I c (publish_change p) h \<or> accepted I c (the_change ''abandon'' (pnReceipt p)) h \<or>
      within (reg_run I c (begin_change (rpToken (pnReceipt p)))) (Inl RcConflict) h))"

definition under_lease :: "'c index_lib \<Rightarrow> rc_client \<Rightarrow> string \<Rightarrow> pending option \<Rightarrow> (dp_call \<times> dp_resp) list \<Rightarrow> bool" where
  "under_lease I c path lease h \<longleftrightarrow> (\<exists>p. known I path p h \<and> \<not> pnDeployed p \<and>
     (granted I c (pnReceipt p) h \<or> map_option pnReceipt lease = Some (pnReceipt p)))"

definition reviewed :: "dp_lib \<Rightarrow> string list \<Rightarrow> options \<Rightarrow> (dp_call \<times> dp_resp) list \<Rightarrow> bool" where
  "reviewed X env o1 h \<longleftrightarrow> within (check_requirements X env o1 True) None h \<and>
     within (build_step X env o1) None h \<and> succeeded (DExec env (dp_infra X o1) (preview_args o1)) h"

definition protocol :: "'c index_lib \<Rightarrow> string list \<Rightarrow> options \<Rightarrow> rc_client \<Rightarrow> pending option \<Rightarrow> dp_call \<Rightarrow>
    (dp_call \<times> dp_resp) list \<Rightarrow> bool" where
  "protocol I env o1 c lease q h \<longleftrightarrow>
     (let path = pending_path I o1; w = execute_core (ixDeploy I) env o1 in case q of
        DReg (RcDo s) \<Rightarrow> (\<exists>ch. sqBody s = change_json (dxReg (ixDeploy I)) ch \<and> sqURL s = rc_target c \<and>
          change_allowed I o1 path w ch h)
      | DFile (FWriteFile temp b) \<Rightarrow> (\<exists>p. b = ixJson I p \<and> (pnDeployed p \<longrightarrow> deployed_before I path w h))
      | DFile (FRemove name) \<Rightarrow> name = path \<longrightarrow> settled I c path h
      | DExec e d args \<Rightarrow> args = up_args o1 \<longrightarrow> under_lease I c path lease h \<and> reviewed (ixDeploy I) env o1 h
      | _ \<Rightarrow> True)"

lemma change_allowed_later [later]: "change_allowed I o1 path w ch h \<Longrightarrow> change_allowed I o1 path w ch (h @ t)"
  unfolding change_allowed_def by (blast intro: later)
lemma deployed_later [later]: "deployed_before I path w h \<Longrightarrow> deployed_before I path w (h @ t)"
  unfolding deployed_before_def by (blast intro: later)
lemma settled_later [later]: "settled I c path h \<Longrightarrow> settled I c path (h @ t)"
  unfolding settled_def by (blast intro: later)
lemma under_lease_later [later]: "under_lease I c path lease h \<Longrightarrow> under_lease I c path lease (h @ t)"
  unfolding under_lease_def by (blast intro: later)

lemma protocol_simps:
  "protocol I env o1 c lease (DReg q) h \<longleftrightarrow> (case q of
     RcDo s \<Rightarrow> (\<exists>ch. sqBody s = change_json (dxReg (ixDeploy I)) ch \<and> sqURL s = rc_target c \<and>
       change_allowed I o1 (pending_path I o1) (execute_core (ixDeploy I) env o1) ch h) | _ \<Rightarrow> True)"
  "protocol I env o1 c lease (DFile f) h \<longleftrightarrow> (case f of
     FWriteFile temp b \<Rightarrow> (\<exists>p. b = ixJson I p \<and> (pnDeployed p \<longrightarrow>
       deployed_before I (pending_path I o1) (execute_core (ixDeploy I) env o1) h))
   | FRemove name \<Rightarrow> name = pending_path I o1 \<longrightarrow> settled I c (pending_path I o1) h | _ \<Rightarrow> True)"
  "protocol I env o1 c lease (DExec e d args) h \<longleftrightarrow> (args = up_args o1 \<longrightarrow>
     under_lease I c (pending_path I o1) lease h \<and> reviewed (ixDeploy I) env o1 h)"
  "protocol I env o1 c lease (DLock n) h" "protocol I env o1 c lease (DInput n) h"
  "protocol I env o1 c lease (DRandom m) h"
  by (auto simp: protocol_def Let_def split: rc_call.split file_call.split)

section \<open>The parts\<close>

lemma args_not_up [simp]:
  "''pulumi'' # ''stack'' # xs \<noteq> up_args o1" "''pulumi'' # ''config'' # xs \<noteq> up_args o1"
  "''pulumi'' # ''version'' # xs \<noteq> up_args o1" "''pulumi'' # ''preview'' # xs \<noteq> up_args o1" "''go'' # xs \<noteq> up_args o1"
  by (auto simp: up_args_def)

lemma reg_run_allowed:
  assumes "change_allowed I o1 (pending_path I o1) (execute_core (ixDeploy I) env o1) ch h"
  shows "safe (protocol I env o1 c lease) (\<lambda>_ _. True) (reg_run I c ch) h"
proof (rule safe_local [where R = "\<lambda>q. \<exists>q'. q = DReg q' \<and> rc_call_of (dxReg (ixDeploy I)) c ch q'"])
  show "safe (\<lambda>q _. \<exists>q'. q = DReg q' \<and> rc_call_of (dxReg (ixDeploy I)) c ch q') (\<lambda>_ _. True) (reg_run I c ch) h"
    unfolding reg_run_def by (rule safe_lift [OF rc_change_safe]) auto
  show "protocol I env o1 c lease q (h @ t)" if "\<exists>q'. q = DReg q' \<and> rc_call_of (dxReg (ixDeploy I)) c ch q'" for q t
  proof -
    from that obtain q' where q: "q = DReg q'" "rc_call_of (dxReg (ixDeploy I)) c ch q'" by blast
    show ?thesis using q(2) change_allowed_later [OF assms, of t] unfolding q(1)
      by (cases q') (auto simp: protocol_simps rc_call_of_def)
  qed
qed

lemma reg_step_allowed:
  assumes "change_allowed I o1 (pending_path I o1) (execute_core (ixDeploy I) env o1) ch h"
  shows "safe (protocol I env o1 c lease) (\<lambda>_ _. True) (reg_step I c ch) h"
  unfolding reg_step_def by (rule safe_bindI [OF reg_run_allowed [OF assms]]) auto

lemma reg_step_within:
  assumes "within (reg_step I c ch) None h"
  shows "accepted I c ch h"
proof -
  from assms obtain t0 u t1 where h: "h = t0 @ u @ t1" "execs (reg_step I c ch) u None" by (auto simp: within_def)
  then obtain x where "execs (reg_run I c ch) u x" "(case x of Inl e \<Rightarrow> Some (rc_error e) | Inr _ \<Rightarrow> None) = None"
    by (auto simp: reg_step_def execs_pbind)
  then obtain r where "execs (reg_run I c ch) u (Inr r)" by (cases x) auto
  with h show ?thesis unfolding accepted_def within_def by blast
qed

lemma save_allowed:
  "(pnDeployed p \<longrightarrow> deployed_before I (pending_path I o1) (execute_core (ixDeploy I) env o1) h) \<Longrightarrow>
   safe (protocol I env o1 c lease) (\<lambda>_ _. True) (save_pending I (pending_path I o1) p) h"
  using deployed_later [of I "pending_path I o1" "execute_core (ixDeploy I) env o1" h]
  by (auto simp: save_pending_def protocol_simps split: option.split)

lemma remove_allowed:
  "settled I c (pending_path I o1) h \<Longrightarrow>
   safe (protocol I env o1 c lease) (\<lambda>_ _. True) (remove_pending (pending_path I o1)) h"
  by (simp add: remove_pending_def protocol_simps)

lemma archives_allowed:
  "safe (protocol I env o1 c lease) (\<lambda>_ _. True) (check_archives X root names) h"
  by (induction names arbitrary: h) (auto simp: protocol_simps dp_text_def)

lemma build_allowed: "safe (protocol I env o1 c lease) (\<lambda>_ _. True) (build_step X env o1) h"
  by (auto simp: build_step_def archives_allowed dexec_def build_command_def protocol_simps)

lemma requirements_allowed: "safe (protocol I env o1 c lease) (\<lambda>_ _. True) (check_requirements X env o1 b) h"
  by (auto simp: check_requirements_def dexec_def dp_export_args_def config_args_def dp_text_def protocol_simps
      split: sum.split)

lemma migrate_allowed: "safe (protocol I env o1 c lease) (\<lambda>_ _. True) (migrate_stack X env o1) h"
  unfolding migrate_stack_def
  by (auto simp: dexec_def dp_text_def protocol_simps split: sum.split intro!: safe_bindI [OF requirements_allowed])

lemma preview_allowed:
  assumes "under_lease I c (pending_path I o1) lease h"
    and "within (check_requirements (ixDeploy I) env o1 True) None h" "within (build_step (ixDeploy I) env o1) None h"
  shows "safe (protocol I env o1 c lease) (\<lambda>_ _. True) (preview_and_up (ixDeploy I) env o1) h"
proof -
  have "preview_args o1 \<noteq> up_args o1" by (simp add: preview_args_def)
  moreover have "reviewed (ixDeploy I) env o1 (h @ [(DExec env (dp_infra (ixDeploy I) o1) (preview_args o1), r)])"
    if "d_exec r = Inr x" for r x
    using that assms(2,3) by (auto simp: reviewed_def succeeded_def intro: later)
  ultimately show ?thesis using under_lease_later [OF assms(1)]
    by (auto simp: preview_and_up_def dexec_def protocol_simps split: sum.split)
qed

lemma build_then_allowed:
  assumes "under_lease I c (pending_path I o1) lease h"
    and "within (check_requirements (ixDeploy I) env o1 True) None h"
  shows "safe (protocol I env o1 c lease) (\<lambda>_ _. True) (pbind (build_step (ixDeploy I) env o1) (\<lambda>e. case e of
     Some e \<Rightarrow> Ret (Some e) | None \<Rightarrow> preview_and_up (ixDeploy I) env o1)) h"
  by (rule safe_step [OF build_allowed])
    (auto split: option.split intro!: preview_allowed intro: later assms)

lemma core_allowed:
  assumes "under_lease I c (pending_path I o1) lease h"
  shows "safe (protocol I env o1 c lease) (\<lambda>_ _. True) (execute_core (ixDeploy I) env o1) h"
proof -
  have "safe (protocol I env o1 c lease) (\<lambda>_ _. True) (pbind (check_requirements (ixDeploy I) env o1 True) (\<lambda>e. case e of
         Some e \<Rightarrow> Ret (Some e)
       | None \<Rightarrow> pbind (build_step (ixDeploy I) env o1) (\<lambda>e. case e of
           Some e \<Rightarrow> Ret (Some e) | None \<Rightarrow> preview_and_up (ixDeploy I) env o1))) (h @ t)" for t
    by (rule safe_step [OF requirements_allowed])
      (auto split: option.split intro!: build_then_allowed intro: later assms)
  then show ?thesis using migrate_allowed
    by (auto simp: execute_core_def dexec_def select_args_def dp_text_def protocol_simps split: sum.split)
qed

section \<open>Parts of an execution\<close>

lemma within_pbind:
  assumes "within (pbind p f) x h"
  obtains a where "within p a h" "within (f a) x h"
proof -
  from assms obtain t0 u t1 where h: "h = t0 @ u @ t1" "execs (pbind p f) u x" by (auto simp: within_def)
  then obtain u1 u2 a where u: "u = u1 @ u2" "execs p u1 a" "execs (f a) u2 x" by (auto simp: execs_pbind)
  from h u have "h = t0 @ u1 @ (u2 @ t1)" "h = (t0 @ u1) @ u2 @ t1" by simp_all
  with u(2,3) have "within p a h" "within (f a) x h" unfolding within_def by blast+
  then show ?thesis by (rule that)
qed

lemma within_Ret [simp]: "within (Ret a) x h \<longleftrightarrow> x = a"
  by (auto simp: within_def intro: exI [of _ "[]"])

lemma within_then:
  assumes "within (then_do p q) None h"
  shows "within p None h \<and> within q None h"
  using assms unfolding then_do_def by (auto elim!: within_pbind split: option.splits)

lemma then_do_safe:
  assumes "safe P (\<lambda>_ _. True) p h"
    and "\<And>h'. within p None h' \<Longrightarrow> \<exists>t. h' = h @ t \<Longrightarrow> safe P (\<lambda>_ _. True) q h'"
  shows "safe P (\<lambda>_ _. True) (then_do p q) h"
  unfolding then_do_def by (rule safe_step [OF assms(1)]) (auto split: option.split intro: assms(2))

lemma push_within: "within (push_publication I c p) None h \<Longrightarrow> accepted I c (publish_change p) h"
  unfolding push_publication_def by (drule within_then) (simp add: reg_step_within)

lemma within_call: "within (Call q k) x h \<Longrightarrow> \<exists>r. (q, r) \<in> set h \<and> within (k r) x h"
proof -
  assume "within (Call q k) x h"
  then obtain t0 u t1 r where h: "h = t0 @ ((q, r) # u) @ t1" and e: "execs (k r) u x"
    by (auto simp: within_def execs_Call)
  from h have "h = (t0 @ [(q, r)]) @ u @ t1" by simp
  with e have "within (k r) x h" unfolding within_def by blast
  with h show ?thesis by auto
qed

lemma ready_within:
  assumes "within (ready_publication I env o1 path p (push_publication I c)) None h"
  shows "\<exists>p'. known I path p' h \<and> accepted I c (publish_change p') h"
  using assms unfolding ready_publication_def
  by (auto elim!: within_pbind simp: Let_def known_def split: sum.splits dest!: within_then push_within)

section \<open>Publication\<close>

lemma push_allowed:
  assumes "known I (pending_path I o1) p h" "pnDeployed p" "pnReady p"
  shows "safe (protocol I env o1 c lease) (\<lambda>_ _. True) (push_publication I c p) h"
proof -
  have "change_allowed I o1 (pending_path I o1) (execute_core (ixDeploy I) env o1) ch h"
    if "ch = defaults_change p \<or> ch = publish_change p" for ch
    using assms that unfolding change_allowed_def by blast
  then show ?thesis unfolding push_publication_def
    by (intro then_do_safe) (auto intro: reg_step_allowed later)
qed

lemma ready_allowed:
  assumes "deployed_before I (pending_path I o1) (execute_core (ixDeploy I) env o1) h" "pnDeployed p"
  shows "safe (protocol I env o1 c lease) (\<lambda>_ _. True)
    (ready_publication I env o1 (pending_path I o1) p (push_publication I c)) h"
proof -
  have "safe (protocol I env o1 c lease) (\<lambda>_ _. True) (publication_configuration I env o1) h"
    by (simp add: publication_configuration_def dexec_def output_args_def protocol_simps)
  moreover have "safe (protocol I env o1 c lease) (\<lambda>_ _. True) (then_do
      (save_pending I (pending_path I o1) p') (push_publication I c p')) (h @ t)" if "pnDeployed p'" "pnReady p'" for p' t
    by (rule then_do_safe) (auto intro: save_allowed push_allowed that later assms simp: known_def)
  ultimately show ?thesis unfolding ready_publication_def
    by (intro safe_step) (auto split: sum.split simp: Let_def assms(2))
qed

section \<open>Work\<close>

lemma abandon_allowed:
  assumes "known I (pending_path I o1) p h"
    and "(\<exists>e. within (execute_core (ixDeploy I) env o1) (Some e) h) \<or> confirmed o1 h"
  shows "change_allowed I o1 (pending_path I o1) (execute_core (ixDeploy I) env o1) (the_change ''abandon'' (pnReceipt p)) h"
  using assms unfolding change_allowed_def by blast

lemma abandon_work_allowed:
  assumes "known I (pending_path I o1) p h" "within (execute_core (ixDeploy I) env o1) (Some e) h"
  shows "safe (protocol I env o1 c lease) (\<lambda>_ _. True) (abandon_work I c (pending_path I o1) p e) h"
proof -
  have "settled I c (pending_path I o1) (h @ t)"
    if "within (reg_run I c (the_change ''abandon'' (pnReceipt p))) (Inr r) (h @ t)" for r t
    using that known_later [OF assms(1)] unfolding settled_def accepted_def by blast
  then have "safe (protocol I env o1 c lease) (\<lambda>_ _. True) (pbind (remove_pending (pending_path I o1)) (\<lambda>_. Ret (Some e))) (h @ t)"
    if "within (reg_run I c (the_change ''abandon'' (pnReceipt p))) (Inr r) (h @ t)" for r t
    using that by (intro safe_bindI [OF remove_allowed]) auto
  then show ?thesis unfolding abandon_work_def
    by (intro safe_step [OF reg_run_allowed [OF abandon_allowed [OF assms(1)]]])
      (use assms(2) in \<open>auto split: sum.split\<close>)
qed

lemma perform_allowed:
  assumes "known I (pending_path I o1) p h" "under_lease I c (pending_path I o1) lease h"
  shows "safe (protocol I env o1 c lease) (\<lambda>_ _. True)
    (perform_work I env o1 c (pending_path I o1) p (execute_core (ixDeploy I) env o1)) h"
proof -
  let ?path = "pending_path I o1" and ?P = "protocol I env o1 c lease" and ?w = "execute_core (ixDeploy I) env o1"
  let ?p = "p\<lparr>pnDeployed := True\<rparr>"
  let ?ready = "ready_publication I env o1 ?path ?p (push_publication I c)"
  have publish: "safe ?P (\<lambda>_ _. True) (pbind ?ready (\<lambda>e. case e of
      Some e \<Rightarrow> Ret (Some (publication_pending e)) | None \<Rightarrow> remove_pending ?path)) h'"
    if "deployed_before I ?path ?w h'" for h'
    using that by (intro safe_step [OF ready_allowed])
      (auto split: option.split intro!: remove_allowed simp: settled_def dest!: ready_within)
  have "safe ?P (\<lambda>_ _. True) (then_do (save_pending I ?path ?p) (pbind ?ready (\<lambda>e. case e of
      Some e \<Rightarrow> Ret (Some (publication_pending e)) | None \<Rightarrow> remove_pending ?path))) h'"
    if "within ?w None h'" for h'
    using that by (intro then_do_safe save_allowed publish) (auto simp: deployed_before_def intro: later)
  then show ?thesis unfolding perform_work_def Let_def
    by (intro safe_step [OF core_allowed [OF assms(2)]])
      (auto split: option.split intro!: abandon_work_allowed intro: later assms(1))
qed

section \<open>The lease\<close>

lemma execs_lift: "execs (lift_calls f g p) t a \<Longrightarrow> \<exists>u. execs p u a"
proof (induction p arbitrary: t)
  case (Call q k)
  then show ?case by (auto simp: execs_Call) blast
qed auto

lemma execs_case_outcome:
  "execs (case_rc_outcome f g a) t b \<longleftrightarrow>
     (\<exists>x. a = RcDone x \<and> execs (f x) t b) \<or> (\<exists>x. a = RcRetry x \<and> execs (g x) t b)"
  by (cases a) auto

lemma execs_attempt: "execs (rc_attempt X c ch) t (RcDone (Inr r)) \<Longrightarrow> \<exists>body. rc_accepted X ch body = Inr r"
  by (auto simp: rc_attempt_def rc_send_def Let_def execs_Call execs_unfold split: if_splits
      elim!: rc_outcome_DoneE dest!: sym [of "RcDone (Inr r)"])

lemma execs_change_from:
  "execs (rc_change_from X c ch i n) t (Inr r) \<Longrightarrow> \<exists>body. rc_accepted X ch body = Inr r"
proof (induction n arbitrary: i t)
  case 0
  then obtain u a where "execs (rc_attempt X c ch) u a" "a = RcDone (Inr r)"
    unfolding rc_change_from.simps [of X c ch i 0] execs_pbind by (auto simp: execs_case_outcome)
  then show ?case using execs_attempt by blast
next
  case (Suc n)
  then obtain u a where "execs (rc_attempt X c ch) u a"
      "a = RcDone (Inr r) \<or> (\<exists>t. execs (rc_change_from X c ch (i + 1) n) t (Inr r))"
    unfolding rc_change_from.simps [of X c ch i "Suc n"] execs_pbind
    by (auto simp: execs_Call execs_case_outcome)
  then show ?case using execs_attempt Suc.IH by blast
qed

lemma begin_receipt:
  assumes "within (reg_run I c (begin_change token)) (Inr r) h"
  shows "granted I c r h"
proof -
  from assms obtain u body where "rc_accepted (dxReg (ixDeploy I)) (begin_change token) body = Inr r"
    unfolding reg_run_def rc_change_def within_def using execs_lift execs_change_from by metis
  then have "rpToken r = token"
    by (auto simp: rc_accepted_def begin_change_def the_change_def split: option.splits if_splits)
  with assms show ?thesis by (simp add: granted_def)
qed

lemma begin_allowed:
  "known I (pending_path I o1) p h \<Longrightarrow> change_allowed I o1 (pending_path I o1) (execute_core (ixDeploy I) env o1)
     (begin_change (rpToken (pnReceipt p))) h"
  unfolding change_allowed_def by blast

text \<open>What \<open>take_lease\<close> and \<open>acknowledged_lease\<close> hand on.\<close>

definition lease_taken :: "'c index_lib \<Rightarrow> rc_client \<Rightarrow> wf_err + pending \<Rightarrow> (dp_call \<times> dp_resp) list \<Rightarrow> bool" where
  "lease_taken I c x h \<longleftrightarrow> (\<forall>p. x = Inr p \<longrightarrow> granted I c (pnReceipt p) h \<and> \<not> pnDeployed p)"

lemma fresh_fields:
  "pnReceipt (fresh_pending c o1 token) = \<lparr>rpToken = token, rpRevision = 0\<rparr>"
  "rpToken (pnReceipt (fresh_pending c o1 token)) = token" "pnDeployed (fresh_pending c o1 token) = False"
  by (simp_all add: fresh_pending_def)

lemma take_lease_allowed:
  "safe (protocol I env o1 c lease) (lease_taken I c) (take_lease I o1 c (pending_path I o1) lost) h"
proof -
  let ?path = "pending_path I o1" and ?P = "protocol I env o1 c lease"
  have "safe ?P (lease_taken I c) (pbind (reg_run I c (begin_change (rpToken (pnReceipt p)))) (\<lambda>x. case x of
      Inl e \<Rightarrow> if e = RcConflict then pbind (remove_pending ?path) (\<lambda>_. Ret (Inl (rc_error e)))
        else Ret (Inl (lost (rc_error e)))
    | Inr receipt \<Rightarrow> Ret (Inr (p\<lparr>pnReceipt := receipt\<rparr>)))) h'"
    if k: "within (save_pending I ?path p) None h'" and p: "\<not> pnDeployed p" for h' p
  proof (rule safe_step [OF reg_run_allowed [OF begin_allowed]])
    from k show known: "known I ?path p h'" by (simp add: known_def)
    fix x h2
    assume w: "within (reg_run I c (begin_change (rpToken (pnReceipt p)))) x h2" and "\<exists>t. h2 = h' @ t"
    with known have "known I ?path p h2" by (auto intro: later)
    with w have "x = Inl RcConflict \<Longrightarrow> settled I c ?path h2" by (auto simp: settled_def)
    with w p show "safe ?P (lease_taken I c) (case x of
        Inl e \<Rightarrow> if e = RcConflict then pbind (remove_pending ?path) (\<lambda>_. Ret (Inl (rc_error e)))
          else Ret (Inl (lost (rc_error e)))
      | Inr receipt \<Rightarrow> Ret (Inr (p\<lparr>pnReceipt := receipt\<rparr>))) h2"
      by (auto split: sum.split intro!: safe_bindI [OF remove_allowed] intro: begin_receipt simp: lease_taken_def)
  qed
  note ask = this [of "fresh_pending c o1 token" for token, simplified fresh_fields]
  have "safe ?P (lease_taken I c) (pbind (save_pending I ?path (fresh_pending c o1 token)) (\<lambda>e. case e of
      Some e \<Rightarrow> Ret (Inl e)
    | None \<Rightarrow> pbind (reg_run I c (begin_change token)) (\<lambda>x. case x of
        Inl e \<Rightarrow> if e = RcConflict then pbind (remove_pending ?path) (\<lambda>_. Ret (Inl (rc_error e)))
          else Ret (Inl (lost (rc_error e)))
      | Inr receipt \<Rightarrow> Ret (Inr ((fresh_pending c o1 token)\<lparr>pnReceipt := receipt\<rparr>))))) h'" for token h'
  proof (rule safe_step [OF save_allowed])
    fix e h2
    assume "within (save_pending I ?path (fresh_pending c o1 token)) e h2"
    with ask [of token h2] show "safe ?P (lease_taken I c) (case e of
        Some e \<Rightarrow> Ret (Inl e)
      | None \<Rightarrow> pbind (reg_run I c (begin_change token)) (\<lambda>x. case x of
          Inl e \<Rightarrow> if e = RcConflict then pbind (remove_pending ?path) (\<lambda>_. Ret (Inl (rc_error e)))
            else Ret (Inl (lost (rc_error e)))
        | Inr receipt \<Rightarrow> Ret (Inr ((fresh_pending c o1 token)\<lparr>pnReceipt := receipt\<rparr>)))) h2"
      by (cases e) (auto simp: lease_taken_def)
  qed (simp add: fresh_fields)
  then show ?thesis unfolding take_lease_def Let_def
    by (auto simp: protocol_simps lease_taken_def split: option.split)
qed

lemma fresh_work_allowed:
  "safe (protocol I env o1 c lease) (\<lambda>_ _. True)
     (fresh_work I env o1 c (pending_path I o1) (execute_core (ixDeploy I) env o1)) h"
proof -
  have "safe (protocol I env o1 c lease) (\<lambda>_ _. True) (then_do (save_pending I (pending_path I o1) p)
      (perform_work I env o1 c (pending_path I o1) p (execute_core (ixDeploy I) env o1))) h'"
    if "granted I c (pnReceipt p) h'" "\<not> pnDeployed p" for p h'
  proof (rule then_do_safe [OF save_allowed])
    fix h2
    assume "within (save_pending I (pending_path I o1) p) None h2" "\<exists>t. h2 = h' @ t"
    then have "known I (pending_path I o1) p h2" "granted I c (pnReceipt p) h2"
      using that(1) by (auto simp: known_def intro: later)
    then show "safe (protocol I env o1 c lease) (\<lambda>_ _. True)
        (perform_work I env o1 c (pending_path I o1) p (execute_core (ixDeploy I) env o1)) h2"
      using that(2) by (intro perform_allowed) (auto simp: under_lease_def)
  qed (use that(2) in simp)
  then show ?thesis unfolding fresh_work_def
    by (intro safe_bindI [OF take_lease_allowed]) (auto simp: lease_taken_def split: sum.split)
qed

lemma acknowledged_allowed:
  assumes "read_pending I (pending_path I o1) p h"
  shows "safe (protocol I env o1 c lease) (\<lambda>x h'. \<forall>p'. x = Inr p' \<longrightarrow> known I (pending_path I o1) p' h')
    (acknowledged_lease I c (pending_path I o1) p) h"
proof -
  let ?path = "pending_path I o1" and ?P = "protocol I env o1 c lease"
  have "safe ?P (\<lambda>x h'. \<forall>p'. x = Inr p' \<longrightarrow> known I ?path p' h')
      (pbind (save_pending I ?path p') (\<lambda>e. Ret (case e of Some e \<Rightarrow> Inl e | None \<Rightarrow> Inr p'))) (h @ t)"
    if "pnDeployed p' = pnDeployed p" for p' t
    by (rule safe_step [OF save_allowed])
      (use that read_later [OF assms] in \<open>auto simp: deployed_before_def known_def split: option.splits\<close>)
  moreover have "known I ?path p h" using assms by (simp add: known_def)
  ultimately show ?thesis unfolding acknowledged_lease_def Let_def
    by (auto split: sum.split intro!: safe_step [OF reg_run_allowed [OF begin_allowed]])
qed

lemma release_allowed:
  assumes "read_pending I (pending_path I o1) p h"
  shows "safe (protocol I env o1 c lease) (\<lambda>_ _. True) (release_lease I o1 c (pending_path I o1) p) h"
proof -
  let ?path = "pending_path I o1" and ?P = "protocol I env o1 c lease"
  have give_up: "safe ?P (\<lambda>_ _. True) (then_do (reg_step I c (the_change ''abandon'' (pnReceipt p'))) (remove_pending ?path)) h'"
    if "known I ?path p' h'" "confirmed o1 h'" for p' h'
  proof (rule then_do_safe [OF reg_step_allowed [OF abandon_allowed]])
    show "known I ?path p' h'" by (rule that(1))
    show "(\<exists>e. within (execute_core (ixDeploy I) env o1) (Some e) h') \<or> confirmed o1 h'" using that(2) ..
    show "safe ?P (\<lambda>_ _. True) (remove_pending ?path) h2"
      if w: "within (reg_step I c (the_change ''abandon'' (pnReceipt p'))) None h2" and "\<exists>t. h2 = h' @ t" for h2
      using reg_step_within [OF w] that(2) known_later [OF \<open>known I ?path p' h'\<close>]
      by (intro remove_allowed) (auto simp: settled_def)
  qed
  have "safe ?P (\<lambda>_ _. True) (pbind (acknowledged_lease I c ?path p) (\<lambda>x. case x of
      Inl e \<Rightarrow> Ret (Some e)
    | Inr p \<Rightarrow> then_do (reg_step I c (the_change ''abandon'' (pnReceipt p))) (remove_pending ?path))) h'"
    if c: "confirmed o1 h'" and r: "read_pending I ?path p h'" for h'
  proof -
    have "safe (\<lambda>_ _. True) (\<lambda>_ h2. confirmed o1 h2) (acknowledged_lease I c ?path p) h'"
      by (rule safe_stable [of "confirmed o1"]) (use c in \<open>auto intro: later\<close>)
    from safe_conj [OF acknowledged_allowed [OF r] this]
    have "safe ?P (\<lambda>x h2. (\<forall>p'. x = Inr p' \<longrightarrow> known I ?path p' h2) \<and> confirmed o1 h2)
        (acknowledged_lease I c ?path p) h'" by (simp cong: conj_cong)
    then show ?thesis by (rule safe_bindI) (auto split: sum.split intro: give_up)
  qed
  note go = this
  have "confirmed o1 (h @ [(DInput release_label, r)])" if "d_input r = Inr (opStack o1)" for r
    using that by (auto simp: confirmed_def)
  from go [OF this read_later [OF assms]] show ?thesis unfolding release_lease_def
    by (auto simp: protocol_simps dp_text_def split: sum.split)
qed

lemma resume_publication_allowed:
  assumes "read_pending I (pending_path I o1) p h" "pnDeployed p"
  shows "safe (protocol I env o1 c lease) (\<lambda>_ _. True) (resume_publication I env o1 c (pending_path I o1) p) h"
proof -
  let ?path = "pending_path I o1"
  have k: "known I ?path p h" and d: "deployed_before I ?path (execute_core (ixDeploy I) env o1) h"
    using assms by (auto simp: known_def deployed_before_def)
  have "settled I c ?path (h @ t)" if "within (if pnReady p then push_publication I c p
      else ready_publication I env o1 ?path p (push_publication I c)) None (h @ t)" for t
    using that known_later [OF k] unfolding settled_def
    by (auto split: if_splits dest!: push_within ready_within)
  then show ?thesis unfolding resume_publication_def using k d assms(2)
    by (intro then_do_safe) (auto intro: push_allowed ready_allowed remove_allowed)
qed

lemma with_lease_safe: "safe P (\<lambda>_ _. True) p h \<Longrightarrow> safe P (\<lambda>_ _. True) (with_lease l p) h"
  unfolding with_lease_def by (rule safe_bindI) auto

lemma texts_allowed [simp]:
  "safe P (\<lambda>_ _. True) interrupted h" "safe P (\<lambda>_ _. True) foreign_receipt h" "safe P (\<lambda>_ _. True) nothing_pending h"
  by (simp_all add: interrupted_def foreign_receipt_def nothing_pending_def dp_text_def)

lemma resume_work_allowed:
  assumes "read_pending I (pending_path I o1) p h"
    and "work = None \<or> work = Some (execute_core (ixDeploy I) env o1)"
  shows "safe (protocol I env o1 c lease) (\<lambda>_ _. True) (resume_work I env o1 c (pending_path I o1) lease work p) h"
proof -
  have "known I (pending_path I o1) p h" using assms(1) by (simp add: known_def)
  then have "safe (protocol I env o1 c lease) (\<lambda>_ _. True)
      (perform_work I env o1 c (pending_path I o1) p (execute_core (ixDeploy I) env o1)) h"
    if "\<not> pnDeployed p" "map_option pnReceipt lease = Some (pnReceipt p)"
    using that by (intro perform_allowed) (auto simp: under_lease_def)
  moreover have "safe (protocol I env o1 c lease) (\<lambda>_ _. True) (then_do (resume_publication I env o1 c (pending_path I o1) p)
      (fresh_work I env o1 c (pending_path I o1) (execute_core (ixDeploy I) env o1))) h" if "pnDeployed p"
    by (intro then_do_safe resume_publication_allowed fresh_work_allowed assms(1) that)
  ultimately show ?thesis using assms unfolding resume_work_def
    by (auto intro!: with_lease_safe release_allowed resume_publication_allowed)
qed

lemma under_lock_allowed:
  assumes "work = None \<or> work = Some (execute_core (ixDeploy I) env o1)"
  shows "safe (protocol I env o1 c lease) (\<lambda>_ _. True) (under_lock I env o1 c lease work) h"
proof -
  have "read_pending I (pending_path I o1) p (h @ [(DFile (FRead (pending_path I o1)), r)])"
    if "f_err (d_file r) = None" "ixPending I (f_data (d_file r)) = Some p" for r p
    using that by (auto simp: read_pending_def)
  then show ?thesis using assms unfolding under_lock_def Let_def
    by (auto simp: protocol_simps intro!: with_lease_safe resume_work_allowed fresh_work_allowed
        split: option.split file_error.split)
qed

text \<open>C16: A deployment under the registry follows its protocol, whatever commands, files, the user and
  the registry answer: \<open>pulumi up\<close> runs only under a lease that the registry granted for the receipt
  on disk, and after the stack's requirements, the build and the preview succeeded; the registry is
  asked for a lease only with a token that is on disk, to give one up only after the work failed or
  the user confirmed it, and to publish only the configuration on disk of a receipt marked deployed
  and complete; a receipt is marked deployed only after the work succeeded; and it is removed only
  once the registry accepted its publication or release or said that the lease is another's.\<close>

theorem deployment_protocol:
  "safe (protocol I env o1 c lease) (\<lambda>_ _. True)
     (with_index_client I env o1 c lease (Some (execute_core (ixDeploy I) env o1))) [] \<and>
   safe (protocol I env o1 c lease) (\<lambda>_ _. True) (with_index_client I env o1 c lease None) []"
proof -
  have "lock_path (pending_path I o1) \<noteq> pending_path I o1" by (simp add: lock_path_def)
  then have "safe (protocol I env o1 c lease) (\<lambda>_ _. True) (with_index_client I env o1 c lease work) []"
    if "work = None \<or> work = Some (execute_core (ixDeploy I) env o1)" for work
    using that unfolding with_index_client_def locked_def
    by (auto simp: protocol_simps intro!: safe_bindI [OF under_lock_allowed])
  then show ?thesis by blast
qed

section \<open>What success means\<close>

definition published :: "'c index_lib \<Rightarrow> rc_client \<Rightarrow> string \<Rightarrow> (dp_call \<times> dp_resp) list \<Rightarrow> bool" where
  "published I c path h \<longleftrightarrow> (\<exists>p. known I path p h \<and> accepted I c (publish_change p) h)"

definition given_up :: "'c index_lib \<Rightarrow> rc_client \<Rightarrow> string \<Rightarrow> (dp_call \<times> dp_resp) list \<Rightarrow> bool" where
  "given_up I c path h \<longleftrightarrow> (\<exists>p. known I path p h \<and> accepted I c (the_change ''abandon'' (pnReceipt p)) h)"

definition finished :: "'c index_lib \<Rightarrow> options \<Rightarrow> rc_client \<Rightarrow> wf_err option dp_prog option \<Rightarrow> leased \<Rightarrow>
    (dp_call \<times> dp_resp) list \<Rightarrow> bool" where
  "finished I o1 c work x h \<longleftrightarrow> (fst x = None \<longrightarrow>
     (if opReleaseIndex o1 then given_up I c (pending_path I o1) h \<and> confirmed o1 h
      else published I c (pending_path I o1) h \<and> (case work of None \<Rightarrow> True | Some w \<Rightarrow> within w None h)))"

lemma within_dp_text [simp]: "\<not> within (dp_text e) None h"
  by (simp add: dp_text_def)

lemma within_case_sum:
  "within (case_sum f g a) x h \<longleftrightarrow>
     (\<exists>y. a = Inl y \<and> within (f y) x h) \<or> (\<exists>y. a = Inr y \<and> within (g y) x h)"
  by (cases a) auto

lemma within_with_lease: "within (with_lease l p) (e, l') h \<Longrightarrow> within p e h"
  unfolding with_lease_def by (auto elim: within_pbind)

lemma ready_published:
  "within (ready_publication I env o1 path p (push_publication I c)) None h \<Longrightarrow> published I c path h"
  unfolding published_def by (rule ready_within)

lemma perform_within:
  assumes "within (perform_work I env o1 c path p w) None h"
  shows "published I c path h \<and> within w None h"
proof -
  have "\<not> within (abandon_work I c path p e) None h" for e
    unfolding abandon_work_def by (auto elim!: within_pbind split: sum.splits)
  with assms have "within w None h \<and>
      within (ready_publication I env o1 path (p\<lparr>pnDeployed := True\<rparr>) (push_publication I c)) None h"
    unfolding perform_work_def Let_def by (auto elim!: within_pbind split: option.splits dest!: within_then)
  then show ?thesis using ready_published by blast
qed

lemma fresh_within: "within (fresh_work I env o1 c path w) None h \<Longrightarrow> published I c path h \<and> within w None h"
  unfolding fresh_work_def by (auto elim!: within_pbind split: sum.splits dest!: within_then perform_within)

lemma acknowledged_within:
  "known I path p h \<Longrightarrow> within (acknowledged_lease I c path p) (Inr p') h \<Longrightarrow> known I path p' h"
  by (auto simp: acknowledged_lease_def Let_def known_def elim!: within_pbind split: if_splits sum.splits option.splits)

lemma release_within:
  assumes "known I path p h" "within (release_lease I o1 c path p) None h"
  shows "given_up I c path h \<and> confirmed o1 h"
proof -
  from within_call [OF assms(2) [unfolded release_lease_def]] obtain r where
    "(DInput release_label, r) \<in> set h" "d_input r = Inr (opStack o1)"
    and w: "within (pbind (acknowledged_lease I c path p) (\<lambda>x. case x of Inl e \<Rightarrow> Ret (Some e)
      | Inr p \<Rightarrow> then_do (reg_step I c (the_change ''abandon'' (pnReceipt p))) (remove_pending path))) None h"
    by (auto simp: within_case_sum split: if_splits)
  moreover from w have "given_up I c path h"
    by (auto elim!: within_pbind split: sum.splits simp: given_up_def
        dest!: within_then reg_step_within acknowledged_within [OF assms(1)])
  ultimately show ?thesis by (auto simp: confirmed_def)
qed

lemma resume_within:
  assumes "read_pending I path p h" "within (resume_publication I env o1 c path p) None h"
  shows "published I c path h"
proof -
  have "published I c path h" if "within (push_publication I c p) None h"
    using push_within [OF that] assms(1) by (auto simp: published_def known_def)
  with assms(2) ready_published show ?thesis unfolding resume_publication_def
    by (auto dest!: within_then split: if_splits)
qed

lemma resume_work_within:
  assumes "read_pending I (pending_path I o1) p h" "within (resume_work I env o1 c (pending_path I o1) lease work p) x h"
  shows "finished I o1 c work x h"
proof -
  have "known I (pending_path I o1) p h" using assms(1) by (simp add: known_def)
  with assms show ?thesis
  by (cases x) (auto simp: finished_def resume_work_def interrupted_def split: if_splits option.splits
      dest!: within_with_lease within_then perform_within fresh_within dest: resume_within release_within)
qed

lemma under_lock_within:
  assumes "within (under_lock I env o1 c lease work) x h"
  shows "finished I o1 c work x h"
proof (cases x)
  case (Pair e l)
  from within_call [OF assms [unfolded under_lock_def Let_def]] obtain r where
    r: "(DFile (FRead (pending_path I o1)), r) \<in> set h"
    and w: "within (case f_err (d_file r) of
       None \<Rightarrow> (case ixPending I (f_data (d_file r)) of
         Some p \<Rightarrow> if pending_matches c o1 p then resume_work I env o1 c (pending_path I o1) lease work p
           else with_lease lease foreign_receipt
       | None \<Rightarrow> with_lease lease foreign_receipt)
     | Some FNotExist \<Rightarrow> with_lease lease (case work of
         Some w \<Rightarrow> if opReleaseIndex o1 then nothing_pending else fresh_work I env o1 c (pending_path I o1) w
       | None \<Rightarrow> nothing_pending)
     | Some e \<Rightarrow> Ret (Some (WFileError e), lease)) x h" by blast
  have other: "finished I o1 c work x h" if "within (with_lease lease p) x h"
      "\<And>h. within p None h \<Longrightarrow> finished I o1 c work (None, lease) h" for p
    using that unfolding Pair by (cases e) (auto simp: finished_def dest: within_with_lease)
  have none: "\<not> within foreign_receipt None h" "\<not> within nothing_pending None h" for h
    by (simp_all add: foreign_receipt_def nothing_pending_def)
  show ?thesis
  proof (cases "f_err (d_file r)")
    case None
    have "read_pending I (pending_path I o1) p h" if "ixPending I (f_data (d_file r)) = Some p" for p
      using r that None by (auto simp: read_pending_def)
    with None w none show ?thesis
      by (auto split: option.splits if_splits intro: other resume_work_within)
  next
    case (Some err)
    show ?thesis
    proof (cases err)
      case FNotExist
      have "finished I o1 c work (None, lease) h" if "within (case work of
          Some w \<Rightarrow> if opReleaseIndex o1 then nothing_pending else fresh_work I env o1 c (pending_path I o1) w
        | None \<Rightarrow> nothing_pending) None h" for h
        using that none by (auto simp: finished_def split: option.splits if_splits dest!: fresh_within)
      with Some FNotExist w show ?thesis by (auto intro: other)
    qed (use Some w in \<open>auto simp: finished_def\<close>)
  qed
qed

text \<open>C17: A deployment reports success only when it is finished: after a release the user confirmed it
  and the registry accepted it; otherwise the registry accepted the publication of the receipt on disk,
  and the work it was asked to do ran and succeeded.\<close>

theorem deployment_finished:
  "safe (\<lambda>_ _. True) (finished I o1 c work) (with_index_client I env o1 c lease work) []"
proof (rule safe_conseq [OF safe_execs [OF safe_true]])
  fix x h'
  assume "\<exists>t. h' = [] @ t \<and> execs (with_index_client I env o1 c lease work) t x"
  then have w: "within (with_index_client I env o1 c lease work) x h'"
    using within_here [of _ h' x "[]"] by auto
  show "finished I o1 c work x h'"
    using within_call [OF w [unfolded with_index_client_def locked_def]]
    by (auto split: if_splits elim!: within_pbind dest!: within_call under_lock_within simp: finished_def)
qed

end
