(* ===== verification/StackProps.thy ===== *)
theory StackProps
  imports Deploy
begin






















end
