(* ===== verification/Nuke.thy ===== *)
theory Nuke
  imports TeardownSteps Deploy
begin

text \<open>
  Removal of everything the tool has set up in an account, its core: the report and the step that
  every removal goes through (\<open>workflow/nuke_report.go\<close>, \<open>record\<close> and \<open>save\<close> of \<open>nuke.go\<close>), the check for
  running deployments (\<open>nuke_github.go\<close>) and the removal of the recovery data, the state buckets and
  their keys (\<open>nuke_recovery.go\<close>). The record \<open>nuke\<close> is the receipt with the error of its last failed
  save. The hooks of the tests are not modelled, so \<open>confirm\<close> is \<open>typedConfirmation\<close>.
\<close>

section \<open>Data\<close>

record nuke_target =
  ntBackend :: string
  ntRegion :: string
  ntProject :: string
  ntStack :: string
  ntEvidence :: progress
  ntRegions :: "string \<rightharpoonup> string"

record nuke_backend =
  nbBucket :: string
  nbRegion :: string

record nuke_key =
  nkID :: string
  nkRegion :: string

record nuke_result =
  nrName :: string
  nrStatus :: string
  nrDetail :: string

record nuke_receipt =
  ncRepository :: string
  ncAccount :: string
  ncUpdatedAt :: string
  ncTargets :: "nuke_target list"
  ncBackends :: "nuke_backend list"
  ncKeys :: "nuke_key list"
  ncResults :: "nuke_result list"
  ncEnvironments :: "string list"
  ncCheckedAt :: string
  ncCheckResults :: "nuke_result list"
  ncCheckScope :: string
  ncCheckedArtifacts :: "string list"

record nuke = nuke_receipt +
  nkPersist :: "wf_err option"

record key_meta =
  kmArn :: string
  kmManager :: string
  kmState :: string
  kmDate :: string \<comment> \<open>json.RawMessage\<close>
  kmType :: string
  kmReplicas :: nat

record backup =
  bkArn :: string
  bkType :: string
  bkTable :: string

record local_record =
  lrRepository :: string
  lrEnvironment :: string
  lrStack :: string
  lrBackend :: string
  lrRegion :: string

record nuke_lib =
  nlKeys :: "string \<Rightarrow> string list option" \<comment> \<open>the keys of versions, then of delete markers\<close>
  nlEncryption :: "string \<Rightarrow> string list option" \<comment> \<open>the key of each rule\<close>
  nlKey :: "string \<Rightarrow> key_meta option"
  nlEpoch :: "string \<Rightarrow> string option" \<comment> \<open>a positive JSON number as an RFC 3339 time\<close>
  nlRuns :: "string \<Rightarrow> string list option option" \<comment> \<open>the paths; nil\<close>
  nlBackups :: "string \<Rightarrow> backup list option option"
  nlBackupStatus :: "string \<Rightarrow> string option"
  nlLogGroups :: "string \<Rightarrow> string list option option"
  nlRoles :: "string \<Rightarrow> (string \<times> string) list option option" \<comment> \<open>RoleName, Arn; nil\<close>
  nlState :: "string \<Rightarrow> resource list option" \<comment> \<open>of an export that has its deployment and resources\<close>
  nlRecords :: "string \<Rightarrow> resource list option"
  nlProviders :: "string \<Rightarrow> resource list option"
  nlDkim :: "string \<Rightarrow> string list option"
  nlStateKey :: "string \<Rightarrow> (string \<times> string) option" \<comment> \<open>type and state of the secrets provider\<close>
  nlProviderURL :: "string \<Rightarrow> string option" \<comment> \<open>the member URL\<close>
  nlUnescape :: "string \<Rightarrow> string option" \<comment> \<open>url.PathUnescape\<close>
  nlRegion :: "string \<Rightarrow> string option" \<comment> \<open>url.ParseQuery, its region\<close>
  nlObjects :: "string \<Rightarrow> raw_object list option"
  nlObjectsJson :: "raw_object list \<Rightarrow> string"
  nlObjectJson :: "raw_object \<Rightarrow> string"
  nlReceipt :: "string \<Rightarrow> progress option"
  nlLocal :: "string \<Rightarrow> local_record option"
  nlBuckets :: "string \<Rightarrow> string list option option" \<comment> \<open>the names; nil\<close>
  nlLocation :: "string \<Rightarrow> string option option" \<comment> \<open>LocationConstraint; nil\<close>
  nlBase :: "string \<Rightarrow> string" \<comment> \<open>filepath.Base\<close>
  nlEnvironments :: "string \<Rightarrow> string list option option" \<comment> \<open>the names; nil\<close>

text \<open>What the workflow closes over; the fields of \<open>td_env\<close> it shares with a teardown are the library,
  the fuel, the root, the metadata, the Cloudflare client and the local records.\<close>

record nuke_env = td_env +
  nvLib :: nuke_lib
  nvDeploy :: dp_lib
  nvDir :: string \<comment> \<open>of the report\<close>
  nvGithub :: "github option"
  nvPassphrase :: string
  nvShared :: string
  nvBackendURL :: "string \<Rightarrow> string \<Rightarrow> string" \<comment> \<open>\<open>options.backendURL\<close>: backend, region\<close>
  nvJson :: "nuke_receipt \<Rightarrow> string"

section \<open>The report\<close>

definition nuke_result :: "string \<Rightarrow> string \<Rightarrow> string \<Rightarrow> nuke_result" where
  "nuke_result name status detail = \<lparr>nrName = name, nrStatus = status, nrDetail = detail\<rparr>"

fun flags_error :: "bool \<Rightarrow> bool \<Rightarrow> string list \<Rightarrow> string option" where
  "flags_error nuked teardown [] = None"
| "flags_error nuked teardown (name # names) =
    (if (name = ''check'' \<or> name = ''fast-check'') \<and> (\<not> nuked \<or> \<not> teardown)
     then Some (''-'' @ name @ '' requires -teardown -nuke'') else flags_error nuked teardown names)"

definition nuke_flags :: "string list" where
  "nuke_flags = [''nuke'', ''teardown'', ''repo-root'', ''check'', ''fast-check'']"

definition validate_flags :: "bool \<Rightarrow> bool \<Rightarrow> string list \<Rightarrow> string option" where
  "validate_flags nuked teardown supplied = (case flags_error nuked teardown supplied of
      Some e \<Rightarrow> Some e
    | None \<Rightarrow>
        if \<not> nuked then None
        else if \<not> teardown then Some ''-nuke requires -teardown''
        else map_option (\<lambda>name. ''-'' @ name @ '' cannot be combined with -teardown -nuke'')
          (find (\<lambda>name. name \<notin> set nuke_flags) supplied))"

definition good_status :: "string \<Rightarrow> bool" where
  "good_status s \<longleftrightarrow> s \<in> {''DELETED'', ''ABSENT'', ''SCHEDULED'', ''INFO''}"

definition nuke_successful :: "nuke_result list \<Rightarrow> bool" where
  "nuke_successful rs \<longleftrightarrow> list_all (\<lambda>r. good_status (nrStatus r)) rs"

definition nuke_save :: "nuke_env \<Rightarrow> nuke \<Rightarrow> (nuke \<times> wf_err option) wf_prog" where
  "nuke_save E n = Call WNow (\<lambda>r. let n = n\<lparr>ncUpdatedAt := w_now r\<rparr> in
     file_run (nuke_save_file (nvDir E) (ncAccount n) (nvJson E (nuke_receipt.truncate n))) (\<lambda>e. Ret (n, e)))"

definition nuke_record :: "nuke_env \<Rightarrow> nuke_result \<Rightarrow> nuke \<Rightarrow> nuke wf_prog" where
  "nuke_record E r n = pbind (nuke_save E (n\<lparr>ncResults := ncResults n @ [r]\<rparr>)) (\<lambda>(n, e). Ret (case e of
     None \<Rightarrow> n | Some e \<Rightarrow> n\<lparr>nkPersist := Some e\<rparr>))"

definition nuke_failure :: "nuke_env \<Rightarrow> string \<Rightarrow> wf_err \<Rightarrow> nuke \<Rightarrow> nuke wf_prog" where
  "nuke_failure E name e n = nuke_record E (nuke_result name ''FAILED'' (err_text e)) n"

text \<open>\<open>nukeStep\<close>: \<open>look\<close> says whether the thing exists, \<open>Some\<close> with what was seen of it, and \<open>remove\<close>
  removes what was seen.\<close>

definition after_error :: "string \<Rightarrow> wf_err \<Rightarrow> wf_err + 'm option \<Rightarrow> nuke_result" where
  "after_error name e x = (case x of
      Inr None \<Rightarrow> nuke_result name ''DELETED'' ''absence verified after delete''
    | _ \<Rightarrow> nuke_result name ''FAILED'' (err_text e))"

definition after_remove :: "string \<Rightarrow> wf_err + 'm option \<Rightarrow> nuke_result" where
  "after_remove name x = (case x of
      Inl e \<Rightarrow> nuke_result name ''UNVERIFIED'' (err_text e)
    | Inr (Some _) \<Rightarrow> nuke_result name ''REMAINS'' ''still present after delete; retry cleanup''
    | Inr None \<Rightarrow> nuke_result name ''DELETED'' ''absence verified after delete'')"

definition nuke_step :: "string \<Rightarrow> (wf_err + 'm option) wf_prog \<Rightarrow> ('m \<Rightarrow> wf_err option wf_prog) \<Rightarrow>
    nuke_result wf_prog" where
  "nuke_step name look remove = pbind look (\<lambda>x. case x of
     Inl e \<Rightarrow> Ret (nuke_result name ''FAILED'' (err_text e))
   | Inr None \<Rightarrow> Ret (nuke_result name ''ABSENT'' ''already absent; confirmed by read-back'')
   | Inr (Some m) \<Rightarrow> pbind (remove m) (\<lambda>e. pbind look (\<lambda>x. Ret (case e of
       Some e \<Rightarrow> after_error name e x | None \<Rightarrow> after_remove name x))))"

definition seen_if :: "bool \<Rightarrow> unit option" where
  "seen_if b = (if b then Some () else None)"

definition nuke_missing :: "string list \<Rightarrow> wf_err \<Rightarrow> bool" where
  "nuke_missing codes e = (case e of WAwsError operation code \<Rightarrow> code \<in> set codes | _ \<Rightarrow> False)"

section \<open>Running deployments\<close>

definition deploy_paths :: "string list" where
  "deploy_paths = [''.github/workflows/deploy.yml'', ''.github/workflows/deploy.yaml'']"

fun active_run :: "string list \<Rightarrow> string option" where
  "active_run [] = None"
| "active_run (path # paths) =
    (if path = [] then Some ''workflow run missing its path''
     else if takeWhile (\<lambda>c. c \<noteq> CHR ''@'') path \<in> set deploy_paths
     then Some ''deployment workflow has active or waiting runs; finish/cancel them before nuke teardown''
     else active_run paths)"

definition runs_path :: "string \<Rightarrow> nat \<Rightarrow> string \<Rightarrow> string" where
  "runs_path repo page status = ''/repos/'' @ repo @ ''/actions/runs?per_page=100&page='' @ show_nat page @
     ''&status='' @ status"

fun quiet_pages :: "nuke_lib \<Rightarrow> github \<Rightarrow> string \<Rightarrow> string \<Rightarrow> nat \<Rightarrow> nat \<Rightarrow> string option gh_prog" where
  "quiet_pages N g repo status page 0 = Spin"
| "quiet_pages N g repo status page (Suc n) = pbind (gh_request g ''GET'' (runs_path repo page status) []) (\<lambda>x.
     case gh_decode (nlRuns N) None x of
       Inl e \<Rightarrow> Ret (Some e)
     | Inr (Some (Some paths)) \<Rightarrow> (case active_run paths of
         Some e \<Rightarrow> Ret (Some e)
       | None \<Rightarrow> if length paths < 100 then Ret None else quiet_pages N g repo status (Suc page) n)
     | _ \<Rightarrow> Ret (Some ''cannot establish whether deployments are active''))"

fun quiet_statuses :: "nuke_lib \<Rightarrow> nat \<Rightarrow> github \<Rightarrow> string \<Rightarrow> string list \<Rightarrow> string option gh_prog" where
  "quiet_statuses N n g repo [] = Ret None"
| "quiet_statuses N n g repo (status # ss) = pbind (quiet_pages N g repo status 1 n) (\<lambda>e. case e of
     Some e \<Rightarrow> Ret (Some e) | None \<Rightarrow> quiet_statuses N n g repo ss)"

definition nuke_statuses :: "string list" where
  "nuke_statuses = [''queued'', ''in_progress'', ''waiting'', ''pending'', ''requested'']"

definition no_nuke_deployments :: "nuke_env \<Rightarrow> github \<Rightarrow> string \<Rightarrow> wf_err option wf_prog" where
  "no_nuke_deployments E g repo =
     github_run (quiet_statuses (nvLib E) (teFuel E) g repo nuke_statuses) (\<lambda>e. Ret (text_error e))"

section \<open>The recovery data\<close>

definition owner_args :: "string \<Rightarrow> string \<Rightarrow> string \<Rightarrow> string list" where
  "owner_args operation bucket account = [''s3api'', operation, ''--bucket'', bucket, ''--expected-bucket-owner'', account]"

definition gone_codes :: "string list" where "gone_codes = [''NoSuchBucket'', ''404'', ''NotFound'']"

definition app_project :: string where "app_project = ''attestra-auth-email''"
definition index_project :: string where "index_project = ''attestra-index''"

definition project_dir :: "nuke_env \<Rightarrow> string \<Rightarrow> string" where
  "project_dir E project = path_join (wlVault (teLib E))
     [teRoot E, if project = index_project then ''infra-index'' else ''infra'']"

definition nuke_runner :: "nuke_env \<Rightarrow> string \<Rightarrow> string \<Rightarrow> string \<Rightarrow> runner" where
  "nuke_runner E backend region project = \<lparr>rnBackend = nvBackendURL E backend region, rnRegion = region,
     rnPassphrase = (if project = index_project then nvShared E else nvPassphrase E)\<rparr>"

definition s3_url :: "string \<Rightarrow> string" where "s3_url bucket = ''s3://'' @ bucket"

definition stack_scope :: "nuke_env \<Rightarrow> wf_err + string \<Rightarrow> wf_err option" where
  "stack_scope E x = (case x of
      Inl e \<Rightarrow> Some e
    | Inr data \<Rightarrow> (case json_items (teLib E) data of
        Some (Some rows) \<Rightarrow> if rows \<noteq> []
          then Some (WText ''state bucket contains remaining or foreign-project stacks'') else None
      | _ \<Rightarrow> Some (WText ''invalid all-project stack listing'')))"

definition recovery_key :: "string \<Rightarrow> bool" where
  "recovery_key key \<longleftrightarrow>
     key \<in> {''.pulumi/meta.yaml'', ''meta.yaml'', ''bootstrap.lock'', ''bootstrap-ready.json'', ''teardown-pending.json''} \<or>
     (let parts = split_on (CHR ''/'') key in length parts \<ge> 4 \<and> parts ! 0 = ''.pulumi'' \<and>
        parts ! 1 \<in> {''stacks'', ''history'', ''backups'', ''locks''} \<and> parts ! 2 \<in> {app_project, index_project})"

definition recovery_scope :: "string list \<Rightarrow> wf_err option" where
  "recovery_scope keys = (if list_all recovery_key keys then None else Some (WText
     ''bucket contains unrecognized or foreign-project recovery objects; retained for manual review''))"

definition encryption_keys :: "nuke_env \<Rightarrow> nuke_backend \<Rightarrow> aws_answer \<Rightarrow> (string \<times> wf_err) + nuke_key list" where
  "encryption_keys E b x = (case aws_decode (nlEncryption (nvLib E)) x of
      Inl e \<Rightarrow> if nuke_missing [''ServerSideEncryptionConfigurationNotFoundError''] e then Inr []
        else Inl (''Recovery encryption '' @ nbBucket b, e)
    | Inr y \<Rightarrow> (let ids = (case y of None \<Rightarrow> [] | Some l \<Rightarrow> l) in
        if ids = [] then Inl (''Recovery encryption '' @ nbBucket b, WText
          ''incomplete bucket encryption response; key inventory cannot be certified'')
        else Inr (map (\<lambda>i. \<lparr>nkID = i, nkRegion = nbRegion b\<rparr>) (filter (\<lambda>i. i \<noteq> []) ids))))"

definition object_keys :: "nuke_env \<Rightarrow> aws_answer \<Rightarrow> wf_err + string list" where
  "object_keys E x = (case aws_decode (nlKeys (nvLib E)) x of
      Inl e \<Rightarrow> Inl e | Inr None \<Rightarrow> Inr [] | Inr (Some ks) \<Rightarrow> Inr ks)"

definition all_stacks :: "string list" where
  "all_stacks = [''pulumi'', ''stack'', ''ls'', ''--all'', ''--json'', ''--non-interactive'']"

text \<open>The preflight of a state bucket: the name and the error of a failure, or its keys.\<close>

definition bucket_scope :: "nuke_env \<Rightarrow> string \<Rightarrow> nuke_backend \<Rightarrow> ((string \<times> wf_err) + nuke_key list) wf_prog" where
  "bucket_scope E account b = (let W = teLib E; bucket = nbBucket b; region = nbRegion b in
     aws W region (owner_args ''head-bucket'' bucket account) (\<lambda>x. case aws_found x of
       Inl e \<Rightarrow> Ret (if nuke_missing gone_codes e then Inr [] else Inl (''Recovery preflight '' @ bucket, e))
     | Inr _ \<Rightarrow> exec (nuke_runner E (s3_url bucket) region app_project) (project_dir E app_project) all_stacks (\<lambda>x.
         case stack_scope E x of
           Some e \<Rightarrow> Ret (Inl (''Recovery scope '' @ bucket, e))
         | None \<Rightarrow> aws W region (owner_args ''list-object-versions'' bucket account) (\<lambda>x. case object_keys E x of
             Inl e \<Rightarrow> Ret (Inl (''Recovery object inventory '' @ bucket, e))
           | Inr keys \<Rightarrow> (case recovery_scope keys of
               Some e \<Rightarrow> Ret (Inl (''Recovery scope '' @ bucket, e))
             | None \<Rightarrow> aws W region (owner_args ''get-bucket-encryption'' bucket account) (\<lambda>x.
                 Ret (encryption_keys E b x)))))))"

fun add_new :: "'a list \<Rightarrow> 'a list \<Rightarrow> 'a list" where
  "add_new [] known = known"
| "add_new (x # xs) known = add_new xs (if x \<in> set known then known else known @ [x])"

definition scope_bucket :: "nuke_env \<Rightarrow> nuke_backend \<Rightarrow> nuke \<Rightarrow> nuke wf_prog" where
  "scope_bucket E b n = pbind (bucket_scope E (ncAccount n) b) (\<lambda>x. case x of
     Inl (name, e) \<Rightarrow> nuke_failure E name e n
   | Inr keys \<Rightarrow> Ret (n\<lparr>ncKeys := add_new keys (ncKeys n)\<rparr>))"

fun scope_buckets :: "nuke_env \<Rightarrow> nuke_backend list \<Rightarrow> nuke \<Rightarrow> nuke wf_prog" where
  "scope_buckets E [] n = Ret n"
| "scope_buckets E (b # bs) n = pbind (scope_bucket E b n) (scope_buckets E bs)"

section \<open>Keys\<close>

definition describe_key :: "nuke_env \<Rightarrow> string \<Rightarrow> string \<Rightarrow> (wf_err + key_meta option) wf_prog" where
  "describe_key E region ident = aws (teLib E) region [''kms'', ''describe-key'', ''--key-id'', ident] (\<lambda>x.
     Ret (case aws_decode (nlKey (nvLib E)) x of
       Inl e \<Rightarrow> if nuke_missing [''NotFoundException''] e then Inr None else Inl e
     | Inr None \<Rightarrow> Inl (WText ''incomplete KMS key metadata'')
     | Inr (Some m) \<Rightarrow> if kmArn m = [] then Inl (WText ''incomplete KMS key metadata'') else Inr (Some m)))"

definition deletion_date :: "nuke_env \<Rightarrow> string \<Rightarrow> string" where
  "deletion_date E raw = (case json_string (teLib E) raw of
      Some (c # s) \<Rightarrow> c # s
    | _ \<Rightarrow> (case nlEpoch (nvLib E) raw of
        Some s \<Rightarrow> s | None \<Rightarrow> ''not returned by AWS; inspect PendingDeletion metadata''))"

datatype key_check =
    KeyFailed string wf_err
  | KeyNoted nuke_result
  | KeyMine nuke_key

definition kms :: "string \<Rightarrow> string" where "kms ident = ''KMS '' @ ident"

definition key_arn_prefix :: "string \<Rightarrow> string \<Rightarrow> string" where
  "key_arn_prefix region account = ''arn:aws:kms:'' @ region @ '':'' @ account @ '':key/''"

definition key_verdict :: "nuke_env \<Rightarrow> string \<Rightarrow> nuke_key \<Rightarrow> key_meta \<Rightarrow> key_check" where
  "key_verdict E account key m =
    (if kmManager m = ''AWS''
     then KeyNoted (nuke_result (kms (nkID key)) ''INFO'' ''AWS-managed key; AWS owns its lifecycle'')
     else if kmManager m \<noteq> ''CUSTOMER'' \<or> \<not> has_prefix (kmArn m) (key_arn_prefix (nkRegion key) account)
     then KeyFailed (''KMS preflight '' @ nkID key) (WText ''cannot establish customer key identity in this account'')
     else if kmState m = ''PendingDeletion''
     then KeyNoted (nuke_result (kms (kmArn m)) ''SCHEDULED''
       (''already pending deletion; AWS deletion date '' @ deletion_date E (kmDate m)))
     else if kmState m \<notin> {''Enabled'', ''Disabled'', ''PendingImport''}
     then KeyFailed (''KMS preflight '' @ kmArn m) (WText
       ''key is not eligible for scheduling deletion; inspect its state and multi-region replicas'')
     else if kmType m = ''PRIMARY'' \<and> kmReplicas m > 0
     then KeyFailed (''KMS preflight '' @ kmArn m) (WText
       ''multi-region primary still has replicas; recovery artifacts retained'')
     else KeyMine (key\<lparr>nkID := kmArn m\<rparr>))"

definition key_label :: string where
  "key_label = ''Confirm this KMS key is exclusive to this project; shared keys must be retained''"

definition confirm_key :: "key_check \<Rightarrow> key_check wf_prog" where
  "confirm_key x = (case x of
      KeyMine key \<Rightarrow> typed_confirmation key_label (''delete key '' @ nkID key) (\<lambda>e. Ret (case e of
        Some e \<Rightarrow> KeyFailed (''KMS ownership '' @ nkID key) e | None \<Rightarrow> KeyMine key))
    | _ \<Rightarrow> Ret x)"

definition key_preflight :: "nuke_env \<Rightarrow> string \<Rightarrow> nuke_key \<Rightarrow> key_check wf_prog" where
  "key_preflight E account key = pbind (describe_key E (nkRegion key) (nkID key)) (\<lambda>x. case x of
     Inl e \<Rightarrow> Ret (KeyFailed (''KMS preflight '' @ nkID key) e)
   | Inr None \<Rightarrow> Ret (KeyNoted (nuke_result (kms (nkID key)) ''ABSENT'' ''key already absent''))
   | Inr (Some m) \<Rightarrow> confirm_key (key_verdict E account key m))"

text \<open>The customer keys that may go, after \<open>mine\<close>.\<close>

fun preflight_keys :: "nuke_env \<Rightarrow> nuke_key list \<Rightarrow> nuke_key list \<Rightarrow> nuke \<Rightarrow> (nuke \<times> nuke_key list) wf_prog" where
  "preflight_keys E [] mine n = Ret (n, mine)"
| "preflight_keys E (key # keys) mine n = pbind (key_preflight E (ncAccount n) key) (\<lambda>x. case x of
     KeyFailed name e \<Rightarrow> pbind (nuke_failure E name e n) (preflight_keys E keys mine)
   | KeyNoted r \<Rightarrow> pbind (nuke_record E r n) (preflight_keys E keys mine)
   | KeyMine key \<Rightarrow> preflight_keys E keys (add_new [key] mine) n)"

definition bucket_look :: "nuke_env \<Rightarrow> string \<Rightarrow> nuke_backend \<Rightarrow> (wf_err + unit option) wf_prog" where
  "bucket_look E account b = aws (teLib E) (nbRegion b) (owner_args ''head-bucket'' (nbBucket b) account) (\<lambda>x.
     Ret (case aws_found x of
       Inl e \<Rightarrow> if nuke_missing gone_codes e then Inr None else Inl e
     | Inr found \<Rightarrow> Inr (seen_if found)))"

definition bucket_remove :: "nuke_env \<Rightarrow> string \<Rightarrow> nuke_backend \<Rightarrow> wf_err option wf_prog" where
  "bucket_remove E account b = pbind (purge_evidence (teFuel E) (teLib E) (teBackendHost E) (nbRegion b) (nbBucket b)
       account ''s3://attestra-nuke-no-live-backend'') (\<lambda>e. case e of
     Some e \<Rightarrow> Ret (Some e)
   | None \<Rightarrow> aws (teLib E) (nbRegion b) (owner_args ''delete-bucket'' (nbBucket b) account) (\<lambda>x.
       Ret (aws_error (aws_found x))))"

definition bucket_step :: "nuke_env \<Rightarrow> string \<Rightarrow> nuke_backend \<Rightarrow> nuke_result wf_prog" where
  "bucket_step E account b = nuke_step (''State bucket '' @ nbBucket b) (bucket_look E account b)
     (\<lambda>_. bucket_remove E account b)"

definition halted :: "nuke \<Rightarrow> bool" where
  "halted n \<longleftrightarrow> \<not> nuke_successful (ncResults n) \<or> nkPersist n \<noteq> None"

text \<open>Whether every bucket is gone.\<close>

fun delete_buckets :: "nuke_env \<Rightarrow> nuke_backend list \<Rightarrow> nuke \<Rightarrow> (nuke \<times> bool) wf_prog" where
  "delete_buckets E [] n = Ret (n, True)"
| "delete_buckets E (b # bs) n = pbind (bucket_step E (ncAccount n) b) (\<lambda>r. pbind (nuke_record E r n) (\<lambda>n.
     if halted n then Ret (n, False) else delete_buckets E bs n))"

definition schedule_args :: "string \<Rightarrow> string list" where
  "schedule_args ident = [''kms'', ''schedule-key-deletion'', ''--key-id'', ident, ''--pending-window-in-days'', ''7'']"

definition schedule_key :: "nuke_env \<Rightarrow> nuke_key \<Rightarrow> nuke_result wf_prog" where
  "schedule_key E key = aws (teLib E) (nkRegion key) (schedule_args (nkID key)) (\<lambda>x. case aws_found x of
     Inl e \<Rightarrow> Ret (nuke_result (kms (nkID key)) ''FAILED'' (err_text e))
   | Inr _ \<Rightarrow> pbind (describe_key E (nkRegion key) (nkID key)) (\<lambda>x. Ret (case x of
       Inl e \<Rightarrow> nuke_result (''KMS deletion verification '' @ nkID key) ''FAILED'' (err_text e)
     | Inr None \<Rightarrow> nuke_result (kms (nkID key)) ''ABSENT'' ''key absence verified''
     | Inr (Some m) \<Rightarrow>
         if kmState m \<noteq> ''PendingDeletion''
         then nuke_result (kms (nkID key)) ''UNVERIFIED''
           ''key not in PendingDeletion; inspect multi-region replicas or AWS permissions''
         else nuke_result (kms (nkID key)) ''SCHEDULED''
           (''AWS deletion scheduled, 7-day waiting period; deletion date '' @ deletion_date E (kmDate m)))))"

fun schedule_keys :: "nuke_env \<Rightarrow> nuke_key list \<Rightarrow> nuke \<Rightarrow> nuke wf_prog" where
  "schedule_keys E [] n = Ret n"
| "schedule_keys E (key # keys) n = pbind (schedule_key E key) (\<lambda>r. pbind (nuke_record E r n) (schedule_keys E keys))"

definition delete_recovery :: "nuke_env \<Rightarrow> nuke_key list \<Rightarrow> nuke \<Rightarrow> nuke wf_prog" where
  "delete_recovery E mine n = pbind (nuke_save E n) (\<lambda>(n, e). case e of
     Some e \<Rightarrow> Ret (n\<lparr>nkPersist := Some e\<rparr>)
   | None \<Rightarrow> pbind (delete_buckets E (ncBackends n) n) (\<lambda>(n, gone).
       if gone then schedule_keys E mine n else Ret n))"

definition cleanup_recovery :: "nuke_env \<Rightarrow> nuke \<Rightarrow> nuke wf_prog" where
  "cleanup_recovery E n =
    (if halted n then Ret n else
     pbind (scope_buckets E (ncBackends n) n) (\<lambda>n. if \<not> nuke_successful (ncResults n) then Ret n else
     pbind (preflight_keys E (ncKeys n) [] n) (\<lambda>(n, mine). if \<not> nuke_successful (ncResults n) then Ret n else
     delete_recovery E mine n)))"

section \<open>What was retained\<close>

definition retained_bucket :: "nuke_env \<Rightarrow> string \<Rightarrow> nuke_backend \<Rightarrow> nuke_result wf_prog" where
  "retained_bucket E account b = aws (teLib E) (nbRegion b) (owner_args ''head-bucket'' (nbBucket b) account) (\<lambda>x.
     let name = ''State bucket '' @ nbBucket b in Ret (case aws_found x of
       Inl e \<Rightarrow> if nuke_missing gone_codes e then nuke_result name ''ABSENT'' ''bucket absence verified''
         else nuke_result name ''UNVERIFIED'' (err_text e)
     | Inr _ \<Rightarrow> nuke_result name ''RETAINED''
         ''not deleted: earlier cleanup or recovery preflight was unsuccessful''))"

definition retained_key :: "nuke_env \<Rightarrow> nuke_key \<Rightarrow> nuke_result wf_prog" where
  "retained_key E key = pbind (describe_key E (nkRegion key) (nkID key)) (\<lambda>x. Ret (case x of
     Inl e \<Rightarrow> nuke_result (kms (nkID key)) ''UNVERIFIED'' (err_text e)
   | Inr None \<Rightarrow> nuke_result (kms (nkID key)) ''ABSENT'' ''key absence verified''
   | Inr (Some m) \<Rightarrow>
       if kmState m = ''PendingDeletion''
       then nuke_result (kms (nkID key)) ''SCHEDULED'' (''AWS deletion date '' @ deletion_date E (kmDate m))
       else if kmManager m = ''AWS''
       then nuke_result (kms (nkID key)) ''INFO'' ''AWS-managed key; AWS owns its lifecycle''
       else nuke_result (kms (nkID key)) ''RETAINED''
         ''not scheduled: earlier cleanup or recovery preflight was unsuccessful''))"

fun record_all :: "nuke_env \<Rightarrow> nuke_result wf_prog list \<Rightarrow> nuke \<Rightarrow> nuke wf_prog" where
  "record_all E [] n = Ret n"
| "record_all E (p # ps) n = pbind p (\<lambda>r. pbind (nuke_record E r n) (record_all E ps))"

definition report_retained :: "nuke_env \<Rightarrow> nuke \<Rightarrow> nuke wf_prog" where
  "report_retained E n = record_all E (map (retained_bucket E (ncAccount n)) (ncBackends n) @
     map (retained_key E) (ncKeys n)) n"

end
