(* ===== verification/TeardownEvidence.thy ===== *)
theory TeardownEvidence
  imports Teardown
begin

text \<open>
  What a teardown notes of a stack before it destroys it: the DNS records that the environment
  needs outside the stack, and the evidence bucket (\<open>captureTeardownEvidence\<close> of
  \<open>workflow/teardown.go\<close>). A member that does not decode leaves the variable it was to replace as it
  was. \<open>tokens\<close> is the list that a present \<open>dkimTokens\<close> decodes to, \<open>None\<close> when it leaves the slice.
\<close>

definition kept_string :: "wf_lib \<Rightarrow> string \<Rightarrow> raw_object \<Rightarrow> string \<Rightarrow> string" where
  "kept_string W old out key = (case present out key of
      None \<Rightarrow> old
    | Some raw \<Rightarrow> (case json_string W raw of None \<Rightarrow> old | Some s \<Rightarrow> s))"

definition want_record :: "string \<Rightarrow> string \<Rightarrow> string \<Rightarrow> dns_record" where
  "want_record kind name content = \<lparr>drID = [], drType = kind, drName = name, drContent = content, drTTL = 0,
     drProxied = False\<rparr>"

definition add_desired :: "dns_record list \<Rightarrow> progress \<Rightarrow> progress" where
  "add_desired rs p = p\<lparr>tpDesired := tpDesired p @ rs\<rparr>"

record evidence =
  evProgress :: progress
  evToken :: string
  evDkim :: "string list"
  evRoute53 :: bool

definition note_progress :: "evidence \<Rightarrow> progress \<Rightarrow> evidence" where
  "note_progress s p = s\<lparr>evProgress := p\<rparr>"

definition note_sender :: "wf_lib \<Rightarrow> raw_object \<Rightarrow> evidence \<Rightarrow> evidence" where
  "note_sender W out s = s\<lparr>evProgress := (evProgress s)\<lparr>tpDomain := kept_string W (tpDomain (evProgress s)) out ''domain''\<rparr>,
     evToken := kept_string W (evToken s) out ''verificationToken''\<rparr>"

definition note_dkim :: "(string \<Rightarrow> string list option) \<Rightarrow> raw_object \<Rightarrow> evidence \<Rightarrow> evidence" where
  "note_dkim tokens out s = (case map_of out ''dkimTokens'' of
      None \<Rightarrow> s
    | Some raw \<Rightarrow> (case tokens raw of None \<Rightarrow> s | Some ts \<Rightarrow> s\<lparr>evDkim := ts\<rparr>))"

definition certificate_records :: "dns_option list \<Rightarrow> dns_record list" where
  "certificate_records opts = map (\<lambda>d. want_record ''CNAME'' (trim_suffix (doName d) ''.'') (doValue d))
     (filter (\<lambda>d. doName d \<noteq> [] \<and> doType d = ''CNAME'') opts)"

definition note_certificate :: "wf_lib \<Rightarrow> raw_object \<Rightarrow> evidence \<Rightarrow> evidence \<times> wf_err option" where
  "note_certificate W out s = (case Option.bind (map_of out ''domainValidationOptions'') (parse_dns_options W) of
      None \<Rightarrow> (s, Some (WText ''cannot capture API certificate DNS evidence''))
    | Some opts \<Rightarrow> (note_progress s (add_desired (certificate_records opts) (evProgress s)), None))"

definition note_domain :: "wf_lib \<Rightarrow> raw_object \<Rightarrow> evidence \<Rightarrow> evidence \<times> wf_err option" where
  "note_domain W out s =
    (case (Option.bind (map_of out ''domainName'') (json_string W),
           Option.bind (map_of out ''domainNameConfiguration'') (parse_target W)) of
       (Some name, Some target) \<Rightarrow>
         if name = [] \<or> target = [] then (s, Some (WText ''cannot capture API domain DNS evidence''))
         else (note_progress s (add_desired [want_record ''CNAME'' name target] (evProgress s)), None)
     | _ \<Rightarrow> (s, Some (WText ''cannot capture API domain DNS evidence'')))"

definition note_hosting :: "wf_lib \<Rightarrow> raw_object \<Rightarrow> evidence \<Rightarrow> evidence \<times> wf_err option" where
  "note_hosting W out s =
    (case (Option.bind (map_of out ''aliases'') (json_strings W),
           Option.bind (map_of out ''domainName'') (json_string W)) of
       (Some names, Some target) \<Rightarrow>
         if target = [] then (s, Some (WText ''cannot capture app hosting DNS evidence''))
         else (note_progress s (add_desired (map (\<lambda>name. want_record ''CNAME'' name target) names) (evProgress s)), None)
     | _ \<Rightarrow> (s, Some (WText ''cannot capture app hosting DNS evidence'')))"

definition certificate_urn :: "string \<Rightarrow> bool" where
  "certificate_urn urn \<longleftrightarrow> has_suffix urn ''::api-certificate'' \<or> has_suffix urn ''::app-certificate''"

definition note_resource :: "wf_lib \<Rightarrow> (string \<Rightarrow> string list option) \<Rightarrow> resource \<Rightarrow> evidence \<Rightarrow>
    evidence \<times> wf_err option" where
  "note_resource W tokens r s =
    (let kind = rsType r; urn = rsURN r; out = rsOutputs r in
     if kind = ''aws:ses/domainIdentity:DomainIdentity''
     then (if has_suffix urn ''::email-sender'' then note_sender W out s else s, None)
     else if kind = ''aws:ses/domainDkim:DomainDkim''
     then (if has_suffix urn ''::email-sender-dkim'' then note_dkim tokens out s else s, None)
     else if kind = ''aws:route53/record:Record''
     then (if has_suffix urn ''::ses-verify'' then s\<lparr>evRoute53 := True\<rparr> else s, None)
     else if kind = ''aws:acm/certificate:Certificate''
     then (if certificate_urn urn then note_certificate W out s else (s, None))
     else if kind = ''aws:apigatewayv2/domainName:DomainName''
     then (if has_suffix urn ''::api-domain'' then note_domain W out s else (s, None))
     else if kind = ''aws:cloudfront/distribution:Distribution''
     then (if has_suffix urn ''::app-associations-cdn'' then note_hosting W out s else (s, None))
     else if kind = ''aws:s3/bucketV2:BucketV2'' \<and> has_suffix urn ''::id-evidence''
     then (note_progress s ((evProgress s)\<lparr>tpBucket := rsID r\<rparr>), None)
     else (s, None))"

fun note_resources :: "wf_lib \<Rightarrow> (string \<Rightarrow> string list option) \<Rightarrow> resource list \<Rightarrow> evidence \<Rightarrow>
    evidence \<times> wf_err option" where
  "note_resources W tokens [] s = (s, None)"
| "note_resources W tokens (r # rs) s = (case note_resource W tokens r s of
     (s, Some e) \<Rightarrow> (s, Some e) | (s, None) \<Rightarrow> note_resources W tokens rs s)"

definition sender_records :: "evidence \<Rightarrow> dns_record list" where
  "sender_records s = (let domain = tpDomain (evProgress s) in if domain = [] then [] else
     (if evToken s = [] then [] else [want_record ''TXT'' (''_amazonses.'' @ domain) (evToken s)]) @
     map (\<lambda>t. want_record ''CNAME'' (t @ ''._domainkey.'' @ domain) (t @ ''.dkim.amazonses.com'')) (evDkim s))"

definition evidence_of :: "evidence \<Rightarrow> progress" where
  "evidence_of s = (if evRoute53 s then (evProgress s)\<lparr>tpDNSDone := True\<rparr>
     else add_desired (sender_records s) (evProgress s))"

text \<open>The progress as it is left, and the error.\<close>

definition capture_evidence :: "wf_lib \<Rightarrow> (string \<Rightarrow> string list option) \<Rightarrow> string \<Rightarrow> progress \<Rightarrow>
    progress \<times> wf_err option" where
  "capture_evidence W tokens data p = (case capture_inventory W data p of
      Inl e \<Rightarrow> (p, Some e)
    | Inr p \<Rightarrow> (let p = p\<lparr>tpCaptured := True\<rparr> in case parse_evidence W data of
        Some (Some rs) \<Rightarrow>
          (case note_resources W tokens rs \<lparr>evProgress = p, evToken = [], evDkim = [], evRoute53 = False\<rparr> of
             (s, Some e) \<Rightarrow> (evProgress s, Some e)
           | (s, None) \<Rightarrow> (evidence_of s, None))
      | _ \<Rightarrow> (p, Some (WText ''invalid stack export''))))"

end
