(* ===== verification/NukeTarget.thy ===== *)
theory NukeTarget
  imports Nuke TeardownEvidence
begin

text \<open>
  The destruction of one stack and of what it leaves behind: \<open>workflow/nuke_target.go\<close>,
  \<open>nuke_backups.go\<close> and \<open>validateNukeState\<close> of \<open>nuke_discovery.go\<close>. The target is the \<open>i\<close>-th of the
  receipt, since a saved receipt shows what was noted of it.
\<close>

definition bullet :: string where
  "bullet = [CHR '' '', CHR 0xE2, CHR 0x80, CHR 0xA2, CHR '' '']"

definition target_name :: "nuke_target \<Rightarrow> string" where
  "target_name t = ntProject t @ ''/'' @ ntStack t @ bullet @ ntBackend t"

definition probe_region :: "nuke_target \<Rightarrow> probe \<Rightarrow> string" where
  "probe_region t p = (if map_value (ntRegions t) (pbName p) \<noteq> [] then map_value (ntRegions t) (pbName p)
     else ntRegion t)"

definition change_target :: "nat \<Rightarrow> (nuke_target \<Rightarrow> nuke_target) \<Rightarrow> nuke \<Rightarrow> nuke" where
  "change_target i f n = n\<lparr>ncTargets := (ncTargets n)[i := f (ncTargets n ! i)]\<rparr>"

definition change_evidence :: "nat \<Rightarrow> (progress \<Rightarrow> progress) \<Rightarrow> nuke \<Rightarrow> nuke" where
  "change_evidence i f = change_target i (\<lambda>t. t\<lparr>ntEvidence := f (ntEvidence t)\<rparr>)"

definition note_failure :: "nuke_env \<Rightarrow> string \<Rightarrow> wf_err option \<Rightarrow> nuke \<Rightarrow> nuke wf_prog" where
  "note_failure E name e n = (case e of None \<Rightarrow> Ret n | Some e \<Rightarrow> nuke_failure E name e n)"

text \<open>An error that the final verification decides about is only noted.\<close>

definition note_info :: "nuke_env \<Rightarrow> string \<Rightarrow> string \<Rightarrow> wf_err option \<Rightarrow> nuke \<Rightarrow> nuke wf_prog" where
  "note_info E name tail e n = (case e of None \<Rightarrow> Ret n
     | Some e \<Rightarrow> nuke_record E (nuke_result name ''INFO'' (err_text e @ tail)) n)"

section \<open>Ownership of a state\<close>

definition provider_overrides :: "string list" where
  "provider_overrides = [''assumeRole'', ''assumeRoles'', ''assumeRoleWithWebIdentity'', ''endpoints'', ''profile'',
     ''accessKey'', ''secretKey'', ''token'']"

definition override_set :: "raw_object \<Rightarrow> string \<Rightarrow> bool" where
  "override_set inputs key = (case map_of inputs key of None \<Rightarrow> False
     | Some raw \<Rightarrow> raw \<notin> {[], ''null'', [CHR 0x22, CHR 0x22], ''[]''})"

text \<open>\<open>strings.SplitN(id, ":", 6)\<close> has six parts when there are five colons; the fifth is the account.\<close>

definition foreign_account :: "string \<Rightarrow> string \<Rightarrow> bool" where
  "foreign_account account i = (has_prefix i ''arn:'' \<and> (let parts = split_on (CHR '':'') i in
     length parts < 6 \<or> (parts ! 4 \<noteq> [] \<and> parts ! 4 \<noteq> account)))"

definition state_error :: "string \<Rightarrow> string \<Rightarrow> string \<Rightarrow> resource \<Rightarrow> string option" where
  "state_error project stack account r =
    (if \<not> has_prefix (rsURN r) (''urn:pulumi:'' @ stack @ ''::'' @ project @ ''::'')
     then Some ''resource belongs to a different stack/project''
     else if foreign_account account (rsID r) then Some ''resource belongs to a different AWS account''
     else if rsType r = ''pulumi:providers:aws''
     then map_option (\<lambda>key. ''AWS provider override '' @ key @ '' requires manual review'')
       (find (override_set (rsInputs r)) provider_overrides)
     else None)"

fun first_error :: "('a \<Rightarrow> string option) \<Rightarrow> 'a list \<Rightarrow> string option" where
  "first_error f [] = None"
| "first_error f (x # xs) = (case f x of Some e \<Rightarrow> Some e | None \<Rightarrow> first_error f xs)"

definition validate_state :: "nuke_env \<Rightarrow> string \<Rightarrow> nuke_target \<Rightarrow> string \<Rightarrow> wf_err option" where
  "validate_state E data t account = (case nlState (nvLib E) data of
      None \<Rightarrow> Some (WText ''invalid stack inventory'')
    | Some rs \<Rightarrow> text_error (first_error (state_error (ntProject t) (ntStack t) account) rs))"

section \<open>What is noted of a state\<close>

text \<open>The records that the stack manages itself, by name and type and by name, and its external
  resources.\<close>

record dns_scope =
  dsManaged :: "string list"
  dsNames :: "string list"
  dsExternal :: "string list"

definition plain_name :: "nuke_env \<Rightarrow> string \<Rightarrow> string" where
  "plain_name E s = trim_suffix (to_lower (wlGo (teLib E)) s) ''.''"

definition record_key :: "nuke_env \<Rightarrow> string \<Rightarrow> string \<Rightarrow> string" where
  "record_key E name kind = plain_name E name @ ''/'' @ kind"

definition managed_record :: "nuke_env \<Rightarrow> raw_object \<Rightarrow> dns_scope \<Rightarrow> dns_scope" where
  "managed_record E out s = (let f = field (json_string (teLib E)) out in
     s\<lparr>dsManaged := record_key E (f ''name'') (f ''type'') # dsManaged s,
       dsNames := plain_name E (f ''name'') # dsNames s\<rparr>)"

definition option_records :: "dns_option list \<Rightarrow> dns_record list" where
  "option_records opts = map (\<lambda>d. want_record (doType d) (doName d) (doValue d)) opts"

definition api_record :: "nuke_env \<Rightarrow> raw_object \<Rightarrow> dns_record list" where
  "api_record E out = (let W = teLib E; name = field (json_string W) out ''domainName'';
       target = field (parse_target W) out ''domainNameConfiguration'' in
     if name \<noteq> [] \<and> target \<noteq> [] then [want_record ''CNAME'' name target] else [])"

fun scope_records :: "nuke_env \<Rightarrow> resource list \<Rightarrow> dns_scope \<Rightarrow> progress \<Rightarrow> dns_scope \<times> progress \<times> wf_err option" where
  "scope_records E [] s p = (s, p, None)"
| "scope_records E (r # rs) s p =
    (let kind = rsType r; out = rsOutputs r in
     if rsExternal r then scope_records E rs (s\<lparr>dsExternal := rsURN r # dsExternal s\<rparr>) p
     else if kind = ''aws:route53/record:Record'' then scope_records E rs (managed_record E out s) p
     else if kind = ''aws:acm/certificate:Certificate'' then
       (case map_of out ''domainValidationOptions'' of
          None \<Rightarrow> scope_records E rs s p
        | Some raw \<Rightarrow> (case parse_dns_options (teLib E) raw of
            None \<Rightarrow> (s, p, Some (WText ''invalid certificate DNS inventory''))
          | Some opts \<Rightarrow> scope_records E rs s (add_desired (option_records opts) p)))
     else if kind = ''aws:apigatewayv2/domainName:DomainName''
     then scope_records E rs s (add_desired (api_record E out) p)
     else scope_records E rs s p)"

definition retain_external :: "string list \<Rightarrow> probe list \<Rightarrow> probe list" where
  "retain_external external ps = map (\<lambda>p. p\<lparr>pbRetained := pbName p \<in> set external\<rparr>) ps"

text \<open>The records to remove; \<open>seen\<close> are those already among them.\<close>

fun wanted_records :: "nuke_env \<Rightarrow> dns_scope \<Rightarrow> dns_record list \<Rightarrow> string list \<Rightarrow> wf_err + dns_record list" where
  "wanted_records E s [] seen = Inr []"
| "wanted_records E s (want # ws) seen =
    (let key = record_key E (drName want) (drType want) in
     if key \<in> set (dsManaged s) \<or> (drType want = ''CNAME'' \<and> plain_name E (drName want) \<in> set (dsNames s)) \<or>
        key @ drContent want \<in> set seen
     then wanted_records E s ws seen
     else if drName want = [] \<or> drType want = [] \<or> drContent want = [] then Inl (WText ''incomplete DNS inventory'')
     else case wanted_records E s ws ((key @ drContent want) # seen) of
       Inl e \<Rightarrow> Inl e | Inr rs \<Rightarrow> Inr (want # rs))"

definition settle_records :: "nuke_env \<Rightarrow> dns_scope \<Rightarrow> progress \<Rightarrow> progress \<times> wf_err option" where
  "settle_records E s p = (let p = p\<lparr>tpInventory := retain_external (dsExternal s) (tpInventory p)\<rparr> in
     case wanted_records E s (tpDesired p) [] of
       Inl e \<Rightarrow> (p, Some e) | Inr rs \<Rightarrow> (p\<lparr>tpDesired := rs\<rparr>, None))"

definition capture_dns :: "nuke_env \<Rightarrow> string \<Rightarrow> progress \<Rightarrow> progress \<times> wf_err option" where
  "capture_dns E data p = (case nlRecords (nvLib E) data of
      None \<Rightarrow> (p, Some (WText ''invalid DNS inventory''))
    | Some rs \<Rightarrow> (case capture_evidence (teLib E) (nlDkim (nvLib E)) data p of
        (p, Some e) \<Rightarrow> (p, Some e)
      | (p, None) \<Rightarrow> (case scope_records E rs \<lparr>dsManaged = [], dsNames = [], dsExternal = []\<rparr> p of
          (s, p, Some e) \<Rightarrow> (p, Some e) | (s, p, None) \<Rightarrow> settle_records E s p)))"

text \<open>The region of each resource whose provider names one.\<close>

definition provider_region :: "nuke_env \<Rightarrow> resource list \<Rightarrow> string \<Rightarrow> string" where
  "provider_region E rs provider = map_value (map_of (rev (filter (\<lambda>(_, region). region \<noteq> [])
     (map (\<lambda>r. (rsURN r @ ''::'' @ rsID r, field (json_string (teLib E)) (rsInputs r) ''region''))
       (filter (\<lambda>r. rsType r = ''pulumi:providers:aws'') rs))))) provider"

fun region_entries :: "(string \<Rightarrow> string) \<Rightarrow> resource list \<Rightarrow> (string \<rightharpoonup> string) \<Rightarrow> (string \<rightharpoonup> string)" where
  "region_entries region [] m = m"
| "region_entries region (r # rs) m = region_entries region rs
     (if region (rsProvider r) \<noteq> [] then m(rsURN r \<mapsto> region (rsProvider r)) else m)"

definition capture_regions :: "nuke_env \<Rightarrow> string \<Rightarrow> nuke_target \<Rightarrow> nuke_target" where
  "capture_regions E data t = (case nlProviders (nvLib E) data of
      None \<Rightarrow> t
    | Some rs \<Rightarrow> t\<lparr>ntRegions := region_entries (provider_region E rs) rs (ntRegions t)\<rparr>)"

definition kms_scheme :: string where "kms_scheme = ''awskms://''"

definition url_key :: "nuke_env \<Rightarrow> string \<Rightarrow> string \<Rightarrow> wf_err + nuke_key" where
  "url_key E region url =
    (let rest = drop (length kms_scheme) url; path = takeWhile (\<lambda>c. c \<noteq> CHR ''?'') rest;
         query = drop (length path) rest
     in case nlUnescape (nvLib E) path of
          None \<Rightarrow> Inl (WText ''invalid KMS secrets provider key'')
        | Some i \<Rightarrow>
            if i = [] then Inl (WText ''invalid KMS secrets provider key'')
            else if query = [] then Inr \<lparr>nkID = i, nkRegion = region\<rparr>
            else (case nlRegion (nvLib E) (tl query) of
              None \<Rightarrow> Inl (WText ''invalid KMS secrets provider URL'')
            | Some r \<Rightarrow> Inr \<lparr>nkID = i, nkRegion = (if r \<noteq> [] then r else region)\<rparr>))"

definition state_key :: "nuke_env \<Rightarrow> string \<Rightarrow> string \<Rightarrow> wf_err + nuke_key option" where
  "state_key E data region = (case nlStateKey (nvLib E) data of
      None \<Rightarrow> Inl (WText ''invalid secrets provider inventory'')
    | Some (kind, raw) \<Rightarrow>
        if kind = [] \<or> kind = ''passphrase'' then Inr None
        else let raw = (case json_string (teLib E) raw of Some s \<Rightarrow> s | None \<Rightarrow> raw) in
          (case nlProviderURL (nvLib E) raw of
             None \<Rightarrow> Inl (WText ''unrecognized cloud secrets provider; preserve state for manual key review'')
           | Some url \<Rightarrow>
               if \<not> has_prefix url kms_scheme
               then Inl (WText ''unrecognized cloud secrets provider; preserve state for manual key review'')
               else (case url_key E region url of Inl e \<Rightarrow> Inl e | Inr key \<Rightarrow> Inr (Some key))))"

definition capture_key :: "nuke_env \<Rightarrow> string \<Rightarrow> string \<Rightarrow> nuke \<Rightarrow> nuke \<times> wf_err option" where
  "capture_key E data region n = (case state_key E data region of
      Inl e \<Rightarrow> (n, Some e)
    | Inr None \<Rightarrow> (n, None)
    | Inr (Some key) \<Rightarrow> (n\<lparr>ncKeys := add_new [key] (ncKeys n)\<rparr>, None))"

end
