(* ===== verification/NukeDestroy.thy ===== *)
theory NukeDestroy
  imports NukeTarget
begin

text \<open>
  The removals of \<open>workflow/nuke_target.go\<close> and \<open>nuke_backups.go\<close>: \<open>destroyTarget\<close> with
  \<open>finishTarget\<close>, which is deferred and so runs after every outcome once the target is identified.
\<close>

section \<open>What a stack leaves behind\<close>

definition log_args :: "string \<Rightarrow> string list" where
  "log_args name = [''logs'', ''describe-log-groups'', ''--log-group-name-prefix'', name]"

definition log_look :: "nuke_env \<Rightarrow> string \<Rightarrow> string \<Rightarrow> (wf_err + unit option) wf_prog" where
  "log_look E region name = aws (teLib E) region (log_args name) (\<lambda>x.
     Ret (case aws_decode (nlLogGroups (nvLib E)) x of
       Inl e \<Rightarrow> Inl e
     | Inr (Some (Some names)) \<Rightarrow> Inr (seen_if (name \<in> set names))
     | _ \<Rightarrow> Inl (WText ''invalid log group response'')))"

definition aws_remove :: "nuke_env \<Rightarrow> string \<Rightarrow> string list \<Rightarrow> wf_err option wf_prog" where
  "aws_remove E region args = aws (teLib E) region args (\<lambda>x. Ret (aws_error (aws_found x)))"

definition cleanup_log_group :: "nuke_env \<Rightarrow> string \<Rightarrow> string \<Rightarrow> nuke \<Rightarrow> nuke wf_prog" where
  "cleanup_log_group E region name n = pbind (nuke_step (''Log group '' @ name) (log_look E region name)
       (\<lambda>_. aws_remove E region [''logs'', ''delete-log-group'', ''--log-group-name'', name]))
     (\<lambda>r. nuke_record E r n)"

definition describe_backup :: "nuke_env \<Rightarrow> string \<Rightarrow> string \<Rightarrow> (wf_err + string \<Rightarrow> 'a wf_prog) \<Rightarrow> 'a wf_prog" where
  "describe_backup E region arn k = aws (teLib E) region [''dynamodb'', ''describe-backup'', ''--backup-arn'', arn] (\<lambda>x.
     k (case aws_decode (nlBackupStatus (nvLib E)) x of
       Inl e \<Rightarrow> Inl e | Inr None \<Rightarrow> Inr [] | Inr (Some status) \<Rightarrow> Inr status))"

definition backup_gone :: "wf_err \<Rightarrow> bool" where
  "backup_gone e \<longleftrightarrow> nuke_missing [''BackupNotFoundException''] e"

definition backup_look :: "nuke_env \<Rightarrow> string \<Rightarrow> string \<Rightarrow> (wf_err + unit option) wf_prog" where
  "backup_look E region arn = describe_backup E region arn (\<lambda>x. Ret (case x of
     Inl e \<Rightarrow> if backup_gone e then Inr None else Inl e
   | Inr status \<Rightarrow> if status = [] then Inl (WText ''incomplete backup description'')
       else Inr (seen_if (status \<noteq> ''DELETED''))))"

fun await_backup :: "nuke_env \<Rightarrow> string \<Rightarrow> string \<Rightarrow> nat \<Rightarrow> wf_err option wf_prog" where
  "await_backup E region arn 0 = Ret None"
| "await_backup E region arn (Suc k) = describe_backup E region arn (\<lambda>x. case x of
     Inl e \<Rightarrow> Ret (if backup_gone e then None else Some e)
   | Inr status \<Rightarrow> if status = ''DELETED'' then Ret None
       else Call (WSleep 2) (\<lambda>_. await_backup E region arn k))"

definition backup_remove :: "nuke_env \<Rightarrow> string \<Rightarrow> string \<Rightarrow> wf_err option wf_prog" where
  "backup_remove E region arn = pbind (aws_remove E region [''dynamodb'', ''delete-backup'', ''--backup-arn'', arn])
     (\<lambda>e. case e of Some e \<Rightarrow> Ret (Some e) | None \<Rightarrow> await_backup E region arn 3)"

definition backup_prefix :: "string \<Rightarrow> string \<Rightarrow> string \<Rightarrow> string" where
  "backup_prefix region account table =
     ''arn:aws:dynamodb:'' @ region @ '':'' @ account @ '':table/'' @ table @ ''/backup/''"

definition cleanup_backup :: "nuke_env \<Rightarrow> string \<Rightarrow> string \<Rightarrow> backup \<Rightarrow> nuke \<Rightarrow> nuke wf_prog" where
  "cleanup_backup E region table b n =
    (if bkTable b \<noteq> table \<or> \<not> has_prefix (bkArn b) (backup_prefix region (ncAccount n) table)
     then nuke_failure E (''Backup ownership '' @ table) (WText ''unexpected backup table/account identity'') n
     else if bkType b = ''AWS_BACKUP''
     then nuke_record E (nuke_result (''Backup '' @ bkArn b) ''RETAINED'' (''AWS Backup recovery point; '' @
       ''remove it through AWS Backup before retrying final recovery cleanup'')) n
     else pbind (nuke_step (''Backup '' @ bkArn b) (backup_look E region (bkArn b))
         (\<lambda>_. backup_remove E region (bkArn b))) (\<lambda>r. nuke_record E r n))"

fun cleanup_each :: "('a \<Rightarrow> nuke \<Rightarrow> nuke wf_prog) \<Rightarrow> 'a list \<Rightarrow> nuke \<Rightarrow> nuke wf_prog" where
  "cleanup_each f [] n = Ret n"
| "cleanup_each f (x # xs) n = pbind (f x n) (cleanup_each f xs)"

definition list_backups :: "string \<Rightarrow> string list" where
  "list_backups table = [''dynamodb'', ''list-backups'', ''--table-name'', table, ''--backup-type'', ''ALL'']"

definition cleanup_backups :: "nuke_env \<Rightarrow> string \<Rightarrow> string \<Rightarrow> nuke \<Rightarrow> nuke wf_prog" where
  "cleanup_backups E region table n = aws (teLib E) region (list_backups table) (\<lambda>x.
     case aws_decode (nlBackups (nvLib E)) x of
       Inl e \<Rightarrow> nuke_failure E (''Backup inventory '' @ table) e n
     | Inr (Some (Some bs)) \<Rightarrow>
         if bs = [] then nuke_record E (nuke_result (''Backups for '' @ table) ''ABSENT'' ''no DynamoDB backups listed'') n
         else cleanup_each (cleanup_backup E region table) bs n
     | _ \<Rightarrow> nuke_failure E (''Backup inventory '' @ table) (WText ''incomplete backup listing'') n)"

definition dns_look :: "nuke_env \<Rightarrow> client \<Rightarrow> string \<Rightarrow> dns_record \<Rightarrow> (wf_err + dns_record list option) wf_prog" where
  "dns_look E c zone want = dns_run (cf_records (teFuel E) c zone (drName want)) (\<lambda>x. Ret (case x of
     Inl e \<Rightarrow> Inl (WText e)
   | Inr current \<Rightarrow> (case deletion_candidates c want current of
       Inl e \<Rightarrow> Inl (WText e)
     | Inr matches \<Rightarrow> Inr (if matches \<noteq> [] then Some matches else None))))"

definition dns_remove :: "nuke_env \<Rightarrow> client \<Rightarrow> string \<Rightarrow> dns_record list \<Rightarrow> wf_err option wf_prog" where
  "dns_remove E c zone matches = dns_run (delete_dns (teFuel E) c zone matches) (\<lambda>e. Ret (text_error e))"

definition zone_of :: "client \<Rightarrow> string \<Rightarrow> zone list \<Rightarrow> string" where
  "zone_of c name zones = (case find (\<lambda>z. within_zone c name (znName z)) zones of None \<Rightarrow> [] | Some z \<Rightarrow> znID z)"

definition dns_label :: "dns_record \<Rightarrow> string" where
  "dns_label want = ''DNS '' @ drType want @ '' '' @ drName want"

definition cleanup_record :: "nuke_env \<Rightarrow> dns_record \<Rightarrow> nuke \<Rightarrow> nuke wf_prog" where
  "cleanup_record E want n = (let label = dns_label want in case teClient E of
     None \<Rightarrow> nuke_record E (nuke_result label ''UNVERIFIED'' ''Cloudflare token unavailable; DNS not removed'') n
   | Some c \<Rightarrow> dns_run (cf_zones (teFuel E) c (drName want)) (\<lambda>x. case x of
       Inl e \<Rightarrow> nuke_failure E label (WText e) n
     | Inr zones \<Rightarrow> (let zone = zone_of c (drName want) zones in
         if zone = [] then nuke_failure E label (WText ''no accessible DNS zone'') n
         else pbind (nuke_step label (dns_look E c zone want) (dns_remove E c zone)) (\<lambda>r. nuke_record E r n))))"

section \<open>The final verification\<close>

definition probe_label :: "nuke_target \<Rightarrow> probe \<Rightarrow> string" where
  "probe_label t p = target_name t @ bullet @ pbName p @ '' ['' @ pbKind p @ '' '' @ pbID p @ '']''"

fun verify_again :: "nuke_env \<Rightarrow> string \<Rightarrow> probe \<Rightarrow> nat \<Rightarrow> wf_err option \<Rightarrow> wf_err option wf_prog" where
  "verify_again E region p 0 e = Ret e"
| "verify_again E region p (Suc k) e = (if e \<noteq> Some WRemains then Ret e else
     Call (WSleep 5) (\<lambda>_. pbind (verify_probe (teLib E) region p) (verify_again E region p k)))"

definition verify_thrice :: "nuke_env \<Rightarrow> string \<Rightarrow> probe \<Rightarrow> wf_err option wf_prog" where
  "verify_thrice E region p = pbind (verify_probe (teLib E) region p) (verify_again E region p 2)"

text \<open>\<open>before\<close> holds the resources that were there before the destruction.\<close>

definition before_key :: "probe \<Rightarrow> string" where "before_key p = pbName p @ pbID p"

definition final_result :: "string \<Rightarrow> bool \<Rightarrow> wf_err option \<Rightarrow> nuke_result" where
  "final_result label was e = (case e of
      None \<Rightarrow> if was then nuke_result label ''DELETED'' ''absence verified after destroy''
        else nuke_result label ''ABSENT'' ''already absent; verified''
    | Some e \<Rightarrow> if e = WRemains then nuke_result label ''REMAINS'' ''AWS resource still exists''
        else nuke_result label ''UNVERIFIED'' (err_text e))"

definition finish_parts :: "nuke_env \<Rightarrow> string \<Rightarrow> probe \<Rightarrow> wf_err option \<Rightarrow> nuke \<Rightarrow> nuke wf_prog" where
  "finish_parts E region p e n =
    (if e \<noteq> None then Ret n
     else if pbKind p = ''lambda'' then cleanup_log_group E region (''/aws/lambda/'' @ pbID p) n
     else if pbKind p = ''table'' then cleanup_backups E region (pbID p) n
     else Ret n)"

definition finish_probe :: "nuke_env \<Rightarrow> nuke_target \<Rightarrow> (string \<Rightarrow> bool) \<Rightarrow> probe \<Rightarrow> nuke \<Rightarrow> nuke wf_prog" where
  "finish_probe E t before p n = (let label = probe_label t p; region = probe_region t p in
     if pbRetained p then nuke_record E (nuke_result label ''RETAINED''
       ''external or retainOnDelete resource; inspect ownership and remove manually'') n
     else pbind (verify_thrice E region p) (\<lambda>e.
       pbind (nuke_record E (final_result label (before (before_key p)) e) n) (finish_parts E region p e)))"

definition finish_target :: "nuke_env \<Rightarrow> nat \<Rightarrow> nuke \<times> (string \<Rightarrow> bool) \<Rightarrow> nuke wf_prog" where
  "finish_target E i x = (case x of (n, before) \<Rightarrow> (let t = ncTargets n ! i in
     pbind (if tpCaptured (ntEvidence t) then Ret n else nuke_record E (nuke_result (target_name t @ '' AWS inventory'')
       ''UNVERIFIED'' (''stack is absent but no pre-destroy resource inventory survives; '' @
       ''cannot certify AWS orphan cleanup'')) n) (\<lambda>n.
     pbind (cleanup_each (finish_probe E t before) (tpInventory (ntEvidence t)) n) (\<lambda>n.
     cleanup_each (cleanup_record E) (tpDesired (ntEvidence t)) n))))"

section \<open>Destruction\<close>

definition guard_keys :: "string list" where "guard_keys = [''protect'', ''retainOnDelete'']"

definition external_resource :: "raw_object \<Rightarrow> bool" where
  "external_resource r \<longleftrightarrow> map_of r ''external'' = Some ''true''"

definition guarded :: "raw_object \<Rightarrow> bool" where
  "guarded r \<longleftrightarrow> \<not> external_resource r \<and> list_ex (\<lambda>key. map_of r key = Some ''true'') guard_keys"

definition unguard :: "raw_object \<Rightarrow> raw_object" where
  "unguard r = (if external_resource r then r else
     map (\<lambda>(k, v). if k \<in> set guard_keys \<and> v = ''true'' then (k, ''false'') else (k, v)) r)"

definition put_raw :: "string \<Rightarrow> string \<Rightarrow> raw_object \<Rightarrow> raw_object" where
  "put_raw key v = map (\<lambda>(k, w). if k = key then (k, v) else (k, w))"

text \<open>The export without the deletion guards, and whether there were any.\<close>

definition destroyable_export :: "nuke_env \<Rightarrow> string \<Rightarrow> wf_err + string \<times> bool" where
  "destroyable_export E data = (let N = nvLib E; W = teLib E in case wf_lib.json_object W data of
      None \<Rightarrow> Inl (WText ''invalid state'')
    | Some state \<Rightarrow> (case Option.bind (map_of state ''deployment'') (wf_lib.json_object W) of
        None \<Rightarrow> Inl (WText ''invalid deployment'')
      | Some deployment \<Rightarrow> (case Option.bind (map_of deployment ''resources'') (nlObjects N) of
          None \<Rightarrow> Inl (WText ''invalid resources'')
        | Some rs \<Rightarrow>
            (let deployment = put_raw ''resources'' (nlObjectsJson N (map unguard rs)) deployment;
                 state = put_raw ''deployment'' (nlObjectJson N deployment) state
             in Inr (nlObjectJson N state, list_ex guarded rs)))))"

text \<open>A run of Pulumi in the directory of the project.\<close>

definition pulumi :: "nuke_env \<Rightarrow> nuke_target \<Rightarrow> string \<Rightarrow> string list \<Rightarrow> (wf_err + string \<Rightarrow> 'a wf_prog) \<Rightarrow> 'a wf_prog" where
  "pulumi E t pass args k =
    exec ((nuke_runner E (ntBackend t) (ntRegion t) (ntProject t))\<lparr>rnPassphrase := pass\<rparr>)
      (project_dir E (ntProject t)) (''pulumi'' # args) k"

definition own_pass :: "nuke_env \<Rightarrow> nuke_target \<Rightarrow> string" where
  "own_pass E t = rnPassphrase (nuke_runner E (ntBackend t) (ntRegion t) (ntProject t))"

definition list_stacks :: "string list" where
  "list_stacks = [''stack'', ''ls'', ''--json'', ''--non-interactive'']"

definition stack_look :: "nuke_env \<Rightarrow> nuke_target \<Rightarrow> string \<Rightarrow> (wf_err + bool) wf_prog" where
  "stack_look E t pass = pulumi E t pass list_stacks (\<lambda>x. Ret (case x of
     Inl e \<Rightarrow> Inl e | Inr data \<Rightarrow> stack_listed_in (teLib E) data (ntStack t) (ntProject t)))"

definition look_seen :: "wf_err + bool \<Rightarrow> wf_err + unit option" where
  "look_seen x = (case x of Inl e \<Rightarrow> Inl e | Inr b \<Rightarrow> Inr (seen_if b))"

definition stack_step :: "nuke_env \<Rightarrow> nuke_target \<Rightarrow> string \<Rightarrow> nuke_result wf_prog" where
  "stack_step E t pass = nuke_step (target_name t @ '' stack'')
     (pbind (stack_look E t pass) (\<lambda>x. Ret (look_seen x)))
     (\<lambda>_. pulumi E t pass [''stack'', ''rm'', ntStack t, ''--yes'', ''--non-interactive''] (\<lambda>x. Ret (aws_error x)))"

text \<open>What is done of a resource before the stack is destroyed: a bucket is emptied, a table loses its
  protection.\<close>

definition final_tail :: string where "final_tail = ''; final resource verification decides success''"
definition stack_tail :: string where "stack_tail = ''; final resource and stack verification decides success''"

definition prepare_remaining :: "nuke_env \<Rightarrow> nuke_target \<Rightarrow> probe \<Rightarrow> nuke \<Rightarrow> nuke wf_prog" where
  "prepare_remaining E t p n = (let region = probe_region t p in
     if pbKind p = ''bucket''
     then pbind (purge_evidence (teFuel E) (teLib E) (teBackendHost E) region (pbID p) (ncAccount n) (ntBackend t))
       (\<lambda>e. note_info E (''Purge bucket '' @ pbID p) final_tail e n)
     else if pbKind p = ''table''
     then pbind (aws_remove E region [''dynamodb'', ''update-table'', ''--table-name'', pbID p,
         ''--no-deletion-protection-enabled'']) (\<lambda>e.
       note_info E (''Disable table deletion protection '' @ pbID p) final_tail e n)
     else Ret n)"

fun prepare_probes :: "nuke_env \<Rightarrow> nuke_target \<Rightarrow> probe list \<Rightarrow> nuke \<times> (string \<Rightarrow> bool) \<Rightarrow>
    (nuke \<times> (string \<Rightarrow> bool)) wf_prog" where
  "prepare_probes E t [] x = Ret x"
| "prepare_probes E t (p # ps) (n, before) =
    (if pbRetained p then prepare_probes E t ps (n, before) else
     pbind (verify_probe (teLib E) (probe_region t p) p) (\<lambda>e. let before = before(before_key p := (e = Some WRemains)) in
       pbind (if e = Some WRemains then prepare_remaining E t p n else Ret n) (\<lambda>n.
         prepare_probes E t ps (n, before))))"

text \<open>A step of the destruction that cannot go on has noted why.\<close>

definition failing :: "nuke_env \<Rightarrow> string \<Rightarrow> wf_err \<Rightarrow> nuke \<Rightarrow> (string \<Rightarrow> bool) \<Rightarrow> (nuke \<times> (string \<Rightarrow> bool)) wf_prog" where
  "failing E name e n before = pbind (nuke_failure E name e n) (\<lambda>n. Ret (n, before))"

definition export_stack :: "nuke_target \<Rightarrow> string list" where
  "export_stack t = [''stack'', ''export'', ''--stack'', ntStack t]"

definition remove_stack :: "nuke_env \<Rightarrow> nuke_target \<Rightarrow> string \<Rightarrow> nuke \<Rightarrow> nuke wf_prog" where
  "remove_stack E t pass n = pulumi E t pass (export_stack t) (\<lambda>x.
     case (case x of Inl e \<Rightarrow> Some e | Inr data \<Rightarrow> ensure_destroyed (teLib E) data) of
       Some e \<Rightarrow> nuke_failure E (target_name t @ '' remaining Pulumi state'') e n
     | None \<Rightarrow> pbind (stack_step E t pass) (\<lambda>r. nuke_record E r n))"

definition destroy_resources :: "nuke_env \<Rightarrow> nuke_target \<Rightarrow> string \<Rightarrow> nuke \<Rightarrow> nuke wf_prog" where
  "destroy_resources E t pass n =
    pulumi E t pass [''destroy'', ''--stack'', ntStack t, ''--yes'', ''--skip-preview'', ''--continue-on-error'',
      ''--non-interactive''] (\<lambda>x.
    pbind (note_info E (target_name t @ '' destroy'') stack_tail (aws_error x) n) (remove_stack E t pass))"

text \<open>\<open>None\<close> when no file can be made; else the error of the import.\<close>

definition import_state :: "nuke_env \<Rightarrow> nuke_target \<Rightarrow> string \<Rightarrow> string \<Rightarrow> (wf_err + wf_err option) wf_prog" where
  "import_state E t pass unguarded =
    Call (WFile (FCreateTemp [] ''attestra-nuke-state-'' ''.json'')) (\<lambda>r. case f_err (w_file r) of
      Some e \<Rightarrow> Ret (Inl (WFileError e))
    | None \<Rightarrow> (let path = f_name (w_file r) in
        Call (WFile (FWrite path unguarded)) (\<lambda>w. Call (WFile (FClose path)) (\<lambda>c.
          pbind (if f_err (w_file w) = None \<and> f_err (w_file c) = None
            then pulumi E t pass [''stack'', ''import'', ''--stack'', ntStack t, ''--file'', path, ''--non-interactive'']
              (\<lambda>x. Ret (aws_error x))
            else Ret (Some (WText ''cannot prepare deletion guard update''))) (\<lambda>e.
          Call (WFile (FRemove path)) (\<lambda>_. Ret (Inr e)))))))"

definition remove_guards :: "nuke_env \<Rightarrow> nuke_target \<Rightarrow> string \<Rightarrow> string \<Rightarrow> nuke \<Rightarrow> nuke wf_prog" where
  "remove_guards E t pass current n = (case destroyable_export E current of
      Inl e \<Rightarrow> nuke_failure E (target_name t) e n
    | Inr (unguarded, changed) \<Rightarrow>
        if \<not> changed then destroy_resources E t pass n
        else pbind (import_state E t pass unguarded) (\<lambda>x. case x of
          Inl e \<Rightarrow> nuke_failure E (target_name t) e n
        | Inr e \<Rightarrow> pbind (note_info E (target_name t @ '' deletion guards'') stack_tail e n)
            (destroy_resources E t pass)))"

definition refresh_stack :: "nuke_env \<Rightarrow> nuke_target \<Rightarrow> string \<Rightarrow> nuke \<Rightarrow> nuke wf_prog" where
  "refresh_stack E t pass n =
    pulumi E t pass [''refresh'', ''--stack'', ntStack t, ''--yes'', ''--skip-preview'', ''--non-interactive''] (\<lambda>x.
    pbind (note_info E (target_name t @ '' refresh'') stack_tail (aws_error x) n) (\<lambda>n.
    pulumi E t pass (export_stack t) (\<lambda>x. case x of
      Inl e \<Rightarrow> nuke_failure E (target_name t @ '' refreshed inventory'') e n
    | Inr current \<Rightarrow> (case validate_state E current t (ncAccount n) of
        Some e \<Rightarrow> nuke_failure E (target_name t @ '' ownership'') e n
      | None \<Rightarrow> remove_guards E t pass current n))))"

text \<open>The inventory of the export, noted in the target and its receipt.\<close>

definition note_inventory :: "nuke_env \<Rightarrow> nat \<Rightarrow> string \<Rightarrow> progress \<Rightarrow> nuke \<Rightarrow> (nuke \<times> wf_err option) wf_prog" where
  "note_inventory E i data p n = (let name = target_name (ncTargets n ! i); (p, e) = capture_dns E data p in
     pbind (note_failure E (name @ '' DNS inventory'') e (change_evidence i (\<lambda>_. p) n)) (\<lambda>n.
     let n = change_target i (capture_regions E data) n;
         (n, e) = capture_key E data (ntRegion (ncTargets n ! i)) n in
     pbind (note_failure E (name @ '' secrets provider'') e n) (\<lambda>n.
     nuke_save E (change_evidence i (\<lambda>p. p\<lparr>tpCaptured := True\<rparr>) n))))"

definition destroy_inventoried :: "nuke_env \<Rightarrow> nat \<Rightarrow> string \<Rightarrow> nuke \<Rightarrow> (nuke \<times> (string \<Rightarrow> bool)) wf_prog" where
  "destroy_inventoried E i pass n = (let t = ncTargets n ! i in
     pbind (prepare_probes E t (tpInventory (ntEvidence t)) (n, \<lambda>_. False)) (\<lambda>(n, before).
     pbind (refresh_stack E t pass n) (\<lambda>n. Ret (n, before))))"

definition destroy_exported :: "nuke_env \<Rightarrow> nat \<Rightarrow> string \<Rightarrow> string \<Rightarrow> nuke \<Rightarrow> (nuke \<times> (string \<Rightarrow> bool)) wf_prog" where
  "destroy_exported E i pass data n = (let t = ncTargets n ! i; name = target_name t; none = (\<lambda>_. False) in
     case validate_state E data t (ncAccount n) of
       Some e \<Rightarrow> failing E (name @ '' ownership'') e n none
     | None \<Rightarrow> (case capture_inventory (teLib E) data (ntEvidence t) of
         Inl e \<Rightarrow> failing E (name @ '' inventory'') e n none
       | Inr p \<Rightarrow> pbind (note_inventory E i data p n) (\<lambda>(n, e). case e of
           Some e \<Rightarrow> failing E (name @ '' inventory persistence'') e n none
         | None \<Rightarrow> destroy_inventoried E i pass n)))"

definition quiet_for :: "nuke_env \<Rightarrow> string \<Rightarrow> wf_err option wf_prog" where
  "quiet_for E repo = (case nvGithub E of None \<Rightarrow> Ret None | Some g \<Rightarrow> no_nuke_deployments E g repo)"

definition destroy_existing :: "nuke_env \<Rightarrow> nat \<Rightarrow> nuke \<Rightarrow> (nuke \<times> (string \<Rightarrow> bool)) wf_prog" where
  "destroy_existing E i n = (let t = ncTargets n ! i; name = target_name t; none = (\<lambda>_. False) in
     Call (WInput (''Existing Pulumi passphrase for '' @ name @ '' (blank if using KMS)'')) (\<lambda>r. case w_input r of
       Inl e \<Rightarrow> failing E name e n none
     | Inr pass \<Rightarrow> pbind (quiet_for E (ncRepository n)) (\<lambda>e. case e of
         Some e \<Rightarrow> failing E name e n none
       | None \<Rightarrow> pulumi E t pass (export_stack t) (\<lambda>x. case x of
           Inl e \<Rightarrow> failing E (name @ '' inventory'') e n none
         | Inr data \<Rightarrow> destroy_exported E i pass data n))))"

definition bucket_gone :: "aws_answer \<Rightarrow> bool" where
  "bucket_gone x = (case aws_found x of Inl e \<Rightarrow> nuke_missing gone_codes e | Inr _ \<Rightarrow> False)"

definition stack_gone :: "nuke_env \<Rightarrow> nat \<Rightarrow> nuke \<Rightarrow> (nuke \<times> (string \<Rightarrow> bool)) wf_prog" where
  "stack_gone E i n = pbind (nuke_record E (nuke_result (target_name (ncTargets n ! i) @ '' stack'') ''ABSENT''
     ''stack/backend already absent'') n) (\<lambda>n. Ret (n, \<lambda>_. False))"

definition destroy_body :: "nuke_env \<Rightarrow> nat \<Rightarrow> nuke \<Rightarrow> (nuke \<times> (string \<Rightarrow> bool)) wf_prog" where
  "destroy_body E i n = (let t = ncTargets n ! i in
     pbind (stack_look E t (own_pass E t)) (\<lambda>x. case x of
       Inr exists \<Rightarrow> if exists then destroy_existing E i n else stack_gone E i n
     | Inl e \<Rightarrow> aws (teLib E) (ntRegion t)
         (owner_args ''head-bucket'' (trim_prefix (ntBackend t) ''s3://'') (ncAccount n)) (\<lambda>x.
           if bucket_gone x then stack_gone E i n else failing E (target_name t) e n (\<lambda>_. False))))"

definition identity_error :: "nuke_target \<Rightarrow> wf_err option" where
  "identity_error t = (if ntStack t = [] \<or> ntBackend t = [] \<or> ntRegion t = []
     then Some (WText ''incomplete target identity'') else validate_environment (ntStack t))"

definition destroy_target :: "nuke_env \<Rightarrow> nat \<Rightarrow> nuke \<Rightarrow> nuke wf_prog" where
  "destroy_target E i n = (case identity_error (ncTargets n ! i) of
      Some e \<Rightarrow> nuke_failure E (target_name (ncTargets n ! i)) e n
    | None \<Rightarrow> pbind (destroy_body E i n) (finish_target E i))"

end
