(* ===== verification/NukeRun.thy ===== *)
theory NukeRun
  imports NukeDestroy
begin

text \<open>
  What there is to remove and the order it is removed in: \<open>discover\<close> of \<open>workflow/nuke_discovery.go\<close>,
  \<open>cleanupEnvironments\<close> (\<open>nuke_cleanup.go\<close>) and the run of \<open>runNukeMode\<close> from the discovery on
  (\<open>nuke.go\<close>). The local records that a glob finds are an argument; the sort of the targets is
  stable here, which Go leaves open for targets whose three names run together alike.
\<close>

section \<open>The inventory\<close>

definition nuke_options :: "string \<Rightarrow> string \<Rightarrow> options" where
  "nuke_options backend region = \<lparr>opReleaseIndex = False, opSkipIndex = False, opPublishOnly = False,
     opReuseBuild = False, opTargets = [], opRoot = [], opStack = ''nuke'', opBackend = backend,
     opRegion = region, opMigrateFrom = [], opCI = [], opPull = False\<rparr>"

definition backend_of :: "nuke_env \<Rightarrow> string \<Rightarrow> string \<Rightarrow> string + nuke_backend" where
  "backend_of E backend region = (let X = nvDeploy E in case options_error X (nuke_options backend region) of
      Some e \<Rightarrow> Inl e
    | None \<Rightarrow> (case state_url_ok X backend of
        None \<Rightarrow> Inl []
      | Some u \<Rightarrow> if u_Path u \<noteq> [] \<and> u_Path u \<noteq> ''/''
          then Inl (''prefixed state backend requires manual review; '' @
            ''whole-bucket deletion could remove unrelated state'')
          else Inr \<lparr>nbBucket = u_Host u, nbRegion = region\<rparr>))"

definition add_backend :: "nuke_env \<Rightarrow> string \<Rightarrow> string \<Rightarrow> nuke \<Rightarrow> nuke wf_prog" where
  "add_backend E backend region n = (case backend_of E backend region of
      Inl e \<Rightarrow> nuke_failure E (''Backend '' @ backend) (WText e) n
    | Inr b \<Rightarrow> Ret (n\<lparr>ncBackends := add_new [b] (ncBackends n)\<rparr>))"

fun add_inventory :: "probe list \<Rightarrow> probe list \<Rightarrow> probe list" where
  "add_inventory [] known = known"
| "add_inventory (p # ps) known = add_inventory ps
     (if list_ex (\<lambda>q. pbName q = pbName p \<and> pbID q = pbID p) known then known else known @ [p])"

definition merge_evidence :: "progress \<Rightarrow> progress \<Rightarrow> progress" where
  "merge_evidence p q = p\<lparr>tpValues := tpValues p ++ tpValues q, tpCaptured := tpCaptured p \<or> tpCaptured q,
     tpInventory := add_inventory (tpInventory q) (tpInventory p),
     tpDesired := add_new (tpDesired q) (tpDesired p),
     tpEnvironment := (if tpEnvironment p = [] then tpEnvironment q else tpEnvironment p)\<rparr>"

definition same_target :: "nuke_target \<Rightarrow> nuke_target \<Rightarrow> bool" where
  "same_target a b \<longleftrightarrow> ntBackend a = ntBackend b \<and> ntProject a = ntProject b \<and> ntStack a = ntStack b"

definition merge_target :: "nuke_target \<Rightarrow> nuke_target \<Rightarrow> nuke_target" where
  "merge_target old t = old\<lparr>ntEvidence := merge_evidence (ntEvidence old) (ntEvidence t),
     ntRegions := ntRegions old ++ ntRegions t\<rparr>"

fun add_to_targets :: "nuke_target \<Rightarrow> nuke_target list \<Rightarrow> nuke_target list" where
  "add_to_targets t [] = [t]"
| "add_to_targets t (old # ts) = (if same_target old t then merge_target old t # ts else old # add_to_targets t ts)"

definition add_target :: "nuke_target \<Rightarrow> nuke \<Rightarrow> nuke" where
  "add_target t n = n\<lparr>ncTargets := add_to_targets t (ncTargets n)\<rparr>"

definition blank_progress :: progress where
  "blank_progress = \<lparr>tpCaptured = False, tpInventory = [], tpValidation = [], tpValidatedAt = [], tpLocalDone = False,
     tpDeleteVault = False, tpIndex = None, tpIndexRemoved = False, tpIndexRetired = False, tpCleanupDone = False, tpRepository = [],
     tpEnvironment = [], tpValues = Map.empty, tpDomain = [], tpBucket = [], tpZone = [], tpDesired = [], tpDNS = [],
     tpDestroyed = False, tpDNSDone = False, tpDNSSkipped = False, tpRoleDone = False, tpStackRemoved = False,
     tpComplete = False\<rparr>"

definition progress_for :: "string \<Rightarrow> string \<Rightarrow> (string \<rightharpoonup> string) \<Rightarrow> progress" where
  "progress_for repository environment values =
     blank_progress\<lparr>tpRepository := repository, tpEnvironment := environment, tpValues := values\<rparr>"

definition target :: "string \<Rightarrow> string \<Rightarrow> string \<Rightarrow> string \<Rightarrow> progress \<Rightarrow> nuke_target" where
  "target backend region project stack p = \<lparr>ntBackend = backend, ntRegion = region, ntProject = project,
     ntStack = stack, ntEvidence = p, ntRegions = Map.empty\<rparr>"

definition add_both :: "nuke_env \<Rightarrow> nuke_target \<Rightarrow> nuke \<Rightarrow> nuke wf_prog" where
  "add_both E t n = pbind (add_backend E (ntBackend t) (ntRegion t) n) (\<lambda>n. Ret (add_target t n))"

section \<open>Discovery\<close>

definition shared_receipt :: "nuke_env \<Rightarrow> string \<Rightarrow> string \<Rightarrow> nuke \<Rightarrow> nuke wf_prog" where
  "shared_receipt E name data n = (case nlReceipt (nvLib E) data of
      None \<Rightarrow> nuke_failure E name (WText ''invalid shared teardown receipt'') n
    | Some p \<Rightarrow> (let v = map_value (tpValues p) in
        if v ''account'' \<noteq> ncAccount n then Ret n
        else add_both E (target (v ''backend'') (v ''region'') index_project ''shared'' p) n))"

definition teardown_receipt :: "nuke_env \<Rightarrow> string \<Rightarrow> nuke \<Rightarrow> nuke wf_prog" where
  "teardown_receipt E data n = (case nlReceipt (nvLib E) data of
      None \<Rightarrow> Ret n
    | Some p \<Rightarrow> (let v = map_value (tpValues p) in
        add_both E (target (v ''PULUMI_BACKEND_URL'') (v ''AWS_REGION'') app_project (tpEnvironment p) p) n))"

definition local_target :: "nuke_env \<Rightarrow> local_record \<Rightarrow> nuke \<Rightarrow> nuke wf_prog" where
  "local_target E r n = (if lrBackend r = [] then Ret n else
     pbind (add_backend E (lrBackend r) (lrRegion r) n) (\<lambda>n.
       let stack = (if lrStack r = [] then lrEnvironment r else lrStack r) in
       Ret (if stack = [] then n else add_target (target (lrBackend r) (lrRegion r) app_project stack
         (progress_for (ncRepository n) stack Map.empty)) n)))"

definition environment_receipt :: "nuke_env \<Rightarrow> string \<Rightarrow> string \<Rightarrow> nuke \<Rightarrow> nuke wf_prog" where
  "environment_receipt E name data n = (case nlLocal (nvLib E) data of
      None \<Rightarrow> nuke_failure E name (WText ''invalid local record'') n
    | Some r \<Rightarrow>
        if lrRepository r \<noteq> ncRepository n then Ret n
        else if has_prefix name ''teardown.'' then teardown_receipt E data n
        else local_target E r n)"

definition discover_file :: "nuke_env \<Rightarrow> string \<Rightarrow> nuke \<Rightarrow> nuke wf_prog" where
  "discover_file E path n = (let name = nlBase (nvLib E) path; shared = has_prefix name ''teardown-index.'' in
     if \<not> shared \<and> \<not> has_prefix name ''bootstrap.'' \<and> \<not> has_prefix name ''deploy.'' \<and> \<not> has_prefix name ''teardown.''
     then Ret n
     else Call (WFile (FRead path)) (\<lambda>r. case f_err (w_file r) of
       Some e \<Rightarrow> nuke_failure E name (WFileError e) n
     | None \<Rightarrow> (if shared then shared_receipt else environment_receipt) E name (f_data (w_file r)) n))"

definition note_environment :: "nuke_env \<Rightarrow> string \<Rightarrow> (string \<rightharpoonup> string) \<Rightarrow> nuke \<Rightarrow> nuke wf_prog" where
  "note_environment E name values n = (let v = map_value values; label = ''GitHub environment '' @ name in
     if v ''PULUMI_BACKEND_URL'' = [] \<and> v ''AWS_ROLE_ARN'' = [] then Ret n
     else if v ''AWS_ACCOUNT_ID'' \<noteq> ncAccount n
     then nuke_failure E label (WText ''AWS account mismatch; environment excluded'') n
     else (case validate_environment name of
       Some e \<Rightarrow> nuke_failure E label e n
     | None \<Rightarrow> add_both E (target (v ''PULUMI_BACKEND_URL'') (v ''AWS_REGION'') app_project
           (if v ''PULUMI_STACK'' = [] then name else v ''PULUMI_STACK'') (progress_for (ncRepository n) name values))
         (n\<lparr>ncEnvironments := add_new [name] (ncEnvironments n)\<rparr>)))"

definition discover_environment :: "nuke_env \<Rightarrow> github \<Rightarrow> string \<Rightarrow> nuke \<Rightarrow> nuke wf_prog" where
  "discover_environment E g name n = github_run (inspect_environment g (ncRepository n) name) (\<lambda>(s, e). case e of
     Some e \<Rightarrow> nuke_failure E (''GitHub environment '' @ name) (WText e) n
   | None \<Rightarrow> note_environment E name (gsVariables s) n)"

definition discover_environments :: "nuke_env \<Rightarrow> github \<Rightarrow> nuke \<Rightarrow> nuke wf_prog" where
  "discover_environments E g n = github_run (list_environments (teFuel E) g (ncRepository n)) (\<lambda>x. case x of
     Inl e \<Rightarrow> nuke_failure E ''GitHub environment discovery'' (WText e) n
   | Inr names \<Rightarrow> cleanup_each (discover_environment E g) names n)"

definition home_region :: string where "home_region = ''us-east-2''"

definition state_bucket_name :: "string \<Rightarrow> string \<Rightarrow> bool" where
  "state_bucket_name account name \<longleftrightarrow> has_prefix name ''attestra-state-'' \<or>
     has_prefix name (''attestra-index-state-'' @ account @ ''-'')"

definition bucket_region :: "string option \<Rightarrow> string" where
  "bucket_region x = (case x of None \<Rightarrow> ''us-east-1'' | Some r \<Rightarrow> if r = ''EU'' then ''eu-west-1'' else r)"

definition discover_bucket :: "nuke_env \<Rightarrow> string \<Rightarrow> nuke \<Rightarrow> nuke wf_prog" where
  "discover_bucket E name n = (if \<not> state_bucket_name (ncAccount n) name then Ret n else
     aws (teLib E) home_region (owner_args ''get-bucket-location'' name (ncAccount n)) (\<lambda>x.
       case aws_decode (nlLocation (nvLib E)) x of
         Inl e \<Rightarrow> nuke_failure E (''State bucket '' @ name) e n
       | Inr y \<Rightarrow> add_backend E (s3_url name) (bucket_region (Option.bind y (\<lambda>z. z))) n))"

definition discover_buckets :: "nuke_env \<Rightarrow> nuke \<Rightarrow> nuke wf_prog" where
  "discover_buckets E n = aws (teLib E) home_region [''s3api'', ''list-buckets''] (\<lambda>x.
     case aws_decode (nlBuckets (nvLib E)) x of
       Inl e \<Rightarrow> nuke_failure E ''State bucket discovery'' e n
     | Inr (Some (Some names)) \<Rightarrow> cleanup_each (discover_bucket E) names n
     | _ \<Rightarrow> nuke_failure E ''State bucket discovery'' (WText ''incomplete bucket listing'') n)"

definition listed_stack :: "nuke_env \<Rightarrow> nuke_backend \<Rightarrow> string \<Rightarrow> string \<Rightarrow> nuke \<Rightarrow> nuke wf_prog" where
  "listed_stack E b project row n = (let stack = last (split_on (CHR ''/'') row) in case validate_environment stack of
      Some e \<Rightarrow> nuke_failure E (''Stack '' @ row) e n
    | None \<Rightarrow> Ret (add_target (target (s3_url (nbBucket b)) (nbRegion b) project stack
        (if project = app_project then progress_for (ncRepository n) stack Map.empty else blank_progress)) n))"

definition discover_stacks :: "nuke_env \<Rightarrow> nuke_backend \<Rightarrow> string \<Rightarrow> nuke \<Rightarrow> nuke wf_prog" where
  "discover_stacks E b project n = (let backend = s3_url (nbBucket b) in
     exec (nuke_runner E backend (nbRegion b) project) (project_dir E project) (''pulumi'' # list_stacks) (\<lambda>x. case x of
       Inl e \<Rightarrow> nuke_failure E (''Stack discovery '' @ backend @ ''/'' @ project) e n
     | Inr data \<Rightarrow> (case parse_stacks (teLib E) data of
         Some (Some rows) \<Rightarrow> cleanup_each (listed_stack E b project) rows n
       | _ \<Rightarrow> nuke_failure E (''Stack discovery '' @ backend) (WText ''invalid stack listing'') n)))"

definition projects :: "string list" where "projects = [app_project, index_project]"

definition discover_backend :: "nuke_env \<Rightarrow> nuke_backend \<Rightarrow> nuke \<Rightarrow> nuke wf_prog" where
  "discover_backend E b n = aws (teLib E) (nbRegion b) (owner_args ''head-bucket'' (nbBucket b) (ncAccount n)) (\<lambda>x.
     let name = ''State bucket '' @ nbBucket b in case aws_found x of
       Inl e \<Rightarrow> if nuke_missing gone_codes e then nuke_record E (nuke_result name ''ABSENT'' ''already absent'') n
         else nuke_failure E name e n
     | Inr _ \<Rightarrow> cleanup_each (discover_stacks E b) projects n)"

definition target_order :: "nuke_target \<Rightarrow> string" where
  "target_order t = ntProject t @ ntBackend t @ ntStack t"

definition discover :: "nuke_env \<Rightarrow> github \<Rightarrow> string list \<Rightarrow> nuke \<Rightarrow> nuke wf_prog" where
  "discover E g paths n = pbind (cleanup_each (discover_file E) paths n) (\<lambda>n.
     pbind (discover_environments E g n) (\<lambda>n. pbind (discover_buckets E n) (\<lambda>n.
     pbind (cleanup_each (discover_backend E) (ncBackends n) n) (\<lambda>n.
     Ret (n\<lparr>ncTargets := sort_key target_order (ncTargets n)\<rparr>)))))"

end
