(* ===== verification/NukeCleanup.thy ===== *)
theory NukeCleanup
  imports NukeRun
begin

text \<open>
  The removal of the deployment roles, GitHub environments and local settings
  (\<open>cleanupEnvironments\<close> of \<open>workflow/nuke_cleanup.go\<close>), and the run (\<open>runNukeMode\<close> of \<open>nuke.go\<close>).
\<close>

section \<open>Roles\<close>

text \<open>The environment and the subject the tags name; the last tag of a kind counts.\<close>

definition setup_tag :: "string \<Rightarrow> string \<Rightarrow> string option" where
  "setup_tag k v = (if k = ''attestra-setup'' \<and> has_prefix v ''github-'' then Some (drop 7 v) else None)"

definition tagged_environment :: "(string \<times> string) list \<Rightarrow> string" where
  "tagged_environment tags = (case List.map_filter (\<lambda>(k, v). setup_tag k v) tags of [] \<Rightarrow> [] | es \<Rightarrow> last es)"

definition tagged_subject :: "(string \<times> string) list \<Rightarrow> string" where
  "tagged_subject tags = (case filter (\<lambda>(k, v). k = ''attestra-subject'') tags of [] \<Rightarrow> [] | ts \<Rightarrow> snd (last ts))"

definition report_subject :: "string \<Rightarrow> string \<Rightarrow> string" where
  "report_subject repository environment = ''repo:'' @ repository @ '':environment:'' @ environment"

text \<open>The environment that a role of this repository was set up for.\<close>

definition role_environment :: "nuke_env \<Rightarrow> string \<Rightarrow> role_snapshot \<Rightarrow> string option" where
  "role_environment E repository role =
    (let environment = tagged_environment (roTags role); subject = tagged_subject (roTags role) in
     if environment = [] \<or> (subject \<noteq> report_subject repository environment \<and>
        subject \<noteq> immutable_subject (teMetadata E) environment) then None
     else Some environment)"

definition own_session :: "string \<Rightarrow> string \<Rightarrow> bool" where
  "own_session caller name \<longleftrightarrow> str_contains caller ('':assumed-role/'' @ name @ ''/'')"

definition get_role :: "string \<Rightarrow> string list" where
  "get_role name = [''iam'', ''get-role'', ''--role-name'', name]"

definition role_look :: "nuke_env \<Rightarrow> string \<Rightarrow> (wf_err + unit option) wf_prog" where
  "role_look E name = aws (teLib E) home_region (get_role name) (\<lambda>x. Ret (look_seen (aws_found x)))"

definition cleanup_role :: "nuke_env \<Rightarrow> string \<Rightarrow> string \<Rightarrow> string \<Rightarrow> string \<Rightarrow> nuke \<Rightarrow> nuke wf_prog" where
  "cleanup_role E caller name arn environment n = (let label = ''Deployment role '' @ arn in
     if own_session caller name
     then nuke_failure E label (WText ''cannot delete the administrator session's own role'') n
     else pbind (nuke_step label (role_look E name)
       (\<lambda>_. delete_role (teLib E) home_region arn environment (teMetadata E))) (\<lambda>r. nuke_record E r n))"

definition cleanup_listed_role :: "nuke_env \<Rightarrow> string \<Rightarrow> string \<times> string \<Rightarrow> nuke \<Rightarrow> nuke wf_prog" where
  "cleanup_listed_role E caller x n = (case x of (name, arn) \<Rightarrow>
     aws (teLib E) home_region (get_role name) (\<lambda>x. case aws_decode (parse_role (teLib E)) x of
       Inl e \<Rightarrow> nuke_failure E (''Inspect role '' @ name) e n
     | Inr None \<Rightarrow> Ret n
     | Inr (Some role) \<Rightarrow> (case role_environment E (ncRepository n) role of
         None \<Rightarrow> Ret n
       | Some environment \<Rightarrow> cleanup_role E caller name arn environment n)))"

definition cleanup_roles :: "nuke_env \<Rightarrow> string \<Rightarrow> nuke \<Rightarrow> nuke wf_prog" where
  "cleanup_roles E caller n = aws (teLib E) home_region [''iam'', ''list-roles''] (\<lambda>x.
     case aws_decode (nlRoles (nvLib E)) x of
       Inl e \<Rightarrow> nuke_failure E ''Deployment role discovery'' e n
     | Inr (Some (Some roles)) \<Rightarrow> cleanup_each (cleanup_listed_role E caller) roles n
     | _ \<Rightarrow> nuke_failure E ''Deployment role discovery'' (WText ''incomplete IAM role listing'') n)"

definition target_environment :: "nuke_target \<Rightarrow> string" where
  "target_environment t = (if tpEnvironment (ntEvidence t) = [] then ntStack t else tpEnvironment (ntEvidence t))"

definition cleanup_target_role :: "nuke_env \<Rightarrow> string \<Rightarrow> nuke_target \<Rightarrow> nuke \<Rightarrow> nuke wf_prog" where
  "cleanup_target_role E caller t n = (let arn = map_value (tpValues (ntEvidence t)) ''AWS_ROLE_ARN'' in
     if ntProject t \<noteq> app_project \<or> arn = [] then Ret n
     else case split_str 0 '':role/'' arn of
       [_, name] \<Rightarrow> cleanup_role E caller name arn (target_environment t) n
     | _ \<Rightarrow> nuke_failure E ''Deployment role'' (WText ''invalid role ARN'') n)"

definition all_environments :: "nuke \<Rightarrow> string list" where
  "all_environments n = add_new (map target_environment (filter (\<lambda>t. ntProject t = app_project) (ncTargets n)))
     (ncEnvironments n)"

section \<open>Environments and settings\<close>

definition environment_look :: "nuke_env \<Rightarrow> github \<Rightarrow> string \<Rightarrow> string \<Rightarrow> string \<Rightarrow> (wf_err + unit option) wf_prog" where
  "environment_look E g repository account environment =
    github_run (inspect_environment g repository environment) (\<lambda>(s, e). Ret (case e of
      Some e \<Rightarrow> Inl (WText e)
    | None \<Rightarrow> (let now = map_value (gsVariables s) ''AWS_ACCOUNT_ID'' in
        if now \<noteq> [] \<and> now \<noteq> account
        then Inl (WText ''GitHub environment now points to another account; retained'')
        else Inr (seen_if (gsExists s)))))"

definition environment_remove :: "nuke_env \<Rightarrow> github \<Rightarrow> string \<Rightarrow> string \<Rightarrow> wf_err option wf_prog" where
  "environment_remove E g repository environment = pbind (no_nuke_deployments E g repository) (\<lambda>e. case e of
     Some e \<Rightarrow> Ret (Some e)
   | None \<Rightarrow> github_run (gh_request g ''DELETE'' (environment_path g repository environment) []) (\<lambda>x.
       Ret (case x of Inl e \<Rightarrow> Some (WText e) | Inr _ \<Rightarrow> None)))"

definition cleanup_environment :: "nuke_env \<Rightarrow> github \<Rightarrow> string \<Rightarrow> nuke \<Rightarrow> nuke wf_prog" where
  "cleanup_environment E g environment n = pbind (nuke_step (''GitHub environment '' @ environment)
       (environment_look E g (ncRepository n) (ncAccount n) environment)
       (\<lambda>_. environment_remove E g (ncRepository n) environment)) (\<lambda>r. nuke_record E r n)"

definition file_look :: "string \<Rightarrow> (wf_err + unit option) wf_prog" where
  "file_look path = Call (WLstat path) (\<lambda>r. Ret (case f_err (w_file r) of
     Some FNotExist \<Rightarrow> Inr None | Some e \<Rightarrow> Inl (WFileError e) | None \<Rightarrow> Inr (Some ())))"

definition cleanup_file :: "nuke_env \<Rightarrow> string \<Rightarrow> string \<Rightarrow> nuke \<Rightarrow> nuke wf_prog" where
  "cleanup_file E label path n = pbind (nuke_step label (file_look path)
       (\<lambda>_. Call (WFile (FRemove path)) (\<lambda>r. Ret (map_option WFileError (f_err (w_file r))))))
     (\<lambda>r. nuke_record E r n)"

definition stack_file :: "nuke_env \<Rightarrow> string \<Rightarrow> string \<Rightarrow> string" where
  "stack_file E dir stack = path_join (wlVault (teLib E)) [teRoot E, dir, ''Pulumi.'' @ stack @ ''.yaml'']"

definition cleanup_settings :: "nuke_env \<Rightarrow> string \<Rightarrow> nuke \<Rightarrow> nuke wf_prog" where
  "cleanup_settings E environment n =
    pbind (cleanup_local (td_env.truncate E) (progress_for (ncRepository n) environment Map.empty)) (\<lambda>e. case e of
      Some e \<Rightarrow> nuke_failure E (''Local setup '' @ environment) e n
    | None \<Rightarrow> cleanup_file E (''Local stack config '' @ environment) (stack_file E ''infra'' environment) n)"

definition cleanup_shared :: "nuke_env \<Rightarrow> nuke_target \<Rightarrow> nuke \<Rightarrow> nuke wf_prog" where
  "cleanup_shared E t n = (if ntProject t \<noteq> index_project then Ret n else
     cleanup_file E (''Local shared stack config '' @ ntStack t) (stack_file E ''infra-index'' (ntStack t)) n)"

definition cleanup_environments :: "nuke_env \<Rightarrow> github \<Rightarrow> string \<Rightarrow> nuke \<Rightarrow> nuke wf_prog" where
  "cleanup_environments E g caller n = pbind (cleanup_roles E caller n) (\<lambda>n.
     let environments = all_environments n in
     pbind (cleanup_each (cleanup_target_role E caller) (ncTargets n) n) (\<lambda>n.
     pbind (cleanup_each (cleanup_environment E g) environments n) (\<lambda>n.
     if \<not> nuke_successful (ncResults n) then Ret n else
     pbind (cleanup_each (cleanup_settings E) environments n) (\<lambda>n.
     cleanup_each (cleanup_shared E) (ncTargets n) n))))"

section \<open>The run\<close>

definition target_indices :: "nuke \<Rightarrow> string \<Rightarrow> nat list" where
  "target_indices n project = filter (\<lambda>i. ntProject (ncTargets n ! i) = project) [0..<length (ncTargets n)]"

definition destroy_targets :: "nuke_env \<Rightarrow> nuke \<Rightarrow> nuke wf_prog" where
  "destroy_targets E n = cleanup_each (destroy_target E) (concat (map (target_indices n) projects)) n"

definition outside_note :: nuke_result where
  "outside_note = nuke_result ''Shared OIDC provider and DNS zones'' ''INFO''
     ''outside project ownership; retained because other repositories/services may use them''"

definition incomplete :: "nuke_env \<Rightarrow> nuke \<Rightarrow> wf_err" where
  "incomplete E n = WText (''nuke incomplete; inspect '' @ nuke_path (nvDir E) (ncAccount n) @
     '' and rerun to retry; confirmed ABSENT items are successful'')"

definition conclude :: "nuke_env \<Rightarrow> nuke \<Rightarrow> (nuke \<times> wf_err option) wf_prog" where
  "conclude E n = (if halted n then pbind (report_retained E n) (\<lambda>n. Ret (n, Some (incomplete E n))) else Ret (n, None))"

definition remove_all :: "nuke_env \<Rightarrow> github \<Rightarrow> string \<Rightarrow> nuke \<Rightarrow> (nuke \<times> wf_err option) wf_prog" where
  "remove_all E g caller n = pbind (destroy_targets E n) (\<lambda>n. pbind (cleanup_environments E g caller n) (\<lambda>n.
     pbind (nuke_record E outside_note n) (\<lambda>n.
     pbind (if nkPersist n = None \<and> nuke_successful (ncResults n) then cleanup_recovery E n else Ret n) (conclude E))))"

definition authorize_label :: string where
  "authorize_label = ''Authorize permanent deletion of ALL listed environments, index/admin and data''"

definition authorize_phrase :: "nuke \<Rightarrow> string" where
  "authorize_phrase n = ''nuke '' @ ncRepository n @ '' '' @ ncAccount n"

definition authorized :: "nuke_env \<Rightarrow> github \<Rightarrow> string \<Rightarrow> nuke \<Rightarrow> (nuke \<times> wf_err option) wf_prog" where
  "authorized E g caller n = pbind (nuke_save E n) (\<lambda>(n, e). case e of
     Some e \<Rightarrow> Ret (n, Some e)
   | None \<Rightarrow> pbind (no_nuke_deployments E g (ncRepository n)) (\<lambda>e. case e of
       Some e \<Rightarrow> Ret (n, Some e)
     | None \<Rightarrow> remove_all E g caller n))"

definition nuke_run :: "nuke_env \<Rightarrow> github \<Rightarrow> string \<Rightarrow> string list \<Rightarrow> nuke \<Rightarrow> (nuke \<times> wf_err option) wf_prog" where
  "nuke_run E g caller paths n = pbind (discover E g paths n) (\<lambda>n.
     typed_confirmation authorize_label (authorize_phrase n) (\<lambda>e. case e of
       Some e \<Rightarrow> Ret (n, Some e) | None \<Rightarrow> authorized E g caller n))"

end
