(* ===== verification/NukeCheck.thy ===== *)
theory NukeCheck
  imports NukeCleanup
begin

text \<open>
  The check of the last report, \<open>workflow/nuke_check.go\<close>: every result is looked up again by the name
  it was recorded under. \<open>finding\<close> is the error of a check: absence, \<open>errTeardownResourceRemains\<close> with
  what wraps it, or anything else.
\<close>

datatype finding = Absent | Remains string | Unknown string

definition finding_of :: "wf_err option \<Rightarrow> finding" where
  "finding_of e = (case e of None \<Rightarrow> Absent
     | Some e \<Rightarrow> if e = WRemains then Remains (err_text e) else Unknown (err_text e))"

definition remaining :: finding where "remaining = Remains (err_text WRemains)"

text \<open>\<open>errors.Join\<close> on the texts so far.\<close>

definition join_text :: "string option \<Rightarrow> string \<Rightarrow> string option" where
  "join_text a s = Some (case a of None \<Rightarrow> s | Some t \<Rightarrow> t @ [CHR 0x0A] @ s)"

definition all_finding :: "string option \<Rightarrow> string option \<Rightarrow> finding" where
  "all_finding remains unverified = (case unverified of Some s \<Rightarrow> Unknown s
     | None \<Rightarrow> (case remains of Some s \<Rightarrow> Remains s | None \<Rightarrow> Absent))"

fun check_all :: "finding wf_prog list \<Rightarrow> string option \<Rightarrow> string option \<Rightarrow> finding wf_prog" where
  "check_all [] remains unverified = Ret (all_finding remains unverified)"
| "check_all (p # ps) remains unverified = pbind p (\<lambda>x. case x of
     Absent \<Rightarrow> check_all ps remains unverified
   | Remains s \<Rightarrow> check_all ps (join_text remains s) unverified
   | Unknown s \<Rightarrow> check_all ps remains (join_text unverified s))"

definition check_each :: "finding wf_prog list \<Rightarrow> finding wf_prog" where
  "check_each ps = check_all ps None None"

section \<open>Single checks\<close>

definition presence :: "wf_err + bool \<Rightarrow> finding" where
  "presence x = (case x of
      Inl e \<Rightarrow> finding_of (Some e)
    | Inr found \<Rightarrow> if found then remaining else Unknown ''service returned no authoritative result'')"

definition check_probe :: "nuke_env \<Rightarrow> string \<Rightarrow> probe \<Rightarrow> finding wf_prog" where
  "check_probe E region p = pbind (verify_probe (teLib E) region p) (\<lambda>e. Ret (finding_of e))"

definition check_stack :: "nuke_env \<Rightarrow> string \<Rightarrow> nuke_target \<Rightarrow> finding wf_prog" where
  "check_stack E account t = aws (teLib E) (ntRegion t)
     (owner_args ''head-bucket'' (trim_prefix (ntBackend t) ''s3://'') account) (\<lambda>x. case aws_found x of
       Inl e \<Rightarrow> Ret (if nuke_missing gone_codes e then Absent else finding_of (Some e))
     | Inr _ \<Rightarrow> pulumi E t (own_pass E t) list_stacks (\<lambda>x. Ret (finding_of (remains_if (case x of
         Inl e \<Rightarrow> Inl e | Inr data \<Rightarrow> stack_listed_in (teLib E) data (ntStack t) (ntProject t))))))"

definition check_record :: "nuke_env \<Rightarrow> dns_record \<Rightarrow> finding wf_prog" where
  "check_record E want = (case teClient E of
     None \<Rightarrow> Ret (Unknown ''Cloudflare token unavailable'')
   | Some c \<Rightarrow> dns_run (cf_zones (teFuel E) c (drName want)) (\<lambda>x. case x of
       Inl e \<Rightarrow> Ret (Unknown e)
     | Inr zones \<Rightarrow> (case find (\<lambda>z. within_zone c (drName want) (znName z)) zones of
         None \<Rightarrow> Ret (Unknown ''no accessible DNS zone; cannot verify record absence'')
       | Some z \<Rightarrow> dns_run (cf_records (teFuel E) c (znID z) (drName want)) (\<lambda>x.
           Ret (finding_of (dns_verdict c want x))))))"

definition check_bucket :: "nuke_env \<Rightarrow> string \<Rightarrow> nuke_backend \<Rightarrow> finding wf_prog" where
  "check_bucket E account b = aws (teLib E) (nbRegion b) (owner_args ''head-bucket'' (nbBucket b) account) (\<lambda>x.
     Ret (if bucket_gone x then Absent else presence (aws_found x)))"

definition check_key :: "nuke_env \<Rightarrow> nuke_key \<Rightarrow> finding wf_prog" where
  "check_key E k = pbind (describe_key E (nkRegion k) (nkID k)) (\<lambda>x. Ret (case x of
     Inl e \<Rightarrow> finding_of (Some e)
   | Inr None \<Rightarrow> Absent
   | Inr (Some m) \<Rightarrow> Remains (err_text WRemains @ '' in '' @ nkRegion k @ '': KMS state '' @ kmState m @
       ''; deletion date '' @ deletion_date E (kmDate m))))"

fun log_finding :: "string \<Rightarrow> string list \<Rightarrow> finding" where
  "log_finding name [] = Absent"
| "log_finding name (g # gs) = (if g = [] then Unknown ''incomplete log group identity''
     else if g = name then remaining else log_finding name gs)"

definition check_log :: "nuke_env \<Rightarrow> string \<Rightarrow> string \<Rightarrow> finding wf_prog" where
  "check_log E region name = aws (teLib E) region (log_args name) (\<lambda>x.
     Ret (case aws_decode (nlLogGroups (nvLib E)) x of
       Inl e \<Rightarrow> finding_of (Some e)
     | Inr (Some (Some names)) \<Rightarrow> log_finding name names
     | _ \<Rightarrow> Unknown ''incomplete log group listing''))"

definition check_backups :: "nuke_env \<Rightarrow> string \<Rightarrow> string \<Rightarrow> finding wf_prog" where
  "check_backups E region table = aws (teLib E) region (list_backups table) (\<lambda>x.
     Ret (case aws_decode (nlBackups (nvLib E)) x of
       Inl e \<Rightarrow> finding_of (Some e)
     | Inr (Some (Some bs)) \<Rightarrow> if bs \<noteq> [] then remaining else Absent
     | _ \<Rightarrow> Unknown ''incomplete backup listing''))"

definition backup_identity :: "string \<Rightarrow> string \<Rightarrow> string option" where
  "backup_identity account arn = (let parts = split_on (CHR '':'') arn in
     if length parts < 6 \<or> parts ! 0 \<noteq> ''arn'' \<or> parts ! 2 \<noteq> ''dynamodb'' \<or> parts ! 3 = [] \<or> parts ! 4 \<noteq> account \<or>
        \<not> list_ex (\<lambda>part. str_contains part ''/backup/'') (drop 5 parts)
     then None else Some (parts ! 3))"

definition backup_finding :: "wf_err + string \<Rightarrow> finding" where
  "backup_finding x = (case x of
      Inl e \<Rightarrow> if backup_gone e then Absent else finding_of (Some e)
    | Inr status \<Rightarrow>
        if status = [] then Unknown ''incomplete backup description''
        else if status = ''DELETED'' then Absent
        else Remains (err_text WRemains @ '': backup status '' @ status))"

definition check_backup :: "nuke_env \<Rightarrow> string \<Rightarrow> string \<Rightarrow> finding wf_prog" where
  "check_backup E account arn = (case backup_identity account arn of
     None \<Rightarrow> Ret (Unknown ''invalid saved backup identity'')
   | Some region \<Rightarrow> describe_backup E region arn (\<lambda>x. Ret (backup_finding x)))"

definition check_role :: "nuke_env \<Rightarrow> string \<Rightarrow> string \<Rightarrow> finding wf_prog" where
  "check_role E account arn = (let pre = ''arn:aws:iam::'' @ account @ '':role/'' in
     if \<not> has_prefix arn pre \<or> trim_prefix arn pre = []
     then Ret (Unknown ''invalid saved deployment role identity'')
     else check_probe E home_region \<lparr>pbName = [], pbKind = ''role'', pbID = nlBase (nvLib E) (trim_prefix arn pre),
       pbZone = [], pbRecordType = [], pbRetained = False\<rparr>)"

fun environment_finding :: "string \<Rightarrow> string list \<Rightarrow> finding option" where
  "environment_finding name [] = None"
| "environment_finding name (e # es) = (if e = [] then Some (Unknown ''incomplete GitHub environment identity'')
     else if e = name then Some remaining else environment_finding name es)"

fun check_pages :: "nuke_env \<Rightarrow> github \<Rightarrow> string \<Rightarrow> string \<Rightarrow> nat \<Rightarrow> nat \<Rightarrow> finding gh_prog" where
  "check_pages E g repo name page 0 = Spin"
| "check_pages E g repo name page (Suc n) = pbind (gh_request g ''GET'' (environments_path repo page) []) (\<lambda>x.
     case gh_decode (nlEnvironments (nvLib E)) None x of
       Inl e \<Rightarrow> Ret (Unknown e)
     | Inr (Some (Some names)) \<Rightarrow> (case environment_finding name names of
         Some f \<Rightarrow> Ret f
       | None \<Rightarrow> if length names < 100 then Ret Absent else check_pages E g repo name (Suc page) n)
     | _ \<Rightarrow> Ret (Unknown ''GitHub environment listing unavailable; absence cannot be verified''))"

definition check_environment :: "nuke_env \<Rightarrow> string \<Rightarrow> string \<Rightarrow> finding wf_prog" where
  "check_environment E repo name = (case nvGithub E of
     None \<Rightarrow> Ret (Unknown ''GitHub credentials unavailable'')
   | Some g \<Rightarrow> github_run (check_pages E g repo name 1 (teFuel E)) Ret)"

definition check_file :: "nuke_env \<Rightarrow> string \<Rightarrow> string \<Rightarrow> finding wf_prog" where
  "check_file E dir stack = (case validate_environment stack of
     Some e \<Rightarrow> Ret (finding_of (Some e))
   | None \<Rightarrow> Call (WLstat (stack_file E dir stack)) (\<lambda>r. Ret (finding_of (lstat_verdict r))))"

section \<open>A saved name\<close>

text \<open>What the targets have under a name: the first resource or stack of that name ends the search, the
  records are collected.\<close>

definition own_check :: "nuke_env \<Rightarrow> string \<Rightarrow> string \<Rightarrow> nuke_target \<Rightarrow> finding wf_prog option" where
  "own_check E account name t =
    (case find (\<lambda>p. name = probe_label t p) (tpInventory (ntEvidence t)) of
       Some p \<Rightarrow> Some (check_probe E (probe_region t p) p)
     | None \<Rightarrow> if name = target_name t @ '' stack'' then Some (check_stack E account t) else None)"

definition target_records :: "string \<Rightarrow> nuke_target \<Rightarrow> dns_record list" where
  "target_records name t = filter (\<lambda>want. name = dns_label want) (tpDesired (ntEvidence t))"

fun target_checks :: "nuke_env \<Rightarrow> string \<Rightarrow> string \<Rightarrow> nuke_target list \<Rightarrow> finding wf_prog list \<Rightarrow>
    finding wf_prog option \<times> finding wf_prog list" where
  "target_checks E account name [] ps = (None, ps)"
| "target_checks E account name (t # ts) ps = (case own_check E account name t of
     Some p \<Rightarrow> (Some p, ps)
   | None \<Rightarrow> target_checks E account name ts (ps @ map (check_record E) (target_records name t)))"

text \<open>The log groups and backups of the inventories, once per region, kind and identifier.\<close>

definition part_check :: "nuke_env \<Rightarrow> string \<Rightarrow> string \<Rightarrow> probe \<Rightarrow> finding wf_prog option" where
  "part_check E name region p =
    (if pbKind p = ''lambda'' \<and> name = ''Log group /aws/lambda/'' @ pbID p
     then Some (check_log E region (''/aws/lambda/'' @ pbID p))
     else if pbKind p = ''table'' \<and> name = ''Backups for '' @ pbID p then Some (check_backups E region (pbID p))
     else None)"

fun part_checks :: "nuke_env \<Rightarrow> string \<Rightarrow> (string \<times> probe) list \<Rightarrow> string list \<Rightarrow> finding wf_prog list" where
  "part_checks E name [] seen = []"
| "part_checks E name ((region, p) # xs) seen =
    (let key = region @ ''/'' @ pbKind p @ ''/'' @ pbID p in
     if key \<in> set seen then part_checks E name xs seen
     else case part_check E name region p of
       None \<Rightarrow> part_checks E name xs seen
     | Some q \<Rightarrow> q # part_checks E name xs (key # seen))"

definition all_probes :: "nuke_target list \<Rightarrow> (string \<times> probe) list" where
  "all_probes ts = concat (map (\<lambda>t. map (\<lambda>p. (probe_region t p, p)) (tpInventory (ntEvidence t))) ts)"

definition saved_part :: "nuke_env \<Rightarrow> string \<Rightarrow> nuke \<Rightarrow> finding wf_prog list" where
  "saved_part E name n = (if has_prefix name ''Log group '' \<or> has_prefix name ''Backups for ''
     then part_checks E name (all_probes (ncTargets n)) [] else [])"

definition unsupported :: finding where
  "unsupported = Unknown ''saved result has no supported resource identity; manual verification required''"

definition local_prefix :: string where "local_prefix = ''Local stack config ''"
definition shared_prefix :: string where "shared_prefix = ''Local shared stack config ''"

definition check_local :: "nuke_env \<Rightarrow> string \<Rightarrow> finding wf_prog" where
  "check_local E name =
    (if has_prefix name local_prefix then check_file E ''infra'' (trim_prefix name local_prefix)
     else if has_prefix name shared_prefix then check_file E ''infra-index'' (trim_prefix name shared_prefix)
     else Ret unsupported)"

definition check_named :: "nuke_env \<Rightarrow> nuke \<Rightarrow> string \<Rightarrow> finding wf_prog" where
  "check_named E n name =
    (if has_prefix name ''Backup '' then check_backup E (ncAccount n) (trim_prefix name ''Backup '')
     else if has_prefix name ''Deployment role '' then check_role E (ncAccount n) (trim_prefix name ''Deployment role '')
     else if has_prefix name ''GitHub environment ''
     then check_environment E (ncRepository n) (trim_prefix name ''GitHub environment '')
     else if saved_part E name n \<noteq> [] then check_each (saved_part E name n)
     else check_local E name)"

definition check_artifact :: "nuke_env \<Rightarrow> nuke \<Rightarrow> string \<Rightarrow> finding wf_prog" where
  "check_artifact E n name = (case target_checks E (ncAccount n) name (ncTargets n) [] of
      (Some p, _) \<Rightarrow> p
    | (None, ps) \<Rightarrow>
        if ps \<noteq> [] then check_each ps
        else (case find (\<lambda>b. name = ''State bucket '' @ nbBucket b) (ncBackends n) of
          Some b \<Rightarrow> check_bucket E (ncAccount n) b
        | None \<Rightarrow> (let keys = filter (\<lambda>k. name = kms (nkID k)) (ncKeys n) in
            if keys \<noteq> [] then check_each (map (check_key E) keys) else check_named E n name)))"

section \<open>The check\<close>

definition check_result :: "nuke_result \<Rightarrow> finding \<Rightarrow> nuke_result" where
  "check_result previous f = (let detail = (\<lambda>s. ''Previous '' @ nrStatus previous @ ''; '' @ s) in case f of
      Absent \<Rightarrow> nuke_result (nrName previous) ''ABSENT'' (detail ''absence confirmed by post-nuke check'')
    | Remains s \<Rightarrow> nuke_result (nrName previous) ''REMAINS'' (detail s)
    | Unknown s \<Rightarrow> nuke_result (nrName previous) ''UNVERIFIED'' (detail s))"

text \<open>The last result of each name, in the order the names appear.\<close>

fun latest :: "nuke_result list \<Rightarrow> nuke_result list \<Rightarrow> nuke_result list" where
  "latest [] acc = acc"
| "latest (r # rs) acc = latest rs
     (if nrName r \<in> nrName ` set acc then map (\<lambda>q. if nrName q = nrName r then r else q) acc else acc @ [r])"

fun check_results :: "nuke_env \<Rightarrow> bool \<Rightarrow> nuke_result list \<Rightarrow> nuke \<Rightarrow> nuke wf_prog" where
  "check_results E fast [] n = Ret n"
| "check_results E fast (r # rs) n =
    (if fast \<and> nrStatus r \<noteq> ''REMAINS'' then check_results E fast rs (n\<lparr>ncCheckResults := ncCheckResults n @ [r]\<rparr>)
     else if nrStatus r = ''INFO'' then check_results E fast rs n
     else pbind (check_artifact E n (nrName r)) (\<lambda>f. check_results E fast rs
       (n\<lparr>ncCheckResults := ncCheckResults n @ [check_result r f],
          ncCheckedArtifacts := ncCheckedArtifacts n @ [nrName r]\<rparr>)))"

definition check_verdict :: "nuke_result list \<Rightarrow> wf_err option" where
  "check_verdict rs = (if rs = [] \<or> \<not> list_all (\<lambda>r. nrStatus r = ''ABSENT'' \<or> nrStatus r = ''INFO'') rs
     then Some (WText ''post-nuke check incomplete; inspect CheckResults in the saved report'') else None)"

definition check_source :: "bool \<Rightarrow> nuke \<Rightarrow> string + nuke_result list" where
  "check_source fast n =
    (if fast \<and> (ncCheckedAt n = [] \<or> ncCheckResults n = [])
     then Inl ''fast check requires a previous check; run -teardown -nuke -check first''
     else let rs = (if fast then ncCheckResults n else ncResults n) in
       if rs = [] then Inl ''previous nuke report has no results to check'' else Inr rs)"

definition check_saved :: "nuke \<times> wf_err option \<Rightarrow> (nuke \<times> wf_err option) wf_prog" where
  "check_saved x = (case x of
      (n, Some e) \<Rightarrow> Ret (n, Some (WText (''save post-nuke check: '' @ err_text e)))
    | (n, None) \<Rightarrow> Ret (n, check_verdict (ncCheckResults n)))"

definition check_last :: "nuke_env \<Rightarrow> bool \<Rightarrow> nuke \<Rightarrow> (nuke \<times> wf_err option) wf_prog" where
  "check_last E fast n = (case check_source fast n of
      Inl e \<Rightarrow> Ret (n, Some (WText e))
    | Inr rs \<Rightarrow> Call WNow (\<lambda>r. let n = n\<lparr>ncCheckResults := [], ncCheckedAt := w_now r,
          ncCheckScope := (if fast then ''remaining-only'' else ''all''), ncCheckedArtifacts := []\<rparr> in
        pbind (check_results E fast (latest rs []) n) (\<lambda>n. pbind (nuke_save E n) check_saved)))"

end
