(* ===== verification/NukeProps.thy ===== *)
theory NukeProps
  imports NukeCheck
begin

text \<open>
  What the removal of everything guarantees: the check of a report only reads, nothing is removed
  before the listed scope is authorized, and the state buckets and keys go last.
\<close>

section \<open>Programs and the calls they make\<close>

primrec only :: "('q \<Rightarrow> bool) \<Rightarrow> ('q, 'r, 'a) prog \<Rightarrow> bool" where
  "only R (Ret a) \<longleftrightarrow> True"
| "only R (Call q k) \<longleftrightarrow> R q \<and> (\<forall>r. only R (k r))"
| "only R Spin \<longleftrightarrow> True"

lemma only_pbind: "only R p \<Longrightarrow> (\<And>a. only R (f a)) \<Longrightarrow> only R (pbind p f)"
  by (induction p) auto

lemma only_lift: "only (\<lambda>q. R (f q)) p \<Longrightarrow> only R (lift_calls f g p)"
  by (induction p) auto

lemma only_safe: "only R p \<Longrightarrow> (\<And>q h. R q \<Longrightarrow> P q h) \<Longrightarrow> safe P (\<lambda>_ _. True) p h"
  by (induction p arbitrary: h) auto

lemma only_sum: "(\<And>x. a = Inl x \<Longrightarrow> only R (f x)) \<Longrightarrow> (\<And>x. a = Inr x \<Longrightarrow> only R (g x)) \<Longrightarrow> only R (case_sum f g a)"
  by (cases a) auto

lemma only_option: "only R p \<Longrightarrow> (\<And>x. a = Some x \<Longrightarrow> only R (f x)) \<Longrightarrow> only R (case_option p f a)"
  by (cases a) auto

lemma only_if: "(c \<Longrightarrow> only R p) \<Longrightarrow> (\<not> c \<Longrightarrow> only R q) \<Longrightarrow> only R (if c then p else q)"
  by simp

lemma only_prod: "(\<And>x y. only R (f x y)) \<Longrightarrow> only R (case_prod f a)"
  by (cases a) auto

lemmas only_intros = only_pbind only_sum only_option only_if only_prod

section \<open>Reading\<close>

definition reading_args :: "string list \<Rightarrow> bool" where
  "reading_args args = (case args of
      service # operation # _ \<Rightarrow> list_ex (has_prefix operation) [''get-'', ''list-'', ''describe-'', ''head-'']
    | _ \<Rightarrow> False)"

definition reading_gh :: "gh_call \<Rightarrow> bool" where
  "reading_gh q = (case q of GNew meth url \<Rightarrow> meth = ''GET'' | GSend rq \<Rightarrow> gqMethod rq = ''GET'' | GSeal k s \<Rightarrow> False)"

definition reading_dns :: "dns_call \<Rightarrow> bool" where
  "reading_dns q = (case q of DNew meth url \<Rightarrow> meth = ''GET'' | DSend rq \<Rightarrow> dqMethod rq = ''GET'')"

text \<open>Calls that change nothing outside the tool.\<close>

definition reading :: "wf_call \<Rightarrow> bool" where
  "reading q = (case q of
      WAws region args \<Rightarrow> reading_args args
    | WExec rn dir args \<Rightarrow> take 3 args = [''pulumi'', ''stack'', ''ls'']
    | WGithub q \<Rightarrow> reading_gh q
    | WDns q \<Rightarrow> reading_dns q
    | WFile q \<Rightarrow> (case q of FRead path \<Rightarrow> True | _ \<Rightarrow> False)
    | WLstat path \<Rightarrow> True | WInput label \<Rightarrow> True | WNow \<Rightarrow> True
    | _ \<Rightarrow> False)"

text \<open>The calls that save the report: they touch the report, its backup and a temporary file.\<close>

definition report_temp :: "nuke_env \<Rightarrow> string \<Rightarrow> (wf_call \<times> wf_resp) list \<Rightarrow> bool" where
  "report_temp E file h \<longleftrightarrow> (\<exists>r. (WFile (FCreateTemp (nvDir E) ''nuke-report-'' []), r) \<in> set h \<and> f_name (w_file r) = file)"

definition saves :: "nuke_env \<Rightarrow> string \<Rightarrow> wf_call \<Rightarrow> (wf_call \<times> wf_resp) list \<Rightarrow> bool" where
  "saves E account q h \<longleftrightarrow> (let path = nuke_path (nvDir E) account in
     q \<in> WFile ` {FCreateTemp (nvDir E) ''nuke-report-'' [], FStat path, FRename path (path @ ''.bak''),
       FRemove (path @ ''.bak'')} \<or>
     (\<exists>file b. report_temp E file h \<and> q \<in> WFile ` {FWrite file b, FClose file, FRemove file, FRename file path}))"

definition harmless :: "nuke_env \<Rightarrow> string \<Rightarrow> wf_call \<Rightarrow> (wf_call \<times> wf_resp) list \<Rightarrow> bool" where
  "harmless E account q h \<longleftrightarrow> reading q \<or> saves E account q h"

lemma reading_cases [simp]:
  "reading (WAws region args) \<longleftrightarrow> reading_args args" "reading (WLstat path)" "reading (WInput label)" "reading WNow"
  "reading (WFile (FRead path))" "reading (WGithub q) \<longleftrightarrow> reading_gh q" "reading (WDns d) \<longleftrightarrow> reading_dns d"
  "reading (WExec rn dir args) \<longleftrightarrow> take 3 args = [''pulumi'', ''stack'', ''ls'']"
  by (simp_all add: reading_def)

lemma report_temp_cons: "report_temp E file (h @ t) \<longleftrightarrow> report_temp E file h \<or> report_temp E file t"
  by (auto simp: report_temp_def)

lemma save_safe:
  "safe (harmless E (ncAccount n)) (\<lambda>(n', e) _. \<exists>u. n' = n\<lparr>ncUpdatedAt := u\<rparr>) (nuke_save E n) h"
  by (auto simp: nuke_save_def file_run_def nuke_save_file_def removing_def nuke_replace_def swap_in_def Let_def
      harmless_def saves_def report_temp_cons report_temp_def split: option.split file_error.split)

lemma save_as:
  assumes "ncAccount n = a"
  shows "safe (harmless E a) (\<lambda>_ _. True) (nuke_save E n) h"
  by (rule safe_conseq [OF save_safe [of E n, unfolded assms]]) simp

lemma safe_ifI: "(c \<Longrightarrow> safe P Q p h) \<Longrightarrow> (\<not> c \<Longrightarrow> safe P Q q h) \<Longrightarrow> safe P Q (if c then p else q) h"
  by simp

section \<open>What only reads\<close>

named_theorems reads "programs that only read"

lemma only_aws: "reading_args (args @ aws_flags) \<Longrightarrow> (\<And>x. only reading (k x)) \<Longrightarrow> only reading (aws W region args k)"
  by (simp add: aws_def)

lemma only_exec: "take 3 args = [''pulumi'', ''stack'', ''ls''] \<Longrightarrow> (\<And>x. only reading (k x)) \<Longrightarrow>
    only reading (exec rn dir args k)"
  by (simp add: exec_def)

lemma only_github: "only reading_gh p \<Longrightarrow> (\<And>x. only reading (k x)) \<Longrightarrow> only reading (github_run p k)"
  unfolding github_run_def by (rule only_pbind [OF only_lift]) simp_all

lemma only_dns: "only reading_dns p \<Longrightarrow> (\<And>x. only reading (k x)) \<Longrightarrow> only reading (dns_run p k)"
  unfolding dns_run_def by (rule only_pbind [OF only_lift]) simp_all

lemmas read_intros = only_intros only_aws only_exec only_github only_dns

lemma gh_get [reads]: "only reading_gh (gh_request g ''GET'' path body)"
  by (simp add: gh_request_def reading_gh_def)

lemma cf_get [reads]: "only reading_dns (cf_request c ''GET'' path body)"
  by (simp add: cf_request_def reading_dns_def)

lemma reading_args_cons [simp]: "reading_args (service # operation # args) \<longleftrightarrow>
    has_prefix operation ''get-'' \<or> has_prefix operation ''list-'' \<or> has_prefix operation ''describe-'' \<or>
    has_prefix operation ''head-''"
  by (simp add: reading_args_def)

lemma owner_reading [simp]: "reading_args (owner_args operation bucket account @ args) \<longleftrightarrow>
    reading_args [''s3api'', operation]"
  by (simp add: owner_args_def)

lemma probe_reading: "probe_args W p = Inr args \<Longrightarrow> reading_args (args @ aws_flags)"
  by (auto simp: probe_args_def has_prefix_def Let_def split: if_splits)

lemma verify_reads [reads]: "only reading (verify_probe W region p)"
  unfolding verify_probe_def by (auto intro!: read_intros simp: probe_reading)

lemma zones_reads: "only reading_dns (zones_from c domain page acc n)"
  by (induction c domain page acc n rule: zones_from.induct) (auto simp: Let_def intro!: only_intros reads)

lemma records_reads: "only reading_dns (records_from c zone name page acc n)"
  by (induction c zone name page acc n rule: records_from.induct)
    (auto intro!: only_pbind reads split: sum.split option.split)

lemma cf_zones_reads [reads]: "only reading_dns (cf_zones n c domain)"
  by (simp add: cf_zones_def zones_reads)

lemma cf_records_reads [reads]: "only reading_dns (cf_records n c zone name)"
  by (simp add: cf_records_def records_reads)

lemma list_environments_reads [reads]: "only reading_gh (list_environments n g repo)"
proof -
  have "only reading_gh (environments_from g repo page acc n)" for page acc
    by (induction n arbitrary: page acc) (auto intro!: only_intros reads)
  then show ?thesis by (simp add: list_environments_def)
qed

lemma inspect_environment_reads [reads]: "only reading_gh (inspect_environment g repo environment)"
proof -
  have "only reading_gh (inspect_variables g path names s)" for path names s
    by (induction names arbitrary: s) (auto intro!: only_intros reads)
  then show ?thesis
    by (auto simp: inspect_environment_def Let_def intro!: only_pbind reads split: sum.split bool.split)
qed

lemma describe_key_reads [reads]: "only reading (describe_key E region i)"
  unfolding describe_key_def by (rule only_aws) (simp_all add: has_prefix_def)

lemma describe_backup_reads: "(\<And>x. only reading (k x)) \<Longrightarrow> only reading (describe_backup E region arn k)"
  unfolding describe_backup_def by (rule only_aws) (simp_all add: has_prefix_def)

lemma check_all_reads: "list_all (only reading) ps \<Longrightarrow> only reading (check_all ps a b)"
  by (induction ps arbitrary: a b) (auto intro!: only_pbind split: finding.split)

lemma check_each_reads [reads]: "list_all (only reading) ps \<Longrightarrow> only reading (check_each ps)"
  by (simp add: check_each_def check_all_reads)

lemma check_probe_reads [reads]: "only reading (check_probe E region p)"
  unfolding check_probe_def by (intro read_intros reads) simp

lemma pulumi_reads: "(\<And>x. only reading (k x)) \<Longrightarrow> only reading (pulumi E t pass list_stacks k)"
  unfolding pulumi_def by (rule only_exec) (simp_all add: list_stacks_def)

lemma check_stack_reads [reads]: "only reading (check_stack E account t)"
  unfolding check_stack_def by (intro read_intros pulumi_reads) (simp_all add: has_prefix_def)

lemma check_record_reads [reads]: "only reading (check_record E want)"
  unfolding check_record_def by (intro read_intros reads) simp_all

lemma check_bucket_reads [reads]: "only reading (check_bucket E account b)"
  unfolding check_bucket_def by (intro read_intros) (simp_all add: has_prefix_def)

lemma check_key_reads [reads]: "only reading (check_key E k)"
  unfolding check_key_def by (intro read_intros reads) simp

lemma check_log_reads [reads]: "only reading (check_log E region name)"
  unfolding check_log_def by (intro read_intros) (simp_all add: log_args_def has_prefix_def)

lemma check_backups_reads [reads]: "only reading (check_backups E region table)"
  unfolding check_backups_def by (intro read_intros) (simp_all add: list_backups_def has_prefix_def)

lemma check_backup_reads [reads]: "only reading (check_backup E account arn)"
  unfolding check_backup_def by (intro read_intros describe_backup_reads) simp_all

lemma check_role_reads [reads]: "only reading (check_role E account arn)"
  by (simp add: check_role_def Let_def reads)

lemma check_environment_reads [reads]: "only reading (check_environment E repo name)"
proof -
  have "only reading_gh (check_pages E g repo name page n)" for g page n
    by (induction n arbitrary: page) (auto intro!: only_pbind reads split: sum.split option.split)
  then show ?thesis unfolding check_environment_def by (intro read_intros) simp_all
qed

lemma check_local_reads [reads]: "only reading (check_local E name)"
  by (simp add: check_local_def check_file_def split: option.split)

lemma own_check_reads: "own_check E account name t = Some p \<Longrightarrow> only reading p"
  by (auto simp: own_check_def reads split: option.splits if_splits)

lemma target_checks_reads:
  assumes "list_all (only reading) ps" "target_checks E account name ts ps = (x, qs)"
  shows "list_all (only reading) qs \<and> (case x of None \<Rightarrow> True | Some p \<Rightarrow> only reading p)"
  using assms
proof (induction ts arbitrary: ps)
  case (Cons t ts)
  have recs: "list_all (only reading) (map (check_record E) ws)" for ws by (induction ws) (simp_all add: reads)
  show ?case
  proof (cases "own_check E account name t")
    case None
    with Cons.IH [of "ps @ map (check_record E) (target_records name t)"] Cons.prems recs show ?thesis by simp
  next
    case (Some p)
    with Cons.prems have "x = Some p" "qs = ps" by auto
    with Cons.prems own_check_reads [OF Some] show ?thesis by simp
  qed
qed simp

lemma part_checks_reads: "list_all (only reading) (part_checks E name xs seen)"
proof (induction xs arbitrary: seen)
  case (Cons x xs)
  obtain region p where x: "x = (region, p)" by (cases x)
  have "part_check E name region p = Some q \<Longrightarrow> only reading q" for q
    by (auto simp: part_check_def reads split: if_splits)
  with Cons x show ?case by (auto simp: Let_def split: option.split)
qed simp

lemma check_named_reads [reads]: "only reading (check_named E n name)"
  unfolding check_named_def
  by (intro read_intros reads) (auto simp: saved_part_def part_checks_reads)

lemma check_artifact_reads [reads]: "only reading (check_artifact E n name)"
proof -
  have keys: "list_all (only reading) (map (check_key E) ks)" for ks by (induction ks) (simp_all add: reads)
  obtain x ps where t: "target_checks E (ncAccount n) name (ncTargets n) [] = (x, ps)" by fastforce
  show ?thesis
    using target_checks_reads [OF _ t] keys
    by (cases x) (auto simp: check_artifact_def t Let_def reads split: option.split)
qed

lemma check_results_reads:
  "safe (harmless E account) (\<lambda>n' _. ncAccount n' = ncAccount n) (check_results E fast rs n) h"
proof (induction rs arbitrary: n h)
  case (Cons r rs n h)
  have IH: "safe (harmless E account) (\<lambda>n' _. ncAccount n' = a) (check_results E fast rs m) h"
    if "ncAccount m = a" for m h a using Cons [of m h] that by simp
  have "safe (harmless E account) (\<lambda>_ _. True) (check_artifact E n (nrName r)) h"
    by (rule only_safe [OF check_artifact_reads]) (simp add: harmless_def)
  then have "safe (harmless E account) (\<lambda>n' _. ncAccount n' = ncAccount n)
      (pbind (check_artifact E n (nrName r)) (\<lambda>f. check_results E fast rs
       (n\<lparr>ncCheckResults := ncCheckResults n @ [check_result r f],
          ncCheckedArtifacts := ncCheckedArtifacts n @ [nrName r]\<rparr>))) h"
    by (rule safe_bindI) (rule IH, simp)
  moreover have "safe (harmless E account) (\<lambda>n' _. ncAccount n' = ncAccount n) (check_results E fast rs m) h"
    if "ncAccount m = ncAccount n" for m using IH [OF that] .
  ultimately show ?case unfolding check_results.simps by (intro safe_ifI) simp_all
qed simp

text \<open>The check after a removal changes nothing: every call it makes reads, or saves the report
  through its backup and a temporary file of its own, whatever the report holds and the services answer.\<close>

theorem check_reads: "safe (harmless E (ncAccount n)) (\<lambda>_ _. True) (check_last E fast n) h"
proof (cases "check_source fast n")
  case (Inr rs)
  have told: "safe (harmless E (ncAccount n)) (\<lambda>_ _. True) (check_saved x) h" for x h
    by (auto simp: check_saved_def split: prod.split option.split)
  have "safe (harmless E (ncAccount n)) (\<lambda>_ _. True) (pbind (check_results E fast qs m) (\<lambda>n. pbind (nuke_save E n) check_saved)) h"
    if "ncAccount m = ncAccount n" for m qs h
    by (rule safe_bindI [OF check_results_reads [where n = m]], rule safe_bindI [OF save_as])
      (simp_all add: that told)
  with Inr show ?thesis by (simp add: check_last_def Let_def harmless_def)
qed (simp add: check_last_def)

section \<open>What the discovery does\<close>

definition same_report :: "nuke \<Rightarrow> nuke \<Rightarrow> bool" where
  "same_report n m \<longleftrightarrow> ncAccount m = ncAccount n \<and> ncRepository m = ncRepository n"

definition quiet :: "nuke_env \<Rightarrow> nuke \<Rightarrow> nuke wf_prog \<Rightarrow> bool" where
  "quiet E n p \<longleftrightarrow> (\<forall>h. safe (harmless E (ncAccount n)) (\<lambda>m _. same_report n m) p h)"

named_theorems quiets "steps that only read and report"

lemma quiet_ret [quiets]: "same_report n m \<Longrightarrow> quiet E n (Ret m)"
  by (simp add: quiet_def)

lemma quiet_bind: "quiet E n p \<Longrightarrow> (\<And>m. same_report n m \<Longrightarrow> quiet E n (f m)) \<Longrightarrow> quiet E n (pbind p f)"
  unfolding quiet_def by (blast intro: safe_bindI)

lemma quiet_record [quiets]:
  assumes "same_report n m"
  shows "quiet E n (nuke_record E r m)"
proof -
  let ?m = "m\<lparr>ncResults := ncResults m @ [r]\<rparr>"
  have a: "ncAccount ?m = ncAccount n" using assms by (simp add: same_report_def)
  have "safe (harmless E (ncAccount n)) (\<lambda>m _. same_report n m) (pbind (nuke_save E ?m) (\<lambda>(n, e). Ret (case e of
      None \<Rightarrow> n | Some e \<Rightarrow> n\<lparr>nkPersist := Some e\<rparr>))) h" for h
    by (rule safe_bindI [OF save_safe [of E ?m, unfolded a]])
      (use assms in \<open>auto simp: same_report_def split: option.split\<close>)
  then show ?thesis by (simp add: quiet_def nuke_record_def)
qed

lemma quiet_failure [quiets]: "same_report n m \<Longrightarrow> quiet E n (nuke_failure E name e m)"
  by (simp add: nuke_failure_def quiet_record)

lemma quiet_each:
  "same_report n m \<Longrightarrow> (\<And>x m. same_report n m \<Longrightarrow> quiet E n (f x m)) \<Longrightarrow> quiet E n (cleanup_each f xs m)"
  by (induction xs arbitrary: m) (auto intro: quiet_ret quiet_bind)

lemma quiet_reads: "only reading p \<Longrightarrow> (\<And>x. quiet E n (f x)) \<Longrightarrow> quiet E n (pbind p f)"
  unfolding quiet_def by (blast intro: safe_bindI [OF only_safe] harmless_def [THEN iffD2])

lemma pbind_aws: "aws W region args k = pbind (aws W region args Ret) k"
  by (simp add: aws_def)

lemma pbind_exec: "exec rn dir args k = pbind (exec rn dir args Ret) k"
  by (simp add: exec_def)

lemma pbind_github: "github_run p k = pbind (github_run p Ret) k"
  by (simp add: github_run_def pbind_assoc)

lemma quiet_aws: "reading_args (args @ aws_flags) \<Longrightarrow> (\<And>x. quiet E n (k x)) \<Longrightarrow> quiet E n (aws W region args k)"
  by (subst pbind_aws) (rule quiet_reads [OF only_aws], simp_all)

lemma quiet_exec: "take 3 args = [''pulumi'', ''stack'', ''ls''] \<Longrightarrow> (\<And>x. quiet E n (k x)) \<Longrightarrow>
    quiet E n (exec rn dir args k)"
  by (subst pbind_exec) (rule quiet_reads [OF only_exec], simp_all)

lemma quiet_github: "only reading_gh p \<Longrightarrow> (\<And>x. quiet E n (k x)) \<Longrightarrow> quiet E n (github_run p k)"
  by (subst pbind_github) (rule quiet_reads [OF only_github], simp_all)

lemma quiet_file: "(\<And>r. quiet E n (k r)) \<Longrightarrow> quiet E n (Call (WFile (FRead path)) k)"
  by (simp add: quiet_def harmless_def)

lemma quiet_if: "(c \<Longrightarrow> quiet E n p) \<Longrightarrow> (\<not> c \<Longrightarrow> quiet E n q) \<Longrightarrow> quiet E n (if c then p else q)"
  by simp

lemma quiet_sum: "(\<And>x. quiet E n (f x)) \<Longrightarrow> (\<And>x. quiet E n (g x)) \<Longrightarrow> quiet E n (case_sum f g a)"
  by (cases a) auto

lemma quiet_option: "quiet E n p \<Longrightarrow> (\<And>x. quiet E n (f x)) \<Longrightarrow> quiet E n (case_option p f a)"
  by (cases a) auto

lemma quiet_prod: "(\<And>x y. quiet E n (f x y)) \<Longrightarrow> quiet E n (case_prod f a)"
  by (cases a) auto

lemmas quiet_intros = quiet_if quiet_sum quiet_option quiet_prod quiet_bind quiet_each quiet_aws quiet_exec
  quiet_github quiet_file

lemma same_changes [simp]:
  "same_report n (m\<lparr>ncTargets := ts\<rparr>) = same_report n m" "same_report n (m\<lparr>ncBackends := bs\<rparr>) = same_report n m"
  "same_report n (m\<lparr>ncEnvironments := es\<rparr>) = same_report n m" "same_report n (add_target t m) = same_report n m"
  "same_report n n"
  by (simp_all add: same_report_def add_target_def)

lemma add_backend_quiet [quiets]: "same_report n m \<Longrightarrow> quiet E n (add_backend E backend region m)"
  unfolding add_backend_def by (intro quiet_intros quiets) simp_all

lemma add_both_quiet [quiets]: "same_report n m \<Longrightarrow> quiet E n (add_both E t m)"
  unfolding add_both_def by (intro quiet_intros quiets) simp_all

lemma discover_file_quiet: "same_report n m \<Longrightarrow> quiet E n (discover_file E path m)"
  by (auto simp: discover_file_def Let_def shared_receipt_def environment_receipt_def teardown_receipt_def
      local_target_def intro!: quiet_intros quiets)

lemma discover_environments_quiet: "same_report n m \<Longrightarrow> quiet E n (discover_environments E g m)"
  unfolding discover_environments_def discover_environment_def note_environment_def Let_def
  by (intro quiet_intros quiets reads) simp_all

lemma discover_buckets_quiet: "same_report n m \<Longrightarrow> quiet E n (discover_buckets E m)"
  unfolding discover_buckets_def discover_bucket_def
  by (intro quiet_intros quiets) (simp_all add: has_prefix_def)

lemma discover_backend_quiet: "same_report n m \<Longrightarrow> quiet E n (discover_backend E b m)"
  unfolding discover_backend_def discover_stacks_def listed_stack_def Let_def
  by (intro quiet_intros quiets) (simp_all add: has_prefix_def list_stacks_def)

lemma discover_quiet: "quiet E n (discover E g paths n)"
  unfolding discover_def
  by (intro quiet_intros quiets discover_file_quiet discover_environments_quiet discover_buckets_quiet
      discover_backend_quiet) simp_all

section \<open>Authorization\<close>

definition approved :: "nuke \<Rightarrow> (wf_call \<times> wf_resp) list \<Rightarrow> bool" where
  "approved n h \<longleftrightarrow> (\<exists>r. (WInput authorize_label, r) \<in> set h \<and> w_input r = Inr (authorize_phrase n))"

text \<open>C21: Nothing is removed without authorization: until the phrase that names the repository and
  the account has been typed at its prompt, the run only reads and saves its report, whatever it finds.\<close>

theorem nuke_authorized:
  "safe (\<lambda>q h. harmless E (ncAccount n) q h \<or> approved n h) (\<lambda>_ _. True) (nuke_run E g caller paths n) h"
proof -
  have rest: "safe (\<lambda>q h. harmless E (ncAccount n) q h \<or> approved n h) (\<lambda>_ _. True) p h" if "approved n h" for p h
    by (rule safe_conseq [OF safe_stable [where I = "approved n"]]) (use that in \<open>auto simp: approved_def\<close>)
  have asked: "safe (\<lambda>q h. harmless E (ncAccount n) q h \<or> approved n h) (\<lambda>_ _. True)
      (typed_confirmation authorize_label (authorize_phrase m) (\<lambda>e. case e of
        Some e \<Rightarrow> Ret (m, Some e) | None \<Rightarrow> authorized E g caller m)) h" if "same_report n m" for m h
  proof -
    have "authorize_phrase m = authorize_phrase n" using that by (simp add: same_report_def authorize_phrase_def)
    moreover have "harmless E (ncAccount n) (WInput l) h" for l h by (simp add: harmless_def)
    moreover have "approved n (h @ [(WInput authorize_label, r)])" if "w_input r = Inr (authorize_phrase n)" for r
      using that by (auto simp: approved_def)
    ultimately show ?thesis by (auto simp: typed_confirmation_def intro!: rest split: sum.split)
  qed
  have "safe (\<lambda>q h. harmless E (ncAccount n) q h \<or> approved n h) (\<lambda>m _. same_report n m) (discover E g paths n) h"
    by (rule safe_mono [OF discover_quiet [unfolded quiet_def, rule_format]]) auto
  from safe_bindI [OF this asked] show ?thesis by (simp add: nuke_run_def)
qed

end
