(* ===== verification/NukeRecovery.thy ===== *)
theory NukeRecovery
  imports NukeProps
begin

text \<open>
  The recovery data goes last (\<open>cleanup_recovery\<close>): no state bucket is touched before every bucket
  and every key has passed its preflight and the keys are in the saved report, and no key is
  scheduled for deletion before every bucket was seen to be gone.
\<close>

section \<open>Results\<close>

lemma nuke_step_gone:
  assumes "execs (nuke_step name look remove) t r" "good_status (nrStatus r)"
  shows "within look (Inr None) t"
proof -
  have failed: "\<not> good_status (nrStatus (nuke_result name s d))" if "s \<in> {''FAILED'', ''UNVERIFIED'', ''REMAINS''}" for s d
    using that by (auto simp: nuke_result_def good_status_def)
  from assms(1) obtain x t1 t2 where a: "t = t1 @ t2" "execs look t1 x" and
    b: "execs (case x of Inl e \<Rightarrow> Ret (nuke_result name ''FAILED'' (err_text e))
      | Inr None \<Rightarrow> Ret (nuke_result name ''ABSENT'' ''already absent; confirmed by read-back'')
      | Inr (Some m) \<Rightarrow> pbind (remove m) (\<lambda>e. pbind look (\<lambda>x. Ret (case e of
          Some e \<Rightarrow> after_error name e x | None \<Rightarrow> after_remove name x)))) t2 r"
    unfolding nuke_step_def execs_pbind by blast
  show ?thesis
  proof (cases x)
    case (Inl e)
    with b assms(2) failed show ?thesis by auto
  next
    case (Inr y)
    show ?thesis
    proof (cases y)
      case None
      with Inr a show ?thesis by (auto intro: within_here)
    next
      case (Some m)
      with Inr b obtain t3 t4 e z where c: "t2 = t3 @ t4" "execs look t4 z"
        "r = (case e of Some e \<Rightarrow> after_error name e z | None \<Rightarrow> after_remove name z)"
        by (auto simp: execs_pbind)
      have "z = Inr None"
        using assms(2) failed c(3)
        by (auto simp: after_error_def after_remove_def split: option.splits sum.splits)
      with a c show ?thesis using within_now [of look t4 "Inr None" "t1 @ t3"] by simp
    qed
  qed
qed

definition grown :: "nuke \<Rightarrow> nuke \<Rightarrow> bool" where
  "grown n m \<longleftrightarrow> ncAccount m = ncAccount n \<and> ncBackends m = ncBackends n \<and> (\<exists>rs. ncResults m = ncResults n @ rs)"

lemma grown_refl [simp]: "grown n n" by (simp add: grown_def)

lemma grown_trans: "grown n m \<Longrightarrow> grown m k \<Longrightarrow> grown n k" by (auto simp: grown_def)

lemma successful_append [simp]: "nuke_successful (rs @ ss) \<longleftrightarrow> nuke_successful rs \<and> nuke_successful ss"
  by (simp add: nuke_successful_def)

lemma grown_successful: "grown n m \<Longrightarrow> nuke_successful (ncResults m) \<Longrightarrow> nuke_successful (ncResults n)"
  by (auto simp: grown_def)

definition recorded :: "nuke_result \<Rightarrow> nuke \<Rightarrow> nuke \<Rightarrow> bool" where
  "recorded r n m \<longleftrightarrow> ncAccount m = ncAccount n \<and> ncBackends m = ncBackends n \<and> ncKeys m = ncKeys n \<and>
     ncResults m = ncResults n @ [r]"

lemma recorded_grown: "recorded r n m \<Longrightarrow> grown n m" by (auto simp: recorded_def grown_def)

lemma save_result: "safe (\<lambda>q _. reading q \<or> (\<exists>f. q = WFile f)) (\<lambda>(m, e) _. \<exists>u. m = n\<lparr>ncUpdatedAt := u\<rparr>) (nuke_save E n) h"
  by (rule safe_mono [OF save_safe]) (auto simp: harmless_def saves_def)

lemma record_result: "safe (\<lambda>q _. reading q \<or> (\<exists>f. q = WFile f)) (\<lambda>m _. recorded r n m) (nuke_record E r n) h"
  unfolding nuke_record_def
  by (rule safe_bindI [OF save_result]) (auto simp: recorded_def split: option.split)

lemma failure_result:
  "safe (\<lambda>q _. reading q \<or> (\<exists>f. q = WFile f)) (\<lambda>m _. grown n m \<and> ncKeys m = ncKeys n \<and> \<not> nuke_successful (ncResults m))
     (nuke_failure E name e n) h"
  unfolding nuke_failure_def
  by (rule safe_conseq [OF record_result])
    (auto simp: recorded_def grown_def nuke_successful_def nuke_result_def good_status_def)

section \<open>The order\<close>

definition key_cleared :: "nuke_env \<Rightarrow> string \<Rightarrow> nuke_key \<Rightarrow> (wf_call \<times> wf_resp) list \<Rightarrow> bool" where
  "key_cleared E account key h \<longleftrightarrow>
     (\<exists>x. within (key_preflight E account key) x h \<and> (\<forall>name e. x \<noteq> KeyFailed name e))"

definition key_confirmed :: "nuke_env \<Rightarrow> string \<Rightarrow> nuke_key \<Rightarrow> (wf_call \<times> wf_resp) list \<Rightarrow> bool" where
  "key_confirmed E account key h \<longleftrightarrow> (\<exists>k. within (key_preflight E account k) (KeyMine key) h)"

definition scoped :: "nuke_env \<Rightarrow> string \<Rightarrow> nuke_backend \<Rightarrow> nuke_key list \<Rightarrow> (wf_call \<times> wf_resp) list \<Rightarrow> bool" where
  "scoped E account b keys h \<longleftrightarrow> (\<exists>ks. within (bucket_scope E account b) (Inr ks) h \<and> set ks \<subseteq> set keys)"

text \<open>The preflight is complete: the results so far are good, every bucket holds only recovery data, every
  key of the receipt and of a bucket may go or needs nothing, and the report with the keys is saved.\<close>

definition preflighted :: "nuke_env \<Rightarrow> nuke \<Rightarrow> (wf_call \<times> wf_resp) list \<Rightarrow> bool" where
  "preflighted E n h \<longleftrightarrow> \<not> halted n \<and> (\<exists>m m'. within (nuke_save E m) (m', None) h \<and> set (ncKeys n) \<subseteq> set (ncKeys m) \<and>
     (\<forall>key\<in>set (ncKeys m). key_cleared E (ncAccount n) key h) \<and>
     (\<forall>b\<in>set (ncBackends n). scoped E (ncAccount n) b (ncKeys m) h))"

definition bucket_gone_now :: "nuke_env \<Rightarrow> string \<Rightarrow> nuke_backend \<Rightarrow> (wf_call \<times> wf_resp) list \<Rightarrow> bool" where
  "bucket_gone_now E account b h \<longleftrightarrow> within (bucket_look E account b) (Inr None) h"

definition bucket_call :: "string \<Rightarrow> nuke_backend \<Rightarrow> wf_call \<Rightarrow> bool" where
  "bucket_call account b q \<longleftrightarrow>
     q = WAws (nbRegion b) (owner_args ''delete-bucket'' (nbBucket b) account @ aws_flags) \<or>
     (\<exists>file. q = WAws (nbRegion b) (delete_args (nbBucket b) account file @ aws_flags))"

definition recovery_ok :: "nuke_env \<Rightarrow> nuke \<Rightarrow> wf_call \<Rightarrow> (wf_call \<times> wf_resp) list \<Rightarrow> bool" where
  "recovery_ok E n q h \<longleftrightarrow> reading q \<or> (\<exists>f. q = WFile f) \<or>
     (preflighted E n h \<and> (\<exists>b\<in>set (ncBackends n). bucket_call (ncAccount n) b q)) \<or>
     (preflighted E n h \<and> (\<forall>b\<in>set (ncBackends n). bucket_gone_now E (ncAccount n) b h) \<and>
      (\<exists>key. key_confirmed E (ncAccount n) key h \<and> q = WAws (nkRegion key) (schedule_args (nkID key) @ aws_flags)))"

named_theorems stays "facts about a history stay true"

lemma within_stays [stays]: "within p x h \<Longrightarrow> within p x (h @ t)" by (rule within_before)
lemma cleared_stays [stays]: "key_cleared E a k h \<Longrightarrow> key_cleared E a k (h @ t)"
  unfolding key_cleared_def by (blast intro: stays)
lemma confirmed_stays [stays]: "key_confirmed E a k h \<Longrightarrow> key_confirmed E a k (h @ t)"
  unfolding key_confirmed_def by (blast intro: stays)
lemma scoped_stays [stays]: "scoped E a b ks h \<Longrightarrow> scoped E a b ks (h @ t)"
  unfolding scoped_def by (blast intro: stays)
lemma preflighted_stays [stays]: "preflighted E n h \<Longrightarrow> preflighted E n (h @ t)"
  unfolding preflighted_def by (blast intro: stays)
lemma gone_stays [stays]: "bucket_gone_now E a b h \<Longrightarrow> bucket_gone_now E a b (h @ t)"
  unfolding bucket_gone_now_def by (blast intro: stays)

lemma scoped_mono: "scoped E a b ks h \<Longrightarrow> set ks \<subseteq> set ls \<Longrightarrow> scoped E a b ls h"
  unfolding scoped_def by blast

text \<open>A step that only reads and saves, whose result says what it did and whose history has grown.\<close>

lemma plain_step:
  assumes "safe (\<lambda>q _. reading q \<or> (\<exists>f. q = WFile f)) Q p h"
    and "\<And>a t. Q a (h @ t) \<Longrightarrow> safe (recovery_ok E n) S (f a) (h @ t)"
  shows "safe (recovery_ok E n) S (pbind p f) h"
proof -
  have "safe (\<lambda>q _. reading q \<or> (\<exists>f. q = WFile f)) (\<lambda>a h'. Q a h' \<and> (\<exists>t. h' = h @ t)) p h"
    using safe_conj [OF assms(1) safe_prefix [of h p "[]", simplified]] by simp
  then have "safe (recovery_ok E n) (\<lambda>a h'. Q a h' \<and> (\<exists>t. h' = h @ t)) p h"
    by (rule safe_mono) (auto simp: recovery_ok_def)
  then show ?thesis by (rule safe_bindI) (use assms(2) in auto)
qed

section \<open>The preflight\<close>

abbreviation plain :: "wf_call \<Rightarrow> (wf_call \<times> wf_resp) list \<Rightarrow> bool" where
  "plain \<equiv> \<lambda>q _. reading q \<or> (\<exists>f. q = WFile f)"

lemma safe_more:
  assumes "safe P R p h" "\<And>a t. R a (h @ t) \<Longrightarrow> safe P (\<lambda>b h'. \<forall>u. h' = h @ t @ u \<longrightarrow> Q b h') (f a) (h @ t)"
  shows "safe P Q (pbind p f) h"
proof (rule safe_bindI)
  show "safe P (\<lambda>a h'. R a h' \<and> (\<exists>t. h' = h @ t)) p h"
    using safe_conj [OF assms(1) safe_prefix [of h p "[]", simplified]] by simp
next
  fix a h'
  assume "R a h' \<and> (\<exists>t. h' = h @ t)"
  then obtain t where t: "R a (h @ t)" "h' = h @ t" by blast
  have "safe (\<lambda>q h. P q h \<and> True) (\<lambda>b h'. (\<forall>u. h' = h @ t @ u \<longrightarrow> Q b h') \<and> (\<exists>u. h' = h @ t @ u)) (f a) (h @ t)"
    by (rule safe_conj [OF assms(2) [OF t(1)] safe_prefix [of "h @ t" "f a" "[]", simplified]])
  then show "safe P Q (f a) h'" unfolding t(2) by (rule safe_mono) auto
qed

lemma safe_known:
  assumes "safe P (\<lambda>b h'. \<forall>u. h' = h @ t @ u \<longrightarrow> Q b h') p (h @ t)"
  shows "safe P Q p (h @ t)"
proof -
  have "safe (\<lambda>q h. P q h \<and> True) (\<lambda>b h'. (\<forall>u. h' = h @ t @ u \<longrightarrow> Q b h') \<and> (\<exists>u. h' = h @ t @ u)) p (h @ t)"
    by (rule safe_conj [OF assms safe_prefix [of "h @ t" p "[]", simplified]])
  then show ?thesis by (rule safe_mono) auto
qed

lemma set_add_new [simp]: "set (add_new xs ys) = set xs \<union> set ys"
  by (induction xs ys rule: add_new.induct) auto

lemma bucket_scope_reads: "only reading (bucket_scope E account b)"
  unfolding bucket_scope_def Let_def
  by (intro read_intros) (simp_all add: has_prefix_def all_stacks_def)

lemma scope_bucket_result:
  "safe plain (\<lambda>m h'. grown n m \<and> set (ncKeys n) \<subseteq> set (ncKeys m) \<and>
     (nuke_successful (ncResults m) \<longrightarrow> scoped E (ncAccount n) b (ncKeys m) h')) (scope_bucket E b n) h"
  unfolding scope_bucket_def
proof (rule safe_step [OF only_safe [OF bucket_scope_reads]])
  fix x h'
  assume x: "within (bucket_scope E (ncAccount n) b) x h'"
  show "safe plain (\<lambda>m h'. grown n m \<and> set (ncKeys n) \<subseteq> set (ncKeys m) \<and>
     (nuke_successful (ncResults m) \<longrightarrow> scoped E (ncAccount n) b (ncKeys m) h'))
     (case x of Inl (name, e) \<Rightarrow> nuke_failure E name e n
      | Inr keys \<Rightarrow> Ret (n\<lparr>ncKeys := add_new keys (ncKeys n)\<rparr>)) h'"
  proof (cases x)
    case (Inr ks)
    with x show ?thesis by (auto simp: scoped_def grown_def)
  next
    case (Inl y)
    obtain name e where y: "y = (name, e)" by (cases y)
    show ?thesis unfolding Inl y by (auto intro!: safe_conseq [OF failure_result])
  qed
qed simp

lemma scope_buckets_result:
  "safe plain (\<lambda>m h'. grown n m \<and> set (ncKeys n) \<subseteq> set (ncKeys m) \<and>
     (nuke_successful (ncResults m) \<longrightarrow> (\<forall>b\<in>set bs. scoped E (ncAccount n) b (ncKeys m) h'))) (scope_buckets E bs n) h"
proof (induction bs arbitrary: n h)
  case (Cons b bs n h)
  show ?case unfolding scope_buckets.simps
  proof (rule safe_more [OF scope_bucket_result])
    fix m t
    assume m: "grown n m \<and> set (ncKeys n) \<subseteq> set (ncKeys m) \<and>
      (nuke_successful (ncResults m) \<longrightarrow> scoped E (ncAccount n) b (ncKeys m) (h @ t))"
    show "safe plain (\<lambda>m h'. \<forall>u. h' = h @ t @ u \<longrightarrow> grown n m \<and> set (ncKeys n) \<subseteq> set (ncKeys m) \<and>
      (nuke_successful (ncResults m) \<longrightarrow> (\<forall>b\<in>set (b # bs). scoped E (ncAccount n) b (ncKeys m) h')))
      (scope_buckets E bs m) (h @ t)"
    proof (rule safe_conseq [OF Cons.IH], intro allI impI)
      fix k h' u
      assume k: "grown m k \<and> set (ncKeys m) \<subseteq> set (ncKeys k) \<and> (nuke_successful (ncResults k) \<longrightarrow>
        (\<forall>b\<in>set bs. scoped E (ncAccount m) b (ncKeys k) h'))" and h': "h' = h @ t @ u"
      have "scoped E (ncAccount n) b (ncKeys k) h'" if "nuke_successful (ncResults k)"
        using scoped_mono [OF scoped_stays, of E "ncAccount n" b "ncKeys m" "h @ t" "ncKeys k" u] m k h' that
          grown_successful [of m k] by simp
      moreover have "ncAccount m = ncAccount n" using m by (simp add: grown_def)
      ultimately show "grown n k \<and> set (ncKeys n) \<subseteq> set (ncKeys k) \<and> (nuke_successful (ncResults k) \<longrightarrow>
        (\<forall>b\<in>set (b # bs). scoped E (ncAccount n) b (ncKeys k) h'))"
        using m k grown_trans [of n m k] by auto
    qed
  qed
qed simp

lemma key_preflight_reads: "only reading (key_preflight E account key)"
  unfolding key_preflight_def confirm_key_def typed_confirmation_def
  by (auto intro!: only_pbind reads split: sum.split option.split key_check.split)

definition keys_done :: "nuke_env \<Rightarrow> nuke_key list \<Rightarrow> nuke_key list \<Rightarrow> nuke \<Rightarrow> nuke \<times> nuke_key list \<Rightarrow>
    (wf_call \<times> wf_resp) list \<Rightarrow> bool" where
  "keys_done E keys known n x h \<longleftrightarrow> (case x of (m, mine) \<Rightarrow> grown n m \<and> ncKeys m = ncKeys n \<and>
     (nuke_successful (ncResults m) \<longrightarrow> (\<forall>key\<in>set keys. key_cleared E (ncAccount n) key h)) \<and>
     (\<forall>key\<in>set mine. key \<in> set known \<or> key_confirmed E (ncAccount n) key h))"

lemma keys_done_step:
  assumes "grown n m" "ncKeys m = ncKeys n"
    and "nuke_successful (ncResults m) \<Longrightarrow> key_cleared E (ncAccount n) key (h @ t)"
    and "\<And>k. k \<in> set mine \<Longrightarrow> k \<in> set known \<or> key_confirmed E (ncAccount n) k (h @ t)"
    and "\<And>h. safe plain (keys_done E keys mine m) (preflight_keys E keys mine m) h"
  shows "safe plain (\<lambda>b h'. \<forall>u. h' = h @ t @ u \<longrightarrow> keys_done E (key # keys) known n b h') (preflight_keys E keys mine m) (h @ t)"
proof (rule safe_conseq [OF assms(5)], intro allI impI)
  fix x h' u
  assume x: "keys_done E keys mine m x h'" and h': "h' = h @ t @ u"
  obtain k ks where [simp]: "x = (k, ks)" by (cases x)
  have acc: "ncAccount m = ncAccount n" using assms(1) by (simp add: grown_def)
  have "key_cleared E (ncAccount n) key h'" if "nuke_successful (ncResults k)"
    using cleared_stays [OF assms(3), of u] grown_successful [of m k] x that h' by (auto simp: keys_done_def)
  moreover have "i \<in> set known \<or> key_confirmed E (ncAccount n) i h'" if "i \<in> set ks" for i
    using that x assms(4) [of i] confirmed_stays [of E "ncAccount n" i "h @ t" u] h' acc by (auto simp: keys_done_def)
  ultimately show "keys_done E (key # keys) known n x h'"
    using x assms(1,2) acc by (auto simp: keys_done_def intro: grown_trans)
qed

lemma preflight_keys_result: "safe plain (keys_done E keys mine n) (preflight_keys E keys mine n) h"
proof (induction keys arbitrary: mine n h)
  case (Cons key keys mine n h)
  have "safe plain (keys_done E (key # keys) mine n) (case x of
      KeyFailed name e \<Rightarrow> pbind (nuke_failure E name e n) (preflight_keys E keys mine)
    | KeyNoted r \<Rightarrow> pbind (nuke_record E r n) (preflight_keys E keys mine)
    | KeyMine k \<Rightarrow> preflight_keys E keys (add_new [k] mine) n) h'"
    if x: "within (key_preflight E (ncAccount n) key) x h'" for x h'
  proof (cases x)
    case (KeyFailed name e)
    have "safe plain (keys_done E (key # keys) mine n) (pbind (nuke_failure E name e n) (preflight_keys E keys mine)) h'"
      by (rule safe_more [OF failure_result], rule keys_done_step)
        (auto intro: Cons.IH)
    with KeyFailed show ?thesis by simp
  next
    case (KeyNoted r)
    with x have c: "key_cleared E (ncAccount n) key h'" unfolding key_cleared_def by blast
    have "safe plain (keys_done E (key # keys) mine n) (pbind (nuke_record E r n) (preflight_keys E keys mine)) h'"
      by (rule safe_more [OF record_result], rule keys_done_step)
        (auto intro: Cons.IH recorded_grown cleared_stays [OF c] simp: recorded_def)
    with KeyNoted show ?thesis by simp
  next
    case (KeyMine k)
    with x have "key_cleared E (ncAccount n) key h'" "key_confirmed E (ncAccount n) k h'"
      unfolding key_cleared_def key_confirmed_def by blast+
    then have "safe plain (keys_done E (key # keys) mine n) (preflight_keys E keys (add_new [k] mine) n) (h' @ [])"
      by - (rule safe_known, rule keys_done_step, auto intro: Cons.IH split: if_splits)
    then have "safe plain (keys_done E (key # keys) mine n) (preflight_keys E keys (add_new [k] mine) n) h'"
      by (simp only: append_Nil2)
    with KeyMine show ?thesis by simp
  qed
  then show ?case unfolding preflight_keys.simps
    by (intro safe_step [OF only_safe [OF key_preflight_reads]]) simp
qed (simp add: keys_done_def)

section \<open>The deletion\<close>

lemma bucket_look_reads: "only reading (bucket_look E account b)"
  unfolding bucket_look_def by (intro read_intros) (simp_all add: has_prefix_def)

lemma purge_rounds_calls:
  "only (\<lambda>q. reading q \<or> (\<exists>f. q = WFile f) \<or> (\<exists>file. q = WAws region (delete_args bucket account file @ aws_flags)))
     (purge_rounds W region bucket account n)"
proof (induction n)
  case (Suc n)
  have "only (\<lambda>q. reading q \<or> (\<exists>f. q = WFile f) \<or> (\<exists>file. q = WAws region (delete_args bucket account file @ aws_flags)))
      (delete_page W region bucket account os)" for os
    by (auto simp: delete_page_def aws_def Let_def split: option.split)
  with Suc show ?case
    by (auto simp: aws_def versions_args_def has_prefix_def intro!: only_pbind split: sum.split option.split)
qed simp

lemma bucket_step_calls:
  "only (\<lambda>q. reading q \<or> (\<exists>f. q = WFile f) \<or> bucket_call account b q) (bucket_step E account b)"
proof -
  let ?R = "\<lambda>q. reading q \<or> (\<exists>f. q = WFile f) \<or> bucket_call account b q"
  have mono: "only ?R p" if "only R p" "\<And>q. R q \<Longrightarrow> ?R q" for R and p :: "'a wf_prog"
    using that by (induction p) auto
  have "only ?R (purge_evidence (teFuel E) (teLib E) (teBackendHost E) (nbRegion b) (nbBucket b) account s)" for s
    unfolding purge_evidence_def
    by (rule only_if) (simp, rule mono [OF purge_rounds_calls], auto simp: bucket_call_def)
  then have "only ?R (bucket_remove E account b)"
    unfolding bucket_remove_def
    by (auto intro!: only_pbind simp: aws_def bucket_call_def split: option.split)
  moreover have "only ?R (bucket_look E account b)" by (rule mono [OF bucket_look_reads]) simp
  ultimately show ?thesis unfolding bucket_step_def nuke_step_def
    by (auto intro!: only_pbind split: sum.split option.split)
qed

definition buckets_done :: "nuke_env \<Rightarrow> nuke \<Rightarrow> nuke_backend list \<Rightarrow> nuke \<times> bool \<Rightarrow> (wf_call \<times> wf_resp) list \<Rightarrow> bool" where
  "buckets_done E n bs x h \<longleftrightarrow> (case x of (k, gone) \<Rightarrow> ncAccount k = ncAccount n \<and> (gone \<longrightarrow> preflighted E n h \<and>
     (\<forall>b\<in>set bs. bucket_gone_now E (ncAccount n) b h)))"

lemma delete_buckets_result:
  assumes "set bs \<subseteq> set (ncBackends n)" "preflighted E n h" "ncAccount m = ncAccount n" "ncBackends m = ncBackends n"
  shows "safe (recovery_ok E n) (buckets_done E n bs) (delete_buckets E bs m) h"
  using assms
proof (induction bs arbitrary: m h)
  case (Cons b bs m h)
  have step: "safe (recovery_ok E n) (\<lambda>_ _. True) (bucket_step E (ncAccount m) b) h"
  proof (rule safe_local [where R = "\<lambda>q. reading q \<or> (\<exists>f. q = WFile f) \<or> bucket_call (ncAccount n) b q"])
    show "safe (\<lambda>q _. reading q \<or> (\<exists>f. q = WFile f) \<or> bucket_call (ncAccount n) b q) (\<lambda>_ _. True)
        (bucket_step E (ncAccount m) b) h"
      using Cons.prems(3) by (auto intro: only_safe [OF bucket_step_calls])
    show "recovery_ok E n q (h @ t)" if "reading q \<or> (\<exists>f. q = WFile f) \<or> bucket_call (ncAccount n) b q" for q t
      using that Cons.prems preflighted_stays [of E n h t] by (auto simp: recovery_ok_def)
  qed
  have rest: "safe (recovery_ok E n) (buckets_done E n (b # bs))
      (pbind (nuke_record E r m) (\<lambda>m. if halted m then Ret (m, False) else delete_buckets E bs m)) h'"
    if r: "within (bucket_step E (ncAccount m) b) r h'" and pre: "preflighted E n h'" for r h'
  proof (rule plain_step [OF record_result])
    fix k t
    assume k: "recorded r m k"
    have "bucket_gone_now E (ncAccount n) b (h' @ t @ u)" if "\<not> halted k" for u
    proof -
      from that k have "good_status (nrStatus r)" by (simp add: halted_def recorded_def nuke_successful_def)
      moreover obtain t0 v t1 where "h' = t0 @ v @ t1" "execs (bucket_step E (ncAccount m) b) v r"
        using r by (auto simp: within_def)
      ultimately have "within (bucket_look E (ncAccount m) b) (Inr None) h'"
        using nuke_step_gone within_append unfolding bucket_step_def by metis
      with Cons.prems(3) show ?thesis by (simp add: bucket_gone_now_def within_before)
    qed
    moreover have "safe (recovery_ok E n) (buckets_done E n bs) (delete_buckets E bs k) (h' @ t)"
      by (rule Cons.IH) (use Cons.prems k pre in \<open>auto simp: recorded_def intro: stays\<close>)
    ultimately show "safe (recovery_ok E n) (buckets_done E n (b # bs))
        (if halted k then Ret (k, False) else delete_buckets E bs k) (h' @ t)"
      using k Cons.prems(3) by - (rule safe_known, rule safe_ifI, auto simp: recorded_def buckets_done_def elim!: safe_conseq)
  qed
  show ?case unfolding delete_buckets.simps
    by (rule safe_step [OF step]) (use rest Cons.prems(2) in \<open>auto intro: stays\<close>)
qed (simp add: buckets_done_def)

lemma schedule_key_ok:
  assumes "preflighted E n h" "\<forall>b\<in>set (ncBackends n). bucket_gone_now E (ncAccount n) b h"
    and "key_confirmed E (ncAccount n) key h"
  shows "safe (recovery_ok E n) (\<lambda>_ _. True) (schedule_key E key) h"
proof (rule safe_local [where R = "\<lambda>q. reading q \<or> q = WAws (nkRegion key) (schedule_args (nkID key) @ aws_flags)"])
  have "only (\<lambda>q. reading q \<or> q = WAws (nkRegion key) (schedule_args (nkID key) @ aws_flags)) p" if "only reading p"
    for p :: "'a wf_prog" using that by (induction p) auto
  note describe = this [OF describe_key_reads]
  have "only (\<lambda>q. reading q \<or> q = WAws (nkRegion key) (schedule_args (nkID key) @ aws_flags)) (schedule_key E key)"
    by (auto simp: schedule_key_def aws_def intro!: only_pbind describe split: sum.split option.split)
  then show "safe (\<lambda>q _. reading q \<or> q = WAws (nkRegion key) (schedule_args (nkID key) @ aws_flags)) (\<lambda>_ _. True)
      (schedule_key E key) h" by (rule only_safe)
  show "recovery_ok E n q (h @ t)" if "reading q \<or> q = WAws (nkRegion key) (schedule_args (nkID key) @ aws_flags)" for q t
    using that assms unfolding recovery_ok_def by (blast intro: stays)
qed

lemma schedule_keys_ok:
  assumes "preflighted E n h" "\<forall>b\<in>set (ncBackends n). bucket_gone_now E (ncAccount n) b h"
    and "\<forall>key\<in>set keys. key_confirmed E (ncAccount n) key h"
  shows "safe (recovery_ok E n) (\<lambda>_ _. True) (schedule_keys E keys m) h"
  using assms
proof (induction keys arbitrary: m h)
  case (Cons key keys m h)
  have "safe (recovery_ok E n) (\<lambda>_ _. True) (pbind (nuke_record E r m) (schedule_keys E keys)) (h @ t)" for r t
    by (rule plain_step [OF record_result], rule Cons.IH)
      (use Cons.prems in \<open>auto intro!: stays\<close>)
  then show ?case unfolding schedule_keys.simps
    by (intro safe_step [OF schedule_key_ok]) (use Cons.prems in auto)
qed simp

lemma delete_recovery_ok:
  assumes "\<not> halted n" "ncAccount m = ncAccount n" "ncBackends m = ncBackends n" "set (ncKeys n) \<subseteq> set (ncKeys m)"
    and "\<forall>key\<in>set (ncKeys m). key_cleared E (ncAccount n) key h"
    and "\<forall>b\<in>set (ncBackends n). scoped E (ncAccount n) b (ncKeys m) h"
    and "\<forall>key\<in>set mine. key_confirmed E (ncAccount n) key h"
  shows "safe (recovery_ok E n) (\<lambda>_ _. True) (delete_recovery E mine m) h"
proof -
  have saved: "safe plain (\<lambda>(k, e) _. \<exists>u. k = m\<lparr>ncUpdatedAt := u\<rparr>) (nuke_save E m) h" by (rule save_result)
  have "safe plain (\<lambda>_ _. True) (nuke_save E m) h" by (rule safe_conseq [OF saved]) simp
  from safe_conj [OF saved safe_execs [OF this]]
  have save: "safe plain (\<lambda>(k, e) h'. (\<exists>u. k = m\<lparr>ncUpdatedAt := u\<rparr>) \<and> within (nuke_save E m) (k, e) h') (nuke_save E m) h"
    by (rule safe_mono) (auto intro: within_now)
  have conf: "\<forall>key\<in>set mine. key_confirmed E (ncAccount n) key (h @ t)" for t using assms(7) by (auto intro: stays)
  have buckets: "safe (recovery_ok E n) (\<lambda>_ _. True) (pbind (delete_buckets E (ncBackends k) k) (\<lambda>(k, gone).
      if gone then schedule_keys E mine k else Ret k)) (h @ t)"
    if k: "ncAccount k = ncAccount n" "ncBackends k = ncBackends n" and pre: "preflighted E n (h @ t)" for k t
  proof (rule safe_more [OF delete_buckets_result [OF _ pre k]])
    show "set (ncBackends k) \<subseteq> set (ncBackends n)" using k by simp
  next
    fix x u
    assume x: "buckets_done E n (ncBackends k) x ((h @ t) @ u)"
    then show "safe (recovery_ok E n) (\<lambda>b h'. \<forall>v. h' = (h @ t) @ u @ v \<longrightarrow> True)
      (case x of (k, gone) \<Rightarrow> if gone then schedule_keys E mine k else Ret k) ((h @ t) @ u)"
      using k(2) conf [of "t @ u"] by (auto simp: buckets_done_def intro!: schedule_keys_ok)
  qed
  have "preflighted E n (h @ t)" if "within (nuke_save E m) (k, None) (h @ t)" for k t
    using that assms unfolding preflighted_def by (blast intro: stays)
  then show ?thesis unfolding delete_recovery_def
    using buckets [of "m\<lparr>ncUpdatedAt := u\<rparr>" for u] assms(2,3)
    by (intro plain_step [OF save]) (auto split: option.split)
qed

text \<open>C20: The recovery data goes last: an object or a state bucket is deleted only when the earlier
  results are good, every bucket has been found to hold only recovery data, every key of the report and
  of a bucket has passed its preflight and the report with all of them has been saved; and a key is
  scheduled for deletion only after every bucket was seen to be gone, and only a key the operator confirmed.\<close>

theorem recovery_last: "safe (recovery_ok E n) (\<lambda>_ _. True) (cleanup_recovery E n) h"
proof (cases "halted n")
  case False
  have keys: "safe (recovery_ok E n) (\<lambda>_ _. True) (pbind (preflight_keys E (ncKeys m) [] m) (\<lambda>(k, mine).
      if \<not> nuke_successful (ncResults k) then Ret k else delete_recovery E mine k)) (h @ t)"
    if m: "grown n m" "set (ncKeys n) \<subseteq> set (ncKeys m)" and scoped: "\<forall>b\<in>set (ncBackends n). scoped E (ncAccount n) b (ncKeys m) (h @ t)"
    for m t
  proof (rule plain_step [OF preflight_keys_result])
    fix x u
    assume x: "keys_done E (ncKeys m) [] m x ((h @ t) @ u)"
    obtain k mine where [simp]: "x = (k, mine)" by (cases x)
    have "safe (recovery_ok E n) (\<lambda>_ _. True) (delete_recovery E mine k) ((h @ t) @ u)"
      if "nuke_successful (ncResults k)"
      by (rule delete_recovery_ok)
        (use False m x that scoped in \<open>auto simp: keys_done_def grown_def intro: scoped_stays [of _ _ _ _ "h @ t", simplified]\<close>)
    then show "safe (recovery_ok E n) (\<lambda>_ _. True) (case x of (k, mine) \<Rightarrow>
      if \<not> nuke_successful (ncResults k) then Ret k else delete_recovery E mine k) ((h @ t) @ u)" by simp
  qed
  have "safe (recovery_ok E n) (\<lambda>_ _. True) (pbind (scope_buckets E (ncBackends n) n) (\<lambda>n.
      if \<not> nuke_successful (ncResults n) then Ret n else pbind (preflight_keys E (ncKeys n) [] n) (\<lambda>(k, mine).
      if \<not> nuke_successful (ncResults k) then Ret k else delete_recovery E mine k))) h"
    by (rule plain_step [OF scope_buckets_result]) (auto intro!: keys)
  with False show ?thesis by (simp add: cleanup_recovery_def)
qed (simp add: cleanup_recovery_def)

end
