(* ===== verification/AwsSetup.thy ===== *)
theory AwsSetup
  imports TeardownSteps Deploy
begin

text \<open>
  The AWS side of setting up an environment: the permissions of its deployment role
  (\<open>workflow/aws_setup_policy.go\<close>), the inspection and the creation of the role with the checks of
  \<open>workflow/aws_setup.go\<close>, from the policies on, and the state bucket and the names of the application
  (\<open>ensureStateBucket\<close> and \<open>validateBootstrapApp\<close> of \<open>workflow/bootstrap.go\<close>). Documents are \<open>jval\<close>,
  with the members of an object by key, so \<open>sameJSON\<close> is equality. A map of policies is a list by name;
  the final check takes them in the order of their names, which Go leaves open.
\<close>

section \<open>Permissions\<close>

definition texts :: "string list \<Rightarrow> jval" where
  "texts xs = JArray (map JString xs)"

type_synonym statement = "(string \<times> jval) list"

definition statement :: "string list \<Rightarrow> string list \<Rightarrow> statement" where
  "statement actions resources =
     [(''Action'', texts actions), (''Effect'', JString ''Allow''), (''Resource'', texts resources)]"

definition conditioned :: "string \<Rightarrow> string \<Rightarrow> string \<Rightarrow> statement \<Rightarrow> statement" where
  "conditioned operator key v s =
     take 1 s @ (''Condition'', JObject [(operator, JObject [(key, JString v)])]) # drop 1 s"

definition document :: "statement list \<Rightarrow> jval" where
  "document ss = JObject [(''Statement'', JArray (map JObject ss)), (''Version'', JString ''2012-10-17'')]"

definition service_arn :: "string \<Rightarrow> string \<Rightarrow> string \<Rightarrow> string \<Rightarrow> string" where
  "service_arn region account service resource = ''arn:aws:'' @ service @ '':'' @ region @ '':'' @ account @ '':'' @ resource"

definition in_region :: "string \<Rightarrow> statement \<Rightarrow> statement" where
  "in_region region = conditioned ''StringEquals'' ''aws:RequestedRegion'' region"

definition regional_actions :: "string list" where
  "regional_actions = [''apigateway:*'', ''cognito-idp:*'', ''lambda:ListEventSourceMappings'',
     ''lambda:CreateEventSourceMapping'', ''lambda:GetEventSourceMapping'',
     ''lambda:UpdateEventSourceMapping'', ''lambda:DeleteEventSourceMapping'', ''lambda:ListTags'',
     ''lambda:TagResource'', ''lambda:UntagResource'']"

definition regional :: "string \<Rightarrow> string \<Rightarrow> statement" where
  "regional region account = in_region region (statement regional_actions
     [''arn:aws:apigateway:'' @ region @ ''::/*'', service_arn region account ''cognito-idp'' ''userpool/*'',
      service_arn region account ''lambda'' ''event-source-mapping:*''])"

definition role_names :: "string list" where
  "role_names = [''app-config'', ''signup'', ''resend'', ''confirm'', ''challenge'', ''passkeyoptions'',
     ''passkeycomplete'', ''auth-email-start'', ''auth-email-complete'', ''auth-passkey-start'',
     ''auth-passkey-complete'', ''auth-refresh'', ''auth-status'', ''auth-password-start'',
     ''auth-password-complete'', ''auth-password-set'', ''capture'', ''capture-dispatcher'',
     ''capture-worker'', ''environment-reset'']"

definition application_roles :: "string \<Rightarrow> string list" where
  "application_roles account = map (\<lambda>name. ''arn:aws:iam::'' @ account @ '':role/'' @ name @ ''-role-*'') role_names"

definition iam_actions :: "string list" where
  "iam_actions = [''iam:CreateRole'', ''iam:GetRole'', ''iam:UpdateRole'', ''iam:DeleteRole'',
     ''iam:UpdateAssumeRolePolicy'', ''iam:ListRolePolicies'', ''iam:GetRolePolicy'', ''iam:PutRolePolicy'',
     ''iam:DeleteRolePolicy'', ''iam:ListAttachedRolePolicies'', ''iam:ListInstanceProfilesForRole'',
     ''iam:TagRole'', ''iam:UntagRole'', ''iam:ListRoleTags'']"

definition attach_statement :: "string \<Rightarrow> statement" where
  "attach_statement account = conditioned ''ArnEquals'' ''iam:PolicyARN''
     ''arn:aws:iam::aws:policy/service-role/AWSLambdaBasicExecutionRole''
     (statement [''iam:AttachRolePolicy'', ''iam:DetachRolePolicy''] (application_roles account))"

definition pass_statement :: "string \<Rightarrow> statement" where
  "pass_statement account = conditioned ''StringEquals'' ''iam:PassedToService'' ''lambda.amazonaws.com''
     (statement [''iam:PassRole''] (application_roles account))"

definition linked_role_statement :: "string \<Rightarrow> statement" where
  "linked_role_statement account = conditioned ''StringEquals'' ''iam:AWSServiceName'' ''ops.apigateway.amazonaws.com''
     (statement [''iam:CreateServiceLinkedRole''] [''arn:aws:iam::'' @ account @
       '':role/aws-service-role/ops.apigateway.amazonaws.com/AWSServiceRoleForAPIGateway''])"

definition function_prefixes :: "string list" where
  "function_prefixes = [''app-config-'', ''email-'', ''cognito-grant-challenge-'', ''passkeyoptions-'', ''passkeycomplete-'',
     ''auth-'', ''capture-'', ''attestra-reset-'']"

definition function_arns :: "string \<Rightarrow> string \<Rightarrow> string list" where
  "function_arns region account =
     map (\<lambda>p. service_arn region account ''lambda'' (''function:'' @ p @ ''*'')) function_prefixes"

definition state_prefix :: "dp_lib \<Rightarrow> options \<Rightarrow> string" where
  "state_prefix X o1 = (let p = (case url_parse (dxGo X) (opBackend o1) of None \<Rightarrow> [] | Some u \<Rightarrow> trim_set (u_Path u) ''/'') in
     if p \<noteq> [] then p @ ''/'' else [])"

definition state_document :: "dp_lib \<Rightarrow> options \<Rightarrow> jval" where
  "state_document X o1 = (let bucket = ''arn:aws:s3:::'' @ url_host X (opBackend o1) in document
     [statement [''s3:ListBucket'', ''s3:GetBucketVersioning'', ''s3:GetBucketPublicAccessBlock'',
     ''s3:GetBucketLocation''] [bucket],
      statement [''s3:GetObject'', ''s3:PutObject'', ''s3:DeleteObject'']
        [bucket @ ''/'' @ state_prefix X o1 @ ''.pulumi/*'']])"

definition mail_actions :: "string list" where
  "mail_actions = [''ses:GetIdentity*'', ''ses:ListIdentities'', ''ses:VerifyDomainIdentity'', ''ses:VerifyDomainDkim'',
     ''ses:DeleteIdentity'', ''ses:SetIdentityDkimEnabled'', ''ses:GetAccount'', ''acm:RequestCertificate'',
     ''acm:DescribeCertificate'', ''acm:DeleteCertificate'', ''acm:AddTagsToCertificate'',
     ''acm:RemoveTagsFromCertificate'', ''acm:ListTagsForCertificate'']"

definition hosting_actions :: "string list" where
  "hosting_actions = [''cloudfront:CreateDistribution'', ''cloudfront:CreateDistributionWithTags'',
     ''cloudfront:GetDistribution'', ''cloudfront:GetDistributionConfig'',
     ''cloudfront:UpdateDistribution'', ''cloudfront:DeleteDistribution'',
     ''cloudfront:CreateOriginAccessControl'', ''cloudfront:GetOriginAccessControl'',
     ''cloudfront:GetOriginAccessControlConfig'', ''cloudfront:UpdateOriginAccessControl'',
     ''cloudfront:DeleteOriginAccessControl'', ''cloudfront:ListTagsForResource'',
     ''cloudfront:TagResource'', ''cloudfront:UntagResource'']"

definition certificate_actions :: "string list" where
  "certificate_actions = [''acm:RequestCertificate'', ''acm:DescribeCertificate'', ''acm:DeleteCertificate'',
     ''acm:AddTagsToCertificate'', ''acm:RemoveTagsFromCertificate'', ''acm:ListTagsForCertificate'']"

definition associations_document :: jval where
  "associations_document = document
     [statement [''s3:*''] [''arn:aws:s3:::app-associations-*'', ''arn:aws:s3:::app-associations-*/*''],
      statement hosting_actions [''*''],
      in_region ''us-east-1'' (statement certificate_actions [''*''])]"

definition alarm_actions :: "string list" where
  "alarm_actions = [''cloudwatch:PutMetricAlarm'', ''cloudwatch:DescribeAlarms'', ''cloudwatch:DeleteAlarms'',
     ''cloudwatch:ListTagsForResource'', ''cloudwatch:TagResource'', ''cloudwatch:UntagResource'']"

definition create_actions :: "string list" where
  "create_actions = [''cognito-idp:CreateUserPool'', ''lambda:GetAccountSettings'', ''lambda:CreateEventSourceMapping'',
     ''lambda:ListEventSourceMappings'']"

definition services_document :: "string \<Rightarrow> string \<Rightarrow> jval" where
  "services_document region account = (let arn = service_arn region account in document
     [regional region account,
      statement [''lambda:*''] (function_arns region account),
      statement [''dynamodb:*''] [arn ''dynamodb'' ''table/email-proofs-*'', arn ''dynamodb'' ''table/id-captures-*'',
        arn ''dynamodb'' ''table/environment-reset-control-*''],
      statement [''sqs:*''] [arn ''sqs'' ''capture-validation-*''],
      statement [''events:*''] [arn ''events'' ''rule/capture-sweep-*'', arn ''events'' ''rule/environment-reset-sweep-*''],
      statement alarm_actions [arn ''cloudwatch'' ''alarm:capture-dlq-alarm-*''],
      statement [''s3:*''] [''arn:aws:s3:::id-evidence-*'', ''arn:aws:s3:::id-evidence-*/*''],
      in_region region (statement mail_actions [''*'']),
      in_region region (statement create_actions [''*''])])"

type_synonym policies = "(string \<times> jval) list"

definition deployment_policies :: "dp_lib \<Rightarrow> string \<Rightarrow> options \<Rightarrow> policies" where
  "deployment_policies X account o1 =
     [(''attestra-associations'', associations_document),
      (''attestra-iam'', document [statement iam_actions (application_roles account), attach_statement account,
         pass_statement account, linked_role_statement account]),
      (''attestra-services'', services_document (opRegion o1) account),
      (''attestra-state'', state_document X o1)]"

definition put_policy :: "string \<Rightarrow> jval \<Rightarrow> policies \<Rightarrow> policies" where
  "put_policy name d ps = (name, d) # filter (\<lambda>(n, _). n \<noteq> name) ps"

definition with_statement :: "statement \<Rightarrow> jval \<Rightarrow> jval" where
  "with_statement s d = (case d of
      JObject ((k, JArray ss) # rest) \<Rightarrow> JObject ((k, JArray (ss @ [JObject s])) # rest)
    | _ \<Rightarrow> d)"

definition deny_statement :: "string \<Rightarrow> string \<Rightarrow> statement" where
  "deny_statement account name =
     [(''Action'', JString ''iam:*''), (''Effect'', JString ''Deny''),
      (''Resource'', texts [''arn:aws:iam::'' @ account @ '':role/'' @ name, ''arn:aws:iam::'' @ account @ '':role/*/'' @ name])]"

definition index_policy :: "string \<Rightarrow> string \<Rightarrow> jval" where
  "index_policy arn environment = document [[(''Action'', JString ''execute-api:Invoke''), (''Effect'', JString ''Allow''),
     (''Resource'', JString (arn @ ''/*/POST/v1/environments/'' @ environment @ ''/changes''))]]"

definition dns_policy :: "string \<Rightarrow> jval" where
  "dns_policy zone = document
     [[(''Action'', texts [''route53:GetHostedZone'', ''route53:ListResourceRecordSets'', ''route53:ChangeResourceRecordSets'']),
       (''Effect'', JString ''Allow''), (''Resource'', JString (''arn:aws:route53:::hostedzone/'' @ zone))],
      [(''Action'', JString ''route53:GetChange''), (''Effect'', JString ''Allow''),
       (''Resource'', JString ''arn:aws:route53:::change/*'')]]"

definition key_policy :: "string \<Rightarrow> string \<Rightarrow> jval" where
  "key_policy region key = document [conditioned ''StringEquals'' ''kms:ViaService'' (''s3.'' @ region @ ''.amazonaws.com'')
     [(''Action'', texts [''kms:Decrypt'', ''kms:Encrypt'', ''kms:GenerateDataKey'', ''kms:DescribeKey'']),
      (''Effect'', JString ''Allow''), (''Resource'', JString key)]]"

text \<open>The policies of a role; \<open>index\<close> is the ARN of the index, empty without it or without the
  wizard, and \<open>zone\<close> the Route 53 zone, or empty.\<close>

definition role_policies :: "dp_lib \<Rightarrow> string \<Rightarrow> string \<Rightarrow> options \<Rightarrow> string \<Rightarrow> string \<Rightarrow> policies" where
  "role_policies X account name o1 index zone =
     (let ps = deployment_policies X account o1;
          ps = (if index \<noteq> [] then put_policy ''attestra-index'' (index_policy index (opStack o1)) ps else ps);
          ps = map (\<lambda>(n, d). (n, if n = ''attestra-iam'' then with_statement (deny_statement account name) d else d)) ps
      in if zone \<noteq> [] then put_policy ''attestra-dns'' (dns_policy zone) ps else ps)"

section \<open>The role\<close>

record setup_lib =
  suLib :: wf_lib
  suDeploy :: dp_lib
  suJSON :: "jval \<Rightarrow> string" \<comment> \<open>\<open>policyJSON\<close>\<close>
  suProvider :: "string \<Rightarrow> (string \<times> string list) option" \<comment> \<open>Url and ClientIDList\<close>
  suPolicy :: "string \<Rightarrow> jval option" \<comment> \<open>PolicyDocument\<close>
  suRules :: "string \<Rightarrow> (string \<times> string) list option" \<comment> \<open>SSEAlgorithm and KMSMasterKeyID of the rules\<close>
  suKey :: "string \<Rightarrow> string option" \<comment> \<open>Arn of the key\<close>
  suLocation :: "string \<Rightarrow> string option option" \<comment> \<open>LocationConstraint; null\<close>
  suPort :: "string \<Rightarrow> string" \<comment> \<open>Port of the parsed URL\<close>

record setup_plan =
  plAccount :: string
  plName :: string
  plSubject :: string
  plEnvironment :: string
  plProvider :: bool
  plAudience :: bool
  plRole :: "role_snapshot option" \<comment> \<open>when the role exists\<close>
  plTrust :: jval
  plPolicies :: policies
  plExisting :: policies

text \<open>The time of creation in seconds since the epoch, or \<open>None\<close> for the zero time; the bound is 2026-07-16.\<close>

definition default_subject :: "metadata \<Rightarrow> int option \<Rightarrow> string \<Rightarrow> string option" where
  "default_subject m created environment =
     (if mdID m \<le> 0 \<or> mdOwnerID m \<le> 0 \<or> mdName m = [] \<or> mdOwner m = [] then None else
      case created of
        None \<Rightarrow> None
      | Some t \<Rightarrow> Some (if \<not> t < 1784160000 then immutable_subject m environment else legacy_subject m environment))"

definition sorted_policies :: "policies \<Rightarrow> policies" where
  "sorted_policies ps = sort_key fst ps"

definition provider_arn :: "string \<Rightarrow> string" where
  "provider_arn account = ''arn:aws:iam::'' @ account @ '':oidc-provider/token.actions.githubusercontent.com''"

definition provider_args :: "string \<Rightarrow> string list" where
  "provider_args account =
     [''iam'', ''get-open-id-connect-provider'', ''--open-id-connect-provider-arn'', provider_arn account]"

definition role_args :: "string \<Rightarrow> string list" where
  "role_args name = [''iam'', ''get-role'', ''--role-name'', name]"

definition policy_args :: "string \<Rightarrow> string \<Rightarrow> string list" where
  "policy_args name policy = [''iam'', ''get-role-policy'', ''--role-name'', name, ''--policy-name'', policy]"

fun existing_policies :: "setup_lib \<Rightarrow> string \<Rightarrow> string \<Rightarrow> policies \<Rightarrow> (wf_err + policies) wf_prog" where
  "existing_policies S region name [] = Ret (Inr [])"
| "existing_policies S region name ((policy, _) # ps) =
     aws (suLib S) region (policy_args name policy) (\<lambda>x. case aws_decode (suPolicy S) x of
       Inl e \<Rightarrow> Ret (Inl e)
     | Inr d \<Rightarrow> pbind (existing_policies S region name ps) (\<lambda>y. case y of
         Inl e \<Rightarrow> Ret (Inl e)
       | Inr known \<Rightarrow> Ret (Inr ((case d of None \<Rightarrow> [] | Some d \<Rightarrow> [(policy, d)]) @ known))))"

definition foreign_role :: "string \<Rightarrow> string \<Rightarrow> string \<Rightarrow> role_snapshot \<Rightarrow> string option" where
  "foreign_role account subject environment role =
     (if \<not> has_prefix (roArn role) (''arn:aws:iam::'' @ account @ '':role/'')
      then Some ''role belongs to an unexpected AWS account''
      else if \<not> owned environment (roTags role) \<or> (''attestra-subject'', subject) \<notin> set (roTags role)
      then Some (''existing role is not managed by this setup for the selected repository/environment; choose a new '' @
        ''dedicated role name (existing role was left unchanged)'')
      else None)"

definition inspect_existing :: "setup_lib \<Rightarrow> string \<Rightarrow> setup_plan \<Rightarrow> (wf_err + setup_plan) wf_prog" where
  "inspect_existing S region p =
     aws (suLib S) region (role_args (plName p)) (\<lambda>x. case aws_decode (parse_role (suLib S)) x of
       Inl e \<Rightarrow> Ret (Inl e)
     | Inr v \<Rightarrow> (case v of
         None \<Rightarrow> Ret (Inr p)
       | Some role \<Rightarrow> (case foreign_role (plAccount p) (plSubject p) (plEnvironment p) role of
           Some e \<Rightarrow> Ret (Inl (WText e))
         | None \<Rightarrow> pbind (existing_policies S region (plName p) (sorted_policies (plPolicies p))) (\<lambda>y. case y of
             Inl e \<Rightarrow> Ret (Inl e)
           | Inr known \<Rightarrow> Ret (Inr (p\<lparr>plRole := Some role, plExisting := known\<rparr>))))))"

definition provider_url :: "string \<Rightarrow> bool" where
  "provider_url url \<longleftrightarrow> trim_prefix url ''https://'' = ''token.actions.githubusercontent.com''"

definition empty_plan :: "string \<Rightarrow> string \<Rightarrow> string \<Rightarrow> string \<Rightarrow> policies \<Rightarrow> setup_plan" where
  "empty_plan account name subject environment ps =
     \<lparr>plAccount = account, plName = name, plSubject = subject, plEnvironment = environment,
      plProvider = False, plAudience = False, plRole = None, plTrust = github_trust account subject,
      plPolicies = ps, plExisting = []\<rparr>"

definition inspect_setup :: "setup_lib \<Rightarrow> string \<Rightarrow> string \<Rightarrow> string \<Rightarrow> string \<Rightarrow> string \<Rightarrow> policies \<Rightarrow> (wf_err + setup_plan) wf_prog" where
  "inspect_setup S region account name subject environment ps =
    (let plan = empty_plan account name subject environment ps in
     aws (suLib S) region (provider_args account) (\<lambda>x. case aws_decode (suProvider S) x of
       Inl e \<Rightarrow> Ret (Inl e)
     | Inr v \<Rightarrow> (case v of
         None \<Rightarrow> inspect_existing S region plan
       | Some (url, ids) \<Rightarrow>
           if \<not> provider_url url then Ret (Inl (WText ''unexpected GitHub provider URL''))
           else inspect_existing S region (plan\<lparr>plProvider := True, plAudience := ''sts.amazonaws.com'' \<in> set ids\<rparr>))))"

definition setup_write :: "setup_lib \<Rightarrow> string \<Rightarrow> string list \<Rightarrow> wf_err option wf_prog" where
  "setup_write S region args = aws (suLib S) region args (\<lambda>x. Ret (case aws_found x of
     Inl e \<Rightarrow> Some e
   | Inr found \<Rightarrow> if \<not> found then Some (WText ''AWS resource disappeared during setup; rerun'') else None))"

definition create_provider_args :: "string list" where
  "create_provider_args = [''iam'', ''create-open-id-connect-provider'', ''--url'',
     ''https://token.actions.githubusercontent.com'', ''--client-id-list'', ''sts.amazonaws.com'']"

definition add_audience_args :: "string \<Rightarrow> string list" where
  "add_audience_args account = [''iam'', ''add-client-id-to-open-id-connect-provider'',
     ''--open-id-connect-provider-arn'', provider_arn account, ''--client-id'', ''sts.amazonaws.com'']"

definition apply_provider :: "setup_lib \<Rightarrow> string \<Rightarrow> setup_plan \<Rightarrow> wf_err option wf_prog" where
  "apply_provider S region p =
     (if \<not> plProvider p then setup_write S region create_provider_args
      else if \<not> plAudience p then setup_write S region (add_audience_args (plAccount p))
      else Ret None)"

definition create_role_args :: "setup_lib \<Rightarrow> setup_plan \<Rightarrow> string list" where
  "create_role_args S p = [''iam'', ''create-role'', ''--role-name'', plName p, ''--assume-role-policy-document'',
     suJSON S (plTrust p), ''--tags'', ''Key=attestra-setup,Value=github-'' @ plEnvironment p,
     ''Key=attestra-subject,Value='' @ plSubject p, ''--max-session-duration'', ''3600'']"

definition trust_args :: "setup_lib \<Rightarrow> setup_plan \<Rightarrow> string list" where
  "trust_args S p = [''iam'', ''update-assume-role-policy'', ''--role-name'', plName p, ''--policy-document'',
     suJSON S (plTrust p)]"

definition apply_role :: "setup_lib \<Rightarrow> string \<Rightarrow> setup_plan \<Rightarrow> wf_err option wf_prog" where
  "apply_role S region p = (case plRole p of
      None \<Rightarrow> setup_write S region (create_role_args S p)
    | Some role \<Rightarrow> if roTrust role \<noteq> plTrust p then setup_write S region (trust_args S p) else Ret None)"

definition put_args :: "setup_lib \<Rightarrow> string \<Rightarrow> string \<Rightarrow> jval \<Rightarrow> string list" where
  "put_args S name policy d = [''iam'', ''put-role-policy'', ''--role-name'', name, ''--policy-name'', policy,
     ''--policy-document'', suJSON S d]"

fun apply_policies :: "setup_lib \<Rightarrow> string \<Rightarrow> setup_plan \<Rightarrow> policies \<Rightarrow> wf_err option wf_prog" where
  "apply_policies S region p [] = Ret None"
| "apply_policies S region p ((policy, d) # ps) =
     (if map_of (plExisting p) policy = Some d then apply_policies S region p ps
      else pbind (setup_write S region (put_args S (plName p) policy d)) (\<lambda>e. case e of
        Some e \<Rightarrow> Ret (Some e)
      | None \<Rightarrow> apply_policies S region p ps))"

fun unverified_policy :: "policies \<Rightarrow> policies \<Rightarrow> string option" where
  "unverified_policy known [] = None"
| "unverified_policy known ((policy, d) # ps) =
     (if map_of known policy \<noteq> Some d then Some policy else unverified_policy known ps)"

definition verified_setup :: "setup_plan \<Rightarrow> setup_plan \<Rightarrow> wf_err + string" where
  "verified_setup p v = (case plRole v of
      Some role \<Rightarrow>
        if \<not> plAudience v \<or> roTrust role \<noteq> plTrust p
        then Inl (WText ''AWS trust verification failed; IAM may still be propagating, rerun setup'')
        else (case unverified_policy (plExisting v) (plPolicies p) of
          Some n \<Rightarrow> Inl (WText (''AWS policy '' @ n @ '' verification failed; rerun setup''))
        | None \<Rightarrow> Inr (roArn role))
    | None \<Rightarrow> Inl (WText ''AWS trust verification failed; IAM may still be propagating, rerun setup''))"

definition apply_setup :: "setup_lib \<Rightarrow> string \<Rightarrow> setup_plan \<Rightarrow> (wf_err + string) wf_prog" where
  "apply_setup S region p = pbind (apply_provider S region p) (\<lambda>e. case e of
     Some e \<Rightarrow> Ret (Inl e)
   | None \<Rightarrow> pbind (apply_role S region p) (\<lambda>e. case e of
       Some e \<Rightarrow> Ret (Inl e)
     | None \<Rightarrow> pbind (apply_policies S region p (sorted_policies (plPolicies p))) (\<lambda>e. case e of
         Some e \<Rightarrow> Ret (Inl e)
       | None \<Rightarrow> pbind (inspect_setup S region (plAccount p) (plName p) (plSubject p) (plEnvironment p) (plPolicies p)) (\<lambda>x.
           Ret (case x of Inl e \<Rightarrow> Inl e | Inr v \<Rightarrow> verified_setup p v)))))"

text \<open>The end of \<open>setupAWSRole\<close>: the key policies of the state bucket, the inspection, the confirmation
  without the wizard, and the changes. \<open>alone\<close> is a run without the wizard.\<close>

definition key_args :: "string \<Rightarrow> string list" where
  "key_args key = [''kms'', ''describe-key'', ''--key-id'', if key = [] then ''alias/aws/s3'' else key]"

fun key_policies :: "setup_lib \<Rightarrow> string \<Rightarrow> (string \<times> string) list \<Rightarrow> policies \<Rightarrow> (wf_err + policies) wf_prog" where
  "key_policies S region [] ps = Ret (Inr ps)"
| "key_policies S region ((algorithm, key) # rs) ps =
     (if algorithm = ''aws:kms'' \<or> algorithm = ''aws:kms:dsse''
      then aws (suLib S) region (key_args key) (\<lambda>x.
        case aws_decode (suKey S) x of
          Inl e \<Rightarrow> Ret (Inl e)
        | Inr arn \<Rightarrow> (case arn of
            None \<Rightarrow> Ret (Inl (WText ''cannot resolve the state encryption key''))
          | Some arn \<Rightarrow> if arn = [] then Ret (Inl (WText ''cannot resolve the state encryption key''))
              else key_policies S region rs (put_policy ''attestra-state-kms'' (key_policy region arn) ps)))
      else key_policies S region rs ps)"

definition retained_error :: "wf_err \<Rightarrow> wf_err" where
  "retained_error e = WText (''AWS setup stopped; successful changes are retained and can be resumed by rerunning: '' @ err_text e)"

definition confirmed_setup :: "setup_lib \<Rightarrow> string \<Rightarrow> setup_plan \<Rightarrow> (wf_err + string) wf_prog" where
  "confirmed_setup S region p = pbind (apply_setup S region p) (\<lambda>x. Ret (case x of
     Inl e \<Rightarrow> Inl (retained_error e) | Inr arn \<Rightarrow> Inr arn))"

definition apply_label :: "string \<Rightarrow> string" where
  "apply_label account = ''Apply these AWS IAM changes in account '' @ account @ ''?''"

definition ask_setup :: "setup_lib \<Rightarrow> string \<Rightarrow> bool \<Rightarrow> setup_plan \<Rightarrow> (wf_err + string) wf_prog" where
  "ask_setup S region alone p =
     (if \<not> alone then confirmed_setup S region p else
      Call (WConfirm (apply_label (plAccount p))) (\<lambda>r. case w_confirm r of
        Inl e \<Rightarrow> Ret (Inl e)
      | Inr yes \<Rightarrow> if \<not> yes then Ret (Inl (WText ''cancelled'')) else confirmed_setup S region p))"

definition encryption_args :: "setup_lib \<Rightarrow> string \<Rightarrow> options \<Rightarrow> string list" where
  "encryption_args S account o1 = [''s3api'', ''get-bucket-encryption'', ''--bucket'',
     url_host (suDeploy S) (opBackend o1), ''--expected-bucket-owner'', account]"

definition setup_role :: "setup_lib \<Rightarrow> string \<Rightarrow> string \<Rightarrow> string \<Rightarrow> string \<Rightarrow> options \<Rightarrow> bool \<Rightarrow> string \<Rightarrow> string \<Rightarrow>
    (wf_err + string) wf_prog" where
  "setup_role S account name subject environment o1 alone index zone = (let region = opRegion o1 in
     aws (suLib S) region (encryption_args S account o1) (\<lambda>x. case aws_decode (suRules S) x of
       Inl e \<Rightarrow> Ret (Inl e)
     | Inr None \<Rightarrow> Ret (Inl (WText ''state bucket encryption configuration unavailable''))
     | Inr (Some rs) \<Rightarrow>
         pbind (key_policies S region rs (role_policies (suDeploy S) account name o1 index zone)) (\<lambda>x. case x of
           Inl e \<Rightarrow> Ret (Inl e)
         | Inr ps \<Rightarrow> pbind (inspect_setup S region account name subject environment ps) (\<lambda>x. case x of
             Inl e \<Rightarrow> Ret (Inl e)
           | Inr p \<Rightarrow> ask_setup S region alone p))))"

section \<open>The state bucket\<close>

definition bucket_missing :: "wf_err \<Rightarrow> bool" where
  "bucket_missing e = (case e of WAwsError _ code \<Rightarrow> code \<in> {''404'', ''NoSuchBucket'', ''NotFound''} | _ \<Rightarrow> False)"

definition bucket_region :: "string option \<Rightarrow> string" where
  "bucket_region constraint = (case constraint of
      None \<Rightarrow> ''us-east-1'' | Some r \<Rightarrow> if r = ''EU'' then ''eu-west-1'' else r)"

definition state_bucket_args :: "string \<Rightarrow> string \<Rightarrow> string \<Rightarrow> string list" where
  "state_bucket_args operation bucket account = [''s3api'', operation, ''--bucket'', bucket, ''--expected-bucket-owner'', account]"

definition create_bucket_args :: "string \<Rightarrow> string \<Rightarrow> string list" where
  "create_bucket_args bucket region = [''s3api'', ''create-bucket'', ''--bucket'', bucket] @
     (if region \<noteq> ''us-east-1'' then [''--create-bucket-configuration'', ''LocationConstraint='' @ region] else [])"

definition private_args :: "string \<Rightarrow> string \<Rightarrow> string list" where
  "private_args bucket account = state_bucket_args ''put-public-access-block'' bucket account @
     [''--public-access-block-configuration'',
      ''BlockPublicAcls=true,IgnorePublicAcls=true,BlockPublicPolicy=true,RestrictPublicBuckets=true'']"

definition versioned_args :: "string \<Rightarrow> string \<Rightarrow> string list" where
  "versioned_args bucket account = state_bucket_args ''put-bucket-versioning'' bucket account @
     [''--versioning-configuration'', ''Status=Enabled'']"

definition secure_bucket :: "setup_lib \<Rightarrow> string \<Rightarrow> string \<Rightarrow> string \<Rightarrow> wf_err option wf_prog" where
  "secure_bucket S bucket region account =
     aws (suLib S) region (state_bucket_args ''get-bucket-location'' bucket account) (\<lambda>x. case aws_decode (suLocation S) x of
       Inl e \<Rightarrow> Ret (Some e)
     | Inr l \<Rightarrow>
         let found = bucket_region (case l of None \<Rightarrow> None | Some c \<Rightarrow> c) in
         if found \<noteq> region
         then Ret (Some (WText (''state bucket is in '' @ found @ ''; expected '' @ region @ ''; no bucket settings changed''))) else
         aws (suLib S) region (private_args bucket account) (\<lambda>x. case aws_found x of
           Inl e \<Rightarrow> Ret (Some e)
         | Inr _ \<Rightarrow> aws (suLib S) region (versioned_args bucket account) (\<lambda>x. Ret (aws_error (aws_found x)))))"

definition ensure_bucket :: "setup_lib \<Rightarrow> options \<Rightarrow> string \<Rightarrow> wf_err option wf_prog" where
  "ensure_bucket S o1 account =
    (let bucket = url_host (suDeploy S) (opBackend o1); region = opRegion o1 in
     aws (suLib S) region (state_bucket_args ''head-bucket'' bucket account) (\<lambda>x. case aws_found x of
       Inr _ \<Rightarrow> secure_bucket S bucket region account
     | Inl e \<Rightarrow>
         if \<not> bucket_missing e then Ret (Some e) else
         aws (suLib S) region (create_bucket_args bucket region) (\<lambda>x. case aws_found x of
           Inl e \<Rightarrow> Ret (Some e)
         | Inr _ \<Rightarrow> secure_bucket S bucket region account)))"

section \<open>The application\<close>

text \<open>\<open>^[a-z0-9](?:[a-z0-9.-]*[a-z0-9])?\.[a-z]{2,}$\<close>: the last label has the letters, since the class
  before it has no other end than its last character.\<close>

definition sender_domain :: "string \<Rightarrow> bool" where
  "sender_domain s =
     (let tld = rev (takeWhile (\<lambda>c. c \<noteq> CHR ''.'') (rev s)); front = take (length s - length tld - 1) s in
      CHR ''.'' \<in> set s \<and> 2 \<le> length tld \<and> list_all (between (CHR ''a'') (CHR ''z'')) tld \<and>
      front \<noteq> [] \<and> lower_alnum (hd front) \<and> lower_alnum (last front) \<and>
      list_all (\<lambda>c. lower_alnum c \<or> c = CHR ''.'' \<or> c = CHR ''-'') front \<and> \<not> str_contains s ''..'')"

definition app_error :: "setup_lib \<Rightarrow> string \<Rightarrow> string \<Rightarrow> string \<Rightarrow> string option" where
  "app_error S origin domain sender =
    (let go = wlGo (suLib S) in
     if (case url_parse go origin of
           None \<Rightarrow> True
         | Some u \<Rightarrow> u_Scheme u \<noteq> ''https'' \<or> u_Hostname u = [] \<or> u_User u \<or> u_RawQuery u \<noteq> [] \<or>
             u_Fragment u \<noteq> [] \<or> u_Path u \<noteq> [] \<or> suPort S origin \<noteq> [])
     then Some ''app origin must be https://hostname, without credentials, port, path, query or fragment''
     else if \<not> sender_domain domain then Some ''sender domain must be a DNS domain such as info.example.com''
     else if parse_address go sender \<noteq> Some sender \<or> \<not> has_suffix (to_lower go sender) (''@'' @ domain)
     then Some ''sender must be a plain email address in the selected sender domain''
     else None)"

end
