(* ===== verification/AwsSetupProps.thy ===== *)
theory AwsSetupProps
  imports NukeProps AwsSetup
begin

text \<open>
  What the setup of the deployment role guarantees: roles of others are left alone, changes are made
  only where the inspection asked for them, success is read back; and what the setup and the teardown
  disagree about.
\<close>

section \<open>What AWS has answered\<close>

definition answered :: "setup_lib \<Rightarrow> string \<Rightarrow> string list \<Rightarrow> (string \<Rightarrow> 'b option) \<Rightarrow> 'b option \<Rightarrow>
    (wf_call \<times> wf_resp) list \<Rightarrow> bool" where
  "answered S region args parse x h \<longleftrightarrow> (\<exists>r. (WAws region (args @ aws_flags), r) \<in> set h \<and>
     aws_decode parse (aws_outcome (wlRenew (suLib S) region) args (w_stderr r) (w_stdout r)) = Inr x)"

definition performed :: "string \<Rightarrow> string list \<Rightarrow> (wf_call \<times> wf_resp) list \<Rightarrow> bool" where
  "performed region args h \<longleftrightarrow> (\<exists>r. (WAws region (args @ aws_flags), r) \<in> set h \<and> w_stderr r = None)"

definition consented :: "string \<Rightarrow> (wf_call \<times> wf_resp) list \<Rightarrow> bool" where
  "consented account h \<longleftrightarrow> (\<exists>r. (WConfirm (apply_label account), r) \<in> set h \<and> w_confirm r = Inr True)"

text \<open>A role of this setup, by its account and its tags.\<close>

definition role_mine :: "string \<Rightarrow> string \<Rightarrow> string \<Rightarrow> role_snapshot \<Rightarrow> bool" where
  "role_mine account subject environment role \<longleftrightarrow> has_prefix (roArn role) (''arn:aws:iam::'' @ account @ '':role/'') \<and>
     {(''attestra-setup'', ''github-'' @ environment), (''attestra-subject'', subject)} \<subseteq> set (roTags role)"

lemma foreign_mine: "foreign_role account subject environment role = None \<longleftrightarrow> role_mine account subject environment role"
  by (auto simp: foreign_role_def role_mine_def owned_def)

text \<open>What is known of the provider, the role and its policies when a plan is made.\<close>

definition planned :: "setup_lib \<Rightarrow> string \<Rightarrow> string \<Rightarrow> string \<Rightarrow> string \<Rightarrow> string \<Rightarrow> policies \<Rightarrow> setup_plan \<Rightarrow>
    (wf_call \<times> wf_resp) list \<Rightarrow> bool" where
  "planned S region account name subject environment ps p h \<longleftrightarrow>
     plAccount p = account \<and> plName p = name \<and> plSubject p = subject \<and> plEnvironment p = environment \<and>
     plPolicies p = ps \<and> plTrust p = github_trust account subject \<and>
     (if plProvider p
      then \<exists>url ids. answered S region (provider_args account) (suProvider S) (Some (url, ids)) h \<and>
        provider_url url \<and> (plAudience p \<longleftrightarrow> ''sts.amazonaws.com'' \<in> set ids)
      else answered S region (provider_args account) (suProvider S) None h \<and> \<not> plAudience p) \<and>
     answered S region (role_args name) (parse_role (suLib S)) (plRole p) h \<and>
     (\<forall>role. plRole p = Some role \<longrightarrow> role_mine account subject environment role \<and>
       (\<forall>policy\<in>fst ` set ps. answered S region (policy_args name policy) (suPolicy S) (map_of (plExisting p) policy) h))"

named_theorems lasting "facts about a history of the setup stay true"

lemma answered_lasting [lasting]: "answered S region args parse x h \<Longrightarrow> answered S region args parse x (t0 @ h @ t)"
  by (auto simp: answered_def)
lemma performed_lasting [lasting]: "performed region args h \<Longrightarrow> performed region args (t0 @ h @ t)"
  by (auto simp: performed_def)
lemma consented_lasting [lasting]: "consented account h \<Longrightarrow> consented account (t0 @ h @ t)"
  by (auto simp: consented_def)

lemmas answers_more = answered_lasting [where ?t0.0 = "[]", simplified] performed_lasting [where ?t0.0 = "[]", simplified]
  consented_lasting [where ?t0.0 = "[]", simplified]

lemma answered_either: "answered S region args parse x h \<or> answered S region args parse x t \<longleftrightarrow>
    answered S region args parse x (h @ t)"
  by (auto simp: answered_def)

lemma planned_lasting [lasting]:
  "planned S region account name subject environment ps p h \<Longrightarrow>
   planned S region account name subject environment ps p (t0 @ h @ t)"
  unfolding planned_def by (auto split: if_splits option.splits intro: lasting)

lemma execs_called: "execs (aws (suLib S) region args k) t x \<longleftrightarrow> (\<exists>r u. t = (WAws region (args @ aws_flags), r) # u \<and>
    execs (k (aws_outcome (wlRenew (suLib S) region) args (w_stderr r) (w_stdout r))) u x)"
  by (auto simp: aws_def execs_Call)

lemma answered_cons: "answered S region args parse x u \<Longrightarrow> answered S region args parse x (a # u)"
  by (auto simp: answered_def)

lemma answered_first: "answered S region args parse x [a] \<Longrightarrow> answered S region args parse x (a # u)"
  by (auto simp: answered_def)

text \<open>A call whose answer is decoded and that went on.\<close>

lemma execs_query:
  assumes "execs (aws (suLib S) region args (\<lambda>x. case aws_decode parse x of Inl e \<Rightarrow> Ret (Inl e) | Inr v \<Rightarrow> g v)) t (Inr y)"
  obtains a u v where "t = a # u" "answered S region args parse v [a]" "execs (g v) u (Inr y)"
  using assms by (auto simp: execs_called execs_unfold answered_def)

section \<open>The inspection\<close>

lemma existing_result:
  "execs (existing_policies S region name ps) t (Inr known) \<Longrightarrow>
   (\<forall>policy\<in>fst ` set ps. answered S region (policy_args name policy) (suPolicy S) (map_of known policy) t) \<and>
   fst ` set known \<subseteq> fst ` set ps"
proof (induction ps arbitrary: t known)
  case (Cons x ps t known)
  obtain n w where x: "x = (n, w)" by (cases x)
  from Cons.prems(1) obtain a u v where t: "t = a # u" "answered S region (policy_args name n) (suPolicy S) v [a]"
    and u: "execs (pbind (existing_policies S region name ps) (\<lambda>y. case y of Inl e \<Rightarrow> Ret (Inl e)
      | Inr known \<Rightarrow> Ret (Inr ((case v of None \<Rightarrow> [] | Some d \<Rightarrow> [(n, d)]) @ known)))) u (Inr known)"
    unfolding x existing_policies.simps by (rule execs_query)
  from u obtain k where k: "execs (existing_policies S region name ps) u (Inr k)"
    and known: "known = (case v of None \<Rightarrow> [] | Some d \<Rightarrow> [(n, d)]) @ k"
    by (auto simp: execs_unfold)
  note IH = Cons.IH [OF k]
  have v: "answered S region (policy_args name n) (suPolicy S) v t" using t answered_first by simp
  have "answered S region (policy_args name policy) (suPolicy S) (map_of known policy) t" if "policy \<in> fst ` set (x # ps)" for policy
  proof (cases "policy = n \<and> (v \<noteq> None \<or> n \<notin> fst ` set ps)")
    case True
    have "map_of k n = None" if "n \<notin> fst ` set ps" using IH that by (auto simp: map_of_eq_None_iff)
    with True v show ?thesis by (cases v) (auto simp: known)
  next
    case False
    with that have "policy \<in> fst ` set ps" "map_of known policy = map_of k policy"
      by (auto simp: x known split: option.split)
    with IH show ?thesis by (auto simp: t intro: answered_cons)
  qed
  with IH show ?case by (auto simp: known x split: option.split)
qed simp

text \<open>What the second half of an inspection adds to a plan without a role.\<close>

lemma existing_planned:
  assumes "execs (inspect_existing S region q) t (Inr p)" "plRole q = None" "plExisting q = []"
  obtains role known where "p = q\<lparr>plRole := role, plExisting := known\<rparr>"
    "answered S region (role_args (plName q)) (parse_role (suLib S)) role t"
    "\<And>r. role = Some r \<Longrightarrow> role_mine (plAccount q) (plSubject q) (plEnvironment q) r"
    "\<And>r policy. role = Some r \<Longrightarrow> policy \<in> fst ` set (plPolicies q) \<Longrightarrow>
       answered S region (policy_args (plName q) policy) (suPolicy S) (map_of known policy) t"
proof -
  from assms(1) obtain a u v where t: "t = a # u" "answered S region (role_args (plName q)) (parse_role (suLib S)) v [a]"
    and u: "execs (case v of None \<Rightarrow> Ret (Inr q)
       | Some role \<Rightarrow> (case foreign_role (plAccount q) (plSubject q) (plEnvironment q) role of
           Some e \<Rightarrow> Ret (Inl (WText e))
         | None \<Rightarrow> pbind (existing_policies S region (plName q) (sorted_policies (plPolicies q))) (\<lambda>y. case y of
             Inl e \<Rightarrow> Ret (Inl e)
           | Inr known \<Rightarrow> Ret (Inr (q\<lparr>plRole := Some role, plExisting := known\<rparr>))))) u (Inr p)"
    unfolding inspect_existing_def by (rule execs_query)
  have role: "answered S region (role_args (plName q)) (parse_role (suLib S)) v t"
    using t answered_first by simp
  show thesis
  proof (cases v)
    case None
    with u assms have "p = q\<lparr>plRole := None, plExisting := []\<rparr>" by simp
    with role None show thesis by (intro that) auto
  next
    case (Some r)
    with u obtain known where "execs (existing_policies S region (plName q) (sorted_policies (plPolicies q))) u (Inr known)"
      "p = q\<lparr>plRole := Some r, plExisting := known\<rparr>" "role_mine (plAccount q) (plSubject q) (plEnvironment q) r"
      by (auto simp: execs_unfold foreign_mine)
    moreover from existing_result [OF this(1)] t
    have "answered S region (policy_args (plName q) policy) (suPolicy S) (map_of known policy) t"
      if "policy \<in> fst ` set (plPolicies q)" for policy
      using that by (auto simp: sorted_policies_def intro: answered_cons)
    ultimately show thesis using role Some by (intro that) auto
  qed
qed

lemma inspect_planned:
  assumes "execs (inspect_setup S region account name subject environment ps) t (Inr p)"
  shows "planned S region account name subject environment ps p t"
proof -
  let ?plan = "empty_plan account name subject environment ps"
  from assms obtain a u v where t: "t = a # u" "answered S region (provider_args account) (suProvider S) v [a]"
    and u: "execs (case v of None \<Rightarrow> inspect_existing S region ?plan
       | Some (url, ids) \<Rightarrow>
           if \<not> provider_url url then Ret (Inl (WText ''unexpected GitHub provider URL''))
           else inspect_existing S region (?plan\<lparr>plProvider := True, plAudience := ''sts.amazonaws.com'' \<in> set ids\<rparr>)) u (Inr p)"
    unfolding inspect_setup_def Let_def by (rule execs_query)
  have v: "answered S region (provider_args account) (suProvider S) v t" using t answered_first by simp
  let ?q = "case v of None \<Rightarrow> ?plan | Some (url, ids) \<Rightarrow> ?plan\<lparr>plProvider := True, plAudience := ''sts.amazonaws.com'' \<in> set ids\<rparr>"
  have url: "provider_url url" if "v = Some (url, ids)" for url ids using u that by (simp add: execs_unfold split: if_splits)
  from u have "execs (inspect_existing S region ?q) u (Inr p)"
    by (auto simp: execs_unfold split: option.splits if_splits)
  then obtain role known where p: "p = ?q\<lparr>plRole := role, plExisting := known\<rparr>"
    and role: "answered S region (role_args (plName ?q)) (parse_role (suLib S)) role u"
      "\<And>r. role = Some r \<Longrightarrow> role_mine (plAccount ?q) (plSubject ?q) (plEnvironment ?q) r"
    and known: "\<And>r policy. role = Some r \<Longrightarrow> policy \<in> fst ` set (plPolicies ?q) \<Longrightarrow>
      answered S region (policy_args (plName ?q) policy) (suPolicy S) (map_of known policy) u"
    by (rule existing_planned) (auto simp: empty_plan_def split: option.split)
  have same: "plName ?q = name" "plAccount ?q = account" "plSubject ?q = subject" "plEnvironment ?q = environment"
    "plPolicies ?q = ps" "plTrust ?q = github_trust account subject"
    "plProvider ?q \<longleftrightarrow> v \<noteq> None" "plAudience ?q \<longleftrightarrow> (\<exists>url ids. v = Some (url, ids) \<and> ''sts.amazonaws.com'' \<in> set ids)"
    by (auto simp: empty_plan_def split: option.split)
  have r: "answered S region (role_args name) (parse_role (suLib S)) role t"
    and k: "\<forall>r. role = Some r \<longrightarrow> role_mine account subject environment r \<and>
      (\<forall>policy\<in>fst ` set ps. answered S region (policy_args name policy) (suPolicy S) (map_of known policy) t)"
    using role known by (simp_all add: same t(1) answered_cons)
  have pr: "if v \<noteq> None then \<exists>url ids. answered S region (provider_args account) (suProvider S) (Some (url, ids)) t \<and>
        provider_url url \<and> (plAudience ?q \<longleftrightarrow> ''sts.amazonaws.com'' \<in> set ids)
      else answered S region (provider_args account) (suProvider S) None t \<and> \<not> plAudience ?q"
    using v url by (cases v) (fastforce simp: empty_plan_def)+
  show ?thesis using r k pr by (simp add: planned_def p same(1-7))
qed

section \<open>The calls of the setup\<close>

definition own_role :: "setup_lib \<Rightarrow> string \<Rightarrow> string \<Rightarrow> string \<Rightarrow> string \<Rightarrow> string \<Rightarrow> (wf_call \<times> wf_resp) list \<Rightarrow> bool" where
  "own_role S region account name subject environment h \<longleftrightarrow>
     (\<exists>role. answered S region (role_args name) (parse_role (suLib S)) (Some role) h \<and>
        role_mine account subject environment role) \<or>
     performed region (create_role_args S (empty_plan account name subject environment [])) h"

definition due_policy :: "setup_lib \<Rightarrow> string \<Rightarrow> string \<Rightarrow> options \<Rightarrow> string \<Rightarrow> string \<Rightarrow> string \<times> jval \<Rightarrow>
    (wf_call \<times> wf_resp) list \<Rightarrow> bool" where
  "due_policy S account name o1 index zone x h \<longleftrightarrow> x \<in> set (role_policies (suDeploy S) account name o1 index zone) \<or>
     (\<exists>key arn. answered S (opRegion o1) (key_args key) (suKey S) (Some arn) h \<and>
        x = (''attestra-state-kms'', key_policy (opRegion o1) arn))"

text \<open>A change that the inspection of this provider, role or policy asked for.\<close>

definition due_change :: "setup_lib \<Rightarrow> string \<Rightarrow> string \<Rightarrow> string \<Rightarrow> string \<Rightarrow> options \<Rightarrow> string \<Rightarrow> string \<Rightarrow>
    string list \<Rightarrow> (wf_call \<times> wf_resp) list \<Rightarrow> bool" where
  "due_change S account name subject environment o1 index zone args h \<longleftrightarrow>
    (let region = opRegion o1; plan = empty_plan account name subject environment [];
         absent = answered S region (role_args name) (parse_role (suLib S)) None h;
         own = own_role S region account name subject environment h in
     (args = create_provider_args \<and> answered S region (provider_args account) (suProvider S) None h) \<or>
     (args = add_audience_args account \<and> (\<exists>url ids. provider_url url \<and> ''sts.amazonaws.com'' \<notin> set ids \<and>
        answered S region (provider_args account) (suProvider S) (Some (url, ids)) h)) \<or>
     (args = create_role_args S plan \<and> absent) \<or>
     (args = trust_args S plan \<and> own \<and> (\<exists>role. roTrust role \<noteq> github_trust account subject \<and>
        answered S region (role_args name) (parse_role (suLib S)) (Some role) h)) \<or>
     (\<exists>policy d. args = put_args S name policy d \<and> own \<and> due_policy S account name o1 index zone (policy, d) h \<and>
        (absent \<or> (\<exists>x. x \<noteq> Some d \<and> answered S region (policy_args name policy) (suPolicy S) x h))))"

definition setup_ok :: "setup_lib \<Rightarrow> string \<Rightarrow> string \<Rightarrow> string \<Rightarrow> string \<Rightarrow> options \<Rightarrow> bool \<Rightarrow> string \<Rightarrow> string \<Rightarrow>
    wf_call \<Rightarrow> (wf_call \<times> wf_resp) list \<Rightarrow> bool" where
  "setup_ok S account name subject environment o1 alone index zone q h \<longleftrightarrow>
     reading q \<or> q = WConfirm (apply_label account) \<or>
     ((alone \<longrightarrow> consented account h) \<and> (\<exists>args. q = WAws (opRegion o1) (args @ aws_flags) \<and>
        due_change S account name subject environment o1 index zone args h))"

text \<open>What a successful setup has read back, in calls after the last change.\<close>

definition setup_done :: "setup_lib \<Rightarrow> string \<Rightarrow> string \<Rightarrow> string \<Rightarrow> string \<Rightarrow> options \<Rightarrow> string \<Rightarrow> string \<Rightarrow> string \<Rightarrow>
    (wf_call \<times> wf_resp) list \<Rightarrow> bool" where
  "setup_done S account name subject environment o1 index zone arn h \<longleftrightarrow> (let region = opRegion o1 in
     \<exists>h0 t role url ids. h = h0 @ t \<and> (\<forall>(q, r)\<in>set t. reading q) \<and>
       answered S region (provider_args account) (suProvider S) (Some (url, ids)) t \<and>
       provider_url url \<and> ''sts.amazonaws.com'' \<in> set ids \<and>
       answered S region (role_args name) (parse_role (suLib S)) (Some role) t \<and>
       role_mine account subject environment role \<and> roArn role = arn \<and>
       roTrust role = github_trust account subject \<and>
       (\<forall>(policy, d)\<in>set (role_policies (suDeploy S) account name o1 index zone).
          answered S region (policy_args name policy) (suPolicy S) (Some d) t))"

definition setup_outcome :: "setup_lib \<Rightarrow> string \<Rightarrow> string \<Rightarrow> string \<Rightarrow> string \<Rightarrow> options \<Rightarrow> string \<Rightarrow> string \<Rightarrow>
    wf_err + string \<Rightarrow> (wf_call \<times> wf_resp) list \<Rightarrow> bool" where
  "setup_outcome S account name subject environment o1 index zone x h \<longleftrightarrow> (case x of
      Inl e \<Rightarrow> True
    | Inr arn \<Rightarrow> setup_done S account name subject environment o1 index zone arn h)"

lemma outcome_cases [simp]:
  "setup_outcome S account name subject environment o1 index zone (Inl e) h"
  "setup_outcome S account name subject environment o1 index zone (Inr arn) h \<longleftrightarrow>
     setup_done S account name subject environment o1 index zone arn h"
  by (simp_all add: setup_outcome_def)

lemma only_execs: "execs p t a \<Longrightarrow> only R p \<Longrightarrow> \<forall>(q, r)\<in>set t. R q"
  by (induction rule: execs.induct) auto

lemma existing_reads: "only reading (existing_policies S region name ps)"
  by (induction ps) (auto intro!: read_intros simp: policy_args_def has_prefix_def)

lemma inspect_reads: "only reading (inspect_setup S region account name subject environment ps)"
  unfolding inspect_setup_def inspect_existing_def Let_def
  by (intro read_intros existing_reads) (simp_all add: provider_args_def role_args_def has_prefix_def)

lemma keys_reads: "only reading (key_policies S region rs ps)"
  by (induction rs arbitrary: ps) (auto intro!: read_intros simp: key_args_def has_prefix_def)

lemma due_lasting [lasting]: "due_policy S account name o1 index zone x h \<Longrightarrow> due_policy S account name o1 index zone x (h @ t)"
  unfolding due_policy_def by (blast intro: answers_more)

lemma keys_due:
  "execs (key_policies S (opRegion o1) rs ps) t (Inr qs) \<Longrightarrow> (\<And>x. x \<in> set ps \<Longrightarrow> due_policy S account name o1 index zone x h) \<Longrightarrow>
   (x \<in> set qs \<longrightarrow> due_policy S account name o1 index zone x (h @ t)) \<and> (x \<in> set ps \<longrightarrow> fst x \<noteq> ''attestra-state-kms'' \<longrightarrow> x \<in> set qs)"
proof (induction rs arbitrary: ps t h)
  case (Cons y rs ps t h)
  obtain algorithm key where y: "y = (algorithm, key)" by (cases y)
  show ?case
  proof (cases "algorithm = ''aws:kms'' \<or> algorithm = ''aws:kms:dsse''")
    case True
    with Cons.prems(1) obtain a u v where t: "t = a # u" "answered S (opRegion o1) (key_args key) (suKey S) v [a]"
      and u: "execs (case v of None \<Rightarrow> Ret (Inl (WText ''cannot resolve the state encryption key''))
          | Some arn \<Rightarrow> if arn = [] then Ret (Inl (WText ''cannot resolve the state encryption key''))
              else key_policies S (opRegion o1) rs (put_policy ''attestra-state-kms'' (key_policy (opRegion o1) arn) ps)) u (Inr qs)"
      unfolding y by (simp add: if_P) (erule execs_query, auto)
    then obtain arn where v: "v = Some arn" and
      k: "execs (key_policies S (opRegion o1) rs (put_policy ''attestra-state-kms'' (key_policy (opRegion o1) arn) ps)) u (Inr qs)"
      by (auto split: option.splits if_splits)
    have "due_policy S account name o1 index zone x (h @ [a])"
      if "x \<in> set (put_policy ''attestra-state-kms'' (key_policy (opRegion o1) arn) ps)" for x
    proof (cases "x = (''attestra-state-kms'', key_policy (opRegion o1) arn)")
      case True
      moreover have "answered S (opRegion o1) (key_args key) (suKey S) (Some arn) (h @ [a])"
        using t(2) by (simp add: v answered_either [symmetric])
      ultimately show ?thesis unfolding due_policy_def by blast
    next
      case False
      with that have "x \<in> set ps" by (auto simp: put_policy_def)
      then show ?thesis by (intro due_lasting Cons.prems(2))
    qed
    from Cons.IH [OF k this] show ?thesis by (auto simp: t put_policy_def)
  next
    case False
    with Cons.prems(1) have "execs (key_policies S (opRegion o1) rs ps) t (Inr qs)" by (simp add: y)
    from Cons.IH [OF this Cons.prems(2)] show ?thesis .
  qed
qed (auto intro: lasting)

section \<open>The changes\<close>

text \<open>What holds when the changes begin, and stays true.\<close>

definition ready :: "setup_lib \<Rightarrow> string \<Rightarrow> string \<Rightarrow> string \<Rightarrow> string \<Rightarrow> options \<Rightarrow> bool \<Rightarrow> string \<Rightarrow> string \<Rightarrow> setup_plan \<Rightarrow>
    (wf_call \<times> wf_resp) list \<Rightarrow> bool" where
  "ready S account name subject environment o1 alone index zone p h \<longleftrightarrow>
     planned S (opRegion o1) account name subject environment (plPolicies p) p h \<and> (alone \<longrightarrow> consented account h) \<and>
     (\<forall>x\<in>set (plPolicies p). due_policy S account name o1 index zone x h) \<and>
     set (role_policies (suDeploy S) account name o1 index zone) \<subseteq> set (plPolicies p)"

lemma ready_lasting [lasting]: "ready S account name subject environment o1 alone index zone p h \<Longrightarrow>
    ready S account name subject environment o1 alone index zone p (h @ t)"
  unfolding ready_def using planned_lasting [where ?t0.0 = "[]"] consented_lasting [where ?t0.0 = "[]"] due_lasting
  by auto

lemma own_lasting [lasting]: "own_role S region account name subject environment h \<Longrightarrow>
    own_role S region account name subject environment (h @ t)"
  unfolding own_role_def by (blast intro: answers_more)

lemma setup_write_safe:
  assumes "P (WAws region (args @ aws_flags)) h"
    and "\<And>e a. (e = None \<Longrightarrow> performed region args [a]) \<Longrightarrow> safe P Q (f e) (h @ [a])"
  shows "safe P Q (pbind (setup_write S region args) f) h"
  using assms by (auto simp: setup_write_def aws_def performed_def aws_found_def aws_outcome_def
      split: sum.split aws_answer.split option.split)

lemma ready_due:
  assumes "ready S account name subject environment o1 alone index zone p h"
    and "due_change S account name subject environment o1 index zone args h"
  shows "setup_ok S account name subject environment o1 alone index zone (WAws (opRegion o1) (args @ aws_flags)) h"
  using assms by (auto simp: setup_ok_def ready_def)

lemma due_write:
  assumes "ready S account name subject environment o1 alone index zone p h"
    and "due_change S account name subject environment o1 index zone args h"
    and "\<And>e a. (e = None \<Longrightarrow> performed (opRegion o1) args [a]) \<Longrightarrow>
      safe (setup_ok S account name subject environment o1 alone index zone) Q (f e) (h @ [a])"
  shows "safe (setup_ok S account name subject environment o1 alone index zone) Q (pbind (setup_write S (opRegion o1) args) f) h"
  by (rule setup_write_safe [where P = "setup_ok S account name subject environment o1 alone index zone", OF ready_due [OF assms(1, 2)] assms(3)])

lemma apply_policies_safe:
  assumes "ready S account name subject environment o1 alone index zone p h"
    "own_role S (opRegion o1) account name subject environment h" "set qs \<subseteq> set (plPolicies p)"
  shows "safe (setup_ok S account name subject environment o1 alone index zone) (\<lambda>_ _. True)
    (apply_policies S (opRegion o1) p qs) h"
  using assms
proof (induction qs arbitrary: h)
  case (Cons q qs h)
  obtain policy d where q: "q = (policy, d)" by (cases q)
  show ?case
  proof (cases "map_of (plExisting p) policy = Some d")
    case True
    with Cons show ?thesis by (simp add: q)
  next
    case False
    have seen: "answered S (opRegion o1) (role_args name) (parse_role (suLib S)) None h \<or>
      (\<exists>x. x \<noteq> Some d \<and> answered S (opRegion o1) (policy_args name policy) (suPolicy S) x h)"
    proof (cases "plRole p")
      case None
      with Cons.prems(1) show ?thesis by (simp add: ready_def planned_def)
    next
      case (Some role)
      have "policy \<in> fst ` set (plPolicies p)" using Cons.prems(3) by (force simp: q)
      with Some Cons.prems(1) False show ?thesis by (auto simp: ready_def planned_def)
    qed
    moreover have "due_policy S account name o1 index zone (policy, d) h" "plName p = name"
      using Cons.prems by (auto simp: ready_def planned_def q)
    ultimately have "due_change S account name subject environment o1 index zone (put_args S (plName p) policy d) h"
      using Cons.prems(2) unfolding due_change_def Let_def by blast
    note putting = due_write [OF Cons.prems(1) this]
    have "safe (setup_ok S account name subject environment o1 alone index zone) (\<lambda>_ _. True)
      (apply_policies S (opRegion o1) p qs) (h @ [a])" for a
      using Cons.prems by (intro Cons.IH ready_lasting own_lasting) auto
    with False show ?thesis by (auto simp: q intro!: putting split: option.split)
  qed
qed simp

lemma create_same:
  assumes "planned S region account name subject environment ps p h"
  shows "create_role_args S p = create_role_args S (empty_plan account name subject environment [])"
    "trust_args S p = trust_args S (empty_plan account name subject environment [])"
  using assms by (simp_all add: create_role_args_def trust_args_def planned_def empty_plan_def)

lemma unverified_None: "unverified_policy known ps = None \<longleftrightarrow> (\<forall>(policy, d)\<in>set ps. map_of known policy = Some d)"
  by (induction known ps rule: unverified_policy.induct) auto

text \<open>The read-back is an inspection of its own, so its answers are newer than every change.\<close>

lemma read_back_done:
  assumes "ready S account name subject environment o1 alone index zone p h"
    and "execs (inspect_setup S (opRegion o1) account name subject environment (plPolicies p)) t (Inr v)"
    and "verified_setup p v = Inr arn"
  shows "setup_done S account name subject environment o1 index zone arn (h @ t)"
proof -
  from assms(3) obtain role where role: "plRole v = Some role" "plAudience v" "roTrust role = plTrust p" "arn = roArn role"
    "unverified_policy (plExisting v) (plPolicies p) = None"
    by (auto simp: verified_setup_def split: option.splits if_splits)
  note v = inspect_planned [OF assms(2), unfolded planned_def]
  obtain url ids where provider: "answered S (opRegion o1) (provider_args account) (suProvider S) (Some (url, ids)) t"
    "provider_url url" "''sts.amazonaws.com'' \<in> set ids"
    using v role(2) by (auto split: if_splits)
  have "\<forall>(policy, d)\<in>set (plPolicies p). answered S (opRegion o1) (policy_args name policy) (suPolicy S) (Some d) t"
  proof clarify
    fix policy d
    assume x: "(policy, d) \<in> set (plPolicies p)"
    with role(5) have "map_of (plExisting v) policy = Some d" by (auto simp: unverified_None)
    moreover have "policy \<in> fst ` set (plPolicies p)" using x by force
    ultimately show "answered S (opRegion o1) (policy_args name policy) (suPolicy S) (Some d) t"
      using v role(1) by metis
  qed
  moreover have "plTrust p = github_trust account subject"
    "set (role_policies (suDeploy S) account name o1 index zone) \<subseteq> set (plPolicies p)"
    using assms(1) by (auto simp: ready_def planned_def)
  moreover have "\<forall>(q, r)\<in>set t. reading q" by (rule only_execs [OF assms(2) inspect_reads])
  moreover have "answered S (opRegion o1) (role_args name) (parse_role (suLib S)) (Some role) t"
    "role_mine account subject environment role"
    using v role(1) by auto
  ultimately show ?thesis using provider role(3, 4) unfolding setup_done_def Let_def
    by (intro exI [of _ h] exI [of _ t] exI [of _ role] exI [of _ url] exI [of _ ids]) auto
qed

lemma apply_setup_safe:
  assumes "ready S account name subject environment o1 alone index zone p h"
  shows "safe (setup_ok S account name subject environment o1 alone index zone)
    (setup_outcome S account name subject environment o1 index zone)
    (apply_setup S (opRegion o1) p) h"
  (is "safe ?ok ?Q _ _")
proof -
  let ?region = "opRegion o1" and ?ready = "ready S account name subject environment o1 alone index zone p"
  let ?own = "own_role S ?region account name subject environment"
  let ?read = "pbind (inspect_setup S ?region (plAccount p) (plName p) (plSubject p) (plEnvironment p) (plPolicies p)) (\<lambda>x.
    Ret (case x of Inl e \<Rightarrow> Inl e | Inr v \<Rightarrow> verified_setup p v))"
  let ?puts = "pbind (apply_policies S ?region p (sorted_policies (plPolicies p))) (\<lambda>e. case e of
    Some e \<Rightarrow> Ret (Inl e) | None \<Rightarrow> ?read)"
  have p: "planned S ?region account name subject environment (plPolicies p) p h" if "?ready h" for h
    using that by (simp add: ready_def)
  have fields: "plAccount p = account" "plName p = name" "plSubject p = subject" "plEnvironment p = environment"
    using p [OF assms] by (auto simp: planned_def)
  have read: "safe ?ok ?Q ?read h" if "?ready h" for h
    by (rule safe_bind_execs [OF only_safe [OF inspect_reads]])
      (auto simp: setup_ok_def setup_outcome_def fields intro: read_back_done [OF that] split: sum.split)
  have puts: "safe ?ok ?Q ?puts h" if "?ready h" "?own h" for h
    by (rule safe_bind_execs [OF apply_policies_safe [OF that]])
      (auto simp: sorted_policies_def intro!: read ready_lasting that(1) split: option.split)
  have continue: "safe ?ok ?Q (case e of Some e \<Rightarrow> Ret (Inl e) | None \<Rightarrow> ?puts) (h @ [a])"
    if "?ready h" "e = None \<Longrightarrow> ?own (h @ [a])" for e a h
    using that by (cases e) (auto intro!: puts ready_lasting)
  have role: "safe ?ok ?Q (pbind (apply_role S ?region p) (\<lambda>e. case e of Some e \<Rightarrow> Ret (Inl e) | None \<Rightarrow> ?puts)) h"
    if r: "?ready h" for h
  proof (cases "plRole p")
    case None
    have due: "due_change S account name subject environment o1 index zone (create_role_args S p) h"
      using None p [OF r] create_same(1) [OF p [OF r]] by (auto simp: due_change_def Let_def planned_def)
    show ?thesis unfolding apply_role_def None option.case
      by (rule due_write [OF r due], rule continue [OF r])
        (simp add: own_role_def create_same(1) [OF p [OF r]] performed_def; blast)
  next
    case (Some role)
    have own: "?own h" using Some p [OF r] by (auto simp: own_role_def planned_def)
    show ?thesis
    proof (cases "roTrust role = plTrust p")
      case True
      with Some show ?thesis by (simp add: apply_role_def puts [OF r own])
    next
      case False
      then have due: "due_change S account name subject environment o1 index zone (trust_args S p) h"
        using Some own p [OF r] create_same(2) [OF p [OF r]] by (auto simp: due_change_def Let_def planned_def)
      show ?thesis unfolding apply_role_def Some option.case if_P [OF False]
        by (rule due_write [OF r due], rule continue [OF r own_lasting [OF own]])
    qed
  qed
  have later: "safe ?ok ?Q (case e of Some e \<Rightarrow> Ret (Inl e) | None \<Rightarrow>
      pbind (apply_role S ?region p) (\<lambda>e. case e of Some e \<Rightarrow> Ret (Inl e) | None \<Rightarrow> ?puts)) (h @ t)" for e t
    by (auto intro!: role ready_lasting assms split: option.split)
  consider "\<not> plProvider p" | "plProvider p" "\<not> plAudience p" | "plProvider p" "plAudience p" by blast
  then show ?thesis
  proof cases
    case 1
    then have "due_change S account name subject environment o1 index zone create_provider_args h"
      using p [OF assms] by (auto simp: due_change_def Let_def planned_def)
    note due = this
    show ?thesis unfolding apply_setup_def apply_provider_def if_P [OF 1] by (rule due_write [OF assms due], rule later)
  next
    case 2
    then have "due_change S account name subject environment o1 index zone (add_audience_args account) h"
      using p [OF assms] by (auto simp: due_change_def Let_def planned_def)
    note due = this
    show ?thesis using 2 due_write [OF assms due later] by (simp add: apply_setup_def apply_provider_def fields)
  next
    case 3
    with later [of None "[]"] show ?thesis by (simp add: apply_setup_def apply_provider_def)
  qed
qed

lemma confirmed_safe:
  assumes "ready S account name subject environment o1 alone index zone p h"
  shows "safe (setup_ok S account name subject environment o1 alone index zone)
    (setup_outcome S account name subject environment o1 index zone) (confirmed_setup S (opRegion o1) p) h"
  unfolding confirmed_setup_def
  by (rule safe_bindI [OF apply_setup_safe [OF assms]]) (auto split: sum.split)

lemma ask_safe:
  assumes "ready S account name subject environment o1 False index zone p h"
  shows "safe (setup_ok S account name subject environment o1 alone index zone)
    (setup_outcome S account name subject environment o1 index zone) (ask_setup S (opRegion o1) alone p) h"
proof -
  have r: "ready S account name subject environment o1 alone index zone p (h @ t)" if "alone \<Longrightarrow> consented account t" for t
    using ready_lasting [OF assms, of t] that by (auto simp: ready_def consented_def)
  have go: "safe (setup_ok S account name subject environment o1 alone index zone)
      (setup_outcome S account name subject environment o1 index zone) (confirmed_setup S (opRegion o1) p) (h @ t)"
    if "alone \<Longrightarrow> consented account t" for t
    by (rule confirmed_safe [OF r]) (fact that)
  have a: "plAccount p = account" using assms by (simp add: ready_def planned_def)
  show ?thesis
  proof (cases alone)
    case True
    have "safe (setup_ok S account name subject environment o1 alone index zone)
      (setup_outcome S account name subject environment o1 index zone) (confirmed_setup S (opRegion o1) p)
      (h @ [(WConfirm (apply_label account), r)])" if "w_confirm r = Inr True" for r
      by (rule go) (use that in \<open>simp add: consented_def\<close>)
    with True show ?thesis by (auto simp: ask_setup_def a setup_ok_def split: sum.split)
  next
    case False
    with go [of "[]"] show ?thesis by (simp add: ask_setup_def)
  qed
qed

lemma role_policies_names: "x \<in> set (role_policies X account name o1 index zone) \<Longrightarrow> fst x \<noteq> ''attestra-state-kms''"
  by (auto simp: role_policies_def deployment_policies_def put_policy_def Let_def split: if_splits)

text \<open>C19: The setup of a deployment role changes nothing that is not its own: the provider is created or
  extended and the role created only when AWS showed them missing, trust and policies are written only
  to a role that this run created or whose tags name the repository and the environment, only where they
  differ, and without the wizard only after the account was confirmed; success means that provider, role,
  trust and every policy were read back as wanted after the last change.\<close>

theorem setup_role_owned:
  "safe (setup_ok S account name subject environment o1 alone index zone)
     (setup_outcome S account name subject environment o1 index zone)
     (setup_role S account name subject environment o1 alone index zone) h"
proof -
  let ?ok = "setup_ok S account name subject environment o1 alone index zone"
  let ?Q = "setup_outcome S account name subject environment o1 index zone"
  let ?region = "opRegion o1" and ?ps = "role_policies (suDeploy S) account name o1 index zone"
  have reading: "?ok q h" if "reading q" for q h using that by (simp add: setup_ok_def)
  have planned: "safe ?ok ?Q (pbind (inspect_setup S ?region account name subject environment qs) (\<lambda>x. case x of
      Inl e \<Rightarrow> Ret (Inl e) | Inr p \<Rightarrow> ask_setup S ?region alone p)) h"
    if qs: "\<And>x. x \<in> set qs \<Longrightarrow> due_policy S account name o1 index zone x h" "set ?ps \<subseteq> set qs" for qs h
  proof (rule safe_bind_execs [OF only_safe [OF inspect_reads reading]])
    fix x t
    assume x: "execs (inspect_setup S ?region account name subject environment qs) t x"
    have "ready S account name subject environment o1 False index zone p (h @ t)" if "x = Inr p" for p
      using inspect_planned [of S ?region account name subject environment qs t p] x that qs(2)
        planned_lasting [of S ?region account name subject environment qs p t h "[]"] due_lasting [OF qs(1)]
      by (auto simp: ready_def planned_def)
    then show "safe ?ok ?Q (case x of Inl e \<Rightarrow> Ret (Inl e) | Inr p \<Rightarrow> ask_setup S ?region alone p) (h @ t)"
      by (cases x) (auto intro!: ask_safe)
  qed
  have keys: "safe ?ok ?Q (pbind (key_policies S ?region rs ?ps) (\<lambda>x. case x of Inl e \<Rightarrow> Ret (Inl e)
      | Inr qs \<Rightarrow> pbind (inspect_setup S ?region account name subject environment qs) (\<lambda>x. case x of
          Inl e \<Rightarrow> Ret (Inl e) | Inr p \<Rightarrow> ask_setup S ?region alone p))) h" for rs h
  proof (rule safe_bind_execs [OF only_safe [OF keys_reads reading]])
    fix x t
    assume x: "execs (key_policies S ?region rs ?ps) t x"
    have due: "due_policy S account name o1 index zone y h" if "y \<in> set ?ps" for y using that by (simp add: due_policy_def)
    show "safe ?ok ?Q (case x of Inl e \<Rightarrow> Ret (Inl e)
      | Inr qs \<Rightarrow> pbind (inspect_setup S ?region account name subject environment qs) (\<lambda>x. case x of
          Inl e \<Rightarrow> Ret (Inl e) | Inr p \<Rightarrow> ask_setup S ?region alone p)) (h @ t)"
    proof (cases x)
      case (Inr qs)
      note qs = keys_due [OF x [unfolded Inr] due]
      have "due_policy S account name o1 index zone y (h @ t)" if "y \<in> set qs" for y using qs that by blast
      moreover have "set ?ps \<subseteq> set qs" using qs role_policies_names by blast
      ultimately show ?thesis by (simp add: Inr planned)
    qed simp
  qed
  have "reading (WAws ?region (encryption_args S account o1 @ aws_flags))" by (simp add: encryption_args_def has_prefix_def)
  then show ?thesis by (auto simp: setup_role_def Let_def aws_def reading keys split: sum.split option.split)
qed

section \<open>Setup against teardown\<close>

text \<open>The role may not administer itself.\<close>

lemma role_denied:
  "\<exists>ss. (''attestra-iam'', document (ss @ [deny_statement account name])) \<in> set (role_policies X account name o1 index zone)"
  by (rule exI [of _ "[statement iam_actions (application_roles account), attach_statement account,
         pass_statement account, linked_role_statement account]"])
    (simp add: role_policies_def deployment_policies_def put_policy_def Let_def document_def with_statement_def)

text \<open>AWS has listed the inline policies of a role, and those of the setup are among them.\<close>

definition listed_policies :: "wf_lib \<Rightarrow> string \<Rightarrow> string set \<Rightarrow> (wf_call \<times> wf_resp) list \<Rightarrow> bool" where
  "listed_policies W region names h \<longleftrightarrow> (\<exists>role r policies trunc. let args = [''iam'', ''list-role-policies'', ''--role-name'', role] in
     (WAws region (args @ aws_flags), r) \<in> set h \<and> names \<subseteq> set policies \<and>
     aws_decode (parse_list W) (aws_outcome (wlRenew W region) args (w_stderr r) (w_stdout r)) = Inr (Some (policies, trunc)))"

definition refused :: "wf_lib \<Rightarrow> string \<Rightarrow> string set \<Rightarrow> wf_err option \<Rightarrow> (wf_call \<times> wf_resp) list \<Rightarrow> bool" where
  "refused W region names e h \<longleftrightarrow> (listed_policies W region names h \<longrightarrow> e \<noteq> None)"

definition kept_role :: "wf_lib \<Rightarrow> string \<Rightarrow> string set \<Rightarrow> wf_call \<Rightarrow> (wf_call \<times> wf_resp) list \<Rightarrow> bool" where
  "kept_role W region names q h \<longleftrightarrow> reading q \<or> \<not> listed_policies W region names h"

definition policy_listing :: "wf_call \<Rightarrow> bool" where
  "policy_listing q \<longleftrightarrow> (\<exists>region args. q = WAws region (''iam'' # ''list-role-policies'' # args))"

lemma listed_append: "listed_policies W region names (h @ t) \<longleftrightarrow>
    listed_policies W region names h \<or> listed_policies W region names t"
  unfolding listed_policies_def Let_def by auto

lemma listed_cons: "listed_policies W region names (a # b # h) \<longleftrightarrow>
    listed_policies W region names [a] \<or> listed_policies W region names (b # h)"
  using listed_append [of W region names "[a]" "b # h"] by simp

lemma listed_other: "\<not> policy_listing q \<Longrightarrow> \<not> listed_policies W region names [(q, r)]"
  by (auto simp: listed_policies_def policy_listing_def)

lemma unlisted_safe:
  "only (\<lambda>q. \<not> policy_listing q) p \<Longrightarrow> \<not> listed_policies W region names h \<Longrightarrow>
   safe (kept_role W region names) (\<lambda>_ h. \<not> listed_policies W region names h) p h"
  by (induction p arbitrary: h) (auto simp: kept_role_def listed_append listed_other)

lemma delete_unlisted: "only (\<lambda>q. \<not> policy_listing q) (delete_policies W region name ps)"
  "only (\<lambda>q. \<not> policy_listing q) (remove_role W region name)"
  by (induction ps) (auto simp: remove_role_def aws_def policy_listing_def intro!: only_sum)

definition checked_role :: "wf_lib \<Rightarrow> string \<Rightarrow> string set \<Rightarrow> wf_err + string \<times> string list \<Rightarrow> (wf_call \<times> wf_resp) list \<Rightarrow> bool" where
  "checked_role W region names x h \<longleftrightarrow> (case x of Inl e \<Rightarrow> True | Inr _ \<Rightarrow> \<not> listed_policies W region names h)"

lemma inspect_contents_listed:
  assumes "p \<in> names" "p \<notin> set managed_policies" "\<not> listed_policies W region names h"
  shows "safe (\<lambda>q _. reading q) (checked_role W region names) (inspect_contents W region name) h"
proof -
  have "\<not> listed_policies W region names [(WAws region ([''iam'', ''list-role-policies'', ''--role-name'', name] @ aws_flags), r)]"
    if "aws_decode (parse_list W) (aws_outcome (wlRenew W region) [''iam'', ''list-role-policies'', ''--role-name'', name]
        (w_stderr r) (w_stdout r)) = Inr v" "set (case v of None \<Rightarrow> [] | Some l \<Rightarrow> fst l) \<subseteq> set managed_policies" for r v
    using that assms(1, 2) by (auto simp: listed_policies_def)
  then show ?thesis using assms(3)
    by (auto simp: inspect_contents_def role_listing_def aws_def checked_role_def listed_append listed_cons listed_other
        policy_listing_def has_prefix_def split: sum.split sum.splits option.splits)
qed

lemma inspect_role_listed:
  assumes "p \<in> names" "p \<notin> set managed_policies"
  shows "safe (\<lambda>q _. reading q) (checked_role W region names) (inspect_role W region arn environment m) []"
proof -
  have "\<not> listed_policies W region names [(WAws region ([''iam'', ''get-role'', ''--role-name'', name] @ aws_flags), r)]" for name r
    by (rule listed_other) (simp add: policy_listing_def)
  then show ?thesis using inspect_contents_listed [OF assms]
    by (auto simp: inspect_role_def aws_def checked_role_def has_prefix_def split: list.split sum.split option.split)
qed

text \<open>C22: A teardown never removes a deployment role as the setup leaves it: when AWS lists the policies that
  every setup puts, it stops with an error and has only read, because it does not know \<open>attestra-associations\<close>.\<close>

theorem setup_role_stuck:
  "safe (kept_role W region (fst ` set (role_policies X account name o1 index zone)))
     (refused W region (fst ` set (role_policies X account name o1 index zone)))
     (delete_role W region arn environment m) []"
proof -
  let ?names = "fst ` set (role_policies X account name o1 index zone)"
  have known: "''attestra-associations'' \<in> ?names" "''attestra-associations'' \<notin> set managed_policies"
    by (force simp: role_policies_def deployment_policies_def put_policy_def Let_def, simp add: managed_policies_def)
  have removal: "only (\<lambda>q. \<not> policy_listing q) (pbind (delete_policies W region role ps) (\<lambda>e. case e of
      Some e \<Rightarrow> Ret (Some e) | None \<Rightarrow> remove_role W region role))" for role ps
    by (intro only_pbind only_option delete_unlisted) simp
  show ?thesis unfolding delete_role_def
  proof (rule safe_bindI [OF safe_mono [OF inspect_role_listed [OF known]]])
    fix x h
    assume "checked_role W region ?names x h"
    then show "safe (kept_role W region ?names) (refused W region ?names)
      (case x of Inl e \<Rightarrow> Ret (Some e) | Inr (role, policies) \<Rightarrow> pbind (delete_policies W region role policies) (\<lambda>e. case e of
        Some e \<Rightarrow> Ret (Some e) | None \<Rightarrow> remove_role W region role)) h"
      by (auto simp: checked_role_def refused_def intro: safe_conseq [OF unlisted_safe [OF removal]] split: sum.splits)
  qed (auto simp: kept_role_def)
qed

section \<open>The state bucket\<close>

definition bucket_ok :: "setup_lib \<Rightarrow> options \<Rightarrow> string \<Rightarrow> wf_call \<Rightarrow> (wf_call \<times> wf_resp) list \<Rightarrow> bool" where
  "bucket_ok S o1 account q h \<longleftrightarrow> (let bucket = url_host (suDeploy S) (opBackend o1); region = opRegion o1 in
     reading q \<or>
     (q = WAws region (create_bucket_args bucket region @ aws_flags) \<and>
        (\<exists>r e. (WAws region (state_bucket_args ''head-bucket'' bucket account @ aws_flags), r) \<in> set h \<and>
           aws_found (aws_outcome (wlRenew (suLib S) region) (state_bucket_args ''head-bucket'' bucket account) (w_stderr r) (w_stdout r)) = Inl e \<and>
           bucket_missing e)) \<or>
     (q \<in> {WAws region (private_args bucket account @ aws_flags), WAws region (versioned_args bucket account @ aws_flags)} \<and>
        (\<exists>l. answered S region (state_bucket_args ''get-bucket-location'' bucket account) (suLocation S) l h \<and>
           bucket_region (Option.bind l id) = region)))"

text \<open>The state bucket is created only when S3 says that there is none, and its settings are changed
  only when it is in the region of the environment.\<close>

lemma secure_bucket_safe:
  "safe (bucket_ok S o1 account) (\<lambda>_ _. True)
     (secure_bucket S (url_host (suDeploy S) (opBackend o1)) (opRegion o1) account) h"
  unfolding secure_bucket_def
  by (auto simp: aws_def bucket_ok_def Let_def state_bucket_args_def has_prefix_def answered_def option.case_distrib
      split: sum.split option.splits)

theorem state_bucket_kept: "safe (bucket_ok S o1 account) (\<lambda>_ _. True) (ensure_bucket S o1 account) h"
  unfolding ensure_bucket_def Let_def
  by (auto simp: aws_def secure_bucket_safe split: sum.split)
    (auto simp: bucket_ok_def Let_def state_bucket_args_def has_prefix_def)

end
