(* ===== verification/Spec2Isabelle.thy ===== *)
theory Spec2Isabelle
  imports EmailConc GrantProps StoreProps CaptureProps Api CaptureApi Passkey ConfigProps RegistryProps SigninProps
    EnvResetProps AdminProps CapStoreProps EnvBackendProps CaptureObjectsProps ExtractorProps
    DnsProps FilesProps VaultProps GithubProps TeardownOrder DeployProps StackProps NukeRecovery AwsSetupProps
begin

text \<open>
  Verification library of the Attestra authentication services (\<open>go.attestra.aws.auth\<close>).

  \<^bold>\<open>The program.\<close> Lambda handlers serve sign-up by e-mail, sign-in, passkeys, identity-document capture and an
  administrators' API; their state is DynamoDB tables, S3 objects and a Cognito pool. A registry Lambda lists the
  environments. A command-line tool deploys, sets up and tears down environments. The components meet in the
  stores (conditional writes), in one-time grants between the sign-up service and the challenge Lambda, in the
  registry's leases between deployments, and in the tool's local checkpoints.

  \<^bold>\<open>How it is modelled.\<close> An operation is a \<open>prog\<close> (\<open>Prelude\<close>): the tree of the calls it makes to its interfaces,
  each with a continuation that receives the answer, in the order of the source, every guard, error and early
  return a branch. Structs are records, errors sums or options, pointers options; names are the source's, a prefix
  added where one clashes. Interfaces are not defined: theorems quantify over their answers (\<open>safe P Q\<close>: every call
  satisfies \<open>P\<close> of the history, every result \<open>Q\<close>), over the states of a service with a step relation (\<open>runs\<close>, \<open>during\<close>),
  over interleavings of many requests (the \<open>*Conc\<close>, \<open>*Machine\<close> and \<open>Versioned\<close> theories), or describe a whole execution
  (\<open>execs\<close>, \<open>within\<close>). Library code (encoding/json, net/url, regular expressions with no simple shape, image/jpeg,
  SHA-256, AES-GCM, Unicode tables) is a field of a library record (\<open>golib\<close>, \<open>dns_lib\<close>, \<open>wf_lib\<close>, ...), its laws are
  hypotheses where a theorem needs them, with a witness that has a concrete function. \<open>Golib\<close> and \<open>Gateway\<close> write out
  what the sources use of strings, base64, UTF-8, dates, integers (\<open>int64\<close> with its wrap-around) and HTTP events.

  \<^bold>\<open>Theories and sources.\<close>
  \<^item> \<open>Email\<close>, \<open>EmailMachine\<close>, \<open>EmailMail\<close>, \<open>EmailConc\<close>, \<open>EmailProps\<close>: \<open>email/service.go\<close>; \<open>EmailStore\<close>, \<open>StoreProps\<close>:
    \<open>awsstore/store.go\<close>; \<open>Api\<close>: \<open>api/handler.go\<close>. A session needs both proofs, wrong codes are bounded, the store
    refines the abstract versioned store of \<open>Versioned\<close>.
  \<^item> \<open>Grants\<close>, \<open>GrantProps\<close>: \<open>awsidentity/identity.go\<close>, \<open>challenge/challenge.go\<close>. A grant is redeemed at most once.
  \<^item> \<open>Capture\<close>, \<open>CaptureService\<close>, \<open>CaptureWorker\<close>, \<open>CaptureMachine\<close>, \<open>CaptureConc\<close>, \<open>CaptureProps\<close>: \<open>capture/\<close>; \<open>CaptureApi\<close>:
    \<open>captureapi/handler.go\<close>; \<open>CaptureStore\<close>, \<open>CapStoreProps\<close>, \<open>CaptureObjects\<close>, \<open>CaptureObjectsProps\<close>, \<open>Extractor\<close>,
    \<open>ExtractorProps\<close>: \<open>awscapture/\<close>; \<open>AwsHttp\<close>: \<open>internal/awshttp/client.go\<close>. Stored captures keep their invariant,
    tombstones are final, deletions leave no image.
  \<^item> \<open>RuntimeConfig\<close>, \<open>ConfigStore\<close>, \<open>ConfigProps\<close>: \<open>runtimeconfig/\<close>. Version histories without gaps, authorised grants,
    the password check equals its declarative specification.
  \<^item> \<open>Registry\<close>, \<open>RegistryProps\<close>: \<open>registry/registry.go\<close>; \<open>RegClient\<close>: \<open>tools/deploy/internal/registry/client.go\<close>.
  \<^item> \<open>Signin\<close>, \<open>SigninProps\<close>: \<open>signin/\<close>; \<open>Passkey\<close>: \<open>passkey/\<close>; \<open>AdminApi\<close>, \<open>AdminProps\<close>: \<open>adminapi/\<close>.
  \<^item> \<open>EnvReset\<close>, \<open>EnvResetProps\<close>, \<open>EnvBackend\<close>, \<open>EnvBackendProps\<close>: \<open>envreset/\<close>. Phases in order under one lease, ended.
  \<^item> \<open>Dns\<close>, \<open>DnsProps\<close>: \<open>tools/deploy/internal/dns/cloudflare.go\<close>; \<open>Github\<close>, \<open>GithubProps\<close>: \<open>internal/github/github_api.go\<close>;
    \<open>Vault\<close>, \<open>VaultProps\<close>: \<open>internal/vault/credential_vault.go\<close>; \<open>Files\<close>, \<open>FilesProps\<close>: the checkpoint writers of
    \<open>internal/workflow\<close>, on a file system whose every operation may fail or be the last.
  \<^item> \<open>Workflow\<close>: the calls of the tool and \<open>internal/aws/client.go\<close>; \<open>Teardown\<close>, \<open>TeardownRun\<close>, \<open>TeardownSteps\<close> with
    \<open>TeardownProps\<close> and \<open>TeardownOrder\<close>: \<open>workflow/teardown*.go\<close>.
  \<^item> \<open>Deploy\<close>, \<open>DeployIndex\<close>, \<open>DeployProps\<close>, \<open>StackProps\<close>: \<open>workflow/deploy.go\<close>, \<open>bootstrap_stack.go\<close>, \<open>index_client.go\<close>.
  \<^item> \<open>Nuke\<close>, \<open>NukeTarget\<close>, \<open>NukeDestroy\<close>, \<open>NukeRun\<close>, \<open>NukeCleanup\<close>: \<open>workflow/nuke*.go\<close>, the removal of everything, with
    \<open>TeardownEvidence\<close> (\<open>captureTeardownEvidence\<close>); \<open>NukeCheck\<close>: \<open>nuke_check.go\<close>; \<open>NukeProps\<close>, \<open>NukeRecovery\<close>. Nothing goes
    before it is authorized, state buckets and keys go last, the check only reads.
  \<^item> \<open>AwsSetup\<close>, \<open>AwsSetupProps\<close>: \<open>workflow/aws_setup_policy.go\<close>, the deployment role of \<open>aws_setup.go\<close>, and the state bucket
    and names of the application of \<open>bootstrap.go\<close>. The setup changes only its own role and reads it back; a lemma shows
    that the teardown refuses the role as the setup leaves it.
  Each service theory holds the records and operations of its files in their order; the \<open>*Props\<close> theories hold the
  properties with the lemmas they need. Lemmas on a part of an operation are named after it; what a history shows is a
  defined predicate with a lemma that it stays true.

  \<^bold>\<open>Bounds and fuel.\<close> Loops over a list are recursion on the list and retry loops count their attempts. Loops that run
  until a service says so (pages of listings, deletion of versions, the sweep of due work) have a bound \<open>n\<close> as an
  argument, \<open>Spin\<close> past it: safety theorems hold for every \<open>n\<close>, and the theorems that something completes are
  about operations without such a loop or say how much is enough.

  \<^bold>\<open>Not modelled.\<close> The mains under \<open>cmd/\<close> and \<open>awscapture/bootstrap.go\<close> (wiring), \<open>infra\<close> and \<open>infra-index\<close> (declarations of
  a Pulumi program, whose meaning is Pulumi's), \<open>awsemail\<close> (one call), \<open>assetlinks\<close> and \<open>adminsetup\<close>, the web page and the
  scripts, and of the tool: the prompts and dialogs, the setup wizard (\<open>bootstrap*.go\<close>, \<open>github_setup.go\<close>, \<open>index_setup.go\<close>, and of
  \<open>aws_setup.go\<close> the login and the prompts), the index teardown, credentials and their renewal, health checks and the capacity reports. Log lines,
  terminal output, traces, deadlines of contexts and the clearing of buffers have no counterpart in the model.
\<close>

end
